(* ===== verification/Prelude.thy ===== *)
theory Prelude
  imports Main "HOL-Library.Word" "HOL-Library.List_Lexorder" "HOL-Library.Char_ord"
    "HOL-Library.Sublist" "HOL-Library.AList" "HOL-Library.Multiset"
begin

text \<open>
  Shared vocabulary of the development: Go strings and the functions of package strings and
  strconv that the operator uses, unsigned 64-bit counters, instants and durations, errors as
  optional values, Go maps as association lists, and the lemmas on them that the component
  theories share.

  Strings are byte strings (\<open>char list\<close>).  The operator's strings that the modelled code
  trims or lower-cases are Kubernetes names, UIDs, Garage node identifiers, annotations and
  host names; they are ASCII, and on ASCII the functions below agree with
  strings.TrimSpace and strings.ToLower.
\<close>

named_theorems go_checks \<open>how a chain of error checks succeeds\<close>
named_theorems go_strings \<open>facts about the string functions\<close>

subsection \<open>Strings\<close>

definition is_space :: "char \<Rightarrow> bool" where
  "is_space c \<longleftrightarrow> c = CHR 0x09 \<or> c = CHR 0x0A \<or> c = CHR 0x0B \<or> c = CHR 0x0C
                \<or> c = CHR 0x0D \<or> c = CHR '' ''"

definition trim_right :: "(char \<Rightarrow> bool) \<Rightarrow> string \<Rightarrow> string" where
  "trim_right p s = rev (dropWhile p (rev s))"

definition TrimSpace :: "string \<Rightarrow> string" where
  "TrimSpace s = trim_right is_space (dropWhile is_space s)"

definition lower_char :: "char \<Rightarrow> char" where
  "lower_char c = (if 65 \<le> (of_char c :: nat) \<and> (of_char c :: nat) \<le> 90
                   then char_of ((of_char c :: nat) + 32) else c)"

definition ToLower :: "string \<Rightarrow> string" where
  "ToLower s = map lower_char s"

text \<open>strings.Split with a one-byte separator: always at least one component.\<close>

fun split_on :: "char \<Rightarrow> string \<Rightarrow> string list" where
  "split_on c [] = [[]]"
| "split_on c (x # xs) =
     (if x = c then [] # split_on c xs
      else (case split_on c xs of [] \<Rightarrow> [[x]] | p # ps \<Rightarrow> (x # p) # ps))"

definition TrimPrefix :: "string \<Rightarrow> string \<Rightarrow> string" where
  "TrimPrefix p s = (if prefix p s then drop (length p) s else s)"

definition join_with :: "string \<Rightarrow> string list \<Rightarrow> string" where
  "join_with sep xs = (case xs of [] \<Rightarrow> [] | y # ys \<Rightarrow> y @ concat (map (\<lambda>z. sep @ z) ys))"

definition Contains :: "string \<Rightarrow> string \<Rightarrow> bool" where
  "Contains s sub = sublist sub s"

subsection \<open>Decimal numbers (package strconv)\<close>

definition is_digit :: "char \<Rightarrow> bool" where
  "is_digit c \<longleftrightarrow> 48 \<le> (of_char c :: nat) \<and> (of_char c :: nat) \<le> 57"

definition digit_value :: "char \<Rightarrow> int" where
  "digit_value c = int (of_char c :: nat) - 48"

definition digits_value :: "string \<Rightarrow> int" where
  "digits_value s = foldl (\<lambda>acc c. 10 * acc + digit_value c) 0 s"

definition parse_digits :: "string \<Rightarrow> int option" where
  "parse_digits s = (if s \<noteq> [] \<and> list_all is_digit s then Some (digits_value s) else None)"

text \<open>strconv.Atoi on a 64-bit platform: an optional sign, decimal digits, range of int64.\<close>

definition Atoi :: "string \<Rightarrow> int option" where
  "Atoi s =
     (let r = (case s of
                 [] \<Rightarrow> None
               | c # cs \<Rightarrow>
                   if c = CHR ''-'' then map_option uminus (parse_digits cs)
                   else if c = CHR ''+'' then parse_digits cs
                   else parse_digits s)
      in case r of
           None \<Rightarrow> None
         | Some n \<Rightarrow> if - (2 ^ 63) \<le> n \<and> n < 2 ^ 63 then Some n else None)"

text \<open>strconv.ParseUint base 10, at a given width: no sign is accepted.\<close>

definition ParseUint :: "nat \<Rightarrow> string \<Rightarrow> int option" where
  "ParseUint w s =
     (case parse_digits s of
        None \<Rightarrow> None
      | Some n \<Rightarrow> if n < 2 ^ w then Some n else None)"

text \<open>The verb \<open>%d\<close> on a non-negative number.\<close>

fun show_nat :: "nat \<Rightarrow> string" where
  "show_nat n = (if n < 10 then [char_of (48 + n)] else show_nat (n div 10) @ [char_of (48 + n mod 10)])"

declare show_nat.simps [simp del]

subsection \<open>Machine integers, instants and durations\<close>

type_synonym u64 = "64 word"

text \<open>Signed 64-bit wrap-around, for time.Duration and int64 arithmetic.\<close>

definition wrap64 :: "int \<Rightarrow> int" where
  "wrap64 x = (x + 2 ^ 63) mod 2 ^ 64 - 2 ^ 63"

text \<open>
  An instant counts nanoseconds since the zero time.Time (January 1 of year 1), so that
  \<open>t.IsZero()\<close> is \<open>t = 0\<close>.  The difference of two instants is a Duration, which saturates.
\<close>

type_synonym instant = int

definition time_IsZero :: "instant \<Rightarrow> bool" where
  "time_IsZero t \<longleftrightarrow> t = 0"

definition time_Sub :: "instant \<Rightarrow> instant \<Rightarrow> int" where
  "time_Sub a b = max (- (2 ^ 63)) (min (2 ^ 63 - 1) (a - b))"

definition time_Second :: int where
  "time_Second = 1000000000"

subsection \<open>Errors as optional values\<close>

text \<open>
  A Go function that returns only an error is a function into \<open>'e option\<close>, where \<open>None\<close> is
  nil.  \<open>if err := a; err != nil { return err }; b\<close> is \<open>first_of a b\<close>, and a loop that returns the
  first failing check is \<open>first_error\<close>.  A function that returns a value or an error is a
  function into \<open>'e + 'a\<close>.
\<close>

definition first_of :: "'e option \<Rightarrow> 'e option \<Rightarrow> 'e option" where
  "first_of a b = (case a of Some e \<Rightarrow> Some e | None \<Rightarrow> b)"

definition fail_if :: "bool \<Rightarrow> 'e \<Rightarrow> 'e option" where
  "fail_if b e = (if b then Some e else None)"

fun first_error :: "('a \<Rightarrow> 'e option) \<Rightarrow> 'a list \<Rightarrow> 'e option" where
  "first_error f [] = None"
| "first_error f (x # xs) = first_of (f x) (first_error f xs)"

definition bind_result :: "'e + 'a \<Rightarrow> ('a \<Rightarrow> 'e + 'b) \<Rightarrow> 'e + 'b" where
  "bind_result r k = (case r of Inl e \<Rightarrow> Inl e | Inr a \<Rightarrow> k a)"

definition guard_result :: "'e option \<Rightarrow> 'e + 'b \<Rightarrow> 'e + 'b" where
  "guard_result c k = (case c of Some e \<Rightarrow> Inl e | None \<Rightarrow> k)"

lemma first_of_None [simp, go_checks]: "first_of a b = None \<longleftrightarrow> a = None \<and> b = None"
  by (auto simp: first_of_def split: option.splits)

lemma first_of_simps [simp]: "first_of None b = b" "first_of (Some e) b = Some e"
  by (simp_all add: first_of_def)

lemma fail_if_None [simp, go_checks]: "fail_if b e = None \<longleftrightarrow> \<not> b"
  by (simp add: fail_if_def)

lemma fail_if_Some [simp]: "fail_if b e = Some e' \<longleftrightarrow> b \<and> e' = e"
  by (auto simp: fail_if_def)

lemma first_error_None [simp, go_checks]: "first_error f xs = None \<longleftrightarrow> (\<forall>x \<in> set xs. f x = None)"
  by (induction xs) auto

lemma first_error_cong [fundef_cong]:
  "xs = ys \<Longrightarrow> (\<And>x. x \<in> set ys \<Longrightarrow> f x = g x) \<Longrightarrow> first_error f xs = first_error g ys"
  by (induction ys arbitrary: xs) auto

lemma bind_result_Inr [simp, go_checks]:
  "bind_result r k = Inr b \<longleftrightarrow> (\<exists>a. r = Inr a \<and> k a = Inr b)"
  by (auto simp: bind_result_def split: sum.splits)

lemma bind_result_simps [simp]: "bind_result (Inl e) k = Inl e" "bind_result (Inr a) k = k a"
  by (simp_all add: bind_result_def)

lemma guard_result_Inr [simp, go_checks]: "guard_result c k = Inr b \<longleftrightarrow> c = None \<and> k = Inr b"
  by (auto simp: guard_result_def split: option.splits)

lemma guard_result_simps [simp]: "guard_result None k = k" "guard_result (Some e) k = Inl e"
  by (simp_all add: guard_result_def)

subsection \<open>Go maps as association lists\<close>

text \<open>
  A Go map is an association list without duplicate keys; \<open>len(m)\<close> is its length and an
  indexed read of an absent key gives the zero value.  Iteration follows the list, one of the
  orders Go may choose; where the order could show in a result, a theorem says it does not.
\<close>

type_synonym ('k, 'v) gomap = "('k \<times> 'v) list"

abbreviation gomap_wf :: "('k, 'v) gomap \<Rightarrow> bool" where
  "gomap_wf m \<equiv> distinct (map fst m)"

abbreviation gomap_has :: "('k, 'v) gomap \<Rightarrow> 'k \<Rightarrow> bool" where
  "gomap_has m k \<equiv> map_of m k \<noteq> None"

definition gomap_get :: "'v \<Rightarrow> ('k, 'v) gomap \<Rightarrow> 'k \<Rightarrow> 'v" where
  "gomap_get z m k = (case map_of m k of None \<Rightarrow> z | Some v \<Rightarrow> v)"

definition gomap_delete :: "'k \<Rightarrow> ('k, 'v) gomap \<Rightarrow> ('k, 'v) gomap" where
  "gomap_delete k m = filter (\<lambda>kv. fst kv \<noteq> k) m"

lemma gomap_wf_update [simp]: "gomap_wf m \<Longrightarrow> gomap_wf (AList.update k v m)"
  by (rule distinct_update)

lemma map_of_update [simp]: "map_of (AList.update k v m) = (map_of m)(k \<mapsto> v)"
  by (simp add: update_conv')

lemma gomap_wf_delete [simp]: "gomap_wf m \<Longrightarrow> gomap_wf (gomap_delete k m)"
  unfolding gomap_delete_def by (induction m) auto

lemma map_of_gomap_delete [simp]: "map_of (gomap_delete k m) = (map_of m)(k := None)"
  unfolding gomap_delete_def by (induction m) (auto simp: fun_eq_iff)

subsection \<open>Lemmas on the string functions\<close>

lemma dropWhile_idem [simp]: "dropWhile p (dropWhile p xs) = dropWhile p xs"
  by (induction xs) auto

lemma trim_right_Nil [simp]: "trim_right p [] = []"
  by (simp add: trim_right_def)

lemma trim_right_snoc: "trim_right p (xs @ [x]) = (if p x then trim_right p xs else xs @ [x])"
  by (simp add: trim_right_def)

lemma trim_right_prefix: "prefix (trim_right p s) s"
proof -
  have "suffix (dropWhile p (rev s)) (rev s)" by (rule suffix_dropWhile)
  then show ?thesis by (simp add: trim_right_def suffix_to_prefix)
qed

lemma trim_right_idem [simp]: "trim_right p (trim_right p s) = trim_right p s"
  by (simp add: trim_right_def)

lemma hd_trim_right: "trim_right p s \<noteq> [] \<Longrightarrow> hd (trim_right p s) = hd s"
  using trim_right_prefix [of p s] by (metis hd_append2 prefix_def)

lemma dropWhile_trim_right_dropWhile:
  "dropWhile p (trim_right p (dropWhile p s)) = trim_right p (dropWhile p s)"
proof (cases "trim_right p (dropWhile p s)")
  case Nil
  then show ?thesis by simp
next
  case (Cons c cs)
  then have "dropWhile p s \<noteq> []" by (metis list.distinct(1) trim_right_Nil)
  moreover have "c = hd (dropWhile p s)" using Cons hd_trim_right [of p "dropWhile p s"] by simp
  ultimately have "\<not> p c" by (simp add: hd_dropWhile)
  with Cons show ?thesis by simp
qed

lemma TrimSpace_idem [simp, go_strings]: "TrimSpace (TrimSpace s) = TrimSpace s"
  by (simp add: TrimSpace_def dropWhile_trim_right_dropWhile)

lemma TrimSpace_Nil [simp]: "TrimSpace [] = []"
  by (simp add: TrimSpace_def)

lemma lower_char_ascii: "65 \<le> n \<Longrightarrow> n \<le> (90::nat) \<Longrightarrow> (of_char (char_of (n + 32) :: char) :: nat) = n + 32"
  by (simp add: of_char_of)

lemma lower_char_idem [simp]: "lower_char (lower_char c) = lower_char c"
proof (cases "65 \<le> (of_char c :: nat) \<and> (of_char c :: nat) \<le> 90")
  case True
  then have "(of_char (char_of ((of_char c :: nat) + 32) :: char) :: nat) = of_char c + 32"
    by (intro lower_char_ascii) auto
  with True show ?thesis by (simp add: lower_char_def)
next
  case False
  then show ?thesis by (auto simp: lower_char_def)
qed

lemma lower_char_not_upper: "\<not> (65 \<le> (of_char (lower_char c) :: nat) \<and> (of_char (lower_char c) :: nat) \<le> 90)"
  by (cases "65 \<le> (of_char c :: nat) \<and> (of_char c :: nat) \<le> 90")
     (auto simp: lower_char_def lower_char_ascii simp del: of_char_of)

lemma ToLower_idem [simp, go_strings]: "ToLower (ToLower s) = ToLower s"
  by (simp add: ToLower_def)

lemma length_ToLower [simp]: "length (ToLower s) = length s"
  by (simp add: ToLower_def)

lemma ToLower_Nil_iff [simp]: "ToLower s = [] \<longleftrightarrow> s = []"
  by (simp add: ToLower_def)

lemma is_space_code: "is_space c \<longleftrightarrow> (of_char c :: nat) \<in> {9, 10, 11, 12, 13, 32}"
proof -
  have *: "c = d \<longleftrightarrow> (of_char c :: nat) = of_char d" for d :: char
    by (rule of_char_eq_iff [symmetric])
  show ?thesis unfolding is_space_def by (subst *)+ auto
qed

lemma is_space_lower [simp]: "is_space (lower_char c) = is_space c"
proof (cases "65 \<le> (of_char c :: nat) \<and> (of_char c :: nat) \<le> 90")
  case True
  then have "(of_char (lower_char c) :: nat) = of_char c + 32"
    by (simp add: lower_char_def lower_char_ascii)
  with True show ?thesis by (auto simp: is_space_code)
next
  case False
  then show ?thesis by (auto simp: lower_char_def)
qed

lemma dropWhile_map_space: "dropWhile is_space (map lower_char s) = map lower_char (dropWhile is_space s)"
  by (induction s) auto

lemma TrimSpace_ToLower [go_strings]: "TrimSpace (ToLower s) = ToLower (TrimSpace s)"
  by (simp add: TrimSpace_def ToLower_def trim_right_def dropWhile_map_space rev_map)


subsection \<open>Decimal round trip\<close>

lemma digit_char: "n < 10 \<Longrightarrow> is_digit (char_of (48 + n)) \<and> digit_value (char_of (48 + n)) = int n"
  by (simp add: is_digit_def digit_value_def)

lemma digits_value_snoc: "digits_value (s @ [c]) = 10 * digits_value s + digit_value c"
  by (simp add: digits_value_def)

lemma show_nat_digits: "show_nat n \<noteq> [] \<and> list_all is_digit (show_nat n)"
proof (induction n rule: show_nat.induct)
  case (1 n)
  then show ?case by (cases "n < 10") (simp_all add: show_nat.simps [of n] digit_char)
qed

lemma digits_value_show_nat: "digits_value (show_nat n) = int n"
proof (induction n rule: show_nat.induct)
  case (1 n)
  show ?case
  proof (cases "n < 10")
    case True
    then show ?thesis
      by (subst show_nat.simps) (simp add: digits_value_def digit_char)
  next
    case False
    then have "digits_value (show_nat n) = 10 * int (n div 10) + int (n mod 10)"
      using 1 by (subst show_nat.simps) (simp add: digits_value_snoc digit_char)
    then show ?thesis by presburger
  qed
qed

lemma parse_digits_show_nat [simp]: "parse_digits (show_nat n) = Some (int n)"
  by (simp add: parse_digits_def show_nat_digits digits_value_show_nat)

lemma is_digit_not [simp]:
  "\<not> is_digit CHR ''-''" "\<not> is_digit CHR ''+''" "\<not> is_digit CHR '',''"
  by (simp_all add: is_digit_def)

lemma is_digit_not_space: "is_digit c \<Longrightarrow> \<not> is_space c"
  by (auto simp: is_digit_def is_space_code)

lemma show_nat_hd: "\<exists>c cs. show_nat n = c # cs \<and> c \<noteq> CHR ''-'' \<and> c \<noteq> CHR ''+''"
proof -
  obtain c cs where e: "show_nat n = c # cs" using show_nat_digits [of n] by (cases "show_nat n") auto
  then have "is_digit c" using show_nat_digits [of n] by simp
  then have "c \<noteq> CHR ''-''" "c \<noteq> CHR ''+''" by auto
  with e show ?thesis by blast
qed

lemma Atoi_show_nat: "int n < 2 ^ 63 \<Longrightarrow> Atoi (show_nat n) = Some (int n)"
proof -
  assume n: "int n < 2 ^ 63"
  obtain c cs where e: "show_nat n = c # cs" "c \<noteq> CHR ''-''" "c \<noteq> CHR ''+''"
    using show_nat_hd by blast
  have "parse_digits (c # cs) = Some (int n)" using e(1) parse_digits_show_nat [of n] by simp
  with n e show ?thesis by (simp add: Atoi_def)
qed

lemma Atoi_bounds: "Atoi s = Some n \<Longrightarrow> - (2 ^ 63) \<le> n \<and> n < 2 ^ 63"
  by (auto simp: Atoi_def Let_def split: option.splits list.splits if_splits)

lemma split_on_not_Nil [simp]: "split_on c s \<noteq> []"
  by (cases s) (auto split: list.splits)

lemma split_on_no_sep: "c \<notin> set s \<Longrightarrow> split_on c s = [s]"
  by (induction s) auto

lemma split_on_append: "c \<notin> set s \<Longrightarrow> split_on c (s @ c # t) = s # split_on c t"
  by (induction s) (auto split: list.splits)

lemma TrimSpace_no_space: "list_all (\<lambda>c. \<not> is_space c) s \<Longrightarrow> TrimSpace s = s"
proof -
  assume a: "list_all (\<lambda>c. \<not> is_space c) s"
  then have "dropWhile is_space s = s" "dropWhile is_space (rev s) = rev s"
    by (auto simp: list_all_iff dropWhile_eq_self_iff hd_rev)
  then show ?thesis by (simp add: TrimSpace_def trim_right_def)
qed

end
