(* ===== verification/StorageContract.thy ===== *)
theory StorageContract
  imports Prelude
begin

text \<open>
  Package internal/storagecontract (contract.go): the authorization boundary of a completed
  storage drain.  It holds the actor and the terminal token, the canonical form of a set of
  Garage node identifiers, the fingerprint of a removal intent and the validation that
  admission and the finalizers share.  SHA-256 with the hexadecimal rendering of its sum is the
  parameter \<open>sum256\<close>.
\<close>

subsection \<open>Data\<close>

record Actor =
  act_APIVersion :: string
  act_Kind :: string
  act_Namespace :: string
  act_Name :: string
  act_UID :: string

record TerminalToken =
  tok_Actor :: Actor
  tok_TransactionID :: string
  tok_TargetHash :: string
  tok_StartedAt :: instant
  tok_CompletedAt :: "instant option"
  tok_RoleRemovalNodeIDs :: "string list"
  tok_RemovedStorageNodeIDs :: "string list"
  tok_UnavailableSourceNodeIDs :: "string list"

datatype contract_error =
    TokenAbsent
  | ExpectedActorUIDEmpty
  | ActorMismatch
  | ActorIncomplete
  | TransactionIDEmpty
  | TimestampsInvalid
  | TargetSetNotCanonical string
  | TargetNotNodeID string string
  | RemovedStorageNotInRoles string
  | UnavailableNotInRemovedStorage string
  | TargetHashMismatch
  | RequiredNodeAbsent string string

subsection \<open>Node identifiers\<close>

definition CanonicalGarageNodeID :: "string \<Rightarrow> string" where
  "CanonicalGarageNodeID nodeID = ToLower (TrimSpace nodeID)"

text \<open>
  The loop of NormalizeNodeIDs: it keeps the first occurrence of every non-empty canonical
  identifier.  The result is nil when nothing is left; an empty list stands for nil.
\<close>

fun normalize_loop :: "string list \<Rightarrow> string list \<Rightarrow> string list" where
  "normalize_loop acc [] = acc"
| "normalize_loop acc (x # xs) =
     (let nodeID = ToLower (TrimSpace x) in
      if nodeID = [] then normalize_loop acc xs
      else if nodeID \<in> set acc then normalize_loop acc xs
      else normalize_loop (acc @ [nodeID]) xs)"

definition NormalizeNodeIDs :: "string list \<Rightarrow> string list" where
  "NormalizeNodeIDs nodeIDs = sort (normalize_loop [] nodeIDs)"

definition hex_char :: "char \<Rightarrow> bool" where
  "hex_char c \<longleftrightarrow> \<not> ((c < CHR ''0'' \<or> CHR ''9'' < c) \<and> (c < CHR ''a'' \<or> CHR ''f'' < c))"

definition validNodeID :: "string \<Rightarrow> bool" where
  "validNodeID nodeID \<longleftrightarrow> length nodeID = 64 \<and> list_all hex_char nodeID"

subsection \<open>Fingerprint of a removal intent\<close>

definition nul :: string where
  "nul = [CHR 0x00]"

text \<open>
  The byte string that is hashed.  The unavailable set is an optional argument of the Go
  function; leaving it out and passing an empty set give the same payload.
\<close>

definition target_payload :: "string list \<Rightarrow> string list \<Rightarrow> string list \<Rightarrow> string" where
  "target_payload roleRemoval removedStorage unavailableSource =
     ''roles'' @ nul @ join_with nul (NormalizeNodeIDs roleRemoval)
       @ nul @ ''storage'' @ nul @ join_with nul (NormalizeNodeIDs removedStorage)
       @ (let unavailable = NormalizeNodeIDs unavailableSource in
          if unavailable \<noteq> [] then nul @ ''unavailable'' @ nul @ join_with nul unavailable else [])"

definition TargetHash ::
    "(string \<Rightarrow> string) \<Rightarrow> string list \<Rightarrow> string list \<Rightarrow> string list \<Rightarrow> string" where
  "TargetHash sum256 roleRemoval removedStorage unavailableSource =
     ''sha256:'' @ sum256 (target_payload roleRemoval removedStorage unavailableSource)"

subsection \<open>Validation of a terminal token\<close>

definition validateActor :: "Actor \<Rightarrow> Actor \<Rightarrow> contract_error option" where
  "validateActor actual expected =
     first_of (fail_if (TrimSpace (act_UID expected) = []) ExpectedActorUIDEmpty)
    (first_of (fail_if (actual \<noteq> expected) ActorMismatch)
              (fail_if (TrimSpace (act_APIVersion actual) = [] \<or> TrimSpace (act_Kind actual) = []
                        \<or> TrimSpace (act_Namespace actual) = [] \<or> TrimSpace (act_Name actual) = [])
                       ActorIncomplete))"

definition validateCanonicalNodeIDSet ::
    "string \<Rightarrow> string list \<Rightarrow> contract_error + string list" where
  "validateCanonicalNodeIDSet label nodeIDs =
     (let normalized = NormalizeNodeIDs nodeIDs in
      if length normalized \<noteq> length nodeIDs then Inl (TargetSetNotCanonical label)
      else guard_result
             (first_error (\<lambda>(n, given).
                 first_of (fail_if (n \<noteq> given) (TargetSetNotCanonical label))
                          (fail_if (\<not> validNodeID n) (TargetNotNodeID label n)))
               (zip normalized nodeIDs))
             (Inr normalized))"

definition requireNodeIDs :: "string \<Rightarrow> string list \<Rightarrow> string list \<Rightarrow> contract_error option" where
  "requireNodeIDs label targetSet required =
     first_error (\<lambda>nodeID. fail_if (nodeID \<notin> set targetSet) (RequiredNodeAbsent label nodeID))
       (NormalizeNodeIDs required)"

definition token_timestamps_invalid :: "TerminalToken \<Rightarrow> bool" where
  "token_timestamps_invalid token \<longleftrightarrow>
     time_IsZero (tok_StartedAt token)
     \<or> (case tok_CompletedAt token of
          None \<Rightarrow> True
        | Some c \<Rightarrow> time_IsZero c \<or> c < tok_StartedAt token)"

definition ValidateTerminal ::
    "(string \<Rightarrow> string) \<Rightarrow> TerminalToken option \<Rightarrow> Actor \<Rightarrow> string list \<Rightarrow> string list
     \<Rightarrow> contract_error option" where
  "ValidateTerminal sum256 tokenPtr expectedActor requiredRoles requiredStorage =
     (case tokenPtr of
        None \<Rightarrow> Some TokenAbsent
      | Some token \<Rightarrow>
          first_of (validateActor (tok_Actor token) expectedActor)
         (first_of (fail_if (TrimSpace (tok_TransactionID token) = []) TransactionIDEmpty)
         (first_of (fail_if (token_timestamps_invalid token) TimestampsInvalid)
         (case validateCanonicalNodeIDSet ''role-removal'' (tok_RoleRemovalNodeIDs token) of
            Inl e \<Rightarrow> Some e
          | Inr roles \<Rightarrow>
         (case validateCanonicalNodeIDSet ''removed-storage'' (tok_RemovedStorageNodeIDs token) of
            Inl e \<Rightarrow> Some e
          | Inr removedStorage \<Rightarrow>
         (case validateCanonicalNodeIDSet ''unavailable-source'' (tok_UnavailableSourceNodeIDs token) of
            Inl e \<Rightarrow> Some e
          | Inr unavailable \<Rightarrow>
              first_of (first_error (\<lambda>n. fail_if (n \<notin> set roles) (RemovedStorageNotInRoles n)) removedStorage)
             (first_of (first_error (\<lambda>n. fail_if (n \<notin> set removedStorage) (UnavailableNotInRemovedStorage n)) unavailable)
             (first_of (fail_if (tok_TargetHash token \<noteq> TargetHash sum256 roles removedStorage unavailable)
                                TargetHashMismatch)
             (first_of (requireNodeIDs ''role-removal'' roles requiredRoles)
                       (requireNodeIDs ''removed-storage'' removedStorage requiredStorage))))))))))"

subsection \<open>Canonical sets of identifiers\<close>

text \<open>
  The interface the drain components use: a normal form of a list of identifiers that depends
  only on the set of canonical identifiers in it.
\<close>

locale id_set_normaliser =
  fixes canon :: "string \<Rightarrow> string"
    and norm :: "string list \<Rightarrow> string list"
  assumes canon_idem: "canon (canon x) = canon x"
    and set_norm: "set (norm xs) = canon ` set xs - {[]}"
    and distinct_norm: "distinct (norm xs)"
    and sorted_norm: "sorted (norm xs)"
begin

lemma norm_eq_iff: "norm xs = norm ys \<longleftrightarrow> canon ` set xs - {[]} = canon ` set ys - {[]}"
  by (metis distinct_norm set_norm sorted_distinct_set_unique sorted_norm)

lemma mem_norm_canonical: "x \<in> set (norm xs) \<Longrightarrow> canon x = x \<and> x \<noteq> []"
  by (auto simp: set_norm canon_idem)

lemma canon_image_norm: "canon ` set (norm xs) = set (norm xs)"
proof -
  have "canon ` set (norm xs) = (\<lambda>x. x) ` set (norm xs)"
    by (rule image_cong) (simp_all add: mem_norm_canonical)
  then show ?thesis by simp
qed

lemma norm_idem: "norm (norm xs) = norm xs"
  unfolding norm_eq_iff canon_image_norm by (auto simp: set_norm)

lemma norm_append: "norm (norm xs @ ys) = norm (xs @ ys)"
  unfolding norm_eq_iff set_append image_Un canon_image_norm by (auto simp: set_norm)

lemma norm_append_subset: "set (norm xs) \<subseteq> set (norm (xs @ ys))"
  by (auto simp: set_norm)

lemma norm_fixpoint_iff:
  "norm xs = xs \<longleftrightarrow> sorted xs \<and> distinct xs \<and> (\<forall>x \<in> set xs. canon x = x \<and> x \<noteq> [])"
proof
  assume *: "norm xs = xs"
  show "sorted xs \<and> distinct xs \<and> (\<forall>x \<in> set xs. canon x = x \<and> x \<noteq> [])"
    using sorted_norm [of xs] distinct_norm [of xs] mem_norm_canonical [of _ xs]
    unfolding * by blast
next
  assume *: "sorted xs \<and> distinct xs \<and> (\<forall>x \<in> set xs. canon x = x \<and> x \<noteq> [])"
  then have "set (norm xs) = set xs" by (force simp: set_norm)
  with * show "norm xs = xs"
    by (simp add: distinct_norm sorted_distinct_set_unique sorted_norm)
qed

end

lemma set_normalize_loop:
  "set (normalize_loop acc xs) = set acc \<union> (CanonicalGarageNodeID ` set xs - {[]})"
  by (induction xs arbitrary: acc) (auto simp: Let_def CanonicalGarageNodeID_def)

lemma distinct_normalize_loop: "distinct acc \<Longrightarrow> distinct (normalize_loop acc xs)"
  by (induction xs arbitrary: acc) (auto simp: Let_def)

lemma CanonicalGarageNodeID_idem [simp]:
  "CanonicalGarageNodeID (CanonicalGarageNodeID x) = CanonicalGarageNodeID x"
  by (simp add: CanonicalGarageNodeID_def TrimSpace_ToLower)

interpretation ids: id_set_normaliser CanonicalGarageNodeID NormalizeNodeIDs
  by unfold_locales
     (simp_all add: NormalizeNodeIDs_def set_normalize_loop distinct_normalize_loop)

lemmas NormalizeNodeIDs_facts [simp] =
  ids.set_norm ids.distinct_norm ids.sorted_norm ids.norm_idem


subsection \<open>What a successful validation means\<close>

lemma validateCanonicalNodeIDSet_Inr:
  "validateCanonicalNodeIDSet label xs = Inr ys \<longleftrightarrow>
     ys = xs \<and> NormalizeNodeIDs xs = xs \<and> list_all validNodeID xs"
proof -
  have *: "length n = length xs \<Longrightarrow> (\<forall>p \<in> set (zip n xs). fst p = snd p) \<longleftrightarrow> n = xs" for n :: "string list"
    by (induction n xs rule: list_induct2) auto
  have v: "(\<forall>p \<in> set (zip xs xs). validNodeID (fst p)) \<longleftrightarrow> list_all validNodeID xs"
    by (induction xs) auto
  show ?thesis
    using * [of "NormalizeNodeIDs xs"] v
    by (auto simp: validateCanonicalNodeIDSet_def Let_def case_prod_beta ball_conj_distrib)
qed

lemma validateCanonicalNodeIDSet_Inl:
  "\<not> (NormalizeNodeIDs xs = xs \<and> list_all validNodeID xs) \<Longrightarrow>
     \<exists>e. validateCanonicalNodeIDSet label xs = Inl e"
  by (metis sum.exhaust validateCanonicalNodeIDSet_Inr)

lemma requireNodeIDs_None:
  "requireNodeIDs label targets required = None \<longleftrightarrow>
     CanonicalGarageNodeID ` set required - {[]} \<subseteq> set targets"
  by (auto simp: requireNodeIDs_def)

definition actor_complete :: "Actor \<Rightarrow> bool" where
  "actor_complete a \<longleftrightarrow> TrimSpace (act_UID a) \<noteq> [] \<and> TrimSpace (act_APIVersion a) \<noteq> []
     \<and> TrimSpace (act_Kind a) \<noteq> [] \<and> TrimSpace (act_Namespace a) \<noteq> [] \<and> TrimSpace (act_Name a) \<noteq> []"

lemma validateActor_None: "validateActor a e = None \<longleftrightarrow> a = e \<and> actor_complete e"
  by (auto simp: validateActor_def actor_complete_def)

text \<open>A target set as the token must carry it: canonical, and made of node identifiers only.\<close>

definition canonical_target_set :: "string list \<Rightarrow> bool" where
  "canonical_target_set xs \<longleftrightarrow> NormalizeNodeIDs xs = xs \<and> list_all validNodeID xs"

definition terminal_authorization ::
    "(string \<Rightarrow> string) \<Rightarrow> TerminalToken \<Rightarrow> Actor \<Rightarrow> string list \<Rightarrow> string list \<Rightarrow> bool" where
  "terminal_authorization sum256 t a roles storage \<longleftrightarrow>
     tok_Actor t = a \<and> actor_complete a \<and> TrimSpace (tok_TransactionID t) \<noteq> []
     \<and> tok_StartedAt t \<noteq> 0
     \<and> (\<exists>c. tok_CompletedAt t = Some c \<and> c \<noteq> 0 \<and> tok_StartedAt t \<le> c)
     \<and> canonical_target_set (tok_RoleRemovalNodeIDs t)
     \<and> canonical_target_set (tok_RemovedStorageNodeIDs t)
     \<and> canonical_target_set (tok_UnavailableSourceNodeIDs t)
     \<and> set (tok_UnavailableSourceNodeIDs t) \<subseteq> set (tok_RemovedStorageNodeIDs t)
     \<and> set (tok_RemovedStorageNodeIDs t) \<subseteq> set (tok_RoleRemovalNodeIDs t)
     \<and> tok_TargetHash t = TargetHash sum256 (tok_RoleRemovalNodeIDs t)
                            (tok_RemovedStorageNodeIDs t) (tok_UnavailableSourceNodeIDs t)
     \<and> CanonicalGarageNodeID ` set roles - {[]} \<subseteq> set (tok_RoleRemovalNodeIDs t)
     \<and> CanonicalGarageNodeID ` set storage - {[]} \<subseteq> set (tok_RemovedStorageNodeIDs t)"

lemma canonical_target_set_validate:
  "canonical_target_set xs \<Longrightarrow> validateCanonicalNodeIDSet label xs = Inr xs"
  "\<not> canonical_target_set xs \<Longrightarrow> \<exists>e. validateCanonicalNodeIDSet label xs = Inl e"
  by (simp_all add: canonical_target_set_def validateCanonicalNodeIDSet_Inr
        validateCanonicalNodeIDSet_Inl)

lemma ValidateTerminal_Some_iff:
  "ValidateTerminal sum256 (Some t) a roles storage = None
     \<longleftrightarrow> terminal_authorization sum256 t a roles storage"
proof (cases "canonical_target_set (tok_RoleRemovalNodeIDs t)
        \<and> canonical_target_set (tok_RemovedStorageNodeIDs t)
        \<and> canonical_target_set (tok_UnavailableSourceNodeIDs t)")
  case True
  have ts: "\<not> token_timestamps_invalid t \<longleftrightarrow> tok_StartedAt t \<noteq> 0
      \<and> (\<exists>c. tok_CompletedAt t = Some c \<and> c \<noteq> 0 \<and> tok_StartedAt t \<le> c)"
    by (auto simp: token_timestamps_invalid_def time_IsZero_def split: option.splits)
  show ?thesis
    using True ts
    by (simp add: ValidateTerminal_def terminal_authorization_def canonical_target_set_validate
          validateActor_None requireNodeIDs_None subset_iff) blast
next
  case False
  then have "\<not> terminal_authorization sum256 t a roles storage"
    by (auto simp: terminal_authorization_def)
  moreover have "ValidateTerminal sum256 (Some t) a roles storage \<noteq> None"
  proof
    assume "ValidateTerminal sum256 (Some t) a roles storage = None"
    then have "\<exists>x y z. validateCanonicalNodeIDSet ''role-removal'' (tok_RoleRemovalNodeIDs t) = Inr x
        \<and> validateCanonicalNodeIDSet ''removed-storage'' (tok_RemovedStorageNodeIDs t) = Inr y
        \<and> validateCanonicalNodeIDSet ''unavailable-source'' (tok_UnavailableSourceNodeIDs t) = Inr z"
      by (auto simp: ValidateTerminal_def split: sum.splits)
    with False show False
      by (auto simp: validateCanonicalNodeIDSet_Inr canonical_target_set_def)
  qed
  ultimately show ?thesis by blast
qed

subsection \<open>Valid identifiers are canonical\<close>

lemma hex_char_code:
  "hex_char c \<longleftrightarrow> (48 \<le> (of_char c :: nat) \<and> (of_char c :: nat) \<le> 57)
                \<or> (97 \<le> (of_char c :: nat) \<and> (of_char c :: nat) \<le> 102)"
  by (auto simp: hex_char_def less_char_def not_less)

lemma hex_char_stable: "hex_char c \<Longrightarrow> lower_char c = c \<and> \<not> is_space c"
  by (auto simp: hex_char_code lower_char_def is_space_code)

lemma validNodeID_canonical:
  assumes "validNodeID x"
  shows "CanonicalGarageNodeID x = x" "x \<noteq> []"
proof -
  have h: "list_all hex_char x" using assms by (simp add: validNodeID_def)
  then have "TrimSpace x = x"
    by (intro TrimSpace_no_space) (auto simp: list_all_iff hex_char_stable)
  moreover have "ToLower x = x"
    using h by (auto simp: ToLower_def list_all_iff hex_char_stable intro: map_idI)
  ultimately show "CanonicalGarageNodeID x = x" by (simp add: CanonicalGarageNodeID_def)
  show "x \<noteq> []" using assms by (auto simp: validNodeID_def)
qed

lemma canonical_target_set_iff:
  "canonical_target_set xs \<longleftrightarrow> sorted xs \<and> distinct xs \<and> list_all validNodeID xs"
  by (auto simp: canonical_target_set_def ids.norm_fixpoint_iff list_all_iff validNodeID_canonical
        dest: validNodeID_canonical(2))

subsection \<open>The payload determines the targets\<close>

lemma join_with_Cons: "ys \<noteq> [] \<Longrightarrow> join_with sep (x # ys) = x @ sep @ join_with sep ys"
  by (cases ys) (auto simp: join_with_def)

lemma join_with_append:
  "xs \<noteq> [] \<Longrightarrow> ys \<noteq> [] \<Longrightarrow> join_with sep (xs @ ys) = join_with sep xs @ sep @ join_with sep ys"
  by (cases xs; cases ys) (auto simp: join_with_def)

lemma split_join: "xs \<noteq> [] \<Longrightarrow> \<forall>x \<in> set xs. c \<notin> set x \<Longrightarrow> split_on c (join_with [c] xs) = xs"
proof (induction xs)
  case (Cons x xs)
  then show ?case
    by (cases "xs = []") (simp_all add: join_with_def [of _ "[x]"] join_with_Cons split_on_no_sep split_on_append)
qed simp

definition payload_part :: "string list \<Rightarrow> string list" where
  "payload_part xs = (if xs = [] then [[]] else xs)"

definition payload_parts :: "string list \<Rightarrow> string list \<Rightarrow> string list \<Rightarrow> string list" where
  "payload_parts r s u =
     [''roles''] @ payload_part r @ [''storage''] @ payload_part s
       @ (if u = [] then [] else [''unavailable''] @ u)"

lemma target_payload_parts:
  "NormalizeNodeIDs r = r \<Longrightarrow> NormalizeNodeIDs s = s \<Longrightarrow> NormalizeNodeIDs u = u \<Longrightarrow>
     target_payload r s u = join_with nul (payload_parts r s u)"
proof -
  assume n: "NormalizeNodeIDs r = r" "NormalizeNodeIDs s = s" "NormalizeNodeIDs u = u"
  have j: "join_with nul (payload_part xs) = join_with nul xs" "payload_part xs \<noteq> []" for xs
    by (simp_all add: payload_part_def join_with_def)
  show ?thesis
    using n by (cases "u = []")
       (simp_all add: target_payload_def payload_parts_def n Let_def join_with_append join_with_Cons j)
qed

lemma hex_char_not_nul: "\<not> hex_char CHR 0x00"
  by (simp add: hex_char_code)

lemma valid_no_nul: "validNodeID x \<Longrightarrow> CHR 0x00 \<notin> set x"
  using hex_char_not_nul by (auto simp: validNodeID_def list_all_iff)

lemma parts_no_nul:
  "list_all validNodeID (r @ s @ u) \<Longrightarrow> \<forall>x \<in> set (payload_parts r s u). CHR 0x00 \<notin> set x"
  by (auto simp: payload_parts_def payload_part_def list_all_iff valid_no_nul split: if_splits)


lemma payload_part_inj [simp]: "[] \<notin> set xs \<Longrightarrow> [] \<notin> set ys \<Longrightarrow> payload_part xs = payload_part ys \<longleftrightarrow> xs = ys"
  by (auto simp: payload_part_def split: if_splits)

lemma append_sep_inj:
  "z \<notin> set xs \<Longrightarrow> z \<notin> set xs' \<Longrightarrow> xs @ z # ys = xs' @ z # ys' \<longleftrightarrow> xs = xs' \<and> ys = ys'"
proof (induction xs arbitrary: xs')
  case Nil
  then show ?case by (cases xs') auto
next
  case (Cons x xs)
  then show ?case by (cases xs') auto
qed

lemma valid_not_keyword:
  "list_all validNodeID xs \<Longrightarrow> ''storage'' \<notin> set (payload_part xs)"
  "list_all validNodeID xs \<Longrightarrow> ''unavailable'' \<notin> set (payload_part xs)"
  "list_all validNodeID xs \<Longrightarrow> [] \<notin> set xs"
  by (auto simp: payload_part_def list_all_iff validNodeID_def)

lemma payload_tail_inj:
  assumes "list_all validNodeID s" "list_all validNodeID s'"
  shows "payload_part s @ (if u = [] then [] else ''unavailable'' # u)
         = payload_part s' @ (if u' = [] then [] else ''unavailable'' # u') \<longleftrightarrow> s = s' \<and> u = u'"
    (is "?l = ?r \<longleftrightarrow> _")
proof
  assume eq: "?l = ?r"
  have "''unavailable'' \<in> set ?l \<longleftrightarrow> u \<noteq> []" "''unavailable'' \<in> set ?r \<longleftrightarrow> u' \<noteq> []"
    using assms valid_not_keyword by auto
  then have "u = [] \<longleftrightarrow> u' = []" using eq by auto
  with eq assms show "s = s' \<and> u = u'"
    using valid_not_keyword by (cases "u = []") (auto simp: append_sep_inj)
qed simp

lemma payload_parts_inj:
  assumes "list_all validNodeID r" "list_all validNodeID s"
    and "list_all validNodeID r'" "list_all validNodeID s'"
  shows "payload_parts r s u = payload_parts r' s' u' \<longleftrightarrow> r = r' \<and> s = s' \<and> u = u'"
  using assms valid_not_keyword payload_tail_inj [of s s' u u']
  by (auto simp: payload_parts_def append_sep_inj)

lemma target_payload_inj:
  assumes "canonical_target_set r" "canonical_target_set s" "canonical_target_set u"
    and "canonical_target_set r'" "canonical_target_set s'" "canonical_target_set u'"
    and "target_payload r s u = target_payload r' s' u'"
  shows "r = r' \<and> s = s' \<and> u = u'"
proof -
  have split: "split_on CHR 0x00 (target_payload x y z) = payload_parts x y z"
    if "canonical_target_set x" "canonical_target_set y" "canonical_target_set z" for x y z
    using that parts_no_nul [of x y z] split_join [of "payload_parts x y z" "CHR 0x00"]
    by (simp add: canonical_target_set_def target_payload_parts nul_def payload_parts_def [of x y z])
  have "payload_parts r s u = payload_parts r' s' u'"
    using assms split by metis
  then show ?thesis
    using assms payload_parts_inj [of r s r' s' u u'] by (simp add: canonical_target_set_def)
qed

subsection \<open>Properties\<close>

text \<open>Concrete identifiers for the examples: 64 copies of one hexadecimal digit.\<close>

definition sample_id :: "char \<Rightarrow> string" where
  "sample_id c = replicate 64 c"

lemma sample_id_valid [simp]: "validNodeID (sample_id c) \<longleftrightarrow> hex_char c"
  by (simp add: sample_id_def validNodeID_def list_all_iff)

lemma sample_id_order [simp]: "sample_id c \<le> sample_id d \<longleftrightarrow> c \<le> d" "sample_id c = sample_id d \<longleftrightarrow> c = d"
proof -
  have "replicate (Suc n) c \<le> replicate (Suc n) d \<longleftrightarrow> c \<le> d" for n
    by (induction n) auto
  from this [of 63] show "sample_id c \<le> sample_id d \<longleftrightarrow> c \<le> d"
    by (simp add: sample_id_def del: replicate_Suc)
  show "sample_id c = sample_id d \<longleftrightarrow> c = d" by (simp add: sample_id_def)
qed

lemma sample_hex [simp]: "hex_char CHR ''a''" "hex_char CHR ''b''" "hex_char CHR ''c''"
  "CHR ''a'' \<le> CHR ''b''" "CHR ''b'' \<le> CHR ''c''" "CHR ''a'' \<le> CHR ''c''"
  by (simp_all add: hex_char_code less_eq_char_def)

lemma sample_canonical [simp]: "hex_char c \<Longrightarrow> CanonicalGarageNodeID (sample_id c) = sample_id c"
  by (simp add: validNodeID_canonical)

definition sample_actor :: Actor where
  "sample_actor = \<lparr>act_APIVersion = ''garage.rajsingh.info/v1beta1'', act_Kind = ''GarageNode'',
     act_Namespace = ''ns'', act_Name = ''node-0'', act_UID = ''uid-1''\<rparr>"

definition sample_token :: TerminalToken where
  "sample_token = \<lparr>tok_Actor = sample_actor, tok_TransactionID = ''tx'',
     tok_TargetHash = TargetHash (\<lambda>s. s) [sample_id CHR ''a'', sample_id CHR ''b''] [sample_id CHR ''a''] [],
     tok_StartedAt = 5, tok_CompletedAt = Some 9,
     tok_RoleRemovalNodeIDs = [sample_id CHR ''a'', sample_id CHR ''b''],
     tok_RemovedStorageNodeIDs = [sample_id CHR ''a''], tok_UnavailableSourceNodeIDs = []\<rparr>"

lemma sample_actor_complete [simp]: "actor_complete sample_actor"
  by (simp add: actor_complete_def sample_actor_def TrimSpace_def trim_right_def is_space_def)

lemma sample_token_authorizes:
  "set roles \<subseteq> {sample_id CHR ''a'', sample_id CHR ''b''} \<Longrightarrow> set storage \<subseteq> {sample_id CHR ''a''} \<Longrightarrow>
   TrimSpace tx \<noteq> [] \<Longrightarrow>
   terminal_authorization (\<lambda>s. s) (sample_token\<lparr>tok_TransactionID := tx\<rparr>) sample_actor roles storage"
  by (auto simp: terminal_authorization_def sample_token_def canonical_target_set_iff)

lemmas sample_string_eval = TrimSpace_def trim_right_def is_space_def

text \<open>
  NormalizeNodeIDs is a canonical form.  Its result is sorted, free of duplicates and of
  empty identifiers, every member is trimmed and lower-cased, it is idempotent, and two lists
  have the same result exactly when they name the same set of identifiers, in any order,
  spelling and multiplicity.
\<close>

theorem normalize_canonical:
  "sorted (NormalizeNodeIDs xs) \<and> distinct (NormalizeNodeIDs xs)
   \<and> set (NormalizeNodeIDs xs) = (ToLower \<circ> TrimSpace) ` set xs - {[]}
   \<and> NormalizeNodeIDs (NormalizeNodeIDs xs) = NormalizeNodeIDs xs
   \<and> (NormalizeNodeIDs xs = NormalizeNodeIDs ys \<longleftrightarrow>
        (ToLower \<circ> TrimSpace) ` set xs - {[]} = (ToLower \<circ> TrimSpace) ` set ys - {[]})"
proof -
  have c: "ToLower \<circ> TrimSpace = CanonicalGarageNodeID"
    by (simp add: fun_eq_iff CanonicalGarageNodeID_def)
  show ?thesis
    unfolding c by (simp add: ids.norm_eq_iff)
qed

text \<open>
  C8: ValidateTerminal accepts a token exactly when the token is the completed authorization
  the finalizers need: it is present, names the expected actor, whose identity is complete,
  has a transaction and ordered non-zero timestamps, carries three canonical sets of
  64-digit node identifiers that are nested (unavailable in removed storage in role removal),
  carries the fingerprint of exactly these sets, and covers every required target.
\<close>

theorem validate_terminal_iff:
  "ValidateTerminal sum256 tok a roles storage = None \<longleftrightarrow>
     (\<exists>t. tok = Some t \<and> terminal_authorization sum256 t a roles storage)"
proof (cases tok)
  case None
  then show ?thesis by (simp add: ValidateTerminal_def)
next
  case (Some t)
  then show ?thesis by (simp add: ValidateTerminal_Some_iff)
qed

text \<open>
  The fingerprint binds a terminal token to its targets.  If two tokens both validate and
  carry the same hash, and SHA-256 does not collide on their two payloads, then they authorize
  the same role removals, the same storage removals and the same unavailable sources.
\<close>

theorem terminal_hash_binds_targets:
  assumes "ValidateTerminal sum256 (Some t) a roles storage = None"
    and "ValidateTerminal sum256 (Some t') a' roles' storage' = None"
    and "tok_TargetHash t = tok_TargetHash t'"
    and collision_free: "\<And>p q. p = target_payload (tok_RoleRemovalNodeIDs t) (tok_RemovedStorageNodeIDs t)
             (tok_UnavailableSourceNodeIDs t) \<Longrightarrow>
           q = target_payload (tok_RoleRemovalNodeIDs t') (tok_RemovedStorageNodeIDs t')
             (tok_UnavailableSourceNodeIDs t') \<Longrightarrow> sum256 p = sum256 q \<Longrightarrow> p = q"
  shows "tok_RoleRemovalNodeIDs t = tok_RoleRemovalNodeIDs t'
       \<and> tok_RemovedStorageNodeIDs t = tok_RemovedStorageNodeIDs t'
       \<and> tok_UnavailableSourceNodeIDs t = tok_UnavailableSourceNodeIDs t'"
proof -
  from assms(1,2) have "terminal_authorization sum256 t a roles storage"
    "terminal_authorization sum256 t' a' roles' storage'"
    by (simp_all add: ValidateTerminal_Some_iff)
  with assms(3) show ?thesis
    by (intro target_payload_inj)
       (auto simp: terminal_authorization_def TargetHash_def intro: collision_free)
qed

theorem terminal_hash_binds_targets_witness:
  "ValidateTerminal (\<lambda>s. s) (Some sample_token) sample_actor [] [sample_id CHR ''a''] = None
   \<and> ValidateTerminal (\<lambda>s. s) (Some (sample_token\<lparr>tok_TransactionID := ''tx2''\<rparr>)) sample_actor [] [] = None
   \<and> tok_RemovedStorageNodeIDs sample_token
      = tok_RemovedStorageNodeIDs (sample_token\<lparr>tok_TransactionID := ''tx2''\<rparr>)"
proof -
  have ok: "ValidateTerminal (\<lambda>s. s) (Some sample_token) sample_actor [] [sample_id CHR ''a''] = None"
    unfolding ValidateTerminal_Some_iff
    using sample_token_authorizes [of "[]" "[sample_id CHR ''a'']" "''tx''"]
    by (simp add: sample_token_def sample_string_eval)
  have ok': "ValidateTerminal (\<lambda>s. s) (Some (sample_token\<lparr>tok_TransactionID := ''tx2''\<rparr>)) sample_actor [] [] = None"
    unfolding ValidateTerminal_Some_iff
    by (rule sample_token_authorizes) (simp_all add: sample_string_eval)
  from terminal_hash_binds_targets [OF ok ok'] ok ok' show ?thesis by simp
qed

end
