(* ===== verification/GarageApi.thy ===== *)
theory GarageApi
  imports Prelude StorageContract
begin

text \<open>
  Package internal/garage (client.go): the data of the Garage Admin API v2 that the controllers
  consume, the classification of its errors, its custom JSON forms, and the pure functions on
  its responses.  The HTTP transport is not modelled; a response is the decoded value.
\<close>

subsection \<open>Errors of the Admin API\<close>

record APIError =
  api_StatusCode :: int
  api_Message :: string

text \<open>
  \<open>errors.As(err, &apiErr)\<close> looks for an APIError in the chain of a Go error; a Go error is
  represented by what that search finds.
\<close>

type_synonym goerror = "APIError option"

definition has_status :: "int \<Rightarrow> goerror \<Rightarrow> bool" where
  "has_status code err = (case err of Some e \<Rightarrow> api_StatusCode e = code | None \<Rightarrow> False)"

definition IsNotFound :: "goerror \<Rightarrow> bool" where
  "IsNotFound err = has_status 404 err"

definition IsConflict :: "goerror \<Rightarrow> bool" where
  "IsConflict err = has_status 409 err"

definition IsBadRequest :: "goerror \<Rightarrow> bool" where
  "IsBadRequest err = has_status 400 err"

definition IsForbidden :: "goerror \<Rightarrow> bool" where
  "IsForbidden err = has_status 403 err"

definition IsServiceUnavailable :: "goerror \<Rightarrow> bool" where
  "IsServiceUnavailable err = has_status 503 err"

definition IsBucketNotEmpty :: "goerror \<Rightarrow> bool" where
  "IsBucketNotEmpty err =
     (case err of
        None \<Rightarrow> False
      | Some e \<Rightarrow> api_StatusCode e = 409
          \<and> (Contains (api_Message e) ''BucketNotEmpty'' \<or> Contains (api_Message e) ''not empty''))"

definition IsReplicationConstraint :: "goerror \<Rightarrow> bool" where
  "IsReplicationConstraint err =
     (case err of
        None \<Rightarrow> False
      | Some e \<Rightarrow>
          if api_StatusCode e \<noteq> 500 \<and> api_StatusCode e \<noteq> 400 then False
          else let msg = ToLower (api_Message e) in
            if Contains msg ''replication factor'' then True
            else if Contains msg ''positive capacity'' then True
            else if Contains msg ''zone redundancy'' then True
            else False)"

definition IsMetadataDecodeError :: "goerror \<Rightarrow> bool" where
  "IsMetadataDecodeError err =
     (case err of
        None \<Rightarrow> False
      | Some e \<Rightarrow> if api_StatusCode e \<noteq> 500 then False
                  else Contains (api_Message e) ''Unable to decode entry of'')"

subsection \<open>Cluster status and health\<close>

record NodeAssignedRole =
  nar_Zone :: string
  nar_Tags :: "string list"
  nar_Capacity :: "u64 option"

record FreeSpaceResp =
  fs_Available :: u64
  fs_Total :: u64

record NodeInfo =
  ni_ID :: string
  ni_GarageVersion :: "string option"
  ni_Address :: "string option"
  ni_Hostname :: "string option"
  ni_IsUp :: bool
  ni_LastSeenSecsAgo :: "u64 option"
  ni_Role :: "NodeAssignedRole option"
  ni_Draining :: bool
  ni_DataPartition :: "FreeSpaceResp option"
  ni_MetadataPartition :: "FreeSpaceResp option"

record ClusterStatus =
  cs_LayoutVersion :: u64
  cs_Nodes :: "NodeInfo list"

record ClusterHealth =
  ch_Status :: string
  ch_KnownNodes :: int
  ch_ConnectedNodes :: int
  ch_StorageNodes :: int
  ch_StorageNodesUp :: int
  ch_Partitions :: int
  ch_PartitionsQuorum :: int
  ch_PartitionsAllOK :: int

record wireHealth =
  wh_Status :: string
  wh_KnownNodes :: int
  wh_ConnectedNodes :: int
  wh_StorageNodes :: int
  wh_StorageNodesUp :: "int option"
  wh_StorageNodesOK :: "int option"
  wh_Partitions :: int
  wh_PartitionsQuorum :: int
  wh_PartitionsAllOK :: int

text \<open>ClusterHealth.UnmarshalJSON, from the wire structure on; the error carries both counts.\<close>

definition ClusterHealth_UnmarshalJSON :: "wireHealth \<Rightarrow> (int \<times> int) + ClusterHealth" where
  "ClusterHealth_UnmarshalJSON wire =
     (case (wh_StorageNodesUp wire, wh_StorageNodesOK wire) of
        (Some up, Some ok) \<Rightarrow>
          if up \<noteq> ok then Inl (up, ok)
          else Inr \<lparr>ch_Status = wh_Status wire, ch_KnownNodes = wh_KnownNodes wire,
                 ch_ConnectedNodes = wh_ConnectedNodes wire, ch_StorageNodes = wh_StorageNodes wire,
                 ch_StorageNodesUp = up, ch_Partitions = wh_Partitions wire,
                 ch_PartitionsQuorum = wh_PartitionsQuorum wire, ch_PartitionsAllOK = wh_PartitionsAllOK wire\<rparr>
      | (up, ok) \<Rightarrow>
          Inr \<lparr>ch_Status = wh_Status wire, ch_KnownNodes = wh_KnownNodes wire,
            ch_ConnectedNodes = wh_ConnectedNodes wire, ch_StorageNodes = wh_StorageNodes wire,
            ch_StorageNodesUp = (case up of Some n \<Rightarrow> n | None \<Rightarrow> (case ok of Some n \<Rightarrow> n | None \<Rightarrow> 0)),
            ch_Partitions = wh_Partitions wire,
            ch_PartitionsQuorum = wh_PartitionsQuorum wire, ch_PartitionsAllOK = wh_PartitionsAllOK wire\<rparr>)"

subsection \<open>Layout\<close>

record ZoneRedundancy =
  zr_Maximum :: bool
  zr_AtLeast :: "int option"

record LayoutParameters =
  lp_ZoneRedundancy :: "ZoneRedundancy option"

record LayoutNodeRole =
  lr_ID :: string
  lr_Zone :: string
  lr_Tags :: "string list"
  lr_Capacity :: "u64 option"
  lr_StoredPartitions :: "u64 option"
  lr_UsableCapacity :: "u64 option"

record NodeRoleChange =
  rc_ID :: string
  rc_Zone :: string
  rc_Capacity :: "u64 option"
  rc_Tags :: "string list"
  rc_Remove :: bool

record ClusterLayout =
  cl_Version :: u64
  cl_Roles :: "LayoutNodeRole list"
  cl_Parameters :: "LayoutParameters option"
  cl_PartitionSize :: u64
  cl_StagedRoleChanges :: "NodeRoleChange list"
  cl_StagedParameters :: "LayoutParameters option"

text \<open>The JSON values the custom codecs meet.\<close>

datatype json =
    JNull
  | JString string
  | JInt int
  | JObject "(string \<times> json) list"
  | JOther

datatype zone_redundancy_error =
    ZRBadString string
  | ZRBadAtLeast int
  | ZRMissingKey
  | ZRBadFormat

definition ZoneRedundancy_MarshalJSON :: "ZoneRedundancy \<Rightarrow> json" where
  "ZoneRedundancy_MarshalJSON z =
     (if zr_Maximum z then JString ''maximum''
      else case zr_AtLeast z of
             Some n \<Rightarrow> JObject [(''atLeast'', JInt n)]
           | None \<Rightarrow> JNull)"

text \<open>
  Decoding a JSON object into a map[string]int: every member must be an integer in range (null
  leaves the zero value), and the last member of a name wins.
\<close>

fun decode_int_members :: "(string \<times> json) list \<Rightarrow> (string, int) gomap \<Rightarrow> (string, int) gomap option" where
  "decode_int_members [] m = Some m"
| "decode_int_members ((k, v) # rest) m =
     (case v of
        JInt n \<Rightarrow> if - (2 ^ 63) \<le> n \<and> n < 2 ^ 63 then decode_int_members rest (AList.update k n m) else None
      | JNull \<Rightarrow> decode_int_members rest (AList.update k 0 m)
      | _ \<Rightarrow> None)"

definition ZoneRedundancy_UnmarshalJSON ::
    "ZoneRedundancy \<Rightarrow> json \<Rightarrow> zone_redundancy_error + ZoneRedundancy" where
  "ZoneRedundancy_UnmarshalJSON z data =
     (case data of
        JNull \<Rightarrow> Inr z
      | JString s \<Rightarrow> if s = ''maximum'' then Inr (z\<lparr>zr_Maximum := True\<rparr>) else Inl (ZRBadString s)
      | JObject ms \<Rightarrow>
          (case decode_int_members ms [] of
             None \<Rightarrow> Inl ZRBadFormat
           | Some obj \<Rightarrow>
               (case map_of obj ''atLeast'' of
                  None \<Rightarrow> Inl ZRMissingKey
                | Some v \<Rightarrow> if v < 1 then Inl (ZRBadAtLeast v) else Inr (z\<lparr>zr_AtLeast := Some v\<rparr>)))
      | _ \<Rightarrow> Inl ZRBadFormat)"

subsection \<open>Layout history\<close>

definition LayoutVersionStatusCurrent :: string where
  "LayoutVersionStatusCurrent = ''Current''"

definition LayoutVersionStatusDraining :: string where
  "LayoutVersionStatusDraining = ''Draining''"

definition LayoutVersionStatusHistorical :: string where
  "LayoutVersionStatusHistorical = ''Historical''"

record LayoutVersion =
  lv_Version :: u64
  lv_Status :: string
  lv_StorageNodes :: int
  lv_GatewayNodes :: int

record NodeUpdateTrackers =
  nt_Ack :: u64
  nt_Sync :: u64
  nt_SyncAck :: u64

record LayoutHistoryResponse =
  lh_CurrentVersion :: u64
  lh_MinAck :: u64
  lh_Versions :: "LayoutVersion list"
  lh_UpdateTrackers :: "(string, NodeUpdateTrackers) gomap"

definition DataMigrationSettled :: "LayoutHistoryResponse \<Rightarrow> bool" where
  "DataMigrationSettled h =
     (if lh_UpdateTrackers h = [] then False
      else list_all (\<lambda>kt. \<not> nt_Sync (snd kt) < lh_CurrentVersion h) (lh_UpdateTrackers h))"

definition GetDrainingVersions :: "LayoutHistoryResponse \<Rightarrow> LayoutVersion list" where
  "GetDrainingVersions h = filter (\<lambda>v. lv_Status v = LayoutVersionStatusDraining) (lh_Versions h)"

subsection \<open>Background workers and block errors\<close>

text \<open>A float32 is kept as its bit pattern; no modelled code computes with it.\<close>

record WorkerState =
  ws_State :: string
  ws_DurationSecs :: "32 word option"

definition IsBusy :: "WorkerState \<Rightarrow> bool" where
  "IsBusy w \<longleftrightarrow> ws_State w = ''busy''"

definition IsIdle :: "WorkerState \<Rightarrow> bool" where
  "IsIdle w \<longleftrightarrow> ws_State w = ''idle''"

definition IsDone :: "WorkerState \<Rightarrow> bool" where
  "IsDone w \<longleftrightarrow> ws_State w = ''done''"

definition IsThrottled :: "WorkerState \<Rightarrow> bool" where
  "IsThrottled w \<longleftrightarrow> ws_State w = ''throttled''"

record WorkerLastError =
  wle_Message :: string
  wle_SecsAgo :: u64

record WorkerInfo =
  wi_ID :: u64
  wi_Name :: string
  wi_State :: WorkerState
  wi_Errors :: u64
  wi_ConsecutiveErrors :: u64
  wi_LastError :: "WorkerLastError option"
  wi_Tranquility :: "32 word option"
  wi_Progress :: "string option"
  wi_QueueLength :: "u64 option"
  wi_PersistentErrors :: "u64 option"
  wi_Freeform :: "string list"

record BlockError =
  be_BlockHash :: string
  be_Refcount :: u64
  be_ErrorCount :: u64
  be_LastTrySecsAgo :: u64
  be_NextTryInSecs :: u64

text \<open>
  Garage's MultiResponse: results and dispatch failures by node.  ListWorkersResponse and
  ListBlockErrorsResponse are its instances at worker lists and block-error lists.
\<close>

record 'a multiNodeResponse =
  mr_Success :: "(string, 'a) gomap"
  mr_Error :: "(string, string) gomap"

type_synonym ListWorkersResponse = "WorkerInfo list multiNodeResponse"
type_synonym ListBlockErrorsResponse = "BlockError list multiNodeResponse"

datatype multi_error =
    NodesReportedErrors nat "string list"
  | NoSuccessfulNodes
  | NoSuccessForNode string

definition aggregateNodeErrors :: "(string, string) gomap \<Rightarrow> multi_error option" where
  "aggregateNodeErrors errs =
     (if errs = [] then None
      else Some (NodesReportedErrors (length errs) (sort (map (\<lambda>(n, m). n @ '': '' @ m) errs))))"

definition validateMultiNodeSuccess :: "'a multiNodeResponse \<Rightarrow> string \<Rightarrow> multi_error option" where
  "validateMultiNodeSuccess result nodeID =
     first_of (aggregateNodeErrors (mr_Error result))
    (first_of (fail_if (mr_Success result = []) NoSuccessfulNodes)
              (if nodeID \<noteq> ''*'' \<and> nodeID \<noteq> ''self''
               then fail_if (\<not> gomap_has (mr_Success result) nodeID) (NoSuccessForNode nodeID)
               else None))"

text \<open>The client's own canonicalGarageNodeID: 64 hexadecimal digits, lower-cased.\<close>

definition client_canonicalGarageNodeID :: "string \<Rightarrow> unit + string" where
  "client_canonicalGarageNodeID raw =
     (let nodeID = ToLower (TrimSpace raw) in
      if length nodeID \<noteq> 64 then Inl ()
      else if \<not> list_all (\<lambda>c. hex_char c \<or> (CHR ''A'' \<le> c \<and> c \<le> CHR ''F'')) nodeID then Inl ()
      else Inr nodeID)"

datatype self_info_error =
    SelfDispatchFailed multi_error
  | SelfWrongCount nat
  | SelfKeyInvalid
  | SelfBodyInvalid
  | SelfKeyBodyMismatch string string

text \<open>GetSelfNodeInfo after decoding: the identity of the daemon that answered.\<close>

definition GetSelfNodeInfo :: "string multiNodeResponse \<Rightarrow> self_info_error + string" where
  "GetSelfNodeInfo result =
     (case aggregateNodeErrors (mr_Error result) of
        Some e \<Rightarrow> Inl (SelfDispatchFailed e)
      | None \<Rightarrow>
          (case mr_Success result of
             [(responseKey, infoNodeID)] \<Rightarrow>
               (case client_canonicalGarageNodeID responseKey of
                  Inl _ \<Rightarrow> Inl SelfKeyInvalid
                | Inr keyID \<Rightarrow>
                    (case client_canonicalGarageNodeID infoNodeID of
                       Inl _ \<Rightarrow> Inl SelfBodyInvalid
                     | Inr bodyID \<Rightarrow>
                         if keyID \<noteq> bodyID then Inl (SelfKeyBodyMismatch keyID bodyID)
                         else Inr bodyID))
           | _ \<Rightarrow> Inl (SelfWrongCount (length (mr_Success result)))))"


subsection \<open>Short identifiers in messages\<close>

definition shortID :: "string \<Rightarrow> string" where
  "shortID s = (if 16 < length s then take 16 s @ ''...'' else s)"

subsection \<open>Properties\<close>

text \<open>
  Round trip of the zone-redundancy codec: decoding the encoded form into a zero value gives
  the value back exactly for the three forms Garage has, that is unset, maximum, or a minimum
  number of zones of at least one; a value that sets both is not preserved.
\<close>

theorem zone_redundancy_roundtrip:
  "ZoneRedundancy_UnmarshalJSON \<lparr>zr_Maximum = False, zr_AtLeast = None\<rparr> (ZoneRedundancy_MarshalJSON z) = Inr z
   \<longleftrightarrow> (case zr_AtLeast z of None \<Rightarrow> True | Some n \<Rightarrow> \<not> zr_Maximum z \<and> 1 \<le> n \<and> n < 2 ^ 63)"
  by (cases z)
     (auto simp: ZoneRedundancy_UnmarshalJSON_def ZoneRedundancy_MarshalJSON_def
        split: option.splits if_splits)

lemma client_canonical_Inr:
  "client_canonicalGarageNodeID raw = Inr x \<longleftrightarrow> x = CanonicalGarageNodeID raw \<and> validNodeID x"
proof -
  have "\<not> (CHR ''A'' \<le> lower_char c \<and> lower_char c \<le> CHR ''F'')" for c
    using lower_char_not_upper [of c] by (auto simp: less_eq_char_def)
  then have "list_all (\<lambda>c. hex_char c \<or> (CHR ''A'' \<le> c \<and> c \<le> CHR ''F'')) (ToLower s) \<longleftrightarrow> list_all hex_char (ToLower s)" for s
    by (auto simp: ToLower_def list_all_iff)
  then show ?thesis
    by (auto simp: client_canonicalGarageNodeID_def CanonicalGarageNodeID_def validNodeID_def Let_def)
qed

text \<open>
  GetSelfNodeInfo returns an identity only when it is unambiguous: no node reported a dispatch
  error, exactly one node answered, and the key of that answer and the identity in its body are
  the same 64-digit identifier, which is returned in canonical form.
\<close>

theorem self_node_info_exact:
  "GetSelfNodeInfo result = Inr x \<longleftrightarrow>
     mr_Error result = [] \<and>
     (\<exists>key body. mr_Success result = [(key, body)] \<and> validNodeID x
        \<and> CanonicalGarageNodeID key = x \<and> CanonicalGarageNodeID body = x)"
proof (cases "mr_Error result = [] \<and> (\<exists>key body. mr_Success result = [(key, body)])")
  case True
  then obtain key body where *: "mr_Error result = []" "mr_Success result = [(key, body)]" by blast
  have "GetSelfNodeInfo result = Inr x \<longleftrightarrow>
      client_canonicalGarageNodeID key = Inr x \<and> client_canonicalGarageNodeID body = Inr x"
    by (auto simp: GetSelfNodeInfo_def aggregateNodeErrors_def * split: sum.splits)
  with * show ?thesis by (auto simp: client_canonical_Inr)
next
  case False
  have "\<exists>e. GetSelfNodeInfo result = Inl e"
  proof (cases "mr_Error result")
    case Nil
    with False have "length (mr_Success result) \<noteq> 1"
      by (cases "mr_Success result"; cases "tl (mr_Success result)") auto
    with Nil show ?thesis
      by (cases "mr_Success result"; cases "tl (mr_Success result)")
         (auto simp: GetSelfNodeInfo_def aggregateNodeErrors_def)
  next
    case Cons
    then show ?thesis by (simp add: GetSelfNodeInfo_def aggregateNodeErrors_def)
  qed
  with False show ?thesis by auto
qed

end
