(* ===== verification/ClusterModel.thy ===== *)
theory ClusterModel
  imports GarageApi
begin

text \<open>
  The Kubernetes objects the modelled controllers read: the fields of GarageCluster (v1beta2) and
  GarageNode (v1beta1) that the modelled code uses, the durable storage-drain and storage-rollout
  records of GarageCluster status in full, the derived predicates of
  api/v1beta2/garagecluster_helpers.go, the identity a GarageNode resolves to, and the traversal of
  connectTo.clusterRef chains to the object that owns a Garage layout.
\<close>

subsection \<open>Names, metadata, conditions\<close>

record NamespacedName =
  nn_Namespace :: string
  nn_Name :: string

definition zero_key :: NamespacedName where
  "zero_key = \<lparr>nn_Namespace = [], nn_Name = []\<rparr>"

definition NamespacedName_String :: "NamespacedName \<Rightarrow> string" where
  "NamespacedName_String k = nn_Namespace k @ ''/'' @ nn_Name k"

record OwnerReference =
  or_APIVersion :: string
  or_Kind :: string
  or_Name :: string
  or_UID :: string
  or_Controller :: bool

record Condition =
  cond_Type :: string
  cond_Status :: string
  cond_Reason :: string
  cond_ObservedGeneration :: int
  cond_LastTransitionTime :: instant

text \<open>The text of a condition's message is not modelled.\<close>

definition FindStatusCondition :: "Condition list \<Rightarrow> string \<Rightarrow> Condition option" where
  "FindStatusCondition cs t = find (\<lambda>c. cond_Type c = t) cs"

definition ConditionTrue :: string where "ConditionTrue = ''True''"

definition ConditionFalse :: string where "ConditionFalse = ''False''"

definition ConditionStorageRolloutReady :: string where
  "ConditionStorageRolloutReady = ''StorageRolloutReady''"

definition ReasonStorageRollingOut :: string where
  "ReasonStorageRollingOut = ''RollingOut''"

definition ReasonStorageRolloutInitializing :: string where
  "ReasonStorageRolloutInitializing = ''Initializing''"

definition annotation :: "(string, string) gomap \<Rightarrow> string \<Rightarrow> string" where
  "annotation m k = gomap_get [] m k"

subsection \<open>The durable storage drain\<close>

record StorageDrainActorStatus =
  sas_APIVersion :: string
  sas_Kind :: string
  sas_Namespace :: string
  sas_Name :: string
  sas_UID :: string

record StorageDrainStatus =
  sds_Actor :: StorageDrainActorStatus
  sds_TransactionID :: string
  sds_TargetHash :: string
  sds_StartedAt :: instant
  sds_RoleRemovalNodeIDs :: "string list"
  sds_RemovedStorageNodeIDs :: "string list"
  sds_UnavailableSourceNodeIDs :: "string list"
  sds_LayoutVersion :: u64
  sds_VerificationNodeIDs :: "string list"
  sds_ManagedPodUIDs :: "(string, string) gomap"
  sds_RepairBaselines :: "(string, u64) gomap"
  sds_RepairWorkerIDs :: "(string, u64) gomap"
  sds_ResyncErrorBaselines :: "(string, u64) gomap option"
  sds_QueueLength :: u64
  sds_ErrorCount :: u64
  sds_RequiresEmptyQueue :: bool
  sds_QuietSince :: "instant option"
  sds_CompletedAt :: "instant option"

text \<open>
  A slice field holds \<open>[]\<close> both for nil and for an empty slice: the code builds every such field
  through NormalizeNodeIDs or append to a nil slice, which keep nil for empty.  The one map whose
  nil the code tells apart, ResyncErrorBaselines, is an option.
\<close>

subsection \<open>The durable storage rollout\<close>

record StorageRolloutPersistentVolumeClaimStatus =
  srp_Name :: string
  srp_UID :: string

record StorageRolloutStatus =
  sr_GarageNodeName :: string
  sr_NodeLocalPoolName :: string
  sr_KubernetesNodeName :: string
  sr_GarageNodeUID :: string
  sr_GarageNodeID :: string
  sr_WorkloadUID :: string
  sr_RetiredWorkloadUIDs :: "string list"
  sr_PersistentVolumeClaims :: "StorageRolloutPersistentVolumeClaimStatus list"
  sr_StatefulSetWorkloadRecreationSafe :: bool
  sr_KubernetesNodeUID :: string
  sr_WorkloadFenced :: bool
  sr_PreviousPodUID :: string
  sr_DesiredPodSpecHash :: string
  sr_DesiredConfigHash :: string
  sr_ClusterGeneration :: int
  sr_GarageNodeGeneration :: int
  sr_RecoveryRequest :: string
  sr_RecoveryPodName :: string
  sr_RecoveryPodUID :: string

record FactorMigrationStatus =
  fms_Phase :: string
  fms_FromFactor :: int
  fms_ToFactor :: int
  fms_Force :: bool
  fms_PurgeID :: string
  fms_StartedAt :: "instant option"
  fms_PhaseStartedAt :: "instant option"
  fms_CompletedAt :: "instant option"
  fms_Message :: string

subsection \<open>GarageCluster\<close>

record ClusterReference =
  ref_Name :: string
  ref_Namespace :: string
  ref_KubeConfigSecretRef :: bool

record ConnectToConfig =
  ct_ClusterRef :: "ClusterReference option"
  ct_AdminAPIEndpoint :: string
  ct_RPCSecretRef :: bool

text \<open>A resource.Quantity is represented by its \<open>Value()\<close>.\<close>

record DataPath =
  dp_Capacity :: "int option"
  dp_VolumeSize :: "int option"

record VolumeConfig =
  ds_Size :: "int option"
  ds_Paths :: "DataPath list"

record StorageSpec =
  st_Replicas :: int
  st_LayoutPolicy :: string
  st_NodeLocalPools :: "string list"
  st_CapacityReservePercent :: int
  st_Data :: "VolumeConfig option"

record ReplicationConfig =
  rep_Factor :: int
  rep_ConsistencyMode :: string
  rep_ZoneRedundancyMode :: string
  rep_ZoneRedundancyMinZones :: "int option"

record StorageDrainConfig =
  sdc_UnverifiedPeersPolicy :: string

record LayoutManagementConfig =
  lm_AutoApply :: bool
  lm_MinNodesHealthy :: int
  lm_Drain :: "StorageDrainConfig option"

record WebAPIConfig =
  web_Enabled :: "bool option"
  web_RootDomain :: string

record S3APIConfig =
  s3_BindPort :: int
  s3_BindAddress :: string
  s3_Region :: string

record GarageClusterSpec =
  cs_Storage :: "StorageSpec option"
  cs_Gateway :: "int option"
  cs_LayoutPolicy :: string
  cs_ConnectTo :: "ConnectToConfig option"
  cs_DeletionPolicy :: string
  cs_RemoteClusters :: "string list"
  cs_Replication :: "ReplicationConfig option"
  cs_LayoutManagement :: "LayoutManagementConfig option"
  cs_RPCTimeout :: "int option"
  cs_WebAPI :: "WebAPIConfig option"
  cs_S3API :: "S3APIConfig option"
  cs_RPCSecretRef :: bool

text \<open>
  A gateway tier is represented by its replica count, a node-local pool and a remote cluster by its
  name, of the network section there are the RPC timeout, a duration in nanoseconds, and whether an RPC
  Secret is named (as in the connectTo section).
\<close>

record ClusterHealthStatus =
  hs_Status :: string
  hs_Healthy :: bool
  hs_Available :: bool
  hs_KnownNodes :: int
  hs_ConnectedNodes :: int
  hs_StorageNodes :: int
  hs_StorageNodesOK :: int
  hs_Partitions :: int
  hs_PartitionsQuorum :: int
  hs_PartitionsAllOK :: int

record GarageClusterStatus =
  cst_Phase :: string
  cst_Conditions :: "Condition list"
  cst_StorageRollout :: "StorageRolloutStatus option"
  cst_StorageDrain :: "StorageDrainStatus option"
  cst_FactorMigration :: "FactorMigrationStatus option"
  cst_Health :: "ClusterHealthStatus option"
  cst_PendingGatewayTombstones :: "string list"

record GarageCluster =
  gc_Namespace :: string
  gc_Name :: string
  gc_UID :: string
  gc_Generation :: int
  gc_Annotations :: "(string, string) gomap"
  gc_Deleting :: bool
  gc_Spec :: GarageClusterSpec
  gc_Status :: GarageClusterStatus

definition cluster_key :: "GarageCluster \<Rightarrow> NamespacedName" where
  "cluster_key g = \<lparr>nn_Namespace = gc_Namespace g, nn_Name = gc_Name g\<rparr>"

text \<open>The receivers of the helpers may be nil.\<close>

definition HasStorageTier :: "GarageCluster option \<Rightarrow> bool" where
  "HasStorageTier g = (case g of None \<Rightarrow> False | Some g \<Rightarrow> cs_Storage (gc_Spec g) \<noteq> None)"

definition HasGatewayTier :: "GarageCluster option \<Rightarrow> bool" where
  "HasGatewayTier g = (case g of None \<Rightarrow> False | Some g \<Rightarrow> cs_Gateway (gc_Spec g) \<noteq> None)"

definition EffectiveStorageLayoutPolicy :: "GarageCluster option \<Rightarrow> string" where
  "EffectiveStorageLayoutPolicy g =
     (case g of None \<Rightarrow> []
      | Some g \<Rightarrow>
          (case cs_Storage (gc_Spec g) of
             Some s \<Rightarrow> if st_LayoutPolicy s \<noteq> [] then st_LayoutPolicy s else cs_LayoutPolicy (gc_Spec g)
           | None \<Rightarrow> cs_LayoutPolicy (gc_Spec g)))"

definition HasNodeLocalPools :: "GarageCluster option \<Rightarrow> bool" where
  "HasNodeLocalPools g =
     (case g of None \<Rightarrow> False
      | Some g \<Rightarrow> (case cs_Storage (gc_Spec g) of None \<Rightarrow> False | Some s \<Rightarrow> 0 < length (st_NodeLocalPools s)))"

definition IsManagementHandle :: "GarageCluster option \<Rightarrow> bool" where
  "IsManagementHandle g =
     (case g of None \<Rightarrow> False
      | Some g \<Rightarrow> cs_Storage (gc_Spec g) = None \<and> cs_Gateway (gc_Spec g) = None \<and> cs_ConnectTo (gc_Spec g) \<noteq> None)"

definition DeletionPolicyDestroy :: string where "DeletionPolicyDestroy = ''Destroy''"

definition DeletionPolicyDrain :: string where "DeletionPolicyDrain = ''Drain''"

definition EffectiveDeletionPolicy :: "GarageCluster option \<Rightarrow> string" where
  "EffectiveDeletionPolicy g =
     (case g of None \<Rightarrow> DeletionPolicyDestroy
      | Some g \<Rightarrow>
          if cs_DeletionPolicy (gc_Spec g) \<noteq> [] then cs_DeletionPolicy (gc_Spec g)
          else if 0 < length (cs_RemoteClusters (gc_Spec g)) then DeletionPolicyDrain
          else DeletionPolicyDestroy)"

definition IsEdgeGateway :: "GarageCluster option \<Rightarrow> bool" where
  "IsEdgeGateway g =
     (case g of None \<Rightarrow> False
      | Some g \<Rightarrow> cs_Storage (gc_Spec g) = None \<and> cs_Gateway (gc_Spec g) \<noteq> None \<and> cs_ConnectTo (gc_Spec g) \<noteq> None)"

definition wrap32 :: "int \<Rightarrow> int" where
  "wrap32 x = (x + 2 ^ 31) mod 2 ^ 32 - 2 ^ 31"

definition StorageReplicas :: "GarageCluster option \<Rightarrow> int" where
  "StorageReplicas g =
     (if \<not> HasStorageTier g then 0
      else (case g of None \<Rightarrow> 0
            | Some g \<Rightarrow> (case cs_Storage (gc_Spec g) of None \<Rightarrow> 0 | Some s \<Rightarrow> st_Replicas s)))"

definition GatewayReplicas :: "GarageCluster option \<Rightarrow> int" where
  "GatewayReplicas g =
     (if \<not> HasGatewayTier g then 0
      else (case g of None \<Rightarrow> 0
            | Some g \<Rightarrow> (case cs_Gateway (gc_Spec g) of None \<Rightarrow> 0 | Some n \<Rightarrow> n)))"

definition TotalReplicas :: "GarageCluster option \<Rightarrow> int" where
  "TotalReplicas g = wrap32 (StorageReplicas g + GatewayReplicas g)"

definition fmPhaseCompleted :: string where "fmPhaseCompleted = ''Completed''"

definition fmPhaseFailed :: string where "fmPhaseFailed = ''Failed''"

definition AnnotationPurgeClusterLayout :: string where
  "AnnotationPurgeClusterLayout = ''garage.rajsingh.info/purge-cluster-layout''"

definition factorMigrationActive :: "GarageCluster \<Rightarrow> bool" where
  "factorMigrationActive cluster =
     (if annotation (gc_Annotations cluster) AnnotationPurgeClusterLayout \<noteq> [] then True
      else (case cst_FactorMigration (gc_Status cluster) of
              None \<Rightarrow> False
            | Some fm \<Rightarrow> fms_Phase fm \<noteq> [] \<and> fms_Phase fm \<noteq> fmPhaseCompleted \<and> fms_Phase fm \<noteq> fmPhaseFailed))"

subsection \<open>GarageNode\<close>

record NodeStorageConfig =
  nst_MetadataFsync :: "bool option"
  nst_DataFsync :: "bool option"
  nst_MetadataSnapshotsDir :: string
  nst_MetadataAutoSnapshotInterval :: string
  nst_DataPaths :: "string list"

text \<open>The network, public-endpoint and logging sections are represented by their presence.\<close>

record GarageNodeSpec =
  ns_ClusterRef :: ClusterReference
  ns_NodeID :: string
  ns_Zone :: string
  ns_Capacity :: "int option"
  ns_Gateway :: bool
  ns_Tags :: "string list"
  ns_External :: bool
  ns_Backing :: string
  ns_KubernetesNodeName :: string
  ns_NodeLocalPoolName :: string
  ns_Network :: bool
  ns_PublicEndpoint :: bool
  ns_Logging :: bool
  ns_Storage :: "NodeStorageConfig option"

record GarageNode =
  gn_Namespace :: string
  gn_Name :: string
  gn_UID :: string
  gn_Annotations :: "(string, string) gomap"
  gn_OwnerReferences :: "OwnerReference list"
  gn_Deleting :: bool
  gn_Spec :: GarageNodeSpec
  gn_StatusNodeID :: string
  gn_Generation :: int
  gn_Finalizers :: "string list"
  gn_StatusObservedGeneration :: int
  gn_StatusObservedPodUID :: string
  gn_StatusConnected :: bool
  gn_StatusInLayout :: bool
  gn_StatusParentDeletionRequestGeneration :: int
  gn_StatusConditions :: "Condition list"

definition NodeBackingStatefulSet :: string where "NodeBackingStatefulSet = ''StatefulSet''"

definition NodeBackingNodeLocalPool :: string where "NodeBackingNodeLocalPool = ''NodeLocalPool''"

definition AnnotationNodeLocalPoolRecoveryNodeID :: string where
  "AnnotationNodeLocalPoolRecoveryNodeID = ''garage.rajsingh.info/node-local-pool-recovery-node-id''"

definition garageClusterKind :: string where "garageClusterKind = ''GarageCluster''"

definition effectiveNodeBacking :: "string \<Rightarrow> string" where
  "effectiveNodeBacking backing = (if backing = [] then NodeBackingStatefulSet else backing)"

text \<open>The regular expression \<open>^[a-fA-F0-9]{64}$\<close>.\<close>

definition validateNodeID :: "string \<Rightarrow> bool" where
  "validateNodeID s \<longleftrightarrow> length s = 64
     \<and> list_all (\<lambda>c. hex_char c \<or> (CHR ''A'' \<le> c \<and> c \<le> CHR ''F'')) s"

definition GetControllerOf :: "GarageNode \<Rightarrow> OwnerReference option" where
  "GetControllerOf node = find or_Controller (gn_OwnerReferences node)"

text \<open>
  \<open>parse_gv\<close> is schema.ParseGroupVersion of the Kubernetes API machinery: the group and version
  of an apiVersion string, or nothing when it does not parse.
\<close>

definition isGarageClusterControllerOwner ::
    "(string \<Rightarrow> (string \<times> string) option) \<Rightarrow> OwnerReference option \<Rightarrow> string \<Rightarrow> bool" where
  "isGarageClusterControllerOwner parse_gv owner clusterName =
     (case owner of
        None \<Rightarrow> False
      | Some owner \<Rightarrow>
          if or_Kind owner \<noteq> garageClusterKind \<or> or_Name owner \<noteq> clusterName then False
          else (case parse_gv (or_APIVersion owner) of
                  None \<Rightarrow> False
                | Some (grp, version) \<Rightarrow> grp = ''garage.rajsingh.info'' \<and> version \<noteq> []))"

datatype identity_error = UntrustedIdentitySource | InvalidRecoveryIdentity

definition TrustedNodeLocalPoolRecoveryNodeID ::
    "(string \<Rightarrow> (string \<times> string) option) \<Rightarrow> GarageNode option \<Rightarrow> identity_error + string" where
  "TrustedNodeLocalPoolRecoveryNodeID parse_gv r =
     (case r of
        None \<Rightarrow> Inr []
      | Some r \<Rightarrow>
          (let recoveryNodeID = CanonicalGarageNodeID
                 (annotation (gn_Annotations r) AnnotationNodeLocalPoolRecoveryNodeID);
               owner = GetControllerOf r in
           if recoveryNodeID = [] then Inr []
           else if effectiveNodeBacking (ns_Backing (gn_Spec r)) \<noteq> NodeBackingNodeLocalPool
                \<or> \<not> isGarageClusterControllerOwner parse_gv owner (ref_Name (ns_ClusterRef (gn_Spec r)))
                \<or> (case owner of None \<Rightarrow> True | Some ow \<Rightarrow> or_UID ow = [])
           then Inl UntrustedIdentitySource
           else if \<not> validateNodeID recoveryNodeID then Inl InvalidRecoveryIdentity
           else Inr recoveryNodeID))"

definition ResolvedGarageNodeID ::
    "(string \<Rightarrow> (string \<times> string) option) \<Rightarrow> GarageNode option \<Rightarrow> identity_error + string" where
  "ResolvedGarageNodeID parse_gv r =
     (case r of
        None \<Rightarrow> Inr []
      | Some node \<Rightarrow>
          if CanonicalGarageNodeID (gn_StatusNodeID node) \<noteq> []
          then Inr (CanonicalGarageNodeID (gn_StatusNodeID node))
          else if CanonicalGarageNodeID (ns_NodeID (gn_Spec node)) \<noteq> []
          then Inr (CanonicalGarageNodeID (ns_NodeID (gn_Spec node)))
          else TrustedNodeLocalPoolRecoveryNodeID parse_gv r)"

definition garageNodeStoresBlocks :: "GarageNode option \<Rightarrow> bool" where
  "garageNodeStoresBlocks node =
     (case node of
        None \<Rightarrow> False
      | Some n \<Rightarrow> \<not> ns_Gateway (gn_Spec n)
                    \<and> (case ns_Capacity (gn_Spec n) of None \<Rightarrow> False | Some q \<Rightarrow> 0 < q))"

subsection \<open>The owner of a Garage layout\<close>

datatype get_error = NotFound | ReadError string

type_synonym cluster_reader = "NamespacedName \<Rightarrow> get_error + GarageCluster"

datatype resolve_error =
    ClusterNil
  | CyclicChain NamespacedName
  | ReaderRequired
  | ClusterRefRequired
  | KubeConfigUnsupported
  | RefNameInvalid
  | RefNamespaceInvalid
  | CrossNamespaceRef
  | GetFailed NamespacedName get_error
  | RefDeleting NamespacedName

text \<open>
  The Kubernetes name validators are parameters: \<open>subdomain\<close> is IsDNS1123Subdomain and \<open>label\<close> is
  IsDNS1123Label, as predicates.  They travel with the reader as the environment of a call.
\<close>

record kube_env =
  ke_subdomain :: "string \<Rightarrow> bool"
  ke_label :: "string \<Rightarrow> bool"

definition ValidateNamespacedObjectReference ::
    "kube_env \<Rightarrow> string \<Rightarrow> string \<Rightarrow> resolve_error option" where
  "ValidateNamespacedObjectReference env name namespace =
     first_of (fail_if (\<not> ke_subdomain env name) RefNameInvalid)
       (fail_if (namespace \<noteq> [] \<and> \<not> ke_label env namespace) RefNamespaceInvalid)"

definition getLocalConnectToClusterWithPolicy ::
    "kube_env \<Rightarrow> cluster_reader \<Rightarrow> GarageCluster \<Rightarrow> bool \<Rightarrow> resolve_error + GarageCluster" where
  "getLocalConnectToClusterWithPolicy env reader cluster allowDeleting =
     (case cs_ConnectTo (gc_Spec cluster) of
        None \<Rightarrow> Inl ClusterRefRequired
      | Some ct \<Rightarrow>
     (case ct_ClusterRef ct of
        None \<Rightarrow> Inl ClusterRefRequired
      | Some ref \<Rightarrow>
          if ref_KubeConfigSecretRef ref then Inl KubeConfigUnsupported
          else guard_result (ValidateNamespacedObjectReference env (ref_Name ref) (ref_Namespace ref))
            (if ref_Namespace ref \<noteq> [] \<and> ref_Namespace ref \<noteq> gc_Namespace cluster
             then Inl CrossNamespaceRef
             else let objectKey = \<lparr>nn_Namespace = gc_Namespace cluster, nn_Name = ref_Name ref\<rparr> in
               (case reader objectKey of
                  Inl e \<Rightarrow> Inl (GetFailed objectKey e)
                | Inr next \<Rightarrow>
                    if \<not> allowDeleting \<and> gc_Deleting next then Inl (RefDeleting objectKey)
                    else Inr next))))"

text \<open>Where the traversal stops.\<close>

definition layout_terminal :: "GarageCluster \<Rightarrow> bool" where
  "layout_terminal current \<longleftrightarrow>
     HasStorageTier (Some current)
     \<or> (case cs_ConnectTo (gc_Spec current) of
          None \<Rightarrow> True
        | Some ct \<Rightarrow> (IsManagementHandle (Some current) \<and> ct_AdminAPIEndpoint ct \<noteq> [])
                       \<or> ct_ClusterRef ct = None)"

text \<open>
  The loop may follow a chain of any length, so it is a partial function: \<open>None\<close> would be a
  traversal that does not end.
\<close>

partial_function (option) resolve_owner_loop ::
    "kube_env \<Rightarrow> cluster_reader option \<Rightarrow> bool \<Rightarrow> NamespacedName list \<Rightarrow> GarageCluster
     \<Rightarrow> (resolve_error + GarageCluster) option" where
  [code]: "resolve_owner_loop env reader allow visited current =
     (if cluster_key current \<in> set visited then Some (Inl (CyclicChain (cluster_key current)))
      else if layout_terminal current then Some (Inr current)
      else (case reader of
              None \<Rightarrow> Some (Inl ReaderRequired)
            | Some rd \<Rightarrow>
                (case getLocalConnectToClusterWithPolicy env rd current allow of
                   Inl e \<Rightarrow> Some (Inl e)
                 | Inr next \<Rightarrow> resolve_owner_loop env reader allow (cluster_key current # visited) next)))"

definition resolveGarageLayoutOwnerWithPolicy ::
    "kube_env \<Rightarrow> cluster_reader option \<Rightarrow> GarageCluster option \<Rightarrow> bool
     \<Rightarrow> (resolve_error + GarageCluster) option" where
  "resolveGarageLayoutOwnerWithPolicy env reader cluster allowDeletingReferences =
     (case cluster of
        None \<Rightarrow> Some (Inl ClusterNil)
      | Some c \<Rightarrow> resolve_owner_loop env reader allowDeletingReferences [] c)"

definition resolveGarageLayoutOwner ::
    "kube_env \<Rightarrow> cluster_reader option \<Rightarrow> GarageCluster option \<Rightarrow> (resolve_error + GarageCluster) option" where
  "resolveGarageLayoutOwner env reader cluster =
     resolveGarageLayoutOwnerWithPolicy env reader cluster False"

definition resolveGarageLayoutOwnerForCleanup ::
    "kube_env \<Rightarrow> cluster_reader option \<Rightarrow> GarageCluster option \<Rightarrow> (resolve_error + GarageCluster) option" where
  "resolveGarageLayoutOwnerForCleanup env reader cluster =
     resolveGarageLayoutOwnerWithPolicy env reader cluster True"


subsection \<open>Lemmas on the traversal\<close>

text \<open>One hop, and chains of hops.\<close>

definition next_hop :: "kube_env \<Rightarrow> cluster_reader \<Rightarrow> bool \<Rightarrow> GarageCluster \<Rightarrow> GarageCluster \<Rightarrow> bool" where
  "next_hop env rd allow c d \<longleftrightarrow>
     \<not> layout_terminal c \<and> getLocalConnectToClusterWithPolicy env rd c allow = Inr d"

inductive ref_chain :: "kube_env \<Rightarrow> cluster_reader \<Rightarrow> bool \<Rightarrow> GarageCluster \<Rightarrow> GarageCluster \<Rightarrow> bool"
  for env rd allow where
  chain_here: "ref_chain env rd allow c c"
| chain_hop: "next_hop env rd allow c d \<Longrightarrow> ref_chain env rd allow d e \<Longrightarrow> ref_chain env rd allow c e"

inductive_cases ref_chainE: "ref_chain env rd allow c e"

definition reader_keeps_keys :: "cluster_reader \<Rightarrow> bool" where
  "reader_keeps_keys rd \<longleftrightarrow> (\<forall>k c. rd k = Inr c \<longrightarrow> cluster_key c = k)"

lemma next_hop_read:
  "getLocalConnectToClusterWithPolicy env rd c allow = Inr d \<Longrightarrow>
     \<exists>n. rd \<lparr>nn_Namespace = gc_Namespace c, nn_Name = n\<rparr> = Inr d \<and> (allow \<or> \<not> gc_Deleting d)"
  by (auto simp: getLocalConnectToClusterWithPolicy_def Let_def split: option.splits if_splits sum.splits)

lemma hop_key:
  assumes "reader_keeps_keys rd" "getLocalConnectToClusterWithPolicy env rd c allow = Inr d"
  shows "gc_Namespace d = gc_Namespace c" "\<exists>e. rd (cluster_key d) = Inr e"
proof -
  obtain n where n: "rd \<lparr>nn_Namespace = gc_Namespace c, nn_Name = n\<rparr> = Inr d"
    using next_hop_read [OF assms(2)] by blast
  with assms(1) have "cluster_key d = \<lparr>nn_Namespace = gc_Namespace c, nn_Name = n\<rparr>"
    by (auto simp: reader_keeps_keys_def)
  with n show "gc_Namespace d = gc_Namespace c" "\<exists>e. rd (cluster_key d) = Inr e"
    by (auto simp: cluster_key_def)
qed

lemma resolve_loop_returns:
  assumes "finite K" "reader_keeps_keys rd" "{k. \<exists>c. rd k = Inr c} \<subseteq> K"
  shows "cluster_key c \<in> K \<Longrightarrow> \<exists>r. resolve_owner_loop env (Some rd) allow visited c = Some r"
proof (induction "card (K - set visited)" arbitrary: visited c rule: less_induct)
  case less
  show ?case
  proof (cases "cluster_key c \<in> set visited \<or> layout_terminal c")
    case True
    then show ?thesis by (subst resolve_owner_loop.simps) auto
  next
    case False
    show ?thesis
    proof (cases "getLocalConnectToClusterWithPolicy env rd c allow")
      case (Inl e)
      with False show ?thesis by (subst resolve_owner_loop.simps) simp
    next
      case (Inr d)
      have "K - set (cluster_key c # visited) \<subset> K - set visited"
        using False less.prems by auto
      then have "card (K - set (cluster_key c # visited)) < card (K - set visited)"
        using assms(1) by (simp add: psubset_card_mono)
      moreover have "cluster_key d \<in> K" using hop_key(2) [OF assms(2) Inr] assms(3) by auto
      ultimately obtain r where "resolve_owner_loop env (Some rd) allow (cluster_key c # visited) d = Some r"
        using less.hyps by blast
      with False Inr show ?thesis by (subst resolve_owner_loop.simps) simp
    qed
  qed
qed

lemma resolve_owner_loop_induct [consumes 1, case_names Terminal Hop]:
  assumes "resolve_owner_loop env (Some rd) allow visited c = Some (Inr o')"
    and "\<And>visited. cluster_key o' \<notin> set visited \<Longrightarrow> layout_terminal o' \<Longrightarrow> P visited o'"
    and "\<And>visited c d. cluster_key c \<notin> set visited \<Longrightarrow> next_hop env rd allow c d \<Longrightarrow>
           P (cluster_key c # visited) d \<Longrightarrow> P visited c"
  shows "P visited c"
proof -
  have "env' = env \<and> reader = Some rd \<and> allow' = allow \<and> r = Inr o' \<longrightarrow> P visited c"
    if "resolve_owner_loop env' reader allow' visited c = Some r" for env' reader allow' visited c r
  proof (rule resolve_owner_loop.raw_induct [OF _ that], intro impI, elim conjE)
    fix loop env' reader allow' visited c r
    assume ih: "\<And>env' reader allow' visited c r. loop env' reader allow' visited c = Some r \<Longrightarrow>
        env' = env \<and> reader = Some rd \<and> allow' = allow \<and> r = Inr o' \<longrightarrow> P visited c"
      and eqs: "env' = env" "reader = Some rd" "allow' = allow" "r = Inr o'"
      and body: "(if cluster_key c \<in> set visited then Some (Inl (CyclicChain (cluster_key c)))
        else if layout_terminal c then Some (Inr c)
        else (case reader of None \<Rightarrow> Some (Inl ReaderRequired)
          | Some rd \<Rightarrow> (case getLocalConnectToClusterWithPolicy env' rd c allow' of
                Inl e \<Rightarrow> Some (Inl e)
              | Inr next \<Rightarrow> loop env' reader allow' (cluster_key c # visited) next))) = Some r"
    show "P visited c"
    proof (cases "layout_terminal c")
      case True
      with body eqs assms(2) show ?thesis by (auto split: if_splits)
    next
      case False
      with body eqs obtain d where d: "cluster_key c \<notin> set visited"
        "getLocalConnectToClusterWithPolicy env rd c allow = Inr d"
        "loop env (Some rd) allow (cluster_key c # visited) d = Some (Inr o')"
        by (auto split: if_splits sum.splits)
      from ih [OF d(3)] have "P (cluster_key c # visited) d" by simp
      moreover have "next_hop env rd allow c d" using d False by (simp add: next_hop_def)
      ultimately show ?thesis using assms(3) [OF d(1)] by blast
    qed
  qed
  from this [OF assms(1)] show ?thesis by simp
qed

lemma resolve_loop_sound:
  "resolve_owner_loop env (Some rd) allow visited c = Some (Inr o') \<Longrightarrow>
     layout_terminal o' \<and> ref_chain env rd allow c o'"
  by (induction rule: resolve_owner_loop_induct) (auto intro: ref_chain.intros)

lemma resolve_loop_fewer_visited:
  "resolve_owner_loop env (Some rd) allow visited c = Some (Inr o') \<Longrightarrow> set visited' \<subseteq> set visited \<Longrightarrow>
     resolve_owner_loop env (Some rd) allow visited' c = Some (Inr o')"
proof (induction arbitrary: visited' rule: resolve_owner_loop_induct)
  case (Terminal visited)
  then show ?case by (subst resolve_owner_loop.simps) auto
next
  case (Hop visited c d)
  have "resolve_owner_loop env (Some rd) allow (cluster_key c # visited') d = Some (Inr o')"
    using Hop.prems by (intro Hop.IH) auto
  with Hop show ?case by (subst resolve_owner_loop.simps) (auto simp: next_hop_def)
qed

lemma resolve_loop_hop:
  assumes "resolve_owner_loop env (Some rd) allow [] c = Some (Inr o')" "next_hop env rd allow c d"
  shows "resolve_owner_loop env (Some rd) allow [] d = Some (Inr o')"
proof -
  from assms have "resolve_owner_loop env (Some rd) allow [cluster_key c] d = Some (Inr o')"
    by (subst (asm) resolve_owner_loop.simps) (simp add: next_hop_def)
  then show ?thesis by (rule resolve_loop_fewer_visited) simp
qed

lemma resolve_loop_chain:
  "ref_chain env rd allow c d \<Longrightarrow> resolve_owner_loop env (Some rd) allow [] c = Some (Inr o') \<Longrightarrow>
     resolve_owner_loop env (Some rd) allow [] d = Some (Inr o')"
  by (induction rule: ref_chain.induct) (auto dest: resolve_loop_hop)

lemma ref_chain_namespace:
  "ref_chain env rd allow c d \<Longrightarrow> reader_keeps_keys rd \<Longrightarrow> gc_Namespace d = gc_Namespace c"
  by (induction rule: ref_chain.induct) (auto simp: next_hop_def dest: hop_key(1))

subsection \<open>Properties\<close>

text \<open>
  C15: The traversal to the owner of a layout always returns, cyclic references included, when the
  API server holds finitely many clusters and returns the object that was asked for.
\<close>

theorem resolve_owner_terminates:
  assumes "finite {k. \<exists>c. rd k = Inr c}" "reader_keeps_keys rd"
  shows "\<exists>r. resolveGarageLayoutOwnerWithPolicy env (Some rd) cluster allow = Some r"
proof (cases cluster)
  case (Some c)
  have "\<exists>r. resolve_owner_loop env (Some rd) allow [] c = Some r"
    using assms by (intro resolve_loop_returns [of "insert (cluster_key c) {k. \<exists>c. rd k = Inr c}"]) auto
  with Some show ?thesis by (simp add: resolveGarageLayoutOwnerWithPolicy_def)
qed (simp add: resolveGarageLayoutOwnerWithPolicy_def)

text \<open>
  The owner is canonical: it is where a chain of valid references from the cluster ends, it lies
  in the cluster's namespace, and every cluster on that chain resolves to the same owner, so edge
  gateways, management handles and the storage cluster serialise on one layout.
\<close>

theorem resolve_owner_canonical:
  assumes "reader_keeps_keys rd"
    and "resolveGarageLayoutOwnerWithPolicy env (Some rd) (Some c) allow = Some (Inr o')"
  shows "layout_terminal o' \<and> ref_chain env rd allow c o' \<and> gc_Namespace o' = gc_Namespace c
     \<and> (\<forall>d. ref_chain env rd allow c d \<longrightarrow>
           resolveGarageLayoutOwnerWithPolicy env (Some rd) (Some d) allow = Some (Inr o'))"
proof -
  have l: "resolve_owner_loop env (Some rd) allow [] c = Some (Inr o')"
    using assms(2) by (simp add: resolveGarageLayoutOwnerWithPolicy_def)
  note s = resolve_loop_sound [OF l]
  moreover have "gc_Namespace o' = gc_Namespace c" using s assms(1) ref_chain_namespace by blast
  ultimately show ?thesis
    using resolve_loop_chain [OF _ l] by (simp add: resolveGarageLayoutOwnerWithPolicy_def)
qed

definition sample_status :: GarageClusterStatus where
  "sample_status = \<lparr>cst_Phase = ''Running'', cst_Conditions = [], cst_StorageRollout = None, cst_StorageDrain = None,
     cst_FactorMigration = None, cst_Health = None, cst_PendingGatewayTombstones = []\<rparr>"

definition sample_cluster :: GarageCluster where
  "sample_cluster = \<lparr>gc_Namespace = ''ns'', gc_Name = ''store'', gc_UID = ''u1'', gc_Generation = 1,
     gc_Annotations = [], gc_Deleting = False,
     gc_Spec = \<lparr>cs_Storage = Some \<lparr>st_Replicas = 3, st_LayoutPolicy = [], st_NodeLocalPools = [],
         st_CapacityReservePercent = 0, st_Data = None\<rparr>,
       cs_Gateway = None, cs_LayoutPolicy = ''Auto'', cs_ConnectTo = None, cs_DeletionPolicy = [],
       cs_RemoteClusters = [],
       cs_Replication = None, cs_LayoutManagement = None, cs_RPCTimeout = None, cs_WebAPI = None, cs_S3API = None, cs_RPCSecretRef = False\<rparr>,
     gc_Status = sample_status\<rparr>"

definition sample_edge :: GarageCluster where
  "sample_edge = sample_cluster\<lparr>gc_Name := ''edge'', gc_UID := ''u2'',
     gc_Spec := \<lparr>cs_Storage = None, cs_Gateway = Some 1, cs_LayoutPolicy = ''Auto'',
       cs_ConnectTo = Some \<lparr>ct_ClusterRef = Some \<lparr>ref_Name = ''store'', ref_Namespace = [],
         ref_KubeConfigSecretRef = False\<rparr>, ct_AdminAPIEndpoint = [], ct_RPCSecretRef = False\<rparr>,
       cs_DeletionPolicy = [], cs_RemoteClusters = [],
       cs_Replication = None, cs_LayoutManagement = None, cs_RPCTimeout = None, cs_WebAPI = None, cs_S3API = None, cs_RPCSecretRef = False\<rparr>\<rparr>"

definition sample_reader :: cluster_reader where
  "sample_reader k = (if k = cluster_key sample_cluster then Inr sample_cluster else Inl NotFound)"

definition sample_env :: kube_env where
  "sample_env = \<lparr>ke_subdomain = (\<lambda>s. s \<noteq> []), ke_label = (\<lambda>s. s \<noteq> [])\<rparr>"

lemmas sample_cluster_defs = sample_status_def sample_cluster_def sample_edge_def sample_reader_def
  sample_env_def cluster_key_def

lemma sample_reader_keeps_keys: "reader_keeps_keys sample_reader"
  by (auto simp: reader_keeps_keys_def sample_reader_def)

lemma sample_resolves:
  "resolveGarageLayoutOwnerWithPolicy sample_env (Some sample_reader) (Some sample_edge) False
     = Some (Inr sample_cluster)"
  by (simp add: resolveGarageLayoutOwnerWithPolicy_def resolve_owner_loop.simps layout_terminal_def
      HasStorageTier_def IsManagementHandle_def getLocalConnectToClusterWithPolicy_def
      ValidateNamespacedObjectReference_def sample_cluster_defs fail_if_def)

theorem resolve_owner_terminates_witness:
  "\<exists>r. resolveGarageLayoutOwnerWithPolicy sample_env (Some sample_reader) (Some sample_edge) True = Some r"
proof -
  have "{k. \<exists>c. sample_reader k = Inr c} \<subseteq> {cluster_key sample_cluster}"
    by (auto simp: sample_reader_def split: if_splits)
  then have "finite {k. \<exists>c. sample_reader k = Inr c}" by (rule finite_subset) simp
  then show ?thesis by (rule resolve_owner_terminates [OF _ sample_reader_keeps_keys])
qed

theorem resolve_owner_canonical_witness:
  "layout_terminal sample_cluster \<and> ref_chain sample_env sample_reader False sample_edge sample_cluster"
  using resolve_owner_canonical [OF sample_reader_keeps_keys sample_resolves] by blast

text \<open>
  A GarageNode's identity comes from its status, then its spec, and only then from the
  retained-HostPath annotation, which counts only on a node-local-pool node controlled by its own
  GarageCluster and only when it is a full node identifier.
\<close>

theorem resolved_node_id_trusted:
  "ResolvedGarageNodeID parse_gv (Some node) = Inr x \<longleftrightarrow>
     (let status = CanonicalGarageNodeID (gn_StatusNodeID node);
          spec = CanonicalGarageNodeID (ns_NodeID (gn_Spec node));
          pin = CanonicalGarageNodeID (annotation (gn_Annotations node) AnnotationNodeLocalPoolRecoveryNodeID)
      in if status \<noteq> [] then x = status
         else if spec \<noteq> [] then x = spec
         else if pin = [] then x = []
         else x = pin \<and> validNodeID pin \<and> ns_Backing (gn_Spec node) = NodeBackingNodeLocalPool
           \<and> (\<exists>owner v. GetControllerOf node = Some owner \<and> or_UID owner \<noteq> []
                \<and> or_Kind owner = ''GarageCluster'' \<and> or_Name owner = ref_Name (ns_ClusterRef (gn_Spec node))
                \<and> parse_gv (or_APIVersion owner) = Some (''garage.rajsingh.info'', v) \<and> v \<noteq> []))"
proof -
  define pin where "pin = CanonicalGarageNodeID (annotation (gn_Annotations node) AnnotationNodeLocalPoolRecoveryNodeID)"
  have v: "validateNodeID pin \<longleftrightarrow> validNodeID pin"
  proof -
    have "\<not> (CHR ''A'' \<le> lower_char c \<and> lower_char c \<le> CHR ''F'')" for c
      using lower_char_not_upper [of c] by (auto simp: less_eq_char_def)
    then show ?thesis
      by (auto simp: validateNodeID_def validNodeID_def pin_def CanonicalGarageNodeID_def ToLower_def list_all_iff)
  qed
  have b: "effectiveNodeBacking s = NodeBackingNodeLocalPool \<longleftrightarrow> s = NodeBackingNodeLocalPool" for s
    by (auto simp: effectiveNodeBacking_def NodeBackingNodeLocalPool_def NodeBackingStatefulSet_def)
  have t: "TrustedNodeLocalPoolRecoveryNodeID parse_gv (Some node) = Inr x \<longleftrightarrow>
      (if pin = [] then x = []
       else x = pin \<and> validNodeID pin \<and> ns_Backing (gn_Spec node) = NodeBackingNodeLocalPool
           \<and> (\<exists>owner v. GetControllerOf node = Some owner \<and> or_UID owner \<noteq> []
                \<and> or_Kind owner = ''GarageCluster'' \<and> or_Name owner = ref_Name (ns_ClusterRef (gn_Spec node))
                \<and> parse_gv (or_APIVersion owner) = Some (''garage.rajsingh.info'', v) \<and> v \<noteq> []))"
    unfolding TrustedNodeLocalPoolRecoveryNodeID_def Let_def option.case pin_def [symmetric] v b
    by (auto simp: isGarageClusterControllerOwner_def garageClusterKind_def split: option.splits if_splits)
  show ?thesis
    unfolding ResolvedGarageNodeID_def Let_def option.case pin_def [symmetric] using t by auto
qed

end
