(* ===== verification/DrainProof.thy ===== *)
theory DrainProof
  imports ClusterModel
begin

text \<open>
  The storage-drain transaction of internal/controller/block_resync_barrier.go as data: the actor,
  the durable proof, its conversion to and from GarageCluster status, the creation and monotone
  extension of a removal intent, and the two resets that discard observations and evidence.
  A well-formedness invariant of proofs is preserved by every operation, and a completed proof
  that satisfies it passes the terminal contract.
\<close>

subsection \<open>Actors\<close>

record storageDrainActor =
  da_APIVersion :: string
  da_Kind :: string
  da_Namespace :: string
  da_Name :: string
  da_UID :: string

definition kindGarageCluster :: string where "kindGarageCluster = ''GarageCluster''"

definition kindGarageNode :: string where "kindGarageNode = ''GarageNode''"

definition zero_actor :: storageDrainActor where
  "zero_actor = \<lparr>da_APIVersion = [], da_Kind = [], da_Namespace = [], da_Name = [], da_UID = []\<rparr>"

definition storageDrainActorForCluster :: "GarageCluster option \<Rightarrow> storageDrainActor" where
  "storageDrainActorForCluster cluster =
     (case cluster of
        None \<Rightarrow> zero_actor
      | Some c \<Rightarrow> \<lparr>da_APIVersion = ''garage.rajsingh.info/v1beta2'', da_Kind = kindGarageCluster,
                      da_Namespace = gc_Namespace c, da_Name = gc_Name c, da_UID = gc_UID c\<rparr>)"

definition storageDrainActorForNode :: "GarageNode option \<Rightarrow> storageDrainActor" where
  "storageDrainActorForNode node =
     (case node of
        None \<Rightarrow> zero_actor
      | Some n \<Rightarrow> \<lparr>da_APIVersion = ''garage.rajsingh.info/v1beta1'', da_Kind = kindGarageNode,
                      da_Namespace = gn_Namespace n, da_Name = gn_Name n, da_UID = gn_UID n\<rparr>)"

definition storageDrainActorMatches :: "StorageDrainStatus option \<Rightarrow> storageDrainActor \<Rightarrow> bool" where
  "storageDrainActorMatches status actor =
     (case status of
        None \<Rightarrow> False
      | Some s \<Rightarrow>
          da_UID actor \<noteq> [] \<and> sas_APIVersion (sds_Actor s) = da_APIVersion actor
          \<and> sas_Kind (sds_Actor s) = da_Kind actor \<and> sas_Namespace (sds_Actor s) = da_Namespace actor
          \<and> sas_Name (sds_Actor s) = da_Name actor \<and> sas_UID (sds_Actor s) = da_UID actor)"

definition sameStorageDrainActor :: "storageDrainActor \<Rightarrow> storageDrainActor \<Rightarrow> bool" where
  "sameStorageDrainActor left right \<longleftrightarrow>
     da_APIVersion left = da_APIVersion right \<and> da_Kind left = da_Kind right
     \<and> da_Namespace left = da_Namespace right \<and> da_Name left = da_Name right
     \<and> da_UID left \<noteq> [] \<and> da_UID left = da_UID right"

subsection \<open>Proofs\<close>

record blockResyncProof =
  bp_Actor :: storageDrainActor
  bp_TransactionID :: string
  bp_TargetHash :: string
  bp_StartedAt :: instant
  bp_RoleRemovalNodeIDs :: "string list"
  bp_RemovedStorageNodeIDs :: "string list"
  bp_UnavailableSourceNodeIDs :: "string list"
  bp_LayoutVersion :: u64
  bp_VerificationNodeIDs :: "string list"
  bp_ManagedPodUIDs :: "(string, string) gomap"
  bp_RepairBaselines :: "(string, u64) gomap"
  bp_RepairWorkerIDs :: "(string, u64) gomap"
  bp_ResyncErrorBaselines :: "(string, u64) gomap option"
  bp_QueueLength :: u64
  bp_ErrorCount :: u64
  bp_RequiresEmptyQueue :: bool
  bp_QuietSince :: "instant option"
  bp_CompletedAt :: "instant option"

text \<open>A proof that carries an intent and no evidence: the other fields have Go's zero values.\<close>

definition intent_proof ::
    "storageDrainActor \<Rightarrow> string \<Rightarrow> string \<Rightarrow> instant \<Rightarrow> string list \<Rightarrow> string list \<Rightarrow> string list
     \<Rightarrow> blockResyncProof" where
  "intent_proof actor tx hash started roles storage unavailable =
     \<lparr>bp_Actor = actor, bp_TransactionID = tx, bp_TargetHash = hash, bp_StartedAt = started,
      bp_RoleRemovalNodeIDs = roles, bp_RemovedStorageNodeIDs = storage,
      bp_UnavailableSourceNodeIDs = unavailable, bp_LayoutVersion = 0, bp_VerificationNodeIDs = [],
      bp_ManagedPodUIDs = [], bp_RepairBaselines = [], bp_RepairWorkerIDs = [],
      bp_ResyncErrorBaselines = None, bp_QueueLength = 0, bp_ErrorCount = 0,
      bp_RequiresEmptyQueue = False, bp_QuietSince = None, bp_CompletedAt = None\<rparr>"

definition storageDrainTargetHash ::
    "(string \<Rightarrow> string) \<Rightarrow> string list \<Rightarrow> string list \<Rightarrow> string list \<Rightarrow> string" where
  "storageDrainTargetHash sum256 roles storage unavailable = TargetHash sum256 roles storage unavailable"

definition storageDrainProofTargetHash :: "(string \<Rightarrow> string) \<Rightarrow> blockResyncProof option \<Rightarrow> string" where
  "storageDrainProofTargetHash sum256 proofPtr =
     (case proofPtr of
        None \<Rightarrow> []
      | Some p \<Rightarrow> storageDrainTargetHash sum256 (bp_RoleRemovalNodeIDs p) (bp_RemovedStorageNodeIDs p)
                     (bp_UnavailableSourceNodeIDs p))"

definition storageContractActor :: "storageDrainActor \<Rightarrow> Actor" where
  "storageContractActor actor =
     \<lparr>act_APIVersion = da_APIVersion actor, act_Kind = da_Kind actor,
      act_Namespace = da_Namespace actor, act_Name = da_Name actor, act_UID = da_UID actor\<rparr>"

definition storageContractTerminalToken :: "blockResyncProof option \<Rightarrow> TerminalToken option" where
  "storageContractTerminalToken proofPtr =
     map_option (\<lambda>p.
       \<lparr>tok_Actor = storageContractActor (bp_Actor p), tok_TransactionID = bp_TransactionID p,
        tok_TargetHash = bp_TargetHash p, tok_StartedAt = bp_StartedAt p,
        tok_CompletedAt = bp_CompletedAt p, tok_RoleRemovalNodeIDs = bp_RoleRemovalNodeIDs p,
        tok_RemovedStorageNodeIDs = bp_RemovedStorageNodeIDs p,
        tok_UnavailableSourceNodeIDs = bp_UnavailableSourceNodeIDs p\<rparr>) proofPtr"

definition validateTerminalStorageDrain ::
    "(string \<Rightarrow> string) \<Rightarrow> blockResyncProof option \<Rightarrow> storageDrainActor \<Rightarrow> string list \<Rightarrow> string list
     \<Rightarrow> contract_error option" where
  "validateTerminalStorageDrain sum256 proofPtr actor roles storage =
     ValidateTerminal sum256 (storageContractTerminalToken proofPtr) (storageContractActor actor) roles storage"

text \<open>Equality of two string maps as the code tests it: an absent key reads as the empty string.\<close>

definition sameStringMap :: "(string, string) gomap \<Rightarrow> (string, string) gomap \<Rightarrow> bool" where
  "sameStringMap left right =
     (if length left \<noteq> length right then False
      else list_all (\<lambda>(k, v). gomap_get [] right k = v) left)"

text \<open>The copies are deep copies, field by field.\<close>

definition copyBlockResyncProof :: "blockResyncProof option \<Rightarrow> blockResyncProof option" where
  "copyBlockResyncProof previous =
     (case previous of
        None \<Rightarrow> None
      | Some p \<Rightarrow> Some
          \<lparr>bp_Actor = bp_Actor p, bp_TransactionID = bp_TransactionID p, bp_TargetHash = bp_TargetHash p,
           bp_StartedAt = bp_StartedAt p, bp_RoleRemovalNodeIDs = [] @ bp_RoleRemovalNodeIDs p,
           bp_RemovedStorageNodeIDs = [] @ bp_RemovedStorageNodeIDs p,
           bp_UnavailableSourceNodeIDs = [] @ bp_UnavailableSourceNodeIDs p,
           bp_LayoutVersion = bp_LayoutVersion p, bp_VerificationNodeIDs = [] @ bp_VerificationNodeIDs p,
           bp_ManagedPodUIDs = bp_ManagedPodUIDs p, bp_RepairBaselines = bp_RepairBaselines p,
           bp_RepairWorkerIDs = bp_RepairWorkerIDs p, bp_ResyncErrorBaselines = bp_ResyncErrorBaselines p,
           bp_QueueLength = bp_QueueLength p, bp_ErrorCount = bp_ErrorCount p,
           bp_RequiresEmptyQueue = bp_RequiresEmptyQueue p, bp_QuietSince = bp_QuietSince p,
           bp_CompletedAt = bp_CompletedAt p\<rparr>)"

definition resetBlockResyncObservation :: "blockResyncProof option \<Rightarrow> blockResyncProof option" where
  "resetBlockResyncObservation previous =
     map_option (\<lambda>n. n\<lparr>bp_QuietSince := None, bp_CompletedAt := None\<rparr>) (copyBlockResyncProof previous)"

definition resetBlockResyncEvidence :: "blockResyncProof option \<Rightarrow> blockResyncProof option" where
  "resetBlockResyncEvidence previous =
     (case previous of
        None \<Rightarrow> None
      | Some p \<Rightarrow> Some ((intent_proof (bp_Actor p) (bp_TransactionID p) (bp_TargetHash p) (bp_StartedAt p)
                           (bp_RoleRemovalNodeIDs p) (bp_RemovedStorageNodeIDs p)
                           (bp_UnavailableSourceNodeIDs p))\<lparr>bp_ManagedPodUIDs := bp_ManagedPodUIDs p\<rparr>))"

subsection \<open>Removal intents\<close>

datatype intent_error =
    ActorWithoutUID
  | StorageTargetNotAuthorized string
  | OwnedByOtherActor storageDrainActor
  | NoRoleTargets

text \<open>The identifier drawn by uuid.NewUUID is the argument \<open>new_uuid\<close>.\<close>

definition storageDrainRemovalIntent ::
    "(string \<Rightarrow> string) \<Rightarrow> string \<Rightarrow> blockResyncProof option \<Rightarrow> storageDrainActor \<Rightarrow> string list
     \<Rightarrow> string list \<Rightarrow> instant \<Rightarrow> intent_error + blockResyncProof option" where
  "storageDrainRemovalIntent sum256 new_uuid previous actor roleRemoval removedStorage now =
     (if da_UID actor = [] then Inl ActorWithoutUID
      else
        let roles = NormalizeNodeIDs roleRemoval; storage = NormalizeNodeIDs removedStorage in
        if previous = None \<and> length storage = 0 \<and> da_Kind actor \<noteq> kindGarageCluster then Inr previous
        else guard_result
          (first_error (\<lambda>n. fail_if (n \<notin> set roles) (StorageTargetNotAuthorized (shortID n))) storage)
          (case previous of
             None \<Rightarrow> Inr (Some (intent_proof actor new_uuid (storageDrainTargetHash sum256 roles storage [])
                                   now roles storage []))
           | Some p \<Rightarrow>
               if \<not> sameStorageDrainActor (bp_Actor p) actor then Inl (OwnedByOtherActor (bp_Actor p))
               else
                 let roles' = NormalizeNodeIDs (bp_RoleRemovalNodeIDs p @ roles);
                     storage' = NormalizeNodeIDs (bp_RemovedStorageNodeIDs p @ storage);
                     unavailable' = NormalizeNodeIDs (bp_UnavailableSourceNodeIDs p) in
                 if bp_RoleRemovalNodeIDs p = roles' \<and> bp_RemovedStorageNodeIDs p = storage'
                 then Inr previous
                 else Inr (Some (intent_proof (bp_Actor p) (bp_TransactionID p)
                        (storageDrainTargetHash sum256 roles' storage' unavailable') (bp_StartedAt p)
                        roles' storage' unavailable'))))"

definition roleOnlyStorageDrainRemovalIntent ::
    "(string \<Rightarrow> string) \<Rightarrow> string \<Rightarrow> blockResyncProof option \<Rightarrow> storageDrainActor \<Rightarrow> string list \<Rightarrow> instant
     \<Rightarrow> intent_error + blockResyncProof option" where
  "roleOnlyStorageDrainRemovalIntent sum256 new_uuid previous actor roleRemoval now =
     (if previous \<noteq> None then storageDrainRemovalIntent sum256 new_uuid previous actor roleRemoval [] now
      else if da_UID actor = [] then Inl ActorWithoutUID
      else
        let roles = NormalizeNodeIDs roleRemoval in
        if length roles = 0 then Inl NoRoleTargets
        else Inr (Some (intent_proof actor new_uuid (storageDrainTargetHash sum256 roles [] []) now roles [] [])))"

definition ids_include :: "string list \<Rightarrow> string \<Rightarrow> bool" where
  "ids_include xs nodeID = list_ex (\<lambda>x. CanonicalGarageNodeID x = CanonicalGarageNodeID nodeID) xs"

definition blockResyncIntentIncludes :: "blockResyncProof option \<Rightarrow> string \<Rightarrow> bool" where
  "blockResyncIntentIncludes proofPtr nodeID =
     (case proofPtr of None \<Rightarrow> False | Some p \<Rightarrow> ids_include (bp_RemovedStorageNodeIDs p) nodeID)"

definition storageDrainUnavailableSourceIncludes :: "blockResyncProof option \<Rightarrow> string \<Rightarrow> bool" where
  "storageDrainUnavailableSourceIncludes proofPtr nodeID =
     (case proofPtr of None \<Rightarrow> False | Some p \<Rightarrow> ids_include (bp_UnavailableSourceNodeIDs p) nodeID)"

definition storageDrainLiveSourceNodeIDs :: "blockResyncProof option \<Rightarrow> string list" where
  "storageDrainLiveSourceNodeIDs proofPtr =
     (case proofPtr of
        None \<Rightarrow> []
      | Some p \<Rightarrow> NormalizeNodeIDs (filter (\<lambda>n. \<not> storageDrainUnavailableSourceIncludes proofPtr n)
                                       (bp_RemovedStorageNodeIDs p)))"

definition storageDrainRoleIntentIncludes :: "blockResyncProof option \<Rightarrow> string \<Rightarrow> bool" where
  "storageDrainRoleIntentIncludes proofPtr nodeID =
     (case proofPtr of None \<Rightarrow> False | Some p \<Rightarrow> ids_include (bp_RoleRemovalNodeIDs p) nodeID)"

definition normalizedNodeIDsWithout :: "string list \<Rightarrow> string list \<Rightarrow> string list" where
  "normalizedNodeIDsWithout nodeIDs excludedNodeIDs =
     filter (\<lambda>n. n \<notin> set (NormalizeNodeIDs excludedNodeIDs)) (NormalizeNodeIDs nodeIDs)"

subsection \<open>Conversion to and from GarageCluster status\<close>

definition clusterStorageDrainProof :: "StorageDrainStatus option \<Rightarrow> blockResyncProof option" where
  "clusterStorageDrainProof status =
     (case status of
        None \<Rightarrow> None
      | Some s \<Rightarrow> Some
          \<lparr>bp_Actor = \<lparr>da_APIVersion = sas_APIVersion (sds_Actor s), da_Kind = sas_Kind (sds_Actor s),
              da_Namespace = sas_Namespace (sds_Actor s), da_Name = sas_Name (sds_Actor s),
              da_UID = sas_UID (sds_Actor s)\<rparr>,
           bp_TransactionID = sds_TransactionID s, bp_TargetHash = sds_TargetHash s,
           bp_StartedAt = sds_StartedAt s, bp_RoleRemovalNodeIDs = [] @ sds_RoleRemovalNodeIDs s,
           bp_RemovedStorageNodeIDs = [] @ sds_RemovedStorageNodeIDs s,
           bp_UnavailableSourceNodeIDs = [] @ sds_UnavailableSourceNodeIDs s,
           bp_LayoutVersion = sds_LayoutVersion s, bp_VerificationNodeIDs = [] @ sds_VerificationNodeIDs s,
           bp_ManagedPodUIDs = sds_ManagedPodUIDs s, bp_RepairBaselines = sds_RepairBaselines s,
           bp_RepairWorkerIDs = sds_RepairWorkerIDs s, bp_ResyncErrorBaselines = sds_ResyncErrorBaselines s,
           bp_QueueLength = sds_QueueLength s, bp_ErrorCount = sds_ErrorCount s,
           bp_RequiresEmptyQueue = sds_RequiresEmptyQueue s, bp_QuietSince = sds_QuietSince s,
           bp_CompletedAt = sds_CompletedAt s\<rparr>)"

definition v1beta2StorageDrainStatus :: "blockResyncProof option \<Rightarrow> StorageDrainStatus option" where
  "v1beta2StorageDrainStatus proofPtr =
     (case proofPtr of
        None \<Rightarrow> None
      | Some p \<Rightarrow> Some
          \<lparr>sds_Actor = \<lparr>sas_APIVersion = da_APIVersion (bp_Actor p), sas_Kind = da_Kind (bp_Actor p),
              sas_Namespace = da_Namespace (bp_Actor p), sas_Name = da_Name (bp_Actor p),
              sas_UID = da_UID (bp_Actor p)\<rparr>,
           sds_TransactionID = bp_TransactionID p, sds_TargetHash = bp_TargetHash p,
           sds_StartedAt = bp_StartedAt p, sds_RoleRemovalNodeIDs = bp_RoleRemovalNodeIDs p,
           sds_RemovedStorageNodeIDs = bp_RemovedStorageNodeIDs p,
           sds_UnavailableSourceNodeIDs = [] @ bp_UnavailableSourceNodeIDs p,
           sds_LayoutVersion = bp_LayoutVersion p, sds_VerificationNodeIDs = [] @ bp_VerificationNodeIDs p,
           sds_ManagedPodUIDs = bp_ManagedPodUIDs p, sds_RepairBaselines = bp_RepairBaselines p,
           sds_RepairWorkerIDs = bp_RepairWorkerIDs p, sds_ResyncErrorBaselines = bp_ResyncErrorBaselines p,
           sds_QueueLength = bp_QueueLength p, sds_ErrorCount = bp_ErrorCount p,
           sds_RequiresEmptyQueue = bp_RequiresEmptyQueue p, sds_QuietSince = bp_QuietSince p,
           sds_CompletedAt = bp_CompletedAt p\<rparr>)"

definition completedCapacitylessGatewayRetirement :: "GarageCluster option \<Rightarrow> bool" where
  "completedCapacitylessGatewayRetirement cluster =
     (case cluster of
        None \<Rightarrow> False
      | Some c \<Rightarrow>
          if \<not> HasGatewayTier cluster \<or> HasStorageTier cluster \<or> HasNodeLocalPools cluster then False
          else (case clusterStorageDrainProof (cst_StorageDrain (gc_Status c)) of
                  None \<Rightarrow> False
                | Some p \<Rightarrow> bp_CompletedAt p \<noteq> None \<and> length (bp_RemovedStorageNodeIDs p) = 0
                              \<and> sameStorageDrainActor (bp_Actor p) (storageDrainActorForCluster cluster)))"

subsection \<open>Well-formed proofs\<close>

text \<open>
  The invariant of a transaction: the actor has a UID, the target sets are normal forms, storage
  targets are among the role targets and unavailable sources among the storage targets, and the
  fingerprint is that of the three sets.
\<close>

definition intent_wf :: "(string \<Rightarrow> string) \<Rightarrow> blockResyncProof \<Rightarrow> bool" where
  "intent_wf sum256 p \<longleftrightarrow>
     da_UID (bp_Actor p) \<noteq> []
     \<and> NormalizeNodeIDs (bp_RoleRemovalNodeIDs p) = bp_RoleRemovalNodeIDs p
     \<and> NormalizeNodeIDs (bp_RemovedStorageNodeIDs p) = bp_RemovedStorageNodeIDs p
     \<and> NormalizeNodeIDs (bp_UnavailableSourceNodeIDs p) = bp_UnavailableSourceNodeIDs p
     \<and> set (bp_RemovedStorageNodeIDs p) \<subseteq> set (bp_RoleRemovalNodeIDs p)
     \<and> set (bp_UnavailableSourceNodeIDs p) \<subseteq> set (bp_RemovedStorageNodeIDs p)
     \<and> bp_TargetHash p = storageDrainProofTargetHash sum256 (Some p)"

text \<open>What identifies a transaction and its authorization, as opposed to its evidence.\<close>

definition same_intent :: "blockResyncProof \<Rightarrow> blockResyncProof \<Rightarrow> bool" where
  "same_intent p q \<longleftrightarrow>
     bp_Actor p = bp_Actor q \<and> bp_TransactionID p = bp_TransactionID q
     \<and> bp_TargetHash p = bp_TargetHash q \<and> bp_StartedAt p = bp_StartedAt q
     \<and> bp_RoleRemovalNodeIDs p = bp_RoleRemovalNodeIDs q
     \<and> bp_RemovedStorageNodeIDs p = bp_RemovedStorageNodeIDs q
     \<and> bp_UnavailableSourceNodeIDs p = bp_UnavailableSourceNodeIDs q"

lemma copyBlockResyncProof_id [simp]: "copyBlockResyncProof p = p"
  by (simp add: copyBlockResyncProof_def split: option.splits)

lemma intent_proof_simps [simp]:
  "bp_Actor (intent_proof a tx h t r s u) = a" "bp_TransactionID (intent_proof a tx h t r s u) = tx"
  "bp_TargetHash (intent_proof a tx h t r s u) = h" "bp_StartedAt (intent_proof a tx h t r s u) = t"
  "bp_RoleRemovalNodeIDs (intent_proof a tx h t r s u) = r"
  "bp_RemovedStorageNodeIDs (intent_proof a tx h t r s u) = s"
  "bp_UnavailableSourceNodeIDs (intent_proof a tx h t r s u) = u"
  "bp_RepairBaselines (intent_proof a tx h t r s u) = []" "bp_RepairWorkerIDs (intent_proof a tx h t r s u) = []"
  "bp_ResyncErrorBaselines (intent_proof a tx h t r s u) = None"
  "bp_QuietSince (intent_proof a tx h t r s u) = None" "bp_CompletedAt (intent_proof a tx h t r s u) = None"
  "bp_LayoutVersion (intent_proof a tx h t r s u) = 0" "bp_VerificationNodeIDs (intent_proof a tx h t r s u) = []"
  by (simp_all add: intent_proof_def)

lemma same_intent_wf: "same_intent p q \<Longrightarrow> intent_wf sum256 p = intent_wf sum256 q"
  by (simp add: same_intent_def intent_wf_def storageDrainProofTargetHash_def)

lemma NormalizeNodeIDs_Nil [simp]: "NormalizeNodeIDs [] = []"
  by (simp add: NormalizeNodeIDs_def)

lemma sameStorageDrainActor_iff: "sameStorageDrainActor a b \<longleftrightarrow> a = b \<and> da_UID a \<noteq> []"
  by (auto simp: sameStorageDrainActor_def)

lemma storageDrainActorMatches_iff:
  "storageDrainActorMatches (Some s) a \<longleftrightarrow>
     (case clusterStorageDrainProof (Some s) of Some p \<Rightarrow> sameStorageDrainActor (bp_Actor p) a | None \<Rightarrow> False)"
  by (auto simp: storageDrainActorMatches_def clusterStorageDrainProof_def sameStorageDrainActor_def)


lemma storageDrainRemovalIntent_None:
  "storageDrainRemovalIntent sum256 new_uuid None actor roles storage now = Inr (Some q) \<Longrightarrow>
     q = intent_proof actor new_uuid (TargetHash sum256 (NormalizeNodeIDs roles) (NormalizeNodeIDs storage) [])
           now (NormalizeNodeIDs roles) (NormalizeNodeIDs storage) []
     \<and> da_UID actor \<noteq> [] \<and> set (NormalizeNodeIDs storage) \<subseteq> set (NormalizeNodeIDs roles)"
  by (auto simp: storageDrainRemovalIntent_def storageDrainTargetHash_def Let_def split: if_splits)

lemma storageDrainRemovalIntent_Some:
  "storageDrainRemovalIntent sum256 new_uuid (Some p) actor roles storage now = Inr r \<longleftrightarrow>
     da_UID actor \<noteq> [] \<and> bp_Actor p = actor
     \<and> set (NormalizeNodeIDs storage) \<subseteq> set (NormalizeNodeIDs roles)
     \<and> r = (let roles' = NormalizeNodeIDs (bp_RoleRemovalNodeIDs p @ NormalizeNodeIDs roles);
                 storage' = NormalizeNodeIDs (bp_RemovedStorageNodeIDs p @ NormalizeNodeIDs storage);
                 unavailable' = NormalizeNodeIDs (bp_UnavailableSourceNodeIDs p)
             in if bp_RoleRemovalNodeIDs p = roles' \<and> bp_RemovedStorageNodeIDs p = storage' then Some p
                else Some (intent_proof (bp_Actor p) (bp_TransactionID p)
                       (TargetHash sum256 roles' storage' unavailable') (bp_StartedAt p) roles' storage' unavailable'))"
  unfolding storageDrainRemovalIntent_def storageDrainTargetHash_def Let_def
  by (auto simp: sameStorageDrainActor_iff)

lemma intent_wf_extend:
  assumes "intent_wf sum256 p" "set (NormalizeNodeIDs storage) \<subseteq> set (NormalizeNodeIDs roles)"
  defines "roles' \<equiv> NormalizeNodeIDs (bp_RoleRemovalNodeIDs p @ NormalizeNodeIDs roles)"
    and "storage' \<equiv> NormalizeNodeIDs (bp_RemovedStorageNodeIDs p @ NormalizeNodeIDs storage)"
  shows "set (bp_RoleRemovalNodeIDs p) \<subseteq> set roles'" "set (bp_RemovedStorageNodeIDs p) \<subseteq> set storage'"
    "set storage' \<subseteq> set roles'"
    "set roles' = set (bp_RoleRemovalNodeIDs p) \<union> set (NormalizeNodeIDs roles)"
    "set storage' = set (bp_RemovedStorageNodeIDs p) \<union> set (NormalizeNodeIDs storage)"
proof -
  have *: "set (NormalizeNodeIDs (xs @ NormalizeNodeIDs ys)) = set xs \<union> set (NormalizeNodeIDs ys)"
    if "NormalizeNodeIDs xs = xs" for xs ys
  proof -
    have "set (NormalizeNodeIDs (xs @ NormalizeNodeIDs ys))
        = (CanonicalGarageNodeID ` set xs - {[]}) \<union> (CanonicalGarageNodeID ` set (NormalizeNodeIDs ys) - {[]})"
      by (simp only: ids.set_norm set_append image_Un Un_Diff)
    also have "CanonicalGarageNodeID ` set xs - {[]} = set xs"
      using that by (metis ids.set_norm)
    also have "CanonicalGarageNodeID ` set (NormalizeNodeIDs ys) - {[]} = set (NormalizeNodeIDs ys)"
      by (metis ids.norm_idem ids.set_norm)
    finally show ?thesis .
  qed
  from assms(1) have n: "NormalizeNodeIDs (bp_RoleRemovalNodeIDs p) = bp_RoleRemovalNodeIDs p"
    "NormalizeNodeIDs (bp_RemovedStorageNodeIDs p) = bp_RemovedStorageNodeIDs p"
    "set (bp_RemovedStorageNodeIDs p) \<subseteq> set (bp_RoleRemovalNodeIDs p)"
    by (simp_all add: intent_wf_def)
  show r: "set roles' = set (bp_RoleRemovalNodeIDs p) \<union> set (NormalizeNodeIDs roles)"
    and s: "set storage' = set (bp_RemovedStorageNodeIDs p) \<union> set (NormalizeNodeIDs storage)"
    unfolding roles'_def storage'_def using n by (simp_all only: *)
  show "set (bp_RoleRemovalNodeIDs p) \<subseteq> set roles'" "set (bp_RemovedStorageNodeIDs p) \<subseteq> set storage'"
    "set storage' \<subseteq> set roles'"
    using r s n(3) assms(2) by blast+
qed

lemma intent_wf_proof:
  "da_UID a \<noteq> [] \<Longrightarrow> set (NormalizeNodeIDs s) \<subseteq> set (NormalizeNodeIDs r) \<Longrightarrow>
   set (NormalizeNodeIDs u) \<subseteq> set (NormalizeNodeIDs s) \<Longrightarrow>
   intent_wf sum256 (intent_proof a tx (TargetHash sum256 (NormalizeNodeIDs r) (NormalizeNodeIDs s) (NormalizeNodeIDs u))
      t (NormalizeNodeIDs r) (NormalizeNodeIDs s) (NormalizeNodeIDs u))"
  by (simp add: intent_wf_def storageDrainProofTargetHash_def storageDrainTargetHash_def del: ids.set_norm)

text \<open>The operations that keep or reset a transaction as a simulation of one abstract fact.\<close>

lemma resets_same_intent:
  "resetBlockResyncObservation (Some p) = Some q \<Longrightarrow> same_intent q p"
  "resetBlockResyncEvidence (Some p) = Some q \<Longrightarrow> same_intent q p"
  by (auto simp: resetBlockResyncObservation_def resetBlockResyncEvidence_def same_intent_def)

subsection \<open>Properties\<close>


lemma removal_intent_extends:
  assumes "intent_wf sum256 p"
    and "storageDrainRemovalIntent sum256 new_uuid (Some p) actor roles storage now = Inr r"
  shows "\<exists>q. r = Some q \<and> intent_wf sum256 q \<and> bp_Actor q = actor \<and> bp_Actor p = actor
     \<and> bp_TransactionID q = bp_TransactionID p \<and> bp_StartedAt q = bp_StartedAt p
     \<and> bp_UnavailableSourceNodeIDs q = bp_UnavailableSourceNodeIDs p
     \<and> set (bp_RoleRemovalNodeIDs q) = set (bp_RoleRemovalNodeIDs p) \<union> set (NormalizeNodeIDs roles)
     \<and> set (bp_RemovedStorageNodeIDs q) = set (bp_RemovedStorageNodeIDs p) \<union> set (NormalizeNodeIDs storage)
     \<and> (q = p \<or> bp_RepairBaselines q = [] \<and> bp_RepairWorkerIDs q = [] \<and> bp_ResyncErrorBaselines q = None
               \<and> bp_QuietSince q = None \<and> bp_CompletedAt q = None)"
proof -
  define roles' where "roles' = NormalizeNodeIDs (bp_RoleRemovalNodeIDs p @ NormalizeNodeIDs roles)"
  define storage' where "storage' = NormalizeNodeIDs (bp_RemovedStorageNodeIDs p @ NormalizeNodeIDs storage)"
  from assms(2) have a: "da_UID actor \<noteq> []" "bp_Actor p = actor"
    and sub: "set (NormalizeNodeIDs storage) \<subseteq> set (NormalizeNodeIDs roles)"
    unfolding storageDrainRemovalIntent_Some by blast+
  note ext = intent_wf_extend [OF assms(1) sub, folded roles'_def storage'_def]
  have u: "NormalizeNodeIDs (bp_UnavailableSourceNodeIDs p) = bp_UnavailableSourceNodeIDs p"
    "set (bp_UnavailableSourceNodeIDs p) \<subseteq> set (bp_RemovedStorageNodeIDs p)"
    using assms(1) by (simp_all add: intent_wf_def)
  show ?thesis
  proof (cases "bp_RoleRemovalNodeIDs p = roles' \<and> bp_RemovedStorageNodeIDs p = storage'")
    case True
    have "r = Some p"
      using assms(2) True
      unfolding storageDrainRemovalIntent_Some Let_def roles'_def [symmetric] storage'_def [symmetric] by simp
    with True assms(1) a ext(4,5) show ?thesis by (intro exI [of _ p]) simp
  next
    case False
    let ?q = "intent_proof actor (bp_TransactionID p)
      (TargetHash sum256 roles' storage' (bp_UnavailableSourceNodeIDs p)) (bp_StartedAt p) roles' storage'
      (bp_UnavailableSourceNodeIDs p)"
    have "set (bp_UnavailableSourceNodeIDs p) \<subseteq> set storage'" using u(2) ext(2) by blast
    then have "intent_wf sum256 ?q"
      using intent_wf_proof [of actor "bp_RemovedStorageNodeIDs p @ NormalizeNodeIDs storage"
          "bp_RoleRemovalNodeIDs p @ NormalizeNodeIDs roles" "bp_UnavailableSourceNodeIDs p", OF a(1),
          folded roles'_def storage'_def, unfolded u(1)] ext(3) by blast
    moreover have "r = Some ?q"
      using assms(2) False a(2) u(1)
      unfolding storageDrainRemovalIntent_Some Let_def roles'_def [symmetric] storage'_def [symmetric] by presburger
    ultimately show ?thesis using a ext(4,5) by (intro exI [of _ ?q]) (simp del: ids.set_norm)
  qed
qed

text \<open>
  Targets are monotone within one transaction.  Recording a removal intent over a well-formed
  previous proof gives a well-formed proof of the same actor, transaction and start, whose role and
  storage targets are exactly the previous ones together with the new ones; the proof is either the
  previous one unchanged or carries no evidence at all.
\<close>

theorem removal_intent_monotone:
  assumes "intent_wf sum256 p"
    and "storageDrainRemovalIntent sum256 new_uuid (Some p) actor roles storage now = Inr r"
  shows "\<exists>q. r = Some q \<and> intent_wf sum256 q \<and> bp_Actor q = actor \<and> bp_Actor p = actor
     \<and> bp_TransactionID q = bp_TransactionID p \<and> bp_StartedAt q = bp_StartedAt p
     \<and> bp_UnavailableSourceNodeIDs q = bp_UnavailableSourceNodeIDs p
     \<and> set (bp_RoleRemovalNodeIDs q) = set (bp_RoleRemovalNodeIDs p) \<union> set (NormalizeNodeIDs roles)
     \<and> set (bp_RemovedStorageNodeIDs q) = set (bp_RemovedStorageNodeIDs p) \<union> set (NormalizeNodeIDs storage)
     \<and> (q = p \<or> bp_RepairBaselines q = [] \<and> bp_RepairWorkerIDs q = [] \<and> bp_ResyncErrorBaselines q = None
               \<and> bp_QuietSince q = None \<and> bp_CompletedAt q = None)"
  using assms by (rule removal_intent_extends)

definition sample_drain_actor :: storageDrainActor where
  "sample_drain_actor = \<lparr>da_APIVersion = ''garage.rajsingh.info/v1beta1'', da_Kind = ''GarageNode'',
     da_Namespace = ''ns'', da_Name = ''n0'', da_UID = ''uid-1''\<rparr>"

definition sample_proof :: blockResyncProof where
  "sample_proof = intent_proof sample_drain_actor ''tx'' (TargetHash (\<lambda>s. s) [sample_id CHR ''a''] [sample_id CHR ''a''] [])
     1 [sample_id CHR ''a''] [sample_id CHR ''a''] []"

lemma normalize_sample [simp]: "hex_char c \<Longrightarrow> NormalizeNodeIDs [sample_id c] = [sample_id c]"
  unfolding ids.norm_fixpoint_iff by (simp add: sample_id_def [of c, THEN arg_cong, of "\<lambda>x. x = []"])

lemma sample_proof_wf: "intent_wf (\<lambda>s. s) sample_proof"
  by (simp add: sample_proof_def intent_wf_def storageDrainProofTargetHash_def storageDrainTargetHash_def
      sample_drain_actor_def del: ids.set_norm)


theorem removal_intent_monotone_witness:
  "\<exists>q. storageDrainRemovalIntent (\<lambda>s. s) ''new'' (Some sample_proof) sample_drain_actor
         [sample_id CHR ''b''] [sample_id CHR ''b''] 9 = Inr (Some q)
       \<and> intent_wf (\<lambda>s. s) q \<and> set (bp_RemovedStorageNodeIDs q) = {sample_id CHR ''a'', sample_id CHR ''b''}"
proof -
  have "\<exists>r. storageDrainRemovalIntent (\<lambda>s. s) ''new'' (Some sample_proof) sample_drain_actor
         [sample_id CHR ''b''] [sample_id CHR ''b''] 9 = Inr r"
    unfolding storageDrainRemovalIntent_Some by (simp add: sample_proof_def sample_drain_actor_def)
  then obtain r where r: "storageDrainRemovalIntent (\<lambda>s. s) ''new'' (Some sample_proof) sample_drain_actor
         [sample_id CHR ''b''] [sample_id CHR ''b''] 9 = Inr r" by blast
  from removal_intent_monotone [OF sample_proof_wf r] obtain q where
    "r = Some q" "intent_wf (\<lambda>s. s) q"
    "set (bp_RemovedStorageNodeIDs q) = set (bp_RemovedStorageNodeIDs sample_proof) \<union> set (NormalizeNodeIDs [sample_id CHR ''b''])"
    by blast
  with r show ?thesis by (simp add: sample_proof_def insert_commute del: ids.set_norm)
qed

text \<open>
  A transaction cannot be taken over.  Over an existing proof the intent is refused for every
  actor but the recorded one, and a fresh intent, when one is created, is well-formed, belongs to
  the calling actor, has exactly the normalised targets, and has no unavailable source and no
  evidence.
\<close>

theorem removal_intent_ownership:
  "(bp_Actor p \<noteq> actor \<longrightarrow>
      (\<exists>e. storageDrainRemovalIntent sum256 new_uuid (Some p) actor roles storage now = Inl e))
   \<and> (storageDrainRemovalIntent sum256 new_uuid None actor roles storage now = Inr (Some q) \<longrightarrow>
        intent_wf sum256 q \<and> bp_Actor q = actor \<and> bp_TransactionID q = new_uuid \<and> bp_StartedAt q = now
        \<and> bp_RoleRemovalNodeIDs q = NormalizeNodeIDs roles
        \<and> bp_RemovedStorageNodeIDs q = NormalizeNodeIDs storage
        \<and> bp_UnavailableSourceNodeIDs q = [] \<and> bp_QuietSince q = None \<and> bp_CompletedAt q = None)"
proof (intro conjI impI)
  assume a: "bp_Actor p \<noteq> actor"
  show "\<exists>e. storageDrainRemovalIntent sum256 new_uuid (Some p) actor roles storage now = Inl e"
  proof (cases "storageDrainRemovalIntent sum256 new_uuid (Some p) actor roles storage now")
    case (Inr r)
    with a show ?thesis by (simp only: storageDrainRemovalIntent_Some) blast
  qed simp
next
  assume q: "storageDrainRemovalIntent sum256 new_uuid None actor roles storage now = Inr (Some q)"
  note * = storageDrainRemovalIntent_None [OF q]
  show "intent_wf sum256 q"
    using * intent_wf_proof [of actor storage roles "[]" sum256 new_uuid now]
    by (simp del: ids.set_norm)
  show "bp_Actor q = actor" "bp_TransactionID q = new_uuid" "bp_StartedAt q = now"
    "bp_RoleRemovalNodeIDs q = NormalizeNodeIDs roles" "bp_RemovedStorageNodeIDs q = NormalizeNodeIDs storage"
    "bp_UnavailableSourceNodeIDs q = []" "bp_QuietSince q = None" "bp_CompletedAt q = None"
    using * by simp_all
qed

theorem removal_intent_ownership_witness:
  "\<exists>q. storageDrainRemovalIntent (\<lambda>s. s) ''new'' None sample_drain_actor
         [sample_id CHR ''b''] [sample_id CHR ''b''] 9 = Inr (Some q) \<and> intent_wf (\<lambda>s. s) q
         \<and> bp_TransactionID q = ''new''"
proof -
  obtain q where q: "storageDrainRemovalIntent (\<lambda>s. s) ''new'' None sample_drain_actor
         [sample_id CHR ''b''] [sample_id CHR ''b''] 9 = Inr (Some q)"
    by (simp add: storageDrainRemovalIntent_def sample_drain_actor_def Let_def kindGarageCluster_def
        guard_result_def split: option.splits)
  with removal_intent_ownership [of sample_proof sample_drain_actor "\<lambda>s. s" "''new''"
      "[sample_id CHR ''b'']" "[sample_id CHR ''b'']" 9 q] show ?thesis by auto
qed

text \<open>What an accepted intent guarantees, whether or not there was a proof before.\<close>

lemma removal_intent_facts:
  assumes prev: "\<And>p. previous = Some p \<Longrightarrow> intent_wf sum256 p"
    and "storageDrainRemovalIntent sum256 new_uuid previous actor roles storage now = Inr (Some q)"
  shows "intent_wf sum256 q \<and> bp_Actor q = actor \<and> da_UID actor \<noteq> []
     \<and> set (NormalizeNodeIDs roles) \<subseteq> set (bp_RoleRemovalNodeIDs q)
     \<and> set (NormalizeNodeIDs storage) \<subseteq> set (bp_RemovedStorageNodeIDs q)
     \<and> bp_UnavailableSourceNodeIDs q = (case previous of None \<Rightarrow> [] | Some p \<Rightarrow> bp_UnavailableSourceNodeIDs p)"
proof (cases previous)
  case None
  note i = storageDrainRemovalIntent_None [OF assms(2) [unfolded None]]
  have "intent_wf sum256 q"
    using i intent_wf_proof [of actor storage roles "[]" sum256 new_uuid now] by simp
  with i None show ?thesis by (simp del: ids.set_norm)
next
  case (Some p)
  have "da_UID actor \<noteq> []" using assms(2) unfolding Some storageDrainRemovalIntent_Some by blast
  with removal_intent_extends [OF prev [OF Some] assms(2) [unfolded Some]] Some show ?thesis by auto
qed

lemma completed_proof_validates:
  assumes "intent_wf sum256 p" "actor_complete (storageContractActor (bp_Actor p))"
    and "TrimSpace (bp_TransactionID p) \<noteq> []" "list_all validNodeID (bp_RoleRemovalNodeIDs p)"
    and "bp_StartedAt p \<noteq> 0" "bp_CompletedAt p = Some c" "c \<noteq> 0" "bp_StartedAt p \<le> c"
  shows "validateTerminalStorageDrain sum256 (Some p) (bp_Actor p) roles storage = None \<longleftrightarrow>
     set (NormalizeNodeIDs roles) \<subseteq> set (bp_RoleRemovalNodeIDs p)
     \<and> set (NormalizeNodeIDs storage) \<subseteq> set (bp_RemovedStorageNodeIDs p)"
proof -
  have sub: "set (bp_RemovedStorageNodeIDs p) \<subseteq> set (bp_RoleRemovalNodeIDs p)"
    "set (bp_UnavailableSourceNodeIDs p) \<subseteq> set (bp_RemovedStorageNodeIDs p)"
    using assms(1) by (simp_all add: intent_wf_def)
  have canon: "canonical_target_set (bp_RoleRemovalNodeIDs p)" "canonical_target_set (bp_RemovedStorageNodeIDs p)"
    "canonical_target_set (bp_UnavailableSourceNodeIDs p)"
    using assms(1,4) sub unfolding canonical_target_set_iff intent_wf_def ids.norm_fixpoint_iff
    by (auto simp: list_all_iff)
  show ?thesis
    using assms sub canon
    by (simp add: validateTerminalStorageDrain_def storageContractTerminalToken_def ValidateTerminal_Some_iff
        terminal_authorization_def intent_wf_def storageDrainProofTargetHash_def storageDrainTargetHash_def)
qed

text \<open>
  C17: A completed well-formed proof passes the terminal contract: if its identifiers are full node
  identifiers, its actor is complete, its transaction identifier is not blank and its completion
  does not precede its start, then validateTerminalStorageDrain accepts it for its own actor, for
  every set of required targets it contains and for no larger one.
\<close>

theorem completed_proof_is_terminal:
  assumes "intent_wf sum256 p" "actor_complete (storageContractActor (bp_Actor p))"
    and "TrimSpace (bp_TransactionID p) \<noteq> []" "list_all validNodeID (bp_RoleRemovalNodeIDs p)"
    and "bp_StartedAt p \<noteq> 0" "bp_CompletedAt p = Some c" "c \<noteq> 0" "bp_StartedAt p \<le> c"
  shows "validateTerminalStorageDrain sum256 (Some p) (bp_Actor p) roles storage = None \<longleftrightarrow>
     set (NormalizeNodeIDs roles) \<subseteq> set (bp_RoleRemovalNodeIDs p)
     \<and> set (NormalizeNodeIDs storage) \<subseteq> set (bp_RemovedStorageNodeIDs p)"
  using assms by (rule completed_proof_validates)

theorem completed_proof_is_terminal_witness:
  "validateTerminalStorageDrain (\<lambda>s. s) (Some (sample_proof\<lparr>bp_CompletedAt := Some 5\<rparr>)) sample_drain_actor
     [sample_id CHR ''a''] [sample_id CHR ''a''] = None"
proof -
  have "intent_wf (\<lambda>s. s) (sample_proof\<lparr>bp_CompletedAt := Some 5\<rparr>)"
    using sample_proof_wf by (rule same_intent_wf [THEN iffD1, rotated]) (simp add: same_intent_def)
  moreover have "actor_complete (storageContractActor sample_drain_actor)"
    by (simp add: actor_complete_def storageContractActor_def sample_drain_actor_def sample_string_eval)
  moreover have "TrimSpace ''tx'' \<noteq> []" by (simp add: sample_string_eval)
  ultimately show ?thesis
    using completed_proof_is_terminal [of "\<lambda>s. s" "sample_proof\<lparr>bp_CompletedAt := Some 5\<rparr>" 5
      "[sample_id CHR ''a'']" "[sample_id CHR ''a'']"]
    by (simp add: sample_proof_def)
qed

end
