(* ===== verification/LayoutCoordinator.thy ===== *)
theory LayoutCoordinator
  imports DrainProof
begin

text \<open>
  LayoutMutationCoordinator of internal/controller/layout_mutation_coordinator.go: the set of held
  layout keys, the in-memory markers of node-local-pool rollouts and of storage drains, and every
  method on them.  A method runs under the coordinator's mutex, so it is one atomic step; the
  interleavings of several workers are sequences of such steps.
\<close>

subsection \<open>State\<close>

record nodeLocalPoolRolloutMarker =
  rm_ownerUID :: string
  rm_source :: NamespacedName
  rm_sourceUID :: string
  rm_statusConfirmed :: bool

record storageDrainMarker =
  dm_ownerUID :: string
  dm_actorUID :: string
  dm_transactionID :: string
  dm_targetHash :: string
  dm_statusConfirmed :: bool

record LayoutMutationCoordinator =
  lmc_held :: "NamespacedName set"
  lmc_nodeLocalPoolRollouts :: "NamespacedName \<rightharpoonup> nodeLocalPoolRolloutMarker"
  lmc_storageDrains :: "NamespacedName \<rightharpoonup> storageDrainMarker"

text \<open>Methods may be called on a nil coordinator, which is \<open>None\<close>.\<close>

type_synonym coordinator = "LayoutMutationCoordinator option"

definition NewLayoutMutationCoordinator :: LayoutMutationCoordinator where
  "NewLayoutMutationCoordinator =
     \<lparr>lmc_held = {}, lmc_nodeLocalPoolRollouts = Map.empty, lmc_storageDrains = Map.empty\<rparr>"

definition storageDrainMarker_matches :: "storageDrainMarker \<Rightarrow> storageDrainMarker \<Rightarrow> bool" where
  "storageDrainMarker_matches m other \<longleftrightarrow>
     dm_ownerUID m = dm_ownerUID other \<and> dm_actorUID m = dm_actorUID other
     \<and> dm_transactionID m = dm_transactionID other \<and> dm_targetHash m = dm_targetHash other"

definition drain_marker :: "string \<Rightarrow> string \<Rightarrow> string \<Rightarrow> string \<Rightarrow> storageDrainMarker" where
  "drain_marker ownerUID actorUID transactionID targetHash =
     \<lparr>dm_ownerUID = ownerUID, dm_actorUID = actorUID, dm_transactionID = transactionID,
      dm_targetHash = targetHash, dm_statusConfirmed = False\<rparr>"

subsection \<open>Storage-drain markers\<close>

definition BeginStorageDrain ::
    "NamespacedName \<Rightarrow> string \<Rightarrow> string \<Rightarrow> string \<Rightarrow> string \<Rightarrow> coordinator \<Rightarrow> bool \<times> coordinator" where
  "BeginStorageDrain key ownerUID actorUID transactionID targetHash coord =
     (case coord of
        None \<Rightarrow> (True, coord)
      | Some c \<Rightarrow>
          (let marker = drain_marker ownerUID actorUID transactionID targetHash in
           case lmc_storageDrains c key of
             Some existing \<Rightarrow> (storageDrainMarker_matches existing marker, coord)
           | None \<Rightarrow> (True, Some (c\<lparr>lmc_storageDrains := (lmc_storageDrains c)(key \<mapsto> marker)\<rparr>))))"

definition ConfirmStorageDrain ::
    "NamespacedName \<Rightarrow> string \<Rightarrow> string \<Rightarrow> string \<Rightarrow> string \<Rightarrow> coordinator \<Rightarrow> bool \<times> coordinator" where
  "ConfirmStorageDrain key ownerUID actorUID transactionID targetHash coord =
     (case coord of
        None \<Rightarrow> (True, coord)
      | Some c \<Rightarrow>
          (case lmc_storageDrains c key of
             None \<Rightarrow> (False, coord)
           | Some existing \<Rightarrow>
               if \<not> storageDrainMarker_matches existing (drain_marker ownerUID actorUID transactionID targetHash)
               then (False, coord)
               else (True, Some (c\<lparr>lmc_storageDrains :=
                        (lmc_storageDrains c)(key \<mapsto> existing\<lparr>dm_statusConfirmed := True\<rparr>)\<rparr>))))"

definition AdvanceStorageDrain ::
    "NamespacedName \<Rightarrow> string \<Rightarrow> string \<Rightarrow> string \<Rightarrow> string \<Rightarrow> string \<Rightarrow> coordinator \<Rightarrow> bool \<times> coordinator" where
  "AdvanceStorageDrain key ownerUID actorUID transactionID previousTargetHash nextTargetHash coord =
     (case coord of
        None \<Rightarrow> (True, coord)
      | Some c \<Rightarrow>
          (case lmc_storageDrains c key of
             None \<Rightarrow> (False, coord)
           | Some existing \<Rightarrow>
               if dm_ownerUID existing \<noteq> ownerUID \<or> dm_actorUID existing \<noteq> actorUID
                  \<or> dm_transactionID existing \<noteq> transactionID \<or> dm_targetHash existing \<noteq> previousTargetHash
               then (False, coord)
               else (True, Some (c\<lparr>lmc_storageDrains :=
                        (lmc_storageDrains c)(key \<mapsto> existing\<lparr>dm_targetHash := nextTargetHash\<rparr>)\<rparr>))))"

definition EndStorageDrain ::
    "NamespacedName \<Rightarrow> string \<Rightarrow> string \<Rightarrow> string \<Rightarrow> string \<Rightarrow> coordinator \<Rightarrow> coordinator" where
  "EndStorageDrain key ownerUID actorUID transactionID targetHash coord =
     (case coord of
        None \<Rightarrow> coord
      | Some c \<Rightarrow>
          (case lmc_storageDrains c key of
             None \<Rightarrow> coord
           | Some existing \<Rightarrow>
               if storageDrainMarker_matches existing (drain_marker ownerUID actorUID transactionID targetHash)
               then Some (c\<lparr>lmc_storageDrains := (lmc_storageDrains c)(key := None)\<rparr>)
               else coord))"

definition PruneConfirmedStorageDrainWithoutStatus ::
    "NamespacedName \<Rightarrow> string \<Rightarrow> coordinator \<Rightarrow> coordinator" where
  "PruneConfirmedStorageDrainWithoutStatus key currentOwnerUID coord =
     (case coord of
        None \<Rightarrow> coord
      | Some c \<Rightarrow>
          if currentOwnerUID = [] then coord
          else (case lmc_storageDrains c key of
                  None \<Rightarrow> coord
                | Some existing \<Rightarrow>
                    if dm_ownerUID existing = currentOwnerUID \<and> dm_statusConfirmed existing
                    then Some (c\<lparr>lmc_storageDrains := (lmc_storageDrains c)(key := None)\<rparr>)
                    else coord))"

definition PruneStaleStorageDrain :: "NamespacedName \<Rightarrow> string \<Rightarrow> coordinator \<Rightarrow> coordinator" where
  "PruneStaleStorageDrain key currentOwnerUID coord =
     (case coord of
        None \<Rightarrow> coord
      | Some c \<Rightarrow>
          if currentOwnerUID = [] then coord
          else (case lmc_storageDrains c key of
                  None \<Rightarrow> coord
                | Some existing \<Rightarrow>
                    if dm_ownerUID existing \<noteq> [] \<and> dm_ownerUID existing \<noteq> currentOwnerUID
                    then Some (c\<lparr>lmc_storageDrains := (lmc_storageDrains c)(key := None)\<rparr>)
                    else coord))"

definition StorageDrainActive :: "NamespacedName \<Rightarrow> coordinator \<Rightarrow> bool" where
  "StorageDrainActive key coord =
     (case coord of None \<Rightarrow> False | Some c \<Rightarrow> lmc_storageDrains c key \<noteq> None)"

definition StorageDrainActorActive ::
    "NamespacedName \<Rightarrow> string \<Rightarrow> string \<Rightarrow> string \<Rightarrow> string \<Rightarrow> coordinator \<Rightarrow> bool" where
  "StorageDrainActorActive key ownerUID actorUID transactionID targetHash coord =
     (case coord of
        None \<Rightarrow> True
      | Some c \<Rightarrow>
          (case lmc_storageDrains c key of
             None \<Rightarrow> False
           | Some existing \<Rightarrow> storageDrainMarker_matches existing
                 (drain_marker ownerUID actorUID transactionID targetHash)))"

subsection \<open>Rollout markers\<close>

definition BeginNodeLocalPoolRollout ::
    "NamespacedName \<Rightarrow> string \<Rightarrow> NamespacedName \<Rightarrow> string \<Rightarrow> coordinator \<Rightarrow> bool \<times> coordinator" where
  "BeginNodeLocalPoolRollout key ownerUID source sourceUID coord =
     (case coord of
        None \<Rightarrow> (True, coord)
      | Some c \<Rightarrow>
          if key = zero_key \<or> ownerUID = [] \<or> source = zero_key \<or> sourceUID = [] then (False, coord)
          else
            (case lmc_nodeLocalPoolRollouts c key of
               Some existing \<Rightarrow> (rm_ownerUID existing = ownerUID \<and> rm_source existing = source
                                   \<and> rm_sourceUID existing = sourceUID, coord)
             | None \<Rightarrow> (True, Some (c\<lparr>lmc_nodeLocalPoolRollouts := (lmc_nodeLocalPoolRollouts c)(key \<mapsto>
                   \<lparr>rm_ownerUID = ownerUID, rm_source = source, rm_sourceUID = sourceUID,
                    rm_statusConfirmed = False\<rparr>)\<rparr>))))"

definition ConfirmNodeLocalPoolRollout :: "NamespacedName \<Rightarrow> string \<Rightarrow> coordinator \<Rightarrow> bool \<times> coordinator" where
  "ConfirmNodeLocalPoolRollout key sourceUID coord =
     (case coord of
        None \<Rightarrow> (True, coord)
      | Some c \<Rightarrow>
          (case lmc_nodeLocalPoolRollouts c key of
             None \<Rightarrow> (False, coord)
           | Some marker \<Rightarrow>
               if rm_sourceUID marker \<noteq> sourceUID then (False, coord)
               else (True, Some (c\<lparr>lmc_nodeLocalPoolRollouts :=
                       (lmc_nodeLocalPoolRollouts c)(key \<mapsto> marker\<lparr>rm_statusConfirmed := True\<rparr>)\<rparr>))))"

definition EndNodeLocalPoolRollout :: "NamespacedName \<Rightarrow> string \<Rightarrow> coordinator \<Rightarrow> coordinator" where
  "EndNodeLocalPoolRollout key sourceUID coord =
     (case coord of
        None \<Rightarrow> coord
      | Some c \<Rightarrow>
          (case lmc_nodeLocalPoolRollouts c key of
             None \<Rightarrow> coord
           | Some existing \<Rightarrow>
               if rm_sourceUID existing = sourceUID
               then Some (c\<lparr>lmc_nodeLocalPoolRollouts := (lmc_nodeLocalPoolRollouts c)(key := None)\<rparr>)
               else coord))"

definition NodeLocalPoolRolloutActive :: "NamespacedName \<Rightarrow> coordinator \<Rightarrow> bool" where
  "NodeLocalPoolRolloutActive key coord =
     (case coord of None \<Rightarrow> False | Some c \<Rightarrow> lmc_nodeLocalPoolRollouts c key \<noteq> None)"

definition NodeLocalPoolRolloutSourceActive :: "NamespacedName \<Rightarrow> string \<Rightarrow> coordinator \<Rightarrow> bool \<times> bool" where
  "NodeLocalPoolRolloutSourceActive key sourceUID coord =
     (case coord of
        None \<Rightarrow> (False, False)
      | Some c \<Rightarrow>
          (case lmc_nodeLocalPoolRollouts c key of
             None \<Rightarrow> (False, False)
           | Some marker \<Rightarrow> (rm_sourceUID marker = sourceUID,
                               rm_sourceUID marker = sourceUID \<and> rm_statusConfirmed marker)))"

text \<open>
  PruneStaleNodeLocalPoolRollout releases the mutex around an API read, and another worker may act
  in between.  Its two critical sections are separate definitions: the first drops a marker of an
  earlier owner and otherwise says which source to read; the second drops the marker only if it is
  still the one that was read.
\<close>

definition prune_rollout_head ::
    "NamespacedName \<Rightarrow> string \<Rightarrow> coordinator \<Rightarrow> nodeLocalPoolRolloutMarker option \<times> coordinator" where
  "prune_rollout_head key currentOwnerUID coord =
     (case coord of
        None \<Rightarrow> (None, coord)
      | Some c \<Rightarrow>
          if currentOwnerUID = [] then (None, coord)
          else (case lmc_nodeLocalPoolRollouts c key of
                  None \<Rightarrow> (None, coord)
                | Some existing \<Rightarrow>
                    if rm_ownerUID existing \<noteq> [] \<and> rm_ownerUID existing \<noteq> currentOwnerUID
                    then (None, Some (c\<lparr>lmc_nodeLocalPoolRollouts := (lmc_nodeLocalPoolRollouts c)(key := None)\<rparr>))
                    else if rm_source existing = zero_key \<or> rm_sourceUID existing = [] then (None, coord)
                    else (Some existing, coord)))"

definition prune_rollout_tail ::
    "NamespacedName \<Rightarrow> nodeLocalPoolRolloutMarker \<Rightarrow> coordinator \<Rightarrow> coordinator" where
  "prune_rollout_tail key existing coord =
     (case coord of
        None \<Rightarrow> coord
      | Some c \<Rightarrow>
          if lmc_nodeLocalPoolRollouts c key = Some existing
          then Some (c\<lparr>lmc_nodeLocalPoolRollouts := (lmc_nodeLocalPoolRollouts c)(key := None)\<rparr>)
          else coord)"

definition PruneStaleNodeLocalPoolRollout ::
    "cluster_reader option \<Rightarrow> NamespacedName \<Rightarrow> string \<Rightarrow> coordinator \<Rightarrow> get_error option \<times> coordinator" where
  "PruneStaleNodeLocalPoolRollout reader key currentOwnerUID coord =
     (case prune_rollout_head key currentOwnerUID coord of
        (None, coord1) \<Rightarrow> (None, coord1)
      | (Some existing, coord1) \<Rightarrow>
          (case reader of
             None \<Rightarrow> (None, coord1)
           | Some rd \<Rightarrow>
               (case rd (rm_source existing) of
                  Inl NotFound \<Rightarrow> (None, prune_rollout_tail key existing coord1)
                | Inl e \<Rightarrow> (Some e, coord1)
                | Inr source \<Rightarrow>
                    if gc_UID source = rm_sourceUID existing then (None, coord1)
                    else (None, prune_rollout_tail key existing coord1))))"

subsection \<open>The layout lock\<close>

text \<open>
  TryAcquire returns a closure around a sync.Once.  The closure's state is the key it releases,
  none for the nil coordinator, and whether it has run.
\<close>

record releaseFn =
  rel_key :: "NamespacedName option"
  rel_done :: bool

definition TryAcquire :: "NamespacedName \<Rightarrow> coordinator \<Rightarrow> releaseFn option \<times> coordinator" where
  "TryAcquire key coord =
     (case coord of
        None \<Rightarrow> (Some \<lparr>rel_key = None, rel_done = False\<rparr>, coord)
      | Some c \<Rightarrow>
          if key \<in> lmc_held c then (None, coord)
          else (Some \<lparr>rel_key = Some key, rel_done = False\<rparr>, Some (c\<lparr>lmc_held := insert key (lmc_held c)\<rparr>)))"

definition call_release :: "releaseFn \<Rightarrow> coordinator \<Rightarrow> releaseFn \<times> coordinator" where
  "call_release rel coord =
     (if rel_done rel then (rel, coord)
      else (rel\<lparr>rel_done := True\<rparr>,
            (case (coord, rel_key rel) of
               (Some c, Some key) \<Rightarrow> Some (c\<lparr>lmc_held := lmc_held c - {key}\<rparr>)
             | _ \<Rightarrow> coord)))"


subsection \<open>The contract of a marker store\<close>

text \<open>
  Both kinds of marker obey one contract, which the drain and the rollout controllers rely on: a
  marker is published by \<open>beg\<close>, never replaced by it, confirmed only by its own identity, and
  removed by \<open>fin\<close> only for its own identity.  Identities have type \<open>'i\<close>; \<open>look\<close> reads the
  identity under a key.
\<close>

locale marker_store =
  fixes look :: "'s \<Rightarrow> NamespacedName \<Rightarrow> 'i option"
    and confirmed :: "'s \<Rightarrow> NamespacedName \<Rightarrow> bool"
    and beg :: "NamespacedName \<Rightarrow> 'i \<Rightarrow> 's \<Rightarrow> bool \<times> 's"
    and conf :: "NamespacedName \<Rightarrow> 'i \<Rightarrow> 's \<Rightarrow> bool \<times> 's"
    and fin :: "NamespacedName \<Rightarrow> 'i \<Rightarrow> 's \<Rightarrow> 's"
  assumes beg_ok: "beg k i s = (True, s') \<Longrightarrow> look s' k = Some i"
    and beg_fail: "beg k i s = (False, s') \<Longrightarrow> s' = s"
    and beg_existing: "look s k = Some j \<Longrightarrow> snd (beg k i s) = s"
    and beg_other: "k' \<noteq> k \<Longrightarrow> look (snd (beg k i s)) k' = look s k'"
    and beg_unconfirmed: "beg k i s = (True, s') \<Longrightarrow> look s k = None \<Longrightarrow> \<not> confirmed s' k"
    and conf_iff: "look s k = Some i \<Longrightarrow> fst (conf k i s) \<and> confirmed (snd (conf k i s)) k"
    and conf_look: "look (snd (conf k i s)) = look s"
    and fin_own: "look s k = Some i \<Longrightarrow> look (fin k i s) k = None"
    and fin_other: "k' \<noteq> k \<Longrightarrow> look (fin k i s) k' = look s k'"
begin

lemma begin_exclusive:
  "beg k i s = (True, s1) \<Longrightarrow> beg k j s1 = (True, s2) \<Longrightarrow> i = j \<and> s2 = s1"
  by (metis beg_existing beg_ok option.inject snd_conv)

lemma begin_idempotent:
  "beg k i s = (True, s1) \<Longrightarrow> beg k i s1 = (b, s2) \<Longrightarrow> s2 = s1"
  by (metis beg_existing beg_ok snd_conv)

lemma lifecycle:
  assumes "beg k i s = (True, s1)"
  shows "fst (conf k i s1) \<and> confirmed (snd (conf k i s1)) k
     \<and> look (snd (conf k i s1)) k = Some i \<and> look (fin k i (snd (conf k i s1))) k = None"
  using beg_ok [OF assms] conf_iff [OF beg_ok [OF assms]] by (simp add: conf_look fin_own)

lemma lifecycle_frame:
  "k' \<noteq> k \<Longrightarrow> look (fin k i (snd (conf k i (snd (beg k i s))))) k' = look s k'"
  by (simp add: fin_other conf_look beg_other)

end

text \<open>The identity of a storage-drain marker and of a rollout marker.\<close>

type_synonym drain_identity = "string \<times> string \<times> string \<times> string"

definition drain_id :: "storageDrainMarker \<Rightarrow> drain_identity" where
  "drain_id m = (dm_ownerUID m, dm_actorUID m, dm_transactionID m, dm_targetHash m)"

definition drain_look :: "LayoutMutationCoordinator \<Rightarrow> NamespacedName \<Rightarrow> drain_identity option" where
  "drain_look c k = map_option drain_id (lmc_storageDrains c k)"

definition drain_confirmed :: "LayoutMutationCoordinator \<Rightarrow> NamespacedName \<Rightarrow> bool" where
  "drain_confirmed c k = (case lmc_storageDrains c k of None \<Rightarrow> False | Some m \<Rightarrow> dm_statusConfirmed m)"

definition drain_begin :: "NamespacedName \<Rightarrow> drain_identity \<Rightarrow> LayoutMutationCoordinator \<Rightarrow> bool \<times> LayoutMutationCoordinator" where
  "drain_begin k i c = (case i of (ow, a, t, h) \<Rightarrow> map_prod id the (BeginStorageDrain k ow a t h (Some c)))"

definition drain_confirm :: "NamespacedName \<Rightarrow> drain_identity \<Rightarrow> LayoutMutationCoordinator \<Rightarrow> bool \<times> LayoutMutationCoordinator" where
  "drain_confirm k i c = (case i of (ow, a, t, h) \<Rightarrow> map_prod id the (ConfirmStorageDrain k ow a t h (Some c)))"

definition drain_end :: "NamespacedName \<Rightarrow> drain_identity \<Rightarrow> LayoutMutationCoordinator \<Rightarrow> LayoutMutationCoordinator" where
  "drain_end k i c = (case i of (ow, a, t, h) \<Rightarrow> the (EndStorageDrain k ow a t h (Some c)))"

lemma matches_iff: "storageDrainMarker_matches m n \<longleftrightarrow> drain_id m = drain_id n"
  by (auto simp: storageDrainMarker_matches_def drain_id_def)

lemma drain_id_marker [simp]: "drain_id (drain_marker ow a t h) = (ow, a, t, h)"
  by (simp add: drain_id_def drain_marker_def)

lemma drain_id_confirm [simp]: "drain_id (m\<lparr>dm_statusConfirmed := b\<rparr>) = drain_id m"
  by (simp add: drain_id_def)

lemmas drain_ops = drain_look_def drain_confirmed_def drain_begin_def drain_confirm_def drain_end_def
  BeginStorageDrain_def ConfirmStorageDrain_def EndStorageDrain_def matches_iff

interpretation drains: marker_store drain_look drain_confirmed drain_begin drain_confirm drain_end
proof
  fix k i s s' j k'
  show "drain_begin k i s = (True, s') \<Longrightarrow> drain_look s' k = Some i"
    by (cases i; cases "lmc_storageDrains s k") (auto simp: drain_ops Let_def)
  show "drain_begin k i s = (False, s') \<Longrightarrow> s' = s"
    by (cases i; cases "lmc_storageDrains s k") (auto simp: drain_ops Let_def)
  show "drain_look s k = Some j \<Longrightarrow> snd (drain_begin k i s) = s"
    by (cases i; cases "lmc_storageDrains s k") (auto simp: drain_ops Let_def)
  show "k' \<noteq> k \<Longrightarrow> drain_look (snd (drain_begin k i s)) k' = drain_look s k'"
    by (cases i; cases "lmc_storageDrains s k") (auto simp: drain_ops Let_def)
  show "drain_begin k i s = (True, s') \<Longrightarrow> drain_look s k = None \<Longrightarrow> \<not> drain_confirmed s' k"
    by (cases i; cases "lmc_storageDrains s k") (auto simp: drain_ops drain_marker_def Let_def)
  show "drain_look s k = Some i \<Longrightarrow> fst (drain_confirm k i s) \<and> drain_confirmed (snd (drain_confirm k i s)) k"
    by (cases i; cases "lmc_storageDrains s k") (auto simp: drain_ops)
  show "drain_look (snd (drain_confirm k i s)) = drain_look s"
    by (cases i; cases "lmc_storageDrains s k") (auto simp: drain_ops fun_eq_iff)
  show "drain_look s k = Some i \<Longrightarrow> drain_look (drain_end k i s) k = None"
    by (cases i; cases "lmc_storageDrains s k") (auto simp: drain_ops)
  show "k' \<noteq> k \<Longrightarrow> drain_look (drain_end k i s) k' = drain_look s k'"
    by (cases i; cases "lmc_storageDrains s k") (auto simp: drain_ops)
qed

type_synonym rollout_identity = "string \<times> NamespacedName \<times> string"

definition rollout_id :: "nodeLocalPoolRolloutMarker \<Rightarrow> rollout_identity" where
  "rollout_id m = (rm_ownerUID m, rm_source m, rm_sourceUID m)"

definition rollout_look :: "LayoutMutationCoordinator \<Rightarrow> NamespacedName \<Rightarrow> rollout_identity option" where
  "rollout_look c k = map_option rollout_id (lmc_nodeLocalPoolRollouts c k)"

definition rollout_confirmed :: "LayoutMutationCoordinator \<Rightarrow> NamespacedName \<Rightarrow> bool" where
  "rollout_confirmed c k = (case lmc_nodeLocalPoolRollouts c k of None \<Rightarrow> False | Some m \<Rightarrow> rm_statusConfirmed m)"

definition rollout_begin :: "NamespacedName \<Rightarrow> rollout_identity \<Rightarrow> LayoutMutationCoordinator \<Rightarrow> bool \<times> LayoutMutationCoordinator" where
  "rollout_begin k i c = (case i of (ow, src, u) \<Rightarrow> map_prod id the (BeginNodeLocalPoolRollout k ow src u (Some c)))"

definition rollout_confirm :: "NamespacedName \<Rightarrow> rollout_identity \<Rightarrow> LayoutMutationCoordinator \<Rightarrow> bool \<times> LayoutMutationCoordinator" where
  "rollout_confirm k i c = (case i of (ow, src, u) \<Rightarrow> map_prod id the (ConfirmNodeLocalPoolRollout k u (Some c)))"

definition rollout_end :: "NamespacedName \<Rightarrow> rollout_identity \<Rightarrow> LayoutMutationCoordinator \<Rightarrow> LayoutMutationCoordinator" where
  "rollout_end k i c = (case i of (ow, src, u) \<Rightarrow> the (EndNodeLocalPoolRollout k u (Some c)))"

lemma rollout_id_confirm [simp]: "rollout_id (m\<lparr>rm_statusConfirmed := b\<rparr>) = rollout_id m"
  by (simp add: rollout_id_def)

lemmas rollout_ops = rollout_look_def rollout_confirmed_def rollout_begin_def rollout_confirm_def rollout_end_def
  BeginNodeLocalPoolRollout_def ConfirmNodeLocalPoolRollout_def EndNodeLocalPoolRollout_def

interpretation rollouts: marker_store rollout_look rollout_confirmed rollout_begin rollout_confirm rollout_end
proof
  fix k i s s' j k'
  show "rollout_begin k i s = (True, s') \<Longrightarrow> rollout_look s' k = Some i"
    by (cases i; cases "lmc_nodeLocalPoolRollouts s k")
       (auto simp: rollout_ops rollout_id_def split: if_splits)
  show "rollout_begin k i s = (False, s') \<Longrightarrow> s' = s"
    by (cases i; cases "lmc_nodeLocalPoolRollouts s k") (auto simp: rollout_ops split: if_splits)
  show "rollout_look s k = Some j \<Longrightarrow> snd (rollout_begin k i s) = s"
    by (cases i; cases "lmc_nodeLocalPoolRollouts s k") (auto simp: rollout_ops)
  show "k' \<noteq> k \<Longrightarrow> rollout_look (snd (rollout_begin k i s)) k' = rollout_look s k'"
    by (cases i; cases "lmc_nodeLocalPoolRollouts s k") (auto simp: rollout_ops)
  show "rollout_begin k i s = (True, s') \<Longrightarrow> rollout_look s k = None \<Longrightarrow> \<not> rollout_confirmed s' k"
    by (cases i; cases "lmc_nodeLocalPoolRollouts s k") (auto simp: rollout_ops split: if_splits)
  show "rollout_look s k = Some i \<Longrightarrow> fst (rollout_confirm k i s) \<and> rollout_confirmed (snd (rollout_confirm k i s)) k"
    by (cases i; cases "lmc_nodeLocalPoolRollouts s k") (auto simp: rollout_ops rollout_id_def)
  show "rollout_look (snd (rollout_confirm k i s)) = rollout_look s"
    by (cases i; cases "lmc_nodeLocalPoolRollouts s k") (auto simp: rollout_ops fun_eq_iff)
  show "rollout_look s k = Some i \<Longrightarrow> rollout_look (rollout_end k i s) k = None"
    by (cases i; cases "lmc_nodeLocalPoolRollouts s k") (auto simp: rollout_ops rollout_id_def)
  show "k' \<noteq> k \<Longrightarrow> rollout_look (rollout_end k i s) k' = rollout_look s k'"
    by (cases i; cases "lmc_nodeLocalPoolRollouts s k") (auto simp: rollout_ops)
qed


subsection \<open>Interleavings\<close>

text \<open>The critical sections that touch markers, as data, and their effect.\<close>

datatype coord_op =
    OpBeginDrain NamespacedName string string string string
  | OpConfirmDrain NamespacedName string string string string
  | OpAdvanceDrain NamespacedName string string string string string
  | OpEndDrain NamespacedName string string string string
  | OpPruneConfirmedDrain NamespacedName string
  | OpPruneStaleDrain NamespacedName string
  | OpBeginRollout NamespacedName string NamespacedName string
  | OpConfirmRollout NamespacedName string
  | OpEndRollout NamespacedName string
  | OpPruneRolloutHead NamespacedName string
  | OpPruneRolloutTail NamespacedName nodeLocalPoolRolloutMarker

fun run_op :: "coord_op \<Rightarrow> coordinator \<Rightarrow> coordinator" where
  "run_op (OpBeginDrain k ow a t h) c = snd (BeginStorageDrain k ow a t h c)"
| "run_op (OpConfirmDrain k ow a t h) c = snd (ConfirmStorageDrain k ow a t h c)"
| "run_op (OpAdvanceDrain k ow a t h h') c = snd (AdvanceStorageDrain k ow a t h h' c)"
| "run_op (OpEndDrain k ow a t h) c = EndStorageDrain k ow a t h c"
| "run_op (OpPruneConfirmedDrain k ow) c = PruneConfirmedStorageDrainWithoutStatus k ow c"
| "run_op (OpPruneStaleDrain k ow) c = PruneStaleStorageDrain k ow c"
| "run_op (OpBeginRollout k ow src u) c = snd (BeginNodeLocalPoolRollout k ow src u c)"
| "run_op (OpConfirmRollout k u) c = snd (ConfirmNodeLocalPoolRollout k u c)"
| "run_op (OpEndRollout k u) c = EndNodeLocalPoolRollout k u c"
| "run_op (OpPruneRolloutHead k ow) c = snd (prune_rollout_head k ow c)"
| "run_op (OpPruneRolloutTail k m) c = prune_rollout_tail k m c"

text \<open>
  A state of the process: the coordinator and the release closures handed out so far.  Any worker
  may call any critical section at any time, and any closure any number of times.
\<close>

inductive coord_step ::
    "LayoutMutationCoordinator \<times> releaseFn list \<Rightarrow> LayoutMutationCoordinator \<times> releaseFn list \<Rightarrow> bool" where
  step_acquire: "TryAcquire k (Some c) = (Some rel, Some c') \<Longrightarrow> coord_step (c, ls) (c', ls @ [rel])"
| step_refused: "TryAcquire k (Some c) = (None, Some c') \<Longrightarrow> coord_step (c, ls) (c', ls)"
| step_release: "i < length ls \<Longrightarrow> call_release (ls ! i) (Some c) = (rel, Some c') \<Longrightarrow>
      coord_step (c, ls) (c', ls[i := rel])"
| step_marker: "run_op op (Some c) = Some c' \<Longrightarrow> coord_step (c, ls) (c', ls)"

inductive_cases coord_stepE: "coord_step (c, ls) (c', ls')"

inductive coord_reachable :: "LayoutMutationCoordinator \<times> releaseFn list \<Rightarrow> bool" where
  reach_new: "coord_reachable (NewLayoutMutationCoordinator, [])"
| reach_step: "coord_reachable s \<Longrightarrow> coord_step s s' \<Longrightarrow> coord_reachable s'"

lemmas marker_op_defs = BeginStorageDrain_def ConfirmStorageDrain_def AdvanceStorageDrain_def
  EndStorageDrain_def PruneConfirmedStorageDrainWithoutStatus_def PruneStaleStorageDrain_def
  BeginNodeLocalPoolRollout_def ConfirmNodeLocalPoolRollout_def EndNodeLocalPoolRollout_def
  prune_rollout_head_def prune_rollout_tail_def

lemma run_op_held: "run_op op (Some c) = Some c' \<Longrightarrow> lmc_held c' = lmc_held c"
  by (cases op) (auto simp: marker_op_defs Let_def split: option.splits if_splits)

text \<open>The closures that still hold their key, and the keys they hold.\<close>

definition open_lease :: "releaseFn list \<Rightarrow> nat \<Rightarrow> NamespacedName \<Rightarrow> bool" where
  "open_lease ls i k \<longleftrightarrow> i < length ls \<and> \<not> rel_done (ls ! i) \<and> rel_key (ls ! i) = Some k"

definition lock_inv :: "LayoutMutationCoordinator \<times> releaseFn list \<Rightarrow> bool" where
  "lock_inv s = (case s of (c, ls) \<Rightarrow>
     (\<forall>k. k \<in> lmc_held c \<longleftrightarrow> (\<exists>i. open_lease ls i k))
     \<and> (\<forall>i j k. open_lease ls i k \<longrightarrow> open_lease ls j k \<longrightarrow> i = j)
     \<and> (\<forall>i < length ls. rel_key (ls ! i) \<noteq> None))"

lemma open_lease_snoc:
  "open_lease (ls @ [\<lparr>rel_key = Some k, rel_done = False\<rparr>]) i k' \<longleftrightarrow>
     open_lease ls i k' \<or> i = length ls \<and> k' = k"
  by (auto simp: open_lease_def nth_append less_Suc_eq)

lemma open_lease_done:
  "i < length ls \<Longrightarrow> open_lease (ls[i := (ls ! i)\<lparr>rel_done := True\<rparr>]) j k \<longleftrightarrow> open_lease ls j k \<and> j \<noteq> i"
  by (auto simp: open_lease_def nth_list_update)

lemma lock_inv_step: "coord_step s s' \<Longrightarrow> lock_inv s \<Longrightarrow> lock_inv s'"
proof (induction rule: coord_step.induct)
  case (step_acquire k c rel c' ls)
  then have "k \<notin> lmc_held c" "rel = \<lparr>rel_key = Some k, rel_done = False\<rparr>" "lmc_held c' = insert k (lmc_held c)"
    by (auto simp: TryAcquire_def split: if_splits)
  with step_acquire.prems show ?case
    by (auto simp: lock_inv_def open_lease_snoc nth_append less_Suc_eq)
next
  case (step_refused k c c' ls)
  then show ?case by (auto simp: TryAcquire_def split: if_splits)
next
  case (step_release i ls c rel c')
  show ?case
  proof (cases "rel_done (ls ! i)")
    case True
    with step_release.hyps have "rel = ls ! i" "c' = c" by (simp_all add: call_release_def)
    with step_release.prems show ?thesis by simp
  next
    case False
    from step_release.prems step_release.hyps obtain k where k: "rel_key (ls ! i) = Some k"
      by (auto simp: lock_inv_def)
    with False step_release.hyps have e: "rel = (ls ! i)\<lparr>rel_done := True\<rparr>" "c' = c\<lparr>lmc_held := lmc_held c - {k}\<rparr>"
      by (auto simp: call_release_def)
    have o: "open_lease ls i k" using False k step_release.hyps by (simp add: open_lease_def)
    have held: "\<And>k. k \<in> lmc_held c \<longleftrightarrow> (\<exists>i. open_lease ls i k)"
      and uniq: "\<And>i j k. open_lease ls i k \<Longrightarrow> open_lease ls j k \<Longrightarrow> i = j"
      and keyed: "\<And>i. i < length ls \<Longrightarrow> rel_key (ls ! i) \<noteq> None"
      using step_release.prems by (auto simp: lock_inv_def)
    have "k' \<in> lmc_held c' \<longleftrightarrow> (\<exists>j. open_lease (ls[i := rel]) j k')" for k'
    proof -
      have "open_lease ls i k' \<longleftrightarrow> k' = k" using o by (auto simp: open_lease_def)
      then show ?thesis
        unfolding e open_lease_done [OF step_release.hyps(1)] using held o uniq by auto
    qed
    moreover have "rel_key (ls[i := rel] ! j) \<noteq> None" if "j < length ls" for j
      using that keyed [OF that] k e(1) by (cases "j = i") simp_all
    ultimately show ?thesis
      unfolding lock_inv_def using uniq e(1) by (auto simp: open_lease_done [OF step_release.hyps(1)])
  qed
next
  case (step_marker op c c' ls)
  then show ?case using run_op_held by (simp add: lock_inv_def)
qed

lemma reachable_lock_inv: "coord_reachable s \<Longrightarrow> lock_inv s"
proof (induction rule: coord_reachable.induct)
  case reach_new
  then show ?case by (simp add: lock_inv_def NewLayoutMutationCoordinator_def open_lease_def)
qed (rule lock_inv_step)

subsection \<open>Properties\<close>

text \<open>
  C9: Mutual exclusion of layout writers.  In every reachable state of the process, for any
  interleaving of acquisitions, marker operations and releases, including a closure called more
  than once, at most one unreleased closure exists for a key, and a key is held exactly when one
  does.
\<close>

theorem layout_lock_mutual_exclusion:
  assumes "coord_reachable (c, ls)"
  shows "(open_lease ls i k \<longrightarrow> open_lease ls j k \<longrightarrow> i = j)
     \<and> (k \<in> lmc_held c \<longleftrightarrow> (\<exists>i. open_lease ls i k))"
  using reachable_lock_inv [OF assms] by (auto simp: lock_inv_def)

text \<open>
  TryAcquire succeeds exactly when no worker holds the key, never blocks, and the first call of
  its closure, and only the first, makes the key free again; other keys and all markers are
  untouched.
\<close>

theorem try_acquire_release:
  "(case TryAcquire k (Some c) of
      (None, c1) \<Rightarrow> k \<in> lmc_held c \<and> c1 = Some c
    | (Some rel, c1) \<Rightarrow> k \<notin> lmc_held c \<and> c1 = Some (c\<lparr>lmc_held := insert k (lmc_held c)\<rparr>)
        \<and> snd (call_release rel c1) = Some c
        \<and> call_release (fst (call_release rel c1)) d = (fst (call_release rel c1), d))"
  by (simp add: TryAcquire_def call_release_def)

text \<open>
  A storage-drain marker is never taken over.  Whatever operation runs, a marker keeps its
  owner, actor and transaction, is never unconfirmed, and changes its target revision only by an
  Advance that names its exact identity; it disappears only by an End that names its exact
  identity, by the prune of a confirmed marker of the same owner, or by the prune of a marker of
  an earlier owner incarnation.
\<close>

theorem drain_marker_guarded:
  assumes "lmc_storageDrains c k = Some m" "run_op op (Some c) = Some c'"
  shows "case lmc_storageDrains c' k of
      None \<Rightarrow> op = OpEndDrain k (dm_ownerUID m) (dm_actorUID m) (dm_transactionID m) (dm_targetHash m)
         \<or> (op = OpPruneConfirmedDrain k (dm_ownerUID m) \<and> dm_statusConfirmed m)
         \<or> (\<exists>u. op = OpPruneStaleDrain k u \<and> u \<noteq> [] \<and> dm_ownerUID m \<noteq> [] \<and> u \<noteq> dm_ownerUID m)
    | Some m' \<Rightarrow> dm_ownerUID m' = dm_ownerUID m \<and> dm_actorUID m' = dm_actorUID m
         \<and> dm_transactionID m' = dm_transactionID m
         \<and> (dm_statusConfirmed m \<longrightarrow> dm_statusConfirmed m')
         \<and> (dm_targetHash m' = dm_targetHash m
            \<or> op = OpAdvanceDrain k (dm_ownerUID m) (dm_actorUID m) (dm_transactionID m)
                     (dm_targetHash m) (dm_targetHash m'))"
  using assms
  by (cases op)
     (auto simp: marker_op_defs storageDrainMarker_matches_def drain_marker_def Let_def
       split: option.splits if_splits)

definition sample_key :: NamespacedName where
  "sample_key = \<lparr>nn_Namespace = ''ns'', nn_Name = ''store''\<rparr>"

definition sample_held :: LayoutMutationCoordinator where
  "sample_held = NewLayoutMutationCoordinator\<lparr>lmc_held := {sample_key}\<rparr>"

definition sample_marked :: LayoutMutationCoordinator where
  "sample_marked = NewLayoutMutationCoordinator\<lparr>lmc_storageDrains :=
     [sample_key \<mapsto> drain_marker ''o'' ''a'' ''t'' ''h'']\<rparr>"

theorem layout_lock_mutual_exclusion_witness:
  "sample_key \<in> lmc_held sample_held \<longleftrightarrow>
     (\<exists>i. open_lease [\<lparr>rel_key = Some sample_key, rel_done = False\<rparr>] i sample_key)"
proof -
  have "coord_step (NewLayoutMutationCoordinator, [])
      (sample_held, [] @ [\<lparr>rel_key = Some sample_key, rel_done = False\<rparr>])"
    by (rule step_acquire [of sample_key]) (simp add: TryAcquire_def NewLayoutMutationCoordinator_def sample_held_def)
  then have "coord_reachable (sample_held, [\<lparr>rel_key = Some sample_key, rel_done = False\<rparr>])"
    using reach_new reach_step by fastforce
  then show ?thesis using layout_lock_mutual_exclusion by blast
qed

theorem drain_marker_guarded_witness:
  "run_op (OpAdvanceDrain sample_key ''o'' ''a'' ''t'' ''h'' ''h2'') (Some sample_marked)
     = Some (sample_marked\<lparr>lmc_storageDrains := [sample_key \<mapsto> drain_marker ''o'' ''a'' ''t'' ''h2'']\<rparr>)
   \<and> dm_ownerUID (drain_marker ''o'' ''a'' ''t'' ''h2'') = ''o''"
proof -
  have r: "run_op (OpAdvanceDrain sample_key ''o'' ''a'' ''t'' ''h'' ''h2'') (Some sample_marked)
     = Some (sample_marked\<lparr>lmc_storageDrains := [sample_key \<mapsto> drain_marker ''o'' ''a'' ''t'' ''h2'']\<rparr>)"
    by (simp add: AdvanceStorageDrain_def sample_marked_def drain_marker_def)
  have m: "lmc_storageDrains sample_marked sample_key = Some (drain_marker ''o'' ''a'' ''t'' ''h'')"
    by (simp add: sample_marked_def)
  show ?thesis using r drain_marker_guarded [OF m r] by (simp add: drain_marker_def)
qed

text \<open>
  A drain transaction's life in the coordinator.  After a successful Begin, a Begin for another
  actor, transaction or target revision is refused and changes nothing, the exact transaction can
  be confirmed, and its End frees the key; other keys are never affected.
\<close>

theorem storage_drain_lifecycle:
  assumes "drain_begin k i c = (True, c1)"
  shows "(fst (drain_begin k j c1) \<longrightarrow> j = i) \<and> snd (drain_begin k j c1) = c1
     \<and> fst (drain_confirm k i c1) \<and> drain_confirmed (snd (drain_confirm k i c1)) k
     \<and> drain_look (drain_end k i (snd (drain_confirm k i c1))) k = None
     \<and> (k' = k \<or> drain_look (drain_end k i (snd (drain_confirm k i c1))) k' = drain_look c k')"
proof -
  have "snd (drain_begin k j c1) = c1" using drains.beg_existing [OF drains.beg_ok [OF assms]] .
  moreover have "fst (drain_begin k j c1) \<longrightarrow> j = i"
    using drains.begin_exclusive [OF assms, of j] by (metis (full_types) prod.collapse)
  ultimately show ?thesis
    using drains.lifecycle [OF assms] drains.lifecycle_frame [of k' k i c] assms by auto
qed

theorem storage_drain_lifecycle_witness:
  "\<not> fst (drain_begin sample_key (''o'', ''b'', ''t'', ''h'') sample_marked)"
proof -
  have "drain_begin sample_key (''o'', ''a'', ''t'', ''h'') NewLayoutMutationCoordinator = (True, sample_marked)"
    by (simp add: drain_begin_def BeginStorageDrain_def sample_marked_def NewLayoutMutationCoordinator_def)
  from storage_drain_lifecycle [OF this, of "(''o'', ''b'', ''t'', ''h'')"] show ?thesis by auto
qed

end
