(* ===== verification/LayoutStaging.thy ===== *)
theory LayoutStaging
  imports GarageApi
begin

text \<open>
  The staging half of internal/controller/layout_mutation_coordinator.go: the settled-history
  precondition, the exclusive ownership of Garage's global staging area, the limit of 256
  storage roles, and the Stage-then-Apply primitive with the client's ApplyStagedLayoutChanges.
\<close>

datatype staging_error =
    HistoryMissing
  | StillDraining "u64 list" u64 "string list"
  | StagingNoLayout
  | ForeignStagedChange string
  | StagedChangeNotObservable string
  | ForeignStagedParameters
  | StagedParametersNotObservable
  | LayoutUnavailable
  | TooManyStorageRoles nat

text \<open>Every error but a missing history wraps errLayoutMutationPending: the caller retries.\<close>

definition staging_pending :: "staging_error \<Rightarrow> bool" where
  "staging_pending e \<longleftrightarrow> e \<noteq> HistoryMissing"

subsection \<open>Settled history\<close>

definition behind_tracker :: "u64 \<Rightarrow> string \<times> NodeUpdateTrackers \<Rightarrow> bool" where
  "behind_tracker current kt \<longleftrightarrow> nt_Sync (snd kt) < current"

definition show_behind :: "string \<times> NodeUpdateTrackers \<Rightarrow> string" where
  "show_behind kt = shortID (fst kt) @ ''(sync='' @ show_nat (unat (nt_Sync (snd kt))) @ '')''"

definition requireSettledLayoutHistoryResponse ::
    "LayoutHistoryResponse option \<Rightarrow> staging_error option" where
  "requireSettledLayoutHistoryResponse historyPtr =
     (case historyPtr of
        None \<Rightarrow> Some HistoryMissing
      | Some history \<Rightarrow>
          (let draining = GetDrainingVersions history in
           if draining = [] then None
           else if DataMigrationSettled history then None
           else Some (StillDraining (sort (map lv_Version draining)) (lh_CurrentVersion history)
                  (sort (map show_behind (filter (behind_tracker (lh_CurrentVersion history))
                     (lh_UpdateTrackers history)))))))"

subsection \<open>Tags as multisets\<close>

fun consume_tags :: "(string \<Rightarrow> int) \<Rightarrow> string list \<Rightarrow> bool" where
  "consume_tags counts [] = True"
| "consume_tags counts (tag # tags) =
     (if counts tag \<le> 0 then False else consume_tags (counts(tag := counts tag - 1)) tags)"

definition count_tags :: "string list \<Rightarrow> string \<Rightarrow> int" where
  "count_tags a = fold (\<lambda>tag counts. counts(tag := counts tag + 1)) a (\<lambda>_. 0)"

definition tagSetEqual :: "string list \<Rightarrow> string list \<Rightarrow> bool" where
  "tagSetEqual a b = (if length a \<noteq> length b then False else consume_tags (count_tags a) b)"

subsection \<open>Ownership of the staging area\<close>

definition sameStagedRoleChange :: "NodeRoleChange \<Rightarrow> NodeRoleChange \<Rightarrow> bool" where
  "sameStagedRoleChange left right =
     (if rc_ID left \<noteq> rc_ID right \<or> rc_Remove left \<noteq> rc_Remove right then False
      else if rc_Remove left then True
      else if rc_Zone left \<noteq> rc_Zone right \<or> \<not> tagSetEqual (rc_Tags left) (rc_Tags right)
              \<or> (rc_Capacity left = None) \<noteq> (rc_Capacity right = None) then False
      else rc_Capacity left = None \<or> rc_Capacity left = rc_Capacity right)"

definition wanted_changes :: "NodeRoleChange list \<Rightarrow> (string, NodeRoleChange) gomap" where
  "wanted_changes intended = foldl (\<lambda>m c. AList.update (rc_ID c) c m) [] intended"

definition requireExclusiveStagedRoleChanges ::
    "ClusterLayout option \<Rightarrow> NodeRoleChange list \<Rightarrow> bool \<Rightarrow> staging_error option" where
  "requireExclusiveStagedRoleChanges layoutPtr intended requireAll =
     (case layoutPtr of
        None \<Rightarrow> Some StagingNoLayout
      | Some layout \<Rightarrow>
          (let wanted = wanted_changes intended;
               staged = cl_StagedRoleChanges layout in
           first_of
             (first_error (\<lambda>c.
                 fail_if (case map_of wanted (rc_ID c) of
                            None \<Rightarrow> True
                          | Some desired \<Rightarrow> \<not> sameStagedRoleChange c desired)
                         (ForeignStagedChange (shortID (rc_ID c)))) staged)
             (if requireAll
              then first_error (\<lambda>(i, _). fail_if (i \<notin> rc_ID ` set staged)
                                            (StagedChangeNotObservable (shortID i))) wanted
              else None)))"

definition requireExclusiveStagedLayoutChanges ::
    "ClusterLayout option \<Rightarrow> NodeRoleChange list \<Rightarrow> LayoutParameters option \<Rightarrow> bool
     \<Rightarrow> staging_error option" where
  "requireExclusiveStagedLayoutChanges layoutPtr intendedRoles intendedParameters requireAll =
     first_of (requireExclusiveStagedRoleChanges layoutPtr intendedRoles requireAll)
       (case layoutPtr of
          None \<Rightarrow> None
        | Some layout \<Rightarrow>
            first_of
              (fail_if (cl_StagedParameters layout \<noteq> None
                        \<and> (intendedParameters = None \<or> cl_StagedParameters layout \<noteq> intendedParameters))
                       ForeignStagedParameters)
              (fail_if (requireAll \<and> intendedParameters \<noteq> None \<and> cl_StagedParameters layout = None
                        \<and> cl_Parameters layout \<noteq> intendedParameters)
                       StagedParametersNotObservable))"

subsection \<open>The limit on storage roles\<close>

definition garageMaximumStorageRoles :: nat where
  "garageMaximumStorageRoles = 256"

definition committed_storage_roles :: "ClusterLayout \<Rightarrow> string list" where
  "committed_storage_roles layout =
     foldl (\<lambda>acc role. if lr_Capacity role \<noteq> None
                       then List.insert (CanonicalGarageNodeID (lr_ID role)) acc else acc)
       [] (cl_Roles layout)"

definition project_change :: "string list \<Rightarrow> NodeRoleChange \<Rightarrow> string list" where
  "project_change roles change =
     (let i = CanonicalGarageNodeID (rc_ID change) in
      if i = [] then roles
      else if rc_Remove change \<or> rc_Capacity change = None then removeAll i roles
      else List.insert i roles)"

definition projectedGarageStorageRoleIDs :: "ClusterLayout \<Rightarrow> NodeRoleChange list \<Rightarrow> string list" where
  "projectedGarageStorageRoleIDs layout changes =
     foldl project_change (committed_storage_roles layout) changes"

definition requireGarageStorageRoleCapacity ::
    "ClusterLayout option \<Rightarrow> NodeRoleChange list \<Rightarrow> staging_error option" where
  "requireGarageStorageRoleCapacity layoutPtr changes =
     (case layoutPtr of
        None \<Rightarrow> Some LayoutUnavailable
      | Some layout \<Rightarrow>
          (let n = length (projectedGarageStorageRoleIDs layout changes) in
           fail_if (garageMaximumStorageRoles < n) (TooManyStorageRoles n)))"

subsection \<open>Stage and Apply\<close>

text \<open>
  The Garage service is a parameter with a world \<open>'w\<close>: \<open>get_layout\<close> reads the layout and
  \<open>apply_layout\<close> commits what is staged under a target version.  Both return the world after
  the call, so that other writers of the shared staging area may act at any call.  Failures
  have type \<open>'f\<close>.  The caller's \<open>stage\<close> and \<open>beforeApply\<close> closures are optional, as in the
  source.
\<close>

datatype 'f apply_error =
    Staging staging_error
  | StageFailed 'f
  | RereadFailed 'f
  | BeforeApplyRefused 'f
  | ApplyFailed 'f

definition ApplyStagedLayoutChanges ::
    "('w \<Rightarrow> ('f + ClusterLayout) \<times> 'w) \<Rightarrow> (u64 \<Rightarrow> 'w \<Rightarrow> 'f option \<times> 'w) \<Rightarrow> 'w \<Rightarrow> 'f option \<times> 'w" where
  "ApplyStagedLayoutChanges get_layout apply_layout w =
     (case get_layout w of
        (Inl f, w1) \<Rightarrow> (Some f, w1)
      | (Inr layout, w1) \<Rightarrow>
          if cl_StagedRoleChanges layout = [] \<and> cl_StagedParameters layout = None then (None, w1)
          else apply_layout (cl_Version layout + 1) w1)"

definition run_stage :: "('w \<Rightarrow> 'f option \<times> 'w) option \<Rightarrow> 'w \<Rightarrow> 'f option \<times> 'w" where
  "run_stage stage w = (case stage of None \<Rightarrow> (None, w) | Some f \<Rightarrow> f w)"

definition run_check :: "(ClusterLayout \<Rightarrow> 'f option) option \<Rightarrow> ClusterLayout \<Rightarrow> 'f option" where
  "run_check beforeApply staged = (case beforeApply of None \<Rightarrow> None | Some check \<Rightarrow> check staged)"

text \<open>The result pairs the value or error the caller sees with the world that is left.\<close>

definition stageAndApplyExclusiveLayoutWithCheck ::
    "('w \<Rightarrow> ('f + ClusterLayout) \<times> 'w) \<Rightarrow> (u64 \<Rightarrow> 'w \<Rightarrow> 'f option \<times> 'w) \<Rightarrow> 'w
     \<Rightarrow> ClusterLayout option \<Rightarrow> NodeRoleChange list \<Rightarrow> LayoutParameters option
     \<Rightarrow> ('w \<Rightarrow> 'f option \<times> 'w) option \<Rightarrow> (ClusterLayout \<Rightarrow> 'f option) option
     \<Rightarrow> ('f apply_error + ClusterLayout) \<times> 'w" where
  "stageAndApplyExclusiveLayoutWithCheck get_layout apply_layout w layout intendedRoles
       intendedParameters stage beforeApply =
     (case requireExclusiveStagedLayoutChanges layout intendedRoles intendedParameters False of
        Some e \<Rightarrow> (Inl (Staging e), w)
      | None \<Rightarrow>
     (case requireGarageStorageRoleCapacity layout intendedRoles of
        Some e \<Rightarrow> (Inl (Staging e), w)
      | None \<Rightarrow>
     (case run_stage stage w of
        (Some f, w1) \<Rightarrow> (Inl (StageFailed f), w1)
      | (None, w1) \<Rightarrow>
     (case get_layout w1 of
        (Inl f, w2) \<Rightarrow> (Inl (RereadFailed f), w2)
      | (Inr staged, w2) \<Rightarrow>
     (case requireExclusiveStagedLayoutChanges (Some staged) intendedRoles intendedParameters True of
        Some e \<Rightarrow> (Inl (Staging e), w2)
      | None \<Rightarrow>
     (case requireGarageStorageRoleCapacity (Some staged) (cl_StagedRoleChanges staged) of
        Some e \<Rightarrow> (Inl (Staging e), w2)
      | None \<Rightarrow>
        if cl_StagedRoleChanges staged = [] \<and> cl_StagedParameters staged = None then (Inr staged, w2)
        else
     (case run_check beforeApply staged of
        Some f \<Rightarrow> (Inl (BeforeApplyRefused f), w2)
      | None \<Rightarrow>
     (case ApplyStagedLayoutChanges get_layout apply_layout w2 of
        (Some f, w3) \<Rightarrow> (Inl (ApplyFailed f), w3)
      | (None, w3) \<Rightarrow> (Inr staged, w3)))))))))"


subsection \<open>Lemmas\<close>

lemma count_tags_count: "count_tags a t = int (count (mset a) t)"
proof -
  have "fold (\<lambda>tag counts. counts(tag := counts tag + 1)) a f t = f t + int (count (mset a) t)"
    for f :: "string \<Rightarrow> int"
    by (induction a arbitrary: f) auto
  then show ?thesis by (simp add: count_tags_def)
qed

lemma consume_tags_iff:
  "(\<And>t. 0 \<le> counts t) \<Longrightarrow> consume_tags counts b \<longleftrightarrow> (\<forall>t. int (count (mset b) t) \<le> counts t)"
proof (induction b arbitrary: counts)
  case (Cons x b)
  show ?case
  proof (cases "counts x \<le> 0")
    case True
    then have "\<not> int (count (mset (x # b)) x) \<le> counts x" by simp
    with True show ?thesis by auto
  next
    case False
    then have "consume_tags (counts(x := counts x - 1)) b \<longleftrightarrow>
        (\<forall>t. int (count (mset b) t) \<le> (counts(x := counts x - 1)) t)"
      using Cons.prems by (intro Cons.IH) auto
    with False show ?thesis by (auto simp: algebra_simps)
  qed
qed simp

lemma tagSetEqual_mset: "tagSetEqual a b \<longleftrightarrow> mset a = mset b"
proof -
  have "consume_tags (count_tags a) b \<longleftrightarrow> mset b \<subseteq># mset a"
    by (subst consume_tags_iff) (simp_all add: count_tags_count subseteq_mset_def)
  moreover have "mset b \<subseteq># mset a \<and> length a = length b \<longleftrightarrow> mset a = mset b"
    by (metis mset_subset_size order_less_irrefl size_mset subset_mset.antisym_conv2 subset_mset.order_refl)
  ultimately show ?thesis by (auto simp: tagSetEqual_def)
qed

definition same_change :: "NodeRoleChange \<Rightarrow> NodeRoleChange \<Rightarrow> bool" where
  "same_change c d \<longleftrightarrow> rc_ID c = rc_ID d \<and> rc_Remove c = rc_Remove d
     \<and> (rc_Remove c \<or> rc_Zone c = rc_Zone d \<and> mset (rc_Tags c) = mset (rc_Tags d)
                       \<and> rc_Capacity c = rc_Capacity d)"

lemma sameStagedRoleChange_iff: "sameStagedRoleChange c d \<longleftrightarrow> same_change c d"
  by (auto simp: sameStagedRoleChange_def same_change_def tagSetEqual_mset)

text \<open>The change an operation intends for a node is its last one for that node.\<close>

definition last_change :: "NodeRoleChange list \<Rightarrow> string \<Rightarrow> NodeRoleChange option" where
  "last_change xs i = find (\<lambda>c. rc_ID c = i) (rev xs)"

lemma map_of_wanted_changes: "map_of (wanted_changes xs) i = last_change xs i"
proof (induction xs rule: rev_induct)
  case (snoc x xs)
  then show ?case by (simp add: wanted_changes_def last_change_def)
qed (simp add: wanted_changes_def last_change_def)

lemma keys_wanted_changes: "fst ` set (wanted_changes xs) = rc_ID ` set xs"
proof -
  have "map_of (wanted_changes xs) i \<noteq> None \<longleftrightarrow> i \<in> rc_ID ` set xs" for i
    unfolding map_of_wanted_changes last_change_def by (auto simp: find_None_iff)
  then show ?thesis by (metis (no_types, lifting) map_of_eq_None_iff subset_antisym subset_eq)
qed

lemma exclusive_roles_iff:
  "requireExclusiveStagedRoleChanges (Some l) intended requireAll = None \<longleftrightarrow>
     (\<forall>c \<in> set (cl_StagedRoleChanges l). \<exists>d. last_change intended (rc_ID c) = Some d \<and> same_change c d)
     \<and> (requireAll \<longrightarrow> rc_ID ` set intended \<subseteq> rc_ID ` set (cl_StagedRoleChanges l))"
proof -
  have "(\<forall>kv \<in> set (wanted_changes intended). fst kv \<in> A) \<longleftrightarrow> rc_ID ` set intended \<subseteq> A" for A
    by (simp add: keys_wanted_changes [symmetric] image_subset_iff)
  then show ?thesis
    by (auto simp: requireExclusiveStagedRoleChanges_def Let_def map_of_wanted_changes
        sameStagedRoleChange_iff case_prod_beta split: option.splits)
qed

lemma exclusive_layout_iff:
  "requireExclusiveStagedLayoutChanges (Some l) roles params requireAll = None \<longleftrightarrow>
     requireExclusiveStagedRoleChanges (Some l) roles requireAll = None
     \<and> (cl_StagedParameters l = None \<or> cl_StagedParameters l = params)
     \<and> (requireAll \<longrightarrow> params \<noteq> None \<longrightarrow> cl_StagedParameters l = None \<longrightarrow> cl_Parameters l = params)"
  by (auto simp: requireExclusiveStagedLayoutChanges_def)

lemma distinct_committed_storage_roles: "distinct (committed_storage_roles l)"
proof -
  have "distinct acc \<Longrightarrow> distinct (foldl (\<lambda>acc role. if lr_Capacity role \<noteq> None
      then List.insert (CanonicalGarageNodeID (lr_ID role)) acc else acc) acc rs)" for acc rs
    by (induction rs arbitrary: acc) auto
  from this [of "[]" "cl_Roles l"] show ?thesis unfolding committed_storage_roles_def by simp
qed

lemma set_committed_storage_roles:
  "set (committed_storage_roles l) =
     {CanonicalGarageNodeID (lr_ID r) | r. r \<in> set (cl_Roles l) \<and> lr_Capacity r \<noteq> None}"
proof -
  have "set (foldl (\<lambda>acc role. if lr_Capacity role \<noteq> None
      then List.insert (CanonicalGarageNodeID (lr_ID role)) acc else acc) acc rs)
      = set acc \<union> {CanonicalGarageNodeID (lr_ID r) | r. r \<in> set rs \<and> lr_Capacity r \<noteq> None}" for acc rs
    by (induction rs arbitrary: acc) auto
  from this [of "[]" "cl_Roles l"] show ?thesis unfolding committed_storage_roles_def by simp
qed

text \<open>The effect of a list of changes on one identifier: the last change that names it decides.\<close>

definition storage_after :: "ClusterLayout \<Rightarrow> NodeRoleChange list \<Rightarrow> string \<Rightarrow> bool" where
  "storage_after l changes i =
     (case find (\<lambda>c. CanonicalGarageNodeID (rc_ID c) = i \<and> i \<noteq> []) (rev changes) of
        Some c \<Rightarrow> \<not> rc_Remove c \<and> rc_Capacity c \<noteq> None
      | None \<Rightarrow> i \<in> set (committed_storage_roles l))"

lemma mem_projected: "i \<in> set (projectedGarageStorageRoleIDs l changes) \<longleftrightarrow> storage_after l changes i"
proof (induction changes rule: rev_induct)
  case (snoc x xs)
  then show ?case
    by (auto simp: projectedGarageStorageRoleIDs_def storage_after_def project_change_def Let_def)
qed (simp add: projectedGarageStorageRoleIDs_def storage_after_def)

lemma distinct_projected: "distinct (projectedGarageStorageRoleIDs l changes)"
proof (induction changes rule: rev_induct)
  case (snoc x xs)
  then show ?case
    by (auto simp: projectedGarageStorageRoleIDs_def project_change_def Let_def distinct_removeAll)
qed (simp add: projectedGarageStorageRoleIDs_def distinct_committed_storage_roles)

lemma role_capacity_iff:
  "requireGarageStorageRoleCapacity (Some l) changes = None
     \<longleftrightarrow> card {i. storage_after l changes i} \<le> 256"
proof -
  have "{i. storage_after l changes i} = set (projectedGarageStorageRoleIDs l changes)"
    by (auto simp: mem_projected)
  then have "card {i. storage_after l changes i} = length (projectedGarageStorageRoleIDs l changes)"
    by (simp add: distinct_card distinct_projected)
  then show ?thesis
    by (auto simp: requireGarageStorageRoleCapacity_def garageMaximumStorageRoles_def Let_def)
qed


lemma settled_history_None:
  "requireSettledLayoutHistoryResponse (Some h) = None
     \<longleftrightarrow> (\<forall>v \<in> set (lh_Versions h). lv_Status v \<noteq> LayoutVersionStatusDraining) \<or> DataMigrationSettled h"
  by (auto simp: requireSettledLayoutHistoryResponse_def GetDrainingVersions_def Let_def filter_empty_conv)

subsection \<open>Properties\<close>

text \<open>
  The comparison of tag lists by counting (a length test, then one decrement per element) is
  equality of multisets: order is ignored and multiplicity is not.
\<close>

theorem tag_set_equal_is_multiset_equality: "tagSetEqual a b \<longleftrightarrow> mset a = mset b"
  by (rule tagSetEqual_mset)

text \<open>
  The settled-history gate passes exactly when no layout version is draining, or every one of
  the at least one node trackers has synchronised the current version; a missing history never
  passes.
\<close>

theorem settled_history_iff:
  "requireSettledLayoutHistoryResponse history = None \<longleftrightarrow>
     (\<exists>h. history = Some h \<and>
        ((\<forall>v \<in> set (lh_Versions h). lv_Status v \<noteq> LayoutVersionStatusDraining)
         \<or> lh_UpdateTrackers h \<noteq> []
            \<and> (\<forall>kt \<in> set (lh_UpdateTrackers h). lh_CurrentVersion h \<le> nt_Sync (snd kt))))"
proof (cases history)
  case None
  then show ?thesis by (simp add: requireSettledLayoutHistoryResponse_def)
next
  case (Some h)
  have "DataMigrationSettled h \<longleftrightarrow> lh_UpdateTrackers h \<noteq> []
      \<and> (\<forall>kt \<in> set (lh_UpdateTrackers h). lh_CurrentVersion h \<le> nt_Sync (snd kt))"
    by (auto simp: DataMigrationSettled_def list_all_iff not_less)
  with Some show ?thesis by (simp add: settled_history_None)
qed

theorem settled_history_iff_witness:
  "requireSettledLayoutHistoryResponse (Some \<lparr>lh_CurrentVersion = 2, lh_MinAck = 1,
     lh_Versions = [\<lparr>lv_Version = 1, lv_Status = LayoutVersionStatusDraining, lv_StorageNodes = 3, lv_GatewayNodes = 0\<rparr>],
     lh_UpdateTrackers = [(''n'', \<lparr>nt_Ack = 1, nt_Sync = 2, nt_SyncAck = 1\<rparr>)]\<rparr>) = None"
  by (subst settled_history_iff) simp

text \<open>
  Exclusive ownership of Garage's staging area: the check passes exactly when every staged role
  change is, up to the order of its tags, the last change the operation intends for that node, the
  staged parameters are absent or the intended ones, and, when completeness is required, every
  intended node has a staged change and intended parameters are staged or already committed.
\<close>

theorem exclusive_staging_iff:
  "requireExclusiveStagedLayoutChanges (Some l) roles params requireAll = None \<longleftrightarrow>
     (\<forall>c \<in> set (cl_StagedRoleChanges l). \<exists>d. last_change roles (rc_ID c) = Some d \<and> same_change c d)
     \<and> (cl_StagedParameters l = None \<or> cl_StagedParameters l = params)
     \<and> (requireAll \<longrightarrow> rc_ID ` set roles \<subseteq> rc_ID ` set (cl_StagedRoleChanges l)
          \<and> (params = None \<or> cl_StagedParameters l \<noteq> None \<or> cl_Parameters l = params))"
  by (auto simp: exclusive_layout_iff exclusive_roles_iff)

definition sample_change :: NodeRoleChange where
  "sample_change = \<lparr>rc_ID = sample_id CHR ''a'', rc_Zone = ''dc1'', rc_Capacity = Some 10,
     rc_Tags = [''x'', ''y''], rc_Remove = False\<rparr>"

definition sample_layout :: ClusterLayout where
  "sample_layout = \<lparr>cl_Version = 3, cl_Roles = [], cl_Parameters = None, cl_PartitionSize = 0,
     cl_StagedRoleChanges = [sample_change\<lparr>rc_Tags := [''y'', ''x'']\<rparr>], cl_StagedParameters = None\<rparr>"

lemma sample_last_change: "last_change [sample_change] (sample_id CHR ''a'') = Some sample_change"
  by (simp add: last_change_def sample_change_def)

theorem exclusive_staging_iff_witness:
  "requireExclusiveStagedLayoutChanges (Some sample_layout) [sample_change] None True = None"
proof -
  have "same_change (sample_change\<lparr>rc_Tags := [''y'', ''x'']\<rparr>) sample_change"
    by (simp add: same_change_def sample_change_def)
  moreover have "last_change [sample_change] (rc_ID (sample_change\<lparr>rc_Tags := [''y'', ''x'']\<rparr>)) = Some sample_change"
    using sample_last_change by (simp add: sample_change_def)
  moreover have "rc_ID (sample_change\<lparr>rc_Tags := [''y'', ''x'']\<rparr>) = rc_ID sample_change" by simp
  ultimately show ?thesis
    using exclusive_staging_iff [of sample_layout "[sample_change]" None True]
    by (simp add: sample_layout_def)
qed

text \<open>
  The projection of storage roles is exact: after the check, an identifier has a storage role
  exactly when the last change naming it assigns a capacity, or no change names it and the
  committed layout gives it one; the gate passes exactly when at most 256 identifiers do, and no
  identifier is counted twice.
\<close>

theorem storage_role_capacity_iff:
  "distinct (projectedGarageStorageRoleIDs l changes)
   \<and> set (projectedGarageStorageRoleIDs l changes) = {i. storage_after l changes i}
   \<and> (requireGarageStorageRoleCapacity (Some l) changes = None
        \<longleftrightarrow> card {i. storage_after l changes i} \<le> 256)"
  by (auto simp: distinct_projected mem_projected role_capacity_iff)

text \<open>
  The mutation of the world by a run that does not reach Apply: nothing, the caller's stage
  closure, or the stage closure and the re-read.
\<close>

definition before_apply_worlds ::
    "('w \<Rightarrow> ('f + ClusterLayout) \<times> 'w) \<Rightarrow> ('w \<Rightarrow> 'f option \<times> 'w) option \<Rightarrow> 'w \<Rightarrow> 'w set" where
  "before_apply_worlds get_layout stage w =
     {w, snd (run_stage stage w), snd (get_layout (snd (run_stage stage w)))}"

definition apply_gate ::
    "ClusterLayout \<Rightarrow> NodeRoleChange list \<Rightarrow> LayoutParameters option
     \<Rightarrow> (ClusterLayout \<Rightarrow> 'f option) option \<Rightarrow> bool" where
  "apply_gate staged roles params beforeApply \<longleftrightarrow>
     requireExclusiveStagedLayoutChanges (Some staged) roles params True = None
     \<and> card {i. storage_after staged (cl_StagedRoleChanges staged) i} \<le> 256
     \<and> (cl_StagedRoleChanges staged = [] \<and> cl_StagedParameters staged = None
        \<or> run_check beforeApply staged = None)"


end
