(* ===== verification/LayoutAcquire.thy ===== *)
theory LayoutAcquire
  imports LayoutCoordinator LayoutStaging
begin

text \<open>
  Who may change a Garage layout, from internal/controller/layout_mutation_coordinator.go: the key
  and the marker identity of a layout, the drain and rollout boundaries read from status, the six
  acquisition paths, the restoration of markers from durable status after a restart, and the entry
  points that run a mutation between acquisition and release.
\<close>

subsection \<open>The key of a layout\<close>

definition endpoint_fingerprint :: "(string \<Rightarrow> string) \<Rightarrow> string \<Rightarrow> NamespacedName" where
  "endpoint_fingerprint sum256 endpoint =
     \<lparr>nn_Namespace = ''external-garage-layout'',
      nn_Name = take 32 (sum256 (ToLower (trim_right (\<lambda>c. c = CHR ''/'') (TrimSpace endpoint))))\<rparr>"

definition layoutOwnerKey :: "(string \<Rightarrow> string) \<Rightarrow> GarageCluster option \<Rightarrow> NamespacedName" where
  "layoutOwnerKey sum256 cluster =
     (case cluster of
        None \<Rightarrow> zero_key
      | Some c \<Rightarrow>
          (case cs_ConnectTo (gc_Spec c) of
             None \<Rightarrow> cluster_key c
           | Some ct \<Rightarrow>
               if \<not> HasStorageTier cluster \<and> IsManagementHandle cluster \<and> ct_AdminAPIEndpoint ct \<noteq> []
               then endpoint_fingerprint sum256 (ct_AdminAPIEndpoint ct)
               else (case (HasStorageTier cluster, ct_ClusterRef ct) of
                       (False, Some ref) \<Rightarrow>
                         \<lparr>nn_Namespace = (if ref_Namespace ref \<noteq> [] then ref_Namespace ref else gc_Namespace c),
                          nn_Name = ref_Name ref\<rparr>
                     | _ \<Rightarrow>
                         if \<not> HasStorageTier cluster \<and> ct_AdminAPIEndpoint ct \<noteq> []
                         then endpoint_fingerprint sum256 (ct_AdminAPIEndpoint ct)
                         else cluster_key c)))"

definition layoutRolloutOwnerID :: "(string \<Rightarrow> string) \<Rightarrow> GarageCluster option \<Rightarrow> string" where
  "layoutRolloutOwnerID sum256 cluster =
     (case cluster of
        None \<Rightarrow> []
      | Some c \<Rightarrow>
          (let key = layoutOwnerKey sum256 cluster in
           if key = cluster_key c then gc_UID c else ''layout-key:'' @ NamespacedName_String key))"

subsection \<open>Boundaries read from status\<close>

definition storageDrainConditionActive :: "GarageCluster option \<Rightarrow> bool" where
  "storageDrainConditionActive cluster =
     (case cluster of None \<Rightarrow> False | Some c \<Rightarrow> cst_StorageDrain (gc_Status c) \<noteq> None)"

definition nodeLocalPoolRolloutConditionActive :: "GarageCluster option \<Rightarrow> bool" where
  "nodeLocalPoolRolloutConditionActive cluster =
     (case cluster of
        None \<Rightarrow> False
      | Some c \<Rightarrow>
          if cst_StorageRollout (gc_Status c) \<noteq> None then True
          else (case FindStatusCondition (cst_Conditions (gc_Status c)) ConditionStorageRolloutReady of
                  None \<Rightarrow> False
                | Some condition \<Rightarrow> cond_Status condition = ConditionFalse
                                      \<and> cond_Reason condition = ReasonStorageRollingOut))"

definition storageRolloutMutationBoundaryActive :: "GarageCluster option \<Rightarrow> bool" where
  "storageRolloutMutationBoundaryActive cluster =
     (case cluster of
        None \<Rightarrow> False
      | Some c \<Rightarrow>
          if cst_StorageRollout (gc_Status c) = None \<and> cst_StorageDrain (gc_Status c) \<noteq> None then False
          else if cst_StorageRollout (gc_Status c) \<noteq> None then True
          else (case FindStatusCondition (cst_Conditions (gc_Status c)) ConditionStorageRolloutReady of
                  None \<Rightarrow> False
                | Some condition \<Rightarrow>
                    if cond_Status condition = ConditionTrue
                    then cond_ObservedGeneration condition \<noteq> gc_Generation c
                    else cond_Reason condition \<noteq> ReasonStorageRolloutInitializing))"

definition storageRolloutBoundaryActive :: "GarageCluster option \<Rightarrow> bool" where
  "storageRolloutBoundaryActive cluster =
     (case cluster of None \<Rightarrow> False | Some c \<Rightarrow> \<not> IsManagementHandle cluster)"

subsection \<open>Acquisition\<close>

text \<open>Every refusal wraps errLayoutMutationPending.\<close>

datatype acquire_error =
    DrainStillCompleting NamespacedName
  | RolloutStillCompleting NamespacedName
  | NotTheDrainActor
  | OtherDrainRevision NamespacedName
  | MarkerLost
  | OwnerDraining
  | SourceHandoff
  | RetirementNeedsGateway
  | AnotherReconciler NamespacedName

definition acquireLayoutMutationUnconditionally ::
    "NamespacedName \<Rightarrow> coordinator \<Rightarrow> (acquire_error + releaseFn) \<times> coordinator" where
  "acquireLayoutMutationUnconditionally key coord =
     (case TryAcquire key coord of
        (None, coord1) \<Rightarrow> (Inl (AnotherReconciler key), coord1)
      | (Some release, coord1) \<Rightarrow> (Inr release, coord1))"

definition acquireLayoutMutation ::
    "(string \<Rightarrow> string) \<Rightarrow> coordinator \<Rightarrow> GarageCluster option \<Rightarrow> (acquire_error + releaseFn) \<times> coordinator" where
  "acquireLayoutMutation sum256 coord cluster =
     (let key = layoutOwnerKey sum256 cluster in
      if StorageDrainActive key coord \<or> storageDrainConditionActive cluster
      then (Inl (DrainStillCompleting key), coord)
      else if NodeLocalPoolRolloutActive key coord \<or> storageRolloutMutationBoundaryActive cluster
      then (Inl (RolloutStillCompleting key), coord)
      else acquireLayoutMutationUnconditionally key coord)"

definition acquireLayoutMutationIgnoringNodeLocalPoolRollout ::
    "(string \<Rightarrow> string) \<Rightarrow> coordinator \<Rightarrow> GarageCluster option \<Rightarrow> (acquire_error + releaseFn) \<times> coordinator" where
  "acquireLayoutMutationIgnoringNodeLocalPoolRollout sum256 coord cluster =
     (let key = layoutOwnerKey sum256 cluster in
      if StorageDrainActive key coord \<or> storageDrainConditionActive cluster
      then (Inl (DrainStillCompleting key), coord)
      else acquireLayoutMutationUnconditionally key coord)"

definition acquireLayoutMutationDuringStorageRolloutPrepare ::
    "(string \<Rightarrow> string) \<Rightarrow> coordinator \<Rightarrow> GarageCluster option \<Rightarrow> (acquire_error + releaseFn) \<times> coordinator" where
  "acquireLayoutMutationDuringStorageRolloutPrepare sum256 coord cluster =
     (let key = layoutOwnerKey sum256 cluster in
      if StorageDrainActive key coord \<or> storageDrainConditionActive cluster
      then (Inl (DrainStillCompleting key), coord)
      else if NodeLocalPoolRolloutActive key coord \<or> nodeLocalPoolRolloutConditionActive cluster
      then (Inl (RolloutStillCompleting key), coord)
      else acquireLayoutMutationUnconditionally key coord)"

text \<open>
  The exact actor of a drain makes sure its marker is published and confirmed:
  \<open>!Active && !Begin\<close>, then Confirm.
\<close>

definition publish_drain_marker ::
    "NamespacedName \<Rightarrow> string \<Rightarrow> string \<Rightarrow> string \<Rightarrow> string \<Rightarrow> coordinator \<Rightarrow> acquire_error option \<times> coordinator" where
  "publish_drain_marker key ownerID actorUID transactionID targetHash coord =
     (let (ok, coord1) =
            (if StorageDrainActorActive key ownerID actorUID transactionID targetHash coord then (True, coord)
             else BeginStorageDrain key ownerID actorUID transactionID targetHash coord) in
      if \<not> ok then (Some (OtherDrainRevision key), coord1)
      else let (confirmed, coord2) = ConfirmStorageDrain key ownerID actorUID transactionID targetHash coord1 in
           if \<not> confirmed then (Some MarkerLost, coord2) else (None, coord2))"

definition acquireLayoutMutationIgnoringStorageDrain ::
    "(string \<Rightarrow> string) \<Rightarrow> coordinator \<Rightarrow> GarageCluster \<Rightarrow> storageDrainActor
     \<Rightarrow> (acquire_error + releaseFn) \<times> coordinator" where
  "acquireLayoutMutationIgnoringStorageDrain sum256 coord cluster actor =
     (case cst_StorageDrain (gc_Status cluster) of
        None \<Rightarrow> (Inl NotTheDrainActor, coord)
      | Some status \<Rightarrow>
          if \<not> storageDrainActorMatches (Some status) actor then (Inl NotTheDrainActor, coord)
          else
            let key = layoutOwnerKey sum256 (Some cluster) in
            if NodeLocalPoolRolloutActive key coord \<or> storageRolloutMutationBoundaryActive (Some cluster)
            then (Inl (RolloutStillCompleting key), coord)
            else (case publish_drain_marker key (layoutRolloutOwnerID sum256 (Some cluster)) (da_UID actor)
                         (sds_TransactionID status) (sds_TargetHash status) coord of
                    (Some e, coord1) \<Rightarrow> (Inl e, coord1)
                  | (None, coord1) \<Rightarrow> acquireLayoutMutationUnconditionally key coord1))"

text \<open>
  The checks the two capacity-less retirement paths share: a durable drain on \<open>holder\<close> must be a
  role-only drain of \<open>actor\<close>, whose marker is then published; no other drain marker may be active.
\<close>

definition own_role_only_drain ::
    "NamespacedName \<Rightarrow> string \<Rightarrow> StorageDrainStatus option \<Rightarrow> storageDrainActor \<Rightarrow> coordinator
     \<Rightarrow> acquire_error option \<times> coordinator" where
  "own_role_only_drain key ownerID drain actor coord =
     (case clusterStorageDrainProof drain of
        None \<Rightarrow> (if StorageDrainActive key coord then (Some (OtherDrainRevision key), coord) else (None, coord))
      | Some p \<Rightarrow>
          if \<not> (sameStorageDrainActor (bp_Actor p) actor \<and> length (bp_RemovedStorageNodeIDs p) = 0)
          then (Some (OtherDrainRevision key), coord)
          else (case publish_drain_marker key ownerID (da_UID actor) (bp_TransactionID p) (bp_TargetHash p) coord of
                  (Some e, coord1) \<Rightarrow> (Some e, coord1)
                | (None, coord1) \<Rightarrow>
                    if StorageDrainActive key coord1
                       \<and> \<not> StorageDrainActorActive key ownerID (da_UID actor) (bp_TransactionID p) (bp_TargetHash p) coord1
                    then (Some (OtherDrainRevision key), coord1)
                    else (None, coord1)))"

definition acquireCapacitylessRoleRetirementMutation ::
    "(string \<Rightarrow> string) \<Rightarrow> coordinator \<Rightarrow> GarageCluster option \<Rightarrow> GarageCluster
     \<Rightarrow> (acquire_error + releaseFn) \<times> coordinator" where
  "acquireCapacitylessRoleRetirementMutation sum256 coord owner source =
     (let key = layoutOwnerKey sum256 owner;
          actor = storageDrainActorForCluster (Some source) in
      case own_role_only_drain key (layoutRolloutOwnerID sum256 owner) (cst_StorageDrain (gc_Status source)) actor coord of
        (Some e, coord1) \<Rightarrow> (Inl e, coord1)
      | (None, coord1) \<Rightarrow>
          (let sameOwner = (case owner of None \<Rightarrow> False
                 | Some o' \<Rightarrow> gc_UID o' = gc_UID source \<and> gc_Namespace o' = gc_Namespace source
                               \<and> gc_Name o' = gc_Name source) in
           if \<not> sameOwner \<and> storageDrainConditionActive owner then (Inl OwnerDraining, coord1)
           else if NodeLocalPoolRolloutActive key coord1 then (Inl (RolloutStillCompleting key), coord1)
           else if nodeLocalPoolRolloutConditionActive (Some source) then (Inl SourceHandoff, coord1)
           else if \<not> sameOwner \<and> storageRolloutMutationBoundaryActive owner
           then (Inl (RolloutStillCompleting key), coord1)
           else acquireLayoutMutationUnconditionally key coord1))"

definition acquireCapacitylessGarageNodeRetirementMutation ::
    "(string \<Rightarrow> string) \<Rightarrow> coordinator \<Rightarrow> GarageCluster option \<Rightarrow> GarageNode option
     \<Rightarrow> (acquire_error + releaseFn) \<times> coordinator" where
  "acquireCapacitylessGarageNodeRetirementMutation sum256 coord owner node =
     (case (owner, node) of
        (Some ow, Some n) \<Rightarrow>
          if \<not> ns_Gateway (gn_Spec n) then (Inl RetirementNeedsGateway, coord)
          else
            (let key = layoutOwnerKey sum256 owner;
                 actor = storageDrainActorForNode node in
             case own_role_only_drain key (layoutRolloutOwnerID sum256 owner) (cst_StorageDrain (gc_Status ow)) actor coord of
               (Some e, coord1) \<Rightarrow> (Inl e, coord1)
             | (None, coord1) \<Rightarrow>
                 if NodeLocalPoolRolloutActive key coord1 \<or> nodeLocalPoolRolloutConditionActive owner
                 then (Inl (RolloutStillCompleting key), coord1)
                 else if (HasStorageTier owner \<or> HasNodeLocalPools owner) \<and> storageRolloutMutationBoundaryActive owner
                 then (Inl (RolloutStillCompleting key), coord1)
                 else acquireLayoutMutationUnconditionally key coord1)
      | _ \<Rightarrow> (Inl RetirementNeedsGateway, coord))"


subsection \<open>Running a mutation\<close>

text \<open>
  A mutation may use the coordinator and the world \<open>'w\<close> of the Garage service; it returns an
  optional failure.  The release closure is deferred, so it runs on every path after acquisition.
\<close>

type_synonym ('w, 'f) mutation = "coordinator \<Rightarrow> 'w \<Rightarrow> 'f option \<times> coordinator \<times> 'w"

datatype 'f mutation_error =
    AcquireRefused acquire_error
  | HistoryReadFailed 'f
  | HistoryUnsettled staging_error
  | MutateFailed 'f
  | ResolveFailed resolve_error
  | ReferringBoundary
  | RecoveryWaitsForRollout
  | RetirementRestricted

definition requireSettledLayoutHistory ::
    "('w \<Rightarrow> ('f + LayoutHistoryResponse) \<times> 'w) \<Rightarrow> 'w \<Rightarrow> 'f mutation_error option \<times> 'w" where
  "requireSettledLayoutHistory get_history w =
     (case get_history w of
        (Inl f, w1) \<Rightarrow> (Some (HistoryReadFailed f), w1)
      | (Inr history, w1) \<Rightarrow> (map_option HistoryUnsettled (requireSettledLayoutHistoryResponse (Some history)), w1))"

definition mutate_then_release ::
    "releaseFn \<Rightarrow> ('w, 'f) mutation \<Rightarrow> coordinator \<Rightarrow> 'w \<Rightarrow> 'f mutation_error option \<times> coordinator \<times> 'w" where
  "mutate_then_release release mutate coord w =
     (case mutate coord w of (r, coord1, w1) \<Rightarrow> (map_option MutateFailed r, snd (call_release release coord1), w1))"

definition run_administrative ::
    "(acquire_error + releaseFn) \<times> coordinator \<Rightarrow> ('w, 'f) mutation \<Rightarrow> 'w
     \<Rightarrow> 'f mutation_error option \<times> coordinator \<times> 'w" where
  "run_administrative acquired mutate w =
     (case acquired of
        (Inl e, coord1) \<Rightarrow> (Some (AcquireRefused e), coord1, w)
      | (Inr release, coord1) \<Rightarrow> mutate_then_release release mutate coord1 w)"

definition run_settled ::
    "(acquire_error + releaseFn) \<times> coordinator \<Rightarrow> ('w \<Rightarrow> ('f + LayoutHistoryResponse) \<times> 'w)
     \<Rightarrow> ('w, 'f) mutation \<Rightarrow> 'w \<Rightarrow> 'f mutation_error option \<times> coordinator \<times> 'w" where
  "run_settled acquired get_history mutate w =
     (case acquired of
        (Inl e, coord1) \<Rightarrow> (Some (AcquireRefused e), coord1, w)
      | (Inr release, coord1) \<Rightarrow>
          (case requireSettledLayoutHistory get_history w of
             (Some e, w1) \<Rightarrow> (Some e, snd (call_release release coord1), w1)
           | (None, w1) \<Rightarrow> mutate_then_release release mutate coord1 w1))"

definition runLayoutMutation where
  "runLayoutMutation sum256 coord cluster get_history mutate w =
     run_settled (acquireLayoutMutation sum256 coord cluster) get_history mutate w"

definition runLayoutMutationIgnoringNodeLocalPoolRollout where
  "runLayoutMutationIgnoringNodeLocalPoolRollout sum256 coord cluster get_history mutate w =
     run_settled (acquireLayoutMutationIgnoringNodeLocalPoolRollout sum256 coord cluster) get_history mutate w"

definition runLayoutMutationDuringStorageRolloutPrepare where
  "runLayoutMutationDuringStorageRolloutPrepare sum256 coord cluster get_history mutate w =
     run_settled (acquireLayoutMutationDuringStorageRolloutPrepare sum256 coord cluster) get_history mutate w"

definition runLayoutMutationIgnoringStorageDrain where
  "runLayoutMutationIgnoringStorageDrain sum256 coord cluster actor get_history mutate w =
     run_settled (acquireLayoutMutationIgnoringStorageDrain sum256 coord cluster actor) get_history mutate w"

definition runLayoutAdministrativeMutation where
  "runLayoutAdministrativeMutation sum256 coord cluster mutate w =
     run_administrative (acquireLayoutMutation sum256 coord cluster) mutate w"

definition runCapacitylessGarageNodeRoleRetirementMutation where
  "runCapacitylessGarageNodeRoleRetirementMutation sum256 coord owner node mutate w =
     run_administrative (acquireCapacitylessGarageNodeRetirementMutation sum256 coord owner node) mutate w"

text \<open>
  The resolved entry points.  \<open>None\<close> is a traversal that does not return.  The code compares the
  owner's pointer with the cluster's; the resolver returns the pointer it was given exactly when
  the cluster itself ends the chain, so \<open>owner != cluster\<close> is \<open>\<not> layout_terminal cluster\<close>.
\<close>

definition runResolvedLayoutMutation where
  "runResolvedLayoutMutation sum256 env reader coord cluster get_history mutate w =
     map_option (\<lambda>r. case r of
         Inl e \<Rightarrow> (Some (ResolveFailed e), coord, w)
       | Inr owner \<Rightarrow>
           if \<not> layout_terminal cluster
              \<and> (storageDrainConditionActive (Some cluster) \<or> storageRolloutMutationBoundaryActive (Some cluster))
           then (Some ReferringBoundary, coord, w)
           else runLayoutMutation sum256 coord (Some owner) get_history mutate w)
       (resolveGarageLayoutOwner env reader (Some cluster))"

definition runResolvedLayoutAdministrativeMutation where
  "runResolvedLayoutAdministrativeMutation sum256 env reader coord cluster mutate w =
     map_option (\<lambda>r. case r of
         Inl e \<Rightarrow> (Some (ResolveFailed e), coord, w)
       | Inr owner \<Rightarrow>
           if \<not> layout_terminal cluster
              \<and> (storageDrainConditionActive (Some cluster) \<or> storageRolloutMutationBoundaryActive (Some cluster))
           then (Some ReferringBoundary, coord, w)
           else runLayoutAdministrativeMutation sum256 coord (Some owner) mutate w)
       (resolveGarageLayoutOwner env reader (Some cluster))"

definition runResolvedExplicitDeadNodeRecoveryMutation where
  "runResolvedExplicitDeadNodeRecoveryMutation sum256 env reader coord cluster mutate w =
     map_option (\<lambda>r. case r of
         Inl e \<Rightarrow> (Some (ResolveFailed e), coord, w)
       | Inr owner \<Rightarrow>
           (let key = layoutOwnerKey sum256 (Some owner) in
            if NodeLocalPoolRolloutActive key coord \<or> storageRolloutMutationBoundaryActive (Some owner)
               \<or> (\<not> layout_terminal cluster \<and> storageRolloutMutationBoundaryActive (Some cluster))
            then (Some RecoveryWaitsForRollout, coord, w)
            else run_administrative (acquireLayoutMutationUnconditionally key coord) mutate w))
       (resolveGarageLayoutOwner env reader (Some cluster))"

definition runResolvedCapacitylessRoleRetirementMutation where
  "runResolvedCapacitylessRoleRetirementMutation sum256 env reader coord clusterPtr mutate w =
     (case clusterPtr of
        None \<Rightarrow> Some (Some RetirementRestricted, coord, w)
      | Some cluster \<Rightarrow>
          if \<not> gc_Deleting cluster \<or> \<not> HasGatewayTier clusterPtr \<or> HasStorageTier clusterPtr
             \<or> HasNodeLocalPools clusterPtr
          then Some (Some RetirementRestricted, coord, w)
          else map_option (\<lambda>r. case r of
                   Inl e \<Rightarrow> (Some (ResolveFailed e), coord, w)
                 | Inr owner \<Rightarrow>
                     run_administrative (acquireCapacitylessRoleRetirementMutation sum256 coord (Some owner) cluster) mutate w)
                 (resolveGarageLayoutOwner env reader clusterPtr))"

subsection \<open>Restoring markers from durable status\<close>

text \<open>The Kubernetes reader: Get by key and List in a namespace, or everywhere.\<close>

record kube_reader =
  kr_Get :: cluster_reader
  kr_List :: "string option \<Rightarrow> get_error + GarageCluster list"

datatype rehydrate_error =
    PruneReadFailed get_error
  | OwnerReadFailed get_error
  | OwnerRecreated
  | ListFailed get_error
  | SourceUnresolved resolve_error
  | DifferentDrainRevision
  | CannotOvertake NamespacedName
  | LostMarkerInRehydration

definition list_sources :: "kube_reader \<Rightarrow> GarageCluster \<Rightarrow> bool \<Rightarrow> get_error + GarageCluster list" where
  "list_sources reader owner clusterScoped =
     (case kr_List reader (if clusterScoped then None else Some (gc_Namespace owner)) of
        Inl e \<Rightarrow> Inl e
      | Inr items \<Rightarrow> Inr (sort_key (\<lambda>c. NamespacedName_String (cluster_key c)) items))"

fun rehydrate_rollout_sources ::
    "(string \<Rightarrow> string) \<Rightarrow> kube_env \<Rightarrow> kube_reader \<Rightarrow> NamespacedName \<Rightarrow> string \<Rightarrow> GarageCluster list \<Rightarrow> coordinator
     \<Rightarrow> (rehydrate_error option \<times> coordinator) option" where
  "rehydrate_rollout_sources sum256 env reader key ownerID [] coord = Some (None, coord)"
| "rehydrate_rollout_sources sum256 env reader key ownerID (source # sources) coord =
     (if \<not> nodeLocalPoolRolloutConditionActive (Some source)
      then rehydrate_rollout_sources sum256 env reader key ownerID sources coord
      else (case resolveGarageLayoutOwner env (Some (kr_Get reader)) (Some source) of
              None \<Rightarrow> None
            | Some (Inl e) \<Rightarrow>
                if layoutOwnerKey sum256 (Some source) = key then Some (Some (SourceUnresolved e), coord)
                else rehydrate_rollout_sources sum256 env reader key ownerID sources coord
            | Some (Inr resolved) \<Rightarrow>
                if layoutOwnerKey sum256 (Some resolved) \<noteq> key \<or> layoutRolloutOwnerID sum256 (Some resolved) \<noteq> ownerID
                then rehydrate_rollout_sources sum256 env reader key ownerID sources coord
                else (case BeginNodeLocalPoolRollout key ownerID (cluster_key source) (gc_UID source) coord of
                        (False, coord1) \<Rightarrow> Some (Some (CannotOvertake (cluster_key source)), coord1)
                      | (True, coord1) \<Rightarrow>
                          (case ConfirmNodeLocalPoolRollout key (gc_UID source) coord1 of
                             (False, coord2) \<Rightarrow> Some (Some LostMarkerInRehydration, coord2)
                           | (True, coord2) \<Rightarrow>
                               rehydrate_rollout_sources sum256 env reader key ownerID sources coord2))))"

definition rehydrateNodeLocalPoolRolloutsForOwner ::
    "(string \<Rightarrow> string) \<Rightarrow> kube_env \<Rightarrow> kube_reader option \<Rightarrow> coordinator \<Rightarrow> GarageCluster option \<Rightarrow> bool
     \<Rightarrow> (rehydrate_error option \<times> coordinator) option" where
  "rehydrateNodeLocalPoolRolloutsForOwner sum256 env readerPtr coord ownerPtr clusterScoped =
     (case (readerPtr, ownerPtr) of
        (Some reader, Some owner) \<Rightarrow>
          (let key = layoutOwnerKey sum256 ownerPtr; ownerID = layoutRolloutOwnerID sum256 ownerPtr in
           case PruneStaleNodeLocalPoolRollout (Some (kr_Get reader)) key ownerID coord of
             (Some e, coord1) \<Rightarrow> Some (Some (PruneReadFailed e), coord1)
           | (None, coord1) \<Rightarrow>
               (case list_sources reader owner clusterScoped of
                  Inl e \<Rightarrow> Some (Some (ListFailed e), coord1)
                | Inr sources \<Rightarrow> rehydrate_rollout_sources sum256 env reader key ownerID sources coord1))
      | _ \<Rightarrow> Some (None, coord))"

text \<open>Begin and Confirm for one durable drain; the error of a refused Begin is given.\<close>

definition restore_drain ::
    "NamespacedName \<Rightarrow> string \<Rightarrow> string \<Rightarrow> string \<Rightarrow> string \<Rightarrow> rehydrate_error \<Rightarrow> coordinator
     \<Rightarrow> rehydrate_error option \<times> coordinator" where
  "restore_drain key ownerID actorUID transactionID targetHash refused coord =
     (case BeginStorageDrain key ownerID actorUID transactionID targetHash coord of
        (False, coord1) \<Rightarrow> (Some refused, coord1)
      | (True, coord1) \<Rightarrow>
          (case ConfirmStorageDrain key ownerID actorUID transactionID targetHash coord1 of
             (False, coord2) \<Rightarrow> (Some LostMarkerInRehydration, coord2)
           | (True, coord2) \<Rightarrow> (None, coord2)))"

text \<open>A source whose status holds its own unfinished role-only retirement.\<close>

definition retirement_source :: "GarageCluster \<Rightarrow> blockResyncProof option" where
  "retirement_source source =
     (case clusterStorageDrainProof (cst_StorageDrain (gc_Status source)) of
        None \<Rightarrow> None
      | Some p \<Rightarrow>
          if bp_CompletedAt p \<noteq> None \<or> length (bp_RoleRemovalNodeIDs p) = 0
             \<or> length (bp_RemovedStorageNodeIDs p) \<noteq> 0 \<or> \<not> HasGatewayTier (Some source)
             \<or> HasStorageTier (Some source) \<or> HasNodeLocalPools (Some source)
             \<or> \<not> sameStorageDrainActor (bp_Actor p) (storageDrainActorForCluster (Some source))
          then None else Some p)"

fun rehydrate_drain_sources ::
    "(string \<Rightarrow> string) \<Rightarrow> kube_env \<Rightarrow> kube_reader \<Rightarrow> GarageCluster \<Rightarrow> NamespacedName \<Rightarrow> string \<Rightarrow> GarageCluster list
     \<Rightarrow> bool \<Rightarrow> coordinator \<Rightarrow> (rehydrate_error option \<times> bool \<times> coordinator) option" where
  "rehydrate_drain_sources sum256 env reader owner key ownerID [] found coord = Some (None, found, coord)"
| "rehydrate_drain_sources sum256 env reader owner key ownerID (source # sources) found coord =
     (if gc_UID source = gc_UID owner \<and> gc_Namespace source = gc_Namespace owner \<and> gc_Name source = gc_Name owner
      then rehydrate_drain_sources sum256 env reader owner key ownerID sources found coord
      else
     (case retirement_source source of
        None \<Rightarrow> rehydrate_drain_sources sum256 env reader owner key ownerID sources found coord
      | Some p \<Rightarrow>
          (case resolveGarageLayoutOwner env (Some (kr_Get reader)) (Some source) of
             None \<Rightarrow> None
           | Some (Inl e) \<Rightarrow>
               if layoutOwnerKey sum256 (Some source) = key then Some (Some (SourceUnresolved e), found, coord)
               else rehydrate_drain_sources sum256 env reader owner key ownerID sources found coord
           | Some (Inr resolved) \<Rightarrow>
               if layoutOwnerKey sum256 (Some resolved) \<noteq> key \<or> layoutRolloutOwnerID sum256 (Some resolved) \<noteq> ownerID
               then rehydrate_drain_sources sum256 env reader owner key ownerID sources found coord
               else (case restore_drain key ownerID (da_UID (bp_Actor p)) (bp_TransactionID p) (bp_TargetHash p)
                            (CannotOvertake (cluster_key source)) coord of
                       (Some e, coord1) \<Rightarrow> Some (Some e, found, coord1)
                     | (None, coord1) \<Rightarrow>
                         rehydrate_drain_sources sum256 env reader owner key ownerID sources True coord1))))"

text \<open>
  The restoration of drains also refreshes the caller's owner object, so the result carries the
  owner as it is afterwards.
\<close>

definition rehydrateStorageDrainsForOwner ::
    "(string \<Rightarrow> string) \<Rightarrow> kube_env \<Rightarrow> kube_reader option \<Rightarrow> coordinator \<Rightarrow> GarageCluster option \<Rightarrow> bool \<Rightarrow> bool
     \<Rightarrow> (rehydrate_error option \<times> coordinator \<times> GarageCluster option) option" where
  "rehydrateStorageDrainsForOwner sum256 env readerPtr coord ownerPtr clusterScoped authoritative =
     (case (readerPtr, ownerPtr) of
        (Some reader, Some owner0) \<Rightarrow>
          (case kr_Get reader (cluster_key owner0) of
             Inl e \<Rightarrow> Some (Some (OwnerReadFailed e), coord, ownerPtr)
           | Inr owner \<Rightarrow>
               if gc_UID owner0 \<noteq> [] \<and> gc_UID owner \<noteq> gc_UID owner0 then Some (Some OwnerRecreated, coord, ownerPtr)
               else
                 (let key = layoutOwnerKey sum256 (Some owner);
                      ownerID = layoutRolloutOwnerID sum256 (Some owner);
                      coord1 = (if key = cluster_key owner then PruneStaleStorageDrain key ownerID coord else coord);
                      (err, found, coord2) =
                        (case cst_StorageDrain (gc_Status owner) of
                           None \<Rightarrow> (None, False, coord1)
                         | Some drain \<Rightarrow>
                             if completedCapacitylessGatewayRetirement (Some owner) then (None, False, coord1)
                             else (case restore_drain key ownerID (sas_UID (sds_Actor drain)) (sds_TransactionID drain)
                                          (sds_TargetHash drain) DifferentDrainRevision coord1 of
                                     (e, c) \<Rightarrow> (e, True, c)))
                  in case err of
                       Some e \<Rightarrow> Some (Some e, coord2, Some owner)
                     | None \<Rightarrow>
                         (case list_sources reader owner clusterScoped of
                            Inl e \<Rightarrow> Some (Some (ListFailed e), coord2, Some owner)
                          | Inr sources \<Rightarrow>
                              (case rehydrate_drain_sources sum256 env reader owner key ownerID sources found coord2 of
                                 None \<Rightarrow> None
                               | Some (Some e, found', coord3) \<Rightarrow> Some (Some e, coord3, Some owner)
                               | Some (None, found', coord3) \<Rightarrow>
                                   Some (None,
                                     (if authoritative \<and> \<not> found'
                                      then PruneConfirmedStorageDrainWithoutStatus key ownerID coord3 else coord3),
                                     Some owner)))))
      | _ \<Rightarrow> Some (None, coord, ownerPtr))"


subsection \<open>Lemmas\<close>

lemma acquire_unconditionally_Inr:
  "acquireLayoutMutationUnconditionally k (Some c) = (Inr rel, coord') \<longleftrightarrow>
     k \<notin> lmc_held c \<and> rel = \<lparr>rel_key = Some k, rel_done = False\<rparr>
     \<and> coord' = Some (c\<lparr>lmc_held := insert k (lmc_held c)\<rparr>)"
  by (auto simp: acquireLayoutMutationUnconditionally_def TryAcquire_def)

lemma publish_drain_marker_None:
  "publish_drain_marker k ow a t h (Some c) = (None, coord') \<longleftrightarrow>
     (\<exists>m. (lmc_storageDrains c k = None \<and> m = drain_marker ow a t h
           \<or> lmc_storageDrains c k = Some m \<and> drain_id m = (ow, a, t, h))
        \<and> coord' = Some (c\<lparr>lmc_storageDrains := (lmc_storageDrains c)(k \<mapsto> m\<lparr>dm_statusConfirmed := True\<rparr>)\<rparr>))"
  by (cases "lmc_storageDrains c k")
     (auto simp: publish_drain_marker_def StorageDrainActorActive_def BeginStorageDrain_def
        ConfirmStorageDrain_def matches_iff Let_def)

lemma own_role_only_drain_None:
  assumes "own_role_only_drain k ow drain actor (Some c) = (None, coord')"
  shows "\<exists>c'. coord' = Some c' \<and> lmc_held c' = lmc_held c
     \<and> lmc_nodeLocalPoolRollouts c' = lmc_nodeLocalPoolRollouts c
     \<and> (lmc_storageDrains c k = None \<or> (\<exists>m. lmc_storageDrains c k = Some m \<and> dm_actorUID m = da_UID actor))"
proof (cases "clusterStorageDrainProof drain")
  case None
  with assms show ?thesis by (auto simp: own_role_only_drain_def StorageDrainActive_def split: if_splits)
next
  case (Some p)
  with assms obtain coord1 where
    *: "publish_drain_marker k ow (da_UID actor) (bp_TransactionID p) (bp_TargetHash p) (Some c) = (None, coord1)"
       "coord' = coord1"
    by (auto simp: own_role_only_drain_def split: if_splits prod.splits option.splits)
  from *(1) show ?thesis unfolding publish_drain_marker_None *(2) by (auto simp: drain_id_def)
qed

text \<open>The six acquisition paths as data, and the actor each speaks for.\<close>

datatype acquire_path =
    Ordinary
  | IgnoringRollout
  | RolloutPrepare
  | DrainActor storageDrainActor
  | RoleRetirement GarageCluster
  | NodeRetirement GarageNode

fun acquire_by :: "(string \<Rightarrow> string) \<Rightarrow> acquire_path \<Rightarrow> coordinator \<Rightarrow> GarageCluster \<Rightarrow> (acquire_error + releaseFn) \<times> coordinator" where
  "acquire_by sum256 Ordinary coord owner = acquireLayoutMutation sum256 coord (Some owner)"
| "acquire_by sum256 IgnoringRollout coord owner = acquireLayoutMutationIgnoringNodeLocalPoolRollout sum256 coord (Some owner)"
| "acquire_by sum256 RolloutPrepare coord owner = acquireLayoutMutationDuringStorageRolloutPrepare sum256 coord (Some owner)"
| "acquire_by sum256 (DrainActor a) coord owner = acquireLayoutMutationIgnoringStorageDrain sum256 coord owner a"
| "acquire_by sum256 (RoleRetirement source) coord owner = acquireCapacitylessRoleRetirementMutation sum256 coord (Some owner) source"
| "acquire_by sum256 (NodeRetirement n) coord owner = acquireCapacitylessGarageNodeRetirementMutation sum256 coord (Some owner) (Some n)"

fun path_actor :: "acquire_path \<Rightarrow> storageDrainActor option" where
  "path_actor (DrainActor a) = Some a"
| "path_actor (RoleRetirement source) = Some (storageDrainActorForCluster (Some source))"
| "path_actor (NodeRetirement n) = Some (storageDrainActorForNode (Some n))"
| "path_actor _ = None"

text \<open>What every successful acquisition of \<open>k\<close> establishes.\<close>

definition acquired_safely :: "acquire_path \<Rightarrow> NamespacedName \<Rightarrow> LayoutMutationCoordinator \<Rightarrow> releaseFn \<Rightarrow> coordinator \<Rightarrow> bool" where
  "acquired_safely path k c rel coord' \<longleftrightarrow>
     k \<notin> lmc_held c \<and> rel = \<lparr>rel_key = Some k, rel_done = False\<rparr>
     \<and> (\<exists>c'. coord' = Some c' \<and> lmc_held c' = insert k (lmc_held c))
     \<and> (path = IgnoringRollout \<or> lmc_nodeLocalPoolRollouts c k = None)
     \<and> (case lmc_storageDrains c k of
          None \<Rightarrow> True
        | Some m \<Rightarrow> (\<exists>a. path_actor path = Some a \<and> dm_actorUID m = da_UID a))"

lemma acquired_safely_intro:
  assumes "acquireLayoutMutationUnconditionally k (Some c1) = (Inr rel, coord')"
    and "lmc_held c1 = lmc_held c" "path = IgnoringRollout \<or> lmc_nodeLocalPoolRollouts c k = None"
    and "lmc_storageDrains c k = None \<or> (\<exists>m a. lmc_storageDrains c k = Some m \<and> path_actor path = Some a \<and> dm_actorUID m = da_UID a)"
  shows "acquired_safely path k c rel coord'"
proof -
  have a: "k \<notin> lmc_held c1" "rel = \<lparr>rel_key = Some k, rel_done = False\<rparr>" "coord' = Some (c1\<lparr>lmc_held := insert k (lmc_held c1)\<rparr>)"
    using assms(1) unfolding acquire_unconditionally_Inr by blast+
  have h: "\<exists>c'. coord' = Some c' \<and> lmc_held c' = insert k (lmc_held c)" using a(3) assms(2) by simp
  have d: "case lmc_storageDrains c k of None \<Rightarrow> True | Some m \<Rightarrow> (\<exists>a. path_actor path = Some a \<and> dm_actorUID m = da_UID a)"
    using assms(4) by (cases "lmc_storageDrains c k") simp_all
  have "k \<notin> lmc_held c" using a(1) assms(2) by simp
  from this a(2) h assms(3) d show ?thesis unfolding acquired_safely_def by (intro conjI)
qed

lemma role_retirement_safe:
  assumes "own_role_only_drain k ow drain actor (Some c) = (None, coord1)" "path_actor path = Some actor"
    and "\<not> NodeLocalPoolRolloutActive k coord1" "acquireLayoutMutationUnconditionally k coord1 = (Inr rel, coord')"
  shows "acquired_safely path k c rel coord'"
proof -
  obtain c1 where c1: "coord1 = Some c1" "lmc_held c1 = lmc_held c"
    "lmc_nodeLocalPoolRollouts c1 = lmc_nodeLocalPoolRollouts c"
    "lmc_storageDrains c k = None \<or> (\<exists>m. lmc_storageDrains c k = Some m \<and> dm_actorUID m = da_UID actor)"
    using own_role_only_drain_None [OF assms(1)] by blast
  show ?thesis
  proof (rule acquired_safely_intro)
    show "acquireLayoutMutationUnconditionally k (Some c1) = (Inr rel, coord')" using assms(4) c1(1) by simp
    show "path = IgnoringRollout \<or> lmc_nodeLocalPoolRollouts c k = None"
      using assms(3) c1 by (simp add: NodeLocalPoolRolloutActive_def)
  qed (use c1 assms(2) in auto)
qed

lemma acquire_drain_actor_Inr:
  "acquireLayoutMutationIgnoringStorageDrain sum256 (Some c) cluster actor = (Inr rel, coord') \<longleftrightarrow>
     (\<exists>status c1. cst_StorageDrain (gc_Status cluster) = Some status
        \<and> storageDrainActorMatches (Some status) actor
        \<and> lmc_nodeLocalPoolRollouts c (layoutOwnerKey sum256 (Some cluster)) = None
        \<and> \<not> storageRolloutMutationBoundaryActive (Some cluster)
        \<and> publish_drain_marker (layoutOwnerKey sum256 (Some cluster)) (layoutRolloutOwnerID sum256 (Some cluster))
             (da_UID actor) (sds_TransactionID status) (sds_TargetHash status) (Some c) = (None, Some c1)
        \<and> acquireLayoutMutationUnconditionally (layoutOwnerKey sum256 (Some cluster)) (Some c1) = (Inr rel, coord'))"
proof (cases "cst_StorageDrain (gc_Status cluster)")
  case None
  then show ?thesis by (simp add: acquireLayoutMutationIgnoringStorageDrain_def)
next
  case (Some status)
  obtain e coord1 where p: "publish_drain_marker (layoutOwnerKey sum256 (Some cluster))
      (layoutRolloutOwnerID sum256 (Some cluster)) (da_UID actor) (sds_TransactionID status)
      (sds_TargetHash status) (Some c) = (e, coord1)" by fastforce
  then have "e = None \<Longrightarrow> \<exists>c1. coord1 = Some c1" by (auto simp: publish_drain_marker_None)
  with Some p show ?thesis
    by (cases e) (auto simp: acquireLayoutMutationIgnoringStorageDrain_def NodeLocalPoolRolloutActive_def Let_def)
qed

lemma acquire_by_safe:
  assumes "acquire_by sum256 path (Some c) owner = (Inr rel, coord')"
  shows "acquired_safely path (layoutOwnerKey sum256 (Some owner)) c rel coord'"
proof (cases path)
  case (DrainActor a)
  from assms obtain status :: StorageDrainStatus and c1 where
    p: "publish_drain_marker (layoutOwnerKey sum256 (Some owner)) (layoutRolloutOwnerID sum256 (Some owner))
             (da_UID a) (sds_TransactionID status) (sds_TargetHash status) (Some c) = (None, Some c1)"
    and q: "acquireLayoutMutationUnconditionally (layoutOwnerKey sum256 (Some owner)) (Some c1) = (Inr rel, coord')"
    and r: "lmc_nodeLocalPoolRollouts c (layoutOwnerKey sum256 (Some owner)) = None"
    unfolding DrainActor acquire_by.simps acquire_drain_actor_Inr by blast
  show ?thesis
    by (rule acquired_safely_intro [OF q])
       (use p r DrainActor in \<open>auto simp: publish_drain_marker_None drain_id_def\<close>)
next
  case (RoleRetirement source)
  let ?k = "layoutOwnerKey sum256 (Some owner)"
  obtain e coord1 where o: "own_role_only_drain ?k (layoutRolloutOwnerID sum256 (Some owner))
      (cst_StorageDrain (gc_Status source)) (storageDrainActorForCluster (Some source)) (Some c) = (e, coord1)"
    by fastforce
  with assms RoleRetirement have "e = None" "\<not> NodeLocalPoolRolloutActive ?k coord1"
    "acquireLayoutMutationUnconditionally ?k coord1 = (Inr rel, coord')"
    by (cases e; auto simp: acquireCapacitylessRoleRetirementMutation_def Let_def split: if_splits)+
  with o RoleRetirement show ?thesis by (intro role_retirement_safe) auto
next
  case (NodeRetirement n)
  let ?k = "layoutOwnerKey sum256 (Some owner)"
  obtain e coord1 where o: "own_role_only_drain ?k (layoutRolloutOwnerID sum256 (Some owner))
      (cst_StorageDrain (gc_Status owner)) (storageDrainActorForNode (Some n)) (Some c) = (e, coord1)"
    by fastforce
  with assms NodeRetirement have "e = None" "\<not> NodeLocalPoolRolloutActive ?k coord1"
    "acquireLayoutMutationUnconditionally ?k coord1 = (Inr rel, coord')"
    by (cases e; auto simp: acquireCapacitylessGarageNodeRetirementMutation_def Let_def split: if_splits)+
  with o NodeRetirement show ?thesis by (intro role_retirement_safe) auto
qed (use assms in \<open>auto intro!: acquired_safely_intro simp: acquireLayoutMutation_def
      acquireLayoutMutationIgnoringNodeLocalPoolRollout_def acquireLayoutMutationDuringStorageRolloutPrepare_def
      StorageDrainActive_def NodeLocalPoolRolloutActive_def Let_def split: if_splits\<close>)


lemma restore_drain_None:
  "restore_drain k ow a t h e (Some c) = (None, coord') \<longleftrightarrow>
     (\<exists>m. (lmc_storageDrains c k = None \<and> m = drain_marker ow a t h
           \<or> lmc_storageDrains c k = Some m \<and> drain_id m = (ow, a, t, h))
        \<and> coord' = Some (c\<lparr>lmc_storageDrains := (lmc_storageDrains c)(k \<mapsto> m\<lparr>dm_statusConfirmed := True\<rparr>)\<rparr>))"
  by (cases "lmc_storageDrains c k")
     (auto simp: restore_drain_def BeginStorageDrain_def ConfirmStorageDrain_def matches_iff Let_def
        split: bool.splits)

text \<open>A restored marker survives the scan of the other sources.\<close>

lemma drain_sources_keep:
  assumes "lmc_storageDrains c k = Some m" "dm_statusConfirmed m"
    and "rehydrate_drain_sources sum256 env reader owner k ow sources True (Some c) = Some (None, found', coord')"
  shows "found' \<and> (\<exists>c'. coord' = Some c' \<and> lmc_storageDrains c' k = Some m)"
  using assms
proof (induction sources arbitrary: c)
  case (Cons source sources)
  have keep: ?case if "rehydrate_drain_sources sum256 env reader owner k ow sources True (Some c) = Some (None, found', coord')"
    using Cons.IH [OF Cons.prems(1,2) that] .
  show ?case
  proof (cases "retirement_source source")
    case None
    with Cons.prems(3) keep show ?thesis by (auto split: if_splits)
  next
    case (Some p)
    obtain e coord1 where r: "restore_drain k ow (da_UID (bp_Actor p)) (bp_TransactionID p) (bp_TargetHash p)
        (CannotOvertake (cluster_key source)) (Some c) = (e, coord1)" by fastforce
    have again: ?thesis if "e = None" "rehydrate_drain_sources sum256 env reader owner k ow sources True coord1 = Some (None, found', coord')"
    proof -
      from r that(1) Cons.prems(1) obtain c1 where "coord1 = Some c1"
        "lmc_storageDrains c1 k = Some (m\<lparr>dm_statusConfirmed := True\<rparr>)"
        by (auto simp: restore_drain_None)
      moreover have "m\<lparr>dm_statusConfirmed := True\<rparr> = m" using Cons.prems(2) by simp
      ultimately show ?thesis using Cons.IH [of c1] Cons.prems(2) that(2) by auto
    qed
    from Cons.prems(3) Some r keep again show ?thesis
      by (auto split: if_splits option.splits sum.splits)
  qed
qed auto

subsection \<open>Properties\<close>



text \<open>
  The ordinary path is exact: it succeeds if and only if there is no drain marker and no drain
  status, no rollout marker and no rollout boundary, and the key is free; its only effect is to
  hold the key.
\<close>

theorem ordinary_acquire_iff:
  "acquireLayoutMutation sum256 (Some c) cluster = (Inr rel, coord') \<longleftrightarrow>
     (let k = layoutOwnerKey sum256 cluster in
      lmc_storageDrains c k = None \<and> \<not> storageDrainConditionActive cluster
      \<and> lmc_nodeLocalPoolRollouts c k = None \<and> \<not> storageRolloutMutationBoundaryActive cluster
      \<and> k \<notin> lmc_held c \<and> rel = \<lparr>rel_key = Some k, rel_done = False\<rparr>
      \<and> coord' = Some (c\<lparr>lmc_held := insert k (lmc_held c)\<rparr>))"
  by (auto simp: acquireLayoutMutation_def StorageDrainActive_def NodeLocalPoolRolloutActive_def
      acquire_unconditionally_Inr Let_def)

text \<open>
  The drain actor's path is exact: it succeeds if and only if the caller is the actor recorded
  in the durable drain status, no managed-Pod replacement is active, the in-memory marker is absent
  or is this very transaction revision, and the key is free.
\<close>

theorem drain_actor_acquire_iff:
  "(\<exists>rel coord'. acquireLayoutMutationIgnoringStorageDrain sum256 (Some c) cluster actor = (Inr rel, coord')) \<longleftrightarrow>
     (\<exists>status. cst_StorageDrain (gc_Status cluster) = Some status \<and> storageDrainActorMatches (Some status) actor
        \<and> (let k = layoutOwnerKey sum256 (Some cluster) in
           lmc_nodeLocalPoolRollouts c k = None \<and> \<not> storageRolloutMutationBoundaryActive (Some cluster)
           \<and> k \<notin> lmc_held c
           \<and> (case lmc_storageDrains c k of None \<Rightarrow> True
              | Some m \<Rightarrow> drain_id m = (layoutRolloutOwnerID sum256 (Some cluster), da_UID actor,
                             sds_TransactionID status, sds_TargetHash status))))"
  unfolding acquire_drain_actor_Inr acquire_unconditionally_Inr publish_drain_marker_None Let_def
  by (cases "lmc_storageDrains c (layoutOwnerKey sum256 (Some cluster))") auto

text \<open>
  A mutation is bracketed by its lock.  The closure given to runLayoutMutation either does not
  run, with an error reported and the coordinator left as it was, or it runs exactly once: after the
  key was found free and taken, on a settled layout history, and with the key released after it
  whatever it returns.
\<close>

theorem run_mutation_bracketed:
  fixes get_history :: "'w \<Rightarrow> ('f + LayoutHistoryResponse) \<times> 'w"
  shows "case runLayoutMutation sum256 (Some c) cluster get_history mutate w of
     (r, coord', w') \<Rightarrow>
       (r \<noteq> None \<and> coord' = Some c \<and> (w' = w \<or> w' = snd (get_history w)))
       \<or> (\<exists>history w1 f coord2.
            layoutOwnerKey sum256 cluster \<notin> lmc_held c
            \<and> get_history w = (Inr history, w1)
            \<and> requireSettledLayoutHistoryResponse (Some history) = None
            \<and> mutate (Some (c\<lparr>lmc_held := insert (layoutOwnerKey sum256 cluster) (lmc_held c)\<rparr>)) w1 = (f, coord2, w')
            \<and> r = map_option MutateFailed f
            \<and> coord' = map_option (\<lambda>d. d\<lparr>lmc_held := lmc_held d - {layoutOwnerKey sum256 cluster}\<rparr>) coord2)"
proof -
  obtain a coord1 where acq: "acquireLayoutMutation sum256 (Some c) cluster = (a, coord1)" by fastforce
  obtain h w1 where gh: "get_history w = (h, w1)" by fastforce
  show ?thesis
  proof (cases a)
    case (Inl e)
    with acq have "coord1 = Some c"
      by (auto simp: acquireLayoutMutation_def acquireLayoutMutationUnconditionally_def TryAcquire_def Let_def
          split: if_splits)
    with acq Inl show ?thesis by (simp add: runLayoutMutation_def run_settled_def)
  next
    case (Inr rel)
    with acq have k: "layoutOwnerKey sum256 cluster \<notin> lmc_held c"
      "rel = \<lparr>rel_key = Some (layoutOwnerKey sum256 cluster), rel_done = False\<rparr>"
      "coord1 = Some (c\<lparr>lmc_held := insert (layoutOwnerKey sum256 cluster) (lmc_held c)\<rparr>)"
      by (auto simp: ordinary_acquire_iff Let_def)
    obtain f coord2 w2 where m: "mutate coord1 w1 = (f, coord2, w2)" by (metis prod_cases3)
    show ?thesis
      using acq gh k m Inr
      by (auto simp: runLayoutMutation_def run_settled_def requireSettledLayoutHistory_def mutate_then_release_def
          call_release_def split: sum.splits option.splits)
  qed
qed

text \<open>
  After a restart the durable drain owns its layout again.  When rehydration reports no error
  and the freshly read owner has a drain in its status (other than a finished gateway retirement),
  the coordinator holds a confirmed marker with exactly that drain's owner, actor, transaction and
  target revision, whatever it held before.
\<close>

theorem rehydration_restores_drain:
  assumes "rehydrateStorageDrainsForOwner sum256 env (Some reader) (Some c) (Some owner0) scoped auth
             = Some (None, coord', owner')"
    and "kr_Get reader (cluster_key owner0) = Inr owner" "cst_StorageDrain (gc_Status owner) = Some d"
    and "\<not> completedCapacitylessGatewayRetirement (Some owner)"
  shows "owner' = Some owner \<and> (\<exists>c' m. coord' = Some c'
     \<and> lmc_storageDrains c' (layoutOwnerKey sum256 (Some owner)) = Some m \<and> dm_statusConfirmed m
     \<and> drain_id m = (layoutRolloutOwnerID sum256 (Some owner), sas_UID (sds_Actor d), sds_TransactionID d, sds_TargetHash d))"
proof -
  let ?k = "layoutOwnerKey sum256 (Some owner)" and ?o = "layoutRolloutOwnerID sum256 (Some owner)"
  define coord1 where "coord1 = (if ?k = cluster_key owner then PruneStaleStorageDrain ?k ?o (Some c) else Some c)"
  have "coord1 \<noteq> None" by (simp add: coord1_def PruneStaleStorageDrain_def split: option.split)
  then obtain c1 where c1: "coord1 = Some c1" by blast
  obtain e coord2 where r: "restore_drain ?k ?o (sas_UID (sds_Actor d)) (sds_TransactionID d) (sds_TargetHash d)
      DifferentDrainRevision coord1 = (e, coord2)" by fastforce
  have u: "\<not> (gc_UID owner0 \<noteq> [] \<and> gc_UID owner \<noteq> gc_UID owner0)"
  proof
    assume "gc_UID owner0 \<noteq> [] \<and> gc_UID owner \<noteq> gc_UID owner0"
    with assms(1,2) show False by (simp add: rehydrateStorageDrainsForOwner_def)
  qed
  have step: "(case e of
      Some e' \<Rightarrow> Some (Some e', coord2, Some owner)
    | None \<Rightarrow> (case list_sources reader owner scoped of
          Inl e' \<Rightarrow> Some (Some (ListFailed e'), coord2, Some owner)
        | Inr sources \<Rightarrow>
            (case rehydrate_drain_sources sum256 env reader owner ?k ?o sources True coord2 of
               None \<Rightarrow> None
             | Some (Some e', found', coord3) \<Rightarrow> Some (Some e', coord3, Some owner)
             | Some (None, found', coord3) \<Rightarrow>
                 Some (None, (if auth \<and> \<not> found' then PruneConfirmedStorageDrainWithoutStatus ?k ?o coord3 else coord3),
                   Some owner)))) = Some (None, coord', owner')"
    using assms(1)
    by (simp only: rehydrateStorageDrainsForOwner_def prod.case option.case sum.case assms(2-4) u if_False
        Let_def coord1_def [symmetric] r)
  have e: "e = None" using step by (cases e) (auto split: if_splits)
  with r c1 obtain m where m: "coord2 = Some (c1\<lparr>lmc_storageDrains := (lmc_storageDrains c1)(?k \<mapsto> m\<lparr>dm_statusConfirmed := True\<rparr>)\<rparr>)"
    "drain_id m = (?o, sas_UID (sds_Actor d), sds_TransactionID d, sds_TargetHash d)"
    by (auto simp: restore_drain_None)
  define c2 where "c2 = c1\<lparr>lmc_storageDrains := (lmc_storageDrains c1)(?k \<mapsto> m\<lparr>dm_statusConfirmed := True\<rparr>)\<rparr>"
  obtain sources where "list_sources reader owner scoped = Inr sources"
    using step e by (cases "list_sources reader owner scoped") simp_all
  then have step2: "(case rehydrate_drain_sources sum256 env reader owner ?k ?o sources True (Some c2) of
      None \<Rightarrow> None
    | Some (Some e', found', coord3) \<Rightarrow> Some (Some e', coord3, Some owner)
    | Some (None, found', coord3) \<Rightarrow>
        Some (None, (if auth \<and> \<not> found' then PruneConfirmedStorageDrainWithoutStatus ?k ?o coord3 else coord3),
          Some owner)) = Some (None, coord', owner')"
    using step by (simp only: e m(1) c2_def [symmetric] option.case sum.case)
  then obtain e' found' coord3 where s1:
    "rehydrate_drain_sources sum256 env reader owner ?k ?o sources True (Some c2) = Some (e', found', coord3)"
    by (cases "rehydrate_drain_sources sum256 env reader owner ?k ?o sources True (Some c2)") auto
  have e': "e' = None" using step2 unfolding s1 by (cases e') simp_all
  have s: "rehydrate_drain_sources sum256 env reader owner ?k ?o sources True (Some c2) = Some (None, found', coord3)"
    "coord' = (if auth \<and> \<not> found' then PruneConfirmedStorageDrainWithoutStatus ?k ?o coord3 else coord3)"
    "owner' = Some owner"
    using step2 s1 unfolding s1 e' by simp_all
  have "found' \<and> (\<exists>c'. coord3 = Some c' \<and> lmc_storageDrains c' ?k = Some (m\<lparr>dm_statusConfirmed := True\<rparr>))"
    by (rule drain_sources_keep [OF _ _ s(1)]) (simp_all add: c2_def)
  with s(2,3) m(2) show ?thesis by auto
qed


definition sample_draining :: GarageCluster where
  "sample_draining = sample_cluster\<lparr>gc_Status :=
     sample_status\<lparr>cst_StorageDrain := v1beta2StorageDrainStatus (Some sample_proof)\<rparr>\<rparr>"

definition sample_kube_reader :: kube_reader where
  "sample_kube_reader = \<lparr>kr_Get = (\<lambda>k. Inr sample_draining), kr_List = (\<lambda>ns. Inr [])\<rparr>"

lemma sample_draining_facts:
  "layoutOwnerKey (\<lambda>s. s) (Some sample_draining) = cluster_key sample_draining"
  "layoutRolloutOwnerID (\<lambda>s. s) (Some sample_draining) = ''u1''"
  "cst_StorageDrain (gc_Status sample_draining) = v1beta2StorageDrainStatus (Some sample_proof)"
  "\<not> completedCapacitylessGatewayRetirement (Some sample_draining)"
  by (simp_all add: layoutOwnerKey_def layoutRolloutOwnerID_def sample_draining_def sample_cluster_def
      completedCapacitylessGatewayRetirement_def HasGatewayTier_def cluster_key_def)

theorem rehydration_restores_drain_witness:
  "\<exists>coord'. rehydrateStorageDrainsForOwner (\<lambda>s. s) sample_env (Some sample_kube_reader)
       (Some NewLayoutMutationCoordinator) (Some sample_draining) False True
         = Some (None, coord', Some sample_draining)
     \<and> (\<exists>c' m. coord' = Some c' \<and> lmc_storageDrains c' (cluster_key sample_draining) = Some m
           \<and> drain_id m = (''u1'', ''uid-1'', ''tx'', bp_TargetHash sample_proof))"
proof -
  obtain coord' where r: "rehydrateStorageDrainsForOwner (\<lambda>s. s) sample_env (Some sample_kube_reader)
       (Some NewLayoutMutationCoordinator) (Some sample_draining) False True
         = Some (None, coord', Some sample_draining)"
    by (simp add: rehydrateStorageDrainsForOwner_def sample_kube_reader_def sample_draining_facts
        v1beta2StorageDrainStatus_def list_sources_def PruneStaleStorageDrain_def
        NewLayoutMutationCoordinator_def restore_drain_def BeginStorageDrain_def ConfirmStorageDrain_def
        matches_iff Let_def)
  have g: "kr_Get sample_kube_reader (cluster_key sample_draining) = Inr sample_draining"
    by (simp add: sample_kube_reader_def)
  obtain d where d: "cst_StorageDrain (gc_Status sample_draining) = Some d"
    "sas_UID (sds_Actor d) = ''uid-1''" "sds_TransactionID d = ''tx''" "sds_TargetHash d = bp_TargetHash sample_proof"
    by (simp add: sample_draining_facts v1beta2StorageDrainStatus_def sample_proof_def sample_drain_actor_def)
  from rehydration_restores_drain [OF r g d(1) sample_draining_facts(4)] r d(2-4) show ?thesis
    by (simp add: sample_draining_facts) blast
qed

end
