(* ===== verification/DrainStore.thy ===== *)
theory DrainStore
  imports DrainProof LayoutAcquire
begin

text \<open>
  Persistence of a storage-drain transaction in GarageCluster status
  (internal/controller/block_resync_barrier.go and UpdateStatusWithRetry of helpers.go): the
  condition that reports it, the revision used for compare-and-swap, the retry loops around a status
  update, and the operations that end a transaction.  The Kubernetes client is a parameter over a
  world \<open>'w\<close>: every call returns the world after it, so that other writers may act at any call.
\<close>

subsection \<open>The Kubernetes client\<close>

datatype write_error = WriteConflict | WriteFailed string

record 'w kube_api =
  ka_UpdateStatus :: "GarageCluster \<Rightarrow> 'w \<Rightarrow> write_error option \<times> 'w"
  ka_GetCluster :: "NamespacedName \<Rightarrow> 'w \<Rightarrow> (get_error + GarageCluster) \<times> 'w"

datatype store_error =
    ClientNotConfigured
  | UpdateFailed write_error
  | RefetchFailed get_error
  | RecreatedObject
  | RevisionChanged
  | RetriesExhausted

definition StatusUpdateMaxRetries :: nat where
  "StatusUpdateMaxRetries = 3"

text \<open>
  A handler that updates the object it was given returns the error, the object as it is in memory
  afterwards, and the world.  A failed Get leaves the object unchanged.
\<close>

fun status_retry ::
    "'w kube_api \<Rightarrow> string \<Rightarrow> (GarageCluster \<Rightarrow> GarageCluster) \<Rightarrow> nat \<Rightarrow> GarageCluster \<Rightarrow> 'w
     \<Rightarrow> store_error option \<times> GarageCluster \<times> 'w" where
  "status_retry api originalUID reapply 0 obj w = (Some RetriesExhausted, obj, w)"
| "status_retry api originalUID reapply (Suc n) obj w =
     (case ka_UpdateStatus api obj w of
        (None, w1) \<Rightarrow> (None, obj, w1)
      | (Some (WriteFailed f), w1) \<Rightarrow> (Some (UpdateFailed (WriteFailed f)), obj, w1)
      | (Some WriteConflict, w1) \<Rightarrow>
          if 0 < n then
            (case ka_GetCluster api (cluster_key obj) w1 of
               (Inl e, w2) \<Rightarrow> (Some (RefetchFailed e), obj, w2)
             | (Inr fresh, w2) \<Rightarrow>
                 if originalUID \<noteq> [] \<and> gc_UID fresh \<noteq> originalUID then (Some RecreatedObject, fresh, w2)
                 else status_retry api originalUID reapply n (reapply fresh) w2)
          else status_retry api originalUID reapply n obj w1)"

text \<open>Without closures the whole status of the object is copied onto the fresh one.\<close>

definition copyStatusField :: "GarageCluster \<Rightarrow> GarageCluster \<Rightarrow> GarageCluster" where
  "copyStatusField dst src = dst\<lparr>gc_Status := gc_Status src\<rparr>"

definition UpdateStatusWithRetry ::
    "'w kube_api \<Rightarrow> GarageCluster \<Rightarrow> (GarageCluster \<Rightarrow> GarageCluster) list \<Rightarrow> 'w
     \<Rightarrow> store_error option \<times> GarageCluster \<times> 'w" where
  "UpdateStatusWithRetry api obj mutate w =
     status_retry api (gc_UID obj)
       (if length mutate = 0 then (\<lambda>fresh. copyStatusField fresh obj) else fold (\<lambda>fn o'. fn o') mutate)
       StatusUpdateMaxRetries obj w"

subsection \<open>The StorageDrainReady condition\<close>

definition ConditionStorageDrainReady :: string where
  "ConditionStorageDrainReady = ''StorageDrainReady''"

definition ReasonStorageDraining :: string where "ReasonStorageDraining = ''Draining''"
definition ReasonStorageDrainCompleted :: string where "ReasonStorageDrainCompleted = ''Completed''"
definition ReasonStorageDrainIdle :: string where "ReasonStorageDrainIdle = ''Idle''"

fun replace_condition :: "Condition \<Rightarrow> Condition list \<Rightarrow> Condition list" where
  "replace_condition condition [] = [condition]"
| "replace_condition condition (c # cs) =
     (if cond_Type c = cond_Type condition
      then (if cond_Status c = cond_Status condition
            then condition\<lparr>cond_LastTransitionTime := cond_LastTransitionTime c\<rparr> else condition) # cs
      else c # replace_condition condition cs)"

definition setStorageDrainCondition ::
    "instant \<Rightarrow> string \<Rightarrow> string \<Rightarrow> GarageCluster \<Rightarrow> GarageCluster" where
  "setStorageDrainCondition now status reason cluster =
     cluster\<lparr>gc_Status := (gc_Status cluster)\<lparr>cst_Conditions :=
       replace_condition
         \<lparr>cond_Type = ConditionStorageDrainReady, cond_Status = status, cond_Reason = reason,
          cond_ObservedGeneration = gc_Generation cluster, cond_LastTransitionTime = now\<rparr>
         (cst_Conditions (gc_Status cluster))\<rparr>\<rparr>"

subsection \<open>Revisions\<close>

record storageDrainRevision =
  rev_Exists :: bool
  rev_ActorAPIVersion :: string
  rev_ActorKind :: string
  rev_ActorNamespace :: string
  rev_ActorName :: string
  rev_ActorUID :: string
  rev_TransactionID :: string
  rev_TargetHash :: string
  rev_IntentHash :: string
  rev_ProofHash :: string

definition zero_revision :: storageDrainRevision where
  "zero_revision = \<lparr>rev_Exists = False, rev_ActorAPIVersion = [], rev_ActorKind = [],
     rev_ActorNamespace = [], rev_ActorName = [], rev_ActorUID = [], rev_TransactionID = [],
     rev_TargetHash = [], rev_IntentHash = [], rev_ProofHash = []\<rparr>"

text \<open>
  \<open>marshal\<close> stands for json.Marshal on a StorageDrainStatus, which cannot fail on its fields, and
  \<open>sum256\<close>, as before, for SHA-256 in lower-case hexadecimal.
\<close>

definition storageDrainRevisionFromStatus ::
    "(string \<Rightarrow> string) \<Rightarrow> (StorageDrainStatus \<Rightarrow> string) \<Rightarrow> StorageDrainStatus option \<Rightarrow> storageDrainRevision" where
  "storageDrainRevisionFromStatus sum256 marshal status =
     (case status of
        None \<Rightarrow> zero_revision
      | Some s \<Rightarrow>
          \<lparr>rev_Exists = True, rev_ActorAPIVersion = sas_APIVersion (sds_Actor s),
           rev_ActorKind = sas_Kind (sds_Actor s), rev_ActorNamespace = sas_Namespace (sds_Actor s),
           rev_ActorName = sas_Name (sds_Actor s), rev_ActorUID = sas_UID (sds_Actor s),
           rev_TransactionID = sds_TransactionID s, rev_TargetHash = sds_TargetHash s,
           rev_IntentHash = storageDrainTargetHash sum256 (sds_RoleRemovalNodeIDs s)
             (sds_RemovedStorageNodeIDs s) (sds_UnavailableSourceNodeIDs s),
           rev_ProofHash = ''sha256:'' @ sum256 (marshal s)\<rparr>)"

definition sameStorageDrainRevision :: "storageDrainRevision \<Rightarrow> storageDrainRevision \<Rightarrow> bool" where
  "sameStorageDrainRevision left right \<longleftrightarrow> left = right"

subsection \<open>The compare-and-swap of the durable proof\<close>

definition persisted_proof :: "instant \<Rightarrow> blockResyncProof option \<Rightarrow> GarageCluster \<Rightarrow> GarageCluster" where
  "persisted_proof now proof cluster =
     (let stored = cluster\<lparr>gc_Status := (gc_Status cluster)\<lparr>cst_StorageDrain := v1beta2StorageDrainStatus proof\<rparr>\<rparr> in
      case proof of
        None \<Rightarrow> setStorageDrainCondition now ConditionTrue ReasonStorageDrainIdle stored
      | Some p \<Rightarrow>
          if bp_CompletedAt p \<noteq> None
          then setStorageDrainCondition now ConditionTrue ReasonStorageDrainCompleted stored
          else setStorageDrainCondition now ConditionFalse ReasonStorageDraining stored)"

fun persist_loop ::
    "(string \<Rightarrow> string) \<Rightarrow> (StorageDrainStatus \<Rightarrow> string) \<Rightarrow> 'w kube_api \<Rightarrow> instant \<Rightarrow> string
     \<Rightarrow> storageDrainRevision \<Rightarrow> blockResyncProof option \<Rightarrow> nat \<Rightarrow> GarageCluster \<Rightarrow> 'w
     \<Rightarrow> store_error option \<times> GarageCluster \<times> 'w" where
  "persist_loop sum256 marshal api now originalUID expected proof 0 cluster w =
     (Some RetriesExhausted, cluster, w)"
| "persist_loop sum256 marshal api now originalUID expected proof (Suc n) cluster w =
     (if originalUID \<noteq> [] \<and> gc_UID cluster \<noteq> originalUID then (Some RecreatedObject, cluster, w)
      else if \<not> sameStorageDrainRevision
                   (storageDrainRevisionFromStatus sum256 marshal (cst_StorageDrain (gc_Status cluster))) expected
      then (Some RevisionChanged, cluster, w)
      else
        let updated = persisted_proof now proof cluster in
        (case ka_UpdateStatus api updated w of
           (None, w1) \<Rightarrow> (None, updated, w1)
         | (Some e, w1) \<Rightarrow>
             if e \<noteq> WriteConflict \<or> n = 0 then (Some (UpdateFailed e), updated, w1)
             else (case ka_GetCluster api (cluster_key updated) w1 of
                     (Inl g, w2) \<Rightarrow> (Some (RefetchFailed g), updated, w2)
                   | (Inr fresh, w2) \<Rightarrow>
                       persist_loop sum256 marshal api now originalUID expected proof n fresh w2)))"

definition updateClusterStorageDrainProof ::
    "(string \<Rightarrow> string) \<Rightarrow> (StorageDrainStatus \<Rightarrow> string) \<Rightarrow> 'w kube_api option \<Rightarrow> instant \<Rightarrow> GarageCluster
     \<Rightarrow> storageDrainRevision \<Rightarrow> blockResyncProof option \<Rightarrow> 'w \<Rightarrow> store_error option \<times> GarageCluster \<times> 'w" where
  "updateClusterStorageDrainProof sum256 marshal kubeClient now cluster expected proof w =
     (case kubeClient of
        None \<Rightarrow> (Some ClientNotConfigured, cluster, w)
      | Some api \<Rightarrow>
          persist_loop sum256 marshal api now (gc_UID cluster) expected proof StatusUpdateMaxRetries cluster w)"

text \<open>The revision a handler passes is that of the object it holds.\<close>

definition persist_own ::
    "(string \<Rightarrow> string) \<Rightarrow> (StorageDrainStatus \<Rightarrow> string) \<Rightarrow> 'w kube_api option \<Rightarrow> instant \<Rightarrow> GarageCluster
     \<Rightarrow> blockResyncProof option \<Rightarrow> 'w \<Rightarrow> store_error option \<times> GarageCluster \<times> 'w" where
  "persist_own sum256 marshal kubeClient now cluster proof w =
     updateClusterStorageDrainProof sum256 marshal kubeClient now cluster
       (storageDrainRevisionFromStatus sum256 marshal (cst_StorageDrain (gc_Status cluster))) proof w"

subsection \<open>The end of a transaction\<close>

datatype end_error =
    ProofNotComplete
  | NoRoleOnlyTransaction
  | LayoutMissing
  | RoleStillPresent string
  | EndNotPersisted store_error

definition end_marker ::
    "(string \<Rightarrow> string) \<Rightarrow> GarageCluster \<Rightarrow> blockResyncProof \<Rightarrow> coordinator \<Rightarrow> coordinator" where
  "end_marker sum256 cluster proof coord =
     EndStorageDrain (layoutOwnerKey sum256 (Some cluster)) (layoutRolloutOwnerID sum256 (Some cluster))
       (da_UID (bp_Actor proof)) (bp_TransactionID proof) (bp_TargetHash proof) coord"

definition clearCompletedStorageDrain ::
    "(string \<Rightarrow> string) \<Rightarrow> (StorageDrainStatus \<Rightarrow> string) \<Rightarrow> 'w kube_api option \<Rightarrow> instant \<Rightarrow> coordinator
     \<Rightarrow> GarageCluster \<Rightarrow> blockResyncProof option \<Rightarrow> 'w \<Rightarrow> end_error option \<times> GarageCluster \<times> coordinator \<times> 'w" where
  "clearCompletedStorageDrain sum256 marshal kubeClient now coord cluster proofPtr w =
     (case proofPtr of
        None \<Rightarrow> (Some ProofNotComplete, cluster, coord, w)
      | Some proof \<Rightarrow>
          if bp_CompletedAt proof = None then (Some ProofNotComplete, cluster, coord, w)
          else (case persist_own sum256 marshal kubeClient now cluster None w of
                  (Some e, cluster1, w1) \<Rightarrow> (Some (EndNotPersisted e), cluster1, coord, w1)
                | (None, cluster1, w1) \<Rightarrow> (None, cluster1, end_marker sum256 cluster1 proof coord, w1)))"

definition abortStorageDrain ::
    "(string \<Rightarrow> string) \<Rightarrow> (StorageDrainStatus \<Rightarrow> string) \<Rightarrow> 'w kube_api option \<Rightarrow> instant \<Rightarrow> coordinator
     \<Rightarrow> GarageCluster \<Rightarrow> blockResyncProof option \<Rightarrow> 'w \<Rightarrow> end_error option \<times> GarageCluster \<times> coordinator \<times> 'w" where
  "abortStorageDrain sum256 marshal kubeClient now coord cluster proofPtr w =
     (case proofPtr of
        None \<Rightarrow> (None, cluster, coord, w)
      | Some proof \<Rightarrow>
          (case persist_own sum256 marshal kubeClient now cluster None w of
             (Some e, cluster1, w1) \<Rightarrow> (Some (EndNotPersisted e), cluster1, coord, w1)
           | (None, cluster1, w1) \<Rightarrow> (None, cluster1, end_marker sum256 cluster1 proof coord, w1)))"

definition completeRoleOnlyDrain ::
    "(string \<Rightarrow> string) \<Rightarrow> (StorageDrainStatus \<Rightarrow> string) \<Rightarrow> 'w kube_api option \<Rightarrow> instant \<Rightarrow> GarageCluster
     \<Rightarrow> storageDrainActor \<Rightarrow> ClusterLayout option \<Rightarrow> 'w \<Rightarrow> end_error option \<times> GarageCluster \<times> 'w" where
  "completeRoleOnlyDrain sum256 marshal kubeClient now cluster actor layoutPtr w =
     (case clusterStorageDrainProof (cst_StorageDrain (gc_Status cluster)) of
        None \<Rightarrow> (Some NoRoleOnlyTransaction, cluster, w)
      | Some proof \<Rightarrow>
          if \<not> sameStorageDrainActor (bp_Actor proof) actor \<or> length (bp_RemovedStorageNodeIDs proof) \<noteq> 0
          then (Some NoRoleOnlyTransaction, cluster, w)
          else
     (case layoutPtr of
        None \<Rightarrow> (Some LayoutMissing, cluster, w)
      | Some layout \<Rightarrow>
     (case find (\<lambda>n. n \<in> lr_ID ` set (cl_Roles layout)) (bp_RoleRemovalNodeIDs proof) of
        Some n \<Rightarrow> (Some (RoleStillPresent (shortID n)), cluster, w)
      | None \<Rightarrow>
          let next = proof\<lparr>bp_LayoutVersion := cl_Version layout, bp_VerificationNodeIDs := [],
                bp_RepairBaselines := [], bp_RepairWorkerIDs := [], bp_ResyncErrorBaselines := None,
                bp_QueueLength := 0, bp_ErrorCount := 0, bp_RequiresEmptyQueue := False,
                bp_QuietSince := None,
                bp_CompletedAt := (case bp_CompletedAt proof of None \<Rightarrow> Some now | Some c \<Rightarrow> Some c)\<rparr> in
          (case persist_own sum256 marshal kubeClient now cluster (Some next) w of
             (e, cluster1, w1) \<Rightarrow> (map_option EndNotPersisted e, cluster1, w1)))))"

definition completeRoleOnlyClusterDrain ::
    "(string \<Rightarrow> string) \<Rightarrow> (StorageDrainStatus \<Rightarrow> string) \<Rightarrow> 'w kube_api option \<Rightarrow> instant \<Rightarrow> GarageCluster
     \<Rightarrow> ClusterLayout option \<Rightarrow> 'w \<Rightarrow> end_error option \<times> GarageCluster \<times> 'w" where
  "completeRoleOnlyClusterDrain sum256 marshal kubeClient now cluster layout w =
     completeRoleOnlyDrain sum256 marshal kubeClient now cluster (storageDrainActorForCluster (Some cluster)) layout w"

definition completeRoleOnlyGarageNodeDrain ::
    "(string \<Rightarrow> string) \<Rightarrow> (StorageDrainStatus \<Rightarrow> string) \<Rightarrow> 'w kube_api option \<Rightarrow> instant \<Rightarrow> GarageNode option
     \<Rightarrow> GarageCluster \<Rightarrow> ClusterLayout option \<Rightarrow> 'w \<Rightarrow> end_error option \<times> GarageCluster \<times> 'w" where
  "completeRoleOnlyGarageNodeDrain sum256 marshal kubeClient now node cluster layout w =
     completeRoleOnlyDrain sum256 marshal kubeClient now cluster (storageDrainActorForNode node) layout w"


subsection \<open>Lemmas\<close>

lemma setStorageDrainCondition_frame [simp]:
  "gc_UID (setStorageDrainCondition now st r c) = gc_UID c"
  "gc_Generation (setStorageDrainCondition now st r c) = gc_Generation c"
  "gc_Spec (setStorageDrainCondition now st r c) = gc_Spec c"
  "gc_Annotations (setStorageDrainCondition now st r c) = gc_Annotations c"
  "gc_Namespace (setStorageDrainCondition now st r c) = gc_Namespace c"
  "gc_Name (setStorageDrainCondition now st r c) = gc_Name c"
  "cst_StorageDrain (gc_Status (setStorageDrainCondition now st r c)) = cst_StorageDrain (gc_Status c)"
  "cst_StorageRollout (gc_Status (setStorageDrainCondition now st r c)) = cst_StorageRollout (gc_Status c)"
  "cst_FactorMigration (gc_Status (setStorageDrainCondition now st r c)) = cst_FactorMigration (gc_Status c)"
  "cst_Health (gc_Status (setStorageDrainCondition now st r c)) = cst_Health (gc_Status c)"
  by (simp_all add: setStorageDrainCondition_def)

lemma persisted_proof_frame [simp]:
  "gc_UID (persisted_proof now p c) = gc_UID c"
  "gc_Generation (persisted_proof now p c) = gc_Generation c"
  "gc_Spec (persisted_proof now p c) = gc_Spec c"
  "gc_Annotations (persisted_proof now p c) = gc_Annotations c"
  "gc_Namespace (persisted_proof now p c) = gc_Namespace c"
  "gc_Name (persisted_proof now p c) = gc_Name c"
  "cst_StorageDrain (gc_Status (persisted_proof now p c)) = v1beta2StorageDrainStatus p"
  "cst_StorageRollout (gc_Status (persisted_proof now p c)) = cst_StorageRollout (gc_Status c)"
  "cst_FactorMigration (gc_Status (persisted_proof now p c)) = cst_FactorMigration (gc_Status c)"
  "cst_Health (gc_Status (persisted_proof now p c)) = cst_Health (gc_Status c)"
  by (simp_all add: persisted_proof_def Let_def split: option.splits)

lemma persisted_proof_key [simp]: "cluster_key (persisted_proof now p c) = cluster_key c"
  by (simp add: cluster_key_def)

text \<open>A condition other than the replaced one is kept, in place and unchanged.\<close>

lemma replace_condition_other:
  "t \<noteq> cond_Type c \<Longrightarrow> FindStatusCondition (replace_condition c cs) t = FindStatusCondition cs t"
  by (induction cs) (auto simp: FindStatusCondition_def)

lemma replace_condition_own:
  "\<exists>d. FindStatusCondition (replace_condition c cs) (cond_Type c) = Some d \<and> cond_Status d = cond_Status c
     \<and> cond_Reason d = cond_Reason c \<and> cond_ObservedGeneration d = cond_ObservedGeneration c"
  by (induction cs) (auto simp: FindStatusCondition_def)

lemma setStorageDrainCondition_other:
  "t \<noteq> ConditionStorageDrainReady \<Longrightarrow>
     FindStatusCondition (cst_Conditions (gc_Status (setStorageDrainCondition now st r c))) t
       = FindStatusCondition (cst_Conditions (gc_Status c)) t"
  by (simp add: setStorageDrainCondition_def replace_condition_other)

lemma revision_of_same_status:
  assumes "storageDrainRevisionFromStatus sum256 marshal s = storageDrainRevisionFromStatus sum256 marshal t"
    and "\<And>a b. t = Some b \<Longrightarrow> sum256 (marshal a) = sum256 (marshal b) \<Longrightarrow> a = b"
  shows "s = t"
proof (cases s; cases t)
  fix a b assume "s = Some a" "t = Some b"
  then show ?thesis using assms by (simp add: storageDrainRevisionFromStatus_def)
qed (use assms(1) in \<open>simp_all add: storageDrainRevisionFromStatus_def zero_revision_def\<close>)

definition revision_matches ::
    "(string \<Rightarrow> string) \<Rightarrow> (StorageDrainStatus \<Rightarrow> string) \<Rightarrow> string \<Rightarrow> storageDrainRevision \<Rightarrow> GarageCluster \<Rightarrow> bool" where
  "revision_matches sum256 marshal uid expected base \<longleftrightarrow>
     (uid = [] \<or> gc_UID base = uid)
     \<and> storageDrainRevisionFromStatus sum256 marshal (cst_StorageDrain (gc_Status base)) = expected"

text \<open>
  What the loop may do to the world: reads, and writes of the new proof over an object with the
  expected revision and identity.  A property of worlds that these keep is kept by the loop.
\<close>

lemma persist_loop_invariant:
  assumes reads: "\<And>k w. P w \<Longrightarrow> P (snd (ka_GetCluster api k w))"
    and writes: "\<And>base w. P w \<Longrightarrow> revision_matches sum256 marshal uid expected base \<Longrightarrow>
                   P (snd (ka_UpdateStatus api (persisted_proof now proof base) w))"
  shows "P w \<Longrightarrow> P (snd (snd (persist_loop sum256 marshal api now uid expected proof n cluster w)))"
proof (induction n arbitrary: cluster w)
  case (Suc n)
  show ?case
  proof (cases "revision_matches sum256 marshal uid expected cluster")
    case True
    then have u: "P (snd (ka_UpdateStatus api (persisted_proof now proof cluster) w))"
      using writes Suc.prems by blast
    obtain e w1 where "ka_UpdateStatus api (persisted_proof now proof cluster) w = (e, w1)" by fastforce
    moreover obtain g w2 where "ka_GetCluster api (cluster_key cluster) w1 = (g, w2)" by fastforce
    moreover from calculation have "P w1" "P w2" using u reads [of w1 "cluster_key cluster"] by auto
    ultimately show ?thesis
      using Suc.IH True
      by (auto simp: revision_matches_def sameStorageDrainRevision_def Let_def split: option.split sum.split)
  next
    case False
    then show ?thesis using Suc.prems by (auto simp: revision_matches_def sameStorageDrainRevision_def)
  qed
qed simp

lemma persist_loop_success:
  "persist_loop sum256 marshal api now uid expected proof n cluster w = (None, cluster', w') \<Longrightarrow>
     \<exists>base w0. revision_matches sum256 marshal uid expected base
       \<and> cluster' = persisted_proof now proof base \<and> ka_UpdateStatus api cluster' w0 = (None, w')"
proof (induction n arbitrary: cluster w)
  case (Suc n)
  obtain e w1 where u: "ka_UpdateStatus api (persisted_proof now proof cluster) w = (e, w1)" by fastforce
  obtain g w2 where g: "ka_GetCluster api (cluster_key cluster) w1 = (g, w2)" by fastforce
  show ?case
    using Suc u g
    by (auto simp: revision_matches_def sameStorageDrainRevision_def Let_def split: if_splits option.splits sum.splits)
qed simp

lemma persist_success:
  assumes "updateClusterStorageDrainProof sum256 marshal kube now cluster expected proof w = (None, cluster', w')"
  obtains api base w0 where "kube = Some api" "revision_matches sum256 marshal (gc_UID cluster) expected base"
    "cluster' = persisted_proof now proof base" "ka_UpdateStatus api cluster' w0 = (None, w')"
  using assms persist_loop_success
  by (fastforce simp: updateClusterStorageDrainProof_def split: option.splits)

lemma persist_own_success:
  assumes "persist_own sum256 marshal kube now cluster proof w = (None, cluster', w')"
  shows "cst_StorageDrain (gc_Status cluster') = v1beta2StorageDrainStatus proof"
    and "gc_UID cluster = [] \<or> gc_UID cluster' = gc_UID cluster"
  using persist_success [OF assms [unfolded persist_own_def]] by (fastforce simp: revision_matches_def)+

subsection \<open>Properties\<close>



text \<open>
  A role-only retirement is completed only for capacity-less targets that left the layout.  A
  success means that the recorded transaction belongs to the actor and removes no storage, that none
  of its role targets is in the layout that was read, and that status now holds the same intent,
  without evidence, bound to that layout version and with a completion time, the first one recorded.
\<close>

theorem role_only_completion_sound:
  assumes "completeRoleOnlyDrain sum256 marshal kube now cluster actor (Some layout) w = (None, cluster', w')"
  shows "\<exists>p q. clusterStorageDrainProof (cst_StorageDrain (gc_Status cluster)) = Some p
     \<and> bp_Actor p = actor \<and> da_UID actor \<noteq> [] \<and> bp_RemovedStorageNodeIDs p = []
     \<and> set (bp_RoleRemovalNodeIDs p) \<inter> lr_ID ` set (cl_Roles layout) = {}
     \<and> cst_StorageDrain (gc_Status cluster') = v1beta2StorageDrainStatus (Some q)
     \<and> same_intent q p \<and> bp_LayoutVersion q = cl_Version layout \<and> bp_RepairWorkerIDs q = []
     \<and> bp_CompletedAt q = Some (case bp_CompletedAt p of None \<Rightarrow> now | Some c \<Rightarrow> c)"
proof -
  obtain p where p: "clusterStorageDrainProof (cst_StorageDrain (gc_Status cluster)) = Some p"
      "sameStorageDrainActor (bp_Actor p) actor" "bp_RemovedStorageNodeIDs p = []"
      "find (\<lambda>n. n \<in> lr_ID ` set (cl_Roles layout)) (bp_RoleRemovalNodeIDs p) = None"
    using assms by (auto simp: completeRoleOnlyDrain_def simp del: find_None_iff split: option.split_asm if_split_asm)
  let ?q = "p\<lparr>bp_LayoutVersion := cl_Version layout, bp_VerificationNodeIDs := [], bp_RepairBaselines := [],
      bp_RepairWorkerIDs := [], bp_ResyncErrorBaselines := None, bp_QueueLength := 0, bp_ErrorCount := 0,
      bp_RequiresEmptyQueue := False, bp_QuietSince := None,
      bp_CompletedAt := (case bp_CompletedAt p of None \<Rightarrow> Some now | Some c \<Rightarrow> Some c)\<rparr>"
  have "persist_own sum256 marshal kube now cluster (Some ?q) w = (None, cluster', w')"
    using assms p by (auto simp: completeRoleOnlyDrain_def Let_def simp del: find_None_iff split: prod.split_asm)
  from persist_own_success(1) [OF this] p show ?thesis
    by (intro exI [of _ p] exI [of _ ?q])
       (auto simp: sameStorageDrainActor_iff same_intent_def find_None_iff split: option.split)
qed

definition sample_role_only :: blockResyncProof where
  "sample_role_only = intent_proof sample_drain_actor ''tx''
     (TargetHash (\<lambda>s. s) [sample_id CHR ''a''] [] []) 1 [sample_id CHR ''a''] [] []"

theorem role_only_completion_sound_witness:
  "\<exists>cluster' q. completeRoleOnlyDrain (\<lambda>s. s) (\<lambda>s. []) (Some \<lparr>ka_UpdateStatus = (\<lambda>c n. (None, n + 1)),
       ka_GetCluster = (\<lambda>k n. (Inl NotFound, n))\<rparr>) 5
       (sample_cluster\<lparr>gc_Status := sample_status\<lparr>cst_StorageDrain := v1beta2StorageDrainStatus (Some sample_role_only)\<rparr>\<rparr>)
       sample_drain_actor (Some (sample_layout\<lparr>cl_Roles := []\<rparr>)) (0 :: nat) = (None, cluster', 1)
     \<and> cst_StorageDrain (gc_Status cluster') = v1beta2StorageDrainStatus (Some q) \<and> bp_CompletedAt q = Some 5"
proof -
  let ?c = "sample_cluster\<lparr>gc_Status := sample_status\<lparr>cst_StorageDrain := v1beta2StorageDrainStatus (Some sample_role_only)\<rparr>\<rparr>"
  let ?api = "\<lparr>ka_UpdateStatus = (\<lambda>c n. (None, n + 1)), ka_GetCluster = (\<lambda>k n. (Inl NotFound, n))\<rparr> :: nat kube_api"
  have pr: "clusterStorageDrainProof (v1beta2StorageDrainStatus (Some sample_role_only)) = Some sample_role_only"
    by (simp add: clusterStorageDrainProof_def v1beta2StorageDrainStatus_def)
  have f: "bp_CompletedAt sample_role_only = None" "bp_RemovedStorageNodeIDs sample_role_only = []"
      "sameStorageDrainActor (bp_Actor sample_role_only) sample_drain_actor"
    by (simp_all add: sample_role_only_def sameStorageDrainActor_iff sample_drain_actor_def intent_proof_def)
  obtain cluster' where r: "completeRoleOnlyDrain (\<lambda>s. s) (\<lambda>s. []) (Some ?api) 5 ?c sample_drain_actor
      (Some (sample_layout\<lparr>cl_Roles := []\<rparr>)) 0 = (None, cluster', 1)"
    by (simp add: completeRoleOnlyDrain_def pr f persist_own_def updateClusterStorageDrainProof_def
        StatusUpdateMaxRetries_def numeral_3_eq_3 sameStorageDrainRevision_def Let_def find_None_iff [THEN iffD2])
  from role_only_completion_sound [OF r] obtain q where
    "cst_StorageDrain (gc_Status cluster') = v1beta2StorageDrainStatus (Some q)" "bp_CompletedAt q = Some 5"
    using pr f(1) by auto
  with r show ?thesis by blast
qed

end
