(* ===== verification/ResyncObservation.thy ===== *)
theory ResyncObservation
  imports DrainProof LayoutStaging
begin

text \<open>
  What the storage-drain proof sees of a Garage cluster
  (internal/controller/block_resync_barrier.go): the snapshot built from layout history, layout,
  status, workers and block errors, and its restriction to the source and destination processes of
  one transaction.  A snapshot is built only when the five answers agree.
\<close>

subsection \<open>Snapshots\<close>

record blockResyncNodeObservation =
  no_IsUp :: bool
  no_WorkersObserved :: bool
  no_BlockErrorsObserved :: bool
  no_WorkersError :: string
  no_BlockErrorsError :: string
  no_Workers :: "WorkerInfo list"
  no_QueueLength :: u64
  no_ErrorCount :: u64

record blockResyncObservation =
  ob_LayoutVersion :: u64
  ob_CurrentRoleNodeIDs :: "string list"
  ob_CurrentRoleTags :: "(string, string list) gomap"
  ob_CurrentStorageNodeIDs :: "string list"
  ob_VerificationNodeIDs :: "string list"
  ob_Nodes :: "(string, blockResyncNodeObservation) gomap"
  ob_QueueLength :: u64
  ob_ErrorCount :: u64

definition zero_node :: blockResyncNodeObservation where
  "zero_node = \<lparr>no_IsUp = False, no_WorkersObserved = False, no_BlockErrorsObserved = False,
     no_WorkersError = [], no_BlockErrorsError = [], no_Workers = [], no_QueueLength = 0, no_ErrorCount = 0\<rparr>"

definition node_evidence :: "blockResyncObservation \<Rightarrow> string \<Rightarrow> blockResyncNodeObservation" where
  "node_evidence ob n = gomap_get zero_node (ob_Nodes ob) n"

definition isBlockResyncWorkerName :: "string \<Rightarrow> bool" where
  "isBlockResyncWorkerName name =
     (if \<not> prefix ''Block resync worker #'' name then False
      else let ordinal = drop (length ''Block resync worker #'') name in
           if ordinal = [] then False else ParseUint 64 ordinal \<noteq> None)"

text \<open>An enabled block-resync worker: the name and both structured counters.\<close>

definition enabled_resync_worker :: "WorkerInfo \<Rightarrow> bool" where
  "enabled_resync_worker w \<longleftrightarrow>
     \<not> (\<not> isBlockResyncWorkerName (wi_Name w) \<or> wi_QueueLength w = None \<or> wi_PersistentErrors w = None)"

text \<open>The loop over one node's workers: the largest queue and the largest error counter.\<close>

fun scan_counters :: "u64 \<Rightarrow> u64 \<Rightarrow> WorkerInfo list \<Rightarrow> u64 \<times> u64" where
  "scan_counters queue errs [] = (queue, errs)"
| "scan_counters queue errs (w # ws) =
     (if \<not> enabled_resync_worker w then scan_counters queue errs ws
      else scan_counters (if queue < the (wi_QueueLength w) then the (wi_QueueLength w) else queue)
             (if errs < the (wi_PersistentErrors w) then the (wi_PersistentErrors w) else errs) ws)"

definition update_node ::
    "(blockResyncNodeObservation \<Rightarrow> blockResyncNodeObservation) \<Rightarrow> string
     \<Rightarrow> (string, blockResyncNodeObservation) gomap \<Rightarrow> (string, blockResyncNodeObservation) gomap" where
  "update_node f n nodes = AList.update n (f (gomap_get zero_node nodes n)) nodes"

definition observe_workers :: "WorkerInfo list \<Rightarrow> blockResyncNodeObservation \<Rightarrow> blockResyncNodeObservation" where
  "observe_workers nodeWorkers ev =
     (let (queue, errs) = scan_counters (no_QueueLength ev) 0 nodeWorkers in
      ev\<lparr>no_WorkersObserved := True, no_Workers := nodeWorkers, no_QueueLength := queue,
         no_ErrorCount := no_ErrorCount ev + errs\<rparr>)"

definition observe_nodes ::
    "ClusterStatus \<Rightarrow> ListWorkersResponse \<Rightarrow> ListBlockErrorsResponse
     \<Rightarrow> (string, blockResyncNodeObservation) gomap" where
  "observe_nodes status workers blockErrors =
     (let n1 = foldl (\<lambda>m node. update_node (\<lambda>ev. ev\<lparr>no_IsUp := ni_IsUp node\<rparr>) (ni_ID node) m) [] (cs_Nodes status);
          n2 = foldl (\<lambda>m (i, ws). update_node (observe_workers ws) i m) n1 (mr_Success workers);
          n3 = foldl (\<lambda>m (i, msg). update_node (\<lambda>ev. ev\<lparr>no_WorkersError := msg\<rparr>) i m) n2 (mr_Error workers);
          n4 = foldl (\<lambda>m (i, es). update_node (\<lambda>ev. ev\<lparr>no_BlockErrorsObserved := True,
                        no_ErrorCount := no_ErrorCount ev + of_nat (length es)\<rparr>) i m) n3 (mr_Success blockErrors)
      in foldl (\<lambda>m (i, msg). update_node (\<lambda>ev. ev\<lparr>no_BlockErrorsError := msg\<rparr>) i m) n4 (mr_Error blockErrors))"

datatype observation_error =
    IncompleteEvidence
  | NotSettled staging_error
  | StagingNotEmpty
  | SnapshotsDisagree u64 u64 u64
  | NoStorageRoles
  | MembershipDisagrees
  | WorkersUnavailable string string
  | WorkersMissing string
  | BlockErrorsUnavailable string string
  | BlockErrorsMissing string
  | ProofOrObservationMissing
  | UnavailableSourceIsUp string
  | NothingToVerify
  | VerificationNodeMissing string
  | VerificationNodeDown string

definition positive_capacity :: "u64 option \<Rightarrow> bool" where
  "positive_capacity c = (case c of None \<Rightarrow> False | Some n \<Rightarrow> 0 < n)"

text \<open>The four checks both functions make on a node's evidence, in the source's order.\<close>

definition node_evidence_error :: "string \<Rightarrow> blockResyncNodeObservation \<Rightarrow> observation_error option" where
  "node_evidence_error n ev =
     first_of (fail_if (no_WorkersError ev \<noteq> []) (WorkersUnavailable (shortID n) (no_WorkersError ev)))
    (first_of (fail_if (\<not> no_WorkersObserved ev) (WorkersMissing (shortID n)))
    (first_of (fail_if (no_BlockErrorsError ev \<noteq> []) (BlockErrorsUnavailable (shortID n) (no_BlockErrorsError ev)))
              (fail_if (\<not> no_BlockErrorsObserved ev) (BlockErrorsMissing (shortID n)))))"

definition sum_counters ::
    "(blockResyncNodeObservation \<Rightarrow> u64) \<Rightarrow> blockResyncObservation \<Rightarrow> string list \<Rightarrow> u64" where
  "sum_counters f ob ids = foldl (\<lambda>acc n. acc + f (node_evidence ob n)) 0 ids"

definition blockResyncObservationFromResponses ::
    "LayoutHistoryResponse option \<Rightarrow> ClusterLayout option \<Rightarrow> ClusterStatus option \<Rightarrow> ListWorkersResponse option
     \<Rightarrow> ListBlockErrorsResponse option \<Rightarrow> observation_error + blockResyncObservation" where
  "blockResyncObservationFromResponses historyPtr layoutPtr statusPtr workersPtr blockErrorsPtr =
     (case (historyPtr, layoutPtr, statusPtr, workersPtr, blockErrorsPtr) of
        (Some history, Some layout, Some status, Some workers, Some blockErrors) \<Rightarrow>
          (case requireSettledLayoutHistoryResponse (Some history) of
             Some e \<Rightarrow> Inl (NotSettled e)
           | None \<Rightarrow>
          if 0 < length (cl_StagedRoleChanges layout) \<or> cl_StagedParameters layout \<noteq> None then Inl StagingNotEmpty
          else if cl_Version layout \<noteq> lh_CurrentVersion history \<or> cs_LayoutVersion status \<noteq> lh_CurrentVersion history
          then Inl (SnapshotsDisagree (lh_CurrentVersion history) (cl_Version layout) (cs_LayoutVersion status))
          else
            (let roleIDs = NormalizeNodeIDs (map lr_ID (cl_Roles layout));
                 roleTags = foldl (\<lambda>m r. AList.update (lr_ID r) (lr_Tags r) m) [] (cl_Roles layout);
                 storageIDs = NormalizeNodeIDs (map lr_ID (filter (\<lambda>r. positive_capacity (lr_Capacity r)) (cl_Roles layout)));
                 statusIDs = NormalizeNodeIDs (map ni_ID (filter (\<lambda>n. case ni_Role n of None \<Rightarrow> False
                                | Some r \<Rightarrow> positive_capacity (nar_Capacity r)) (cs_Nodes status))) in
             if length storageIDs = 0 then Inl NoStorageRoles
             else if statusIDs \<noteq> storageIDs then Inl MembershipDisagrees
             else
               let ob = \<lparr>ob_LayoutVersion = lh_CurrentVersion history, ob_CurrentRoleNodeIDs = roleIDs,
                         ob_CurrentRoleTags = roleTags, ob_CurrentStorageNodeIDs = storageIDs,
                         ob_VerificationNodeIDs = storageIDs,
                         ob_Nodes = observe_nodes status workers blockErrors,
                         ob_QueueLength = 0, ob_ErrorCount = 0\<rparr> in
               guard_result (first_error (\<lambda>n. node_evidence_error n (node_evidence ob n)) storageIDs)
                 (Inr (ob\<lparr>ob_QueueLength := sum_counters no_QueueLength ob storageIDs,
                          ob_ErrorCount := sum_counters no_ErrorCount ob storageIDs\<rparr>))))
      | _ \<Rightarrow> Inl IncompleteEvidence)"

text \<open>Restriction of a snapshot to the processes of a transaction.\<close>

definition scopeBlockResyncObservation ::
    "blockResyncProof option \<Rightarrow> blockResyncObservation option \<Rightarrow> observation_error + blockResyncObservation" where
  "scopeBlockResyncObservation proofPtr observationPtr =
     (case (proofPtr, observationPtr) of
        (Some p, Some ob) \<Rightarrow>
          guard_result
            (first_error (\<lambda>n. fail_if (case map_of (ob_Nodes ob) n of None \<Rightarrow> False | Some ev \<Rightarrow> no_IsUp ev)
                                (UnavailableSourceIsUp (shortID n)))
               (NormalizeNodeIDs (bp_UnavailableSourceNodeIDs p)))
            (let verification = NormalizeNodeIDs (ob_CurrentStorageNodeIDs ob @ storageDrainLiveSourceNodeIDs proofPtr) in
             if length verification = 0 then Inl NothingToVerify
             else
               guard_result
                 (first_error (\<lambda>n.
                     case map_of (ob_Nodes ob) n of
                       None \<Rightarrow> Some (VerificationNodeMissing (shortID n))
                     | Some ev \<Rightarrow> first_of (fail_if (\<not> no_IsUp ev) (VerificationNodeDown (shortID n)))
                                     (node_evidence_error n ev)) verification)
                 (Inr (ob\<lparr>ob_VerificationNodeIDs := verification,
                          ob_QueueLength := sum_counters no_QueueLength ob verification,
                          ob_ErrorCount := sum_counters no_ErrorCount ob verification\<rparr>)))
      | _ \<Rightarrow> Inl ProofOrObservationMissing)"

definition maxWorkerID :: "WorkerInfo list \<Rightarrow> u64" where
  "maxWorkerID workers = foldl (\<lambda>maximum w. if maximum < wi_ID w then wi_ID w else maximum) 0 workers"

definition blockRepairWorkerName :: string where
  "blockRepairWorkerName = ''Block repair worker''"

definition blockRepairWorker :: "WorkerInfo list \<Rightarrow> u64 \<Rightarrow> WorkerInfo option" where
  "blockRepairWorker workers i = find (\<lambda>w. wi_ID w = i \<and> wi_Name w = blockRepairWorkerName) workers"

definition newestBlockRepairWorkerAfter :: "WorkerInfo list \<Rightarrow> u64 \<Rightarrow> WorkerInfo option" where
  "newestBlockRepairWorkerAfter workers baseline =
     foldl (\<lambda>newest w.
         if wi_Name w \<noteq> blockRepairWorkerName \<or> wi_ID w \<le> baseline then newest
         else (case newest of
                 None \<Rightarrow> Some w
               | Some n \<Rightarrow> if wi_ID n < wi_ID w then Some w else newest)) None workers"

definition mapKeys :: "(string, u64) gomap \<Rightarrow> string list" where
  "mapKeys values = sort (map fst values)"

subsection \<open>Lemmas\<close>

lemma maxWorkerID_bound: "w \<in> set ws \<Longrightarrow> wi_ID w \<le> maxWorkerID ws"
proof -
  have "acc \<le> foldl (\<lambda>maximum w. if maximum < wi_ID w then wi_ID w else maximum) acc ws
      \<and> (\<forall>w \<in> set ws. wi_ID w \<le> foldl (\<lambda>maximum w. if maximum < wi_ID w then wi_ID w else maximum) acc ws)" for acc
  proof (induction ws arbitrary: acc)
    case (Cons x ws)
    from Cons.IH [of "if acc < wi_ID x then wi_ID x else acc"] show ?case
      by (auto split: if_splits)
  qed simp
  then show "w \<in> set ws \<Longrightarrow> wi_ID w \<le> maxWorkerID ws" by (auto simp: maxWorkerID_def)
qed

lemma newest_Some:
  "newestBlockRepairWorkerAfter ws b = Some w \<Longrightarrow>
     w \<in> set ws \<and> wi_Name w = blockRepairWorkerName \<and> b < wi_ID w"
proof -
  have "foldl (\<lambda>newest w. if wi_Name w \<noteq> blockRepairWorkerName \<or> wi_ID w \<le> b then newest
         else (case newest of None \<Rightarrow> Some w | Some n \<Rightarrow> if wi_ID n < wi_ID w then Some w else newest)) acc ws = Some w
      \<Longrightarrow> acc = Some w \<or> w \<in> set ws \<and> wi_Name w = blockRepairWorkerName \<and> b < wi_ID w" for acc
  proof (induction ws arbitrary: acc)
    case (Cons x ws)
    from Cons.IH [OF Cons.prems [unfolded foldl.simps]] show ?case
      by (auto split: if_splits option.splits)
  qed simp
  then show "newestBlockRepairWorkerAfter ws b = Some w \<Longrightarrow> ?thesis" by (fastforce simp: newestBlockRepairWorkerAfter_def)
qed

lemma newest_None:
  "newestBlockRepairWorkerAfter ws b = None \<longleftrightarrow>
     (\<forall>w \<in> set ws. wi_Name w = blockRepairWorkerName \<longrightarrow> wi_ID w \<le> b)"
proof -
  have "foldl (\<lambda>newest w. if wi_Name w \<noteq> blockRepairWorkerName \<or> wi_ID w \<le> b then newest
         else (case newest of None \<Rightarrow> Some w | Some n \<Rightarrow> if wi_ID n < wi_ID w then Some w else newest)) acc ws = None
      \<longleftrightarrow> acc = None \<and> (\<forall>w \<in> set ws. wi_Name w = blockRepairWorkerName \<longrightarrow> wi_ID w \<le> b)" for acc
    by (induction ws arbitrary: acc) (auto split: option.splits)
  then show ?thesis by (simp add: newestBlockRepairWorkerAfter_def)
qed

lemma blockRepairWorker_Some:
  "blockRepairWorker ws i = Some w \<Longrightarrow> w \<in> set ws \<and> wi_ID w = i \<and> wi_Name w = blockRepairWorkerName"
  by (auto simp: blockRepairWorker_def find_Some_iff)

text \<open>The identifiers a transaction must verify.\<close>

definition live_sources :: "blockResyncProof \<Rightarrow> string set" where
  "live_sources p = {n \<in> set (NormalizeNodeIDs (bp_RemovedStorageNodeIDs p)).
      n \<notin> CanonicalGarageNodeID ` set (bp_UnavailableSourceNodeIDs p)}"

lemma set_live_sources: "set (storageDrainLiveSourceNodeIDs (Some p)) = live_sources p"
  by (auto simp: storageDrainLiveSourceNodeIDs_def storageDrainUnavailableSourceIncludes_def
      live_sources_def ids_include_def list_ex_iff image_iff) (metis CanonicalGarageNodeID_idem)+

definition node_proven_up :: "blockResyncObservation \<Rightarrow> string \<Rightarrow> bool" where
  "node_proven_up ob n \<longleftrightarrow> (\<exists>ev. map_of (ob_Nodes ob) n = Some ev \<and> no_IsUp ev \<and> no_WorkersObserved ev
     \<and> no_WorkersError ev = [] \<and> no_BlockErrorsObserved ev \<and> no_BlockErrorsError ev = [])"

lemma scope_Inr:
  assumes "scopeBlockResyncObservation (Some p) (Some ob) = Inr sc"
  shows "set (ob_VerificationNodeIDs sc) = set (NormalizeNodeIDs (ob_CurrentStorageNodeIDs ob)) \<union> live_sources p"
    and "ob_VerificationNodeIDs sc \<noteq> []" and "ob_Nodes sc = ob_Nodes ob"
    and "n \<in> set (ob_VerificationNodeIDs sc) \<Longrightarrow> node_proven_up ob n"
    and "n \<in> set (NormalizeNodeIDs (bp_UnavailableSourceNodeIDs p)) \<Longrightarrow> \<not> no_IsUp (node_evidence ob n)"
    and "ob_CurrentRoleNodeIDs sc = ob_CurrentRoleNodeIDs ob" "ob_LayoutVersion sc = ob_LayoutVersion ob"
proof -
  define ver where "ver = NormalizeNodeIDs (ob_CurrentStorageNodeIDs ob @ storageDrainLiveSourceNodeIDs (Some p))"
  have eqs: "sc = ob\<lparr>ob_VerificationNodeIDs := ver, ob_QueueLength := sum_counters no_QueueLength ob ver,
      ob_ErrorCount := sum_counters no_ErrorCount ob ver\<rparr>" "ver \<noteq> []"
    "\<forall>n \<in> set (NormalizeNodeIDs (bp_UnavailableSourceNodeIDs p)).
        \<not> (case map_of (ob_Nodes ob) n of None \<Rightarrow> False | Some ev \<Rightarrow> no_IsUp ev)"
    "\<forall>n \<in> set ver. (case map_of (ob_Nodes ob) n of None \<Rightarrow> Some (VerificationNodeMissing (shortID n))
        | Some ev \<Rightarrow> first_of (fail_if (\<not> no_IsUp ev) (VerificationNodeDown (shortID n))) (node_evidence_error n ev)) = None"
    using assms by (simp_all add: scopeBlockResyncObservation_def ver_def [symmetric] Let_def
        del: ids.set_norm split: if_splits)
  have "live_sources p = CanonicalGarageNodeID ` live_sources p - {[]}"
  proof -
    have "\<forall>n \<in> live_sources p. CanonicalGarageNodeID n = n \<and> n \<noteq> []"
      using ids.mem_norm_canonical by (auto simp: live_sources_def simp del: ids.set_norm)
    then show ?thesis by force
  qed
  then have "set ver = set (NormalizeNodeIDs (ob_CurrentStorageNodeIDs ob)) \<union> live_sources p"
    unfolding ver_def by (simp add: set_live_sources image_Un Un_Diff)
  with eqs(1) show "set (ob_VerificationNodeIDs sc) = set (NormalizeNodeIDs (ob_CurrentStorageNodeIDs ob)) \<union> live_sources p"
    by simp
  show "ob_VerificationNodeIDs sc \<noteq> []" "ob_Nodes sc = ob_Nodes ob"
    "ob_CurrentRoleNodeIDs sc = ob_CurrentRoleNodeIDs ob" "ob_LayoutVersion sc = ob_LayoutVersion ob"
    using eqs(1,2) by simp_all
  show "n \<in> set (ob_VerificationNodeIDs sc) \<Longrightarrow> node_proven_up ob n"
    using eqs(1,4) by (auto simp: node_proven_up_def node_evidence_error_def split: option.splits)
  show "n \<in> set (NormalizeNodeIDs (bp_UnavailableSourceNodeIDs p)) \<Longrightarrow> \<not> no_IsUp (node_evidence ob n)"
    using eqs(3) by (auto simp: node_evidence_def gomap_get_def zero_node_def simp del: ids.set_norm
        split: option.splits)
qed


subsection \<open>Properties\<close>

text \<open>
  A snapshot is taken only of a quiescent, consistent cluster.  When the five Admin API answers
  give an observation, the layout history is settled, nothing is staged, history, layout and status
  name one layout version, layout and status agree on a non-empty set of positive-capacity nodes,
  which is the set to verify, and each of them answered both the worker and the block-error query.
\<close>

theorem observation_is_consistent:
  assumes "blockResyncObservationFromResponses (Some h) (Some l) (Some st) (Some ws) (Some bs) = Inr ob"
  shows "requireSettledLayoutHistoryResponse (Some h) = None
     \<and> cl_StagedRoleChanges l = [] \<and> cl_StagedParameters l = None
     \<and> ob_LayoutVersion ob = lh_CurrentVersion h \<and> cl_Version l = lh_CurrentVersion h
     \<and> cs_LayoutVersion st = lh_CurrentVersion h
     \<and> ob_VerificationNodeIDs ob \<noteq> [] \<and> ob_CurrentStorageNodeIDs ob = ob_VerificationNodeIDs ob
     \<and> set (ob_VerificationNodeIDs ob) =
         CanonicalGarageNodeID ` {lr_ID r | r. r \<in> set (cl_Roles l) \<and> positive_capacity (lr_Capacity r)} - {[]}
     \<and> set (ob_VerificationNodeIDs ob) =
         CanonicalGarageNodeID ` {ni_ID n | n role. n \<in> set (cs_Nodes st) \<and> ni_Role n = Some role
                                      \<and> positive_capacity (nar_Capacity role)} - {[]}
     \<and> (\<forall>n \<in> set (ob_VerificationNodeIDs ob). node_evidence_error n (node_evidence ob n) = None)"
proof -
  define sids where "sids = NormalizeNodeIDs (map lr_ID (filter (\<lambda>r. positive_capacity (lr_Capacity r)) (cl_Roles l)))"
  define tids where "tids = NormalizeNodeIDs (map ni_ID (filter (\<lambda>n. case ni_Role n of None \<Rightarrow> False
                                | Some r \<Rightarrow> positive_capacity (nar_Capacity r)) (cs_Nodes st)))"
  have settled: "requireSettledLayoutHistoryResponse (Some h) = None"
    using assms by (simp add: blockResyncObservationFromResponses_def split: option.splits)
  note a = assms [unfolded blockResyncObservationFromResponses_def, simplified,
      folded sids_def tids_def]
  have flags: "cl_StagedRoleChanges l = []" "cl_StagedParameters l = None"
    "cl_Version l = lh_CurrentVersion h" "cs_LayoutVersion st = lh_CurrentVersion h" "sids \<noteq> []" "tids = sids"
    using a settled by (simp_all add: Let_def split: if_splits)
  then have r: "ob_LayoutVersion ob = lh_CurrentVersion h" "ob_VerificationNodeIDs ob = sids"
    "ob_CurrentStorageNodeIDs ob = sids"
    "\<forall>n \<in> set sids. node_evidence_error n (node_evidence ob n) = None"
    using a settled by (auto simp: Let_def node_evidence_def)
  have s: "set sids = CanonicalGarageNodeID ` {lr_ID r | r. r \<in> set (cl_Roles l) \<and> positive_capacity (lr_Capacity r)} - {[]}"
    unfolding sids_def ids.set_norm by (rule arg_cong [where f = "\<lambda>A. CanonicalGarageNodeID ` A - {[]}"]) auto
  have "set tids = CanonicalGarageNodeID ` {ni_ID n | n role. n \<in> set (cs_Nodes st) \<and> ni_Role n = Some role
                                      \<and> positive_capacity (nar_Capacity role)} - {[]}"
    unfolding tids_def ids.set_norm
    by (rule arg_cong [where f = "\<lambda>A. CanonicalGarageNodeID ` A - {[]}"]) (auto split: option.splits)
  with flags r s settled show ?thesis by simp
qed

definition sample_worker :: "u64 \<Rightarrow> string \<Rightarrow> string \<Rightarrow> WorkerInfo" where
  "sample_worker i name state = \<lparr>wi_ID = i, wi_Name = name,
     wi_State = \<lparr>ws_State = state, ws_DurationSecs = None\<rparr>, wi_Errors = 0, wi_ConsecutiveErrors = 0,
     wi_LastError = None, wi_Tranquility = None, wi_Progress = None, wi_QueueLength = Some 0,
     wi_PersistentErrors = Some 0, wi_Freeform = []\<rparr>"

definition sample_history :: LayoutHistoryResponse where
  "sample_history = \<lparr>lh_CurrentVersion = 2, lh_MinAck = 2, lh_Versions = [], lh_UpdateTrackers = []\<rparr>"

definition sample_settled_layout :: ClusterLayout where
  "sample_settled_layout = \<lparr>cl_Version = 2,
     cl_Roles = [\<lparr>lr_ID = sample_id CHR ''b'', lr_Zone = ''z'', lr_Tags = [], lr_Capacity = Some 10,
                  lr_StoredPartitions = None, lr_UsableCapacity = None\<rparr>],
     cl_Parameters = None, cl_PartitionSize = 0, cl_StagedRoleChanges = [], cl_StagedParameters = None\<rparr>"

definition sample_cluster_status :: ClusterStatus where
  "sample_cluster_status = \<lparr>cs_LayoutVersion = 2,
     cs_Nodes = [\<lparr>ni_ID = sample_id CHR ''b'', ni_GarageVersion = None, ni_Address = None, ni_Hostname = None,
       ni_IsUp = True, ni_LastSeenSecsAgo = None,
       ni_Role = Some \<lparr>nar_Zone = ''z'', nar_Tags = [], nar_Capacity = Some 10\<rparr>, ni_Draining = False,
       ni_DataPartition = None, ni_MetadataPartition = None\<rparr>]\<rparr>"

theorem observation_is_consistent_witness:
  "\<exists>ob. blockResyncObservationFromResponses (Some sample_history) (Some sample_settled_layout)
      (Some sample_cluster_status) (Some \<lparr>mr_Success = [(sample_id CHR ''b'', [])], mr_Error = []\<rparr>)
      (Some \<lparr>mr_Success = [(sample_id CHR ''b'', [])], mr_Error = []\<rparr>) = Inr ob
    \<and> set (ob_VerificationNodeIDs ob) = {sample_id CHR ''b''}"
proof -
  obtain ob where ob: "blockResyncObservationFromResponses (Some sample_history) (Some sample_settled_layout)
      (Some sample_cluster_status) (Some \<lparr>mr_Success = [(sample_id CHR ''b'', [])], mr_Error = []\<rparr>)
      (Some \<lparr>mr_Success = [(sample_id CHR ''b'', [])], mr_Error = []\<rparr>) = Inr ob"
    by (simp add: blockResyncObservationFromResponses_def sample_history_def sample_settled_layout_def
        sample_cluster_status_def requireSettledLayoutHistoryResponse_def GetDrainingVersions_def Let_def
        positive_capacity_def node_evidence_error_def node_evidence_def observe_nodes_def update_node_def
        observe_workers_def gomap_get_def zero_node_def fail_if_def del: ids.set_norm)
  have "sample_id CHR ''b'' \<noteq> []" by (simp add: sample_id_def)
  with observation_is_consistent [OF ob] ob show ?thesis
    by (simp add: sample_settled_layout_def positive_capacity_def)
qed

text \<open>
  The scope of a transaction covers both sides of the transfer.  The processes to verify are
  exactly the current storage nodes and the removed storage nodes not acknowledged as lost; every
  one of them is up and answered both queries, and every acknowledged-lost source is down.
\<close>

theorem scope_covers_both_sides:
  assumes "scopeBlockResyncObservation (Some p) (Some ob) = Inr sc"
  shows "set (ob_VerificationNodeIDs sc) = set (NormalizeNodeIDs (ob_CurrentStorageNodeIDs ob)) \<union> live_sources p
     \<and> (\<forall>n \<in> set (ob_VerificationNodeIDs sc). node_proven_up ob n)
     \<and> (\<forall>n \<in> set (NormalizeNodeIDs (bp_UnavailableSourceNodeIDs p)). \<not> no_IsUp (node_evidence ob n))"
  using scope_Inr [OF assms] by blast

definition sample_node_up :: "WorkerInfo list \<Rightarrow> blockResyncNodeObservation" where
  "sample_node_up ws = \<lparr>no_IsUp = True, no_WorkersObserved = True, no_BlockErrorsObserved = True,
     no_WorkersError = [], no_BlockErrorsError = [], no_Workers = ws, no_QueueLength = 0, no_ErrorCount = 0\<rparr>"

definition sample_observation :: "WorkerInfo list \<Rightarrow> blockResyncObservation" where
  "sample_observation ws = \<lparr>ob_LayoutVersion = 2, ob_CurrentRoleNodeIDs = [sample_id CHR ''b''],
     ob_CurrentRoleTags = [], ob_CurrentStorageNodeIDs = [sample_id CHR ''b''],
     ob_VerificationNodeIDs = [sample_id CHR ''a'', sample_id CHR ''b''],
     ob_Nodes = [(sample_id CHR ''a'', sample_node_up ws), (sample_id CHR ''b'', sample_node_up ws)],
     ob_QueueLength = 0, ob_ErrorCount = 0\<rparr>"

lemma normalize_two_samples [simp]:
  "NormalizeNodeIDs [sample_id CHR ''b'', sample_id CHR ''a''] = [sample_id CHR ''a'', sample_id CHR ''b'']"
proof -
  have "NormalizeNodeIDs [sample_id CHR ''b'', sample_id CHR ''a''] = NormalizeNodeIDs [sample_id CHR ''a'', sample_id CHR ''b'']"
    unfolding ids.norm_eq_iff by auto
  also have "\<dots> = [sample_id CHR ''a'', sample_id CHR ''b'']"
    unfolding ids.norm_fixpoint_iff by (simp add: sample_id_def [of "CHR ''a''", THEN arg_cong, of "\<lambda>x. x = []"]
        sample_id_def [of "CHR ''b''", THEN arg_cong, of "\<lambda>x. x = []"] less_eq_char_def)
  finally show ?thesis .
qed

theorem scope_covers_both_sides_witness:
  "\<exists>sc. scopeBlockResyncObservation (Some sample_proof) (Some (sample_observation [])) = Inr sc
     \<and> (\<forall>n \<in> set (ob_VerificationNodeIDs sc). node_proven_up (sample_observation []) n)"
proof -
  have "storageDrainLiveSourceNodeIDs (Some sample_proof) = [sample_id CHR ''a'']"
    by (simp add: storageDrainLiveSourceNodeIDs_def storageDrainUnavailableSourceIncludes_def ids_include_def sample_proof_def)
  then obtain sc where "scopeBlockResyncObservation (Some sample_proof) (Some (sample_observation [])) = Inr sc"
    by (simp add: scopeBlockResyncObservation_def sample_proof_def [THEN arg_cong, of bp_UnavailableSourceNodeIDs]
        sample_observation_def sample_node_up_def node_evidence_error_def fail_if_def Let_def del: ids.set_norm)
  with scope_covers_both_sides show ?thesis by blast
qed

end
