(* ===== verification/ResyncProgress.thy ===== *)
theory ResyncProgress
  imports ResyncObservation
begin

text \<open>
  evaluateBlockResyncProgress of internal/controller/block_resync_barrier.go: one round of the
  storage-drain proof.  A round compares the durable proof with a scoped observation and either
  restarts the proof on new worker baselines, asks for repairs to be launched, adopts the workers
  that appeared, waits, or declares the transaction ready.  The round is total and free of side
  effects.
\<close>

subsection \<open>Decisions\<close>

datatype resync_message =
    NoTransaction
  | TargetHashInconsistent
  | RemovalTargetPresent string
  | RecordedBaselines u64 "snapshot_change list"
  | MembershipChangedWhileRecording
  | RestartedBeforeRecording string
  | LostRepairWorker string u64
  | RepairCompletedWithErrors u64 string u64
  | WaitingForErroredRepair u64 string
  | WaitingForRepair u64 string string
  | RecordedRepairWorkers
  | LaunchingRepairs
  | NoEnabledResyncWorker string
  | RecordedErrorBaselines
  | ResyncWorkerSetChanged
  | ErrorCounterChanged string
  | WaitingQuietPeriod int
  | WaitingQuietRemainder int
  | WaitingForBlockErrors u64
  | WaitingForEmptyQueue u64
  | WaitingForIdle
  | RepairComplete int u64
and snapshot_change =
    LayoutVersionChanged u64 u64
  | MembershipChanged "string list" "string list"
  | BaselineCardinalityChanged nat nat
  | QueueModeChanged bool bool

record blockResyncDecision =
  dec_Proof :: "blockResyncProof option"
  dec_LaunchNodeIDs :: "string list"
  dec_Ready :: bool
  dec_Message :: resync_message

definition waiting :: "blockResyncProof option \<Rightarrow> resync_message \<Rightarrow> blockResyncDecision" where
  "waiting p msg = \<lparr>dec_Proof = p, dec_LaunchNodeIDs = [], dec_Ready = False, dec_Message = msg\<rparr>"

definition newBlockResyncSnapshotProof ::
    "blockResyncProof \<Rightarrow> blockResyncObservation \<Rightarrow> bool \<Rightarrow> blockResyncProof" where
  "newBlockResyncSnapshotProof previous ob requiresEmptyQueue =
     \<lparr>bp_Actor = bp_Actor previous, bp_TransactionID = bp_TransactionID previous,
      bp_TargetHash = bp_TargetHash previous, bp_StartedAt = bp_StartedAt previous,
      bp_RoleRemovalNodeIDs = [] @ bp_RoleRemovalNodeIDs previous,
      bp_RemovedStorageNodeIDs = [] @ bp_RemovedStorageNodeIDs previous,
      bp_UnavailableSourceNodeIDs = [] @ bp_UnavailableSourceNodeIDs previous,
      bp_LayoutVersion = ob_LayoutVersion ob, bp_VerificationNodeIDs = [] @ ob_VerificationNodeIDs ob,
      bp_ManagedPodUIDs = bp_ManagedPodUIDs previous,
      bp_RepairBaselines = foldl (\<lambda>m n. AList.update n (maxWorkerID (no_Workers (node_evidence ob n))) m) []
                             (ob_VerificationNodeIDs ob),
      bp_RepairWorkerIDs = [], bp_ResyncErrorBaselines = None,
      bp_QueueLength = ob_QueueLength ob, bp_ErrorCount = ob_ErrorCount ob,
      bp_RequiresEmptyQueue = requiresEmptyQueue, bp_QuietSince = None, bp_CompletedAt = None\<rparr>"

subsection \<open>The stages of a round\<close>

definition snapshot_changes :: "blockResyncProof \<Rightarrow> blockResyncObservation \<Rightarrow> bool \<Rightarrow> snapshot_change list" where
  "snapshot_changes previous ob requiresEmptyQueue =
     (if bp_LayoutVersion previous \<noteq> ob_LayoutVersion ob
      then [LayoutVersionChanged (bp_LayoutVersion previous) (ob_LayoutVersion ob)] else [])
   @ (if bp_VerificationNodeIDs previous \<noteq> ob_VerificationNodeIDs ob
      then [MembershipChanged (map shortID (bp_VerificationNodeIDs previous)) (map shortID (ob_VerificationNodeIDs ob))] else [])
   @ (if length (bp_RepairBaselines previous) \<noteq> length (ob_VerificationNodeIDs ob)
      then [BaselineCardinalityChanged (length (bp_RepairBaselines previous)) (length (ob_VerificationNodeIDs ob))] else [])
   @ (if bp_RequiresEmptyQueue previous \<noteq> requiresEmptyQueue
      then [QueueModeChanged (bp_RequiresEmptyQueue previous) requiresEmptyQueue] else [])"

text \<open>
  The loop over the verification nodes: either a decision, or the updated proof, whether a worker
  was adopted, and the nodes to launch a repair on, in order.
\<close>

fun repair_scan ::
    "blockResyncProof \<Rightarrow> blockResyncObservation \<Rightarrow> bool \<Rightarrow> string list \<Rightarrow> blockResyncProof \<Rightarrow> bool \<Rightarrow> string list
     \<Rightarrow> blockResyncDecision + (blockResyncProof \<times> bool \<times> string list)" where
  "repair_scan previous ob req [] next adopted launch = Inr (next, adopted, launch)"
| "repair_scan previous ob req (n # ns) next adopted launch =
     (let nodeWorkers = no_Workers (node_evidence ob n);
          restart = (\<lambda>msg. Inl (waiting (Some (newBlockResyncSnapshotProof previous ob req)) msg)) in
      case map_of (bp_RepairBaselines previous) n of
        None \<Rightarrow> restart MembershipChangedWhileRecording
      | Some baseline \<Rightarrow>
          (case map_of (bp_RepairWorkerIDs previous) n of
             None \<Rightarrow>
               if maxWorkerID nodeWorkers < baseline then restart (RestartedBeforeRecording (shortID n))
               else (case newestBlockRepairWorkerAfter nodeWorkers baseline of
                       Some worker \<Rightarrow>
                         repair_scan previous ob req ns
                           (next\<lparr>bp_RepairWorkerIDs := AList.update n (wi_ID worker) (bp_RepairWorkerIDs next)\<rparr>)
                           True launch
                     | None \<Rightarrow> repair_scan previous ob req ns next adopted (launch @ [n]))
           | Some workerID \<Rightarrow>
               (case blockRepairWorker nodeWorkers workerID of
                  None \<Rightarrow> restart (LostRepairWorker (shortID n) workerID)
                | Some worker \<Rightarrow>
                    if 0 < wi_Errors worker then
                      (if IsDone (wi_State worker)
                       then restart (RepairCompletedWithErrors workerID (shortID n) (wi_Errors worker))
                       else Inl (waiting (Some (next\<lparr>bp_QuietSince := None, bp_CompletedAt := None\<rparr>))
                                   (WaitingForErroredRepair workerID (shortID n))))
                    else if \<not> IsDone (wi_State worker)
                    then Inl (waiting (Some (next\<lparr>bp_QuietSince := None, bp_CompletedAt := None\<rparr>))
                                (WaitingForRepair workerID (shortID n) (ws_State (wi_State worker))))
                    else repair_scan previous ob req ns next adopted launch)))"

definition worker_key :: "string \<Rightarrow> WorkerInfo \<Rightarrow> string" where
  "worker_key n w = n @ ''/'' @ show_nat (unat (wi_ID w))"

text \<open>
  The loop over the block-resync workers: the current error counters and whether every enabled
  worker is idle, or the first node without an enabled worker.
\<close>

fun scan_node_resync :: "string \<Rightarrow> WorkerInfo list \<Rightarrow> bool \<Rightarrow> bool \<Rightarrow> (string, u64) gomap \<Rightarrow> bool \<times> bool \<times> (string, u64) gomap" where
  "scan_node_resync n [] found idle errs = (found, idle, errs)"
| "scan_node_resync n (w # ws) found idle errs =
     (if \<not> enabled_resync_worker w then scan_node_resync n ws found idle errs
      else scan_node_resync n ws True (if \<not> IsIdle (wi_State w) then False else idle)
             (AList.update (worker_key n w) (the (wi_PersistentErrors w)) errs))"

fun resync_scan :: "blockResyncObservation \<Rightarrow> string list \<Rightarrow> bool \<Rightarrow> (string, u64) gomap \<Rightarrow> string + (bool \<times> (string, u64) gomap)" where
  "resync_scan ob [] idle errs = Inr (idle, errs)"
| "resync_scan ob (n # ns) idle errs =
     (case scan_node_resync n (no_Workers (node_evidence ob n)) False idle errs of
        (found, idle', errs') \<Rightarrow> if \<not> found then Inl n else resync_scan ob ns idle' errs')"

text \<open>
  The last stage, once every recorded repair is done: the quiet period, then errors, queue and
  idleness.
\<close>

definition quiet_stage ::
    "blockResyncProof \<Rightarrow> instant \<Rightarrow> int \<Rightarrow> blockResyncProof \<Rightarrow> blockResyncDecision + blockResyncProof" where
  "quiet_stage previous now quietPeriod next =
     (case bp_QuietSince previous of
        None \<Rightarrow>
          (let next1 = next\<lparr>bp_QuietSince := Some now, bp_CompletedAt := None\<rparr> in
           if 0 < quietPeriod then Inl (waiting (Some next1) (WaitingQuietPeriod quietPeriod)) else Inr next1)
      | Some since \<Rightarrow>
          (let next1 = next\<lparr>bp_QuietSince := Some since\<rparr>; elapsed = time_Sub now since in
           if elapsed < quietPeriod
           then Inl (waiting (Some (next1\<lparr>bp_CompletedAt := None\<rparr>)) (WaitingQuietRemainder (quietPeriod - elapsed)))
           else Inr next1))"

definition terminal_stage ::
    "blockResyncProof \<Rightarrow> blockResyncObservation \<Rightarrow> instant \<Rightarrow> int \<Rightarrow> bool \<Rightarrow> bool \<Rightarrow> blockResyncProof
     \<Rightarrow> blockResyncDecision" where
  "terminal_stage previous ob now quietPeriod req allResyncIdle next1 =
     (if 0 < bp_ErrorCount next1
      then waiting (Some (next1\<lparr>bp_CompletedAt := None\<rparr>)) (WaitingForBlockErrors (bp_ErrorCount next1))
      else if req \<and> 0 < ob_QueueLength ob
      then waiting (Some (next1\<lparr>bp_CompletedAt := None\<rparr>)) (WaitingForEmptyQueue (ob_QueueLength ob))
      else if \<not> allResyncIdle
      then waiting (Some (next1\<lparr>bp_CompletedAt := None\<rparr>)) WaitingForIdle
      else \<lparr>dec_Proof = Some (next1\<lparr>bp_CompletedAt :=
                (case bp_CompletedAt previous of None \<Rightarrow> Some now | Some c \<Rightarrow> Some c)\<rparr>),
            dec_LaunchNodeIDs = [], dec_Ready = True,
            dec_Message = RepairComplete quietPeriod (ob_LayoutVersion ob)\<rparr>)"

definition finish_round ::
    "blockResyncProof \<Rightarrow> blockResyncObservation \<Rightarrow> instant \<Rightarrow> int \<Rightarrow> bool \<Rightarrow> bool \<Rightarrow> blockResyncProof
     \<Rightarrow> blockResyncDecision" where
  "finish_round previous ob now quietPeriod req allResyncIdle next =
     (case quiet_stage previous now quietPeriod next of
        Inl d \<Rightarrow> d
      | Inr next1 \<Rightarrow> terminal_stage previous ob now quietPeriod req allResyncIdle next1)"

definition evaluateBlockResyncProgress ::
    "(string \<Rightarrow> string) \<Rightarrow> blockResyncProof option \<Rightarrow> blockResyncObservation \<Rightarrow> instant \<Rightarrow> int \<Rightarrow> bool
     \<Rightarrow> blockResyncDecision" where
  "evaluateBlockResyncProgress sum256 previousPtr ob now quietPeriod req =
     (case previousPtr of
        None \<Rightarrow> waiting None NoTransaction
      | Some previous \<Rightarrow>
          if bp_TargetHash previous \<noteq> storageDrainProofTargetHash sum256 previousPtr
          then waiting (resetBlockResyncEvidence previousPtr) TargetHashInconsistent
          else
     (case find (\<lambda>r. r \<in> set (ob_CurrentRoleNodeIDs ob)) (bp_RoleRemovalNodeIDs previous) of
        Some r \<Rightarrow> waiting (resetBlockResyncEvidence previousPtr) (RemovalTargetPresent (shortID r))
      | None \<Rightarrow>
          if 0 < length (snapshot_changes previous ob req)
          then waiting (Some (newBlockResyncSnapshotProof previous ob req))
                 (RecordedBaselines (ob_LayoutVersion ob) (snapshot_changes previous ob req))
          else
            let next0 = previous\<lparr>bp_QueueLength := ob_QueueLength ob, bp_ErrorCount := ob_ErrorCount ob,
                                 bp_RequiresEmptyQueue := req\<rparr> in
     (case repair_scan previous ob req (ob_VerificationNodeIDs ob) next0 False [] of
        Inl d \<Rightarrow> d
      | Inr (next, adopted, launch) \<Rightarrow>
          if adopted then waiting (Some next) RecordedRepairWorkers
          else if 0 < length launch
          then \<lparr>dec_Proof = Some next, dec_LaunchNodeIDs = sort launch, dec_Ready = False,
                dec_Message = LaunchingRepairs\<rparr>
          else
     (case resync_scan ob (ob_VerificationNodeIDs ob) True [] of
        Inl n \<Rightarrow> waiting (resetBlockResyncObservation (Some next)) (NoEnabledResyncWorker (shortID n))
      | Inr (allResyncIdle, current) \<Rightarrow>
     (case bp_ResyncErrorBaselines previous of
        None \<Rightarrow> waiting (Some (next\<lparr>bp_ResyncErrorBaselines := Some current, bp_QuietSince := Some now,
                                    bp_CompletedAt := None\<rparr>)) RecordedErrorBaselines
      | Some recorded \<Rightarrow>
          if mapKeys recorded \<noteq> mapKeys current
          then waiting (Some (newBlockResyncSnapshotProof previous ob req)) ResyncWorkerSetChanged
          else (case find (\<lambda>(k, v). v \<noteq> gomap_get 0 recorded k) current of
                  Some (k, v) \<Rightarrow> waiting (Some (newBlockResyncSnapshotProof previous ob req)) (ErrorCounterChanged k)
                | None \<Rightarrow> finish_round previous ob now quietPeriod req allResyncIdle
                             (next\<lparr>bp_ResyncErrorBaselines := Some recorded\<rparr>)))))))"

subsection \<open>The quiet period\<close>

definition time_Minute :: int where "time_Minute = 60 * time_Second"

definition defaultGarageRPCTimeout :: int where "defaultGarageRPCTimeout = 5 * time_Minute"

definition garageBlockGCDelay :: int where "garageBlockGCDelay = 610 * time_Second"

definition RequeueAfterShort :: int where "RequeueAfterShort = 1 * time_Minute"

text \<open>
  The cluster's configured RPC timeout, spec.network.rpcTimeout, is the argument \<open>rpc_timeout\<close>;
  it is absent for a nil cluster too.  Durations are signed 64-bit nanoseconds and the doubling
  wraps.
\<close>

definition effectiveBlockResyncQuietPeriod :: "int \<Rightarrow> int option \<Rightarrow> int" where
  "effectiveBlockResyncQuietPeriod configured rpc_timeout =
     (if configured < 0 then 0
      else if 0 < configured then configured
      else
        let rpcTimeout = (case rpc_timeout of
                            Some t \<Rightarrow> if defaultGarageRPCTimeout < t then t else defaultGarageRPCTimeout
                          | None \<Rightarrow> defaultGarageRPCTimeout);
            quiet = wrap64 (2 * rpcTimeout);
            minimumKnownDelay = garageBlockGCDelay + RequeueAfterShort in
        if quiet < minimumKnownDelay then minimumKnownDelay else quiet)"


subsection \<open>Specification\<close>

text \<open>A node whose recorded repair worker is still there, finished, and without errors.\<close>

definition repaired :: "blockResyncProof \<Rightarrow> blockResyncObservation \<Rightarrow> string \<Rightarrow> bool" where
  "repaired p ob n \<longleftrightarrow>
     (\<exists>b i w. map_of (bp_RepairBaselines p) n = Some b \<and> map_of (bp_RepairWorkerIDs p) n = Some i
        \<and> blockRepairWorker (no_Workers (node_evidence ob n)) i = Some w
        \<and> wi_Errors w = 0 \<and> IsDone (wi_State w))"

text \<open>A node that waits for its repair to be launched: a baseline, and no worker after it.\<close>

definition launchable :: "blockResyncProof \<Rightarrow> blockResyncObservation \<Rightarrow> string \<Rightarrow> bool" where
  "launchable p ob n \<longleftrightarrow>
     (\<exists>b. map_of (bp_RepairBaselines p) n = Some b \<and> map_of (bp_RepairWorkerIDs p) n = None
        \<and> b \<le> maxWorkerID (no_Workers (node_evidence ob n))
        \<and> newestBlockRepairWorkerAfter (no_Workers (node_evidence ob n)) b = None)"

definition enabled_workers :: "blockResyncObservation \<Rightarrow> string \<Rightarrow> WorkerInfo list" where
  "enabled_workers ob n = filter enabled_resync_worker (no_Workers (node_evidence ob n))"

definition error_counters :: "blockResyncObservation \<Rightarrow> (string, u64) gomap" where
  "error_counters ob =
     foldl (\<lambda>m (n, w). AList.update (worker_key n w) (the (wi_PersistentErrors w)) m) []
       (concat (map (\<lambda>n. map (\<lambda>w. (n, w)) (enabled_workers ob n)) (ob_VerificationNodeIDs ob)))"

text \<open>The delayed-resync interval has passed since the proof entered it.\<close>

definition quiet_elapsed :: "blockResyncProof \<Rightarrow> instant \<Rightarrow> int \<Rightarrow> bool" where
  "quiet_elapsed p now quiet \<longleftrightarrow>
     (case bp_QuietSince p of None \<Rightarrow> quiet \<le> 0 | Some s \<Rightarrow> quiet \<le> time_Sub now s)"

text \<open>When a transaction is complete, as a predicate on the proof, the observation and the time.\<close>

definition drain_complete ::
    "(string \<Rightarrow> string) \<Rightarrow> blockResyncProof \<Rightarrow> blockResyncObservation \<Rightarrow> instant \<Rightarrow> int \<Rightarrow> bool \<Rightarrow> bool" where
  "drain_complete sum256 p ob now quietPeriod req \<longleftrightarrow>
     bp_TargetHash p = storageDrainProofTargetHash sum256 (Some p)
     \<and> set (bp_RoleRemovalNodeIDs p) \<inter> set (ob_CurrentRoleNodeIDs ob) = {}
     \<and> bp_LayoutVersion p = ob_LayoutVersion ob \<and> bp_VerificationNodeIDs p = ob_VerificationNodeIDs ob
     \<and> length (bp_RepairBaselines p) = length (ob_VerificationNodeIDs ob) \<and> bp_RequiresEmptyQueue p = req
     \<and> (\<forall>n \<in> set (ob_VerificationNodeIDs ob). repaired p ob n \<and> enabled_workers ob n \<noteq> []
           \<and> (\<forall>w \<in> set (enabled_workers ob n). IsIdle (wi_State w)))
     \<and> (\<exists>recorded. bp_ResyncErrorBaselines p = Some recorded
           \<and> mapKeys recorded = mapKeys (error_counters ob)
           \<and> (\<forall>(k, v) \<in> set (error_counters ob). gomap_get 0 recorded k = v))
     \<and> quiet_elapsed p now quietPeriod
     \<and> ob_ErrorCount ob = 0 \<and> (req \<longrightarrow> ob_QueueLength ob = 0)"

subsection \<open>Lemmas on the scans\<close>

lemma waiting_simps [simp]:
  "dec_Proof (waiting p m) = p" "dec_LaunchNodeIDs (waiting p m) = []" "\<not> dec_Ready (waiting p m)"
  by (simp_all add: waiting_def)

lemma snapshot_changes_Nil:
  "snapshot_changes p ob req = [] \<longleftrightarrow>
     bp_LayoutVersion p = ob_LayoutVersion ob \<and> bp_VerificationNodeIDs p = ob_VerificationNodeIDs ob
     \<and> length (bp_RepairBaselines p) = length (ob_VerificationNodeIDs ob) \<and> bp_RequiresEmptyQueue p = req"
  by (simp add: snapshot_changes_def)

lemma repaired_recorded: "repaired p ob n \<Longrightarrow> map_of (bp_RepairWorkerIDs p) n \<noteq> None"
  by (auto simp: repaired_def)

lemma repair_scan_adopted: "repair_scan p ob req ns nx a l = Inr (nx', False, l') \<Longrightarrow> \<not> a"
  by (induction ns arbitrary: nx a l) (auto simp: Let_def split: option.splits if_splits)

lemma repair_scan_noadopt:
  "repair_scan p ob req ns nx False l = Inr (nx', False, l') \<longleftrightarrow>
     nx' = nx \<and> l' = l @ filter (\<lambda>n. map_of (bp_RepairWorkerIDs p) n = None) ns
     \<and> (\<forall>n \<in> set ns. repaired p ob n \<or> launchable p ob n)"
proof (induction ns arbitrary: nx l)
  case (Cons n ns)
  show ?case
  proof (cases "map_of (bp_RepairBaselines p) n")
    case None
    then show ?thesis by (auto simp: Let_def repaired_def launchable_def)
  next
    case (Some b)
    show ?thesis
    proof (cases "map_of (bp_RepairWorkerIDs p) n")
      case None
      then show ?thesis using Some Cons.IH
        by (auto simp: Let_def repaired_def launchable_def not_less
            dest: repair_scan_adopted split: option.splits)
    next
      case (Some i)
      show ?thesis
      proof (cases "blockRepairWorker (no_Workers (node_evidence ob n)) i")
        case None
        then show ?thesis using Some \<open>map_of (bp_RepairBaselines p) n = Some b\<close>
          by (auto simp: Let_def repaired_def launchable_def)
      next
        case (Some w)
        have "repaired p ob n \<longleftrightarrow> wi_Errors w = 0 \<and> IsDone (wi_State w)" "\<not> launchable p ob n"
          using Some \<open>map_of (bp_RepairBaselines p) n = Some b\<close> \<open>map_of (bp_RepairWorkerIDs p) n = Some i\<close>
          by (auto simp: repaired_def launchable_def)
        moreover have "0 < wi_Errors w \<longleftrightarrow> wi_Errors w \<noteq> 0" by (rule word_neq_0_conv [symmetric])
        ultimately show ?thesis
          using Cons.IH Some \<open>map_of (bp_RepairBaselines p) n = Some b\<close> \<open>map_of (bp_RepairWorkerIDs p) n = Some i\<close>
          by (auto simp: Let_def)
      qed
    qed
  qed
qed auto

text \<open>What a scan may have done to the proof it started from.\<close>

definition scan_ok :: "blockResyncProof \<Rightarrow> blockResyncProof \<Rightarrow> bool" where
  "scan_ok p nx \<longleftrightarrow>
     same_intent nx p \<and> bp_LayoutVersion nx = bp_LayoutVersion p \<and> bp_VerificationNodeIDs nx = bp_VerificationNodeIDs p
     \<and> bp_RepairBaselines nx = bp_RepairBaselines p \<and> bp_ResyncErrorBaselines nx = bp_ResyncErrorBaselines p
     \<and> bp_QuietSince nx = bp_QuietSince p \<and> bp_CompletedAt nx = bp_CompletedAt p
     \<and> (\<forall>n i. map_of (bp_RepairWorkerIDs nx) n = Some i \<longrightarrow> map_of (bp_RepairWorkerIDs p) n = Some i
            \<or> (\<exists>b. map_of (bp_RepairBaselines p) n = Some b \<and> b < i))
     \<and> (\<forall>n. map_of (bp_RepairWorkerIDs p) n \<noteq> None \<longrightarrow> map_of (bp_RepairWorkerIDs nx) n \<noteq> None)"

lemma scan_ok_adopt:
  "scan_ok p nx \<Longrightarrow> map_of (bp_RepairBaselines p) n = Some b \<Longrightarrow> b < i \<Longrightarrow>
     scan_ok p (nx\<lparr>bp_RepairWorkerIDs := AList.update n i (bp_RepairWorkerIDs nx)\<rparr>)"
  by (auto simp: scan_ok_def same_intent_def)

lemma repair_scan_ok:
  "scan_ok p nx \<Longrightarrow>
     (case repair_scan p ob req ns nx a l of
        Inr (nx', a', l') \<Rightarrow> scan_ok p nx'
      | Inl d \<Rightarrow> \<not> dec_Ready d \<and> dec_LaunchNodeIDs d = []
          \<and> (dec_Proof d = Some (newBlockResyncSnapshotProof p ob req)
             \<or> (\<exists>nx'. scan_ok p nx' \<and> dec_Proof d = Some (nx'\<lparr>bp_QuietSince := None, bp_CompletedAt := None\<rparr>))))"
proof (induction ns arbitrary: nx a l)
  case (Cons n ns)
  show ?case
  proof (cases "map_of (bp_RepairBaselines p) n")
    case None
    then show ?thesis by (simp add: Let_def)
  next
    case (Some b)
    show ?thesis
    proof (cases "map_of (bp_RepairWorkerIDs p) n")
      case None
      show ?thesis
      proof (cases "newestBlockRepairWorkerAfter (no_Workers (node_evidence ob n)) b")
        case None
        with Cons Some \<open>map_of (bp_RepairWorkerIDs p) n = None\<close> show ?thesis by (auto simp: Let_def)
      next
        case (Some w)
        then have "b < wi_ID w" using newest_Some by blast
        with Cons.prems \<open>map_of (bp_RepairBaselines p) n = Some b\<close>
        have "scan_ok p (nx\<lparr>bp_RepairWorkerIDs := AList.update n (wi_ID w) (bp_RepairWorkerIDs nx)\<rparr>)"
          by (rule scan_ok_adopt)
        from Cons.IH [OF this] Some \<open>map_of (bp_RepairBaselines p) n = Some b\<close> \<open>map_of (bp_RepairWorkerIDs p) n = None\<close>
        show ?thesis by (auto simp: Let_def)
      qed
    next
      case (Some i)
      with Cons \<open>map_of (bp_RepairBaselines p) n = Some b\<close> show ?thesis
        by (cases "blockRepairWorker (no_Workers (node_evidence ob n)) i") (auto simp: Let_def)
    qed
  qed
qed simp

lemma scan_node_resync_eq:
  "scan_node_resync n ws found idle errs =
     (found \<or> filter enabled_resync_worker ws \<noteq> [],
      idle \<and> (\<forall>w \<in> set (filter enabled_resync_worker ws). IsIdle (wi_State w)),
      foldl (\<lambda>m (n, w). AList.update (worker_key n w) (the (wi_PersistentErrors w)) m) errs
        (map (\<lambda>w. (n, w)) (filter enabled_resync_worker ws)))"
  by (induction ws arbitrary: found idle errs) auto

lemma resync_scan_Inr:
  "resync_scan ob ns idle errs = Inr (idle', errs') \<longleftrightarrow>
     (\<forall>n \<in> set ns. enabled_workers ob n \<noteq> [])
     \<and> (idle' \<longleftrightarrow> idle \<and> (\<forall>n \<in> set ns. \<forall>w \<in> set (enabled_workers ob n). IsIdle (wi_State w)))
     \<and> errs' = foldl (\<lambda>m (n, w). AList.update (worker_key n w) (the (wi_PersistentErrors w)) m) errs
                 (concat (map (\<lambda>n. map (\<lambda>w. (n, w)) (enabled_workers ob n)) ns))"
proof (induction ns arbitrary: idle errs)
  case (Cons n ns)
  then show ?case
    by (simp add: scan_node_resync_eq enabled_workers_def [symmetric] del: set_filter)
qed auto

lemma resync_scan_counters:
  "resync_scan ob (ob_VerificationNodeIDs ob) True [] = Inr (idle, current) \<longleftrightarrow>
     (\<forall>n \<in> set (ob_VerificationNodeIDs ob). enabled_workers ob n \<noteq> [])
     \<and> (idle \<longleftrightarrow> (\<forall>n \<in> set (ob_VerificationNodeIDs ob). \<forall>w \<in> set (enabled_workers ob n). IsIdle (wi_State w)))
     \<and> current = error_counters ob"
  by (simp add: resync_scan_Inr error_counters_def)

definition quiet_since :: "blockResyncProof \<Rightarrow> instant \<Rightarrow> instant" where
  "quiet_since p now = (case bp_QuietSince p of None \<Rightarrow> now | Some s \<Rightarrow> s)"

lemma quiet_stage_elapsed:
  "quiet_elapsed p now quiet \<Longrightarrow>
     \<exists>c. quiet_stage p now quiet nx = Inr (nx\<lparr>bp_QuietSince := Some (quiet_since p now), bp_CompletedAt := c\<rparr>)"
proof (cases "bp_QuietSince p")
  case None
  assume "quiet_elapsed p now quiet"
  with None show ?thesis by (auto simp: quiet_stage_def quiet_elapsed_def quiet_since_def Let_def)
next
  case (Some s)
  assume "quiet_elapsed p now quiet"
  with Some show ?thesis
    by (intro exI [of _ "bp_CompletedAt nx"]) (simp add: quiet_stage_def quiet_elapsed_def quiet_since_def Let_def)
qed

lemma quiet_stage_waiting:
  "\<not> quiet_elapsed p now quiet \<Longrightarrow>
     \<exists>m. quiet_stage p now quiet nx =
       Inl (waiting (Some (nx\<lparr>bp_QuietSince := Some (quiet_since p now), bp_CompletedAt := None\<rparr>)) m)"
  by (cases "bp_QuietSince p") (auto simp: quiet_stage_def quiet_elapsed_def quiet_since_def Let_def)

lemma terminal_stage_ready:
  "dec_Ready (terminal_stage p ob now quiet req idle nx) \<longleftrightarrow>
     bp_ErrorCount nx = 0 \<and> \<not> (req \<and> ob_QueueLength ob \<noteq> 0) \<and> idle"
  by (simp add: terminal_stage_def word_gt_0)

lemma terminal_stage_proof:
  "dec_Proof (terminal_stage p ob now quiet req idle nx) =
     Some (nx\<lparr>bp_CompletedAt := (if dec_Ready (terminal_stage p ob now quiet req idle nx)
        then Some (case bp_CompletedAt p of None \<Rightarrow> now | Some c \<Rightarrow> c) else None)\<rparr>)"
proof (cases "dec_Ready (terminal_stage p ob now quiet req idle nx)")
  case True
  then have "bp_ErrorCount nx = 0" "\<not> (req \<and> 0 < ob_QueueLength ob)" "idle"
    by (simp_all add: terminal_stage_ready word_gt_0)
  with True show ?thesis by (simp add: terminal_stage_def split: option.split)
next
  case False
  then have "0 < bp_ErrorCount nx \<or> (req \<and> 0 < ob_QueueLength ob) \<or> \<not> idle"
    by (auto simp: terminal_stage_ready word_gt_0)
  then have "dec_Proof (terminal_stage p ob now quiet req idle nx) = Some (nx\<lparr>bp_CompletedAt := None\<rparr>)"
    by (elim disjE) (simp_all add: terminal_stage_def)
  with False show ?thesis by simp
qed

lemma finish_round_ready:
  "dec_Ready (finish_round p ob now quiet req idle nx) \<longleftrightarrow>
     quiet_elapsed p now quiet \<and> bp_ErrorCount nx = 0 \<and> \<not> (req \<and> ob_QueueLength ob \<noteq> 0) \<and> idle"
proof (cases "quiet_elapsed p now quiet")
  case True
  then obtain c where "quiet_stage p now quiet nx = Inr (nx\<lparr>bp_QuietSince := Some (quiet_since p now), bp_CompletedAt := c\<rparr>)"
    using quiet_stage_elapsed by blast
  with True show ?thesis by (simp add: finish_round_def terminal_stage_ready)
next
  case False
  then obtain m where "quiet_stage p now quiet nx =
      Inl (waiting (Some (nx\<lparr>bp_QuietSince := Some (quiet_since p now), bp_CompletedAt := None\<rparr>)) m)"
    using quiet_stage_waiting by blast
  with False show ?thesis by (simp add: finish_round_def)
qed

lemma finish_round_proof:
  "dec_Proof (finish_round p ob now quiet req idle nx) =
     Some (nx\<lparr>bp_QuietSince := Some (quiet_since p now),
              bp_CompletedAt := (if dec_Ready (finish_round p ob now quiet req idle nx)
                 then Some (case bp_CompletedAt p of None \<Rightarrow> now | Some c \<Rightarrow> c) else None)\<rparr>)"
proof (cases "quiet_elapsed p now quiet")
  case True
  then obtain c where "quiet_stage p now quiet nx = Inr (nx\<lparr>bp_QuietSince := Some (quiet_since p now), bp_CompletedAt := c\<rparr>)"
    using quiet_stage_elapsed by blast
  then show ?thesis by (simp add: finish_round_def terminal_stage_proof)
next
  case False
  then obtain m where "quiet_stage p now quiet nx =
      Inl (waiting (Some (nx\<lparr>bp_QuietSince := Some (quiet_since p now), bp_CompletedAt := None\<rparr>)) m)"
    using quiet_stage_waiting by blast
  then show ?thesis by (simp add: finish_round_def)
qed

lemma terminal_stage_launch: "dec_LaunchNodeIDs (terminal_stage p ob now quiet req idle nx) = []"
  by (simp add: terminal_stage_def)

lemma finish_round_launch: "dec_LaunchNodeIDs (finish_round p ob now quiet req idle nx) = []"
proof (cases "quiet_elapsed p now quiet")
  case True
  then show ?thesis using quiet_stage_elapsed [OF True, of nx] by (auto simp: finish_round_def terminal_stage_launch)
next
  case False
  then show ?thesis using quiet_stage_waiting [OF False, of nx] by (auto simp: finish_round_def)
qed

subsection \<open>Lemmas on a round\<close>

text \<open>The proof with the fresh counters, from which the scan starts.\<close>

definition with_counters :: "blockResyncProof \<Rightarrow> blockResyncObservation \<Rightarrow> bool \<Rightarrow> blockResyncProof" where
  "with_counters p ob req = p\<lparr>bp_QueueLength := ob_QueueLength ob, bp_ErrorCount := ob_ErrorCount ob,
     bp_RequiresEmptyQueue := req\<rparr>"

lemma scan_ok_counters: "scan_ok p (with_counters p ob req)"
  by (simp add: scan_ok_def same_intent_def with_counters_def)

lemma all_repaired_iff:
  "repair_scan p ob req ns nx False [] = Inr (nx, False, []) \<longleftrightarrow> (\<forall>n \<in> set ns. repaired p ob n)"
proof -
  have "([] = filter (\<lambda>n. map_of (bp_RepairWorkerIDs p) n = None) ns) \<longleftrightarrow>
      (\<forall>n \<in> set ns. map_of (bp_RepairWorkerIDs p) n \<noteq> None)"
    unfolding eq_commute [of "[]"] filter_empty_conv by simp
  then show ?thesis
    using repaired_recorded [of p ob] by (fastforce simp: repair_scan_noadopt launchable_def)
qed

lemma scan_incomplete:
  assumes "repair_scan p ob req ns nx False [] = Inr (nx', a, l)" "\<not> (\<forall>n \<in> set ns. repaired p ob n)"
  shows "a \<or> l \<noteq> []"
proof (rule ccontr)
  assume "\<not> (a \<or> l \<noteq> [])"
  with assms(1) have e: "repair_scan p ob req ns nx False [] = Inr (nx', False, [])" by simp
  then have "nx' = nx" unfolding repair_scan_noadopt by blast
  with e assms(2) show False by (simp add: all_repaired_iff)
qed

text \<open>The guards before the scan.\<close>

definition round_starts :: "(string \<Rightarrow> string) \<Rightarrow> blockResyncProof \<Rightarrow> blockResyncObservation \<Rightarrow> bool \<Rightarrow> bool" where
  "round_starts sum256 p ob req \<longleftrightarrow>
     bp_TargetHash p = storageDrainProofTargetHash sum256 (Some p)
     \<and> set (bp_RoleRemovalNodeIDs p) \<inter> set (ob_CurrentRoleNodeIDs ob) = {}
     \<and> snapshot_changes p ob req = []"

lemma find_none_disjoint: "find (\<lambda>r. r \<in> A) xs = None \<longleftrightarrow> set xs \<inter> A = {}"
  by (auto simp: find_None_iff)

lemma evaluate_not_started:
  assumes "\<not> round_starts sum256 p ob req"
  shows "\<exists>m q. evaluateBlockResyncProgress sum256 (Some p) ob now quiet req = waiting (Some q) m
     \<and> (resetBlockResyncEvidence (Some p) = Some q \<or> q = newBlockResyncSnapshotProof p ob req)"
  using assms
  by (auto simp: evaluateBlockResyncProgress_def round_starts_def resetBlockResyncEvidence_def
      find_none_disjoint split: option.split)

lemma evaluate_started:
  assumes "round_starts sum256 p ob req"
  shows "evaluateBlockResyncProgress sum256 (Some p) ob now quiet req =
     (case repair_scan p ob req (ob_VerificationNodeIDs ob) (with_counters p ob req) False [] of
        Inl d \<Rightarrow> d
      | Inr (nx, adopted, launch) \<Rightarrow>
          if adopted then waiting (Some nx) RecordedRepairWorkers
          else if 0 < length launch
          then \<lparr>dec_Proof = Some nx, dec_LaunchNodeIDs = sort launch, dec_Ready = False, dec_Message = LaunchingRepairs\<rparr>
          else
     (case resync_scan ob (ob_VerificationNodeIDs ob) True [] of
        Inl n \<Rightarrow> waiting (resetBlockResyncObservation (Some nx)) (NoEnabledResyncWorker (shortID n))
      | Inr (idle, current) \<Rightarrow>
     (case bp_ResyncErrorBaselines p of
        None \<Rightarrow> waiting (Some (nx\<lparr>bp_ResyncErrorBaselines := Some current, bp_QuietSince := Some now,
                                    bp_CompletedAt := None\<rparr>)) RecordedErrorBaselines
      | Some recorded \<Rightarrow>
          if mapKeys recorded \<noteq> mapKeys current
          then waiting (Some (newBlockResyncSnapshotProof p ob req)) ResyncWorkerSetChanged
          else (case find (\<lambda>(k, v). v \<noteq> gomap_get 0 recorded k) current of
                  Some (k, v) \<Rightarrow> waiting (Some (newBlockResyncSnapshotProof p ob req)) (ErrorCounterChanged k)
                | None \<Rightarrow> finish_round p ob now quiet req idle (nx\<lparr>bp_ResyncErrorBaselines := Some recorded\<rparr>)))))"
proof -
  have f: "find (\<lambda>r. r \<in> set (ob_CurrentRoleNodeIDs ob)) (bp_RoleRemovalNodeIDs p) = None"
    using assms by (simp add: find_none_disjoint round_starts_def)
  have g: "bp_TargetHash p = storageDrainProofTargetHash sum256 (Some p)" "snapshot_changes p ob req = []"
    using assms by (simp_all add: round_starts_def)
  show ?thesis
    unfolding evaluateBlockResyncProgress_def with_counters_def [symmetric] Let_def option.case
    using g by (simp only: f option.case if_False simp_thms list.size less_irrefl)
qed

lemma round_not_repaired:
  assumes "round_starts sum256 p ob req" "\<not> (\<forall>n \<in> set (ob_VerificationNodeIDs ob). repaired p ob n)"
  shows "\<not> dec_Ready (evaluateBlockResyncProgress sum256 (Some p) ob now quiet req)"
proof (cases "repair_scan p ob req (ob_VerificationNodeIDs ob) (with_counters p ob req) False []")
  case (Inl d)
  with repair_scan_ok [OF scan_ok_counters [of p ob req], where ob = ob and req = req
      and ns = "ob_VerificationNodeIDs ob" and a = False and l = "[]"]
  show ?thesis by (simp add: evaluate_started [OF assms(1)])
next
  case (Inr r)
  then obtain nx a l where r: "repair_scan p ob req (ob_VerificationNodeIDs ob) (with_counters p ob req) False [] = Inr (nx, a, l)"
    by (metis prod_cases3)
  have "a \<or> l \<noteq> []" by (rule scan_incomplete [OF r assms(2)])
  then show ?thesis by (auto simp: evaluate_started [OF assms(1)] r)
qed

lemma round_repaired:
  assumes "round_starts sum256 p ob req" "\<forall>n \<in> set (ob_VerificationNodeIDs ob). repaired p ob n"
  shows "evaluateBlockResyncProgress sum256 (Some p) ob now quiet req =
     (case resync_scan ob (ob_VerificationNodeIDs ob) True [] of
        Inl n \<Rightarrow> waiting (resetBlockResyncObservation (Some (with_counters p ob req))) (NoEnabledResyncWorker (shortID n))
      | Inr (idle, current) \<Rightarrow>
     (case bp_ResyncErrorBaselines p of
        None \<Rightarrow> waiting (Some ((with_counters p ob req)\<lparr>bp_ResyncErrorBaselines := Some current,
                     bp_QuietSince := Some now, bp_CompletedAt := None\<rparr>)) RecordedErrorBaselines
      | Some recorded \<Rightarrow>
          if mapKeys recorded \<noteq> mapKeys current
          then waiting (Some (newBlockResyncSnapshotProof p ob req)) ResyncWorkerSetChanged
          else (case find (\<lambda>(k, v). v \<noteq> gomap_get 0 recorded k) current of
                  Some (k, v) \<Rightarrow> waiting (Some (newBlockResyncSnapshotProof p ob req)) (ErrorCounterChanged k)
                | None \<Rightarrow> finish_round p ob now quiet req idle
                             ((with_counters p ob req)\<lparr>bp_ResyncErrorBaselines := Some recorded\<rparr>))))"
proof -
  have r: "repair_scan p ob req (ob_VerificationNodeIDs ob) (with_counters p ob req) False []
      = Inr (with_counters p ob req, False, [])"
    using assms(2) by (simp only: all_repaired_iff)
  show ?thesis
    unfolding evaluate_started [OF assms(1)] r sum.case prod.case by simp
qed

lemma counters_unchanged:
  "find (\<lambda>(k, v). v \<noteq> gomap_get 0 recorded k) current = None \<longleftrightarrow>
     (\<forall>(k, v) \<in> set current. gomap_get 0 recorded k = v)"
  by (auto simp: find_None_iff)

lemma ready_iff_complete:
  "dec_Ready (evaluateBlockResyncProgress sum256 (Some p) ob now quiet req) \<longleftrightarrow>
     drain_complete sum256 p ob now quiet req"
proof (cases "round_starts sum256 p ob req \<and> (\<forall>n \<in> set (ob_VerificationNodeIDs ob). repaired p ob n)")
  case False
  then have "\<not> drain_complete sum256 p ob now quiet req"
    by (auto simp: drain_complete_def round_starts_def snapshot_changes_Nil)
  moreover have "\<not> dec_Ready (evaluateBlockResyncProgress sum256 (Some p) ob now quiet req)"
    using False round_not_repaired evaluate_not_started by (metis waiting_simps(3))
  ultimately show ?thesis by blast
next
  case True
  then have e: "\<not> bp_TargetHash p \<noteq> storageDrainProofTargetHash sum256 (Some p)"
    "set (bp_RoleRemovalNodeIDs p) \<inter> set (ob_CurrentRoleNodeIDs ob) = {}" "snapshot_changes p ob req = []"
    by (simp_all add: round_starts_def)
  show ?thesis
  proof (cases "resync_scan ob (ob_VerificationNodeIDs ob) True []")
    case (Inl n)
    have "\<not> (\<forall>n \<in> set (ob_VerificationNodeIDs ob). enabled_workers ob n \<noteq> [])"
      using Inl resync_scan_counters [of ob "\<forall>n \<in> set (ob_VerificationNodeIDs ob). \<forall>w \<in> set (enabled_workers ob n).
          IsIdle (wi_State w)" "error_counters ob"] by auto
    with Inl True show ?thesis by (simp add: round_repaired drain_complete_def) blast
  next
    case (Inr ic)
    then obtain idle current where s: "resync_scan ob (ob_VerificationNodeIDs ob) True [] = Inr (idle, current)"
      by (cases ic) auto
    then have en: "\<forall>n \<in> set (ob_VerificationNodeIDs ob). enabled_workers ob n \<noteq> []"
      "idle \<longleftrightarrow> (\<forall>n \<in> set (ob_VerificationNodeIDs ob). \<forall>w \<in> set (enabled_workers ob n). IsIdle (wi_State w))"
      "current = error_counters ob" by (simp_all add: resync_scan_counters)
    show ?thesis
    proof (cases "bp_ResyncErrorBaselines p")
      case None
      with True s show ?thesis by (simp add: round_repaired drain_complete_def)
    next
      case (Some recorded)
      show ?thesis
      proof (cases "mapKeys recorded = mapKeys current \<and> (\<forall>(k, v) \<in> set current. gomap_get 0 recorded k = v)")
        case False
        with True s Some en(3) show ?thesis
          by (auto simp: round_repaired drain_complete_def counters_unchanged [symmetric] split: option.splits)
      next
        case keep: True
        then have "find (\<lambda>(k, v). v \<noteq> gomap_get 0 recorded k) current = None"
          by (auto simp: counters_unchanged)
        with True s Some keep have "evaluateBlockResyncProgress sum256 (Some p) ob now quiet req
            = finish_round p ob now quiet req idle ((with_counters p ob req)\<lparr>bp_ResyncErrorBaselines := Some recorded\<rparr>)"
          by (simp add: round_repaired)
        then show ?thesis
          using True e en Some keep
          by (auto simp: finish_round_ready drain_complete_def with_counters_def snapshot_changes_Nil)
      qed
    qed
  qed
qed


subsection \<open>The invariant of the evidence\<close>

definition recorded_all :: "blockResyncProof \<Rightarrow> bool" where
  "recorded_all p \<longleftrightarrow> (\<forall>n \<in> set (bp_VerificationNodeIDs p). map_of (bp_RepairWorkerIDs p) n \<noteq> None)"

text \<open>
  A recorded worker is newer than the node's persisted baseline; error baselines exist only once
  every node has a recorded worker, the quiet period only once error baselines exist, and
  completion only once the quiet period started.
\<close>

definition evidence_wf :: "blockResyncProof \<Rightarrow> bool" where
  "evidence_wf p \<longleftrightarrow>
     (\<forall>n i. map_of (bp_RepairWorkerIDs p) n = Some i \<longrightarrow> (\<exists>b. map_of (bp_RepairBaselines p) n = Some b \<and> b < i))
     \<and> (bp_ResyncErrorBaselines p \<noteq> None \<longrightarrow> recorded_all p)
     \<and> (bp_QuietSince p \<noteq> None \<longrightarrow> bp_ResyncErrorBaselines p \<noteq> None)
     \<and> (bp_CompletedAt p \<noteq> None \<longrightarrow> bp_QuietSince p \<noteq> None)"

lemma snapshot_wf: "evidence_wf (newBlockResyncSnapshotProof p ob req)" "same_intent (newBlockResyncSnapshotProof p ob req) p"
  "bp_CompletedAt (newBlockResyncSnapshotProof p ob req) = None"
  by (simp_all add: evidence_wf_def newBlockResyncSnapshotProof_def same_intent_def)

lemma reset_evidence_wf:
  "resetBlockResyncEvidence (Some p) = Some q \<Longrightarrow> evidence_wf q \<and> same_intent q p \<and> bp_CompletedAt q = None"
  by (auto simp: resetBlockResyncEvidence_def evidence_wf_def same_intent_def)

lemma scan_ok_wf: "scan_ok p nx \<Longrightarrow> evidence_wf p \<Longrightarrow> evidence_wf nx"
proof -
  assume a: "scan_ok p nx" "evidence_wf p"
  have "\<exists>b. map_of (bp_RepairBaselines nx) n = Some b \<and> b < i" if "map_of (bp_RepairWorkerIDs nx) n = Some i" for n i
  proof -
    have "map_of (bp_RepairWorkerIDs p) n = Some i \<or> (\<exists>b. map_of (bp_RepairBaselines p) n = Some b \<and> b < i)"
      using a(1) that by (simp add: scan_ok_def)
    then show ?thesis using a by (auto simp: scan_ok_def evidence_wf_def)
  qed
  moreover have "recorded_all p \<Longrightarrow> recorded_all nx" using a(1) by (simp add: scan_ok_def recorded_all_def)
  ultimately show "evidence_wf nx" using a by (simp add: evidence_wf_def scan_ok_def)
qed

lemma repair_scan_new:
  "repair_scan p ob req ns nx a l = Inr (nx', a', l') \<Longrightarrow> a' \<or> l' \<noteq> [] \<Longrightarrow>
     a \<or> l \<noteq> [] \<or> (\<exists>n \<in> set ns. map_of (bp_RepairWorkerIDs p) n = None)"
proof (induction ns arbitrary: nx a l)
  case (Cons n ns)
  show ?case
  proof (cases "map_of (bp_RepairWorkerIDs p) n")
    case (Some i)
    then have "repair_scan p ob req ns nx a l = Inr (nx', a', l')"
      using Cons.prems(1) by (auto simp: Let_def split: option.splits if_splits)
    from Cons.IH [OF this Cons.prems(2)] show ?thesis by auto
  qed simp
qed simp

text \<open>How a round changes the durable proof.\<close>

lemma evaluate_proof_cases:
  assumes "dec_Proof (evaluateBlockResyncProgress sum256 (Some p) ob now quiet req) = Some q"
  defines "ready \<equiv> dec_Ready (evaluateBlockResyncProgress sum256 (Some p) ob now quiet req)"
  obtains (Reset) "resetBlockResyncEvidence (Some p) = Some q" "\<not> ready"
  | (Snapshot) "q = newBlockResyncSnapshotProof p ob req" "\<not> ready"
  | (Stalled) nx where "scan_ok p nx" "q = nx\<lparr>bp_QuietSince := None, bp_CompletedAt := None\<rparr>" "\<not> ready"
  | (Recorded) "scan_ok p q" "\<not> ready" "\<not> recorded_all p"
  | (Unobserved) "q = (with_counters p ob req)\<lparr>bp_QuietSince := None, bp_CompletedAt := None\<rparr>" "\<not> ready"
  | (Baselines) current where "recorded_all p" "\<not> ready"
      "q = (with_counters p ob req)\<lparr>bp_ResyncErrorBaselines := Some current, bp_QuietSince := Some now, bp_CompletedAt := None\<rparr>"
  | (Quiet) s x where "bp_ResyncErrorBaselines p \<noteq> None" "x \<noteq> None \<longleftrightarrow> ready"
      "q = (with_counters p ob req)\<lparr>bp_QuietSince := Some s, bp_CompletedAt := x\<rparr>"
proof (cases "round_starts sum256 p ob req")
  case False
  then show ?thesis using evaluate_not_started [OF False, of now quiet] assms that(1,2) by force
next
  case start: True
  then have ver: "bp_VerificationNodeIDs p = ob_VerificationNodeIDs ob"
    by (simp add: round_starts_def snapshot_changes_Nil)
  show ?thesis
  proof (cases "\<forall>n \<in> set (ob_VerificationNodeIDs ob). repaired p ob n")
    case False
    then have nr: "\<not> ready" using round_not_repaired [OF start False] by (simp add: ready_def)
    note ok = repair_scan_ok [OF scan_ok_counters [of p ob req], where ob = ob and req = req
      and ns = "ob_VerificationNodeIDs ob" and a = False and l = "[]"]
    show ?thesis
    proof (cases "repair_scan p ob req (ob_VerificationNodeIDs ob) (with_counters p ob req) False []")
      case (Inl d)
      then have d: "dec_Proof d = Some q" using assms(1) by (simp add: evaluate_started [OF start])
      from ok Inl consider "dec_Proof d = Some (newBlockResyncSnapshotProof p ob req)"
        | nx' where "scan_ok p nx'" "dec_Proof d = Some (nx'\<lparr>bp_QuietSince := None, bp_CompletedAt := None\<rparr>)"
        by auto
      then show ?thesis
      proof cases
        case 1
        with d nr that(2) show ?thesis by simp
      next
        case 2
        with d nr that(3) [of nx'] show ?thesis by simp
      qed
    next
      case (Inr r)
      then obtain nx a l where r: "repair_scan p ob req (ob_VerificationNodeIDs ob) (with_counters p ob req) False [] = Inr (nx, a, l)"
        by (metis prod_cases3)
      have al: "a \<or> l \<noteq> []" by (rule scan_incomplete [OF r False])
      then have "q = nx" using assms(1) r by (auto simp: evaluate_started [OF start] split: if_splits)
      moreover have "scan_ok p nx" using ok r by simp
      moreover have "\<not> recorded_all p"
        using repair_scan_new [OF r al] by (simp add: recorded_all_def ver)
      ultimately show ?thesis using nr that(4) by blast
    qed
  next
    case rep: True
    then have rec: "recorded_all p" using repaired_recorded by (auto simp: recorded_all_def ver)
    show ?thesis
    proof (cases "resync_scan ob (ob_VerificationNodeIDs ob) True []")
      case (Inl n)
      then have e: "evaluateBlockResyncProgress sum256 (Some p) ob now quiet req =
          waiting (Some ((with_counters p ob req)\<lparr>bp_QuietSince := None, bp_CompletedAt := None\<rparr>))
            (NoEnabledResyncWorker (shortID n))"
        by (simp add: round_repaired [OF start rep] resetBlockResyncObservation_def)
      show ?thesis by (rule that(5)) (use assms(1) e in \<open>simp_all add: ready_def\<close>)
    next
      case (Inr ic)
      then obtain idle current where s: "resync_scan ob (ob_VerificationNodeIDs ob) True [] = Inr (idle, current)"
        by (cases ic) auto
      show ?thesis
      proof (cases "bp_ResyncErrorBaselines p")
        case None
        then have e: "evaluateBlockResyncProgress sum256 (Some p) ob now quiet req =
            waiting (Some ((with_counters p ob req)\<lparr>bp_ResyncErrorBaselines := Some current,
               bp_QuietSince := Some now, bp_CompletedAt := None\<rparr>)) RecordedErrorBaselines"
          using s by (simp add: round_repaired [OF start rep])
        show ?thesis by (rule that(6) [of current, OF rec]) (use assms(1) e in \<open>simp_all add: ready_def\<close>)
      next
        case (Some recorded)
        show ?thesis
        proof (cases "mapKeys recorded = mapKeys current
            \<and> find (\<lambda>(k, v). v \<noteq> gomap_get 0 recorded k) current = None")
          case False
          have "\<exists>m. evaluateBlockResyncProgress sum256 (Some p) ob now quiet req =
              waiting (Some (newBlockResyncSnapshotProof p ob req)) m"
          proof (cases "mapKeys recorded = mapKeys current")
            case True
            with False obtain k v where "find (\<lambda>(k, v). v \<noteq> gomap_get 0 recorded k) current = Some (k, v)"
              by (cases "find (\<lambda>(k, v). v \<noteq> gomap_get 0 recorded k) current") auto
            with True s Some show ?thesis by (auto simp: round_repaired [OF start rep])
          qed (use s Some in \<open>auto simp: round_repaired [OF start rep]\<close>)
          then obtain m where e: "evaluateBlockResyncProgress sum256 (Some p) ob now quiet req =
              waiting (Some (newBlockResyncSnapshotProof p ob req)) m" by blast
          show ?thesis by (rule that(2)) (use assms(1) e in \<open>simp_all add: ready_def\<close>)
        next
          case True
          let ?f = "finish_round p ob now quiet req idle ((with_counters p ob req)\<lparr>bp_ResyncErrorBaselines := Some recorded\<rparr>)"
          have e: "evaluateBlockResyncProgress sum256 (Some p) ob now quiet req = ?f"
            using True s Some by (simp add: round_repaired [OF start rep])
          have same: "(with_counters p ob req)\<lparr>bp_ResyncErrorBaselines := Some recorded\<rparr> = with_counters p ob req"
            using Some by (simp add: with_counters_def)
          show ?thesis
            by (rule that(7) [of "if ready then Some (case bp_CompletedAt p of None \<Rightarrow> now | Some c \<Rightarrow> c) else None"
                "quiet_since p now"]) (use assms(1) Some in \<open>simp_all add: ready_def e finish_round_proof same\<close>)
        qed
      qed
    qed
  qed
qed

lemma round_keeps_evidence_wf:
  assumes "evidence_wf p" "dec_Proof (evaluateBlockResyncProgress sum256 (Some p) ob now quiet req) = Some q"
  shows "evidence_wf q \<and> same_intent q p
     \<and> (bp_CompletedAt q \<noteq> None \<longleftrightarrow> dec_Ready (evaluateBlockResyncProgress sum256 (Some p) ob now quiet req))"
  using assms(2)
proof (cases rule: evaluate_proof_cases)
  case (Stalled nx)
  then show ?thesis using scan_ok_wf [OF Stalled(1) assms(1)]
    by (auto simp: evidence_wf_def scan_ok_def same_intent_def recorded_all_def)
next
  case Recorded
  have "bp_CompletedAt p = None" using assms(1) Recorded(3) by (auto simp: evidence_wf_def)
  then show ?thesis using scan_ok_wf [OF Recorded(1) assms(1)] Recorded by (auto simp: scan_ok_def)
qed (use assms(1) reset_evidence_wf [of p q] snapshot_wf [of p ob req] in
      \<open>auto simp: evidence_wf_def same_intent_def with_counters_def recorded_all_def\<close>)


subsection \<open>A complete run\<close>

definition record_each :: "(string \<Rightarrow> u64) \<Rightarrow> (string, u64) gomap \<Rightarrow> string list \<Rightarrow> (string, u64) gomap" where
  "record_each f m ns = foldl (\<lambda>m n. AList.update n (f n) m) m ns"

lemma map_of_record_each: "map_of (record_each f m ns) n = (if n \<in> set ns then Some (f n) else map_of m n)"
  by (induction ns arbitrary: m) (auto simp: record_each_def)

lemma length_record_each: "distinct ns \<Longrightarrow> length (record_each f [] ns) = length ns"
proof -
  have keys: "distinct (map fst m @ ns) \<Longrightarrow> map fst (record_each f m ns) = map fst m @ ns" for m
  proof (induction ns arbitrary: m)
    case (Cons n ns)
    then have "map fst (AList.update n (f n) m) = map fst m @ [n]" by (simp add: update_keys)
    with Cons.IH [of "AList.update n (f n) m"] Cons.prems show ?case by (simp add: record_each_def)
  qed (simp add: record_each_def)
  assume "distinct ns"
  with keys [of "[]"] have "map fst (record_each f [] ns) = ns" by simp
  then show "length (record_each f [] ns) = length ns" by (metis length_map)
qed

lemma snapshot_baselines:
  "bp_RepairBaselines (newBlockResyncSnapshotProof p ob req) =
     record_each (\<lambda>n. maxWorkerID (no_Workers (node_evidence ob n))) [] (ob_VerificationNodeIDs ob)"
  by (simp add: newBlockResyncSnapshotProof_def record_each_def)

lemma same_intent_starts:
  "same_intent q p \<Longrightarrow> round_starts sum256 p ob req \<Longrightarrow> snapshot_changes q ob req = [] \<Longrightarrow> round_starts sum256 q ob req"
  by (simp add: round_starts_def same_intent_def storageDrainProofTargetHash_def)

lemma scan_adopt_all:
  assumes "\<And>n. n \<in> set ns \<Longrightarrow> \<exists>b. map_of (bp_RepairBaselines p) n = Some b \<and> map_of (bp_RepairWorkerIDs p) n = None
      \<and> newestBlockRepairWorkerAfter (no_Workers (node_evidence ob n)) b = Some (w n)"
  shows "repair_scan p ob req ns nx a l =
     Inr (nx\<lparr>bp_RepairWorkerIDs := record_each (\<lambda>n. wi_ID (w n)) (bp_RepairWorkerIDs nx) ns\<rparr>, a \<or> ns \<noteq> [], l)"
  using assms
proof (induction ns arbitrary: nx a l)
  case Nil
  then show ?case by (simp add: record_each_def)
next
  case (Cons n ns)
  from Cons.prems [of n] obtain b where b: "map_of (bp_RepairBaselines p) n = Some b"
    "map_of (bp_RepairWorkerIDs p) n = None"
    "newestBlockRepairWorkerAfter (no_Workers (node_evidence ob n)) b = Some (w n)" by auto
  have "\<not> maxWorkerID (no_Workers (node_evidence ob n)) < b"
    using newest_Some [OF b(3)] maxWorkerID_bound [of "w n" "no_Workers (node_evidence ob n)"] by auto
  with b Cons show ?case by (simp add: Let_def record_each_def)
qed

lemma error_counters_wf: "gomap_wf (error_counters ob)"
proof -
  have "gomap_wf m \<Longrightarrow> gomap_wf (foldl (\<lambda>m (n, w). AList.update (worker_key n w) (the (wi_PersistentErrors w)) m) m xs)" for m xs
    by (induction xs arbitrary: m) auto
  then show ?thesis by (simp add: error_counters_def)
qed

lemma error_counters_self: "\<forall>(k, v) \<in> set (error_counters ob). gomap_get 0 (error_counters ob) k = v"
  using error_counters_wf [of ob] by (auto simp: gomap_get_def)

text \<open>A cluster at rest: nothing left to resynchronise on any verification node.\<close>

definition at_rest :: "blockResyncObservation \<Rightarrow> bool \<Rightarrow> bool" where
  "at_rest ob req \<longleftrightarrow>
     (\<forall>n \<in> set (ob_VerificationNodeIDs ob). enabled_workers ob n \<noteq> []
        \<and> (\<forall>w \<in> set (enabled_workers ob n). IsIdle (wi_State w)))
     \<and> ob_ErrorCount ob = 0 \<and> (req \<longrightarrow> ob_QueueLength ob = 0)"

text \<open>
  Between two observations every verification node finished, without errors, a Blocks repair that
  is newer than every worker of the first.
\<close>

definition repairs_finished :: "blockResyncObservation \<Rightarrow> blockResyncObservation \<Rightarrow> (string \<Rightarrow> WorkerInfo) \<Rightarrow> bool" where
  "repairs_finished ob0 ob1 w \<longleftrightarrow>
     (\<forall>n \<in> set (ob_VerificationNodeIDs ob1).
        newestBlockRepairWorkerAfter (no_Workers (node_evidence ob1 n)) (maxWorkerID (no_Workers (node_evidence ob0 n))) = Some (w n)
        \<and> blockRepairWorker (no_Workers (node_evidence ob1 n)) (wi_ID (w n)) = Some (w n)
        \<and> wi_Errors (w n) = 0 \<and> IsDone (wi_State (w n)))"

definition same_scope :: "blockResyncObservation \<Rightarrow> blockResyncObservation \<Rightarrow> bool" where
  "same_scope ob0 ob1 \<longleftrightarrow> ob_LayoutVersion ob1 = ob_LayoutVersion ob0
     \<and> ob_VerificationNodeIDs ob1 = ob_VerificationNodeIDs ob0
     \<and> ob_CurrentRoleNodeIDs ob1 = ob_CurrentRoleNodeIDs ob0"

lemma launch_round:
  assumes "round_starts sum256 p ob req"
    and "\<And>n. n \<in> set (ob_VerificationNodeIDs ob) \<Longrightarrow> launchable p ob n" "ob_VerificationNodeIDs ob \<noteq> []"
  shows "evaluateBlockResyncProgress sum256 (Some p) ob now quiet req =
     \<lparr>dec_Proof = Some (with_counters p ob req), dec_LaunchNodeIDs = sort (ob_VerificationNodeIDs ob),
      dec_Ready = False, dec_Message = LaunchingRepairs\<rparr>"
proof -
  have "filter (\<lambda>n. map_of (bp_RepairWorkerIDs p) n = None) (ob_VerificationNodeIDs ob) = ob_VerificationNodeIDs ob"
    using assms(2) by (auto simp: filter_id_conv launchable_def)
  then have "repair_scan p ob req (ob_VerificationNodeIDs ob) (with_counters p ob req) False []
      = Inr (with_counters p ob req, False, ob_VerificationNodeIDs ob)"
    using assms(2) by (simp add: repair_scan_noadopt)
  with assms(3) show ?thesis by (simp add: evaluate_started [OF assms(1)])
qed


text \<open>A proof whose baselines were recorded for the first observation, and the rounds it goes through.\<close>

definition baselined :: "blockResyncProof \<Rightarrow> blockResyncObservation \<Rightarrow> bool \<Rightarrow> blockResyncProof \<Rightarrow> bool" where
  "baselined p ob0 req q \<longleftrightarrow> same_intent q p \<and> bp_LayoutVersion q = ob_LayoutVersion ob0
     \<and> bp_VerificationNodeIDs q = ob_VerificationNodeIDs ob0 \<and> bp_RequiresEmptyQueue q = req
     \<and> bp_RepairBaselines q = record_each (\<lambda>n. maxWorkerID (no_Workers (node_evidence ob0 n))) [] (ob_VerificationNodeIDs ob0)"

definition drainable :: "(string \<Rightarrow> string) \<Rightarrow> blockResyncProof \<Rightarrow> blockResyncObservation \<Rightarrow> bool" where
  "drainable sum256 p ob \<longleftrightarrow> bp_TargetHash p = storageDrainProofTargetHash sum256 (Some p)
     \<and> set (bp_RoleRemovalNodeIDs p) \<inter> set (ob_CurrentRoleNodeIDs ob) = {}
     \<and> distinct (ob_VerificationNodeIDs ob) \<and> ob_VerificationNodeIDs ob \<noteq> []"

lemma baselined_starts:
  "baselined p ob0 req q \<Longrightarrow> drainable sum256 p ob0 \<Longrightarrow> same_scope ob0 ob \<Longrightarrow> round_starts sum256 q ob req"
  by (simp add: baselined_def drainable_def same_scope_def round_starts_def snapshot_changes_Nil
      length_record_each same_intent_def storageDrainProofTargetHash_def)

lemma same_scope_refl: "same_scope ob ob"
  by (simp add: same_scope_def)

lemma snapshot_baselined: "baselined p ob0 req (newBlockResyncSnapshotProof p ob0 req)"
  using snapshot_wf(2) [of p ob0 req]
  by (simp add: baselined_def snapshot_baselines) (simp add: newBlockResyncSnapshotProof_def)

lemma baselined_update [simp]:
  "baselined p ob0 req (with_counters q ob req') \<longleftrightarrow> baselined p ob0 req (q\<lparr>bp_RequiresEmptyQueue := req'\<rparr>)"
  "baselined p ob0 req (q\<lparr>bp_RepairWorkerIDs := m\<rparr>) \<longleftrightarrow> baselined p ob0 req q"
  "baselined p ob0 req (q\<lparr>bp_ResyncErrorBaselines := e\<rparr>) \<longleftrightarrow> baselined p ob0 req q"
  "baselined p ob0 req (q\<lparr>bp_QuietSince := s\<rparr>) \<longleftrightarrow> baselined p ob0 req q"
  "baselined p ob0 req (q\<lparr>bp_CompletedAt := c\<rparr>) \<longleftrightarrow> baselined p ob0 req q"
  by (simp_all add: baselined_def same_intent_def with_counters_def)

lemma baselined_req: "baselined p ob0 req q \<Longrightarrow> q\<lparr>bp_RequiresEmptyQueue := req\<rparr> = q"
  by (simp add: baselined_def)

lemma first_round:
  assumes "drainable sum256 p ob0" "snapshot_changes p ob0 req \<noteq> []"
  shows "dec_Proof (evaluateBlockResyncProgress sum256 (Some p) ob0 t quiet req) = Some (newBlockResyncSnapshotProof p ob0 req)"
proof -
  have "find (\<lambda>r. r \<in> set (ob_CurrentRoleNodeIDs ob0)) (bp_RoleRemovalNodeIDs p) = None"
    using assms(1) by (simp add: find_none_disjoint drainable_def)
  with assms show ?thesis by (simp add: evaluateBlockResyncProgress_def drainable_def)
qed

lemma launching_round:
  assumes "drainable sum256 p ob0"
    and "\<And>n. n \<in> set (ob_VerificationNodeIDs ob0) \<Longrightarrow>
           newestBlockRepairWorkerAfter (no_Workers (node_evidence ob0 n)) (maxWorkerID (no_Workers (node_evidence ob0 n))) = None"
  shows "evaluateBlockResyncProgress sum256 (Some (newBlockResyncSnapshotProof p ob0 req)) ob0 t quiet req =
     \<lparr>dec_Proof = Some (newBlockResyncSnapshotProof p ob0 req), dec_LaunchNodeIDs = sort (ob_VerificationNodeIDs ob0),
      dec_Ready = False, dec_Message = LaunchingRepairs\<rparr>"
proof -
  let ?q = "newBlockResyncSnapshotProof p ob0 req"
  have "launchable ?q ob0 n" if "n \<in> set (ob_VerificationNodeIDs ob0)" for n
    using that assms(2) by (simp add: launchable_def snapshot_baselines map_of_record_each)
      (simp add: newBlockResyncSnapshotProof_def)
  moreover have "with_counters ?q ob0 req = ?q" by (simp add: with_counters_def newBlockResyncSnapshotProof_def)
  moreover have "round_starts sum256 ?q ob0 req"
    by (rule baselined_starts [OF snapshot_baselined assms(1) same_scope_refl])
  ultimately show ?thesis using assms(1) by (simp add: launch_round drainable_def)
qed

lemma adopting_round:
  assumes "drainable sum256 p ob0" "same_scope ob0 ob1" "repairs_finished ob0 ob1 w"
    and "baselined p ob0 req q" "bp_RepairWorkerIDs q = []"
  shows "dec_Proof (evaluateBlockResyncProgress sum256 (Some q) ob1 t quiet req) =
     Some ((with_counters q ob1 req)\<lparr>bp_RepairWorkerIDs := record_each (\<lambda>n. wi_ID (w n)) [] (ob_VerificationNodeIDs ob1)\<rparr>)"
proof -
  have ne: "ob_VerificationNodeIDs ob1 \<noteq> []" using assms(1,2) by (simp add: drainable_def same_scope_def)
  have "repair_scan q ob1 req (ob_VerificationNodeIDs ob1) (with_counters q ob1 req) False [] =
      Inr ((with_counters q ob1 req)\<lparr>bp_RepairWorkerIDs := record_each (\<lambda>n. wi_ID (w n))
        (bp_RepairWorkerIDs (with_counters q ob1 req)) (ob_VerificationNodeIDs ob1)\<rparr>, True, [])"
    using scan_adopt_all [of "ob_VerificationNodeIDs ob1" q ob1 w req "with_counters q ob1 req" False "[]"] ne assms(2-5)
    by (simp add: baselined_def map_of_record_each same_scope_def repairs_finished_def)
  moreover have "bp_RepairWorkerIDs (with_counters q ob1 req) = []" using assms(5) by (simp add: with_counters_def)
  ultimately show ?thesis
    by (simp add: evaluate_started [OF baselined_starts [OF assms(4,1,2)]])
qed

lemma adopted_repaired:
  assumes "same_scope ob0 ob1" "repairs_finished ob0 ob1 w" "baselined p ob0 req q"
    and "bp_RepairWorkerIDs q = record_each (\<lambda>n. wi_ID (w n)) [] (ob_VerificationNodeIDs ob1)"
  shows "\<forall>n \<in> set (ob_VerificationNodeIDs ob1). repaired q ob1 n"
  using assms by (simp add: repaired_def baselined_def map_of_record_each same_scope_def repairs_finished_def)

lemma recording_round:
  assumes "drainable sum256 p ob0" "same_scope ob0 ob1" "baselined p ob0 req q" "at_rest ob1 req"
    and "\<forall>n \<in> set (ob_VerificationNodeIDs ob1). repaired q ob1 n" "bp_ResyncErrorBaselines q = None"
  shows "dec_Proof (evaluateBlockResyncProgress sum256 (Some q) ob1 t quiet req) =
     Some ((with_counters q ob1 req)\<lparr>bp_ResyncErrorBaselines := Some (error_counters ob1),
              bp_QuietSince := Some t, bp_CompletedAt := None\<rparr>)"
proof -
  have "resync_scan ob1 (ob_VerificationNodeIDs ob1) True [] = Inr (True, error_counters ob1)"
    using assms(4) by (simp add: resync_scan_counters at_rest_def)
  then show ?thesis
    using assms(6) by (simp add: round_repaired [OF baselined_starts [OF assms(3,1,2)] assms(5)])
qed

lemma final_round:
  assumes "drainable sum256 p ob0" "same_scope ob0 ob1" "baselined p ob0 req q" "at_rest ob1 req"
    and "\<forall>n \<in> set (ob_VerificationNodeIDs ob1). repaired q ob1 n"
    and "bp_ResyncErrorBaselines q = Some (error_counters ob1)" "bp_QuietSince q = Some s" "quiet \<le> time_Sub t s"
  shows "dec_Ready (evaluateBlockResyncProgress sum256 (Some q) ob1 t quiet req)"
  using baselined_starts [OF assms(3,1,2)] assms(4-8) error_counters_self [of ob1]
  by (simp add: ready_iff_complete drain_complete_def round_starts_def snapshot_changes_Nil at_rest_def quiet_elapsed_def)

subsection \<open>Properties\<close>

text \<open>
  C3: A storage drain is declared ready exactly when it is complete: the fingerprint matches the
  targets, no target is in the current layout, layout version, membership and queue mode are those
  the baselines were recorded for, on every source and destination process the recorded repair
  worker is finished without errors and every enabled resync worker is idle with unchanged error
  counters, the delayed-resync interval has passed, no block error is left and, where required, the
  queue is empty.
\<close>

theorem drain_ready_iff_complete:
  "dec_Ready (evaluateBlockResyncProgress sum256 (Some p) ob now quiet req) \<longleftrightarrow>
     drain_complete sum256 p ob now quiet req"
  by (rule ready_iff_complete)

text \<open>
  C12: Every round keeps the transaction and its invariant.  Whatever is observed, the proof a round
  leaves has the same actor, transaction, targets and fingerprint; each recorded repair worker is
  newer than the node's persisted baseline; and it carries a completion time exactly when this very
  round was ready, so that a regression always withdraws an earlier completion.
\<close>

theorem round_keeps_transaction:
  assumes "evidence_wf p" "dec_Proof (evaluateBlockResyncProgress sum256 (Some p) ob now quiet req) = Some q"
  shows "same_intent q p \<and> evidence_wf q
     \<and> (bp_CompletedAt q \<noteq> None \<longleftrightarrow> dec_Ready (evaluateBlockResyncProgress sum256 (Some p) ob now quiet req))"
  using round_keeps_evidence_wf [OF assms] by blast

theorem round_keeps_transaction_witness:
  "\<exists>q. dec_Proof (evaluateBlockResyncProgress (\<lambda>s. s) (Some sample_proof) (sample_observation []) 5 0 False) = Some q
     \<and> same_intent q sample_proof \<and> evidence_wf q"
proof -
  have w: "evidence_wf sample_proof" by (simp add: evidence_wf_def sample_proof_def)
  have "\<not> round_starts (\<lambda>s. s) sample_proof (sample_observation []) False"
    by (simp add: round_starts_def snapshot_changes_Nil sample_proof_def sample_observation_def)
  from evaluate_not_started [OF this] obtain q where
    "dec_Proof (evaluateBlockResyncProgress (\<lambda>s. s) (Some sample_proof) (sample_observation []) 5 0 False) = Some q"
    by (metis waiting_simps(1))
  with round_keeps_transaction [OF w] show ?thesis by blast
qed

text \<open>
  Repairs are launched exactly once.  When a round asks for launches, it lists exactly the
  verification nodes without a recorded worker, each of which has a persisted baseline and shows no
  repair worker newer than it, and every other node has finished its repair; the proof to be
  persisted before the launch already contains those baselines.
\<close>

theorem launches_are_exact:
  assumes "dec_LaunchNodeIDs (evaluateBlockResyncProgress sum256 (Some p) ob now quiet req) \<noteq> []"
  shows "set (dec_LaunchNodeIDs (evaluateBlockResyncProgress sum256 (Some p) ob now quiet req))
           = {n \<in> set (ob_VerificationNodeIDs ob). launchable p ob n}
     \<and> (\<forall>n \<in> set (ob_VerificationNodeIDs ob). launchable p ob n \<or> repaired p ob n)
     \<and> dec_Proof (evaluateBlockResyncProgress sum256 (Some p) ob now quiet req) = Some (with_counters p ob req)"
proof -
  let ?e = "evaluateBlockResyncProgress sum256 (Some p) ob now quiet req"
  have start: "round_starts sum256 p ob req"
    using assms evaluate_not_started by (metis waiting_simps(2))
  have nr: "\<not> (\<forall>n \<in> set (ob_VerificationNodeIDs ob). repaired p ob n)"
  proof
    assume rep: "\<forall>n \<in> set (ob_VerificationNodeIDs ob). repaired p ob n"
    have "dec_LaunchNodeIDs ?e = []"
      by (simp add: round_repaired [OF start rep] finish_round_launch split: sum.split option.split)
    with assms show False by blast
  qed
  show ?thesis
  proof (cases "repair_scan p ob req (ob_VerificationNodeIDs ob) (with_counters p ob req) False []")
    case (Inl d)
    with repair_scan_ok [OF scan_ok_counters [of p ob req], where ob = ob and req = req
      and ns = "ob_VerificationNodeIDs ob" and a = False and l = "[]"] assms
    show ?thesis by (simp add: evaluate_started [OF start])
  next
    case (Inr r)
    then obtain nx a l where r: "repair_scan p ob req (ob_VerificationNodeIDs ob) (with_counters p ob req) False [] = Inr (nx, a, l)"
      by (metis prod_cases3)
    have "\<not> a" using assms by (auto simp: evaluate_started [OF start] r)
    with r have r': "repair_scan p ob req (ob_VerificationNodeIDs ob) (with_counters p ob req) False [] = Inr (nx, False, l)"
      by simp
    have l: "l \<noteq> []" using scan_incomplete [OF r' nr] by simp
    note s = r' [unfolded repair_scan_noadopt]
    have e: "?e = \<lparr>dec_Proof = Some nx, dec_LaunchNodeIDs = sort l, dec_Ready = False, dec_Message = LaunchingRepairs\<rparr>"
      using l by (simp add: evaluate_started [OF start] r')
    have "{n \<in> set (ob_VerificationNodeIDs ob). launchable p ob n} = set l"
      using s repaired_recorded [of p ob] by (fastforce simp: launchable_def)
    with s e show ?thesis by auto
  qed
qed

text \<open>
  C18: A drain that is left alone completes.  From a proof whose baselines do not fit the
  observation, five rounds suffice: the first records baselines, the second launches a repair on
  every verification node, the third adopts the workers once they have finished, the fourth records
  the error counters and starts the quiet period, and a fifth, at least the quiet period later, is
  ready.
\<close>

theorem drain_reaches_ready:
  fixes t0 t1 t2 :: instant
  assumes "drainable sum256 p ob0" "snapshot_changes p ob0 req \<noteq> []"
    and "\<And>n. n \<in> set (ob_VerificationNodeIDs ob0) \<Longrightarrow>
           newestBlockRepairWorkerAfter (no_Workers (node_evidence ob0 n)) (maxWorkerID (no_Workers (node_evidence ob0 n))) = None"
    and "same_scope ob0 ob1" "repairs_finished ob0 ob1 w" "at_rest ob1 req" "quiet \<le> time_Sub t4 t3"
  defines "d0 \<equiv> evaluateBlockResyncProgress sum256 (Some p) ob0 t0 quiet req"
  defines "d1 \<equiv> evaluateBlockResyncProgress sum256 (dec_Proof d0) ob0 t1 quiet req"
  defines "d2 \<equiv> evaluateBlockResyncProgress sum256 (dec_Proof d1) ob1 t2 quiet req"
  defines "d3 \<equiv> evaluateBlockResyncProgress sum256 (dec_Proof d2) ob1 t3 quiet req"
  shows "dec_LaunchNodeIDs d1 = sort (ob_VerificationNodeIDs ob0)
     \<and> dec_Ready (evaluateBlockResyncProgress sum256 (dec_Proof d3) ob1 t4 quiet req)"
proof -
  define q1 where "q1 = newBlockResyncSnapshotProof p ob0 req"
  define q2 where "q2 = (with_counters q1 ob1 req)\<lparr>bp_RepairWorkerIDs := record_each (\<lambda>n. wi_ID (w n)) [] (ob_VerificationNodeIDs ob1)\<rparr>"
  define q3 where "q3 = (with_counters q2 ob1 req)\<lparr>bp_ResyncErrorBaselines := Some (error_counters ob1),
              bp_QuietSince := Some t3, bp_CompletedAt := None\<rparr>"
  have b1: "baselined p ob0 req q1" unfolding q1_def by (rule snapshot_baselined)
  have b2: "baselined p ob0 req q2" using b1 by (simp add: q2_def baselined_req)
  have b3: "baselined p ob0 req q3" using b2 by (simp add: q3_def baselined_req)
  have d1: "d1 = \<lparr>dec_Proof = Some q1, dec_LaunchNodeIDs = sort (ob_VerificationNodeIDs ob0), dec_Ready = False,
      dec_Message = LaunchingRepairs\<rparr>"
    unfolding d1_def d0_def first_round [OF assms(1,2)] q1_def by (rule launching_round [OF assms(1,3)])
  have d2: "dec_Proof d2 = Some q2"
    unfolding d2_def d1 q2_def using adopting_round [OF assms(1,4,5) b1] by (simp add: q1_def newBlockResyncSnapshotProof_def)
  have r2: "\<forall>n \<in> set (ob_VerificationNodeIDs ob1). repaired q2 ob1 n"
    by (rule adopted_repaired [OF assms(4,5) b2]) (simp add: q2_def)
  have d3: "dec_Proof d3 = Some q3"
    unfolding d3_def d2 q3_def
    by (rule recording_round [OF assms(1,4) b2 assms(6) r2]) (simp add: q2_def q1_def with_counters_def newBlockResyncSnapshotProof_def)
  have r3: "\<forall>n \<in> set (ob_VerificationNodeIDs ob1). repaired q3 ob1 n"
    by (rule adopted_repaired [OF assms(4,5) b3]) (simp add: q3_def q2_def with_counters_def)
  have "dec_Ready (evaluateBlockResyncProgress sum256 (Some q3) ob1 t4 quiet req)"
    by (rule final_round [OF assms(1,4) b3 assms(6) r3 _ _ assms(7)]) (simp_all add: q3_def)
  with d1 d3 show ?thesis by simp
qed


text \<open>A two-node transaction for the witnesses: one source that leaves, one destination that stays.\<close>

definition sample_resync_worker :: WorkerInfo where
  "sample_resync_worker = sample_worker 1 ''Block resync worker #1'' ''idle''"

definition sample_repair_worker :: WorkerInfo where
  "sample_repair_worker = sample_worker 2 blockRepairWorkerName ''done''"

lemma sample_workers_enabled [simp]:
  "enabled_resync_worker sample_resync_worker" "\<not> enabled_resync_worker sample_repair_worker"
proof -
  have "isBlockResyncWorkerName ''Block resync worker #1''" "\<not> isBlockResyncWorkerName blockRepairWorkerName"
    by code_simp+
  then show "enabled_resync_worker sample_resync_worker" "\<not> enabled_resync_worker sample_repair_worker"
    by (simp_all add: enabled_resync_worker_def sample_resync_worker_def sample_repair_worker_def sample_worker_def)
qed

lemma sample_resync_name: "wi_Name sample_resync_worker \<noteq> blockRepairWorkerName"
  by (simp add: sample_resync_worker_def sample_worker_def blockRepairWorkerName_def)

lemma sample_observation_workers [simp]:
  "n \<in> set (ob_VerificationNodeIDs (sample_observation ws)) \<Longrightarrow> no_Workers (node_evidence (sample_observation ws) n) = ws"
  by (auto simp: sample_observation_def node_evidence_def gomap_get_def sample_node_up_def)

lemma sample_drainable: "drainable (\<lambda>s. s) sample_proof (sample_observation ws)"
  using sample_proof_wf
  by (simp add: drainable_def intent_wf_def sample_observation_def) (simp add: sample_proof_def)

lemma sample_no_repair:
  "newestBlockRepairWorkerAfter [sample_resync_worker] b = None"
  by (simp add: newestBlockRepairWorkerAfter_def sample_resync_name)

theorem launches_are_exact_witness:
  "set (dec_LaunchNodeIDs (evaluateBlockResyncProgress (\<lambda>s. s)
      (Some (newBlockResyncSnapshotProof sample_proof (sample_observation [sample_resync_worker]) False))
      (sample_observation [sample_resync_worker]) 7 0 False))
    = {n \<in> {sample_id CHR ''a'', sample_id CHR ''b''}.
         launchable (newBlockResyncSnapshotProof sample_proof (sample_observation [sample_resync_worker]) False)
           (sample_observation [sample_resync_worker]) n}"
proof -
  let ?ob = "sample_observation [sample_resync_worker]"
  have "dec_LaunchNodeIDs (evaluateBlockResyncProgress (\<lambda>s. s) (Some (newBlockResyncSnapshotProof sample_proof ?ob False)) ?ob 7 0 False) \<noteq> []"
    by (subst launching_round) (simp_all add: sample_drainable sample_no_repair, simp add: sample_observation_def)
  from launches_are_exact [OF this] show ?thesis by (simp add: sample_observation_def)
qed

theorem drain_reaches_ready_witness:
  "let ob0 = sample_observation [sample_resync_worker];
       ob1 = sample_observation [sample_resync_worker, sample_repair_worker];
       d0 = evaluateBlockResyncProgress (\<lambda>s. s) (Some sample_proof) ob0 10 100 True;
       d1 = evaluateBlockResyncProgress (\<lambda>s. s) (dec_Proof d0) ob0 20 100 True;
       d2 = evaluateBlockResyncProgress (\<lambda>s. s) (dec_Proof d1) ob1 30 100 True;
       d3 = evaluateBlockResyncProgress (\<lambda>s. s) (dec_Proof d2) ob1 40 100 True
   in dec_Ready (evaluateBlockResyncProgress (\<lambda>s. s) (dec_Proof d3) ob1 140 100 True)"
proof -
  let ?ob0 = "sample_observation [sample_resync_worker]"
  let ?ob1 = "sample_observation [sample_resync_worker, sample_repair_worker]"
  have ver: "ob_VerificationNodeIDs ?ob1 = ob_VerificationNodeIDs ?ob0" by (simp add: sample_observation_def)
  have "snapshot_changes sample_proof ?ob0 True \<noteq> []"
    by (simp add: snapshot_changes_Nil sample_proof_def sample_observation_def)
  moreover have "same_scope ?ob0 ?ob1" by (simp add: same_scope_def sample_observation_def)
  moreover have "repairs_finished ?ob0 ?ob1 (\<lambda>n. sample_repair_worker)"
    by (simp add: repairs_finished_def ver newestBlockRepairWorkerAfter_def blockRepairWorker_def maxWorkerID_def)
       (simp add: sample_repair_worker_def sample_resync_worker_def sample_worker_def blockRepairWorkerName_def IsDone_def
          word_le_nat_alt)
  moreover have "at_rest ?ob1 True"
    by (simp add: at_rest_def enabled_workers_def)
       (simp add: sample_observation_def sample_resync_worker_def sample_worker_def IsIdle_def)
  moreover have "(100 :: int) \<le> time_Sub 140 40" by (simp add: time_Sub_def)
  ultimately show ?thesis
    using drain_reaches_ready [of "\<lambda>s. s" sample_proof ?ob0 True ?ob1 "\<lambda>n. sample_repair_worker" 100 140 40 10 20 30]
    by (simp add: sample_drainable sample_no_repair Let_def)
qed

text \<open>
  The default quiet period outlasts the delays Garage may have scheduled: it is never below the
  block garbage-collection delay plus a minute, nor, while twice the RPC timeout fits a duration,
  below twice the configured RPC timeout; an explicit positive setting is used as given and a
  negative one means no waiting.
\<close>

theorem quiet_period_bounds:
  "garageBlockGCDelay + RequeueAfterShort \<le> effectiveBlockResyncQuietPeriod 0 rpc
   \<and> (rpc = Some t \<and> t < 2 ^ 62 \<longrightarrow> 2 * t \<le> effectiveBlockResyncQuietPeriod 0 rpc)
   \<and> effectiveBlockResyncQuietPeriod c rpc = (if c < 0 then 0 else if 0 < c then c else effectiveBlockResyncQuietPeriod 0 rpc)"
proof -
  have w: "wrap64 x = x" if "0 \<le> x" "x < 2 ^ 63" for x
    using that by (simp add: wrap64_def)
  have d: "defaultGarageRPCTimeout = 300000000000" "garageBlockGCDelay + RequeueAfterShort = 670000000000"
    by (simp_all add: defaultGarageRPCTimeout_def garageBlockGCDelay_def RequeueAfterShort_def time_Minute_def time_Second_def)
  have "2 * t \<le> effectiveBlockResyncQuietPeriod 0 (Some t)" if "t < 2 ^ 62"
    using that w [of "2 * t"] by (auto simp: effectiveBlockResyncQuietPeriod_def Let_def d)
  moreover have "garageBlockGCDelay + RequeueAfterShort \<le> effectiveBlockResyncQuietPeriod 0 rpc"
    by (simp add: effectiveBlockResyncQuietPeriod_def Let_def)
  ultimately show ?thesis by (auto simp: effectiveBlockResyncQuietPeriod_def [of c rpc] effectiveBlockResyncQuietPeriod_def [of 0 rpc])
qed

theorem quiet_period_bounds_witness:
  "1800000000000 \<le> effectiveBlockResyncQuietPeriod 0 (Some 900000000000)"
  using quiet_period_bounds [of "Some 900000000000" 900000000000 0] by simp

end
