(* ===== verification/DrainPeers.thy ===== *)
theory DrainPeers
  imports DrainStore ResyncProgress
begin

text \<open>
  The gates of a positive-capacity removal (internal/controller/block_resync_barrier.go): Garage's
  consistency mode, the readiness of the layout owner, live health, the mapping of every Garage
  process to the Kubernetes Pod that runs it, and the observation that an acknowledged lost source
  is really down and absent.
\<close>

subsection \<open>Configuration and readiness\<close>

datatype drain_block =
    UnsupportedConsistency string
  | OwnerMissing
  | HandleNotReady int
  | FactorMigrationRunning
  | PodReplacementActive
  | RolloutNotReady int
  | StatusUnhealthy
  | HealthUnreadable string
  | LiveUnhealthy
  | PeersUnclassifiable
  | NodesUnlistable get_error
  | PinInvalid string identity_error
  | ProcessUnverifiable string get_error
  | UnverifiedPeers "string list"

definition consistencyModeConsistent :: string where "consistencyModeConsistent = ''consistent''"

definition effectiveStorageDrainConsistencyMode :: "GarageCluster option \<Rightarrow> string" where
  "effectiveStorageDrainConsistencyMode cluster =
     (case cluster of
        None \<Rightarrow> consistencyModeConsistent
      | Some c \<Rightarrow>
          (case cs_Replication (gc_Spec c) of
             None \<Rightarrow> consistencyModeConsistent
           | Some r \<Rightarrow> if rep_ConsistencyMode r = [] then consistencyModeConsistent
                        else ToLower (rep_ConsistencyMode r)))"

definition requireConsistentStorageDrain :: "GarageCluster option \<Rightarrow> drain_block option" where
  "requireConsistentStorageDrain cluster =
     (let mode = effectiveStorageDrainConsistencyMode cluster in
      if mode = consistencyModeConsistent then None else Some (UnsupportedConsistency mode))"

definition ReasonStorageDrainUnsupportedConsistency :: string where
  "ReasonStorageDrainUnsupportedConsistency = ''UnsupportedConsistencyMode''"
definition ReasonStorageDrainWaitingForRollout :: string where
  "ReasonStorageDrainWaitingForRollout = ''WaitingForStorageRollout''"
definition ReasonStorageDrainWaitingForHealth :: string where
  "ReasonStorageDrainWaitingForHealth = ''WaitingForClusterHealth''"
definition ReasonStorageDrainUnverifiedPeers :: string where
  "ReasonStorageDrainUnverifiedPeers = ''UnverifiedPeersBlocked''"
definition ConditionManagementHandleReady :: string where
  "ConditionManagementHandleReady = ''ManagementHandleReady''"
definition healthStatusHealthy :: string where "healthStatusHealthy = ''healthy''"

definition condition_current :: "GarageCluster \<Rightarrow> string \<Rightarrow> bool" where
  "condition_current c t \<longleftrightarrow>
     \<not> (case FindStatusCondition (cst_Conditions (gc_Status c)) t of
          None \<Rightarrow> True
        | Some d \<Rightarrow> cond_Status d \<noteq> ConditionTrue \<or> cond_ObservedGeneration d \<noteq> gc_Generation c)"

definition requireStorageDrainStartReady :: "GarageCluster option \<Rightarrow> (string \<times> drain_block) option" where
  "requireStorageDrainStartReady cluster =
     (case cluster of
        None \<Rightarrow> Some (ReasonStorageDrainWaitingForRollout, OwnerMissing)
      | Some c \<Rightarrow>
          if IsManagementHandle cluster then
            fail_if (\<not> condition_current c ConditionManagementHandleReady)
              (ReasonStorageDrainWaitingForHealth, HandleNotReady (gc_Generation c))
          else if factorMigrationActive c
          then Some (ReasonStorageDrainWaitingForRollout, FactorMigrationRunning)
          else if (case clusterStorageDrainProof (cst_StorageDrain (gc_Status c)) of
                     None \<Rightarrow> False | Some p \<Rightarrow> 0 < length (bp_UnavailableSourceNodeIDs p))
          then None
          else if cst_StorageRollout (gc_Status c) \<noteq> None
          then Some (ReasonStorageDrainWaitingForRollout, PodReplacementActive)
          else if \<not> condition_current c ConditionStorageRolloutReady
          then Some (ReasonStorageDrainWaitingForRollout, RolloutNotReady (gc_Generation c))
          else (case cst_Health (gc_Status c) of
                  None \<Rightarrow> Some (ReasonStorageDrainWaitingForHealth, StatusUnhealthy)
                | Some h \<Rightarrow>
                    fail_if (hs_Status h \<noteq> healthStatusHealthy \<or> \<not> hs_Healthy h \<or> \<not> hs_Available h
                             \<or> hs_StorageNodesOK h \<noteq> hs_StorageNodes h
                             \<or> hs_PartitionsQuorum h \<noteq> hs_Partitions h \<or> hs_PartitionsAllOK h \<noteq> hs_Partitions h)
                      (ReasonStorageDrainWaitingForHealth, StatusUnhealthy)))"

text \<open>The live reading; a nil response is \<open>Inr None\<close>.\<close>

definition fully_healthy :: "ClusterHealth \<Rightarrow> bool" where
  "fully_healthy h \<longleftrightarrow>
     \<not> (ch_Status h \<noteq> healthStatusHealthy \<or> ch_StorageNodes h = 0 \<or> ch_StorageNodesUp h \<noteq> ch_StorageNodes h
        \<or> ch_Partitions h = 0 \<or> ch_PartitionsQuorum h \<noteq> ch_Partitions h \<or> ch_PartitionsAllOK h \<noteq> ch_Partitions h)"

definition requireLiveStorageDrainHealth ::
    "('w \<Rightarrow> (string + ClusterHealth option) \<times> 'w) \<Rightarrow> 'w \<Rightarrow> drain_block option \<times> 'w" where
  "requireLiveStorageDrainHealth getter w =
     (case getter w of
        (Inl e, w1) \<Rightarrow> (Some (HealthUnreadable e), w1)
      | (Inr None, w1) \<Rightarrow> (Some LiveUnhealthy, w1)
      | (Inr (Some h), w1) \<Rightarrow> (fail_if (\<not> fully_healthy h) LiveUnhealthy, w1))"

subsection \<open>Processes and Pods\<close>

record Pod =
  pod_UID :: string
  pod_NodeName :: string
  pod_Deleting :: bool
  pod_Phase :: string
  pod_Conditions :: "(string \<times> string) list"

text \<open>The uncached reader; the namespace and the labels of a list call are its arguments.\<close>

record 'w peer_reader =
  pr_ListNodes :: "string \<Rightarrow> 'w \<Rightarrow> (get_error + GarageNode list) \<times> 'w"
  pr_ListPods :: "string \<Rightarrow> (string, string) gomap \<Rightarrow> 'w \<Rightarrow> (get_error + Pod list) \<times> 'w"
  pr_GetPod :: "NamespacedName \<Rightarrow> 'w \<Rightarrow> (get_error + Pod) \<times> 'w"
  pr_GetCluster :: "NamespacedName \<Rightarrow> 'w \<Rightarrow> (get_error + GarageCluster) \<times> 'w"

definition labelCluster :: string where "labelCluster = ''garage.rajsingh.info/cluster''"
definition labelTier :: string where "labelTier = ''garage.rajsingh.info/tier''"
definition labelNodeLocalPool :: string where "labelNodeLocalPool = ''garage.rajsingh.info/node-local-pool''"
definition tierStorage :: string where "tierStorage = ''storage''"

definition podReady :: "Pod option \<Rightarrow> bool" where
  "podReady pod =
     (case pod of
        None \<Rightarrow> False
      | Some p \<Rightarrow>
          if pod_Phase p \<noteq> ''Running'' \<or> pod_Deleting p then False
          else (case find (\<lambda>c. fst c = ''Ready'') (pod_Conditions p) of
                  None \<Rightarrow> False | Some c \<Rightarrow> snd c = ''True''))"

definition isNodeLocalPoolBacked :: "GarageNode \<Rightarrow> bool" where
  "isNodeLocalPoolBacked node \<longleftrightarrow> ns_Backing (gn_Spec node) = NodeBackingNodeLocalPool"

text \<open>\<open>Inr (Some uid)\<close> is the answer (uid, true, nil), \<open>Inr None\<close> is ('''', false, nil).\<close>

definition liveManagedGarageNodePodUID ::
    "'w peer_reader \<Rightarrow> GarageCluster \<Rightarrow> GarageNode \<Rightarrow> 'w \<Rightarrow> (get_error + string option) \<times> 'w" where
  "liveManagedGarageNodePodUID reader cluster node w =
     (if ns_External (gn_Spec node) \<or> gn_StatusObservedPodUID node = []
         \<or> gn_StatusObservedGeneration node \<noteq> gn_Generation node \<or> \<not> gn_StatusConnected node
      then (Inr None, w)
      else if isNodeLocalPoolBacked node then
        (case pr_ListPods reader (gn_Namespace node)
                [(labelCluster, gc_Name cluster), (labelTier, tierStorage),
                 (labelNodeLocalPool, ns_NodeLocalPoolName (gn_Spec node))] w of
           (Inl e, w1) \<Rightarrow> (Inl e, w1)
         | (Inr pods, w1) \<Rightarrow>
             (Inr (map_option pod_UID (find (\<lambda>pod. pod_NodeName pod = ns_KubernetesNodeName (gn_Spec node)
                       \<and> pod_UID pod = gn_StatusObservedPodUID node \<and> \<not> pod_Deleting pod \<and> podReady (Some pod)) pods)),
              w1))
      else
        (case pr_GetPod reader \<lparr>nn_Namespace = gn_Namespace node, nn_Name = gn_Name node @ ''-0''\<rparr> w of
           (Inl NotFound, w1) \<Rightarrow> (Inr None, w1)
         | (Inl e, w1) \<Rightarrow> (Inl e, w1)
         | (Inr pod, w1) \<Rightarrow>
             if pod_UID pod \<noteq> gn_StatusObservedPodUID node \<or> pod_Deleting pod \<or> \<not> podReady (Some pod)
             then (Inr None, w1) else (Inr (Some (pod_UID pod)), w1)))"

subsection \<open>The assessment of peers\<close>

definition StorageDrainUnverifiedPeersBlock :: string where "StorageDrainUnverifiedPeersBlock = ''Block''"
definition StorageDrainUnverifiedPeersAssumeConsistent :: string where
  "StorageDrainUnverifiedPeersAssumeConsistent = ''AssumeConsistent''"

definition effectiveStorageDrainUnverifiedPeersPolicy :: "GarageCluster option \<Rightarrow> string" where
  "effectiveStorageDrainUnverifiedPeersPolicy cluster =
     (case cluster of
        None \<Rightarrow> StorageDrainUnverifiedPeersBlock
      | Some c \<Rightarrow>
          (case cs_LayoutManagement (gc_Spec c) of
             None \<Rightarrow> StorageDrainUnverifiedPeersBlock
           | Some lm \<Rightarrow>
               (case lm_Drain lm of
                  None \<Rightarrow> StorageDrainUnverifiedPeersBlock
                | Some d \<Rightarrow> if sdc_UnverifiedPeersPolicy d = [] then StorageDrainUnverifiedPeersBlock
                             else sdc_UnverifiedPeersPolicy d)))"

definition storageDrainRoleTagsFromLayout :: "ClusterLayout option \<Rightarrow> (string, string list) gomap" where
  "storageDrainRoleTagsFromLayout layout =
     (case layout of
        None \<Rightarrow> []
      | Some l \<Rightarrow> foldl (\<lambda>m r. AList.update (lr_ID r) (lr_Tags r) m) [] (cl_Roles l))"

record storageDrainPeerAssessment =
  pa_RequiresEmptyQueue :: bool
  pa_ManagedPodUIDs :: "(string, string) gomap"

text \<open>The maps the loop over GarageNodes fills; sets are lists.\<close>

record peer_tables =
  pt_Managed :: "(string, string) gomap"
  pt_Ambiguous :: "string list"
  pt_Claims :: "(string, int) gomap"
  pt_External :: "string list"

definition node_of_cluster :: "GarageCluster \<Rightarrow> GarageNode \<Rightarrow> bool" where
  "node_of_cluster cluster node \<longleftrightarrow>
     (let ns = (if ref_Namespace (ns_ClusterRef (gn_Spec node)) \<noteq> []
                then ref_Namespace (ns_ClusterRef (gn_Spec node)) else gn_Namespace node) in
      \<not> (ref_Name (ns_ClusterRef (gn_Spec node)) \<noteq> gc_Name cluster \<or> ns \<noteq> gc_Namespace cluster))"

definition object_claims :: "GarageNode \<Rightarrow> string \<Rightarrow> string list" where
  "object_claims node pinned =
     (let ids = foldl (\<lambda>acc i. let c = CanonicalGarageNodeID i in if c = [] then acc else List.insert c acc)
                  [] [gn_StatusNodeID node, ns_NodeID (gn_Spec node)] in
      if pinned \<noteq> [] then List.insert pinned ids else ids)"

definition add_claim :: "GarageNode \<Rightarrow> string option \<Rightarrow> string list \<Rightarrow> peer_tables \<Rightarrow> string \<Rightarrow> peer_tables" where
  "add_claim node live required t i =
     (let t1 = t\<lparr>pt_Claims := AList.update i (gomap_get 0 (pt_Claims t) i + 1) (pt_Claims t)\<rparr> in
      if ns_External (gn_Spec node) then t1\<lparr>pt_External := List.insert i (pt_External t1)\<rparr>
      else (case live of
              None \<Rightarrow> t1
            | Some podUID \<Rightarrow>
                if \<not> (gn_StatusInLayout node \<or> i \<in> set required) then t1
                else if (case map_of (pt_Managed t1) i of None \<Rightarrow> False | Some previous \<Rightarrow> previous \<noteq> podUID)
                then t1\<lparr>pt_Ambiguous := List.insert i (pt_Ambiguous t1),
                        pt_Managed := gomap_delete i (pt_Managed t1)\<rparr>
                else if i \<notin> set (pt_Ambiguous t1)
                then t1\<lparr>pt_Managed := AList.update i podUID (pt_Managed t1)\<rparr>
                else t1))"

fun scan_peers ::
    "(string \<Rightarrow> (string \<times> string) option) \<Rightarrow> 'w peer_reader \<Rightarrow> GarageCluster \<Rightarrow> string list \<Rightarrow> GarageNode list
     \<Rightarrow> peer_tables \<Rightarrow> 'w \<Rightarrow> (drain_block + peer_tables) \<times> 'w" where
  "scan_peers parse_gv reader cluster required [] t w = (Inr t, w)"
| "scan_peers parse_gv reader cluster required (node # nodes) t w =
     (if \<not> node_of_cluster cluster node then scan_peers parse_gv reader cluster required nodes t w
      else
     (case TrustedNodeLocalPoolRecoveryNodeID parse_gv (Some node) of
        Inl e \<Rightarrow> (Inl (PinInvalid (gn_Name node) e), w)
      | Inr pinned \<Rightarrow>
          let claims = object_claims node pinned;
              t1 = (if 1 < length claims then t\<lparr>pt_Ambiguous := fold List.insert claims (pt_Ambiguous t)\<rparr> else t) in
     (case liveManagedGarageNodePodUID reader cluster node w of
        (Inl e, w1) \<Rightarrow> (Inl (ProcessUnverifiable (gn_Name node) e), w1)
      | (Inr live, w1) \<Rightarrow>
          scan_peers parse_gv reader cluster required nodes (foldl (add_claim node live required) t1 claims) w1)))"

definition drop_duplicates :: "peer_tables \<Rightarrow> peer_tables" where
  "drop_duplicates t =
     foldl (\<lambda>t (i, claims). if 1 < claims
              then t\<lparr>pt_Ambiguous := List.insert i (pt_Ambiguous t), pt_Managed := gomap_delete i (pt_Managed t)\<rparr>
              else t) t (pt_Claims t)"

definition classify_process ::
    "peer_tables \<Rightarrow> (string, string) gomap \<times> string list \<Rightarrow> string \<Rightarrow> (string, string) gomap \<times> string list" where
  "classify_process t acc i =
     (let (current, unverified) = acc in
      if i \<in> set (pt_External t) then (current, unverified @ [shortID i @ '' (external GarageNode)''])
      else if i \<in> set (pt_Ambiguous t) then (current, unverified @ [shortID i @ '' (ambiguous managed identity)''])
      else (case map_of (pt_Managed t) i of
              Some podUID \<Rightarrow> (AList.update i podUID current, unverified)
            | None \<Rightarrow> (current, unverified @ [shortID i @ '' (foreign, orphaned, or unmapped process)''])))"

definition process_ids :: "(string, string list) gomap \<Rightarrow> string list \<Rightarrow> string list" where
  "process_ids roleTags required = remdups (map (CanonicalGarageNodeID \<circ> fst) roleTags @ required)"

definition assessStorageDrainPeers ::
    "(string \<Rightarrow> (string \<times> string) option) \<Rightarrow> 'w peer_reader option \<Rightarrow> GarageCluster option
     \<Rightarrow> (string, string list) gomap \<Rightarrow> string list \<Rightarrow> 'w \<Rightarrow> (drain_block + storageDrainPeerAssessment) \<times> 'w" where
  "assessStorageDrainPeers parse_gv readerPtr clusterPtr roleTags requiredNodeIDs w =
     (case (clusterPtr, readerPtr) of
        (Some cluster, Some reader) \<Rightarrow>
          if gc_UID cluster = [] then (Inl PeersUnclassifiable, w)
          else
            let required = NormalizeNodeIDs requiredNodeIDs in
     (case pr_ListNodes reader (gc_Namespace cluster) w of
        (Inl e, w1) \<Rightarrow> (Inl (NodesUnlistable e), w1)
      | (Inr nodes, w1) \<Rightarrow>
     (case scan_peers parse_gv reader cluster required nodes
             \<lparr>pt_Managed = [], pt_Ambiguous = [], pt_Claims = [], pt_External = []\<rparr> w1 of
        (Inl e, w2) \<Rightarrow> (Inl e, w2)
      | (Inr t, w2) \<Rightarrow>
          let (current, unverified0) = foldl (classify_process (drop_duplicates t)) ([], []) (process_ids roleTags required);
              unverified = (if 0 < length (cs_RemoteClusters (gc_Spec cluster))
                            then unverified0 @ [''spec.remoteClusters (no cross-control-plane lock)''] else unverified0) in
          if length unverified = 0
          then (Inr \<lparr>pa_RequiresEmptyQueue = False, pa_ManagedPodUIDs = current\<rparr>, w2)
          else if effectiveStorageDrainUnverifiedPeersPolicy (Some cluster) \<noteq> StorageDrainUnverifiedPeersAssumeConsistent
          then (Inl (UnverifiedPeers (sort unverified)), w2)
          else (Inr \<lparr>pa_RequiresEmptyQueue = True, pa_ManagedPodUIDs = current\<rparr>, w2)))
      | _ \<Rightarrow> (Inl PeersUnclassifiable, w))"


subsection \<open>What the assessment establishes\<close>

lemma find_SomeD: "find P xs = Some x \<Longrightarrow> x \<in> set xs \<and> P x"
  by (induction xs) (auto split: if_splits)

definition claims_of :: "(string \<Rightarrow> (string \<times> string) option) \<Rightarrow> GarageNode \<Rightarrow> string list" where
  "claims_of parse_gv node =
     (case TrustedNodeLocalPoolRecoveryNodeID parse_gv (Some node) of
        Inl e \<Rightarrow> [] | Inr pinned \<Rightarrow> object_claims node pinned)"

text \<open>The GarageNodes of the cluster that claim an identifier.\<close>

definition claiming ::
    "(string \<Rightarrow> (string \<times> string) option) \<Rightarrow> GarageCluster \<Rightarrow> GarageNode list \<Rightarrow> string \<Rightarrow> GarageNode list" where
  "claiming parse_gv cluster nodes i =
     filter (\<lambda>n. node_of_cluster cluster n \<and> i \<in> set (claims_of parse_gv n)) nodes"

text \<open>
  A managed process that is the observed incarnation of its GarageNode: the reader returned a Pod
  with the observed UID that is running, ready and not being deleted.
\<close>

definition serves :: "'w peer_reader \<Rightarrow> GarageNode \<Rightarrow> string \<Rightarrow> bool" where
  "serves reader node uid \<longleftrightarrow>
     \<not> ns_External (gn_Spec node) \<and> uid \<noteq> [] \<and> gn_StatusObservedPodUID node = uid
     \<and> gn_StatusObservedGeneration node = gn_Generation node \<and> gn_StatusConnected node
     \<and> (\<exists>pod. pod_UID pod = uid \<and> podReady (Some pod)
          \<and> ((\<exists>ls w pods. fst (pr_ListPods reader (gn_Namespace node) ls w) = Inr pods \<and> pod \<in> set pods
                \<and> pod_NodeName pod = ns_KubernetesNodeName (gn_Spec node))
             \<or> (\<exists>w. fst (pr_GetPod reader \<lparr>nn_Namespace = gn_Namespace node, nn_Name = gn_Name node @ ''-0''\<rparr> w) = Inr pod)))"

lemma live_pod_serves:
  assumes "liveManagedGarageNodePodUID reader cluster node w = (Inr (Some u), w')"
  shows "serves reader node u"
proof -
  have g: "\<not> ns_External (gn_Spec node)" "gn_StatusObservedPodUID node \<noteq> []"
      "gn_StatusObservedGeneration node = gn_Generation node" "gn_StatusConnected node"
    using assms by (auto simp: liveManagedGarageNodePodUID_def split: if_splits)
  show ?thesis
  proof (cases "isNodeLocalPoolBacked node")
    case True
    let ?ls = "[(labelCluster, gc_Name cluster), (labelTier, tierStorage),
                (labelNodeLocalPool, ns_NodeLocalPoolName (gn_Spec node))]"
    obtain pods w1 where l: "pr_ListPods reader (gn_Namespace node) ?ls w = (Inr pods, w1)"
      and f: "map_option pod_UID (find (\<lambda>pod. pod_NodeName pod = ns_KubernetesNodeName (gn_Spec node)
                  \<and> pod_UID pod = gn_StatusObservedPodUID node \<and> \<not> pod_Deleting pod \<and> podReady (Some pod)) pods) = Some u"
      using assms g True by (auto simp: liveManagedGarageNodePodUID_def split: prod.splits sum.splits)
    then obtain pod where "pod \<in> set pods" "pod_NodeName pod = ns_KubernetesNodeName (gn_Spec node)"
        "pod_UID pod = gn_StatusObservedPodUID node" "podReady (Some pod)" "pod_UID pod = u"
      by (auto dest!: find_SomeD)
    moreover have "fst (pr_ListPods reader (gn_Namespace node) ?ls w) = Inr pods" using l by simp
    ultimately show ?thesis using g unfolding serves_def by metis
  next
    case False
    then obtain pod where "fst (pr_GetPod reader \<lparr>nn_Namespace = gn_Namespace node, nn_Name = gn_Name node @ ''-0''\<rparr> w) = Inr pod"
        "pod_UID pod = gn_StatusObservedPodUID node" "podReady (Some pod)" "pod_UID pod = u"
      using assms g
      by (auto simp: liveManagedGarageNodePodUID_def split: prod.splits sum.splits get_error.splits if_splits)
    then show ?thesis using g unfolding serves_def by metis
  qed
qed

definition peer_inv ::
    "(string \<Rightarrow> (string \<times> string) option) \<Rightarrow> 'w peer_reader \<Rightarrow> GarageCluster \<Rightarrow> string list \<Rightarrow> GarageNode list
     \<Rightarrow> peer_tables \<Rightarrow> bool" where
  "peer_inv parse_gv reader cluster required nodes t \<longleftrightarrow>
     (\<forall>i. gomap_get 0 (pt_Claims t) i = int (length (claiming parse_gv cluster nodes i)))
     \<and> (\<forall>i u. map_of (pt_Managed t) i = Some u \<longrightarrow>
          (\<exists>n \<in> set (claiming parse_gv cluster nodes i).
             serves reader n u \<and> (gn_StatusInLayout n \<or> i \<in> set required)))"

lemma distinct_object_claims: "distinct (object_claims node pinned)"
  by (auto simp: object_claims_def Let_def)

lemma claims_add_claim:
  "gomap_get 0 (pt_Claims (add_claim node live required t j)) i
     = gomap_get 0 (pt_Claims t) i + (if i = j then 1 else 0)"
  by (auto simp: add_claim_def Let_def gomap_get_def split: option.splits)

lemma managed_add_claim:
  "map_of (pt_Managed (add_claim node live required t j)) i = Some u \<Longrightarrow>
     map_of (pt_Managed t) i = Some u
     \<or> i = j \<and> live = Some u \<and> (gn_StatusInLayout node \<or> j \<in> set required)"
  by (auto simp: add_claim_def Let_def split: option.splits if_splits)

lemma claims_fold:
  "distinct js \<Longrightarrow> gomap_get 0 (pt_Claims (foldl (add_claim node live required) t js)) i
     = gomap_get 0 (pt_Claims t) i + (if i \<in> set js then 1 else 0)"
  by (induction js arbitrary: t) (auto simp: claims_add_claim)

lemma managed_fold:
  "map_of (pt_Managed (foldl (add_claim node live required) t js)) i = Some u \<Longrightarrow>
     map_of (pt_Managed t) i = Some u
     \<or> i \<in> set js \<and> live = Some u \<and> (gn_StatusInLayout node \<or> i \<in> set required)"
proof (induction js arbitrary: t)
  case (Cons j js)
  then show ?case using managed_add_claim [of node live required t j i u] by auto
qed simp

lemma scan_peers_inv:
  "scan_peers parse_gv reader cluster required nodes t w = (Inr t', w') \<Longrightarrow>
     peer_inv parse_gv reader cluster required seen t \<Longrightarrow>
     peer_inv parse_gv reader cluster required (seen @ nodes) t'"
proof (induction nodes arbitrary: seen t w)
  case (Cons node nodes)
  show ?case
  proof (cases "node_of_cluster cluster node")
    case False
    then have "claiming parse_gv cluster (seen @ [node]) = claiming parse_gv cluster seen"
      by (simp add: fun_eq_iff claiming_def)
    then have "peer_inv parse_gv reader cluster required (seen @ [node]) t"
      using Cons.prems(2) by (simp add: peer_inv_def)
    with False Cons show ?thesis by fastforce
  next
    case True
    then obtain pinned live w1 where pin: "TrustedNodeLocalPoolRecoveryNodeID parse_gv (Some node) = Inr pinned"
      and live: "liveManagedGarageNodePodUID reader cluster node w = (Inr live, w1)"
      using Cons.prems(1) by (auto simp: Let_def split: sum.splits prod.splits)
    let ?js = "object_claims node pinned"
    define t1 where "t1 = (if 1 < length ?js then t\<lparr>pt_Ambiguous := fold List.insert ?js (pt_Ambiguous t)\<rparr> else t)"
    have t1: "pt_Claims t1 = pt_Claims t" "pt_Managed t1 = pt_Managed t" by (auto simp: t1_def)
    let ?t2 = "foldl (add_claim node live required) t1 ?js"
    have rest: "scan_peers parse_gv reader cluster required nodes ?t2 w1 = (Inr t', w')"
      using Cons.prems(1) True pin live by (simp add: t1_def Let_def)
    have js: "set (claims_of parse_gv node) = set ?js" by (simp add: claims_of_def pin)
    have cl: "claiming parse_gv cluster (seen @ [node]) i
        = claiming parse_gv cluster seen i @ (if i \<in> set ?js then [node] else [])" for i
      using True js by (simp add: claiming_def)
    have "peer_inv parse_gv reader cluster required (seen @ [node]) ?t2"
      unfolding peer_inv_def
    proof (intro conjI allI impI)
      show "gomap_get 0 (pt_Claims ?t2) i = int (length (claiming parse_gv cluster (seen @ [node]) i))" for i
        using Cons.prems(2) by (simp add: claims_fold distinct_object_claims t1 cl peer_inv_def)
      fix i u assume "map_of (pt_Managed ?t2) i = Some u"
      from managed_fold [OF this] show "\<exists>n \<in> set (claiming parse_gv cluster (seen @ [node]) i).
           serves reader n u \<and> (gn_StatusInLayout n \<or> i \<in> set required)"
      proof
        assume "map_of (pt_Managed t1) i = Some u"
        then obtain n where "n \<in> set (claiming parse_gv cluster seen i)"
            "serves reader n u \<and> (gn_StatusInLayout n \<or> i \<in> set required)"
          using Cons.prems(2) unfolding t1 peer_inv_def by blast
        then show ?thesis by (auto simp: cl)
      next
        assume "i \<in> set ?js \<and> live = Some u \<and> (gn_StatusInLayout node \<or> i \<in> set required)"
        then show ?thesis using live_pod_serves [of reader cluster node w u w1] live by (auto simp: cl)
      qed
    qed
    from Cons.IH [OF rest this] show ?thesis by simp
  qed
qed simp

lemma drop_duplicates_managed:
  assumes "map_of (pt_Managed (drop_duplicates t)) i = Some u"
  shows "map_of (pt_Managed t) i = Some u \<and> gomap_get 0 (pt_Claims t) i \<le> 1"
proof -
  let ?f = "\<lambda>t (i, claims). if 1 < claims
              then t\<lparr>pt_Ambiguous := List.insert i (pt_Ambiguous t), pt_Managed := gomap_delete i (pt_Managed t)\<rparr>
              else (t :: peer_tables)"
  have "map_of (pt_Managed (foldl ?f t cs)) i = Some u \<Longrightarrow>
          map_of (pt_Managed t) i = Some u \<and> (\<forall>c. (i, c) \<in> set cs \<longrightarrow> c \<le> (1::int))" for cs
  proof (induction cs arbitrary: t)
    case (Cons jc cs)
    obtain j c where jc: "jc = (j, c)" by fastforce
    from Cons.IH [OF Cons.prems [unfolded foldl_Cons]]
    have ih: "map_of (pt_Managed (?f t jc)) i = Some u" "\<forall>c. (i, c) \<in> set cs \<longrightarrow> c \<le> 1" by blast+
    show ?case
    proof (cases "1 < c")
      case True
      then have "i \<noteq> j" "map_of (pt_Managed t) i = Some u" using ih(1) jc by (auto split: if_splits)
      then show ?thesis using ih(2) jc by simp
    next
      case False
      then show ?thesis using ih jc by simp
    qed
  qed simp
  from this [of "pt_Claims t"] assms show ?thesis
    by (auto simp: drop_duplicates_def gomap_get_def split: option.splits dest: map_of_SomeD)
qed

lemma classify_fold:
  assumes "foldl (classify_process t) (current, unverified) ids = (current', unverified')"
  shows "(\<forall>i u. map_of current' i = Some u \<longrightarrow> map_of current i = Some u \<or> map_of (pt_Managed t) i = Some u)
     \<and> (unverified' = [] \<longrightarrow> unverified = [] \<and> (\<forall>i. map_of current i \<noteq> None \<longrightarrow> map_of current' i \<noteq> None)
          \<and> (\<forall>i \<in> set ids. map_of current' i \<noteq> None))"
  using assms
proof (induction ids arbitrary: current unverified)
  case (Cons i ids)
  obtain c1 u1 where s: "classify_process t (current, unverified) i = (c1, u1)" by fastforce
  have 1: "map_of c1 j = Some u \<Longrightarrow> map_of current j = Some u \<or> map_of (pt_Managed t) j = Some u" for j u
    using s by (auto simp: classify_process_def split: if_splits option.splits)
  have 2: "u1 = [] \<Longrightarrow> unverified = [] \<and> (\<forall>j. map_of current j \<noteq> None \<longrightarrow> map_of c1 j \<noteq> None) \<and> map_of c1 i \<noteq> None"
    using s by (auto simp: classify_process_def split: if_splits option.splits)
  from Cons.IH [of c1 u1] Cons.prems s 1 2 show ?case by (auto, blast+)
qed simp

text \<open>
  C25: The peer assessment is exact about process identities.  Every Pod UID it reports belongs to an
  identifier that exactly one GarageNode of this cluster claims, whose observed incarnation is a
  running and ready Pod with that UID; without the empty-queue fallback every process of the layout
  and every required source is reported and there is no remote topology; and the fallback is only
  taken under the explicit AssumeConsistent policy.
\<close>

theorem peers_verified:
  assumes "assessStorageDrainPeers parse_gv (Some reader) (Some cluster) roleTags required w = (Inr a, w')"
  shows "(\<forall>i u. map_of (pa_ManagedPodUIDs a) i = Some u \<longrightarrow>
            (\<exists>nodes n. fst (pr_ListNodes reader (gc_Namespace cluster) w) = Inr nodes
               \<and> claiming parse_gv cluster nodes i = [n] \<and> serves reader n u
               \<and> (gn_StatusInLayout n \<or> i \<in> set (NormalizeNodeIDs required))))
     \<and> (\<not> pa_RequiresEmptyQueue a \<longrightarrow> cs_RemoteClusters (gc_Spec cluster) = []
          \<and> (\<forall>i \<in> set (process_ids roleTags (NormalizeNodeIDs required)). map_of (pa_ManagedPodUIDs a) i \<noteq> None))
     \<and> (pa_RequiresEmptyQueue a \<longrightarrow> effectiveStorageDrainUnverifiedPeersPolicy (Some cluster) = ''AssumeConsistent'')"
proof -
  let ?req = "NormalizeNodeIDs required"
  let ?t0 = "\<lparr>pt_Managed = [], pt_Ambiguous = [], pt_Claims = [], pt_External = []\<rparr>"
  obtain nodes w1 t where nodes: "pr_ListNodes reader (gc_Namespace cluster) w = (Inr nodes, w1)"
    and scan: "scan_peers parse_gv reader cluster ?req nodes ?t0 w1 = (Inr t, w')"
    using assms by (auto simp: assessStorageDrainPeers_def Let_def split: if_splits prod.splits sum.splits)
  obtain current unv where cls: "foldl (classify_process (drop_duplicates t)) ([], []) (process_ids roleTags ?req)
      = (current, unv)" by fastforce
  have a: "pa_ManagedPodUIDs a = current"
    "\<not> pa_RequiresEmptyQueue a \<Longrightarrow> cs_RemoteClusters (gc_Spec cluster) = [] \<and> unv = []"
    "pa_RequiresEmptyQueue a \<Longrightarrow> effectiveStorageDrainUnverifiedPeersPolicy (Some cluster) = ''AssumeConsistent''"
    using assms nodes scan cls
    by (auto simp: assessStorageDrainPeers_def Let_def StorageDrainUnverifiedPeersAssumeConsistent_def split: if_splits)
  have inv: "peer_inv parse_gv reader cluster ?req nodes t"
    using scan_peers_inv [OF scan, of "[]"] by (simp add: peer_inv_def claiming_def gomap_get_def)
  note cf = classify_fold [OF cls]
  have "\<exists>nodes n. fst (pr_ListNodes reader (gc_Namespace cluster) w) = Inr nodes
      \<and> claiming parse_gv cluster nodes i = [n] \<and> serves reader n u \<and> (gn_StatusInLayout n \<or> i \<in> set ?req)"
    if "map_of current i = Some u" for i u
  proof -
    from that cf have "map_of (pt_Managed (drop_duplicates t)) i = Some u" by auto
    from drop_duplicates_managed [OF this] have m: "map_of (pt_Managed t) i = Some u"
        "gomap_get 0 (pt_Claims t) i \<le> 1" by blast+
    obtain n where n: "n \<in> set (claiming parse_gv cluster nodes i)" "serves reader n u"
        "gn_StatusInLayout n \<or> i \<in> set ?req"
      using m(1) inv unfolding peer_inv_def by blast
    have "int (length (claiming parse_gv cluster nodes i)) \<le> 1" using m(2) inv by (simp add: peer_inv_def)
    with n(1) have "claiming parse_gv cluster nodes i = [n]"
      by (cases "claiming parse_gv cluster nodes i") auto
    with n nodes show ?thesis by auto
  qed
  with a cf show ?thesis by auto
qed


definition sample_node :: GarageNode where
  "sample_node = \<lparr>gn_Namespace = ''ns'', gn_Name = ''n0'', gn_UID = ''g0'', gn_Annotations = [],
     gn_OwnerReferences = [], gn_Deleting = False,
     gn_Spec = \<lparr>ns_ClusterRef = \<lparr>ref_Name = ''store'', ref_Namespace = [], ref_KubeConfigSecretRef = False\<rparr>,
       ns_NodeID = [], ns_Zone = ''z'', ns_Capacity = Some 1, ns_Gateway = False, ns_Tags = [],
       ns_External = False, ns_Backing = [], ns_KubernetesNodeName = [], ns_NodeLocalPoolName = [],
       ns_Network = False, ns_PublicEndpoint = False, ns_Logging = False, ns_Storage = None\<rparr>,
     gn_StatusNodeID = sample_id CHR ''a'', gn_Generation = 1, gn_Finalizers = [],
     gn_StatusObservedGeneration = 1, gn_StatusObservedPodUID = ''p0'', gn_StatusConnected = True,
     gn_StatusInLayout = True, gn_StatusParentDeletionRequestGeneration = 0, gn_StatusConditions = []\<rparr>"

definition sample_pod :: Pod where
  "sample_pod = \<lparr>pod_UID = ''p0'', pod_NodeName = ''k'', pod_Deleting = False, pod_Phase = ''Running'',
     pod_Conditions = [(''Ready'', ''True'')]\<rparr>"

definition sample_peer_reader :: "'w peer_reader" where
  "sample_peer_reader = \<lparr>pr_ListNodes = (\<lambda>ns w. (Inr [sample_node], w)), pr_ListPods = (\<lambda>ns ls w. (Inr [], w)),
     pr_GetPod = (\<lambda>k w. (Inr sample_pod, w)), pr_GetCluster = (\<lambda>k w. (Inr sample_cluster, w))\<rparr>"

lemma canonical_sample_id [simp]: "CanonicalGarageNodeID (sample_id CHR ''a'') = sample_id CHR ''a''"
  by code_simp

lemma canonical_empty [simp]: "CanonicalGarageNodeID [] = []"
  by code_simp

lemma sample_id_nonempty [simp]: "sample_id c \<noteq> []"
  by (simp add: sample_id_def)

lemma sample_assessment:
  "assessStorageDrainPeers (\<lambda>g. None) (Some sample_peer_reader) (Some sample_cluster) [(sample_id CHR ''a'', [])] [] w
     = (Inr \<lparr>pa_RequiresEmptyQueue = False, pa_ManagedPodUIDs = [(sample_id CHR ''a'', ''p0'')]\<rparr>, w)"
proof -
  have "object_claims sample_node [] = [sample_id CHR ''a'']"
    by (simp add: object_claims_def sample_node_def)
  moreover have "TrustedNodeLocalPoolRecoveryNodeID (\<lambda>g. None) (Some sample_node) = Inr []"
    by (simp add: TrustedNodeLocalPoolRecoveryNodeID_def sample_node_def annotation_def gomap_get_def
        CanonicalGarageNodeID_def ToLower_def TrimSpace_def trim_right_def)
  moreover have "liveManagedGarageNodePodUID sample_peer_reader sample_cluster sample_node w = (Inr (Some ''p0''), w)"
    by (simp add: liveManagedGarageNodePodUID_def sample_node_def sample_peer_reader_def sample_pod_def podReady_def
        isNodeLocalPoolBacked_def NodeBackingNodeLocalPool_def)
  ultimately show ?thesis
    by (simp add: assessStorageDrainPeers_def sample_peer_reader_def node_of_cluster_def sample_node_def
        sample_cluster_defs add_claim_def drop_duplicates_def process_ids_def classify_process_def
        gomap_get_def Let_def split: option.splits)
qed

theorem peers_verified_witness:
  "\<exists>n. claiming (\<lambda>g. None) sample_cluster [sample_node] (sample_id CHR ''a'') = [n]
     \<and> serves (sample_peer_reader :: unit peer_reader) n ''p0''"
proof -
  have "fst (pr_ListNodes sample_peer_reader ns ()) = Inr [sample_node]" for ns
    by (simp add: sample_peer_reader_def)
  with conjunct1 [OF peers_verified [OF sample_assessment [of "()"]], rule_format, of "sample_id CHR ''a''" "''p0''"]
  show ?thesis by auto
qed

end
