(* ===== verification/Workload.thy ===== *)
theory Workload
  imports DrainPeers
begin

text \<open>
  The storage StatefulSets a replication-factor migration edits
  (internal/controller/garagecluster_factor_migration.go, with mountedGarageConfigResource and its
  neighbours of garage_config_resource.go): listing the storage GarageNodes, scaling one StatefulSet,
  adding and removing the init container that deletes the on-disk layout, moving the template to a
  configuration revision, and the proof that a template is prepared.  The Kubernetes API and the
  renderer of garage.toml are functions over a world \<open>'w\<close>.
\<close>

subsection \<open>Workload objects\<close>

record SecurityContext =
  sc_RunAsUser :: "int option"
  sc_RunAsNonRoot :: "bool option"
  sc_AllowPrivilegeEscalation :: "bool option"
  sc_DropCapabilities :: "string list"
  sc_SeccompProfile :: "string option"

text \<open>\<open>co_Rest\<close> stands for the remaining fields of a container, empty where the operator sets none.\<close>

record Container =
  co_Name :: string
  co_Image :: string
  co_Command :: "string list"
  co_VolumeMounts :: "(string \<times> string) list"
  co_SecurityContext :: "SecurityContext option"
  co_ImagePullPolicy :: string
  co_TerminationMessagePath :: string
  co_TerminationMessagePolicy :: string
  co_Rest :: string

text \<open>The items and the mode of a configuration volume are part of its source.\<close>

datatype VolumeSource =
    ConfigMapVolume string "(string \<times> string) list" "int option"
  | SecretVolume string "(string \<times> string) list" "int option"
  | OtherVolume string

record PodTemplate =
  pt_Annotations :: "(string, string) gomap"
  pt_RunAsUser :: "int option"
  pt_Containers :: "Container list"
  pt_InitContainers :: "Container list"
  pt_Volumes :: "(string \<times> VolumeSource) list"

record StatefulSet =
  sts_Namespace :: string
  sts_Name :: string
  sts_OwnerReferences :: "OwnerReference list"
  sts_Replicas :: "int option"
  sts_Template :: PodTemplate

definition sts_key :: "StatefulSet \<Rightarrow> NamespacedName" where
  "sts_key s = \<lparr>nn_Namespace = sts_Namespace s, nn_Name = sts_Name s\<rparr>"

definition IsControlledBy :: "OwnerReference list \<Rightarrow> string \<Rightarrow> bool" where
  "IsControlledBy refs uid = (case find or_Controller refs of None \<Rightarrow> False | Some ref \<Rightarrow> or_UID ref = uid)"

record config_object =
  cfg_Body :: string
  cfg_OwnerReferences :: "OwnerReference list"
  cfg_Immutable :: bool

text \<open>
  What a migration calls: the client's reads and writes, the rendered configuration of a cluster
  (buildConfigContext and generateGarageConfig), its revision (garageConfigRevision), the published
  object of a revision (readGarageConfigResource), and whether it is kept in a Secret
  (garageConfigUsesSecret).
\<close>

record 'w workload_env =
  we_Kube :: "'w kube_api"
  we_UpdateCluster :: "GarageCluster \<Rightarrow> 'w \<Rightarrow> write_error option \<times> 'w"
  we_ListNodes :: "string \<Rightarrow> (string, string) gomap \<Rightarrow> 'w \<Rightarrow> (get_error + GarageNode list) \<times> 'w"
  we_UpdateNode :: "GarageNode \<Rightarrow> 'w \<Rightarrow> write_error option \<times> 'w"
  we_GetSet :: "NamespacedName \<Rightarrow> 'w \<Rightarrow> (get_error + StatefulSet) \<times> 'w"
  we_UpdateSet :: "StatefulSet \<Rightarrow> 'w \<Rightarrow> write_error option \<times> 'w"
  we_ListPods :: "string \<Rightarrow> (string, string) gomap \<Rightarrow> 'w \<Rightarrow> (get_error + Pod list) \<times> 'w"
  we_Render :: "GarageCluster \<Rightarrow> 'w \<Rightarrow> (string + string) \<times> 'w"
  we_Revision :: "GarageCluster \<Rightarrow> string \<Rightarrow> 'w \<Rightarrow> (string + string) \<times> 'w"
  we_ReadConfig :: "NamespacedName \<Rightarrow> bool \<Rightarrow> 'w \<Rightarrow> (get_error + config_object) \<times> 'w"
  we_UsesSecret :: "GarageCluster \<Rightarrow> bool"

datatype workload_error =
    NodesUnlisted get_error
  | PodsUnlisted get_error
  | NodeNil
  | SetUnreadable get_error
  | SetForeign string
  | ReplicasMissing
  | ReplicasUnsafe int
  | NotQuiesced string
  | SetNotWritten write_error
  | ConfigNotRendered string
  | ConfigRevisionUnknown string
  | ConfigUnreadable get_error
  | ConfigNotExact string
  | ConfigVolumeMissing
  | ConfigVolumeInvalid
  | ConfigNotMounted string
  | ConfigAnnotationStale
  | PurgeContainerAltered
  | PurgeContainerCount nat
  | NodeNotSuspended string write_error
  | NodeNotResumed string write_error
  | AnnotationsNotRemoved write_error
  | NilMigration

subsection \<open>Storage nodes and Pods\<close>

definition labelAppManagedBy :: string where "labelAppManagedBy = ''app.kubernetes.io/managed-by''"
definition managedByOperatorValue :: string where "managedByOperatorValue = ''operator''"
definition tierGateway :: string where "tierGateway = ''gateway''"

type_synonym node_map = "(string, GarageNode) gomap"

definition nodes_by_name :: "GarageNode list \<Rightarrow> node_map" where
  "nodes_by_name items = fold (\<lambda>n out. AList.update (gn_Name n) n out) items []"

definition storage_labels :: "GarageCluster \<Rightarrow> (string, string) gomap" where
  "storage_labels cluster = [(labelCluster, gc_Name cluster), (labelTier, tierStorage), (labelAppManagedBy, managedByOperatorValue)]"

definition listAutoModeStorageNodes ::
    "'w workload_env \<Rightarrow> GarageCluster \<Rightarrow> 'w \<Rightarrow> (workload_error + node_map) \<times> 'w" where
  "listAutoModeStorageNodes env cluster w =
     (case we_ListNodes env (gc_Namespace cluster) (storage_labels cluster) w of
        (Inl e, w1) \<Rightarrow> (Inl (NodesUnlisted e), w1)
      | (Inr items, w1) \<Rightarrow>
          (Inr (nodes_by_name (filter (\<lambda>n. ns_Backing (gn_Spec n) \<noteq> NodeBackingNodeLocalPool) items)), w1))"

definition listAutoModeGatewayNodes ::
    "'w workload_env \<Rightarrow> GarageCluster \<Rightarrow> 'w \<Rightarrow> (workload_error + node_map) \<times> 'w" where
  "listAutoModeGatewayNodes env cluster w =
     (case we_ListNodes env (gc_Namespace cluster) [(labelCluster, gc_Name cluster), (labelTier, tierGateway),
             (labelAppManagedBy, managedByOperatorValue)] w of
        (Inl e, w1) \<Rightarrow> (Inl (NodesUnlisted e), w1)
      | (Inr items, w1) \<Rightarrow> (Inr (nodes_by_name items), w1))"

definition sortedFactorMigrationNodeNames :: "node_map \<Rightarrow> string list" where
  "sortedFactorMigrationNodeNames nodes = sort (map fst nodes)"

definition listStoragePods :: "'w workload_env \<Rightarrow> GarageCluster \<Rightarrow> 'w \<Rightarrow> (workload_error + Pod list) \<times> 'w" where
  "listStoragePods env cluster w =
     (case we_ListPods env (gc_Namespace cluster) [(labelCluster, gc_Name cluster), (labelTier, tierStorage)] w of
        (Inl e, w1) \<Rightarrow> (Inl (PodsUnlisted e), w1)
      | (Inr pods, w1) \<Rightarrow> (Inr pods, w1))"

definition countStoragePods :: "'w workload_env \<Rightarrow> GarageCluster \<Rightarrow> 'w \<Rightarrow> (workload_error + nat) \<times> 'w" where
  "countStoragePods env cluster w =
     (case listStoragePods env cluster w of (Inl e, w1) \<Rightarrow> (Inl e, w1) | (Inr pods, w1) \<Rightarrow> (Inr (length pods), w1))"

text \<open>Every condition that says Ready is counted.\<close>

definition countReadyStoragePods :: "'w workload_env \<Rightarrow> GarageCluster \<Rightarrow> 'w \<Rightarrow> (workload_error + nat) \<times> 'w" where
  "countReadyStoragePods env cluster w =
     (case listStoragePods env cluster w of
        (Inl e, w1) \<Rightarrow> (Inl e, w1)
      | (Inr pods, w1) \<Rightarrow>
          (Inr (sum_list (map (\<lambda>pod. length (filter (\<lambda>c. c = (''Ready'', ''True'')) (pod_Conditions pod))) pods)), w1))"

definition nodeHasConfigOverrides :: "GarageNode \<Rightarrow> bool" where
  "nodeHasConfigOverrides node =
     (if ns_Gateway (gn_Spec node) then True
      else if ns_Network (gn_Spec node) \<or> ns_PublicEndpoint (gn_Spec node) then True
      else if ns_Logging (gn_Spec node) then True
      else (case ns_Storage (gn_Spec node) of
              None \<Rightarrow> False
            | Some s \<Rightarrow>
                if nst_MetadataFsync s \<noteq> None \<or> nst_DataFsync s \<noteq> None then True
                else if nst_MetadataSnapshotsDir s \<noteq> [] \<or> nst_MetadataAutoSnapshotInterval s \<noteq> [] then True
                else 0 < length (nst_DataPaths s)))"

subsection \<open>The purge init container\<close>

definition fmPurgeInitContainerName :: string where "fmPurgeInitContainerName = ''purge-cluster-layout''"
definition metadataPath :: string where "metadataPath = ''/data/metadata''"
definition metadataVolName :: string where "metadataVolName = ''metadata''"
definition configVolumeName :: string where "configVolumeName = ''config''"
definition configFileName :: string where "configFileName = ''garage.toml''"
definition annotationConfigHash :: string where "annotationConfigHash = ''garage.rajsingh.info/config-hash''"

definition container_user :: "Container \<Rightarrow> int option" where
  "container_user c = (case co_SecurityContext c of None \<Rightarrow> None | Some sc \<Rightarrow> sc_RunAsUser sc)"

definition purgeInitRunAsUser :: "StatefulSet \<Rightarrow> int option" where
  "purgeInitRunAsUser sts =
     (case pt_RunAsUser (sts_Template sts) of
        Some uid \<Rightarrow> Some uid
      | None \<Rightarrow>
          (case find (\<lambda>c. container_user c \<noteq> None) (pt_Containers (sts_Template sts)) of
             None \<Rightarrow> None | Some c \<Rightarrow> container_user c))"

definition purgeInitSecurityContext :: "StatefulSet \<Rightarrow> SecurityContext" where
  "purgeInitSecurityContext sts =
     \<lparr>sc_RunAsUser = purgeInitRunAsUser sts,
      sc_RunAsNonRoot = map_option (\<lambda>uid. uid \<noteq> 0) (purgeInitRunAsUser sts),
      sc_AllowPrivilegeEscalation = Some False, sc_DropCapabilities = [''ALL''],
      sc_SeccompProfile = Some ''RuntimeDefault''\<rparr>"

text \<open>\<open>quote\<close> is the verb \<open>%q\<close> of package fmt.\<close>

definition newline :: string where "newline = [CHR 0x0A]"

definition purge_script :: "(string \<Rightarrow> string) \<Rightarrow> string \<Rightarrow> string" where
  "purge_script quote purgeID =
     (let marker = metadataPath @ ''/.purged-'' @ purgeID in
      ''set -e'' @ newline @ ''if [ ! -f '' @ quote marker @ '' ]; then'' @ newline
      @ ''  rm -f '' @ metadataPath @ ''/cluster_layout'' @ newline
      @ ''  touch '' @ quote marker @ newline @ ''fi'')"

definition factorMigrationPurgeInitContainer :: "(string \<Rightarrow> string) \<Rightarrow> StatefulSet \<Rightarrow> string \<Rightarrow> Container" where
  "factorMigrationPurgeInitContainer quote sts purgeID =
     \<lparr>co_Name = fmPurgeInitContainerName, co_Image = ''busybox:1.37'',
      co_Command = [''/bin/sh'', ''-c'', purge_script quote purgeID],
      co_VolumeMounts = [(metadataVolName, metadataPath)],
      co_SecurityContext = Some (purgeInitSecurityContext sts),
      co_ImagePullPolicy = ''IfNotPresent'', co_TerminationMessagePath = ''/dev/termination-log'',
      co_TerminationMessagePolicy = ''File'', co_Rest = []\<rparr>"

subsection \<open>Operations on one StatefulSet\<close>

definition node_set_key :: "GarageCluster \<Rightarrow> GarageNode \<Rightarrow> NamespacedName" where
  "node_set_key cluster node = \<lparr>nn_Namespace = gc_Namespace cluster, nn_Name = gn_Name node\<rparr>"

definition factorMigrationStatefulSetRunning ::
    "'w workload_env \<Rightarrow> GarageCluster \<Rightarrow> GarageNode option \<Rightarrow> 'w \<Rightarrow> (workload_error + bool) \<times> 'w" where
  "factorMigrationStatefulSetRunning env cluster nodePtr w =
     (case nodePtr of
        None \<Rightarrow> (Inl NodeNil, w)
      | Some node \<Rightarrow>
     (case we_GetSet env (node_set_key cluster node) w of
        (Inl e, w1) \<Rightarrow> (Inl (SetUnreadable e), w1)
      | (Inr sts, w1) \<Rightarrow>
          if \<not> IsControlledBy (sts_OwnerReferences sts) (gn_UID node) then (Inl (SetForeign (gn_UID node)), w1)
          else (case sts_Replicas sts of
                  None \<Rightarrow> (Inl ReplicasMissing, w1)
                | Some n \<Rightarrow> if n = 0 then (Inr False, w1) else if n = 1 then (Inr True, w1)
                            else (Inl (ReplicasUnsafe n), w1))))"

definition scaleStorageSTSForNode ::
    "'w workload_env \<Rightarrow> GarageCluster \<Rightarrow> int \<Rightarrow> GarageNode option \<Rightarrow> 'w \<Rightarrow> workload_error option \<times> 'w" where
  "scaleStorageSTSForNode env cluster replicas nodePtr w =
     (case nodePtr of
        None \<Rightarrow> (Some NodeNil, w)
      | Some node \<Rightarrow>
     (case we_GetSet env (node_set_key cluster node) w of
        (Inl NotFound, w1) \<Rightarrow> (None, w1)
      | (Inl e, w1) \<Rightarrow> (Some (SetUnreadable e), w1)
      | (Inr sts, w1) \<Rightarrow>
          if \<not> IsControlledBy (sts_OwnerReferences sts) (gn_UID node) then (Some (SetForeign (gn_UID node)), w1)
          else if sts_Replicas sts = Some replicas then (None, w1)
          else (case we_UpdateSet env (sts\<lparr>sts_Replicas := Some replicas\<rparr>) w1 of
                  (e, w2) \<Rightarrow> (map_option SetNotWritten e, w2))))"

definition without_purge :: "Container list \<Rightarrow> Container list" where
  "without_purge cs = filter (\<lambda>c. co_Name c \<noteq> fmPurgeInitContainerName) cs"

definition patchSTSPurgeInitContainerForNode ::
    "(string \<Rightarrow> string) \<Rightarrow> 'w workload_env \<Rightarrow> GarageCluster \<Rightarrow> string \<Rightarrow> bool \<Rightarrow> GarageNode option \<Rightarrow> 'w
     \<Rightarrow> workload_error option \<times> 'w" where
  "patchSTSPurgeInitContainerForNode quote env cluster purgeID add nodePtr w =
     (case nodePtr of
        None \<Rightarrow> (Some NodeNil, w)
      | Some node \<Rightarrow>
     (case we_GetSet env (node_set_key cluster node) w of
        (Inl NotFound, w1) \<Rightarrow> (None, w1)
      | (Inl e, w1) \<Rightarrow> (Some (SetUnreadable e), w1)
      | (Inr sts, w1) \<Rightarrow>
          if \<not> IsControlledBy (sts_OwnerReferences sts) (gn_UID node) then (Some (SetForeign (gn_UID node)), w1)
          else if add \<and> sts_Replicas sts \<noteq> Some 0 then (Some (NotQuiesced (gn_Name node)), w1)
          else
            let current = pt_InitContainers (sts_Template sts);
                filtered = without_purge current;
                desired = (if add then factorMigrationPurgeInitContainer quote sts purgeID # filtered else filtered) in
            if current = desired then (None, w1)
            else (case we_UpdateSet env (sts\<lparr>sts_Template := (sts_Template sts)\<lparr>pt_InitContainers := desired\<rparr>\<rparr>) w1 of
                    (e, w2) \<Rightarrow> (map_option SetNotWritten e, w2))))"

subsection \<open>Configuration revisions\<close>

definition storageConfigRevisionLength :: nat where "storageConfigRevisionLength = 12"

text \<open>\<open>hash\<close> is garageConfigHash, the hexadecimal SHA-256 of a string.\<close>

definition trim_right_of :: "char set \<Rightarrow> string \<Rightarrow> string" where
  "trim_right_of cutset s = rev (dropWhile (\<lambda>c. c \<in> cutset) (rev s))"

definition garageConfigRevisionName :: "(string \<Rightarrow> string) \<Rightarrow> string \<Rightarrow> string \<Rightarrow> string" where
  "garageConfigRevisionName hash baseName revision =
     (let short = take storageConfigRevisionLength revision;
          rev' = (if short = [] then take storageConfigRevisionLength (hash baseName) else short);
          maxBaseLength = 253 - length rev' - 1;
          base = (if maxBaseLength < length baseName
                  then (let baseDigest = take 8 (hash baseName);
                            maxPrefixLength = maxBaseLength - length baseDigest - 1 in
                        trim_right_of {CHR ''-'', CHR ''.''} (take maxPrefixLength baseName) @ ''-'' @ baseDigest)
                  else baseName) in
      base @ ''-'' @ rev')"

definition garageConfigVolumeSource :: "bool \<Rightarrow> string \<Rightarrow> VolumeSource" where
  "garageConfigVolumeSource usesSecret name =
     (if usesSecret then SecretVolume name [(configFileName, configFileName)] (Some 288)
      else ConfigMapVolume name [(configFileName, configFileName)] None)"

definition mountedGarageConfigResource :: "PodTemplate \<Rightarrow> workload_error + string \<times> bool" where
  "mountedGarageConfigResource spec =
     (case find (\<lambda>v. fst v = configVolumeName) (pt_Volumes spec) of
        None \<Rightarrow> Inl ConfigVolumeMissing
      | Some (n, ConfigMapVolume name items mode) \<Rightarrow> if name \<noteq> [] then Inr (name, False) else Inl ConfigVolumeInvalid
      | Some (n, SecretVolume name items mode) \<Rightarrow> if name \<noteq> [] then Inr (name, True) else Inl ConfigVolumeInvalid
      | Some (n, OtherVolume s) \<Rightarrow> Inl ConfigVolumeInvalid)"

text \<open>
  Both users of a revision first render the configuration, derive its name, and require that the
  published object is exactly this text and controlled by this cluster.
\<close>

definition exact_config ::
    "(string \<Rightarrow> string) \<Rightarrow> 'w workload_env \<Rightarrow> GarageCluster \<Rightarrow> bool \<Rightarrow> 'w
     \<Rightarrow> (workload_error + string \<times> string) \<times> 'w" where
  "exact_config hash env cluster immutable w =
     (case we_Render env cluster w of
        (Inl e, w1) \<Rightarrow> (Inl (ConfigNotRendered e), w1)
      | (Inr body, w1) \<Rightarrow>
     (case we_Revision env cluster body w1 of
        (Inl e, w2) \<Rightarrow> (Inl (ConfigRevisionUnknown e), w2)
      | (Inr revision, w2) \<Rightarrow>
          let configName = garageConfigRevisionName hash (gc_Name cluster @ ''-config'') revision in
     (case we_ReadConfig env \<lparr>nn_Namespace = gc_Namespace cluster, nn_Name = configName\<rparr> (we_UsesSecret env cluster) w2 of
        (Inl e, w3) \<Rightarrow> (Inl (ConfigUnreadable e), w3)
      | (Inr object, w3) \<Rightarrow>
          if cfg_Body object \<noteq> body \<or> \<not> IsControlledBy (cfg_OwnerReferences object) (gc_UID cluster)
             \<or> (immutable \<and> \<not> cfg_Immutable object)
          then (Inl (ConfigNotExact configName), w3)
          else (Inr (configName, body), w3))))"

definition config_annotation ::
    "'w workload_env \<Rightarrow> GarageCluster \<Rightarrow> string \<Rightarrow> 'w \<Rightarrow> (workload_error + string) \<times> 'w" where
  "config_annotation env cluster body w =
     (case we_Revision env cluster body w of
        (Inl e, w1) \<Rightarrow> (Inl (ConfigRevisionUnknown e), w1)
      | (Inr revision, w1) \<Rightarrow> (Inr (take 16 revision), w1))"

text \<open>The first volume named config is replaced; nothing says whether there is one.\<close>

fun replace_volume :: "string \<Rightarrow> VolumeSource \<Rightarrow> (string \<times> VolumeSource) list \<Rightarrow> ((string \<times> VolumeSource) list \<times> VolumeSource) option" where
  "replace_volume name new [] = None"
| "replace_volume name new ((n, v) # vs) =
     (if n = name then Some ((n, new) # vs, v)
      else map_option (\<lambda>(vs', old). ((n, v) # vs', old)) (replace_volume name new vs))"

definition patchSTSConfigRevisionForFactorMigration ::
    "(string \<Rightarrow> string) \<Rightarrow> 'w workload_env \<Rightarrow> GarageCluster \<Rightarrow> GarageNode option \<Rightarrow> 'w
     \<Rightarrow> workload_error option \<times> 'w" where
  "patchSTSConfigRevisionForFactorMigration hash env cluster nodePtr w =
     (case nodePtr of
        None \<Rightarrow> (Some NodeNil, w)
      | Some node \<Rightarrow>
     (case exact_config hash env cluster False w of
        (Inl e, w1) \<Rightarrow> (Some e, w1)
      | (Inr (configName, body), w1) \<Rightarrow>
     (case we_GetSet env (node_set_key cluster node) w1 of
        (Inl e, w2) \<Rightarrow> (Some (SetUnreadable e), w2)
      | (Inr sts, w2) \<Rightarrow>
          if sts_Replicas sts \<noteq> Some 0 then (Some (NotQuiesced (gn_Name node)), w2)
          else if \<not> IsControlledBy (sts_OwnerReferences sts) (gn_UID node) then (Some (SetForeign (gn_UID node)), w2)
          else
     (case config_annotation env cluster body w2 of
        (Inl e, w3) \<Rightarrow> (Some e, w3)
      | (Inr revision, w3) \<Rightarrow>
          let desired = garageConfigVolumeSource (we_UsesSecret env cluster) configName;
              template = sts_Template sts in
     (case replace_volume configVolumeName desired (pt_Volumes template) of
        None \<Rightarrow> (Some ConfigVolumeMissing, w3)
      | Some (volumes, old) \<Rightarrow>
          if annotation (pt_Annotations template) annotationConfigHash = revision \<and> old = desired then (None, w3)
          else (case we_UpdateSet env (sts\<lparr>sts_Template := template\<lparr>pt_Volumes := volumes,
                       pt_Annotations := AList.update annotationConfigHash revision (pt_Annotations template)\<rparr>\<rparr>) w3 of
                  (e, w4) \<Rightarrow> (map_option SetNotWritten e, w4)))))))"

text \<open>What is checked on the StatefulSet itself, given the exact configuration.\<close>

definition purge_containers :: "StatefulSet \<Rightarrow> Container list" where
  "purge_containers sts =
     filter (\<lambda>c. co_Name c = fmPurgeInitContainerName) (pt_InitContainers (sts_Template sts))"

definition purge_container_error :: "(string \<Rightarrow> string) \<Rightarrow> string \<Rightarrow> StatefulSet \<Rightarrow> workload_error option" where
  "purge_container_error quote purgeID sts =
     (if list_ex (\<lambda>c. c \<noteq> factorMigrationPurgeInitContainer quote sts purgeID) (purge_containers sts)
      then Some PurgeContainerAltered
      else fail_if (length (purge_containers sts) \<noteq> 1) (PurgeContainerCount (length (purge_containers sts))))"

definition verifyFactorMigrationPurgePreparation ::
    "(string \<Rightarrow> string) \<Rightarrow> (string \<Rightarrow> string) \<Rightarrow> 'w workload_env \<Rightarrow> GarageCluster \<Rightarrow> string \<Rightarrow> bool
     \<Rightarrow> GarageNode option \<Rightarrow> 'w \<Rightarrow> workload_error option \<times> 'w" where
  "verifyFactorMigrationPurgePreparation hash quote env cluster purgeID requireQuiesced nodePtr w =
     (case nodePtr of
        None \<Rightarrow> (Some NodeNil, w)
      | Some node \<Rightarrow>
     (case exact_config hash env cluster True w of
        (Inl e, w1) \<Rightarrow> (Some e, w1)
      | (Inr (configName, body), w1) \<Rightarrow>
     (case we_GetSet env (node_set_key cluster node) w1 of
        (Inl e, w2) \<Rightarrow> (Some (SetUnreadable e), w2)
      | (Inr sts, w2) \<Rightarrow>
          if \<not> IsControlledBy (sts_OwnerReferences sts) (gn_UID node) then (Some (SetForeign (gn_UID node)), w2)
          else
     (case sts_Replicas sts of
        None \<Rightarrow> (Some ReplicasMissing, w2)
      | Some replicas \<Rightarrow>
          if replicas < 0 \<or> 1 < replicas \<or> (requireQuiesced \<and> replicas \<noteq> 0) then (Some (ReplicasUnsafe replicas), w2)
          else
     (case mountedGarageConfigResource (sts_Template sts) of
        Inl e \<Rightarrow> (Some e, w2)
      | Inr (mountedName, mountedSecret) \<Rightarrow>
          if mountedName \<noteq> configName \<or> mountedSecret \<noteq> we_UsesSecret env cluster then (Some (ConfigNotMounted configName), w2)
          else
     (case config_annotation env cluster body w2 of
        (Inl e, w3) \<Rightarrow> (Some e, w3)
      | (Inr revision, w3) \<Rightarrow>
          if annotation (pt_Annotations (sts_Template sts)) annotationConfigHash \<noteq> revision
          then (Some ConfigAnnotationStale, w3)
          else (purge_container_error quote purgeID sts, w3)))))))"

subsection \<open>All storage nodes\<close>

text \<open>A loop over the members that stops at the first error.\<close>

fun each_member :: "('a \<Rightarrow> 'w \<Rightarrow> workload_error option \<times> 'w) \<Rightarrow> 'a list \<Rightarrow> 'w \<Rightarrow> workload_error option \<times> 'w" where
  "each_member f [] w = (None, w)"
| "each_member f (x # xs) w =
     (case f x w of (Some e, w1) \<Rightarrow> (Some e, w1) | (None, w1) \<Rightarrow> each_member f xs w1)"

fun any_running ::
    "'w workload_env \<Rightarrow> GarageCluster \<Rightarrow> GarageNode option list \<Rightarrow> bool \<Rightarrow> 'w \<Rightarrow> (workload_error + bool) \<times> 'w" where
  "any_running env cluster [] acc w = (Inr acc, w)"
| "any_running env cluster (n # ns) acc w =
     (case factorMigrationStatefulSetRunning env cluster n w of
        (Inl e, w1) \<Rightarrow> (Inl e, w1)
      | (Inr running, w1) \<Rightarrow> any_running env cluster ns (acc \<or> running) w1)"

definition AnnotationOperatorSuspended :: string where
  "AnnotationOperatorSuspended = ''garage.rajsingh.info/operator-suspended''"

definition suspend_node :: "'w workload_env \<Rightarrow> string \<Rightarrow> string \<times> GarageNode \<Rightarrow> 'w \<Rightarrow> workload_error option \<times> 'w" where
  "suspend_node env purgeID entry w =
     (case entry of (name, n) \<Rightarrow>
        if annotation (gn_Annotations n) AnnotationOperatorSuspended \<noteq> purgeID
        then (case we_UpdateNode env
                     (n\<lparr>gn_Annotations := AList.update AnnotationOperatorSuspended purgeID (gn_Annotations n)\<rparr>) w of
                (Some e, w1) \<Rightarrow> (Some (NodeNotSuspended name e), w1)
              | (None, w1) \<Rightarrow> (None, w1))
        else (None, w))"

definition resume_node :: "'w workload_env \<Rightarrow> string \<times> GarageNode \<Rightarrow> 'w \<Rightarrow> workload_error option \<times> 'w" where
  "resume_node env entry w =
     (case entry of (name, n) \<Rightarrow>
        if \<not> gomap_has (gn_Annotations n) AnnotationOperatorSuspended then (None, w)
        else (case we_UpdateNode env (n\<lparr>gn_Annotations := gomap_delete AnnotationOperatorSuspended (gn_Annotations n)\<rparr>) w of
                (Some e, w1) \<Rightarrow> (Some (NodeNotResumed name e), w1)
              | (None, w1) \<Rightarrow> (None, w1)))"

definition clearStorageSuspension :: "'w workload_env \<Rightarrow> GarageCluster \<Rightarrow> 'w \<Rightarrow> workload_error option \<times> 'w" where
  "clearStorageSuspension env cluster w =
     (case listAutoModeStorageNodes env cluster w of
        (Inl e, w1) \<Rightarrow> (Some e, w1)
      | (Inr nodes, w1) \<Rightarrow> each_member (resume_node env) nodes w1)"

text \<open>The members in name order, as pointers into the map.\<close>

definition members :: "node_map \<Rightarrow> GarageNode option list" where
  "members nodes = map (map_of nodes) (sortedFactorMigrationNodeNames nodes)"

definition restore_member ::
    "(string \<Rightarrow> string) \<Rightarrow> 'w workload_env \<Rightarrow> GarageCluster \<Rightarrow> GarageNode option \<Rightarrow> 'w \<Rightarrow> workload_error option \<times> 'w" where
  "restore_member quote env cluster node w =
     (case patchSTSPurgeInitContainerForNode quote env cluster [] False node w of
        (Some e, w1) \<Rightarrow> (Some e, w1)
      | (None, w1) \<Rightarrow> scaleStorageSTSForNode env cluster 1 node w1)"

definition teardownFactorMigration ::
    "(string \<Rightarrow> string) \<Rightarrow> 'w workload_env \<Rightarrow> GarageCluster \<Rightarrow> 'w \<Rightarrow> workload_error option \<times> 'w" where
  "teardownFactorMigration quote env cluster w =
     (case listAutoModeStorageNodes env cluster w of
        (Inl e, w1) \<Rightarrow> (Some e, w1)
      | (Inr nodes, w1) \<Rightarrow>
     (case each_member (restore_member quote env cluster) (members nodes) w1 of
        (Some e, w2) \<Rightarrow> (Some e, w2)
      | (None, w2) \<Rightarrow> clearStorageSuspension env cluster w2))"

subsection \<open>An exclusive store\<close>

text \<open>
  What a migration relies on: the API server keeps one StatefulSet per key (\<open>sets\<close>) and one GarageNode
  per name (\<open>nds\<close>); a successful read returns what is stored, a successful write stores what was sent,
  a failed write may or may not have been stored, a listing returns exactly the stored nodes its
  selector \<open>sel\<close> accepts, and while a migration runs nobody else writes these objects.
\<close>

definition sets_law ::
    "'w workload_env \<Rightarrow> ('w \<Rightarrow> NamespacedName \<Rightarrow> StatefulSet option) \<Rightarrow> ('w \<Rightarrow> string \<Rightarrow> GarageNode option) \<Rightarrow> bool" where
  "sets_law env sets nds \<longleftrightarrow>
     (\<forall>k w r w'. we_GetSet env k w = (r, w') \<longrightarrow> sets w' = sets w \<and> nds w' = nds w
        \<and> (\<forall>s. r = Inr s \<longrightarrow> sets w k = Some s \<and> sts_key s = k) \<and> (r = Inl NotFound \<longrightarrow> sets w k = None))
     \<and> (\<forall>s w r w'. we_UpdateSet env s w = (r, w') \<longrightarrow> nds w' = nds w
          \<and> (r = None \<longrightarrow> sets w' = (sets w)(sts_key s \<mapsto> s))
          \<and> (sets w' = sets w \<or> sets w' = (sets w)(sts_key s \<mapsto> s)))"

definition nodes_law ::
    "'w workload_env \<Rightarrow> ('w \<Rightarrow> NamespacedName \<Rightarrow> StatefulSet option) \<Rightarrow> ('w \<Rightarrow> string \<Rightarrow> GarageNode option)
     \<Rightarrow> (string \<Rightarrow> (string, string) gomap \<Rightarrow> GarageNode \<Rightarrow> bool) \<Rightarrow> bool" where
  "nodes_law env sets nds sel \<longleftrightarrow>
     (\<forall>w name n. nds w name = Some n \<longrightarrow> gn_Name n = name)
     \<and> (\<forall>ns ls w r w'. we_ListNodes env ns ls w = (r, w') \<longrightarrow> sets w' = sets w \<and> nds w' = nds w
          \<and> (\<forall>items. r = Inr items \<longrightarrow> set items = {n. nds w (gn_Name n) = Some n \<and> sel ns ls n}))
     \<and> (\<forall>n w r w'. we_UpdateNode env n w = (r, w') \<longrightarrow> sets w' = sets w
          \<and> (r = None \<longrightarrow> nds w' = (nds w)(gn_Name n \<mapsto> n))
          \<and> (nds w' = nds w \<or> nds w' = (nds w)(gn_Name n \<mapsto> n)))"

text \<open>The calls that read or write other objects.\<close>

definition other_calls_law ::
    "'w workload_env \<Rightarrow> ('w \<Rightarrow> NamespacedName \<Rightarrow> StatefulSet option) \<Rightarrow> ('w \<Rightarrow> string \<Rightarrow> GarageNode option) \<Rightarrow> bool" where
  "other_calls_law env sets nds \<longleftrightarrow>
     (\<forall>w. \<forall>w' \<in> {snd (we_UpdateCluster env c w) | c. True} \<union> {snd (we_ListPods env ns ls w) | ns ls. True}
        \<union> {snd (we_Render env c w) | c. True} \<union> {snd (we_Revision env c b w) | c b. True}
        \<union> {snd (we_ReadConfig env k b w) | k b. True} \<union> {snd (ka_UpdateStatus (we_Kube env) c w) | c. True}
        \<union> {snd (ka_GetCluster (we_Kube env) k w) | k. True}. sets w' = sets w \<and> nds w' = nds w)"

definition exclusive_store where
  "exclusive_store env sets nds sel \<longleftrightarrow> sets_law env sets nds \<and> nodes_law env sets nds sel \<and> other_calls_law env sets nds"

lemma store_get:
  assumes "exclusive_store env sets nds sel" "we_GetSet env k w = (r, w')"
  shows "sets w' = sets w" "nds w' = nds w" "r = Inr s \<Longrightarrow> sets w k = Some s \<and> sts_key s = k"
    "r = Inl NotFound \<Longrightarrow> sets w k = None"
  using assms unfolding exclusive_store_def sets_law_def by blast+

lemma store_update:
  assumes "exclusive_store env sets nds sel" "we_UpdateSet env s w = (r, w')"
  shows "nds w' = nds w" "r = None \<Longrightarrow> sets w' = (sets w)(sts_key s \<mapsto> s)"
    "sets w' = sets w \<or> sets w' = (sets w)(sts_key s \<mapsto> s)"
  using assms unfolding exclusive_store_def sets_law_def by blast+

lemma store_other:
  assumes "exclusive_store env sets nds sel"
  shows "we_UpdateCluster env c w = (r1, w') \<Longrightarrow> sets w' = sets w \<and> nds w' = nds w"
    "we_ListPods env ns ls w = (r2, w') \<Longrightarrow> sets w' = sets w \<and> nds w' = nds w"
    "we_Render env c w = (r3, w') \<Longrightarrow> sets w' = sets w \<and> nds w' = nds w"
    "we_Revision env c b w = (r4, w') \<Longrightarrow> sets w' = sets w \<and> nds w' = nds w"
    "we_ReadConfig env k sec w = (r5, w') \<Longrightarrow> sets w' = sets w \<and> nds w' = nds w"
    "ka_UpdateStatus (we_Kube env) c w = (r6, w') \<Longrightarrow> sets w' = sets w \<and> nds w' = nds w"
    "ka_GetCluster (we_Kube env) k w = (r7, w') \<Longrightarrow> sets w' = sets w \<and> nds w' = nds w"
proof -
  have o: "\<forall>w' \<in> {snd (we_UpdateCluster env c w) | c. True} \<union> {snd (we_ListPods env ns ls w) | ns ls. True}
        \<union> {snd (we_Render env c w) | c. True} \<union> {snd (we_Revision env c b w) | c b. True}
        \<union> {snd (we_ReadConfig env k b w) | k b. True} \<union> {snd (ka_UpdateStatus (we_Kube env) c w) | c. True}
        \<union> {snd (ka_GetCluster (we_Kube env) k w) | k. True}. sets w' = sets w \<and> nds w' = nds w" for w
    using assms by (simp add: exclusive_store_def other_calls_law_def)
  have u: "sets (snd (we_UpdateCluster env c w)) = sets w \<and> nds (snd (we_UpdateCluster env c w)) = nds w"
    and l: "sets (snd (we_ListPods env ns ls w)) = sets w \<and> nds (snd (we_ListPods env ns ls w)) = nds w"
    and r: "sets (snd (we_Render env c w)) = sets w \<and> nds (snd (we_Render env c w)) = nds w"
    and v: "sets (snd (we_Revision env c b w)) = sets w \<and> nds (snd (we_Revision env c b w)) = nds w"
    and d: "sets (snd (we_ReadConfig env k sec w)) = sets w \<and> nds (snd (we_ReadConfig env k sec w)) = nds w"
    and s: "sets (snd (ka_UpdateStatus (we_Kube env) c w)) = sets w \<and> nds (snd (ka_UpdateStatus (we_Kube env) c w)) = nds w"
    and g: "sets (snd (ka_GetCluster (we_Kube env) k w)) = sets w \<and> nds (snd (ka_GetCluster (we_Kube env) k w)) = nds w"
    by (rule o [rule_format], blast)+
  show "we_UpdateCluster env c w = (r1, w') \<Longrightarrow> sets w' = sets w \<and> nds w' = nds w" using u by simp
  show "we_ListPods env ns ls w = (r2, w') \<Longrightarrow> sets w' = sets w \<and> nds w' = nds w" using l by simp
  show "we_Render env c w = (r3, w') \<Longrightarrow> sets w' = sets w \<and> nds w' = nds w" using r by simp
  show "we_Revision env c b w = (r4, w') \<Longrightarrow> sets w' = sets w \<and> nds w' = nds w" using v by simp
  show "we_ReadConfig env k sec w = (r5, w') \<Longrightarrow> sets w' = sets w \<and> nds w' = nds w" using d by simp
  show "ka_UpdateStatus (we_Kube env) c w = (r6, w') \<Longrightarrow> sets w' = sets w \<and> nds w' = nds w" using s by simp
  show "ka_GetCluster (we_Kube env) k w = (r7, w') \<Longrightarrow> sets w' = sets w \<and> nds w' = nds w" using g by simp
qed

lemma store_update_node:
  assumes "exclusive_store env sets nds sel" "we_UpdateNode env n w = (r, w')"
  shows "sets w' = sets w" "r = None \<Longrightarrow> nds w' = (nds w)(gn_Name n \<mapsto> n)"
    "nds w' = nds w \<or> nds w' = (nds w)(gn_Name n \<mapsto> n)"
  using assms unfolding exclusive_store_def nodes_law_def by blast+

subsection \<open>Effects on the store\<close>

text \<open>An operation edits at most one StatefulSet, by a given function; a success means it is done.\<close>

definition edits_set where
  "edits_set sets nds k f w e w' \<longleftrightarrow>
     nds w' = nds w
     \<and> (e = None \<longrightarrow> sets w' = (sets w)(k := map_option f (sets w k)))
     \<and> (sets w' = sets w \<or> sets w' = (sets w)(k := map_option f (sets w k)))"

definition scaled :: "int \<Rightarrow> StatefulSet \<Rightarrow> StatefulSet" where
  "scaled n s = s\<lparr>sts_Replicas := Some n\<rparr>"

definition purge_stripped :: "StatefulSet \<Rightarrow> StatefulSet" where
  "purge_stripped s = s\<lparr>sts_Template := (sts_Template s)\<lparr>pt_InitContainers := without_purge (pt_InitContainers (sts_Template s))\<rparr>\<rparr>"

definition purge_added :: "(string \<Rightarrow> string) \<Rightarrow> string \<Rightarrow> StatefulSet \<Rightarrow> StatefulSet" where
  "purge_added quote purgeID s = s\<lparr>sts_Template := (sts_Template s)\<lparr>pt_InitContainers :=
     factorMigrationPurgeInitContainer quote s purgeID # without_purge (pt_InitContainers (sts_Template s))\<rparr>\<rparr>"

lemma edits_set_read:
  assumes "exclusive_store env sets nds sel" "we_GetSet env k w = (Inr s, w1)" "e = None \<Longrightarrow> f s = s"
  shows "edits_set sets nds k f w e w1"
  using store_get [OF assms(1,2)] assms(3) by (auto simp: edits_set_def fun_upd_idem)

lemma edits_set_write:
  assumes "exclusive_store env sets nds sel" "we_GetSet env k w = (Inr s, w1)" "we_UpdateSet env (f s) w1 = (e, w2)"
    and "sts_key (f s) = sts_key s"
  shows "edits_set sets nds k f w (map_option SetNotWritten e) w2"
  using store_get [OF assms(1,2)] store_update [OF assms(1,3)] assms(4) by (auto simp: edits_set_def)

lemma edits_set_skip:
  assumes "exclusive_store env sets nds sel" "we_GetSet env k w = (Inl g, w1)" "e = None \<Longrightarrow> g = NotFound"
  shows "edits_set sets nds k f w e w1"
  using store_get [OF assms(1,2)] assms(3) by (auto simp: edits_set_def fun_upd_idem)

lemma edits_set_pred:
  assumes "edits_set sets nds k f w e w'" "\<And>s. P s \<Longrightarrow> P (f s)" "\<And>s. sets w j = Some s \<Longrightarrow> P s" "sets w' j = Some s"
  shows "P s"
proof (cases "sets w' j = sets w j")
  case False
  then have "j = k" "sets w' j = map_option f (sets w j)" using assms(1) by (auto simp: edits_set_def split: if_split_asm)
  then show ?thesis using assms(2-4) by auto
qed (use assms in simp)

lemma edits_set_done:
  "edits_set sets nds k f w None w' \<Longrightarrow> sets w' k = map_option f (sets w k)"
  by (simp add: edits_set_def)

lemma edits_set_nds: "edits_set sets nds k f w e w' \<Longrightarrow> nds w' = nds w"
  by (simp add: edits_set_def)

lemma sts_key_edits [simp]:
  "sts_key (scaled n s) = sts_key s" "sts_key (purge_stripped s) = sts_key s" "sts_key (purge_added q i s) = sts_key s"
  by (simp_all add: sts_key_def scaled_def purge_stripped_def purge_added_def)

lemma scale_edits:
  assumes "exclusive_store env sets nds sel" "scaleStorageSTSForNode env cluster n (Some node) w = (e, w')"
  shows "edits_set sets nds (node_set_key cluster node) (scaled n) w e w'"
proof (cases "we_GetSet env (node_set_key cluster node) w")
  case (Pair r w1)
  show ?thesis
  proof (cases r)
    case (Inl g)
    then show ?thesis using assms(2) Pair edits_set_skip [OF assms(1) Pair [unfolded Inl]]
      by (cases g) (auto simp: scaleStorageSTSForNode_def)
  next
    case (Inr s)
    note rd = edits_set_read [OF assms(1) Pair [unfolded Inr], where f = "scaled n"]
      and wr = edits_set_write [OF assms(1) Pair [unfolded Inr], where f = "scaled n"]
    show ?thesis
    proof (cases "IsControlledBy (sts_OwnerReferences s) (gn_UID node) \<and> sts_Replicas s \<noteq> Some n")
      case True
      obtain e' w2 where u: "we_UpdateSet env (s\<lparr>sts_Replicas := Some n\<rparr>) w1 = (e', w2)" by force
      then have "e = map_option SetNotWritten e'" "w' = w2"
        using assms(2) Pair Inr True by (auto simp: scaleStorageSTSForNode_def)
      then show ?thesis using wr [of e' w2] u by (simp add: scaled_def sts_key_def)
    next
      case False
      then show ?thesis using assms(2) Pair Inr rd
        by (auto simp: scaleStorageSTSForNode_def scaled_def split: if_split_asm)
    qed
  qed
qed

lemma strip_edits:
  assumes "exclusive_store env sets nds sel"
    and "patchSTSPurgeInitContainerForNode quote env cluster i False (Some node) w = (e, w')"
  shows "edits_set sets nds (node_set_key cluster node) purge_stripped w e w'"
proof (cases "we_GetSet env (node_set_key cluster node) w")
  case (Pair r w1)
  show ?thesis
  proof (cases r)
    case (Inl g)
    then show ?thesis using assms(2) Pair edits_set_skip [OF assms(1) Pair [unfolded Inl]]
      by (cases g) (auto simp: patchSTSPurgeInitContainerForNode_def)
  next
    case (Inr s)
    let ?d = "without_purge (pt_InitContainers (sts_Template s))"
    note rd = edits_set_read [OF assms(1) Pair [unfolded Inr], where f = purge_stripped]
      and wr = edits_set_write [OF assms(1) Pair [unfolded Inr], where f = purge_stripped]
    show ?thesis
    proof (cases "IsControlledBy (sts_OwnerReferences s) (gn_UID node) \<and> pt_InitContainers (sts_Template s) \<noteq> ?d")
      case True
      obtain e' w2 where u: "we_UpdateSet env (purge_stripped s) w1 = (e', w2)" by force
      then have "e = map_option SetNotWritten e'" "w' = w2"
        using assms(2) Pair Inr True by (auto simp: patchSTSPurgeInitContainerForNode_def Let_def purge_stripped_def)
      then show ?thesis using wr [OF u] by simp
    next
      case False
      then show ?thesis using assms(2) Pair Inr rd
        by (auto simp: patchSTSPurgeInitContainerForNode_def Let_def purge_stripped_def split: if_split_asm)
    qed
  qed
qed

text \<open>The preparation passes change templates, never replica counts.\<close>

definition same_replicas where
  "same_replicas sets w w' \<longleftrightarrow> (\<forall>k. map_option sts_Replicas (sets w' k) = map_option sts_Replicas (sets w k))"

lemma edits_same_replicas:
  "edits_set sets nds k f w e w' \<Longrightarrow> (\<And>s. sts_Replicas (f s) = sts_Replicas s) \<Longrightarrow> same_replicas sets w w'"
  by (auto simp: edits_set_def same_replicas_def option.map_comp comp_def)

lemma same_replicas_trans [trans]: "same_replicas sets w w1 \<Longrightarrow> same_replicas sets w1 w2 \<Longrightarrow> same_replicas sets w w2"
  by (simp add: same_replicas_def)

lemma same_sets_replicas: "sets w' = sets w \<Longrightarrow> same_replicas sets w w'"
  by (simp add: same_replicas_def)

lemma updated_same_replicas:
  assumes "exclusive_store env sets nds sel" "we_GetSet env k w = (Inr s, w1)" "we_UpdateSet env s' w1 = (e, w2)"
    and "sts_key s' = sts_key s" "sts_Replicas s' = sts_Replicas s"
  shows "same_replicas sets w w2" "nds w2 = nds w"
  using store_get [OF assms(1,2)] store_update [OF assms(1,3)] assms(4,5) by (auto simp: same_replicas_def)

lemma add_purge_keeps_replicas:
  assumes "exclusive_store env sets nds sel"
    and "patchSTSPurgeInitContainerForNode quote env cluster i True node w = (e, w')"
  shows "same_replicas sets w w'"
proof (cases node)
  case None
  then show ?thesis using assms(2) by (simp add: patchSTSPurgeInitContainerForNode_def same_sets_replicas)
next
  case (Some n)
  obtain r w1 where g: "we_GetSet env (node_set_key cluster n) w = (r, w1)" by force
  have w1: "same_replicas sets w w1" using store_get(1) [OF assms(1) g] by (rule same_sets_replicas)
  show ?thesis
  proof (cases r)
    case (Inl e')
    then show ?thesis using assms(2) Some g w1
      by (cases e') (auto simp: patchSTSPurgeInitContainerForNode_def)
  next
    case (Inr s)
    let ?s = "purge_added quote i s"
    obtain e' w2 where u: "we_UpdateSet env ?s w1 = (e', w2)" by force
    have "same_replicas sets w w2"
      by (rule updated_same_replicas [OF assms(1) g [unfolded Inr] u]) (simp_all add: purge_added_def sts_key_def)
    then show ?thesis using assms(2) Some g Inr w1 u
      by (auto simp: patchSTSPurgeInitContainerForNode_def Let_def purge_added_def split: if_split_asm)
  qed
qed

lemma exact_config_keeps:
  assumes "exclusive_store env sets nds sel" "exact_config hash env cluster im w = (r, w')"
  shows "sets w' = sets w \<and> nds w' = nds w"
proof -
  obtain a w1 where a: "we_Render env cluster w = (a, w1)" by fastforce
  note e1 = store_other(3) [OF assms(1) a]
  show ?thesis
  proof (cases a)
    case (Inl e)
    then show ?thesis using assms(2) a e1 by (simp add: exact_config_def)
  next
    case (Inr body)
    obtain b w2 where b: "we_Revision env cluster body w1 = (b, w2)" by fastforce
    note e2 = store_other(4) [OF assms(1) b]
    show ?thesis
    proof (cases b)
      case (Inl e)
      then show ?thesis using assms(2) a b e1 e2 Inr by (simp add: exact_config_def)
    next
      case (Inr revision)
      obtain c w3 where c: "we_ReadConfig env \<lparr>nn_Namespace = gc_Namespace cluster,
          nn_Name = garageConfigRevisionName hash (gc_Name cluster @ ''-config'') revision\<rparr> (we_UsesSecret env cluster) w2 = (c, w3)" by fastforce
      note e3 = store_other(5) [OF assms(1) c]
      have "w' = w3" using assms(2) a b c \<open>a = Inr body\<close> Inr
        by (cases c) (simp_all add: exact_config_def Let_def split: if_split_asm)
      then show ?thesis using e1 e2 e3 by simp
    qed
  qed
qed

lemma config_annotation_keeps:
  assumes "exclusive_store env sets nds sel" "config_annotation env cluster b w = (r, w')"
  shows "sets w' = sets w \<and> nds w' = nds w"
  using assms(2) store_other [OF assms(1)] by (fastforce simp: config_annotation_def split: prod.split_asm sum.split_asm)

lemma patch_config_keeps_replicas:
  assumes ex: "exclusive_store env sets nds sel"
    and p: "patchSTSConfigRevisionForFactorMigration hash env cluster node w = (e, w')"
  shows "same_replicas sets w w'"
proof (cases node)
  case None
  then show ?thesis using p by (simp add: patchSTSConfigRevisionForFactorMigration_def same_sets_replicas)
next
  case (Some n)
  note d = patchSTSConfigRevisionForFactorMigration_def Let_def
  obtain c w1 where c: "exact_config hash env cluster False w = (c, w1)" by force
  obtain r w2 where g: "we_GetSet env (node_set_key cluster n) w1 = (r, w2)" by force
  have s1: "sets w1 = sets w" and s2: "sets w2 = sets w1"
    using exact_config_keeps [OF ex c] store_get(1) [OF ex g] by simp_all
  consider e1 where "c = Inl e1" | x e2 where "c = Inr x" "r = Inl e2" | name body s where "c = Inr (name, body)" "r = Inr s"
    by (cases c; cases r) auto
  then show ?thesis
  proof cases
    case 3
    obtain a w3 where a: "config_annotation env cluster body w2 = (a, w3)" by force
    have s3: "sets w3 = sets w" using config_annotation_keeps [OF ex a] s1 s2 by simp
    have k: "sets w3 (node_set_key cluster n) = Some s" "sts_key s = node_set_key cluster n"
      using store_get(3) [OF ex g 3(2)] s1 s3 by simp_all
    have "sets w' = sets w \<or> (\<exists>s'. sts_Replicas s' = sts_Replicas s \<and> sets w' = (sets w)(node_set_key cluster n \<mapsto> s'))"
    proof (cases "w' = w3 \<or> w' = w2")
      case True
      then show ?thesis using s1 s2 s3 by auto
    next
      case False
      then obtain s' e' where "we_UpdateSet env s' w3 = (e', w')" "sts_key s' = sts_key s" "sts_Replicas s' = sts_Replicas s"
        using p Some c g 3 a
        by (auto simp: d sts_key_def split: if_split_asm sum.split_asm option.split_asm prod.split_asm)
      then show ?thesis using store_update(3) [OF ex] k s3 by metis
    qed
    then show ?thesis using k s3 by (auto simp: same_replicas_def)
  qed (use p Some c g s1 s2 in \<open>auto simp: d intro: same_sets_replicas split: prod.split_asm\<close>)
qed

subsection \<open>Loops over the members\<close>

lemma each_member_preserves:
  assumes "\<And>x w e w'. x \<in> set xs \<Longrightarrow> I w \<Longrightarrow> f x w = (e, w') \<Longrightarrow> I w'" "I w" "each_member f xs w = (e, w')"
  shows "I w'"
  using assms
proof (induction xs arbitrary: w)
  case (Cons x xs)
  obtain e1 w1 where f: "f x w = (e1, w1)" by force
  have i: "I w1" by (rule Cons.prems(1) [OF _ Cons.prems(2) f]) simp
  show ?case
  proof (cases e1)
    case None
    then have r: "each_member f xs w1 = (e, w')" using Cons.prems(3) f by simp
    show ?thesis
    proof (rule Cons.IH [OF _ i r])
      show "\<And>y v e v'. y \<in> set xs \<Longrightarrow> I v \<Longrightarrow> f y v = (e, v') \<Longrightarrow> I v'" by (rule Cons.prems(1)) simp_all
    qed
  next
    case (Some e2)
    then show ?thesis using Cons.prems(3) f i by simp
  qed
qed simp

lemma each_member_establishes:
  assumes "\<And>x w w'. x \<in> set xs \<Longrightarrow> f x w = (None, w') \<Longrightarrow> Q x w'"
    and "\<And>x y w e w'. x \<in> set xs \<Longrightarrow> y \<in> set xs \<Longrightarrow> Q y w \<Longrightarrow> f x w = (e, w') \<Longrightarrow> Q y w'"
    and "each_member f xs w = (None, w')" "x \<in> set xs"
  shows "Q x w'"
  using assms
proof (induction xs arbitrary: w x)
  case (Cons y ys)
  obtain w1 where f: "f y w = (None, w1)" and r: "each_member f ys w1 = (None, w')"
    using Cons.prems(3) by (auto split: prod.split_asm option.split_asm)
  show ?case
  proof (cases "x \<in> set ys")
    case True
    show ?thesis
    proof (rule Cons.IH [OF _ _ r True])
      show "\<And>z v v'. z \<in> set ys \<Longrightarrow> f z v = (None, v') \<Longrightarrow> Q z v'" by (rule Cons.prems(1)) simp_all
      show "\<And>z u v e v'. z \<in> set ys \<Longrightarrow> u \<in> set ys \<Longrightarrow> Q u v \<Longrightarrow> f z v = (e, v') \<Longrightarrow> Q u v'"
        by (rule Cons.prems(2)) simp_all
    qed
  next
    case False
    with Cons.prems(4) have xy: "x = y" by simp
    have q: "Q x w1" using Cons.prems(1) [OF _ f] xy by simp
    show ?thesis
    proof (rule each_member_preserves [where I = "Q x", OF _ q r])
      show "\<And>z v e v'. z \<in> set ys \<Longrightarrow> Q x v \<Longrightarrow> f z v = (e, v') \<Longrightarrow> Q x v'"
        by (rule Cons.prems(2)) (simp_all add: xy)
    qed
  qed
qed simp

lemma nodes_by_name_distinct: "distinct (map fst (nodes_by_name items))"
  by (induction items rule: rev_induct) (simp_all add: nodes_by_name_def distinct_update)

lemma map_of_nodes_by_name:
  "inj_on gn_Name (set items) \<Longrightarrow>
     map_of (nodes_by_name items) name = Some n \<longleftrightarrow> n \<in> set items \<and> gn_Name n = name"
proof (induction items rule: rev_induct)
  case (snoc m items)
  have "map_of (nodes_by_name (items @ [m])) = (map_of (nodes_by_name items))(gn_Name m \<mapsto> m)"
    by (simp add: nodes_by_name_def update_conv')
  moreover have "inj_on gn_Name (set items)" using snoc.prems by (auto simp: inj_on_def)
  ultimately show ?case using snoc by (auto simp: inj_on_def)
qed (simp add: nodes_by_name_def)

lemma members_pointers: "distinct (map fst nodes) \<Longrightarrow> set (members nodes) = (\<lambda>(name, n). Some n) ` set nodes"
  by (force simp: members_def sortedFactorMigrationNodeNames_def)

definition storage_members where
  "storage_members nds sel cluster w =
     {n. nds w (gn_Name n) = Some n \<and> sel (gc_Namespace cluster) (storage_labels cluster) n
       \<and> ns_Backing (gn_Spec n) \<noteq> NodeBackingNodeLocalPool}"

lemma list_storage_keeps:
  assumes "exclusive_store env sets nds sel" "listAutoModeStorageNodes env cluster w = (r, w')"
  shows "sets w' = sets w" "nds w' = nds w"
proof -
  have "snd (we_ListNodes env (gc_Namespace cluster) (storage_labels cluster) w) = w'"
    using assms(2) by (simp add: listAutoModeStorageNodes_def split: prod.split_asm sum.split_asm)
  then obtain r1 where "we_ListNodes env (gc_Namespace cluster) (storage_labels cluster) w = (r1, w')"
    by (metis prod.collapse)
  then show "sets w' = sets w" "nds w' = nds w"
    using assms(1) unfolding exclusive_store_def nodes_law_def by blast+
qed

lemma list_storage_members:
  assumes ex: "exclusive_store env sets nds sel" and l: "listAutoModeStorageNodes env cluster w = (Inr nodes, w')"
  shows "set nodes = (\<lambda>n. (gn_Name n, n)) ` storage_members nds sel cluster w" "distinct (map fst nodes)"
    "set (members nodes) = Some ` storage_members nds sel cluster w"
proof -
  obtain items where i: "we_ListNodes env (gc_Namespace cluster) (storage_labels cluster) w = (Inr items, w')"
    and n: "nodes = nodes_by_name (filter (\<lambda>n. ns_Backing (gn_Spec n) \<noteq> NodeBackingNodeLocalPool) items)"
    using l by (auto simp: listAutoModeStorageNodes_def split: prod.split_asm sum.split_asm)
  let ?f = "filter (\<lambda>n. ns_Backing (gn_Spec n) \<noteq> NodeBackingNodeLocalPool) items"
  have items: "set items = {n. nds w (gn_Name n) = Some n \<and> sel (gc_Namespace cluster) (storage_labels cluster) n}"
    using ex i unfolding exclusive_store_def nodes_law_def by blast
  have f: "set ?f = storage_members nds sel cluster w" by (auto simp: items storage_members_def)
  have inj: "inj_on gn_Name (set ?f)" unfolding f
  proof (rule inj_onI)
    fix x y assume "x \<in> storage_members nds sel cluster w" "y \<in> storage_members nds sel cluster w" "gn_Name x = gn_Name y"
    then have "Some x = Some y" unfolding storage_members_def mem_Collect_eq by metis
    then show "x = y" by simp
  qed
  show d: "distinct (map fst nodes)" unfolding n by (rule nodes_by_name_distinct)
  show s: "set nodes = (\<lambda>n. (gn_Name n, n)) ` storage_members nds sel cluster w"
  proof -
    have "(k, v) \<in> set nodes \<longleftrightarrow> v \<in> storage_members nds sel cluster w \<and> k = gn_Name v" for k v
      using map_of_nodes_by_name [OF inj, of k v] map_of_eq_Some_iff [OF d, of k v] f n by auto
    then show ?thesis by (auto simp: image_iff)
  qed
  show "set (members nodes) = Some ` storage_members nds sel cluster w"
    unfolding members_pointers [OF d] s by (auto simp: image_iff)
qed

subsection \<open>Checks of the members\<close>

definition purge_prepared :: "(string \<Rightarrow> string) \<Rightarrow> string \<Rightarrow> StatefulSet \<Rightarrow> bool" where
  "purge_prepared quote purgeID s \<longleftrightarrow> purge_containers s = [factorMigrationPurgeInitContainer quote s purgeID]"

lemma purge_container_error_None: "purge_container_error quote i s = None \<longleftrightarrow> purge_prepared quote i s"
proof -
  have "(\<forall>c \<in> set cs. c = x) \<and> length cs = 1 \<longleftrightarrow> cs = [x]" for cs and x :: Container
    by (cases cs) auto
  then show ?thesis
    unfolding purge_prepared_def by (auto simp: purge_container_error_def fail_if_def list_ex_iff split: if_split_asm)
qed

lemma verify_checks:
  assumes ex: "exclusive_store env sets nds sel"
    and v: "verifyFactorMigrationPurgePreparation hash quote env cluster i q (Some n) w = (e, w')"
  shows "sets w' = sets w \<and> nds w' = nds w
     \<and> (e = None \<longrightarrow> (\<exists>s. sets w (node_set_key cluster n) = Some s \<and> purge_prepared quote i s))"
proof -
  note d = verifyFactorMigrationPurgePreparation_def
  obtain c w1 where c: "exact_config hash env cluster True w = (c, w1)" by force
  note k1 = exact_config_keeps [OF ex c]
  show ?thesis
  proof (cases c)
    case (Inl e1)
    then show ?thesis using v c k1 by (auto simp: d)
  next
    case (Inr nb)
    obtain name body where nb: "nb = (name, body)" by force
    obtain r w2 where g: "we_GetSet env (node_set_key cluster n) w1 = (r, w2)" by force
    have k2: "sets w2 = sets w \<and> nds w2 = nds w" using store_get(1,2) [OF ex g] k1 by simp
    show ?thesis
    proof (cases r)
      case (Inl e2)
      then show ?thesis using v c Inr nb g k2 by (auto simp: d)
    next
      case r: (Inr s)
      have s: "sets w (node_set_key cluster n) = Some s" using store_get(3) [OF ex g r] k1 by simp
      obtain a w3 where a: "config_annotation env cluster body w2 = (a, w3)" by force
      have k3: "sets w3 = sets w \<and> nds w3 = nds w" using config_annotation_keeps [OF ex a] k2 by simp
      have "w' = w2 \<or> w' = w3" "e = None \<Longrightarrow> purge_container_error quote i s = None"
        using v c Inr nb g r a
        by (auto simp: d split: if_split_asm option.split_asm sum.split_asm prod.split_asm)
      then show ?thesis using k2 k3 s purge_container_error_None by auto
    qed
  qed
qed

lemma running_checks:
  assumes ex: "exclusive_store env sets nds sel"
    and v: "factorMigrationStatefulSetRunning env cluster (Some n) w = (r, w')"
  shows "sets w' = sets w \<and> nds w' = nds w
     \<and> (r = Inr False \<longrightarrow> (\<exists>s. sets w (node_set_key cluster n) = Some s \<and> sts_Replicas s = Some 0))"
proof -
  obtain g w1 where g: "we_GetSet env (node_set_key cluster n) w = (g, w1)" by force
  note k = store_get [OF ex g]
  show ?thesis
    using v g k by (cases g) (auto simp: factorMigrationStatefulSetRunning_def split: if_split_asm option.split_asm)
qed

lemma any_running_checks:
  assumes "exclusive_store env sets nds sel" "any_running env cluster ns acc w = (r, w')" "None \<notin> set ns"
  shows "sets w' = sets w \<and> nds w' = nds w
     \<and> (r = Inr False \<longrightarrow> \<not> acc \<and> (\<forall>n. Some n \<in> set ns \<longrightarrow>
          (\<exists>s. sets w (node_set_key cluster n) = Some s \<and> sts_Replicas s = Some 0)))"
  using assms(2,3)
proof (induction ns arbitrary: acc w)
  case (Cons p ns)
  then obtain n where p: "p = Some n" by (cases p) auto
  obtain r1 w1 where r1: "factorMigrationStatefulSetRunning env cluster (Some n) w = (r1, w1)" by force
  note k = running_checks [OF assms(1) r1]
  show ?case
  proof (cases r1)
    case (Inl e)
    then show ?thesis using Cons.prems p r1 k by auto
  next
    case (Inr b)
    then have "any_running env cluster ns (acc \<or> b) w1 = (r, w')" using Cons.prems p r1 by simp
    note IH = Cons.IH [OF this]
    show ?thesis using IH Cons.prems(2) k Inr p by (cases b) auto
  qed
qed auto

subsection \<open>Teardown\<close>

definition restored :: "StatefulSet \<Rightarrow> bool" where
  "restored s \<longleftrightarrow> sts_Replicas s = Some 1 \<and> purge_containers s = []"

lemma restored_edits:
  "purge_containers (purge_stripped s) = []" "purge_containers (scaled n s) = purge_containers s"
  "sts_Replicas (scaled n s) = Some n" "restored s \<Longrightarrow> restored (purge_stripped s)" "restored s \<Longrightarrow> restored (scaled 1 s)"
  by (auto simp: purge_containers_def purge_stripped_def without_purge_def restored_def scaled_def)

lemma restore_member_effect:
  assumes ex: "exclusive_store env sets nds sel" and r: "restore_member quote env cluster (Some n) w = (e, w')"
  shows "nds w' = nds w" "e = None \<Longrightarrow> sets w' (node_set_key cluster n) = Some s \<Longrightarrow> restored s"
    "(\<And>s. sets w k = Some s \<Longrightarrow> restored s) \<Longrightarrow> sets w' k = Some s \<Longrightarrow> restored s"
proof -
  obtain e1 w1 where p: "patchSTSPurgeInitContainerForNode quote env cluster [] False (Some n) w = (e1, w1)" by force
  note strip = strip_edits [OF ex p]
  have "nds w' = nds w \<and> (e = None \<longrightarrow> sets w' (node_set_key cluster n) = Some s \<longrightarrow> restored s)
      \<and> ((\<forall>s. sets w k = Some s \<longrightarrow> restored s) \<longrightarrow> sets w' k = Some s \<longrightarrow> restored s)" for k s
  proof (cases e1)
    case (Some e')
    then have "e = Some e'" "w' = w1" using r p by (simp_all add: restore_member_def)
    then show ?thesis
      using edits_set_nds [OF strip] edits_set_pred [OF strip, of restored k s, OF restored_edits(4)] by auto
  next
    case None
    then have sc: "scaleStorageSTSForNode env cluster 1 (Some n) w1 = (e, w')" using r p by (simp add: restore_member_def)
    note scale = scale_edits [OF ex sc]
    have "restored s" if "e = None" "sets w' (node_set_key cluster n) = Some s"
      using edits_set_done [OF scale [unfolded that(1)]] edits_set_done [OF strip [unfolded None]] that(2)
      by (cases "sets w (node_set_key cluster n)") (auto simp: restored_def restored_edits)
    moreover have "restored s" if "\<forall>s. sets w k = Some s \<longrightarrow> restored s" "sets w' k = Some s"
    proof -
      have "restored s1" if "sets w1 k = Some s1" for s1
        using edits_set_pred [OF strip, where P = restored and j = k and s = s1] restored_edits(4) that
          \<open>\<forall>s. sets w k = Some s \<longrightarrow> restored s\<close> by blast
      then show ?thesis
        using edits_set_pred [OF scale, where P = restored and j = k and s = s] restored_edits(5) that(2) by blast
    qed
    ultimately show ?thesis using edits_set_nds [OF strip] edits_set_nds [OF scale] by (intro conjI impI) simp_all
  qed
  then show "nds w' = nds w" "e = None \<Longrightarrow> sets w' (node_set_key cluster n) = Some s \<Longrightarrow> restored s"
    "(\<And>s. sets w k = Some s \<Longrightarrow> restored s) \<Longrightarrow> sets w' k = Some s \<Longrightarrow> restored s" by blast+
qed

definition resumed where
  "resumed nds w name \<longleftrightarrow> (\<exists>n. nds w name = Some n \<and> \<not> gomap_has (gn_Annotations n) AnnotationOperatorSuspended)"

lemma resume_effect:
  assumes ex: "exclusive_store env sets nds sel" and r: "resume_node env (name, n) w = (e, w')" and n: "name = gn_Name n"
  shows "sets w' = sets w" "e = None \<Longrightarrow> nds w name = Some n \<Longrightarrow> resumed nds w' name" "resumed nds w m \<Longrightarrow> resumed nds w' m"
    "m \<noteq> name \<Longrightarrow> nds w' m = nds w m"
proof -
  let ?n = "n\<lparr>gn_Annotations := gomap_delete AnnotationOperatorSuspended (gn_Annotations n)\<rparr>"
  have "sets w' = sets w \<and> (e = None \<longrightarrow> nds w name = Some n \<longrightarrow> resumed nds w' name)
     \<and> (resumed nds w m \<longrightarrow> resumed nds w' m) \<and> (m \<noteq> name \<longrightarrow> nds w' m = nds w m)" for m
  proof (cases "gomap_has (gn_Annotations n) AnnotationOperatorSuspended")
    case False
    then show ?thesis using r by (auto simp: resume_node_def resumed_def)
  next
    case True
    obtain e1 w1 where u: "we_UpdateNode env ?n w = (e1, w1)" by force
    note s = store_update_node [OF ex u]
    have "w' = w1" "e = None \<longleftrightarrow> e1 = None"
      using r u True by (auto simp: resume_node_def split: option.split_asm)
    moreover have "resumed nds w1 name" if "nds w1 = (nds w)(gn_Name n \<mapsto> ?n)"
      using that n by (simp add: resumed_def)
    ultimately show ?thesis using s n by (fastforce simp: resumed_def)
  qed
  then show "sets w' = sets w" "e = None \<Longrightarrow> nds w name = Some n \<Longrightarrow> resumed nds w' name"
    "resumed nds w m \<Longrightarrow> resumed nds w' m" "m \<noteq> name \<Longrightarrow> nds w' m = nds w m" by blast+
qed

lemma each_named_establishes:
  assumes dn: "\<And>n w w'. f (gn_Name n, n) w = (None, w') \<Longrightarrow> nds w (gn_Name n) = Some n \<Longrightarrow> R w' (gn_Name n)"
    and keeps: "\<And>n w e w' m. f (gn_Name n, n) w = (e, w') \<Longrightarrow> R w m \<Longrightarrow> R w' m"
    and loc: "\<And>n w e w' m. f (gn_Name n, n) w = (e, w') \<Longrightarrow> m \<noteq> gn_Name n \<Longrightarrow> nds w' m = nds w m"
    and r: "each_member f nodes w = (None, w')" and n: "(name, n) \<in> set nodes" and d: "distinct (map fst nodes)"
    and stored: "\<And>x. x \<in> set nodes \<Longrightarrow> \<exists>m. x = (gn_Name m, m) \<and> nds w (gn_Name m) = Some m"
  shows "R w' name"
  using r n d stored
proof (induction nodes arbitrary: w)
  case (Cons x xs)
  obtain m where x: "x = (gn_Name m, m)" and m: "nds w (gn_Name m) = Some m" using Cons.prems(4) [of x] by auto
  obtain w1 where f: "f (gn_Name m, m) w = (None, w1)" and r1: "each_member f xs w1 = (None, w')"
    using Cons.prems(1) x by (auto split: prod.split_asm option.split_asm)
  have st: "\<exists>m'. y = (gn_Name m', m') \<and> nds w1 (gn_Name m') = Some m'" if y: "y \<in> set xs" for y
  proof -
    obtain m' where m': "y = (gn_Name m', m')" "nds w (gn_Name m') = Some m'" using Cons.prems(4) [of y] y by auto
    have "gn_Name m' \<noteq> gn_Name m" using Cons.prems(3) x y m'(1) by (force simp: image_iff)
    then show ?thesis using loc [OF f] m' by auto
  qed
  show ?case
  proof (cases "(name, n) \<in> set xs")
    case True
    show ?thesis by (rule Cons.IH [OF r1 True]) (use Cons.prems(3) st in simp_all)
  next
    case False
    then have "R w1 name" using Cons.prems(2) x dn [OF f m] by simp
    then show ?thesis
    proof (rule each_member_preserves [where I = "\<lambda>v. R v name", OF _ _ r1, rotated])
      fix y v e' v' assume "y \<in> set xs" "R v name" "f y v = (e', v')"
      then show "R v' name" using st keeps by metis
    qed
  qed
qed simp

lemma teardown_restores:
  assumes ex: "exclusive_store env sets nds sel" and t: "teardownFactorMigration quote env cluster w = (None, w')"
    and n: "n \<in> storage_members nds sel cluster w"
  shows "sets w' (node_set_key cluster n) = Some s \<Longrightarrow> restored s" "resumed nds w' (gn_Name n)"
proof -
  obtain nodes w1 w2 where l: "listAutoModeStorageNodes env cluster w = (Inr nodes, w1)"
      and m: "each_member (restore_member quote env cluster) (members nodes) w1 = (None, w2)"
      and c: "clearStorageSuspension env cluster w2 = (None, w')"
    using t by (auto simp: teardownFactorMigration_def split: prod.split_asm sum.split_asm option.split_asm)
  note k1 = list_storage_keeps [OF ex l] and s1 = list_storage_members [OF ex l]
  let ?Q = "\<lambda>p w. \<forall>n s. p = Some n \<longrightarrow> sets w (node_set_key cluster n) = Some s \<longrightarrow> restored s"
  have mem: "p \<in> set (members nodes) \<Longrightarrow> \<exists>n. p = Some n" for p using s1(3) by auto
  have q: "?Q (Some n) w2"
  proof (rule each_member_establishes [where Q = ?Q, OF _ _ m])
    fix p v v' assume "p \<in> set (members nodes)" "restore_member quote env cluster p v = (None, v')"
    then show "?Q p v'" using mem restore_member_effect(2) [OF ex] by blast
  next
    fix p p' v e v' assume p: "p \<in> set (members nodes)" and qv: "?Q p' v" and r: "restore_member quote env cluster p v = (e, v')"
    obtain m where m: "p = Some m" using mem [OF p] by blast
    show "?Q p' v'" using qv restore_member_effect(3) [OF ex r [unfolded m]] by (intro allI impI) blast
  qed (use n s1(3) in auto)
  have nds2: "nds w2 = nds w"
  proof (rule each_member_preserves [where I = "\<lambda>v. nds v = nds w", OF _ _ m])
    fix p v e v' assume "p \<in> set (members nodes)" "nds v = nds w" "restore_member quote env cluster p v = (e, v')"
    then show "nds v' = nds w" using mem restore_member_effect(1) [OF ex] by metis
  qed (use k1 in simp)
  obtain nodes' w3 where l': "listAutoModeStorageNodes env cluster w2 = (Inr nodes', w3)"
      and r: "each_member (resume_node env) nodes' w3 = (None, w')"
    using c by (auto simp: clearStorageSuspension_def split: prod.split_asm sum.split_asm)
  note k2 = list_storage_keeps [OF ex l'] and s2 = list_storage_members [OF ex l']
  have mem': "x \<in> set nodes' \<Longrightarrow> \<exists>m. x = (gn_Name m, m) \<and> nds w3 (gn_Name m) = Some m" for x
    using s2(1) k2(2) by (auto simp: storage_members_def)
  have "sets w' = sets w3"
  proof (rule each_member_preserves [where I = "\<lambda>v. sets v = sets w3", OF _ _ r])
    fix x v e v' assume "x \<in> set nodes'" "sets v = sets w3" "resume_node env x v = (e, v')"
    then show "sets v' = sets w3" using mem' resume_effect(1) [OF ex] by metis
  qed simp
  then show "sets w' (node_set_key cluster n) = Some s \<Longrightarrow> restored s" using q k2(1) by simp
  have "n \<in> storage_members nds sel cluster w2" using n nds2 by (simp add: storage_members_def)
  then have n': "(gn_Name n, n) \<in> set nodes'" using s2(1) by blast
  show "resumed nds w' (gn_Name n)" 
    by (rule each_named_establishes [where f = "resume_node env" and R = "resumed nds" and nds = nds, OF resume_effect(2) [OF ex _ refl refl] resume_effect(3) [OF ex _ refl]
          resume_effect(4) [OF ex _ refl] r n' s2(2) mem'])
qed

end
