(* ===== verification/DrainTransaction.thy ===== *)
theory DrainTransaction
  imports DrainPeers
begin

text \<open>
  The handlers of a storage-drain transaction (internal/controller/block_resync_barrier.go): recording
  the intent before Garage is told to remove a role, the checks immediately before Apply, and the
  round that proves the migration of blocks complete.  They compose the gates of DrainPeers, the
  compare-and-swap of DrainStore, the coordinator's markers and the pure evaluation of
  ResyncProgress.  The Garage service and the Kubernetes API are functions over a world \<open>'w\<close>; one
  reading \<open>now\<close> of the clock serves a whole call.
\<close>

datatype transaction_error =
    Blocked drain_block
  | BlockedUnpublished drain_block store_error
  | NoOwnedTransaction
  | TargetHashInvalid
  | ObservationUnavailable string
  | ScopeUnobservable observation_error
  | IncarnationChanged
  | LaunchFailed string string
  | NotYetReady resync_message
  | ExclusionLost
  | NotPersisted store_error
  | UnavailableNotTarget string
  | OwnerUIDMissing
  | IntentLayoutUnavailable
  | IntentRefused intent_error
  | NilDereference
  | AnotherMarker NamespacedName
  | OtherRevision NamespacedName
  | MarkerNotAdvanced
  | MarkerLostAfterPersist
  | RoleNotAuthorized string string
  | StorageNotAuthorized string string
  | OwnerUnreadable
  | OwnerRereadFailed get_error
  | OwnerChanged
  | IntentInvalid
  | NotADeletingGateway
  | NotAGatewayNode
  | NotRoleOnly
  | OwnerUnresolved resolve_error

subsection \<open>Reporting a blocked drain\<close>

definition recordStorageDrainBlocked ::
    "'w kube_api option \<Rightarrow> instant \<Rightarrow> GarageCluster \<Rightarrow> string \<Rightarrow> drain_block \<Rightarrow> 'w
     \<Rightarrow> transaction_error \<times> GarageCluster \<times> 'w" where
  "recordStorageDrainBlocked kubeClient now cluster reason blocked w =
     (case kubeClient of
        None \<Rightarrow> (Blocked blocked, cluster, w)
      | Some api \<Rightarrow>
          let apply = setStorageDrainCondition now ConditionFalse reason in
          (case UpdateStatusWithRetry api (apply cluster) [apply] w of
             (Some e, cluster1, w1) \<Rightarrow> (BlockedUnpublished blocked e, cluster1, w1)
           | (None, cluster1, w1) \<Rightarrow> (Blocked blocked, cluster1, w1)))"

subsection \<open>Recording an intent\<close>

text \<open>
  The last part of the three handlers that record an intent: make sure this transaction's marker is
  in place, persist the proof unless it is unchanged, move the marker to the new target revision,
  and confirm it.  \<open>cluster\<close> is the object whose status holds the proof; \<open>key\<close> and \<open>ownerID\<close> name
  the canonical owner of the layout.
\<close>

definition advance_marker ::
    "NamespacedName \<Rightarrow> string \<Rightarrow> storageDrainActor \<Rightarrow> blockResyncProof option \<Rightarrow> blockResyncProof \<Rightarrow> coordinator
     \<Rightarrow> bool \<times> coordinator" where
  "advance_marker key ownerID actor previous next coord =
     (case previous of
        None \<Rightarrow> (True, coord)
      | Some p \<Rightarrow>
          if bp_TargetHash p = bp_TargetHash next then (True, coord)
          else (case AdvanceStorageDrain key ownerID (da_UID actor) (bp_TransactionID next)
                       (bp_TargetHash p) (bp_TargetHash next) coord of
                  (True, coord1) \<Rightarrow> (True, coord1)
                | (False, coord1) \<Rightarrow>
                    BeginStorageDrain key ownerID (da_UID actor) (bp_TransactionID next) (bp_TargetHash next)
                      (EndStorageDrain key ownerID (da_UID actor) (bp_TransactionID p) (bp_TargetHash p) coord1)))"

definition publish_intent ::
    "(string \<Rightarrow> string) \<Rightarrow> (StorageDrainStatus \<Rightarrow> string) \<Rightarrow> 'w kube_api option \<Rightarrow> instant
     \<Rightarrow> NamespacedName \<Rightarrow> string \<Rightarrow> storageDrainActor \<Rightarrow> blockResyncProof option \<Rightarrow> blockResyncProof \<Rightarrow> bool
     \<Rightarrow> coordinator \<Rightarrow> GarageCluster \<Rightarrow> 'w \<Rightarrow> transaction_error option \<times> GarageCluster \<times> coordinator \<times> 'w" where
  "publish_intent sum256 marshal kubeClient now key ownerID actor previous next unchanged coord cluster w =
     (let (ok, coord1) =
        (case previous of
           None \<Rightarrow> BeginStorageDrain key ownerID (da_UID actor) (bp_TransactionID next) (bp_TargetHash next) coord
         | Some p \<Rightarrow>
             if StorageDrainActorActive key ownerID (da_UID actor) (bp_TransactionID p) (bp_TargetHash p) coord
             then (True, coord)
             else BeginStorageDrain key ownerID (da_UID actor) (bp_TransactionID p) (bp_TargetHash p) coord) in
      if \<not> ok then (Some (if previous = None then AnotherMarker key else OtherRevision key), cluster, coord1, w)
      else
     (case (if unchanged then (None, cluster, w)
            else persist_own sum256 marshal kubeClient now cluster (Some next) w) of
        (Some e, cluster1, w1) \<Rightarrow>
          (Some (NotPersisted e), cluster1,
           (if previous = None
            then EndStorageDrain key ownerID (da_UID actor) (bp_TransactionID next) (bp_TargetHash next) coord1
            else coord1), w1)
      | (None, cluster1, w1) \<Rightarrow>
     (case advance_marker key ownerID actor previous next coord1 of
        (False, coord2) \<Rightarrow> (Some MarkerNotAdvanced, cluster1, coord2, w1)
      | (True, coord2) \<Rightarrow>
     (case ConfirmStorageDrain key ownerID (da_UID actor) (bp_TransactionID next) (bp_TargetHash next) coord2 of
        (False, coord3) \<Rightarrow> (Some MarkerLostAfterPersist, cluster1, coord3, w1)
      | (True, coord3) \<Rightarrow> (None, cluster1, coord3, w1)))))"

definition AnnotationDrain :: string where "AnnotationDrain = ''garage.rajsingh.info/drain''"
definition annotationTrue :: string where "annotationTrue = ''true''"

text \<open>
  The proof to record, from the intent and the assessment, and whether status already holds it.  The
  code compares pointers; since an intent that is not the previous proof differs from it in its
  targets, comparing values decides the same.
\<close>

definition intent_with_processes ::
    "(string \<Rightarrow> string) \<Rightarrow> blockResyncProof option \<Rightarrow> blockResyncProof \<Rightarrow> string list \<Rightarrow> (string, string) gomap
     \<Rightarrow> blockResyncProof \<times> bool" where
  "intent_with_processes sum256 previous next requestedUnavailable managed =
     (let combined = (case previous of
                        None \<Rightarrow> requestedUnavailable
                      | Some p \<Rightarrow> NormalizeNodeIDs (bp_UnavailableSourceNodeIDs p @ requestedUnavailable));
          next1 =
            (if bp_UnavailableSourceNodeIDs next \<noteq> combined
             then let base = (if Some next = previous then the (resetBlockResyncEvidence previous) else next);
                      base1 = base\<lparr>bp_UnavailableSourceNodeIDs := combined\<rparr> in
                  base1\<lparr>bp_TargetHash := storageDrainProofTargetHash sum256 (Some base1)\<rparr>
             else next);
          unchanged = (Some next1 = previous \<and> sameStringMap (bp_ManagedPodUIDs next1) managed);
          next2 = (if Some next1 = previous \<and> \<not> unchanged then the (resetBlockResyncEvidence previous) else next1) in
      (next2\<lparr>bp_ManagedPodUIDs := managed\<rparr>, unchanged))"

definition ensureClusterStorageDrainIntent ::
    "(string \<Rightarrow> string) \<Rightarrow> (StorageDrainStatus \<Rightarrow> string) \<Rightarrow> (string \<Rightarrow> (string \<times> string) option)
     \<Rightarrow> 'w kube_api option \<Rightarrow> 'w peer_reader option \<Rightarrow> instant \<Rightarrow> string \<Rightarrow> coordinator \<Rightarrow> GarageCluster
     \<Rightarrow> ClusterLayout option \<Rightarrow> storageDrainActor \<Rightarrow> string list \<Rightarrow> string list \<Rightarrow> string list \<Rightarrow> 'w
     \<Rightarrow> transaction_error option \<times> GarageCluster \<times> coordinator \<times> 'w" where
  "ensureClusterStorageDrainIntent sum256 marshal parse_gv kubeClient reader now new_uuid coord cluster layout
       actor roleRemoval removedStorage unavailable w =
     (let previous = clusterStorageDrainProof (cst_StorageDrain (gc_Status cluster));
          requestedUnavailable = NormalizeNodeIDs unavailable;
          blocked = (\<lambda>reason block w. case recordStorageDrainBlocked kubeClient now cluster reason block w of
                       (e, cluster1, w1) \<Rightarrow> (Some e, cluster1, coord, w1)) in
      case first_error (\<lambda>n. fail_if (n \<notin> set (NormalizeNodeIDs removedStorage)) (UnavailableNotTarget (shortID n)))
             requestedUnavailable of
        Some e \<Rightarrow> (Some e, cluster, coord, w)
      | None \<Rightarrow>
      if length (NormalizeNodeIDs removedStorage) = 0 \<and> previous = None
         \<and> annotation (gc_Annotations cluster) AnnotationDrain \<noteq> annotationTrue
      then (None, cluster, coord, w)
      else if gc_UID cluster = [] then (Some OwnerUIDMissing, cluster, coord, w)
      else
     (case requireConsistentStorageDrain (Some cluster) of
        Some b \<Rightarrow> blocked ReasonStorageDrainUnsupportedConsistency b w
      | None \<Rightarrow>
     (case requireStorageDrainStartReady (Some cluster) of
        Some (reason, b) \<Rightarrow> blocked reason b w
      | None \<Rightarrow>
      if layout = None then (Some IntentLayoutUnavailable, cluster, coord, w)
      else
     (case assessStorageDrainPeers parse_gv reader (Some cluster) (storageDrainRoleTagsFromLayout layout)
             (normalizedNodeIDsWithout removedStorage requestedUnavailable) w of
        (Inl b, w1) \<Rightarrow> blocked ReasonStorageDrainUnverifiedPeers b w1
      | (Inr assessment, w1) \<Rightarrow>
     (case storageDrainRemovalIntent sum256 new_uuid previous actor roleRemoval removedStorage now of
        Inl e \<Rightarrow> (Some (IntentRefused e), cluster, coord, w1)
      | Inr None \<Rightarrow> (Some NilDereference, cluster, coord, w1)
      | Inr (Some intent) \<Rightarrow>
     (case intent_with_processes sum256 previous intent requestedUnavailable (pa_ManagedPodUIDs assessment) of
        (next, unchanged) \<Rightarrow>
          publish_intent sum256 marshal kubeClient now (layoutOwnerKey sum256 (Some cluster))
            (layoutRolloutOwnerID sum256 (Some cluster)) actor previous next unchanged coord cluster w1))))))"

definition ensureClusterBlockResyncIntent where
  "ensureClusterBlockResyncIntent sum256 marshal parse_gv kubeClient reader now new_uuid coord cluster layout
       roleRemoval removedStorage w =
     ensureClusterStorageDrainIntent sum256 marshal parse_gv kubeClient reader now new_uuid coord cluster layout
       (storageDrainActorForCluster (Some cluster)) roleRemoval removedStorage [] w"

definition ensureNodeBlockResyncIntent where
  "ensureNodeBlockResyncIntent sum256 marshal parse_gv kubeClient reader now new_uuid coord node cluster layout
       removed w =
     ensureClusterStorageDrainIntent sum256 marshal parse_gv kubeClient reader now new_uuid coord cluster layout
       (storageDrainActorForNode node) removed removed [] w"

text \<open>The two capacity-less retirements; the first resolves the layout owner, which may not return.\<close>

definition retirement_base :: "blockResyncProof option \<Rightarrow> blockResyncProof option" where
  "retirement_base previous =
     (case previous of
        None \<Rightarrow> None
      | Some p \<Rightarrow> if bp_CompletedAt p \<noteq> None then resetBlockResyncEvidence previous else previous)"

definition role_only_intent :: "intent_error + blockResyncProof option \<Rightarrow> transaction_error + blockResyncProof" where
  "role_only_intent r =
     (case r of
        Inl e \<Rightarrow> Inl (IntentRefused e)
      | Inr None \<Rightarrow> Inl NotRoleOnly
      | Inr (Some next) \<Rightarrow>
          if length (bp_RoleRemovalNodeIDs next) = 0 \<or> length (bp_RemovedStorageNodeIDs next) \<noteq> 0
          then Inl NotRoleOnly else Inr next)"

definition ensureCapacitylessGatewayRetirementIntent ::
    "(string \<Rightarrow> string) \<Rightarrow> (StorageDrainStatus \<Rightarrow> string) \<Rightarrow> kube_env \<Rightarrow> cluster_reader option \<Rightarrow> 'w kube_api option
     \<Rightarrow> instant \<Rightarrow> string \<Rightarrow> coordinator \<Rightarrow> GarageCluster option \<Rightarrow> string list \<Rightarrow> 'w
     \<Rightarrow> (transaction_error option \<times> GarageCluster option \<times> coordinator \<times> 'w) option" where
  "ensureCapacitylessGatewayRetirementIntent sum256 marshal env reader kubeClient now new_uuid coord clusterPtr roleRemoval w =
     (case clusterPtr of
        None \<Rightarrow> Some (Some NotADeletingGateway, clusterPtr, coord, w)
      | Some cluster \<Rightarrow>
          if gc_UID cluster = [] \<or> \<not> gc_Deleting cluster \<or> \<not> HasGatewayTier clusterPtr \<or> HasStorageTier clusterPtr
             \<or> HasNodeLocalPools clusterPtr
          then Some (Some NotADeletingGateway, clusterPtr, coord, w)
          else
            let actor = storageDrainActorForCluster clusterPtr;
                previous = clusterStorageDrainProof (cst_StorageDrain (gc_Status cluster)) in
     (case role_only_intent (storageDrainRemovalIntent sum256 new_uuid (retirement_base previous) actor roleRemoval [] now) of
        Inl e \<Rightarrow> Some (Some e, clusterPtr, coord, w)
      | Inr next \<Rightarrow>
     (case resolveGarageLayoutOwner env reader clusterPtr of
        None \<Rightarrow> None
      | Some (Inl e) \<Rightarrow> Some (Some (OwnerUnresolved e), clusterPtr, coord, w)
      | Some (Inr owner) \<Rightarrow>
          (case publish_intent sum256 marshal kubeClient now (layoutOwnerKey sum256 (Some owner))
                  (layoutRolloutOwnerID sum256 (Some owner)) actor previous next (previous = Some next) coord cluster w of
             (e, cluster1, coord1, w1) \<Rightarrow> Some (e, Some cluster1, coord1, w1)))))"

definition ensureCapacitylessGarageNodeRetirementIntent ::
    "(string \<Rightarrow> string) \<Rightarrow> (StorageDrainStatus \<Rightarrow> string) \<Rightarrow> 'w kube_api option \<Rightarrow> instant \<Rightarrow> string \<Rightarrow> coordinator
     \<Rightarrow> GarageNode option \<Rightarrow> GarageCluster option \<Rightarrow> string list \<Rightarrow> 'w
     \<Rightarrow> transaction_error option \<times> GarageCluster option \<times> coordinator \<times> 'w" where
  "ensureCapacitylessGarageNodeRetirementIntent sum256 marshal kubeClient now new_uuid coord nodePtr ownerPtr roleRemoval w =
     (case (nodePtr, ownerPtr) of
        (Some node, Some owner) \<Rightarrow>
          if \<not> ns_Gateway (gn_Spec node) \<or> gn_UID node = [] \<or> gc_UID owner = []
          then (Some NotAGatewayNode, ownerPtr, coord, w)
          else
            let actor = storageDrainActorForNode nodePtr;
                previous = clusterStorageDrainProof (cst_StorageDrain (gc_Status owner)) in
     (case role_only_intent (roleOnlyStorageDrainRemovalIntent sum256 new_uuid (retirement_base previous) actor roleRemoval now) of
        Inl e \<Rightarrow> (Some e, ownerPtr, coord, w)
      | Inr next \<Rightarrow>
          (case publish_intent sum256 marshal kubeClient now (layoutOwnerKey sum256 ownerPtr)
                  (layoutRolloutOwnerID sum256 ownerPtr) actor previous next (previous = Some next) coord owner w of
             (e, owner1, coord1, w1) \<Rightarrow> (e, Some owner1, coord1, w1)))
      | _ \<Rightarrow> (Some NotAGatewayNode, ownerPtr, coord, w))"


subsection \<open>Immediately before Apply\<close>

definition requireStorageDrainAuthorizedTargets ::
    "(string \<Rightarrow> string) \<Rightarrow> GarageCluster \<Rightarrow> storageDrainActor \<Rightarrow> string list \<Rightarrow> string list
     \<Rightarrow> transaction_error option" where
  "requireStorageDrainAuthorizedTargets sum256 cluster actor roleRemoval removedStorage =
     (let proofPtr = clusterStorageDrainProof (cst_StorageDrain (gc_Status cluster)) in
      case proofPtr of
        None \<Rightarrow> Some NoOwnedTransaction
      | Some proof \<Rightarrow>
          first_of (fail_if (\<not> sameStorageDrainActor (bp_Actor proof) actor) NoOwnedTransaction)
         (first_of (fail_if (bp_TargetHash proof \<noteq> storageDrainProofTargetHash sum256 proofPtr) TargetHashInvalid)
         (first_of (first_error (\<lambda>n. fail_if (\<not> storageDrainRoleIntentIncludes proofPtr n)
                                       (RoleNotAuthorized (bp_TransactionID proof) (shortID n)))
                      (NormalizeNodeIDs roleRemoval))
                   (first_error (\<lambda>n. fail_if (\<not> blockResyncIntentIncludes proofPtr n)
                                       (StorageNotAuthorized (bp_TransactionID proof) (shortID n)))
                      (NormalizeNodeIDs removedStorage)))))"

text \<open>The removals in the staging area, and those of them whose committed role has capacity.\<close>

definition staged_removals :: "ClusterLayout \<Rightarrow> string list" where
  "staged_removals staged = map rc_ID (filter rc_Remove (cl_StagedRoleChanges staged))"

definition committed_capacity :: "ClusterLayout \<Rightarrow> (string, u64) gomap" where
  "committed_capacity staged =
     foldl (\<lambda>m r. case lr_Capacity r of None \<Rightarrow> m | Some c \<Rightarrow> AList.update (lr_ID r) c m) [] (cl_Roles staged)"

definition staged_storage_removals :: "ClusterLayout \<Rightarrow> string list" where
  "staged_storage_removals staged =
     filter (\<lambda>i. 0 < gomap_get 0 (committed_capacity staged) i) (staged_removals staged)"

definition requireStorageDrainBeforeApply ::
    "(string \<Rightarrow> string) \<Rightarrow> (StorageDrainStatus \<Rightarrow> string) \<Rightarrow> (string \<Rightarrow> (string \<times> string) option)
     \<Rightarrow> 'w kube_api option \<Rightarrow> 'w peer_reader option \<Rightarrow> instant \<Rightarrow> GarageCluster option \<Rightarrow> ClusterLayout
     \<Rightarrow> ('w \<Rightarrow> (string + ClusterHealth option) \<times> 'w) \<Rightarrow> 'w \<Rightarrow> transaction_error option \<times> 'w" where
  "requireStorageDrainBeforeApply sum256 marshal parse_gv kubeClient readerPtr now clusterPtr staged healthGetter w =
     (case (readerPtr, clusterPtr) of
        (Some reader, Some cluster) \<Rightarrow>
     (case pr_GetCluster reader (cluster_key cluster) w of
        (Inl e, w1) \<Rightarrow> (Some (OwnerRereadFailed e), w1)
      | (Inr fresh, w1) \<Rightarrow>
          let blocked = (\<lambda>reason block w. case recordStorageDrainBlocked kubeClient now fresh reason block w of
                           (e, fresh1, w1) \<Rightarrow> (Some e, w1)) in
          if gc_UID fresh \<noteq> gc_UID cluster \<or> gc_Generation fresh \<noteq> gc_Generation cluster
             \<or> \<not> sameStorageDrainRevision
                    (storageDrainRevisionFromStatus sum256 marshal (cst_StorageDrain (gc_Status fresh)))
                    (storageDrainRevisionFromStatus sum256 marshal (cst_StorageDrain (gc_Status cluster)))
          then (Some OwnerChanged, w1)
          else
     (case requireConsistentStorageDrain (Some fresh) of
        Some b \<Rightarrow> blocked ReasonStorageDrainUnsupportedConsistency b w1
      | None \<Rightarrow>
     (case requireStorageDrainStartReady (Some fresh) of
        Some (reason, b) \<Rightarrow> blocked reason b w1
      | None \<Rightarrow>
     (case clusterStorageDrainProof (cst_StorageDrain (gc_Status fresh)) of
        None \<Rightarrow> (Some IntentInvalid, w1)
      | Some proof \<Rightarrow>
          if bp_TargetHash proof \<noteq> storageDrainProofTargetHash sum256 (Some proof) then (Some IntentInvalid, w1)
          else
     (case assessStorageDrainPeers parse_gv readerPtr (Some fresh) (storageDrainRoleTagsFromLayout (Some staged))
             (bp_RemovedStorageNodeIDs proof) w1 of
        (Inl b, w2) \<Rightarrow> blocked ReasonStorageDrainUnverifiedPeers b w2
      | (Inr assessment, w2) \<Rightarrow>
     (case requireStorageDrainAuthorizedTargets sum256 fresh (bp_Actor proof)
             (staged_removals staged) (staged_storage_removals staged) of
        Some e \<Rightarrow> (Some e, w2)
      | None \<Rightarrow>
          if \<not> sameStringMap (bp_ManagedPodUIDs proof) (pa_ManagedPodUIDs assessment)
          then (Some IncarnationChanged, w2)
          else
     (case requireLiveStorageDrainHealth healthGetter w2 of
        (Some b, w3) \<Rightarrow> blocked ReasonStorageDrainWaitingForHealth b w3
      | (None, w3) \<Rightarrow> (None, w3))))))))
      | _ \<Rightarrow> (Some OwnerUnreadable, w))"

subsection \<open>One round of the proof of migration\<close>

fun launch_repairs ::
    "(string \<Rightarrow> 'w \<Rightarrow> string option \<times> 'w) \<Rightarrow> string list \<Rightarrow> 'w \<Rightarrow> transaction_error option \<times> 'w" where
  "launch_repairs launcher [] w = (None, w)"
| "launch_repairs launcher (n # ns) w =
     (case launcher n w of
        (Some e, w1) \<Rightarrow> (Some (LaunchFailed (shortID n) e), w1)
      | (None, w1) \<Rightarrow> launch_repairs launcher ns w1)"

text \<open>The evaluation of one observation, persisted before anything is launched.\<close>

definition decide_round ::
    "(string \<Rightarrow> string) \<Rightarrow> (StorageDrainStatus \<Rightarrow> string) \<Rightarrow> 'w kube_api option \<Rightarrow> instant \<Rightarrow> coordinator
     \<Rightarrow> GarageCluster \<Rightarrow> storageDrainActor \<Rightarrow> (string \<Rightarrow> 'w \<Rightarrow> string option \<times> 'w) \<Rightarrow> blockResyncDecision \<Rightarrow> 'w
     \<Rightarrow> transaction_error option \<times> GarageCluster \<times> coordinator \<times> 'w" where
  "decide_round sum256 marshal kubeClient now coord cluster actor launcher decision w =
     (case persist_own sum256 marshal kubeClient now cluster (dec_Proof decision) w of
        (Some e, cluster1, w1) \<Rightarrow> (Some (NotPersisted e), cluster1, coord, w1)
      | (None, cluster1, w1) \<Rightarrow>
          if 0 < length (dec_LaunchNodeIDs decision) then
            (case launch_repairs launcher (dec_LaunchNodeIDs decision) w1 of
               (Some e, w2) \<Rightarrow> (Some e, cluster1, coord, w2)
             | (None, w2) \<Rightarrow> (Some (NotYetReady (dec_Message decision)), cluster1, coord, w2))
          else if \<not> dec_Ready decision then (Some (NotYetReady (dec_Message decision)), cluster1, coord, w1)
          else
     (case dec_Proof decision of
        None \<Rightarrow> (Some NilDereference, cluster1, coord, w1)
      | Some proof \<Rightarrow>
          let key = layoutOwnerKey sum256 (Some cluster1); ownerID = layoutRolloutOwnerID sum256 (Some cluster1) in
     (case BeginStorageDrain key ownerID (da_UID actor) (bp_TransactionID proof) (bp_TargetHash proof) coord of
        (False, coord1) \<Rightarrow> (Some ExclusionLost, cluster1, coord1, w1)
      | (True, coord1) \<Rightarrow>
     (case ConfirmStorageDrain key ownerID (da_UID actor) (bp_TransactionID proof) (bp_TargetHash proof) coord1 of
        (False, coord2) \<Rightarrow> (Some ExclusionLost, cluster1, coord2, w1)
      | (True, coord2) \<Rightarrow> (None, cluster1, coord2, w1)))))"

definition requireClusterStorageDrainSafety ::
    "(string \<Rightarrow> string) \<Rightarrow> (StorageDrainStatus \<Rightarrow> string) \<Rightarrow> (string \<Rightarrow> (string \<times> string) option)
     \<Rightarrow> 'w kube_api option \<Rightarrow> 'w peer_reader option \<Rightarrow> instant \<Rightarrow> coordinator \<Rightarrow> GarageCluster \<Rightarrow> storageDrainActor
     \<Rightarrow> ('w \<Rightarrow> (string + blockResyncObservation) \<times> 'w) \<Rightarrow> (string \<Rightarrow> 'w \<Rightarrow> string option \<times> 'w)
     \<Rightarrow> ('w \<Rightarrow> (string + ClusterHealth option) \<times> 'w) \<Rightarrow> int \<Rightarrow> 'w
     \<Rightarrow> transaction_error option \<times> GarageCluster \<times> coordinator \<times> 'w" where
  "requireClusterStorageDrainSafety sum256 marshal parse_gv kubeClient reader now coord cluster actor getter
       launcher healthGetter configuredQuietPeriod w =
     (let blocked = (\<lambda>reason block w. case recordStorageDrainBlocked kubeClient now cluster reason block w of
                       (e, cluster1, w1) \<Rightarrow> (Some e, cluster1, coord, w1));
          retry = (\<lambda>proof error w. case persist_own sum256 marshal kubeClient now cluster proof w of
                     (Some e, cluster1, w1) \<Rightarrow> (Some (NotPersisted e), cluster1, coord, w1)
                   | (None, cluster1, w1) \<Rightarrow> (Some error, cluster1, coord, w1)) in
      case requireConsistentStorageDrain (Some cluster) of
        Some b \<Rightarrow> blocked ReasonStorageDrainUnsupportedConsistency b w
      | None \<Rightarrow>
     (case requireStorageDrainStartReady (Some cluster) of
        Some (reason, b) \<Rightarrow> blocked reason b w
      | None \<Rightarrow>
     (case requireLiveStorageDrainHealth healthGetter w of
        (Some b, w1) \<Rightarrow> blocked ReasonStorageDrainWaitingForHealth b w1
      | (None, w1) \<Rightarrow>
     (case clusterStorageDrainProof (cst_StorageDrain (gc_Status cluster)) of
        None \<Rightarrow> (Some NoOwnedTransaction, cluster, coord, w1)
      | Some previous \<Rightarrow>
          if length (bp_RemovedStorageNodeIDs previous) = 0 \<or> \<not> sameStorageDrainActor (bp_Actor previous) actor
          then (Some NoOwnedTransaction, cluster, coord, w1)
          else if bp_TargetHash previous \<noteq> storageDrainProofTargetHash sum256 (Some previous)
          then (Some TargetHashInvalid, cluster, coord, w1)
          else
     (case getter w1 of
        (Inl e, w2) \<Rightarrow> retry (resetBlockResyncObservation (Some previous)) (ObservationUnavailable e) w2
      | (Inr observed, w2) \<Rightarrow>
     (case scopeBlockResyncObservation (Some previous) (Some observed) of
        Inl e \<Rightarrow> retry (resetBlockResyncObservation (Some previous)) (ScopeUnobservable e) w2
      | Inr observation \<Rightarrow>
     (case assessStorageDrainPeers parse_gv reader (Some cluster) (ob_CurrentRoleTags observation)
             (storageDrainLiveSourceNodeIDs (Some previous)) w2 of
        (Inl b, w3) \<Rightarrow> blocked ReasonStorageDrainUnverifiedPeers b w3
      | (Inr assessment, w3) \<Rightarrow>
          if \<not> sameStringMap (bp_ManagedPodUIDs previous) (pa_ManagedPodUIDs assessment)
          then retry (map_option (\<lambda>p. p\<lparr>bp_ManagedPodUIDs := pa_ManagedPodUIDs assessment\<rparr>)
                       (resetBlockResyncEvidence (Some previous))) IncarnationChanged w3
          else
            decide_round sum256 marshal kubeClient now coord cluster actor launcher
              (evaluateBlockResyncProgress sum256 (Some previous) observation now
                 (effectiveBlockResyncQuietPeriod configuredQuietPeriod (cs_RPCTimeout (gc_Spec cluster)))
                 (pa_RequiresEmptyQueue assessment)) w3)))))))"


subsection \<open>Lemmas\<close>

text \<open>The marker a transaction must hold; without a coordinator there is nothing to hold.\<close>

definition marker_confirmed :: "coordinator \<Rightarrow> NamespacedName \<Rightarrow> string \<times> string \<times> string \<times> string \<Rightarrow> bool" where
  "marker_confirmed coord k i \<longleftrightarrow>
     (case coord of
        None \<Rightarrow> True
      | Some c \<Rightarrow> \<exists>m. lmc_storageDrains c k = Some m \<and> dm_statusConfirmed m \<and> drain_id m = i)"

lemma confirm_marks:
  "ConfirmStorageDrain k ow a t h coord = (True, coord') \<Longrightarrow> marker_confirmed coord' k (ow, a, t, h)"
  by (auto simp: ConfirmStorageDrain_def marker_confirmed_def matches_iff split: option.splits if_splits)

lemma proof_of_status [simp]: "clusterStorageDrainProof (v1beta2StorageDrainStatus p) = p"
  by (auto simp: clusterStorageDrainProof_def v1beta2StorageDrainStatus_def split: option.splits)

lemma persist_own_proof:
  "persist_own sum256 marshal kube now cluster proof w = (None, cluster', w') \<Longrightarrow>
     clusterStorageDrainProof (cst_StorageDrain (gc_Status cluster')) = proof"
  using persist_own_success(1) by fastforce

lemma ready_round:
  assumes "dec_Ready (evaluateBlockResyncProgress sum256 (Some p) ob now quiet req)"
    and "dec_Proof (evaluateBlockResyncProgress sum256 (Some p) ob now quiet req) = Some q"
  shows "same_intent q p \<and> bp_CompletedAt q \<noteq> None"
proof (cases rule: evaluate_proof_cases [OF assms(2)])
  case (7 s x)
  then show ?thesis using assms(1) by (auto simp: same_intent_def with_counters_def)
qed (use assms(1) in simp_all)

lemma decide_round_ok:
  assumes "decide_round sum256 marshal kube now coord cluster actor launcher decision w = (None, cluster', coord', w')"
  obtains q where "dec_Ready decision" "dec_LaunchNodeIDs decision = []" "dec_Proof decision = Some q"
    "clusterStorageDrainProof (cst_StorageDrain (gc_Status cluster')) = Some q"
    "marker_confirmed coord' (layoutOwnerKey sum256 (Some cluster'))
       (layoutRolloutOwnerID sum256 (Some cluster'), da_UID actor, bp_TransactionID q, bp_TargetHash q)"
proof -
  obtain cluster1 w1 where p: "persist_own sum256 marshal kube now cluster (dec_Proof decision) w = (None, cluster1, w1)"
    using assms by (auto simp: decide_round_def split: prod.splits option.splits)
  then obtain q coord1 where d: "dec_Ready decision" "dec_LaunchNodeIDs decision = []" "dec_Proof decision = Some q"
      "cluster' = cluster1"
      "ConfirmStorageDrain (layoutOwnerKey sum256 (Some cluster1)) (layoutRolloutOwnerID sum256 (Some cluster1))
         (da_UID actor) (bp_TransactionID q) (bp_TargetHash q) coord1 = (True, coord')"
    using assms
    by (auto simp: decide_round_def Let_def split: prod.splits option.splits if_splits bool.splits)
  from that [OF d(1-3)] persist_own_proof [OF p] confirm_marks [OF d(5)] d(3,4) show ?thesis by simp
qed

text \<open>What has been observed when a round of the proof succeeds.\<close>

definition round_proved ::
    "(string \<Rightarrow> string) \<Rightarrow> (string \<Rightarrow> (string \<times> string) option) \<Rightarrow> 'w peer_reader option \<Rightarrow> GarageCluster
     \<Rightarrow> blockResyncProof \<Rightarrow> ('w \<Rightarrow> (string + blockResyncObservation) \<times> 'w) \<Rightarrow> instant \<Rightarrow> int \<Rightarrow> bool" where
  "round_proved sum256 parse_gv reader cluster previous getter now configured \<longleftrightarrow>
     (\<exists>w1 w2 w3 observed observation assessment.
        getter w1 = (Inr observed, w2)
        \<and> scopeBlockResyncObservation (Some previous) (Some observed) = Inr observation
        \<and> assessStorageDrainPeers parse_gv reader (Some cluster) (ob_CurrentRoleTags observation)
            (storageDrainLiveSourceNodeIDs (Some previous)) w2 = (Inr assessment, w3)
        \<and> sameStringMap (bp_ManagedPodUIDs previous) (pa_ManagedPodUIDs assessment)
        \<and> drain_complete sum256 previous observation now
            (effectiveBlockResyncQuietPeriod configured (cs_RPCTimeout (gc_Spec cluster)))
            (pa_RequiresEmptyQueue assessment))"

text \<open>The stages a successful round has passed, up to the evaluation.\<close>

lemma safety_stages:
  assumes "requireClusterStorageDrainSafety sum256 marshal parse_gv kube reader now coord cluster actor getter
             launcher healthGetter configured w = (None, cluster', coord', w')"
  obtains previous w1 observed w2 observation assessment w3 where
    "requireConsistentStorageDrain (Some cluster) = None" "requireStorageDrainStartReady (Some cluster) = None"
    "requireLiveStorageDrainHealth healthGetter w = (None, w1)"
    "clusterStorageDrainProof (cst_StorageDrain (gc_Status cluster)) = Some previous"
    "bp_RemovedStorageNodeIDs previous \<noteq> []" "sameStorageDrainActor (bp_Actor previous) actor"
    "bp_TargetHash previous = storageDrainProofTargetHash sum256 (Some previous)"
    "getter w1 = (Inr observed, w2)" "scopeBlockResyncObservation (Some previous) (Some observed) = Inr observation"
    "assessStorageDrainPeers parse_gv reader (Some cluster) (ob_CurrentRoleTags observation)
       (storageDrainLiveSourceNodeIDs (Some previous)) w2 = (Inr assessment, w3)"
    "sameStringMap (bp_ManagedPodUIDs previous) (pa_ManagedPodUIDs assessment)"
    "decide_round sum256 marshal kube now coord cluster actor launcher
       (evaluateBlockResyncProgress sum256 (Some previous) observation now
          (effectiveBlockResyncQuietPeriod configured (cs_RPCTimeout (gc_Spec cluster)))
          (pa_RequiresEmptyQueue assessment)) w3 = (None, cluster', coord', w')"
proof -
  note d = requireClusterStorageDrainSafety_def Let_def
  note sp = option.split_asm prod.split_asm sum.split_asm if_split_asm
  have c: "requireConsistentStorageDrain (Some cluster) = None"
    using assms by (auto simp: d split: sp)
  have s: "requireStorageDrainStartReady (Some cluster) = None"
    using assms c by (auto simp: d split: sp)
  obtain w1 where l: "requireLiveStorageDrainHealth healthGetter w = (None, w1)"
    using assms c s by (auto simp: d split: sp)
  obtain previous where p: "clusterStorageDrainProof (cst_StorageDrain (gc_Status cluster)) = Some previous"
    using assms c s l by (auto simp: d split: sp)
  have a: "bp_RemovedStorageNodeIDs previous \<noteq> []" "sameStorageDrainActor (bp_Actor previous) actor"
      "bp_TargetHash previous = storageDrainProofTargetHash sum256 (Some previous)"
    using assms c s l p by (auto simp: d split: if_split_asm)
  obtain observed w2 where g: "getter w1 = (Inr observed, w2)"
    using assms c s l p a by (auto simp: d split: sp)
  obtain observation where o: "scopeBlockResyncObservation (Some previous) (Some observed) = Inr observation"
    using assms c s l p a g by (auto simp: d split: sp)
  obtain assessment w3 where as: "assessStorageDrainPeers parse_gv reader (Some cluster) (ob_CurrentRoleTags observation)
      (storageDrainLiveSourceNodeIDs (Some previous)) w2 = (Inr assessment, w3)"
    using assms c s l p a g o by (auto simp: d split: sp)
  have m: "sameStringMap (bp_ManagedPodUIDs previous) (pa_ManagedPodUIDs assessment)"
    using assms c s l p a g o as by (auto simp: d split: sp)
  from that [OF c s l p a g o as m] show ?thesis
    using assms c s l p a g o as m by (simp add: d)
qed



subsection \<open>Recording an intent\<close>

lemma advance_marker_frame:
  "advance_marker key ownerID actor None next coord = (True, coord)" by (simp add: advance_marker_def)

lemma publish_intent_ok:
  assumes "publish_intent sum256 marshal kube now key ownerID actor previous next unchanged coord cluster w
             = (None, cluster', coord', w')"
  shows "marker_confirmed coord' key (ownerID, da_UID actor, bp_TransactionID next, bp_TargetHash next)
     \<and> (if unchanged then cluster' = cluster
        else clusterStorageDrainProof (cst_StorageDrain (gc_Status cluster')) = Some next)"
proof -
  note sp = option.split_asm prod.split_asm if_split_asm bool.split_asm
  obtain coord1 where p: "(if unchanged then (None, cluster, w)
      else persist_own sum256 marshal kube now cluster (Some next) w) = (None, cluster', w')"
    and "\<exists>c2. advance_marker key ownerID actor previous next coord1 = (True, c2)
      \<and> ConfirmStorageDrain key ownerID (da_UID actor) (bp_TransactionID next) (bp_TargetHash next) c2 = (True, coord')"
    using assms unfolding publish_intent_def Let_def by (auto split: sp)
  then have "marker_confirmed coord' key (ownerID, da_UID actor, bp_TransactionID next, bp_TargetHash next)"
    using confirm_marks by blast
  with p show ?thesis by (auto intro: persist_own_proof)
qed

lemma reset_evidence_some: "resetBlockResyncEvidence (Some p) = Some q \<longleftrightarrow> q = the (resetBlockResyncEvidence (Some p))"
  by (auto simp: resetBlockResyncEvidence_def)

lemma same_intent_reset: "same_intent (the (resetBlockResyncEvidence (Some p))) p"
  using resets_same_intent(2) [of p] reset_evidence_some by blast

lemma same_intent_managed: "same_intent (p\<lparr>bp_ManagedPodUIDs := m\<rparr>) p"
  by (simp add: same_intent_def)

lemma same_intent_trans: "same_intent p q \<Longrightarrow> same_intent q r \<Longrightarrow> same_intent p r"
  by (simp add: same_intent_def)

lemma intent_wf_unavailable:
  assumes "intent_wf sum256 p" "set (NormalizeNodeIDs u) \<subseteq> set (bp_RemovedStorageNodeIDs p)"
  defines "p1 \<equiv> p\<lparr>bp_UnavailableSourceNodeIDs := NormalizeNodeIDs u\<rparr>"
  shows "intent_wf sum256 (p1\<lparr>bp_TargetHash := storageDrainProofTargetHash sum256 (Some p1)\<rparr>)"
  using assms(1,2)
  by (simp add: p1_def intent_wf_def storageDrainProofTargetHash_def del: ids.set_norm)

text \<open>The proof that is recorded extends the intent by the unavailable sources.\<close>

lemma intent_with_processes_wf:
  assumes "intent_with_processes sum256 previous intent requested managed = (next, unchanged)"
    and "intent_wf sum256 intent" "requested = NormalizeNodeIDs u" "set requested \<subseteq> set (bp_RemovedStorageNodeIDs intent)"
    and pu: "bp_UnavailableSourceNodeIDs intent = (case previous of None \<Rightarrow> [] | Some p \<Rightarrow> bp_UnavailableSourceNodeIDs p)"
  shows "intent_wf sum256 next \<and> bp_Actor next = bp_Actor intent
     \<and> bp_RoleRemovalNodeIDs next = bp_RoleRemovalNodeIDs intent
     \<and> bp_RemovedStorageNodeIDs next = bp_RemovedStorageNodeIDs intent
     \<and> set requested \<subseteq> set (bp_UnavailableSourceNodeIDs next)
     \<and> (unchanged \<longrightarrow> (\<exists>p. previous = Some p \<and> same_intent next p \<and> same_intent p intent))"
proof -
  define combined where "combined = NormalizeNodeIDs (bp_UnavailableSourceNodeIDs intent @ requested)"
  have nu: "NormalizeNodeIDs (bp_UnavailableSourceNodeIDs intent) = bp_UnavailableSourceNodeIDs intent"
      "set (bp_UnavailableSourceNodeIDs intent) \<subseteq> set (bp_RemovedStorageNodeIDs intent)"
    using assms(2) by (simp_all add: intent_wf_def)
  have cu: "(case previous of None \<Rightarrow> requested
      | Some p \<Rightarrow> NormalizeNodeIDs (bp_UnavailableSourceNodeIDs p @ requested)) = combined"
    using pu assms(3) by (cases previous) (simp_all add: combined_def ids.norm_idem)
  have sc: "set combined = set (bp_UnavailableSourceNodeIDs intent) \<union> set requested"
    unfolding combined_def assms(3)
    using nu(1) by (metis (no_types, lifting) ids.norm_idem ids.set_norm image_Un set_append Un_Diff)
  define base where "base = (if Some intent = previous then the (resetBlockResyncEvidence previous) else intent)"
  have b: "same_intent base intent"
    using same_intent_reset [of intent] by (auto simp: base_def same_intent_def)
  define next1 where "next1 = (if bp_UnavailableSourceNodeIDs intent \<noteq> combined
      then base\<lparr>bp_UnavailableSourceNodeIDs := combined,
                bp_TargetHash := storageDrainProofTargetHash sum256 (Some (base\<lparr>bp_UnavailableSourceNodeIDs := combined\<rparr>))\<rparr>
      else intent)"
  have "intent_wf sum256 base" using b assms(2) same_intent_wf by blast
  moreover have "set combined \<subseteq> set (bp_RemovedStorageNodeIDs base)"
    using sc nu(2) assms(4) b by (auto simp: same_intent_def)
  ultimately have n1: "intent_wf sum256 next1" "bp_UnavailableSourceNodeIDs next1 = combined"
      "bp_Actor next1 = bp_Actor intent" "bp_RoleRemovalNodeIDs next1 = bp_RoleRemovalNodeIDs intent"
      "bp_RemovedStorageNodeIDs next1 = bp_RemovedStorageNodeIDs intent"
    using intent_wf_unavailable [of sum256 base "bp_UnavailableSourceNodeIDs intent @ requested"] assms(2) b
    by (auto simp: next1_def combined_def same_intent_def)
  have i: "unchanged = (Some next1 = previous \<and> sameStringMap (bp_ManagedPodUIDs next1) managed)"
      "next = (if Some next1 = previous \<and> \<not> unchanged then the (resetBlockResyncEvidence previous) else next1)
         \<lparr>bp_ManagedPodUIDs := managed\<rparr>"
    using assms(1) unfolding intent_with_processes_def cu base_def [symmetric] Let_def next1_def by auto
  have s: "same_intent next next1"
    using i(2) same_intent_reset [of next1] by (auto simp: same_intent_def)
  have "same_intent next1 intent" if unchanged
  proof -
    have "previous = Some next1" using that i(1) by simp
    then have "bp_UnavailableSourceNodeIDs intent = combined" using pu n1(2) by simp
    then show ?thesis by (simp add: next1_def same_intent_def)
  qed
  with s n1 i(1) sc show ?thesis
    using same_intent_wf [OF s] by (auto simp: same_intent_def)
qed

lemma intent_stages:
  assumes "ensureClusterStorageDrainIntent sum256 marshal parse_gv kube reader now new_uuid coord cluster layout
             actor roles storage unavailable w = (None, cluster', coord', w')"
    and "NormalizeNodeIDs storage \<noteq> [] \<or> cst_StorageDrain (gc_Status cluster) \<noteq> None
         \<or> annotation (gc_Annotations cluster) AnnotationDrain = annotationTrue"
  defines "previous \<equiv> clusterStorageDrainProof (cst_StorageDrain (gc_Status cluster))"
  obtains assessment w1 intent "next" unchanged where
    "set (NormalizeNodeIDs unavailable) \<subseteq> set (NormalizeNodeIDs storage)"
    "requireConsistentStorageDrain (Some cluster) = None" "requireStorageDrainStartReady (Some cluster) = None"
    "assessStorageDrainPeers parse_gv reader (Some cluster) (storageDrainRoleTagsFromLayout layout)
       (normalizedNodeIDsWithout storage (NormalizeNodeIDs unavailable)) w = (Inr assessment, w1)"
    "storageDrainRemovalIntent sum256 new_uuid previous actor roles storage now = Inr (Some intent)"
    "intent_with_processes sum256 previous intent (NormalizeNodeIDs unavailable) (pa_ManagedPodUIDs assessment)
       = (next, unchanged)"
    "publish_intent sum256 marshal kube now (layoutOwnerKey sum256 (Some cluster))
       (layoutRolloutOwnerID sum256 (Some cluster)) actor previous next unchanged coord cluster w1
       = (None, cluster', coord', w')"
proof -
  note d = ensureClusterStorageDrainIntent_def Let_def
  note sp = option.split_asm prod.split_asm sum.split_asm if_split_asm
  have p: "previous = None \<longleftrightarrow> cst_StorageDrain (gc_Status cluster) = None"
    by (simp add: previous_def clusterStorageDrainProof_def split: option.splits)
  have u: "first_error (\<lambda>n. fail_if (n \<notin> set (NormalizeNodeIDs storage)) (UnavailableNotTarget (shortID n)))
      (NormalizeNodeIDs unavailable) = None"
    using assms(1) unfolding d by (auto simp del: first_error_None ids.set_norm split: option.split_asm)
  have e: "\<not> (length (NormalizeNodeIDs storage) = 0 \<and> previous = None
        \<and> annotation (gc_Annotations cluster) AnnotationDrain \<noteq> annotationTrue)"
    using assms(2) p by auto
  note a1 = assms(1) [unfolded d u option.case previous_def [symmetric] if_not_P [OF e]]
  have id: "gc_UID cluster \<noteq> []" using a1 by auto
  have c: "requireConsistentStorageDrain (Some cluster) = None"
    using a1 id by (auto split: option.split_asm prod.split_asm)
  have s: "requireStorageDrainStartReady (Some cluster) = None"
    using a1 id c by (auto split: option.split_asm prod.split_asm)
  have l: "layout \<noteq> None" using a1 id c s by (auto split: if_split_asm)
  obtain assessment w1 where as: "assessStorageDrainPeers parse_gv reader (Some cluster)
      (storageDrainRoleTagsFromLayout layout) (normalizedNodeIDsWithout storage (NormalizeNodeIDs unavailable)) w
      = (Inr assessment, w1)"
    using a1 id c s l by (auto split: prod.split_asm sum.split_asm)
  obtain intent where i: "storageDrainRemovalIntent sum256 new_uuid previous actor roles storage now = Inr (Some intent)"
    using a1 id c s l as by (auto split: option.split_asm sum.split_asm)
  obtain "next" unchanged where n: "intent_with_processes sum256 previous intent (NormalizeNodeIDs unavailable)
      (pa_ManagedPodUIDs assessment) = (next, unchanged)" by fastforce
  have "set (NormalizeNodeIDs unavailable) \<subseteq> set (NormalizeNodeIDs storage)"
    using u by (auto simp del: ids.set_norm)
  from that [OF this c s as i n] show ?thesis using a1 id c s l as i n by simp
qed


subsection \<open>Immediately before Apply\<close>

definition authorizes :: "string list \<Rightarrow> string \<Rightarrow> bool" where
  "authorizes targets i \<longleftrightarrow> CanonicalGarageNodeID i = [] \<or> CanonicalGarageNodeID i \<in> CanonicalGarageNodeID ` set targets"

lemma authorized_targets:
  assumes "requireStorageDrainAuthorizedTargets sum256 cluster actor roles storage = None"
    and "clusterStorageDrainProof (cst_StorageDrain (gc_Status cluster)) = Some p"
  shows "(\<forall>i \<in> set roles. authorizes (bp_RoleRemovalNodeIDs p) i)
     \<and> (\<forall>i \<in> set storage. authorizes (bp_RemovedStorageNodeIDs p) i)"
proof -
  have inc: "ids_include xs (CanonicalGarageNodeID i) \<Longrightarrow> CanonicalGarageNodeID i \<in> CanonicalGarageNodeID ` set xs" for xs i
    by (auto simp: ids_include_def list_ex_iff ids.canon_idem) (metis imageI)
  have "\<forall>n \<in> set (NormalizeNodeIDs roles). ids_include (bp_RoleRemovalNodeIDs p) n"
    "\<forall>n \<in> set (NormalizeNodeIDs storage). ids_include (bp_RemovedStorageNodeIDs p) n"
    using assms
    by (simp_all add: requireStorageDrainAuthorizedTargets_def storageDrainRoleIntentIncludes_def
        blockResyncIntentIncludes_def del: ids.set_norm)
  then show ?thesis unfolding authorizes_def ids.set_norm by (blast intro: inc)
qed

text \<open>The stages a successful check before Apply has passed.\<close>

lemma before_apply_stages:
  assumes "requireStorageDrainBeforeApply sum256 marshal parse_gv kube (Some reader) now (Some cluster) staged healthGetter w
             = (None, w')"
  obtains fresh w1 p assessment w2 w3 where
    "pr_GetCluster reader (cluster_key cluster) w = (Inr fresh, w1)"
    "gc_UID fresh = gc_UID cluster" "gc_Generation fresh = gc_Generation cluster"
    "storageDrainRevisionFromStatus sum256 marshal (cst_StorageDrain (gc_Status fresh))
       = storageDrainRevisionFromStatus sum256 marshal (cst_StorageDrain (gc_Status cluster))"
    "requireConsistentStorageDrain (Some fresh) = None" "requireStorageDrainStartReady (Some fresh) = None"
    "clusterStorageDrainProof (cst_StorageDrain (gc_Status fresh)) = Some p"
    "bp_TargetHash p = storageDrainProofTargetHash sum256 (Some p)"
    "assessStorageDrainPeers parse_gv (Some reader) (Some fresh) (storageDrainRoleTagsFromLayout (Some staged))
       (bp_RemovedStorageNodeIDs p) w1 = (Inr assessment, w2)"
    "requireStorageDrainAuthorizedTargets sum256 fresh (bp_Actor p) (staged_removals staged)
       (staged_storage_removals staged) = None"
    "sameStringMap (bp_ManagedPodUIDs p) (pa_ManagedPodUIDs assessment)"
    "requireLiveStorageDrainHealth healthGetter w2 = (None, w3)"
proof -
  note d = requireStorageDrainBeforeApply_def Let_def sameStorageDrainRevision_def
  note sp = option.split_asm prod.split_asm sum.split_asm if_split_asm
  note a = assms [unfolded d prod.case option.case]
  obtain fresh w1 where f: "pr_GetCluster reader (cluster_key cluster) w = (Inr fresh, w1)"
    using a by (auto split: prod.split_asm sum.split_asm)
  have e: "gc_UID fresh = gc_UID cluster" "gc_Generation fresh = gc_Generation cluster"
    "storageDrainRevisionFromStatus sum256 marshal (cst_StorageDrain (gc_Status fresh))
       = storageDrainRevisionFromStatus sum256 marshal (cst_StorageDrain (gc_Status cluster))"
    using a f by (auto split: if_split_asm)
  have c: "requireConsistentStorageDrain (Some fresh) = None"
    using a f e by (auto split: option.split_asm prod.split_asm)
  have s: "requireStorageDrainStartReady (Some fresh) = None"
    using a f e c by (auto split: option.split_asm prod.split_asm)
  obtain p where p: "clusterStorageDrainProof (cst_StorageDrain (gc_Status fresh)) = Some p"
    using a f e c s by (auto split: option.split_asm)
  have h: "bp_TargetHash p = storageDrainProofTargetHash sum256 (Some p)"
    using a f e c s p by (auto split: if_split_asm)
  obtain assessment w2 where as: "assessStorageDrainPeers parse_gv (Some reader) (Some fresh)
      (storageDrainRoleTagsFromLayout (Some staged)) (bp_RemovedStorageNodeIDs p) w1 = (Inr assessment, w2)"
    using a f e c s p h by (auto split: prod.split_asm sum.split_asm)
  have t: "requireStorageDrainAuthorizedTargets sum256 fresh (bp_Actor p) (staged_removals staged)
      (staged_storage_removals staged) = None"
    using a f e c s p h as by (auto split: option.split_asm)
  have m: "sameStringMap (bp_ManagedPodUIDs p) (pa_ManagedPodUIDs assessment)"
    using a f e c s p h as t by (auto split: if_split_asm)
  obtain w3 where l: "requireLiveStorageDrainHealth healthGetter w2 = (None, w3)"
    using a f e c s p h as t m by (auto split: prod.split_asm option.split_asm)
  show ?thesis by (rule that [OF f e c s p h as t m l])
qed


subsection \<open>A concrete round\<close>

lemma ready_decision:
  assumes "dec_Ready (evaluateBlockResyncProgress sum256 (Some p) ob now quiet req)"
  shows "dec_LaunchNodeIDs (evaluateBlockResyncProgress sum256 (Some p) ob now quiet req) = []"
    "\<exists>q. dec_Proof (evaluateBlockResyncProgress sum256 (Some p) ob now quiet req) = Some q"
proof -
  have d: "drain_complete sum256 p ob now quiet req" using assms by (simp add: ready_iff_complete)
  then have "round_starts sum256 p ob req" "\<forall>n \<in> set (ob_VerificationNodeIDs ob). repaired p ob n"
    by (auto simp: drain_complete_def round_starts_def snapshot_changes_Nil)
  note r = round_repaired [OF this, of now quiet]
  show "dec_LaunchNodeIDs (evaluateBlockResyncProgress sum256 (Some p) ob now quiet req) = []"
    using assms unfolding r by (auto simp: finish_round_launch split: sum.splits option.splits prod.splits if_splits)
  show "\<exists>q. dec_Proof (evaluateBlockResyncProgress sum256 (Some p) ob now quiet req) = Some q"
    using assms unfolding r by (auto simp: finish_round_proof split: sum.splits option.splits prod.splits if_splits)
qed

definition sample_api :: "'w kube_api" where
  "sample_api = \<lparr>ka_UpdateStatus = (\<lambda>c w. (None, w)), ka_GetCluster = (\<lambda>k w. (Inl NotFound, w))\<rparr>"

definition sample_no_nodes :: "GarageCluster \<Rightarrow> 'w peer_reader" where
  "sample_no_nodes c = \<lparr>pr_ListNodes = (\<lambda>ns w. (Inr [], w)), pr_ListPods = (\<lambda>ns ls w. (Inr [], w)),
     pr_GetPod = (\<lambda>k w. (Inl NotFound, w)), pr_GetCluster = (\<lambda>k w. (Inr c, w))\<rparr>"

definition sample_live_health :: ClusterHealth where
  "sample_live_health = \<lparr>ch_Status = ''healthy'', ch_KnownNodes = 1, ch_ConnectedNodes = 1, ch_StorageNodes = 1,
     ch_StorageNodesUp = 1, ch_Partitions = 256, ch_PartitionsQuorum = 256, ch_PartitionsAllOK = 256\<rparr>"

text \<open>An owner that is ready and accepts unverified peers, with a given proof in its status.\<close>

definition sample_owner :: "blockResyncProof option \<Rightarrow> GarageCluster" where
  "sample_owner p = sample_cluster\<lparr>
     gc_Spec := (gc_Spec sample_cluster)\<lparr>cs_LayoutManagement := Some \<lparr>lm_AutoApply = True, lm_MinNodesHealthy = 0,
       lm_Drain = Some \<lparr>sdc_UnverifiedPeersPolicy = ''AssumeConsistent''\<rparr>\<rparr>\<rparr>,
     gc_Status := sample_status\<lparr>cst_StorageDrain := v1beta2StorageDrainStatus p,
       cst_Conditions := [\<lparr>cond_Type = ''StorageRolloutReady'', cond_Status = ''True'', cond_Reason = [],
         cond_ObservedGeneration = 1, cond_LastTransitionTime = 0\<rparr>],
       cst_Health := Some \<lparr>hs_Status = ''healthy'', hs_Healthy = True, hs_Available = True, hs_KnownNodes = 1,
         hs_ConnectedNodes = 1, hs_StorageNodes = 1, hs_StorageNodesOK = 1, hs_Partitions = 256,
         hs_PartitionsQuorum = 256, hs_PartitionsAllOK = 256\<rparr>\<rparr>\<rparr>"

definition sample_round :: blockResyncObservation where
  "sample_round = sample_observation [sample_resync_worker, sample_repair_worker]"

definition sample_repaired_proof :: blockResyncProof where
  "sample_repaired_proof = sample_proof\<lparr>bp_LayoutVersion := 2,
     bp_VerificationNodeIDs := [sample_id CHR ''a'', sample_id CHR ''b''],
     bp_RepairBaselines := [(sample_id CHR ''a'', 1), (sample_id CHR ''b'', 1)],
     bp_RepairWorkerIDs := [(sample_id CHR ''a'', 2), (sample_id CHR ''b'', 2)],
     bp_ResyncErrorBaselines := Some (error_counters sample_round), bp_RequiresEmptyQueue := True,
     bp_QuietSince := Some 40\<rparr>"

lemma sample_owner_facts:
  "requireConsistentStorageDrain (Some (sample_owner p)) = None"
  "requireStorageDrainStartReady (Some (sample_owner p)) = None"
  "clusterStorageDrainProof (cst_StorageDrain (gc_Status (sample_owner p))) = p"
  "gc_UID (sample_owner p) = ''u1''"
  "effectiveStorageDrainUnverifiedPeersPolicy (Some (sample_owner p)) = ''AssumeConsistent''"
  by (simp_all add: sample_owner_def sample_cluster_defs requireConsistentStorageDrain_def
      effectiveStorageDrainConsistencyMode_def requireStorageDrainStartReady_def IsManagementHandle_def
      HasStorageTier_def HasGatewayTier_def factorMigrationActive_def annotation_def gomap_get_def condition_current_def
      FindStatusCondition_def ConditionStorageRolloutReady_def ConditionTrue_def healthStatusHealthy_def
      effectiveStorageDrainUnverifiedPeersPolicy_def split: option.splits)

lemma sample_unverified:
  "i \<noteq> [] \<Longrightarrow> assessStorageDrainPeers g (Some (sample_no_nodes c)) (Some (sample_owner p)) [] [i] w
     = (Inr \<lparr>pa_RequiresEmptyQueue = True, pa_ManagedPodUIDs = []\<rparr>, w)" if "NormalizeNodeIDs [i] = [i]"
  using that
  by (simp add: assessStorageDrainPeers_def sample_no_nodes_def sample_owner_facts drop_duplicates_def process_ids_def
      classify_process_def StorageDrainUnverifiedPeersAssumeConsistent_def Let_def del: ids.set_norm)

lemma sample_round_complete:
  "drain_complete (\<lambda>s. s) sample_repaired_proof sample_round 140 100 True"
proof -
  have w: "no_Workers (node_evidence sample_round n) = [sample_resync_worker, sample_repair_worker]"
    if "n = sample_id CHR ''a'' \<or> n = sample_id CHR ''b''" for n
    using that by (auto simp: sample_round_def sample_observation_def node_evidence_def gomap_get_def sample_node_up_def)
  have e: "enabled_workers sample_round n = [sample_resync_worker]"
    if "n = sample_id CHR ''a'' \<or> n = sample_id CHR ''b''" for n
    using w [OF that] by (simp add: enabled_workers_def)
  have r: "repaired sample_repaired_proof sample_round n" if "n = sample_id CHR ''a'' \<or> n = sample_id CHR ''b''" for n
    using that w [OF that]
    by (auto simp: repaired_def sample_repaired_proof_def blockRepairWorker_def sample_repair_worker_def
        sample_resync_worker_def sample_worker_def blockRepairWorkerName_def IsDone_def)
  have i: "IsIdle (wi_State sample_resync_worker)"
    by (simp add: sample_resync_worker_def sample_worker_def IsIdle_def)
  have v: "set (ob_VerificationNodeIDs sample_round) = {sample_id CHR ''a'', sample_id CHR ''b''}"
    by (simp add: sample_round_def sample_observation_def)
  have h: "bp_TargetHash sample_repaired_proof = storageDrainProofTargetHash (\<lambda>s. s) (Some sample_repaired_proof)"
    using sample_proof_wf by (simp add: sample_repaired_proof_def intent_wf_def storageDrainProofTargetHash_def)
  have b: "\<exists>recorded. bp_ResyncErrorBaselines sample_repaired_proof = Some recorded
      \<and> mapKeys recorded = mapKeys (error_counters sample_round)
      \<and> (\<forall>(k, v) \<in> set (error_counters sample_round). gomap_get 0 recorded k = v)"
    using error_counters_self [of sample_round] by (simp add: sample_repaired_proof_def)
  show ?thesis
    unfolding drain_complete_def
    using h b r e i v
    by (simp add: sample_repaired_proof_def quiet_elapsed_def time_Sub_def)
       (simp add: sample_proof_def sample_round_def sample_observation_def)
qed

lemma sample_persists:
  "persist_own sum256 marshal (Some sample_api) now cluster proof w = (None, persisted_proof now proof cluster, w)"
  by (simp add: persist_own_def updateClusterStorageDrainProof_def StatusUpdateMaxRetries_def numeral_3_eq_3
      sameStorageDrainRevision_def sample_api_def)

lemma sample_safety_round:
  "\<exists>cluster' coord'. requireClusterStorageDrainSafety (\<lambda>s. s) (\<lambda>s. []) (\<lambda>g. None) (Some sample_api)
      (Some (sample_no_nodes sample_cluster)) 140 (Some NewLayoutMutationCoordinator)
      (sample_owner (Some sample_repaired_proof)) sample_drain_actor (\<lambda>w. (Inr sample_round, w)) (\<lambda>n w. (None, w))
      (\<lambda>w. (Inr (Some sample_live_health), w)) 100 () = (None, cluster', coord', ())"
proof -
  let ?p = sample_repaired_proof
  have live: "storageDrainLiveSourceNodeIDs (Some ?p) = [sample_id CHR ''a'']"
    by (simp add: storageDrainLiveSourceNodeIDs_def storageDrainUnavailableSourceIncludes_def ids_include_def
        sample_repaired_proof_def sample_proof_def)
  have scope: "scopeBlockResyncObservation (Some ?p) (Some sample_round) = Inr sample_round"
    using live
    by (simp add: scopeBlockResyncObservation_def Let_def sample_round_def sample_observation_def sample_node_up_def
        node_evidence_error_def sum_counters_def node_evidence_def gomap_get_def fail_if_def del: ids.set_norm)
       (simp add: sample_repaired_proof_def sample_proof_def)
  have actor: "sameStorageDrainActor (bp_Actor ?p) sample_drain_actor" "bp_RemovedStorageNodeIDs ?p \<noteq> []"
      "sameStringMap (bp_ManagedPodUIDs ?p) []"
    by (simp_all add: sameStorageDrainActor_iff sample_repaired_proof_def sample_proof_def sample_drain_actor_def
        sameStringMap_def intent_proof_def)
  have tags: "ob_CurrentRoleTags sample_round = []" by (simp add: sample_round_def sample_observation_def)
  have health: "requireLiveStorageDrainHealth (\<lambda>w. (Inr (Some sample_live_health), w)) () = (None, ())"
    by (simp add: requireLiveStorageDrainHealth_def fully_healthy_def sample_live_health_def healthStatusHealthy_def)
  have quiet: "effectiveBlockResyncQuietPeriod 100 rpc = 100" for rpc
    by (simp add: effectiveBlockResyncQuietPeriod_def)
  let ?d = "evaluateBlockResyncProgress (\<lambda>s. s) (Some ?p) sample_round 140 100 True"
  have ready: "dec_Ready ?d" using sample_round_complete by (simp add: ready_iff_complete)
  obtain q where q: "dec_Proof ?d = Some q" using ready_decision(2) [OF ready] by blast
  have "\<exists>cluster' coord'. decide_round (\<lambda>s. s) (\<lambda>s. []) (Some sample_api) 140 (Some NewLayoutMutationCoordinator)
      (sample_owner (Some ?p)) sample_drain_actor (\<lambda>n w. (None, w)) ?d () = (None, cluster', coord', ())"
    using ready q ready_decision(1) [OF ready]
    by (simp add: decide_round_def sample_persists Let_def BeginStorageDrain_def ConfirmStorageDrain_def
        NewLayoutMutationCoordinator_def matches_iff)
  moreover have "bp_TargetHash ?p = storageDrainProofTargetHash (\<lambda>s. s) (Some ?p)"
    using sample_round_complete by (simp add: drain_complete_def)
  ultimately show ?thesis
    using actor live scope tags health
    by (simp add: requireClusterStorageDrainSafety_def sample_owner_facts Let_def sample_unverified quiet)
qed




end
