(* ===== verification/FactorMigration.thy ===== *)
theory FactorMigration
  imports Prelude
begin

text \<open>
  Package internal/factormigration (contract.go): the request contract of a coordinated
  replication-factor migration.  \<open>Parse\<close> reads the purge annotation, \<open>ValidateUpdate\<close> is
  the admission rule that ties a factor change to that annotation.
\<close>

definition Annotation :: string where
  "Annotation = ''garage.rajsingh.info/purge-cluster-layout''"

record Request =
  req_Factor :: int
  req_Force :: bool

datatype migration_error =
    DuplicateForce
  | DuplicateFactor
  | FactorNotPositive
  | UnexpectedComponent
  | MissingFactor
  | AnnotationRequired int int
  | FactorMismatch int int

text \<open>The loop over the comma-separated components, with its two flags.\<close>

fun parse_components ::
    "string list \<Rightarrow> Request \<Rightarrow> bool \<Rightarrow> bool \<Rightarrow> migration_error + Request" where
  "parse_components [] request seenFactor seenForce =
     (if \<not> seenFactor then Inl MissingFactor else Inr request)"
| "parse_components (raw # rest) request seenFactor seenForce =
     (let part = TrimSpace raw in
      if part = ''force'' then
        (if seenForce then Inl DuplicateForce
         else parse_components rest (request\<lparr>req_Force := True\<rparr>) seenFactor True)
      else if prefix ''factor='' part then
        (if seenFactor then Inl DuplicateFactor
         else (case Atoi (TrimSpace (TrimPrefix ''factor='' part)) of
                 None \<Rightarrow> Inl FactorNotPositive
               | Some factor \<Rightarrow>
                   if factor < 1 then Inl FactorNotPositive
                   else parse_components rest (request\<lparr>req_Factor := factor\<rparr>) True seenForce))
      else Inl UnexpectedComponent)"

definition Parse :: "string \<Rightarrow> migration_error + Request" where
  "Parse value = parse_components (split_on CHR '','' value) \<lparr>req_Factor = 0, req_Force = False\<rparr> False False"

definition ValidateUpdate ::
    "int \<Rightarrow> int \<Rightarrow> (string, string) gomap \<Rightarrow> migration_error option" where
  "ValidateUpdate oldFactor newFactor annotations =
     (if oldFactor = 0 \<or> oldFactor = newFactor then None
      else let value = gomap_get [] annotations Annotation in
        if value = [] then Some (AnnotationRequired oldFactor newFactor)
        else (case Parse value of
                Inl e \<Rightarrow> Some e
              | Inr request \<Rightarrow>
                  if req_Factor request \<noteq> newFactor then Some (FactorMismatch (req_Factor request) newFactor)
                  else None))"

subsection \<open>What the parser accepts\<close>

definition is_factor_part :: "string \<Rightarrow> bool" where
  "is_factor_part p \<longleftrightarrow> prefix ''factor='' p"

definition factor_of_part :: "string \<Rightarrow> int option" where
  "factor_of_part p =
     (case Atoi (TrimSpace (TrimPrefix ''factor='' p)) of
        None \<Rightarrow> None | Some n \<Rightarrow> if n < 1 then None else Some n)"

definition request_parts :: "string list \<Rightarrow> string list" where
  "request_parts raws = map TrimSpace raws"

lemma force_not_factor [simp]: "\<not> is_factor_part ''force''"
  by (simp add: is_factor_part_def)

lemma parse_components_factor_done:
  "parse_components raws r True f = Inr r' \<longleftrightarrow>
     (\<forall>p \<in> set (request_parts raws). p = ''force'')
     \<and> length raws \<le> (if f then 0 else 1)
     \<and> r' = (if raws = [] then r else r\<lparr>req_Force := True\<rparr>)"
proof (induction raws arbitrary: r f)
  case (Cons a raws)
  show ?case
    using Cons by (cases "TrimSpace a = ''force''"; cases f)
      (auto simp: Let_def request_parts_def)
qed (auto simp: request_parts_def)

lemma parse_components_iff:
  "parse_components raws r False f = Inr r' \<longleftrightarrow>
     (let ps = request_parts raws in
      (\<forall>p \<in> set ps. p = ''force'' \<or> is_factor_part p)
      \<and> (\<exists>p n. filter is_factor_part ps = [p] \<and> factor_of_part p = Some n \<and> req_Factor r' = n)
      \<and> length (filter ((=) ''force'') ps) \<le> (if f then 0 else 1)
      \<and> r' = r\<lparr>req_Factor := req_Factor r', req_Force := req_Force r \<or> ''force'' \<in> set ps\<rparr>)"
proof (induction raws arbitrary: r f)
  case Nil
  then show ?case by (simp add: request_parts_def)
next
  case (Cons a raws)
  consider (force) "TrimSpace a = ''force''"
    | (factor) "TrimSpace a \<noteq> ''force''" "is_factor_part (TrimSpace a)"
    | (other) "TrimSpace a \<noteq> ''force''" "\<not> is_factor_part (TrimSpace a)"
    by blast
  then show ?case
  proof cases
    case force
    then show ?thesis
      using Cons.IH [of "r\<lparr>req_Force := True\<rparr>" True]
      by (cases f) (auto simp: Let_def request_parts_def filter_empty_conv)
  next
    case factor
    let ?qs = "map TrimSpace raws"
    have lhs: "parse_components (a # raws) r False f = Inr r' \<longleftrightarrow>
        (\<exists>n. factor_of_part (TrimSpace a) = Some n \<and> parse_components raws (r\<lparr>req_Factor := n\<rparr>) True f = Inr r')"
      using factor
      by (auto simp: Let_def is_factor_part_def factor_of_part_def split: option.splits if_splits)
    have all: "filter is_factor_part ?qs = [] \<and> (\<forall>p \<in> set ?qs. p = ''force'' \<or> is_factor_part p)
        \<longleftrightarrow> (\<forall>p \<in> set ?qs. p = ''force'')"
      by (auto simp: filter_empty_conv)
    have cnt: "\<forall>p \<in> set ?qs. p = ''force'' \<Longrightarrow>
        length (filter ((=) ''force'') ?qs) = length raws \<and> (''force'' \<in> set ?qs \<longleftrightarrow> raws \<noteq> [])"
      by (cases raws) auto
    have upd: "r' = (if raws = [] then r\<lparr>req_Factor := n\<rparr> else r\<lparr>req_Factor := n, req_Force := True\<rparr>)
        \<longleftrightarrow> req_Factor r' = n \<and> r' = r\<lparr>req_Factor := req_Factor r', req_Force := req_Force r \<or> raws \<noteq> []\<rparr>" for n
      by (cases r; cases r') auto
    have len: "length (filter ((=) ''force'' \<circ> TrimSpace) raws) = length (filter ((=) ''force'') ?qs)"
      by (simp add: filter_map)
    show ?thesis
    proof (cases "\<forall>p \<in> set ?qs. p = ''force''")
      case True
      then have "filter is_factor_part ?qs = []" "\<forall>p \<in> set ?qs. p = ''force'' \<or> is_factor_part p"
        using all by blast+
      with True show ?thesis
        unfolding lhs parse_components_factor_done request_parts_def upd Let_def
        using factor cnt [OF True] by (cases f) (auto simp: len)
    next
      case False
      then have "\<not> (filter is_factor_part ?qs = [] \<and> (\<forall>p \<in> set ?qs. p = ''force'' \<or> is_factor_part p))"
        using all by blast
      with False show ?thesis
        unfolding lhs parse_components_factor_done request_parts_def upd Let_def
        using factor by auto
    qed
  next
    case other
    then show ?thesis by (auto simp: Let_def request_parts_def is_factor_part_def)
  qed
qed


lemma Parse_iff:
  "Parse value = Inr r \<longleftrightarrow>
     (let ps = map TrimSpace (split_on CHR '','' value) in
      (\<forall>p \<in> set ps. p = ''force'' \<or> is_factor_part p)
      \<and> (\<exists>p. filter is_factor_part ps = [p] \<and> factor_of_part p = Some (req_Factor r))
      \<and> length (filter ((=) ''force'') ps) \<le> 1
      \<and> (req_Force r \<longleftrightarrow> ''force'' \<in> set ps))"
  unfolding Parse_def parse_components_iff request_parts_def Let_def
  by (cases r) auto

lemma factor_of_part_bounds: "factor_of_part p = Some n \<Longrightarrow> 1 \<le> n \<and> n < 2 ^ 63"
  using Atoi_bounds by (fastforce simp: factor_of_part_def split: option.splits if_splits)

subsection \<open>Properties\<close>

text \<open>The text of a request, as ValidateUpdate's message and the documentation render it.\<close>

definition render_request :: "nat \<Rightarrow> bool \<Rightarrow> string" where
  "render_request n force = ''factor='' @ show_nat n @ (if force then '',force'' else [])"

lemma no_comma_show_nat: "CHR '','' \<notin> set (show_nat n)"
  using show_nat_digits [of n] by (auto simp: list_all_iff)

lemma TrimSpace_factor: "TrimSpace (''factor='' @ show_nat n) = ''factor='' @ show_nat n"
  by (rule TrimSpace_no_space)
     (use show_nat_digits [of n] in \<open>auto simp: list_all_iff is_space_code is_digit_def\<close>)

lemma TrimSpace_show_nat: "TrimSpace (show_nat n) = show_nat n"
  by (rule TrimSpace_no_space)
     (use show_nat_digits [of n] in \<open>auto simp: list_all_iff is_digit_not_space\<close>)

lemma factor_of_rendered: "1 \<le> n \<Longrightarrow> int n < 2 ^ 63 \<Longrightarrow> factor_of_part (''factor='' @ show_nat n) = Some (int n)"
  by (simp add: factor_of_part_def TrimPrefix_def TrimSpace_show_nat Atoi_show_nat)

text \<open>
  Parse accepts an annotation exactly when it has one meaning: every comma-separated
  component is, up to surrounding blanks, \<open>force\<close> or a \<open>factor=\<close> component; there is exactly
  one \<open>factor=\<close> component and its value is a positive 64-bit integer, which is the factor of
  the request; \<open>force\<close> occurs at most once, and sets the flag.
\<close>

theorem parse_accepts_iff:
  "Parse value = Inr r \<longleftrightarrow>
     (let ps = map TrimSpace (split_on CHR '','' value) in
      (\<forall>p. p \<in> set ps \<longrightarrow> p = ''force'' \<or> prefix ''factor='' p)
      \<and> (\<exists>p. filter (prefix ''factor='') ps = [p]
             \<and> Atoi (TrimSpace (TrimPrefix ''factor='' p)) = Some (req_Factor r) \<and> 1 \<le> req_Factor r)
      \<and> length (filter ((=) ''force'') ps) = (if req_Force r then 1 else 0))"
proof -
  have fp: "is_factor_part = prefix ''factor=''" by (simp add: fun_eq_iff is_factor_part_def)
  have fo: "factor_of_part p = Some n \<longleftrightarrow> Atoi (TrimSpace (TrimPrefix ''factor='' p)) = Some n \<and> 1 \<le> n" for p n
    by (auto simp: factor_of_part_def split: option.splits)
  have len: "length (filter ((=) ''force'') ps) \<le> 1 \<and> (b \<longleftrightarrow> ''force'' \<in> set ps)
      \<longleftrightarrow> length (filter ((=) ''force'') ps) = (if b then 1 else 0)" for ps b
    by (auto simp: filter_empty_conv le_Suc_eq filter_eq_Cons_iff length_Suc_conv)
  show ?thesis
    unfolding Parse_iff Let_def fp fo by (simp only: len [symmetric]) auto
qed

theorem parse_accepts_iff_witness:
  "Parse '' factor=3 ,force'' = Inr \<lparr>req_Factor = 3, req_Force = True\<rparr>
   \<and> length (filter ((=) ''force'') (map TrimSpace (split_on CHR '','' '' factor=3 ,force''))) = 1"
proof -
  have "Parse '' factor=3 ,force'' = Inr \<lparr>req_Factor = 3, req_Force = True\<rparr>" by code_simp
  with parse_accepts_iff [of "'' factor=3 ,force''" "\<lparr>req_Factor = 3, req_Force = True\<rparr>"]
  show ?thesis by (simp add: Let_def)
qed

text \<open>
  C13: Round trip: the text \<open>factor=N\<close> or \<open>factor=N,force\<close> of a request with a positive factor
  in the range of an int parses back to that request.
\<close>

theorem parse_render:
  assumes "1 \<le> n" and "int n < 2 ^ 63"
  shows "Parse (render_request n force) = Inr \<lparr>req_Factor = int n, req_Force = force\<rparr>"
proof -
  have parts: "map TrimSpace (split_on CHR '','' (render_request n force))
      = (''factor='' @ show_nat n) # (if force then [''force''] else [])"
    using no_comma_show_nat [of n] split_on_append [of "CHR '',''" "''factor='' @ show_nat n" "''force''"]
      TrimSpace_factor [of n]
    by (auto simp: render_request_def split_on_no_sep TrimSpace_no_space is_space_def)
  show ?thesis
    unfolding Parse_iff Let_def parts
    using factor_of_rendered [OF assms] by (auto simp: is_factor_part_def)
qed

theorem parse_render_witness:
  "(1::nat) \<le> 3 \<and> Parse (render_request 3 True) = Inr \<lparr>req_Factor = 3, req_Force = True\<rparr>"
  using parse_render [of 3 True] by simp

text \<open>
  The admission rule for a factor change: an update is admitted exactly when the factor was
  unset before, is unchanged, or the same update carries a purge annotation that parses and
  requests exactly the new factor.
\<close>

theorem validate_update_iff:
  "ValidateUpdate oldF newF ann = None \<longleftrightarrow>
     oldF = 0 \<or> oldF = newF
     \<or> (\<exists>v r. map_of ann Annotation = Some v \<and> v \<noteq> [] \<and> Parse v = Inr r \<and> req_Factor r = newF)"
  by (auto simp: ValidateUpdate_def gomap_get_def Let_def split: option.splits sum.splits if_splits)

end
