(* ===== verification/FactorMachine.thy ===== *)
theory FactorMachine
  imports Workload DrainTransaction FactorMigration
begin

text \<open>
  The coordinated replication-factor migration (internal/controller/garagecluster_factor_migration.go):
  the phases Validating, ScalingDown, Purging, Verifying, RebuildingLayout and Converging, their
  deadlines, the abort and failure paths with their teardown, and the dispatcher
  reconcileFactorMigration that drives one step per reconcile.  Texts of status messages are rendered
  by a parameter; the exact-Pod bootstrap client and the best-effort Tables repair are parameters too.
\<close>

subsection \<open>Phases, messages and results\<close>

definition fmPhaseValidating :: string where "fmPhaseValidating = ''Validating''"
definition fmPhaseScalingDown :: string where "fmPhaseScalingDown = ''ScalingDown''"
definition fmPhasePurging :: string where "fmPhasePurging = ''Purging''"
definition fmPhaseVerifying :: string where "fmPhaseVerifying = ''Verifying''"
definition fmPhaseRebuildingLayout :: string where "fmPhaseRebuildingLayout = ''RebuildingLayout''"
definition fmPhaseConverging :: string where "fmPhaseConverging = ''Converging''"

lemmas phase_defs = fmPhaseValidating_def fmPhaseScalingDown_def fmPhasePurging_def fmPhaseVerifying_def
  fmPhaseRebuildingLayout_def fmPhaseConverging_def fmPhaseCompleted_def fmPhaseFailed_def

definition fmStuckTimeout :: int where "fmStuckTimeout = 15 * 60 * time_Second"
definition fmValidateGrace :: int where "fmValidateGrace = 2 * 60 * time_Second"

datatype requeue = NoRequeue | RequeueNow | RequeueAfter int

datatype rebuild_wait =
    PodSetUnprovable string
  | BootstrapClientUnavailable string
  | CoordinatorBusy acquire_error
  | HistoryNotSettled "string mutation_error"
  | NoIdentityObserved
  | LayoutUnreadable string
  | RebuildNotApplied "string apply_error"

datatype fm_message =
    AbortedByOperator
  | BadAnnotation migration_error
  | WaitingForSpecFactor int int
  | SpecFactorMismatch int int
  | OnlyAutoLayout
  | RemoteClustersPresent
  | StorageTierMissing
  | NodeLocalPoolsPresent
  | DangerousNeedsForce
  | TombstonesPending
  | TooFewStorageNodes nat int
  | ConfigOverridesPresent string
  | Validated int nat
  | AllPodsTerminated
  | PodsRestarting
  | AllPodsReady
  | RebuildWaiting rebuild_wait
  | LayoutRebuilt int nat
  | FactorMigrated int
  | PhaseExceeded string

record 'w admin_client =
  ac_GetHistory :: "'w \<Rightarrow> (string + LayoutHistoryResponse) \<times> 'w"
  ac_GetLayout :: "'w \<Rightarrow> (string + ClusterLayout) \<times> 'w"
  ac_UpdateLayout :: "NodeRoleChange list \<Rightarrow> 'w \<Rightarrow> string option \<times> 'w"
  ac_ApplyLayout :: "u64 \<Rightarrow> 'w \<Rightarrow> string option \<times> 'w"

record 'w migration_env =
  me_Workload :: "'w workload_env"
  me_Bootstrap :: "GarageCluster \<Rightarrow> 'w \<Rightarrow> (rebuild_wait + 'w admin_client) \<times> 'w"
  me_TablesRepair :: "GarageCluster \<Rightarrow> 'w \<Rightarrow> 'w"
  me_Text :: "fm_message \<Rightarrow> string"
  me_Hash :: "string \<Rightarrow> string"
  me_Quote :: "string \<Rightarrow> string"

type_synonym 'w phase_result = "(workload_error + requeue) \<times> GarageCluster \<times> 'w"

subsection \<open>Status and annotations\<close>

definition empty_migration :: FactorMigrationStatus where
  "empty_migration = \<lparr>fms_Phase = [], fms_FromFactor = 0, fms_ToFactor = 0, fms_Force = False, fms_PurgeID = [],
     fms_StartedAt = None, fms_PhaseStartedAt = None, fms_CompletedAt = None, fms_Message = []\<rparr>"

definition stamp_migration ::
    "instant \<Rightarrow> (FactorMigrationStatus \<Rightarrow> FactorMigrationStatus) \<Rightarrow> GarageCluster \<Rightarrow> GarageCluster" where
  "stamp_migration now mutate cluster =
     (let fm = (case cst_FactorMigration (gc_Status cluster) of None \<Rightarrow> empty_migration | Some fm \<Rightarrow> fm);
          fm1 = mutate fm;
          fm2 = (if fms_Phase fm1 \<noteq> fms_Phase fm then fm1\<lparr>fms_PhaseStartedAt := Some now\<rparr> else fm1) in
      cluster\<lparr>gc_Status := (gc_Status cluster)\<lparr>cst_FactorMigration := Some fm2\<rparr>\<rparr>)"

text \<open>A failure of the status update is only logged.\<close>

definition setFactorMigration ::
    "'w migration_env \<Rightarrow> instant \<Rightarrow> (FactorMigrationStatus \<Rightarrow> FactorMigrationStatus) \<Rightarrow> GarageCluster \<Rightarrow> 'w
     \<Rightarrow> GarageCluster \<times> 'w" where
  "setFactorMigration env now mutate cluster w =
     (case UpdateStatusWithRetry (we_Kube (me_Workload env)) (stamp_migration now mutate cluster)
             [stamp_migration now mutate] w of
        (e, cluster1, w1) \<Rightarrow> (cluster1, w1))"

definition enter_phase ::
    "'w migration_env \<Rightarrow> instant \<Rightarrow> string \<Rightarrow> fm_message \<Rightarrow> GarageCluster \<Rightarrow> 'w \<Rightarrow> 'w phase_result" where
  "enter_phase env now phase msg cluster w =
     (case setFactorMigration env now (\<lambda>m. m\<lparr>fms_Phase := phase, fms_Message := me_Text env msg\<rparr>) cluster w of
        (cluster1, w1) \<Rightarrow> (Inr RequeueNow, cluster1, w1))"

definition removeAnnotations ::
    "'w workload_env \<Rightarrow> string list \<Rightarrow> GarageCluster \<Rightarrow> 'w \<Rightarrow> workload_error option \<times> GarageCluster \<times> 'w" where
  "removeAnnotations env keys cluster w =
     (if \<not> list_ex (\<lambda>k. gomap_has (gc_Annotations cluster) k) keys then (None, cluster, w)
      else let cluster1 = cluster\<lparr>gc_Annotations := fold gomap_delete keys (gc_Annotations cluster)\<rparr> in
        (case we_UpdateCluster env cluster1 w of (e, w1) \<Rightarrow> (map_option AnnotationsNotRemoved e, cluster1, w1)))"

definition finish_with ::
    "requeue \<Rightarrow> workload_error option \<times> GarageCluster \<times> 'w \<Rightarrow> 'w phase_result" where
  "finish_with res r = (case r of (None, cluster, w) \<Rightarrow> (Inr res, cluster, w) | (Some e, cluster, w) \<Rightarrow> (Inl e, cluster, w))"

definition failFactorMigration ::
    "'w migration_env \<Rightarrow> instant \<Rightarrow> fm_message \<Rightarrow> GarageCluster \<Rightarrow> 'w \<Rightarrow> 'w phase_result" where
  "failFactorMigration env now msg cluster w =
     (case teardownFactorMigration (me_Quote env) (me_Workload env) cluster w of
        (Some e, w1) \<Rightarrow> (Inr (RequeueAfter (5 * time_Second)), cluster, w1)
      | (None, w1) \<Rightarrow>
          (case setFactorMigration env now (\<lambda>fm. fm\<lparr>fms_Phase := fmPhaseFailed, fms_Message := me_Text env msg,
                  fms_CompletedAt := Some now\<rparr>) cluster w1 of
             (cluster1, w2) \<Rightarrow> (Inr NoRequeue, cluster1, w2)))"

definition stuck_since :: "FactorMigrationStatus \<Rightarrow> instant option" where
  "stuck_since fm = (case fms_PhaseStartedAt fm of Some t \<Rightarrow> Some t | None \<Rightarrow> fms_StartedAt fm)"

definition phase_stuck :: "instant \<Rightarrow> GarageCluster \<Rightarrow> bool" where
  "phase_stuck now cluster =
     (case cst_FactorMigration (gc_Status cluster) of
        None \<Rightarrow> False
      | Some fm \<Rightarrow> (case stuck_since fm of None \<Rightarrow> False | Some since \<Rightarrow> \<not> time_Sub now since \<le> fmStuckTimeout))"

definition migration_phase :: "GarageCluster \<Rightarrow> string" where
  "migration_phase cluster =
     (case cst_FactorMigration (gc_Status cluster) of None \<Rightarrow> [] | Some fm \<Rightarrow> fms_Phase fm)"

text \<open>No value means that the phase is not stuck and its handler goes on.\<close>

definition fmCheckStuck ::
    "'w migration_env \<Rightarrow> instant \<Rightarrow> GarageCluster \<Rightarrow> 'w \<Rightarrow> 'w phase_result option" where
  "fmCheckStuck env now cluster w =
     (if \<not> phase_stuck now cluster then None
      else Some (failFactorMigration env now (PhaseExceeded (migration_phase cluster)) cluster w))"

definition replicationFactorOf :: "GarageCluster \<Rightarrow> int" where
  "replicationFactorOf cluster =
     (case cs_Replication (gc_Spec cluster) of None \<Rightarrow> 0 | Some r \<Rightarrow> rep_Factor r)"

text \<open>Unix() counts seconds from 1970; the zero time is 62135596800 seconds earlier.\<close>

definition time_Unix :: "instant \<Rightarrow> int" where
  "time_Unix t = t div time_Second - 62135596800"

definition show_int :: "int \<Rightarrow> string" where
  "show_int i = (if i < 0 then CHR ''-'' # show_nat (nat (- i)) else show_nat (nat i))"

definition purgeIDFromStart :: "FactorMigrationStatus option \<Rightarrow> string" where
  "purgeIDFromStart fm =
     (case fm of
        Some m \<Rightarrow> (case fms_StartedAt m of Some t \<Rightarrow> ''p'' @ show_int (time_Unix t) | None \<Rightarrow> ''p0'')
      | None \<Rightarrow> ''p0'')"

subsection \<open>Validating\<close>

definition LayoutPolicyManual :: string where "LayoutPolicyManual = ''Manual''"
definition consistencyModeDangerous :: string where "consistencyModeDangerous = ''dangerous''"

text \<open>The guards that need no read, in the order of the code.\<close>

definition static_refusal :: "GarageCluster \<Rightarrow> bool \<Rightarrow> fm_message option" where
  "static_refusal cluster force =
     (if cs_LayoutPolicy (gc_Spec cluster) = LayoutPolicyManual then Some OnlyAutoLayout
      else if 0 < length (cs_RemoteClusters (gc_Spec cluster)) then Some RemoteClustersPresent
      else if \<not> HasStorageTier (Some cluster) then Some StorageTierMissing
      else if HasNodeLocalPools (Some cluster) then Some NodeLocalPoolsPresent
      else if \<not> force \<and> map_option rep_ConsistencyMode (cs_Replication (gc_Spec cluster)) = Some consistencyModeDangerous
      then Some DangerousNeedsForce
      else if \<not> force \<and> 0 < length (cst_PendingGatewayTombstones (gc_Status cluster)) then Some TombstonesPending
      else None)"

definition overriding_node :: "node_map \<Rightarrow> string option" where
  "overriding_node nodes =
     find (\<lambda>name. case map_of nodes name of None \<Rightarrow> False | Some n \<Rightarrow> nodeHasConfigOverrides n)
       (sortedFactorMigrationNodeNames nodes)"

definition fmValidate :: "'w migration_env \<Rightarrow> instant \<Rightarrow> GarageCluster \<Rightarrow> 'w \<Rightarrow> 'w phase_result" where
  "fmValidate env now cluster w =
     (case cst_FactorMigration (gc_Status cluster) of
        None \<Rightarrow> (Inl NilMigration, cluster, w)
      | Some fm \<Rightarrow>
          let toFactor = fms_ToFactor fm in
          if map_option rep_Factor (cs_Replication (gc_Spec cluster)) \<noteq> Some toFactor then
            (if (case fms_StartedAt fm of None \<Rightarrow> False | Some t \<Rightarrow> time_Sub now t < fmValidateGrace)
             then (case setFactorMigration env now
                          (\<lambda>m. m\<lparr>fms_Message := me_Text env (WaitingForSpecFactor toFactor (replicationFactorOf cluster))\<rparr>)
                          cluster w of
                     (cluster1, w1) \<Rightarrow> (Inr (RequeueAfter (5 * time_Second)), cluster1, w1))
             else failFactorMigration env now (SpecFactorMismatch toFactor (replicationFactorOf cluster)) cluster w)
          else
     (case static_refusal cluster (fms_Force fm) of
        Some msg \<Rightarrow> failFactorMigration env now msg cluster w
      | None \<Rightarrow>
     (case listAutoModeStorageNodes (me_Workload env) cluster w of
        (Inl e, w1) \<Rightarrow> (Inl e, cluster, w1)
      | (Inr nodes, w1) \<Rightarrow>
          if int (length nodes) < toFactor
          then failFactorMigration env now (TooFewStorageNodes (length nodes) toFactor) cluster w1
          else (case overriding_node nodes of
                  Some name \<Rightarrow> failFactorMigration env now (ConfigOverridesPresent name) cluster w1
                | None \<Rightarrow>
                    (case setFactorMigration env now
                            (\<lambda>m. m\<lparr>fms_Phase := fmPhaseScalingDown, fms_PurgeID := purgeIDFromStart (Some m),
                                   fms_Message := me_Text env (Validated toFactor (length nodes))\<rparr>) cluster w1 of
                       (cluster1, w2) \<Rightarrow> (Inr RequeueNow, cluster1, w2))))))"

subsection \<open>ScalingDown, Purging and Verifying\<close>

definition quiesce_member ::
    "'w workload_env \<Rightarrow> GarageCluster \<Rightarrow> string \<Rightarrow> string \<times> GarageNode \<Rightarrow> 'w \<Rightarrow> workload_error option \<times> 'w" where
  "quiesce_member env cluster purgeID entry w =
     (case suspend_node env purgeID entry w of
        (Some e, w1) \<Rightarrow> (Some e, w1)
      | (None, w1) \<Rightarrow> scaleStorageSTSForNode env cluster 0 (Some (snd entry)) w1)"

definition fmScaleDown :: "'w migration_env \<Rightarrow> instant \<Rightarrow> GarageCluster \<Rightarrow> 'w \<Rightarrow> 'w phase_result" where
  "fmScaleDown env now cluster w =
     (case cst_FactorMigration (gc_Status cluster) of
        None \<Rightarrow> (Inl NilMigration, cluster, w)
      | Some fm \<Rightarrow>
     (case fmCheckStuck env now cluster w of
        Some r \<Rightarrow> r
      | None \<Rightarrow>
     (case listAutoModeStorageNodes (me_Workload env) cluster w of
        (Inl e, w1) \<Rightarrow> (Inl e, cluster, w1)
      | (Inr nodes, w1) \<Rightarrow>
     (case each_member (quiesce_member (me_Workload env) cluster (fms_PurgeID fm)) nodes w1 of
        (Some e, w2) \<Rightarrow> (Inl e, cluster, w2)
      | (None, w2) \<Rightarrow>
     (case countStoragePods (me_Workload env) cluster w2 of
        (Inl e, w3) \<Rightarrow> (Inl e, cluster, w3)
      | (Inr remaining, w3) \<Rightarrow>
          if 0 < remaining then (Inr (RequeueAfter (5 * time_Second)), cluster, w3)
          else enter_phase env now fmPhasePurging AllPodsTerminated cluster w3)))))"

text \<open>The two preparation passes run over all members, and only while the whole tier is at zero.\<close>

definition prepare_members ::
    "'w migration_env \<Rightarrow> GarageCluster \<Rightarrow> string \<Rightarrow> GarageNode option list \<Rightarrow> 'w \<Rightarrow> workload_error option \<times> 'w" where
  "prepare_members env cluster purgeID ns w =
     (case each_member (patchSTSConfigRevisionForFactorMigration (me_Hash env) (me_Workload env) cluster) ns w of
        (Some e, w1) \<Rightarrow> (Some e, w1)
      | (None, w1) \<Rightarrow>
          each_member (patchSTSPurgeInitContainerForNode (me_Quote env) (me_Workload env) cluster purgeID True) ns w1)"

definition fmPurge :: "'w migration_env \<Rightarrow> instant \<Rightarrow> GarageCluster \<Rightarrow> 'w \<Rightarrow> 'w phase_result" where
  "fmPurge env now cluster w =
     (case fmCheckStuck env now cluster w of
        Some r \<Rightarrow> r
      | None \<Rightarrow>
     (case cst_FactorMigration (gc_Status cluster) of
        None \<Rightarrow> (Inl NilMigration, cluster, w)
      | Some fm \<Rightarrow>
     (case listAutoModeStorageNodes (me_Workload env) cluster w of
        (Inl e, w1) \<Rightarrow> (Inl e, cluster, w1)
      | (Inr nodes, w1) \<Rightarrow>
     (case any_running (me_Workload env) cluster (members nodes) False w1 of
        (Inl e, w2) \<Rightarrow> (Inl e, cluster, w2)
      | (Inr running, w2) \<Rightarrow>
     (case (if running then (None, w2) else prepare_members env cluster (fms_PurgeID fm) (members nodes) w2) of
        (Some e, w3) \<Rightarrow> (Inl e, cluster, w3)
      | (None, w3) \<Rightarrow>
     (case each_member (verifyFactorMigrationPurgePreparation (me_Hash env) (me_Quote env) (me_Workload env) cluster
                          (fms_PurgeID fm) (\<not> running)) (members nodes) w3 of
        (Some e, w4) \<Rightarrow> (Inl e, cluster, w4)
      | (None, w4) \<Rightarrow>
     (case each_member (scaleStorageSTSForNode (me_Workload env) cluster 1) (members nodes) w4 of
        (Some e, w5) \<Rightarrow> (Inl e, cluster, w5)
      | (None, w5) \<Rightarrow> enter_phase env now fmPhaseVerifying PodsRestarting cluster w5)))))))"

definition fmVerify :: "'w migration_env \<Rightarrow> instant \<Rightarrow> GarageCluster \<Rightarrow> 'w \<Rightarrow> 'w phase_result" where
  "fmVerify env now cluster w =
     (case fmCheckStuck env now cluster w of
        Some r \<Rightarrow> r
      | None \<Rightarrow>
     (case listAutoModeStorageNodes (me_Workload env) cluster w of
        (Inl e, w1) \<Rightarrow> (Inl e, cluster, w1)
      | (Inr nodes, w1) \<Rightarrow>
     (case countReadyStoragePods (me_Workload env) cluster w1 of
        (Inl e, w2) \<Rightarrow> (Inl e, cluster, w2)
      | (Inr ready, w2) \<Rightarrow>
          if ready < length nodes then (Inr (RequeueAfter (5 * time_Second)), cluster, w2)
          else enter_phase env now fmPhaseRebuildingLayout AllPodsReady cluster w2)))"

subsection \<open>RebuildingLayout and Converging\<close>

definition calculateNodeCapacity :: "GarageCluster \<Rightarrow> u64" where
  "calculateNodeCapacity cluster =
     (let defaultCapacity = 10 * 1024 * 1024 * 1024 :: u64 in
      case cs_Storage (gc_Spec cluster) of
        None \<Rightarrow> defaultCapacity
      | Some storage \<Rightarrow>
     (case st_Data storage of
        None \<Rightarrow> defaultCapacity
      | Some data \<Rightarrow>
     (case ds_Size data of
        Some bytes \<Rightarrow> word_of_int bytes
      | None \<Rightarrow>
          let total = fold (\<lambda>path total. case dp_Capacity path of
                                 Some c \<Rightarrow> total + word_of_int c
                               | None \<Rightarrow> (case dp_VolumeSize path of
                                            Some s \<Rightarrow> if s \<noteq> 0 then total + word_of_int s else total
                                          | None \<Rightarrow> total)) (ds_Paths data) (0 :: u64) in
          if 0 < total then total else defaultCapacity)))"

definition calculateEffectiveCapacity :: "u64 \<Rightarrow> int \<Rightarrow> u64" where
  "calculateEffectiveCapacity capacity reservePercent =
     (if 0 < reservePercent \<and> reservePercent \<le> 50
      then capacity * word_of_int (100 - reservePercent) div 100
      else capacity)"

definition role_change :: "u64 option \<Rightarrow> GarageNode \<Rightarrow> NodeRoleChange" where
  "role_change capacity n = \<lparr>rc_ID = gn_StatusNodeID n, rc_Zone = ns_Zone (gn_Spec n), rc_Capacity = capacity,
     rc_Tags = ns_Tags (gn_Spec n), rc_Remove = False\<rparr>"

definition buildRebuildRoleChanges ::
    "'w workload_env \<Rightarrow> GarageCluster \<Rightarrow> 'w \<Rightarrow> (workload_error + NodeRoleChange list) \<times> 'w" where
  "buildRebuildRoleChanges env cluster w =
     (case listAutoModeStorageNodes env cluster w of
        (Inl e, w1) \<Rightarrow> (Inl e, w1)
      | (Inr storage, w1) \<Rightarrow>
          let reserve = (case cs_Storage (gc_Spec cluster) of None \<Rightarrow> 0 | Some s \<Rightarrow> st_CapacityReservePercent s);
              effective = calculateEffectiveCapacity (calculateNodeCapacity cluster) reserve in
          if list_ex (\<lambda>(name, n). gn_StatusNodeID n = []) storage then (Inr [], w1)
          else
     (case listAutoModeGatewayNodes env cluster w1 of
        (Inl e, w2) \<Rightarrow> (Inl e, w2)
      | (Inr gateway, w2) \<Rightarrow>
          (Inr (map (\<lambda>(name, n). role_change (Some effective) n) storage
                @ map (\<lambda>(name, n). role_change None n) (filter (\<lambda>(name, n). gn_StatusNodeID n \<noteq> []) gateway)), w2)))"

definition rebuild_waiting ::
    "'w migration_env \<Rightarrow> instant \<Rightarrow> rebuild_wait \<Rightarrow> GarageCluster \<Rightarrow> 'w \<Rightarrow> 'w phase_result" where
  "rebuild_waiting env now reason cluster w =
     (let detail = me_Text env (RebuildWaiting reason);
          after = Inr (RequeueAfter (5 * time_Second)) in
      if map_option fms_Message (cst_FactorMigration (gc_Status cluster)) \<noteq> Some detail
      then (case setFactorMigration env now (\<lambda>m. m\<lparr>fms_Message := detail\<rparr>) cluster w of
              (cluster1, w1) \<Rightarrow> (after, cluster1, w1))
      else (after, cluster, w))"

definition stageAndApplyExclusiveLayout where
  "stageAndApplyExclusiveLayout get_layout apply_layout w layout intendedRoles intendedParameters stage =
     stageAndApplyExclusiveLayoutWithCheck get_layout apply_layout w layout intendedRoles intendedParameters stage None"

text \<open>The part of the phase that runs while the layout lock is held.\<close>

definition rebuild_locked ::
    "'w migration_env \<Rightarrow> instant \<Rightarrow> 'w admin_client \<Rightarrow> GarageCluster \<Rightarrow> 'w \<Rightarrow> 'w phase_result" where
  "rebuild_locked env now gc cluster w =
     (case requireSettledLayoutHistory (ac_GetHistory gc) w of
        (Some e, w1) \<Rightarrow> rebuild_waiting env now (HistoryNotSettled e) cluster w1
      | (None, w1) \<Rightarrow>
     (case buildRebuildRoleChanges (me_Workload env) cluster w1 of
        (Inl e, w2) \<Rightarrow> (Inl e, cluster, w2)
      | (Inr changes, w2) \<Rightarrow>
          if length changes = 0 then rebuild_waiting env now NoIdentityObserved cluster w2
          else
     (case ac_GetLayout gc w2 of
        (Inl e, w3) \<Rightarrow> rebuild_waiting env now (LayoutUnreadable e) cluster w3
      | (Inr layout, w3) \<Rightarrow>
     (case stageAndApplyExclusiveLayout (ac_GetLayout gc) (ac_ApplyLayout gc) w3 (Some layout) changes None
             (Some (ac_UpdateLayout gc changes)) of
        (Inl e, w4) \<Rightarrow> rebuild_waiting env now (RebuildNotApplied e) cluster w4
      | (Inr staged, w4) \<Rightarrow>
     (case listAutoModeStorageNodes (me_Workload env) cluster w4 of
        (Inl e, w5) \<Rightarrow> (Inl e, cluster, w5)
      | (Inr nodes, w5) \<Rightarrow>
     (case each_member (patchSTSPurgeInitContainerForNode (me_Quote env) (me_Workload env) cluster [] False)
             (members nodes) w5 of
        (Some e, w6) \<Rightarrow> (Inl e, cluster, w6)
      | (None, w6) \<Rightarrow>
          (case setFactorMigration env now
                  (\<lambda>m. m\<lparr>fms_Phase := fmPhaseConverging,
                         fms_Message := me_Text env (LayoutRebuilt (fms_ToFactor m) (length changes))\<rparr>) cluster w6 of
             (cluster1, w7) \<Rightarrow> (Inr RequeueNow, cluster1, w7))))))))"

definition fmRebuildLayout ::
    "(string \<Rightarrow> string) \<Rightarrow> 'w migration_env \<Rightarrow> instant \<Rightarrow> coordinator \<Rightarrow> GarageCluster \<Rightarrow> 'w
     \<Rightarrow> 'w phase_result \<times> coordinator" where
  "fmRebuildLayout sum256 env now coord cluster w =
     (case fmCheckStuck env now cluster w of
        Some r \<Rightarrow> (r, coord)
      | None \<Rightarrow>
     (case me_Bootstrap env cluster w of
        (Inl reason, w1) \<Rightarrow> (rebuild_waiting env now reason cluster w1, coord)
      | (Inr gc, w1) \<Rightarrow>
     (case acquireLayoutMutationIgnoringNodeLocalPoolRollout sum256 coord (Some cluster) of
        (Inl e, coord1) \<Rightarrow> (rebuild_waiting env now (CoordinatorBusy e) cluster w1, coord1)
      | (Inr release, coord1) \<Rightarrow>
          (rebuild_locked env now gc cluster w1, snd (call_release release coord1)))))"

definition fmConverge :: "'w migration_env \<Rightarrow> instant \<Rightarrow> GarageCluster \<Rightarrow> 'w \<Rightarrow> 'w phase_result" where
  "fmConverge env now cluster w =
     (case clearStorageSuspension (me_Workload env) cluster w of
        (Some e, w1) \<Rightarrow> (Inl e, cluster, w1)
      | (None, w1) \<Rightarrow>
          (case setFactorMigration env now
                  (\<lambda>m. m\<lparr>fms_Phase := fmPhaseCompleted, fms_CompletedAt := Some now,
                         fms_Message := me_Text env (FactorMigrated (fms_ToFactor m))\<rparr>) cluster
                  (me_TablesRepair env cluster w1) of
             (cluster1, w2) \<Rightarrow> (Inr NoRequeue, cluster1, w2)))"

subsection \<open>The dispatcher\<close>

definition AnnotationPurgeClusterLayoutAbort :: string where
  "AnnotationPurgeClusterLayoutAbort = ''garage.rajsingh.info/purge-cluster-layout-abort''"

definition parsePurgeAnnotation :: "string \<Rightarrow> migration_error + int \<times> bool" where
  "parsePurgeAnnotation val = (case Parse val of Inl e \<Rightarrow> Inl e | Inr request \<Rightarrow> Inr (req_Factor request, req_Force request))"

definition abort_migration :: "'w migration_env \<Rightarrow> instant \<Rightarrow> GarageCluster \<Rightarrow> 'w \<Rightarrow> 'w phase_result" where
  "abort_migration env now cluster w =
     (case teardownFactorMigration (me_Quote env) (me_Workload env) cluster w of
        (Some e, w1) \<Rightarrow> (Inl e, cluster, w1)
      | (None, w1) \<Rightarrow>
     (case setFactorMigration env now (\<lambda>fm. fm\<lparr>fms_Phase := fmPhaseFailed,
             fms_Message := me_Text env AbortedByOperator, fms_CompletedAt := Some now\<rparr>) cluster w1 of
        (cluster1, w2) \<Rightarrow>
          finish_with NoRequeue (removeAnnotations (me_Workload env)
            [AnnotationPurgeClusterLayout, AnnotationPurgeClusterLayoutAbort] cluster1 w2)))"

definition start_migration :: "'w migration_env \<Rightarrow> instant \<Rightarrow> string \<Rightarrow> GarageCluster \<Rightarrow> 'w \<Rightarrow> 'w phase_result" where
  "start_migration env now ann cluster w =
     (case parsePurgeAnnotation ann of
        Inl perr \<Rightarrow>
          (case setFactorMigration env now (\<lambda>m. empty_migration\<lparr>fms_Phase := fmPhaseFailed,
                  fms_Message := me_Text env (BadAnnotation perr), fms_StartedAt := Some now,
                  fms_CompletedAt := Some now\<rparr>) cluster w of
             (cluster1, w1) \<Rightarrow>
               finish_with NoRequeue (removeAnnotations (me_Workload env) [AnnotationPurgeClusterLayout] cluster1 w1))
      | Inr (toFactor, force) \<Rightarrow>
          (case setFactorMigration env now (\<lambda>m. empty_migration\<lparr>fms_Phase := fmPhaseValidating,
                  fms_ToFactor := toFactor, fms_Force := force, fms_StartedAt := Some now\<rparr>) cluster w of
             (cluster1, w1) \<Rightarrow>
               finish_with RequeueNow (removeAnnotations (me_Workload env) [AnnotationPurgeClusterLayout] cluster1 w1)))"

definition run_phase ::
    "(string \<Rightarrow> string) \<Rightarrow> 'w migration_env \<Rightarrow> instant \<Rightarrow> coordinator \<Rightarrow> string \<Rightarrow> GarageCluster \<Rightarrow> 'w
     \<Rightarrow> 'w phase_result \<times> coordinator" where
  "run_phase sum256 env now coord phase cluster w =
     (if phase = fmPhaseValidating then (fmValidate env now cluster w, coord)
      else if phase = fmPhaseScalingDown then (fmScaleDown env now cluster w, coord)
      else if phase = fmPhasePurging then (fmPurge env now cluster w, coord)
      else if phase = fmPhaseVerifying then (fmVerify env now cluster w, coord)
      else if phase = fmPhaseRebuildingLayout then fmRebuildLayout sum256 env now coord cluster w
      else if phase = fmPhaseConverging then (fmConverge env now cluster w, coord)
      else ((Inr NoRequeue, cluster, w), coord))"

definition reconcileFactorMigration ::
    "(string \<Rightarrow> string) \<Rightarrow> 'w migration_env \<Rightarrow> instant \<Rightarrow> coordinator \<Rightarrow> GarageCluster \<Rightarrow> 'w
     \<Rightarrow> 'w phase_result \<times> coordinator" where
  "reconcileFactorMigration sum256 env now coord cluster w =
     (if annotation (gc_Annotations cluster) AnnotationPurgeClusterLayoutAbort = annotationTrue
      then (abort_migration env now cluster w, coord)
      else
        let phase = migration_phase cluster;
            ann = annotation (gc_Annotations cluster) AnnotationPurgeClusterLayout;
            consume = removeAnnotations (me_Workload env) [AnnotationPurgeClusterLayout] cluster w in
        if phase = fmPhaseCompleted \<or> phase = fmPhaseFailed
        then (if ann \<noteq> [] then (finish_with NoRequeue consume, coord) else ((Inr NoRequeue, cluster, w), coord))
        else if phase = []
        then (if ann = [] then ((Inr NoRequeue, cluster, w), coord) else (start_migration env now ann cluster w, coord))
        else
          (case (if ann \<noteq> [] then consume else (None, cluster, w)) of
             (Some e, cluster1, w1) \<Rightarrow> ((Inl e, cluster1, w1), coord)
           | (None, cluster1, w1) \<Rightarrow> run_phase sum256 env now coord phase cluster1 w1))"

subsection \<open>Lemmas\<close>

lemma status_retry_keeps_world:
  assumes "\<And>c w r w'. ka_UpdateStatus api c w = (r, w') \<Longrightarrow> I w \<Longrightarrow> I w'"
    and "\<And>k w r w'. ka_GetCluster api k w = (r, w') \<Longrightarrow> I w \<Longrightarrow> I w'"
    and "status_retry api uid reapply n obj w = (e, obj', w')" "I w"
  shows "I w'"
  using assms(3,4)
proof (induction n arbitrary: obj w)
  case (Suc n)
  obtain r w1 where u: "ka_UpdateStatus api obj w = (r, w1)" by force
  have i1: "I w1" by (rule assms(1) [OF u Suc.prems(2)])
  obtain g w2 where g: "ka_GetCluster api (cluster_key obj) w1 = (g, w2)" by force
  have i2: "I w2" by (rule assms(2) [OF g i1])
  show ?case
    using Suc.prems(1) u g i1 i2 Suc.IH
    by (auto split: option.split_asm write_error.split_asm if_split_asm sum.split_asm)
qed simp

lemma status_retry_object:
  assumes "\<And>k w c w'. ka_GetCluster api k w = (Inr c, w') \<Longrightarrow> gc_UID c = uid \<and> P (reapply c)"
    and "status_retry api uid reapply n obj w = (e, obj', w')" "P obj"
  shows "P obj'"
  using assms(2,3)
proof (induction n arbitrary: obj w)
  case (Suc n)
  obtain r w1 where u: "ka_UpdateStatus api obj w = (r, w1)" by force
  obtain g w2 where g: "ka_GetCluster api (cluster_key obj) w1 = (g, w2)" by force
  show ?case
    using Suc.prems u g Suc.IH assms(1) [of "cluster_key obj" w1 _ w2]
    by (auto split: option.split_asm write_error.split_asm if_split_asm sum.split_asm)
qed simp

lemma set_migration_keeps:
  assumes ex: "exclusive_store (me_Workload env) sets nds sel" and s: "setFactorMigration env now f cluster w = (c', w')"
  shows "sets w' = sets w \<and> nds w' = nds w"
proof -
  obtain e where r: "status_retry (we_Kube (me_Workload env)) (gc_UID (stamp_migration now f cluster))
      (fold (\<lambda>fn o'. fn o') [stamp_migration now f]) StatusUpdateMaxRetries (stamp_migration now f cluster) w = (e, c', w')"
    using s by (auto simp: setFactorMigration_def UpdateStatusWithRetry_def split: prod.split_asm)
  show ?thesis
    by (rule status_retry_keeps_world [OF _ _ r, where I = "\<lambda>v. sets v = sets w \<and> nds v = nds w"])
       (use store_other(6,7) [OF ex] in auto)
qed

text \<open>Nobody else writes the migration status, and the cluster is not recreated.\<close>

definition single_writer :: "'w migration_env \<Rightarrow> GarageCluster \<Rightarrow> bool" where
  "single_writer env cluster \<longleftrightarrow>
     (\<forall>k w c w'. ka_GetCluster (we_Kube (me_Workload env)) k w = (Inr c, w') \<longrightarrow>
        gc_UID c = gc_UID cluster \<and> cst_FactorMigration (gc_Status c) = cst_FactorMigration (gc_Status cluster))"

lemma stamp_migration_facts [simp]:
  "gc_UID (stamp_migration now f c) = gc_UID c"
  "migration_phase (stamp_migration now f c) =
     fms_Phase (f (case cst_FactorMigration (gc_Status c) of None \<Rightarrow> empty_migration | Some fm \<Rightarrow> fm))"
  by (simp_all add: stamp_migration_def Let_def migration_phase_def)

lemma set_migration_phase:
  assumes sw: "single_writer env cluster" and s: "setFactorMigration env now f cluster w = (c', w')"
  shows "migration_phase c' = migration_phase (stamp_migration now f cluster)"
proof -
  obtain e where r: "status_retry (we_Kube (me_Workload env)) (gc_UID cluster)
      (stamp_migration now f) StatusUpdateMaxRetries (stamp_migration now f cluster) w = (e, c', w')"
    using s by (auto simp: setFactorMigration_def UpdateStatusWithRetry_def split: prod.split_asm)
  show ?thesis
  proof (rule status_retry_object [OF _ r, where P = "\<lambda>c. migration_phase c = migration_phase (stamp_migration now f cluster)"])
    fix k v c v' assume "ka_GetCluster (we_Kube (me_Workload env)) k v = (Inr c, v')"
    then have "gc_UID c = gc_UID cluster" "cst_FactorMigration (gc_Status c) = cst_FactorMigration (gc_Status cluster)"
      using sw unfolding single_writer_def by blast+
    then show "gc_UID c = gc_UID cluster \<and> migration_phase (stamp_migration now f c) = migration_phase (stamp_migration now f cluster)"
      by simp
  qed simp
qed

lemma set_message_phase:
  assumes "single_writer env cluster" "setFactorMigration env now (\<lambda>m. m\<lparr>fms_Message := x\<rparr>) cluster w = (c', w')"
  shows "migration_phase c' = migration_phase cluster"
proof -
  have "migration_phase c' = fms_Phase (case cst_FactorMigration (gc_Status cluster) of None \<Rightarrow> empty_migration | Some fm \<Rightarrow> fm)"
    using set_migration_phase [OF assms] by simp
  then show ?thesis by (simp add: migration_phase_def [of cluster] empty_migration_def split: option.splits)
qed

lemma enter_phase_phase:
  assumes "single_writer env cluster" "enter_phase env now p msg cluster w = (r, c', w')"
  shows "migration_phase c' = p" "r = Inr RequeueNow"
proof -
  obtain w1 where s: "setFactorMigration env now (\<lambda>m. m\<lparr>fms_Phase := p, fms_Message := me_Text env msg\<rparr>) cluster w = (c', w')"
    and "r = Inr RequeueNow"
    using assms(2) by (auto simp: enter_phase_def split: prod.split_asm)
  then show "migration_phase c' = p" "r = Inr RequeueNow" using set_migration_phase [OF assms(1) s] by simp_all
qed

lemma fail_outcome:
  assumes "failFactorMigration env now msg cluster w = (r, c', w')"
  shows "(r = Inr NoRequeue \<and> (\<exists>w1. teardownFactorMigration (me_Quote env) (me_Workload env) cluster w = (None, w1)
            \<and> setFactorMigration env now (\<lambda>fm. fm\<lparr>fms_Phase := fmPhaseFailed, fms_Message := me_Text env msg,
                fms_CompletedAt := Some now\<rparr>) cluster w1 = (c', w')))
     \<or> (r = Inr (RequeueAfter (5 * time_Second)) \<and> c' = cluster)"
  using assms by (auto simp: failFactorMigration_def split: prod.split_asm option.split_asm)

subsection \<open>Outcomes of a phase\<close>

text \<open>A handler stays in its phase, moves to the next one, or goes through the failure path.\<close>

definition phase_outcome where
  "phase_outcome env sets nds now cluster w next out \<longleftrightarrow>
     (case out of (r, c', w') \<Rightarrow>
        migration_phase c' \<in> {migration_phase cluster, next}
        \<or> (\<exists>msg w1. sets w1 = sets w \<and> nds w1 = nds w \<and> failFactorMigration env now msg cluster w1 = (r, c', w')))"

lemma phase_outcome_fail:
  "sets w1 = sets w \<Longrightarrow> nds w1 = nds w \<Longrightarrow> phase_outcome env sets nds now cluster w next (failFactorMigration env now msg cluster w1)"
  by (auto simp: phase_outcome_def split: prod.split)

lemma phase_outcome_stay: "phase_outcome env sets nds now cluster w next (r, cluster, w')"
  by (simp add: phase_outcome_def)

lemma phase_outcome_enter:
  "single_writer env cluster \<Longrightarrow> phase_outcome env sets nds now cluster w next (enter_phase env now next msg cluster w1)"
  by (auto simp: phase_outcome_def enter_phase_phase split: prod.split)

lemma phase_outcome_set:
  assumes "single_writer env cluster" "\<And>fm. fms_Phase (f fm) = next"
  shows "phase_outcome env sets nds now cluster w next
     (r, setFactorMigration env now f cluster w1)"
  using set_migration_phase [OF assms(1)] assms(2) by (auto simp: phase_outcome_def split: prod.split)

lemma phase_outcome_message:
  assumes "single_writer env cluster"
  shows "phase_outcome env sets nds now cluster w next
     (r, setFactorMigration env now (\<lambda>m. m\<lparr>fms_Message := x\<rparr>) cluster w1)"
  using set_message_phase [OF assms] by (auto simp: phase_outcome_def split: prod.split)

lemma phase_outcome_stuck:
  "fmCheckStuck env now cluster w = Some out \<Longrightarrow> phase_outcome env sets nds now cluster w next out"
  by (auto simp: fmCheckStuck_def intro: phase_outcome_fail split: if_split_asm)

lemmas phase_outcomes = phase_outcome_fail phase_outcome_stay phase_outcome_enter phase_outcome_set phase_outcome_message

lemma validate_outcome:
  assumes ex: "exclusive_store (me_Workload env) sets nds sel" and sw: "single_writer env cluster"
  shows "phase_outcome env sets nds now cluster w fmPhaseScalingDown (fmValidate env now cluster w)"
proof -
  obtain r w1 where l: "listAutoModeStorageNodes (me_Workload env) cluster w = (r, w1)" by force
  show ?thesis
    unfolding fmValidate_def Let_def l prod.case
    by (simp add: phase_outcomes sw list_storage_keeps [OF ex l] split: option.split sum.split)
qed

lemma scale_down_outcome:
  assumes "single_writer env cluster"
  shows "phase_outcome env sets nds now cluster w fmPhasePurging (fmScaleDown env now cluster w)"
  using assms unfolding fmScaleDown_def
  by (auto simp: phase_outcome_stay phase_outcome_enter split: option.split prod.split sum.split intro: phase_outcome_stuck)

lemma purge_outcome:
  assumes "single_writer env cluster"
  shows "phase_outcome env sets nds now cluster w fmPhaseVerifying (fmPurge env now cluster w)"
  using assms unfolding fmPurge_def
  by (auto simp: phase_outcome_stay phase_outcome_enter split: option.split prod.split sum.split intro: phase_outcome_stuck)

lemma verify_outcome:
  assumes "single_writer env cluster"
  shows "phase_outcome env sets nds now cluster w fmPhaseRebuildingLayout (fmVerify env now cluster w)"
  using assms unfolding fmVerify_def
  by (auto simp: phase_outcome_stay phase_outcome_enter split: option.split prod.split sum.split intro: phase_outcome_stuck)

lemma waiting_outcome:
  "single_writer env cluster \<Longrightarrow> phase_outcome env sets nds now cluster w next (rebuild_waiting env now reason cluster w1)"
  by (simp add: rebuild_waiting_def Let_def phase_outcome_stay phase_outcome_message)

lemma rebuild_outcome:
  assumes "single_writer env cluster" "fmRebuildLayout sum256 env now coord cluster w = (out, coord')"
  shows "phase_outcome env sets nds now cluster w fmPhaseConverging out"
proof -
  have l: "phase_outcome env sets nds now cluster w fmPhaseConverging (rebuild_locked env now gc cluster w1)" for gc w1
    unfolding rebuild_locked_def
    by (auto simp: phase_outcome_stay phase_outcome_set waiting_outcome assms(1) split: option.split sum.split prod.split)
  show ?thesis
    using assms l unfolding fmRebuildLayout_def
    by (auto simp: waiting_outcome intro: phase_outcome_stuck split: option.split_asm prod.split_asm sum.split_asm)
qed

lemma converge_outcome:
  assumes "single_writer env cluster"
  shows "phase_outcome env sets nds now cluster w fmPhaseCompleted (fmConverge env now cluster w)"
  using assms unfolding fmConverge_def
  by (auto simp: phase_outcome_stay phase_outcome_set split: option.split prod.split)

text \<open>The phase that follows.\<close>

definition next_phase :: "string \<Rightarrow> string" where
  "next_phase p =
     (if p = fmPhaseValidating then fmPhaseScalingDown
      else if p = fmPhaseScalingDown then fmPhasePurging
      else if p = fmPhasePurging then fmPhaseVerifying
      else if p = fmPhaseVerifying then fmPhaseRebuildingLayout
      else if p = fmPhaseRebuildingLayout then fmPhaseConverging
      else if p = fmPhaseConverging then fmPhaseCompleted
      else p)"

lemma run_phase_outcome:
  assumes "exclusive_store (me_Workload env) sets nds sel" "single_writer env cluster"
    and "run_phase sum256 env now coord phase cluster w = (out, coord')"
  shows "phase_outcome env sets nds now cluster w (next_phase phase) out"
  using assms(3) validate_outcome [OF assms(1,2), of now w] scale_down_outcome [OF assms(2), of sets nds now w]
    purge_outcome [OF assms(2), of sets nds now w] verify_outcome [OF assms(2), of sets nds now w]
    rebuild_outcome [OF assms(2), of sum256 now coord w out coord' sets nds] converge_outcome [OF assms(2), of sets nds now w]
  unfolding run_phase_def next_phase_def
  by (auto simp: phase_outcome_stay phase_defs split: if_split_asm)

lemma remove_annotations_keeps:
  assumes "removeAnnotations (me_Workload env) keys cluster w = (e, c', w')"
  shows "gc_Status c' = gc_Status cluster" "gc_UID c' = gc_UID cluster" "gc_Namespace c' = gc_Namespace cluster"
    "gc_Name c' = gc_Name cluster" "k \<in> set keys \<Longrightarrow> \<not> gomap_has (gc_Annotations c') k"
    "exclusive_store (me_Workload env) sets nds sel \<Longrightarrow> sets w' = sets w \<and> nds w' = nds w"
proof -
  have del: "map_of (fold gomap_delete ks m) k = (if k \<in> set ks then None else map_of m k)" for ks m k
    by (induction ks arbitrary: m) auto
  show "gc_Status c' = gc_Status cluster" "gc_UID c' = gc_UID cluster" "gc_Namespace c' = gc_Namespace cluster"
    "gc_Name c' = gc_Name cluster" "k \<in> set keys \<Longrightarrow> \<not> gomap_has (gc_Annotations c') k"
    using assms by (auto simp: removeAnnotations_def Let_def del list_ex_iff split: if_split_asm prod.split_asm)
  assume ex: "exclusive_store (me_Workload env) sets nds sel"
  show "sets w' = sets w \<and> nds w' = nds w"
    using assms store_other(1) [OF ex]
    by (auto simp: removeAnnotations_def Let_def split: if_split_asm prod.split_asm)
qed

lemma in_flight_reconcile:
  assumes ex: "exclusive_store (me_Workload env) sets nds sel" and sw: "single_writer env cluster"
    and r: "reconcileFactorMigration sum256 env now coord cluster w = ((r, c', w'), coord')"
    and na: "annotation (gc_Annotations cluster) AnnotationPurgeClusterLayoutAbort \<noteq> annotationTrue"
    and ph: "migration_phase cluster \<notin> {[], fmPhaseCompleted, fmPhaseFailed}"
  obtains (Same) "migration_phase c' = migration_phase cluster"
  | (Next) "migration_phase c' = next_phase (migration_phase cluster)"
  | (Fail) msg c1 w1 where "storage_members nds sel c1 = storage_members nds sel cluster"
      "node_set_key c1 = node_set_key cluster" "migration_phase c1 = migration_phase cluster"
      "single_writer env c1" "sets w1 = sets w" "nds w1 = nds w"
      "failFactorMigration env now msg c1 w1 = (r, c', w')"
proof -
  let ?ann = "annotation (gc_Annotations cluster) AnnotationPurgeClusterLayout"
  obtain e c1 w1 where c: "(if ?ann \<noteq> [] then removeAnnotations (me_Workload env) [AnnotationPurgeClusterLayout] cluster w
      else (None, cluster, w)) = (e, c1, w1)" by (metis prod_cases3)
  have k: "gc_Status c1 = gc_Status cluster" "gc_UID c1 = gc_UID cluster" "gc_Namespace c1 = gc_Namespace cluster"
      "gc_Name c1 = gc_Name cluster" "sets w1 = sets w" "nds w1 = nds w"
    using c remove_annotations_keeps [of env "[AnnotationPurgeClusterLayout]" cluster w e c1 w1] ex
    by (auto split: if_split_asm)
  have p1: "migration_phase c1 = migration_phase cluster" using k by (simp add: migration_phase_def)
  have sw1: "single_writer env c1" using sw k by (simp add: single_writer_def)
  have m1: "storage_members nds sel c1 = storage_members nds sel cluster" "node_set_key c1 = node_set_key cluster"
    using k by (auto simp: storage_members_def storage_labels_def node_set_key_def fun_eq_iff)
  show ?thesis
  proof (cases e)
    case (Some e')
    then have "c' = c1" using r na ph c by (auto simp: reconcileFactorMigration_def Let_def)
    with Same p1 show ?thesis by simp
  next
    case None
    then have "run_phase sum256 env now coord (migration_phase cluster) c1 w1 = ((r, c', w'), coord')"
      using r na ph c by (auto simp: reconcileFactorMigration_def Let_def)
    from run_phase_outcome [OF ex sw1 this] show ?thesis
      unfolding phase_outcome_def using Same Next Fail [OF m1 p1 sw1] p1 k by auto
  qed
qed

subsection \<open>Properties\<close>

inductive migration_step :: "string \<Rightarrow> string \<Rightarrow> bool" where
  stays: "migration_step p p"
| requested: "migration_step [] ''Validating''"
| malformed: "migration_step [] ''Failed''"
| validated: "migration_step ''Validating'' ''ScalingDown''"
| quiesced: "migration_step ''ScalingDown'' ''Purging''"
| purged: "migration_step ''Purging'' ''Verifying''"
| verified: "migration_step ''Verifying'' ''RebuildingLayout''"
| rebuilt: "migration_step ''RebuildingLayout'' ''Converging''"
| converged: "migration_step ''Converging'' ''Completed''"
| failed: "p \<notin> {[], ''Completed'', ''Failed''} \<Longrightarrow> migration_step p ''Failed''"

inductive_cases migration_step_from_completed: "migration_step ''Completed'' q"
inductive_cases migration_step_from_failed: "migration_step ''Failed'' q"

lemma migration_step_next: "migration_step p (next_phase p)"
  using migration_step.intros by (auto simp: next_phase_def phase_defs)

lemma start_phase:
  assumes "single_writer env cluster" "start_migration env now ann cluster w = (r, c', w')"
  shows "migration_phase c' \<in> {''Validating'', ''Failed''}"
proof -
  obtain f c1 w1 e where s: "setFactorMigration env now f cluster w = (c1, w1)"
      and f: "\<And>m. fms_Phase (f m) \<in> {''Validating'', ''Failed''}"
      and a: "removeAnnotations (me_Workload env) [AnnotationPurgeClusterLayout] c1 w1 = (e, c', w')"
    using assms(2)
    by (auto simp: start_migration_def finish_with_def phase_defs split: sum.split_asm prod.split_asm option.split_asm)
  have "migration_phase c' = migration_phase c1" using remove_annotations_keeps(1) [OF a] by (simp add: migration_phase_def)
  then show ?thesis using set_migration_phase [OF assms(1) s] f by simp
qed



subsection \<open>No member restarts before all are prepared\<close>

definition some_running where
  "some_running sets cluster N w \<longleftrightarrow>
     (\<exists>n \<in> N. \<exists>s. sets w (node_set_key cluster n) = Some s \<and> sts_Replicas s \<noteq> Some 0)"

definition all_prepared where
  "all_prepared quote purgeID sets cluster N w \<longleftrightarrow>
     (\<forall>n \<in> N. \<exists>s. sets w (node_set_key cluster n) = Some s \<and> purge_prepared quote purgeID s)"

lemma some_running_same: "same_replicas sets w w' \<Longrightarrow> some_running sets cluster N w' = some_running sets cluster N w"
proof -
  assume s: "same_replicas sets w w'"
  have "(\<exists>s. sets w' k = Some s \<and> sts_Replicas s \<noteq> Some 0) = (\<exists>s. sets w k = Some s \<and> sts_Replicas s \<noteq> Some 0)" for k
    using s [unfolded same_replicas_def, rule_format, of k] by (cases "sets w k"; cases "sets w' k") auto
  then show ?thesis by (simp add: some_running_def)
qed

lemma prepare_keeps_replicas:
  assumes ex: "exclusive_store (me_Workload env) sets nds sel" and p: "prepare_members env cluster i ns w = (e, w')"
  shows "same_replicas sets w w'"
proof -
  obtain e1 w1 where c: "each_member (patchSTSConfigRevisionForFactorMigration (me_Hash env) (me_Workload env) cluster) ns w = (e1, w1)"
    by force
  have s1: "same_replicas sets w w1"
  proof (rule each_member_preserves [where I = "same_replicas sets w", OF _ _ c])
    fix x v e v' assume "same_replicas sets w v"
      "patchSTSConfigRevisionForFactorMigration (me_Hash env) (me_Workload env) cluster x v = (e, v')"
    then show "same_replicas sets w v'" using patch_config_keeps_replicas [OF ex] same_replicas_trans by metis
  qed (simp add: same_sets_replicas)
  show ?thesis
  proof (cases e1)
    case (Some e')
    then show ?thesis using p c s1 by (simp add: prepare_members_def)
  next
    case None
    then have a: "each_member (patchSTSPurgeInitContainerForNode (me_Quote env) (me_Workload env) cluster i True) ns w1 = (e, w')"
      using p c by (simp add: prepare_members_def)
    show ?thesis
    proof (rule each_member_preserves [where I = "same_replicas sets w", OF _ s1 a])
      fix x v e v' assume "same_replicas sets w v"
        "patchSTSPurgeInitContainerForNode (me_Quote env) (me_Workload env) cluster i True x v = (e, v')"
      then show "same_replicas sets w v'" using add_purge_keeps_replicas [OF ex] same_replicas_trans by metis
    qed
  qed
qed

lemma verify_all_prepared:
  assumes ex: "exclusive_store (me_Workload env) sets nds sel"
    and v: "each_member (verifyFactorMigrationPurgePreparation h q (me_Workload env) cluster i b) ns w = (e, w')"
    and ns: "set ns = Some ` N"
  shows "sets w' = sets w" "e = None \<Longrightarrow> all_prepared q i sets cluster N w'"
proof -
  show s: "sets w' = sets w"
    by (rule each_member_preserves [where I = "\<lambda>v. sets v = sets w", OF _ _ v]) (use ns verify_checks [OF ex] in auto)
  assume e: "e = None"
  let ?Q = "\<lambda>p v. \<forall>n. p = Some n \<longrightarrow> (\<exists>s. sets v (node_set_key cluster n) = Some s \<and> purge_prepared q i s)"
  have "?Q p w'" if "p \<in> set ns" for p
  proof (rule each_member_establishes [where Q = ?Q, OF _ _ v [unfolded e] that])
    fix x v v' assume "x \<in> set ns" "verifyFactorMigrationPurgePreparation h q (me_Workload env) cluster i b x v = (None, v')"
    then show "?Q x v'" using verify_checks [OF ex] by fastforce
  next
    fix x y v e v'
    assume "x \<in> set ns" "?Q y v" "verifyFactorMigrationPurgePreparation h q (me_Workload env) cluster i b x v = (e, v')"
    then show "?Q y v'" using ns verify_checks [OF ex] by (metis imageE)
  qed
  then show "all_prepared q i sets cluster N w'" using ns by (auto simp: all_prepared_def)
qed

lemma purge_prepared_scaled: "purge_prepared q i (scaled n s) = purge_prepared q i s"
proof -
  have "purgeInitRunAsUser (scaled n s) = purgeInitRunAsUser s" 
    by (simp add: purgeInitRunAsUser_def scaled_def split: option.split)
  then have "factorMigrationPurgeInitContainer q (scaled n s) i = factorMigrationPurgeInitContainer q s i"
    by (simp add: factorMigrationPurgeInitContainer_def purgeInitSecurityContext_def)
  then show ?thesis by (simp add: purge_prepared_def restored_edits(2))
qed

lemma scale_keeps_prepared:
  assumes ex: "exclusive_store (me_Workload env) sets nds sel"
    and v: "each_member (scaleStorageSTSForNode (me_Workload env) cluster k) ns w = (e, w')"
    and ns: "set ns = Some ` N" and p: "all_prepared q i sets cluster N w"
  shows "all_prepared q i sets cluster N w'"
proof (rule each_member_preserves [where I = "all_prepared q i sets cluster N", OF _ p v])
  fix x v e v'
  assume "x \<in> set ns" and a: "all_prepared q i sets cluster N v" and s: "scaleStorageSTSForNode (me_Workload env) cluster k x v = (e, v')"
  then obtain n where x: "x = Some n" using ns by auto
  note ed = scale_edits [OF ex s [unfolded x]]
  show "all_prepared q i sets cluster N v'"
    using a ed by (fastforce simp: all_prepared_def edits_set_def purge_prepared_scaled)
qed

lemma enter_phase_keeps:
  assumes "exclusive_store (me_Workload env) sets nds sel" "enter_phase env now p msg cluster w = (r, c', w')"
  shows "sets w' = sets w \<and> nds w' = nds w \<and> r = Inr RequeueNow"
  using assms(2) set_migration_keeps [OF assms(1)] by (auto simp: enter_phase_def split: prod.split_asm)


subsection \<open>The tier is down before anything is purged\<close>

definition quiesced_member where
  "quiesced_member sets nds cluster purgeID w name \<longleftrightarrow>
     (\<exists>n. nds w name = Some n \<and> annotation (gn_Annotations n) AnnotationOperatorSuspended = purgeID)
     \<and> (\<forall>s. sets w \<lparr>nn_Namespace = gc_Namespace cluster, nn_Name = name\<rparr> = Some s \<longrightarrow> sts_Replicas s = Some 0)"

lemma suspend_effect:
  assumes ex: "exclusive_store env sets nds sel" and r: "suspend_node env i (gn_Name n, n) w = (e, w')"
  shows "sets w' = sets w" "m \<noteq> gn_Name n \<Longrightarrow> nds w' m = nds w m"
    "e = None \<Longrightarrow> nds w (gn_Name n) = Some n \<Longrightarrow>
       \<exists>n'. nds w' (gn_Name n) = Some n' \<and> annotation (gn_Annotations n') AnnotationOperatorSuspended = i"
    "\<exists>n'. nds w m = Some n' \<and> annotation (gn_Annotations n') AnnotationOperatorSuspended = i \<Longrightarrow>
       \<exists>n'. nds w' m = Some n' \<and> annotation (gn_Annotations n') AnnotationOperatorSuspended = i"
proof -
  let ?n = "n\<lparr>gn_Annotations := AList.update AnnotationOperatorSuspended i (gn_Annotations n)\<rparr>"
  let ?R = "\<lambda>w m. \<exists>n'. nds w m = Some n' \<and> annotation (gn_Annotations n') AnnotationOperatorSuspended = i"
  have a: "annotation (gn_Annotations ?n) AnnotationOperatorSuspended = i"
    by (simp add: annotation_def gomap_get_def update_conv')
  have "sets w' = sets w \<and> (m \<noteq> gn_Name n \<longrightarrow> nds w' m = nds w m)
     \<and> (e = None \<longrightarrow> nds w (gn_Name n) = Some n \<longrightarrow> ?R w' (gn_Name n)) \<and> (?R w m \<longrightarrow> ?R w' m)" for m
  proof (cases "annotation (gn_Annotations n) AnnotationOperatorSuspended = i")
    case True
    then show ?thesis using r by (auto simp: suspend_node_def)
  next
    case False
    obtain e1 w1 where u: "we_UpdateNode env ?n w = (e1, w1)" by force
    note s = store_update_node [OF ex u]
    have "w' = w1" "e = None \<longleftrightarrow> e1 = None"
      using r u False by (auto simp: suspend_node_def split: option.split_asm)
    moreover have "?R w1 (gn_Name n)" if "nds w1 = (nds w)(gn_Name n \<mapsto> ?n)" using that a by simp
    moreover have "nds w1 m = nds w m" if "m \<noteq> gn_Name n" using s(3) that by (auto simp: fun_upd_apply)
    ultimately show ?thesis using s by (cases "m = gn_Name n") auto
  qed
  then show "sets w' = sets w" "m \<noteq> gn_Name n \<Longrightarrow> nds w' m = nds w m"
    "e = None \<Longrightarrow> nds w (gn_Name n) = Some n \<Longrightarrow> ?R w' (gn_Name n)" "?R w m \<Longrightarrow> ?R w' m" by blast+
qed

lemma quiesce_effect:
  assumes ex: "exclusive_store env sets nds sel" and r: "quiesce_member env cluster i (gn_Name n, n) w = (e, w')"
  shows "e = None \<Longrightarrow> nds w (gn_Name n) = Some n \<Longrightarrow> quiesced_member sets nds cluster i w' (gn_Name n)"
    "quiesced_member sets nds cluster i w m \<Longrightarrow> quiesced_member sets nds cluster i w' m"
    "m \<noteq> gn_Name n \<Longrightarrow> nds w' m = nds w m"
proof -
  obtain e1 w1 where s: "suspend_node env i (gn_Name n, n) w = (e1, w1)" by force
  note su = suspend_effect [OF ex s]
  have "(e = None \<longrightarrow> nds w (gn_Name n) = Some n \<longrightarrow> quiesced_member sets nds cluster i w' (gn_Name n))
     \<and> (quiesced_member sets nds cluster i w m \<longrightarrow> quiesced_member sets nds cluster i w' m)
     \<and> (m \<noteq> gn_Name n \<longrightarrow> nds w' m = nds w m)" for m
  proof (cases e1)
    case (Some e')
    then have "e = Some e'" "w' = w1" using r s by (simp_all add: quiesce_member_def)
    then show ?thesis using su by (auto simp: quiesced_member_def)
  next
    case None
    then have sc: "scaleStorageSTSForNode env cluster 0 (Some n) w1 = (e, w')" using r s by (simp add: quiesce_member_def)
    note ed = scale_edits [OF ex sc]
    have k: "node_set_key cluster n = \<lparr>nn_Namespace = gc_Namespace cluster, nn_Name = gn_Name n\<rparr>"
      by (simp add: node_set_key_def)
    have z: "sts_Replicas s = Some 0" if "e = None" "sets w' (node_set_key cluster n) = Some s" for s
      using edits_set_done [OF ed [unfolded that(1)]] that(2)
      by (cases "sets w1 (node_set_key cluster n)") (auto simp: scaled_def)
    have keep: "sts_Replicas s = Some 0"
      if "\<forall>s. sets w j = Some s \<longrightarrow> sts_Replicas s = Some 0" "sets w' j = Some s" for j s
      by (rule edits_set_pred [OF ed, where P = "\<lambda>s. sts_Replicas s = Some 0"]) (use that su(1) in \<open>auto simp: scaled_def\<close>)
    show ?thesis using su None edits_set_nds [OF ed] z keep k by (auto simp: quiesced_member_def)
  qed
  then show "e = None \<Longrightarrow> nds w (gn_Name n) = Some n \<Longrightarrow> quiesced_member sets nds cluster i w' (gn_Name n)"
    "quiesced_member sets nds cluster i w m \<Longrightarrow> quiesced_member sets nds cluster i w' m"
    "m \<noteq> gn_Name n \<Longrightarrow> nds w' m = nds w m" by blast+
qed

text \<open>
  Nothing is purged while an old process may run.  Before its deadline the ScalingDown phase hands
  over to Purging only after a listing without any storage Pod, and then every storage StatefulSet
  that exists is at zero replicas and every storage GarageNode's own controller is suspended for
  exactly this purge.
\<close>

theorem purging_needs_quiesced_tier:
  assumes ex: "exclusive_store (me_Workload env) sets nds sel"
    and s: "fmScaleDown env now cluster w = (Inr RequeueNow, cluster', w')" and st: "\<not> phase_stuck now cluster"
    and fm: "cst_FactorMigration (gc_Status cluster) = Some fm" and n: "n \<in> storage_members nds sel cluster w"
  shows "(\<forall>s. sets w' (node_set_key cluster n) = Some s \<longrightarrow> sts_Replicas s = Some 0)
     \<and> (\<exists>n'. nds w' (gn_Name n) = Some n' \<and> annotation (gn_Annotations n') AnnotationOperatorSuspended = fms_PurgeID fm)
     \<and> (\<exists>w2. fst (listStoragePods (me_Workload env) cluster w2) = Inr [])"
proof -
  obtain nodes w1 w2 w3 where l: "listAutoModeStorageNodes (me_Workload env) cluster w = (Inr nodes, w1)"
      and q: "each_member (quiesce_member (me_Workload env) cluster (fms_PurgeID fm)) nodes w1 = (None, w2)"
      and c: "countStoragePods (me_Workload env) cluster w2 = (Inr 0, w3)"
      and e: "enter_phase env now fmPhasePurging AllPodsTerminated cluster w3 = (Inr RequeueNow, cluster', w')"
    using s st fm by (auto simp: fmScaleDown_def fmCheckStuck_def split: prod.split_asm sum.split_asm option.split_asm if_split_asm)
  note m = list_storage_members [OF ex l]
  have stored: "\<exists>m. x = (gn_Name m, m) \<and> nds w1 (gn_Name m) = Some m" if "x \<in> set nodes" for x
    using that m(1) list_storage_keeps(2) [OF ex l] by (auto simp: storage_members_def)
  have "quiesced_member sets nds cluster (fms_PurgeID fm) w2 (gn_Name n)"
    by (rule each_named_establishes [where f = "quiesce_member (me_Workload env) cluster (fms_PurgeID fm)"
          and R = "quiesced_member sets nds cluster (fms_PurgeID fm)" and nds = nds, OF quiesce_effect(1) [OF ex _ refl] quiesce_effect(2) [OF ex] quiesce_effect(3) [OF ex]
          q _ m(2) stored])
       (use m(1) n in auto)
  moreover have "sets w' = sets w2 \<and> nds w' = nds w2"
    using enter_phase_keeps [OF ex e] c store_other(2) [OF ex]
    by (auto simp: countStoragePods_def listStoragePods_def split: prod.split_asm sum.split_asm)
  moreover have "fst (listStoragePods (me_Workload env) cluster w2) = Inr []"
    using c by (auto simp: countStoragePods_def split: prod.split_asm sum.split_asm)
  ultimately show ?thesis by (auto simp: quiesced_member_def node_set_key_def)
qed

subsection \<open>The capacity of a rebuilt role\<close>

lemma effective_capacity_value:
  assumes "unat capacity * 100 < 2 ^ 64"
  shows "unat (calculateEffectiveCapacity capacity reserve) =
     (if 0 < reserve \<and> reserve \<le> 50 then unat capacity * nat (100 - reserve) div 100 else unat capacity)"
proof (cases "0 < reserve \<and> reserve \<le> 50")
  case True
  let ?k = "word_of_int (100 - reserve) :: u64"
  have "uint ?k = 100 - reserve" unfolding uint_word_of_int_eq
    by (rule take_bit_int_eq_self) (use True in auto)
  then have k: "unat ?k = nat (100 - reserve)" by (metis unat_eq_nat_uint)
  have "nat (100 - reserve) \<le> 100" using True by linarith
  then have "unat capacity * unat ?k \<le> unat capacity * 100" unfolding k by (rule mult_le_mono2)
  from le_less_trans [OF this assms]
  have "unat capacity * unat ?k < 2 ^ LENGTH(64)" by (simp only: len_bit0 len_num1 mult_2 [symmetric]) simp
  then have "unat (capacity * ?k) = unat capacity * unat ?k" by (rule unat_mult_lem [THEN iffD1])
  then have "unat (capacity * ?k) = unat capacity * nat (100 - reserve)" unfolding k .
  then show ?thesis using True by (simp add: calculateEffectiveCapacity_def unat_div)
qed (auto simp: calculateEffectiveCapacity_def)

text \<open>
  C22: The reserve is taken off exactly.  As long as a hundred times the capacity fits in 64 bits, a
  reserve of at most half leaves the rounded-down share, never more than the capacity and at least
  half of it; any other reserve leaves the capacity as it is.
\<close>

theorem effective_capacity_bounds:
  assumes "unat capacity * 100 < 2 ^ 64"
  shows "unat (calculateEffectiveCapacity capacity reserve) =
     (if 0 < reserve \<and> reserve \<le> 50 then unat capacity * nat (100 - reserve) div 100 else unat capacity)
    \<and> unat (calculateEffectiveCapacity capacity reserve) \<le> unat capacity
    \<and> unat capacity div 2 \<le> unat (calculateEffectiveCapacity capacity reserve)"
proof -
  note v = effective_capacity_value [OF assms, of reserve]
  have "c * nat (100 - r) div 100 \<le> c \<and> c div 2 \<le> c * nat (100 - r) div 100" if r: "0 < r" "r \<le> 50" for c and r :: int
  proof -
    have "50 \<le> nat (100 - r)" "nat (100 - r) \<le> 100" using r by linarith+
    then have "c * 50 \<le> c * nat (100 - r)" "c * nat (100 - r) \<le> c * 100" by (auto intro: mult_le_mono2)
    from div_le_mono [OF this(1), of 100] div_le_mono [OF this(2), of 100] show ?thesis by simp
  qed
  then show ?thesis unfolding v by auto
qed

theorem effective_capacity_bounds_witness:
  "unat (calculateEffectiveCapacity 1000 10) = 900"
  using effective_capacity_bounds [of 1000 10] by simp

text \<open>Beyond that bound the product wraps around: at 4 EiB a reserve of a tenth leaves a fiftieth.\<close>

lemma effective_capacity_wraps:
  "unat (calculateEffectiveCapacity (4611686018427387904 :: u64) 10) < unat (4611686018427387904 :: u64) div 49"
  by (simp add: calculateEffectiveCapacity_def)

subsection \<open>A concrete tier\<close>

text \<open>A store with arbitrary contents, read through its keys; every call succeeds.\<close>

record sample_store =
  ss_Sets :: "NamespacedName \<Rightarrow> StatefulSet option"
  ss_Nodes :: "string \<Rightarrow> GarageNode option"

definition sample_sets :: "sample_store \<Rightarrow> NamespacedName \<Rightarrow> StatefulSet option" where
  "sample_sets w k = (case ss_Sets w k of None \<Rightarrow> None | Some s \<Rightarrow> if sts_key s = k then Some s else None)"

definition sample_nds :: "sample_store \<Rightarrow> string \<Rightarrow> GarageNode option" where
  "sample_nds w m = (case ss_Nodes w m of None \<Rightarrow> None | Some n \<Rightarrow> if gn_Name n = m then Some n else None)"

definition sample_sel :: "string \<Rightarrow> (string, string) gomap \<Rightarrow> GarageNode \<Rightarrow> bool" where
  "sample_sel ns ls n \<longleftrightarrow> gn_Name n = ''n0''"

definition sample_workload :: "sample_store workload_env" where
  "sample_workload = \<lparr>we_Kube = sample_api, we_UpdateCluster = (\<lambda>c w. (None, w)),
     we_ListNodes = (\<lambda>ns ls w. (Inr (case sample_nds w ''n0'' of None \<Rightarrow> [] | Some n \<Rightarrow> [n]), w)),
     we_UpdateNode = (\<lambda>n w. (None, w\<lparr>ss_Nodes := (ss_Nodes w)(gn_Name n \<mapsto> n)\<rparr>)),
     we_GetSet = (\<lambda>k w. (case sample_sets w k of None \<Rightarrow> Inl NotFound | Some s \<Rightarrow> Inr s, w)),
     we_UpdateSet = (\<lambda>s w. (None, w\<lparr>ss_Sets := (ss_Sets w)(sts_key s \<mapsto> s)\<rparr>)),
     we_ListPods = (\<lambda>ns ls w. (Inr [], w)), we_Render = (\<lambda>c w. (Inr [], w)), we_Revision = (\<lambda>c b w. (Inr ''r'', w)),
     we_ReadConfig = (\<lambda>k b w. (Inl NotFound, w)), we_UsesSecret = (\<lambda>c. False)\<rparr>"

definition sample_migration_env :: "sample_store migration_env" where
  "sample_migration_env = \<lparr>me_Workload = sample_workload, me_Bootstrap = (\<lambda>c w. (Inl (PodSetUnprovable []), w)),
     me_TablesRepair = (\<lambda>c w. w), me_Text = (\<lambda>m. []), me_Hash = (\<lambda>s. s), me_Quote = (\<lambda>s. s)\<rparr>"

lemma sample_exclusive: "exclusive_store (me_Workload sample_migration_env) sample_sets sample_nds sample_sel"
proof -
  have n: "sample_nds w m = Some n \<Longrightarrow> gn_Name n = m" for w m n
    by (auto simp: sample_nds_def split: option.split_asm if_split_asm)
  have u: "sample_nds (w\<lparr>ss_Nodes := (ss_Nodes w)(gn_Name n \<mapsto> n)\<rparr>) = (sample_nds w)(gn_Name n \<mapsto> n)"
    "sample_sets (w\<lparr>ss_Sets := (ss_Sets w)(sts_key s \<mapsto> s)\<rparr>) = (sample_sets w)(sts_key s \<mapsto> s)" for w n s
    by (auto simp: sample_nds_def sample_sets_def fun_eq_iff)
  have o: "sample_sets (w\<lparr>ss_Nodes := x\<rparr>) = sample_sets w" "sample_nds (w\<lparr>ss_Sets := y\<rparr>) = sample_nds w" for w x y
    by (auto simp: sample_nds_def sample_sets_def fun_eq_iff)
  have k: "sample_sets w k = Some s \<Longrightarrow> sts_key s = k" for w k s
    by (auto simp: sample_sets_def split: option.split_asm if_split_asm)
  have "sets_law sample_workload sample_sets sample_nds"
    unfolding sets_law_def by (auto simp: sample_workload_def u o k split: option.split_asm)
  moreover have "nodes_law sample_workload sample_sets sample_nds sample_sel"
    unfolding nodes_law_def by (auto simp: sample_workload_def u o n sample_sel_def split: option.split_asm)
  moreover have "other_calls_law sample_workload sample_sets sample_nds"
    unfolding other_calls_law_def by (auto simp: sample_workload_def sample_api_def)
  ultimately show ?thesis by (simp add: exclusive_store_def sample_migration_env_def)
qed

lemma sample_single_writer: "single_writer sample_migration_env c"
  by (simp add: single_writer_def sample_migration_env_def sample_workload_def sample_api_def)

definition sample_migrating :: "string \<Rightarrow> GarageCluster" where
  "sample_migrating phase = sample_cluster\<lparr>gc_Status := sample_status\<lparr>cst_FactorMigration :=
     Some (empty_migration\<lparr>fms_Phase := phase, fms_ToFactor := 2, fms_PurgeID := ''p1'', fms_StartedAt := Some 1,
       fms_PhaseStartedAt := Some 1\<rparr>)\<rparr>\<rparr>"

definition sample_set :: "int \<Rightarrow> StatefulSet" where
  "sample_set replicas = \<lparr>sts_Namespace = ''ns'', sts_Name = ''n0'',
     sts_OwnerReferences = [\<lparr>or_APIVersion = [], or_Kind = [], or_Name = ''n0'', or_UID = ''g0'', or_Controller = True\<rparr>],
     sts_Replicas = Some replicas,
     sts_Template = \<lparr>pt_Annotations = [], pt_RunAsUser = None, pt_Containers = [], pt_InitContainers = [], pt_Volumes = []\<rparr>\<rparr>"

definition sample_tier :: "int \<Rightarrow> sample_store" where
  "sample_tier replicas = \<lparr>ss_Sets = [sts_key (sample_set replicas) \<mapsto> sample_set replicas], ss_Nodes = [''n0'' \<mapsto> sample_node]\<rparr>"

lemmas sample_tier_defs = sample_tier_def sample_sets_def sample_nds_def sample_sel_def sample_set_def sts_key_def
  node_set_key_def storage_members_def sample_node_def NodeBackingNodeLocalPool_def

lemma sample_member: "sample_node \<in> storage_members sample_nds sample_sel (sample_migrating p) (sample_tier r)"
  by (simp add: sample_tier_defs)



lemma sample_scale_down:
  "\<exists>c' w'. fmScaleDown sample_migration_env 5 (sample_migrating ''ScalingDown'') (sample_tier 1) = (Inr RequeueNow, c', w')"
  by (simp add: fmScaleDown_def fmCheckStuck_def phase_stuck_def sample_migrating_def stuck_since_def time_Sub_def
      fmStuckTimeout_def time_Second_def listAutoModeStorageNodes_def sample_migration_env_def sample_workload_def
      sample_tier_defs nodes_by_name_def quiesce_member_def suspend_node_def annotation_def gomap_get_def
      scaleStorageSTSForNode_def IsControlledBy_def countStoragePods_def listStoragePods_def enter_phase_def
      sample_cluster_defs split: prod.split)

theorem purging_needs_quiesced_tier_witness:
  "\<exists>c' w'. fmScaleDown sample_migration_env 5 (sample_migrating ''ScalingDown'') (sample_tier 1) = (Inr RequeueNow, c', w')
     \<and> (\<exists>n'. sample_nds w' ''n0'' = Some n' \<and> annotation (gn_Annotations n') AnnotationOperatorSuspended = ''p1'')"
proof -
  obtain c' w' where run: "fmScaleDown sample_migration_env 5 (sample_migrating ''ScalingDown'') (sample_tier 1) = (Inr RequeueNow, c', w')"
    using sample_scale_down by blast
  have st: "\<not> phase_stuck 5 (sample_migrating ''ScalingDown'')"
    by (simp add: phase_stuck_def sample_migrating_def stuck_since_def time_Sub_def fmStuckTimeout_def time_Second_def)
  have fm: "cst_FactorMigration (gc_Status (sample_migrating ''ScalingDown'')) =
      Some (empty_migration\<lparr>fms_Phase := ''ScalingDown'', fms_ToFactor := 2, fms_PurgeID := ''p1'', fms_StartedAt := Some 1,
       fms_PhaseStartedAt := Some 1\<rparr>)" by (simp add: sample_migrating_def)
  have "gn_Name sample_node = ''n0''" by (simp add: sample_node_def)
  with purging_needs_quiesced_tier [OF sample_exclusive run st fm sample_member] run show ?thesis by auto
qed

lemma sample_deadline:
  "\<exists>r c' w' coord'. reconcileFactorMigration (\<lambda>s. s) sample_migration_env (10 ^ 15) None (sample_migrating ''Verifying'') (sample_tier 0)
       = ((r, c', w'), coord') \<and> migration_phase c' = ''Failed''"
proof -
  have "phase_stuck (10 ^ 15) (sample_migrating ''Verifying'')"
    by (simp add: phase_stuck_def sample_migrating_def stuck_since_def time_Sub_def fmStuckTimeout_def time_Second_def)
  moreover have "\<exists>w'. teardownFactorMigration (\<lambda>s. s) sample_workload (sample_migrating ''Verifying'') (sample_tier 0) = (None, w')"
    by (simp add: teardownFactorMigration_def listAutoModeStorageNodes_def sample_workload_def sample_tier_defs nodes_by_name_def
        members_def sortedFactorMigrationNodeNames_def restore_member_def patchSTSPurgeInitContainerForNode_def IsControlledBy_def
        without_purge_def Let_def scaleStorageSTSForNode_def clearStorageSuspension_def resume_node_def sample_migrating_def
        sample_cluster_defs)
  moreover have "annotation (gc_Annotations (sample_migrating ''Verifying'')) k = []"
      "migration_phase (sample_migrating ''Verifying'') = ''Verifying''" for k
    by (simp_all add: sample_migrating_def sample_cluster_defs annotation_def gomap_get_def migration_phase_def empty_migration_def)
  ultimately obtain w1 where "reconcileFactorMigration (\<lambda>s. s) sample_migration_env (10 ^ 15) None (sample_migrating ''Verifying'')
      (sample_tier 0) = ((Inr NoRequeue, setFactorMigration sample_migration_env (10 ^ 15) (\<lambda>fm. fm\<lparr>fms_Phase := fmPhaseFailed,
        fms_Message := [], fms_CompletedAt := Some (10 ^ 15)\<rparr>) (sample_migrating ''Verifying'') w1), None)"
    by (auto simp: reconcileFactorMigration_def Let_def run_phase_def fmVerify_def fmCheckStuck_def failFactorMigration_def
        phase_defs sample_migration_env_def annotationTrue_def)
  moreover obtain c' w' where s: "setFactorMigration sample_migration_env (10 ^ 15) (\<lambda>fm. fm\<lparr>fms_Phase := fmPhaseFailed,
        fms_Message := [], fms_CompletedAt := Some (10 ^ 15)\<rparr>) (sample_migrating ''Verifying'') w1 = (c', w')" by force
  ultimately show ?thesis using set_migration_phase [OF sample_single_writer s] by (simp add: fmPhaseFailed_def)
qed


end
