(* ===== verification/DrainFinalization.thy ===== *)
theory DrainFinalization
  imports DrainTransaction
begin

text \<open>
  The end of a drain (internal/controller/block_resync_barrier.go): which durable proof lets a
  GarageNode or a GarageCluster be finalized, when a source may be treated as lost, how a node is
  recognised as never having had an identity, and how a failed Apply is undone.
\<close>

subsection \<open>Acknowledged lost sources\<close>

definition AnnotationAcknowledgeLostSource :: string where
  "AnnotationAcknowledgeLostSource = ''garage.rajsingh.info/acknowledge-lost-source''"

definition garageNodeAcknowledgesLostSource :: "GarageNode option \<Rightarrow> string \<Rightarrow> bool" where
  "garageNodeAcknowledgesLostSource node nodeID =
     (case node of
        None \<Rightarrow> False
      | Some n \<Rightarrow>
          annotation (gn_Annotations n) AnnotationDrain = annotationTrue
          \<and> CanonicalGarageNodeID (annotation (gn_Annotations n) AnnotationAcknowledgeLostSource) = CanonicalGarageNodeID nodeID
          \<and> CanonicalGarageNodeID nodeID \<noteq> [])"

definition unavailableNodeIDIncludes :: "string list \<Rightarrow> string \<Rightarrow> bool" where
  "unavailableNodeIDIncludes nodeIDs nodeID =
     list_ex (\<lambda>candidate. CanonicalGarageNodeID candidate = CanonicalGarageNodeID nodeID
                \<and> CanonicalGarageNodeID nodeID \<noteq> []) nodeIDs"

datatype lost_error =
    LostArgumentsMissing
  | LostIdentityUnresolved identity_error
  | LostIdentityMismatch string string
  | LostStatusUnreadable string
  | LostStatusMissing
  | LostSourceUp string
  | ExternalNotAttested string
  | LostPodUnverifiable get_error
  | LostPodPresent string

text \<open>The Admin client may be nil; a nil status is \<open>Inr None\<close>.\<close>

definition requireGarageNodeLostSourceDown ::
    "(string \<Rightarrow> (string \<times> string) option) \<Rightarrow> GarageNode option \<Rightarrow> GarageCluster option
     \<Rightarrow> ('w \<Rightarrow> (string + ClusterStatus option) \<times> 'w) option \<Rightarrow> string \<Rightarrow> 'w \<Rightarrow> lost_error option \<times> 'w" where
  "requireGarageNodeLostSourceDown parse_gv nodePtr clusterPtr client lostNodeID w =
     (case (nodePtr, clusterPtr, client) of
        (Some node, Some cluster, Some getStatus) \<Rightarrow>
          if TrimSpace lostNodeID = [] then (Some LostArgumentsMissing, w)
          else
            let lost = CanonicalGarageNodeID lostNodeID in
     (case ResolvedGarageNodeID parse_gv nodePtr of
        Inl e \<Rightarrow> (Some (LostIdentityUnresolved e), w)
      | Inr known \<Rightarrow>
          if known = [] \<or> known \<noteq> lost then (Some (LostIdentityMismatch (shortID lost) (shortID known)), w)
          else
     (case getStatus w of
        (Inl e, w1) \<Rightarrow> (Some (LostStatusUnreadable e), w1)
      | (Inr None, w1) \<Rightarrow> (Some LostStatusMissing, w1)
      | (Inr (Some status), w1) \<Rightarrow>
          if list_ex (\<lambda>n. CanonicalGarageNodeID (ni_ID n) = lost \<and> ni_IsUp n) (cs_Nodes status)
          then (Some (LostSourceUp (shortID lost)), w1)
          else if ns_External (gn_Spec node)
                  \<and> effectiveStorageDrainUnverifiedPeersPolicy clusterPtr \<noteq> StorageDrainUnverifiedPeersAssumeConsistent
          then (Some (ExternalNotAttested (shortID lost)), w1)
          else (None, w1)))
      | _ \<Rightarrow> (Some LostArgumentsMissing, w))"

definition pool_pods ::
    "'w peer_reader \<Rightarrow> GarageNode \<Rightarrow> string \<Rightarrow> 'w \<Rightarrow> (get_error + Pod list) \<times> 'w" where
  "pool_pods reader node clusterName w =
     pr_ListPods reader (gn_Namespace node)
       [(labelCluster, clusterName), (labelTier, tierStorage),
        (labelNodeLocalPool, ns_NodeLocalPoolName (gn_Spec node))] w"

definition managedGarageNodePodAbsent ::
    "'w peer_reader option \<Rightarrow> GarageNode option \<Rightarrow> 'w \<Rightarrow> (get_error + bool) \<times> 'w" where
  "managedGarageNodePodAbsent readerPtr nodePtr w =
     (case (nodePtr, readerPtr) of
        (Some node, Some reader) \<Rightarrow>
          if ns_External (gn_Spec node) then (Inr False, w)
          else if isNodeLocalPoolBacked node then
            (case pool_pods reader node (ref_Name (ns_ClusterRef (gn_Spec node))) w of
               (Inl e, w1) \<Rightarrow> (Inl e, w1)
             | (Inr pods, w1) \<Rightarrow>
                 (Inr (\<not> list_ex (\<lambda>pod. pod_NodeName pod = ns_KubernetesNodeName (gn_Spec node)) pods), w1))
          else
            (case pr_GetPod reader \<lparr>nn_Namespace = gn_Namespace node, nn_Name = gn_Name node @ ''-0''\<rparr> w of
               (Inl NotFound, w1) \<Rightarrow> (Inr True, w1)
             | (Inl e, w1) \<Rightarrow> (Inl e, w1)
             | (Inr pod, w1) \<Rightarrow> (Inr False, w1))
      | _ \<Rightarrow> (Inr False, w))"

definition requireGarageNodeLostSourceUnavailable ::
    "(string \<Rightarrow> (string \<times> string) option) \<Rightarrow> 'w peer_reader option \<Rightarrow> GarageNode \<Rightarrow> GarageCluster option
     \<Rightarrow> ('w \<Rightarrow> (string + ClusterStatus option) \<times> 'w) option \<Rightarrow> string \<Rightarrow> 'w \<Rightarrow> lost_error option \<times> 'w" where
  "requireGarageNodeLostSourceUnavailable parse_gv reader node cluster client lostNodeID w =
     (case requireGarageNodeLostSourceDown parse_gv (Some node) cluster client lostNodeID w of
        (Some e, w1) \<Rightarrow> (Some e, w1)
      | (None, w1) \<Rightarrow>
          if ns_External (gn_Spec node) then (None, w1)
          else (case managedGarageNodePodAbsent reader (Some node) w1 of
                  (Inl e, w2) \<Rightarrow> (Some (LostPodUnverifiable e), w2)
                | (Inr absent, w2) \<Rightarrow> (fail_if (\<not> absent) (LostPodPresent (shortID lostNodeID)), w2)))"

text \<open>
  Absence of every managed process: for a StatefulSet-backed node the StatefulSet must be absent
  too; \<open>getSet\<close> reads it.
\<close>

definition managedGarageNodeProcessAbsent ::
    "'w peer_reader \<Rightarrow> (NamespacedName \<Rightarrow> 'w \<Rightarrow> get_error option \<times> 'w) \<Rightarrow> GarageNode option \<Rightarrow> GarageCluster option
     \<Rightarrow> 'w \<Rightarrow> (get_error + bool) \<times> 'w" where
  "managedGarageNodeProcessAbsent reader getSet nodePtr clusterPtr w =
     (case (nodePtr, clusterPtr) of
        (Some node, Some cluster) \<Rightarrow>
          if ns_External (gn_Spec node) then (Inr False, w)
          else if isNodeLocalPoolBacked node then
            (case pool_pods reader node (gc_Name cluster) w of
               (Inl e, w1) \<Rightarrow> (Inl e, w1)
             | (Inr pods, w1) \<Rightarrow>
                 (Inr (\<not> list_ex (\<lambda>pod. pod_NodeName pod = ns_KubernetesNodeName (gn_Spec node)) pods), w1))
          else
            (case pr_GetPod reader \<lparr>nn_Namespace = gn_Namespace node, nn_Name = gn_Name node @ ''-0''\<rparr> w of
               (Inl NotFound, w1) \<Rightarrow>
                 (case getSet \<lparr>nn_Namespace = gn_Namespace node, nn_Name = gn_Name node\<rparr> w1 of
                    (Some NotFound, w2) \<Rightarrow> (Inr True, w2)
                  | (Some e, w2) \<Rightarrow> (Inl e, w2)
                  | (None, w2) \<Rightarrow> (Inr False, w2))
             | (Inl e, w1) \<Rightarrow> (Inl e, w1)
             | (Inr pod, w1) \<Rightarrow> (Inr False, w1))
      | _ \<Rightarrow> (Inr False, w))"

definition ConditionDrainPrepared :: string where "ConditionDrainPrepared = ''DrainPrepared''"
definition ReasonNodeDrainPreparedNotInLayout :: string where
  "ReasonNodeDrainPreparedNotInLayout = ''PreparedNotInLayout''"

definition garageNodePreparedWithoutLayout ::
    "(string \<Rightarrow> (string \<times> string) option) \<Rightarrow> GarageNode option \<Rightarrow> bool" where
  "garageNodePreparedWithoutLayout parse_gv nodePtr =
     (case nodePtr of
        None \<Rightarrow> False
      | Some node \<Rightarrow>
          if annotation (gn_Annotations node) AnnotationDrain \<noteq> annotationTrue then False
          else
     (case ResolvedGarageNodeID parse_gv nodePtr of
        Inl e \<Rightarrow> False
      | Inr nodeID \<Rightarrow>
          if nodeID \<noteq> [] then False
          else (case FindStatusCondition (gn_StatusConditions node) ConditionDrainPrepared of
                  None \<Rightarrow> False
                | Some c \<Rightarrow> cond_Status c = ConditionTrue \<and> cond_Reason c = ReasonNodeDrainPreparedNotInLayout
                              \<and> cond_ObservedGeneration c = gn_Generation node)))"

subsection \<open>Authorization of a finalizer\<close>

datatype finalize_error =
    FinalIdentityUnresolved identity_error
  | FinalIdentityMissing
  | GatewayProofHasStorage
  | FinalProofInvalid contract_error
  | DrainRequestMissing
  | AcknowledgementMissing
  | PodFingerprintMissing

definition completedGarageNodeDrainAuthorizesFinalization ::
    "(string \<Rightarrow> string) \<Rightarrow> (string \<Rightarrow> (string \<times> string) option) \<Rightarrow> GarageNode option \<Rightarrow> GarageCluster option
     \<Rightarrow> finalize_error + bool" where
  "completedGarageNodeDrainAuthorizesFinalization sum256 parse_gv nodePtr clusterPtr =
     (case (nodePtr, clusterPtr) of
        (Some node, Some cluster) \<Rightarrow>
          let proofPtr = clusterStorageDrainProof (cst_StorageDrain (gc_Status cluster));
              actor = storageDrainActorForNode nodePtr in
     (case proofPtr of
        None \<Rightarrow> Inr False
      | Some proof \<Rightarrow>
          if \<not> sameStorageDrainActor (bp_Actor proof) actor \<or> bp_CompletedAt proof = None then Inr False
          else if ns_Gateway (gn_Spec node) then
            (case ResolvedGarageNodeID parse_gv nodePtr of
               Inl e \<Rightarrow> Inl (FinalIdentityUnresolved e)
             | Inr nodeID \<Rightarrow>
                 if nodeID = [] then Inl FinalIdentityMissing
                 else if length (bp_RemovedStorageNodeIDs proof) \<noteq> 0 then Inl GatewayProofHasStorage
                 else (case validateTerminalStorageDrain sum256 proofPtr actor [nodeID] [] of
                         Some e \<Rightarrow> Inl (FinalProofInvalid e) | None \<Rightarrow> Inr True))
          else if annotation (gn_Annotations node) AnnotationDrain \<noteq> annotationTrue then Inl DrainRequestMissing
          else
     (case ResolvedGarageNodeID parse_gv nodePtr of
        Inl e \<Rightarrow> Inl (FinalIdentityUnresolved e)
      | Inr nodeID \<Rightarrow>
          if nodeID = [] then Inl FinalIdentityMissing
          else
     (case validateTerminalStorageDrain sum256 proofPtr actor [nodeID] [nodeID] of
        Some e \<Rightarrow> Inl (FinalProofInvalid e)
      | None \<Rightarrow>
          if storageDrainUnavailableSourceIncludes proofPtr nodeID
          then (if \<not> garageNodeAcknowledgesLostSource nodePtr nodeID then Inl AcknowledgementMissing else Inr True)
          else if \<not> ns_External (gn_Spec node) \<and> TrimSpace (gomap_get [] (bp_ManagedPodUIDs proof) nodeID) = []
          then Inl PodFingerprintMissing
          else Inr True)))
      | _ \<Rightarrow> Inr False)"

definition completedGarageClusterDrainAuthorizesFinalization ::
    "(string \<Rightarrow> string) \<Rightarrow> GarageCluster option \<Rightarrow> finalize_error + bool" where
  "completedGarageClusterDrainAuthorizesFinalization sum256 clusterPtr =
     (case clusterPtr of
        None \<Rightarrow> Inr False
      | Some cluster \<Rightarrow>
          let proofPtr = clusterStorageDrainProof (cst_StorageDrain (gc_Status cluster));
              actor = storageDrainActorForCluster clusterPtr in
     (case proofPtr of
        None \<Rightarrow> Inr False
      | Some proof \<Rightarrow>
          if \<not> sameStorageDrainActor (bp_Actor proof) actor \<or> bp_CompletedAt proof = None then Inr False
          else (case validateTerminalStorageDrain sum256 proofPtr actor [] [] of
                  Some e \<Rightarrow> Inl (FinalProofInvalid e) | None \<Rightarrow> Inr True)))"

subsection \<open>Undoing a failed Apply\<close>

text \<open>Every outcome but the first keeps errLayoutMutationPending; \<open>Reverted\<close> wraps the cause.\<close>

datatype 'f recovery =
    CauseOnly
  | CommittedUnreadable 'f
  | AppearsCommitted
  | ForeignStaging staging_error
  | RevertFailed 'f
  | VerifyFailed 'f
  | NotRestored
  | AbortNotPersisted end_error
  | Reverted

definition all_present :: "ClusterLayout \<Rightarrow> NodeRoleChange list \<Rightarrow> bool" where
  "all_present layout intended \<longleftrightarrow> list_all (\<lambda>c. rc_ID c \<in> lr_ID ` set (cl_Roles layout)) intended"

definition staging_empty :: "ClusterLayout \<Rightarrow> bool" where
  "staging_empty layout \<longleftrightarrow> \<not> (0 < length (cl_StagedRoleChanges layout) \<or> cl_StagedParameters layout \<noteq> None)"

text \<open>The common course of the two recoveries, for the actor that owns the attempt.\<close>

definition recover_apply_failure ::
    "(string \<Rightarrow> string) \<Rightarrow> (StorageDrainStatus \<Rightarrow> string) \<Rightarrow> 'w kube_api option \<Rightarrow> instant \<Rightarrow> coordinator
     \<Rightarrow> GarageCluster \<Rightarrow> storageDrainActor \<Rightarrow> ('w \<Rightarrow> ('f + ClusterLayout) \<times> 'w) \<Rightarrow> ('w \<Rightarrow> 'f option \<times> 'w)
     \<Rightarrow> NodeRoleChange list \<Rightarrow> 'w \<Rightarrow> 'f recovery \<times> GarageCluster \<times> coordinator \<times> 'w" where
  "recover_apply_failure sum256 marshal kubeClient now coord cluster actor getLayout revert intended w =
     (case getLayout w of
        (Inl f, w1) \<Rightarrow> (CommittedUnreadable f, cluster, coord, w1)
      | (Inr fresh, w1) \<Rightarrow>
          if \<not> all_present fresh intended then (AppearsCommitted, cluster, coord, w1)
          else
     (case requireExclusiveStagedLayoutChanges (Some fresh) intended None False of
        Some e \<Rightarrow> (ForeignStaging e, cluster, coord, w1)
      | None \<Rightarrow>
     (case (if staging_empty fresh then (None, w1) else revert w1) of
        (Some f, w2) \<Rightarrow> (RevertFailed f, cluster, coord, w2)
      | (None, w2) \<Rightarrow>
     (case getLayout w2 of
        (Inl f, w3) \<Rightarrow> (VerifyFailed f, cluster, coord, w3)
      | (Inr verified, w3) \<Rightarrow>
          if \<not> all_present verified intended \<or> \<not> staging_empty verified then (NotRestored, cluster, coord, w3)
          else
     (case clusterStorageDrainProof (cst_StorageDrain (gc_Status cluster)) of
        None \<Rightarrow> (Reverted, cluster, coord, w3)
      | Some proof \<Rightarrow>
          if \<not> sameStorageDrainActor (bp_Actor proof) actor then (Reverted, cluster, coord, w3)
          else (case abortStorageDrain sum256 marshal kubeClient now coord cluster (Some proof) w3 of
                  (Some e, cluster1, coord1, w4) \<Rightarrow> (AbortNotPersisted e, cluster1, coord1, w4)
                | (None, cluster1, coord1, w4) \<Rightarrow> (Reverted, cluster1, coord1, w4)))))))"

definition recoverNodeDrainApplyFailure ::
    "(string \<Rightarrow> string) \<Rightarrow> (StorageDrainStatus \<Rightarrow> string) \<Rightarrow> 'w kube_api option \<Rightarrow> instant \<Rightarrow> coordinator
     \<Rightarrow> GarageNode option \<Rightarrow> GarageCluster \<Rightarrow> ('w \<Rightarrow> ('f + ClusterLayout) \<times> 'w) \<Rightarrow> ('w \<Rightarrow> 'f option \<times> 'w)
     \<Rightarrow> NodeRoleChange list \<Rightarrow> 'w \<Rightarrow> 'f recovery \<times> GarageCluster \<times> coordinator \<times> 'w" where
  "recoverNodeDrainApplyFailure sum256 marshal kubeClient now coord node cluster getLayout revert intended w =
     (if node = None \<or> length intended \<noteq> 1 then (CauseOnly, cluster, coord, w)
      else recover_apply_failure sum256 marshal kubeClient now coord cluster (storageDrainActorForNode node)
             getLayout revert intended w)"

definition recoverClusterDrainApplyFailure ::
    "(string \<Rightarrow> string) \<Rightarrow> (StorageDrainStatus \<Rightarrow> string) \<Rightarrow> 'w kube_api option \<Rightarrow> instant \<Rightarrow> coordinator
     \<Rightarrow> GarageCluster \<Rightarrow> ('w \<Rightarrow> ('f + ClusterLayout) \<times> 'w) \<Rightarrow> ('w \<Rightarrow> 'f option \<times> 'w)
     \<Rightarrow> NodeRoleChange list \<Rightarrow> 'w \<Rightarrow> 'f recovery \<times> GarageCluster \<times> coordinator \<times> 'w" where
  "recoverClusterDrainApplyFailure sum256 marshal kubeClient now coord cluster getLayout revert intended w =
     (if length intended = 0 then (CauseOnly, cluster, coord, w)
      else recover_apply_failure sum256 marshal kubeClient now coord cluster (storageDrainActorForCluster (Some cluster))
             getLayout revert intended w)"

definition clearCompletedNodeStorageDrain ::
    "(string \<Rightarrow> string) \<Rightarrow> (StorageDrainStatus \<Rightarrow> string) \<Rightarrow> 'w kube_api option \<Rightarrow> instant \<Rightarrow> coordinator
     \<Rightarrow> GarageNode option \<Rightarrow> GarageCluster \<Rightarrow> 'w
     \<Rightarrow> (transaction_error + end_error) option \<times> GarageCluster \<times> coordinator \<times> 'w" where
  "clearCompletedNodeStorageDrain sum256 marshal kubeClient now coord node cluster w =
     (case clusterStorageDrainProof (cst_StorageDrain (gc_Status cluster)) of
        None \<Rightarrow> (None, cluster, coord, w)
      | Some proof \<Rightarrow>
          if \<not> sameStorageDrainActor (bp_Actor proof) (storageDrainActorForNode node)
          then (Some (Inl NoOwnedTransaction), cluster, coord, w)
          else if bp_CompletedAt proof = None then (Some (Inr ProofNotComplete), cluster, coord, w)
          else (case clearCompletedStorageDrain sum256 marshal kubeClient now coord cluster (Some proof) w of
                  (e, cluster1, coord1, w1) \<Rightarrow> (map_option Inr e, cluster1, coord1, w1)))"

subsection \<open>Properties\<close>

text \<open>
  C27: Only a completed transaction of its own lets a GarageNode go.  The finalizer is authorized only
  by a proof of exactly this node's actor, with ordered timestamps and an intact fingerprint, that
  names the node's resolved identity among its role targets; for a storage node also among its storage
  targets, with the drain still requested, and with the recorded Pod of the source, an external
  process, or the exact acknowledgement of a lost source; for a gateway it removes no storage at all.
\<close>

theorem node_finalization_authorized:
  assumes "completedGarageNodeDrainAuthorizesFinalization sum256 parse_gv (Some node) (Some cluster) = Inr True"
  shows "\<exists>p i c. clusterStorageDrainProof (cst_StorageDrain (gc_Status cluster)) = Some p
     \<and> bp_Actor p = storageDrainActorForNode (Some node) \<and> gn_UID node \<noteq> []
     \<and> bp_CompletedAt p = Some c \<and> bp_StartedAt p \<le> c
     \<and> bp_TargetHash p = storageDrainProofTargetHash sum256 (Some p)
     \<and> ResolvedGarageNodeID parse_gv (Some node) = Inr i \<and> i \<noteq> []
     \<and> set (NormalizeNodeIDs [i]) \<subseteq> set (bp_RoleRemovalNodeIDs p)
     \<and> (if ns_Gateway (gn_Spec node) then bp_RemovedStorageNodeIDs p = []
        else set (NormalizeNodeIDs [i]) \<subseteq> set (bp_RemovedStorageNodeIDs p)
          \<and> annotation (gn_Annotations node) AnnotationDrain = ''true''
          \<and> (if storageDrainUnavailableSourceIncludes (Some p) i then garageNodeAcknowledgesLostSource (Some node) i
             else ns_External (gn_Spec node) \<or> TrimSpace (gomap_get [] (bp_ManagedPodUIDs p) i) \<noteq> []))"
proof -
  note d = completedGarageNodeDrainAuthorizesFinalization_def Let_def annotationTrue_def
  obtain p i where p: "clusterStorageDrainProof (cst_StorageDrain (gc_Status cluster)) = Some p"
      "sameStorageDrainActor (bp_Actor p) (storageDrainActorForNode (Some node))"
      "ResolvedGarageNodeID parse_gv (Some node) = Inr i" "i \<noteq> []"
      "validateTerminalStorageDrain sum256 (Some p) (storageDrainActorForNode (Some node)) [i]
         (if ns_Gateway (gn_Spec node) then [] else [i]) = None"
    and g: "if ns_Gateway (gn_Spec node) then bp_RemovedStorageNodeIDs p = []
      else annotation (gn_Annotations node) AnnotationDrain = ''true''
        \<and> (if storageDrainUnavailableSourceIncludes (Some p) i then garageNodeAcknowledgesLostSource (Some node) i
           else ns_External (gn_Spec node) \<or> TrimSpace (gomap_get [] (bp_ManagedPodUIDs p) i) \<noteq> [])"
    using assms unfolding d by (auto split: option.split_asm sum.split_asm if_split_asm)
  have t: "terminal_authorization sum256 (the (storageContractTerminalToken (Some p)))
      (storageContractActor (storageDrainActorForNode (Some node))) [i] (if ns_Gateway (gn_Spec node) then [] else [i])"
    using p(5) by (simp add: validateTerminalStorageDrain_def storageContractTerminalToken_def ValidateTerminal_Some_iff)
  then obtain c where "bp_CompletedAt p = Some c" "bp_StartedAt p \<le> c"
      "bp_TargetHash p = storageDrainProofTargetHash sum256 (Some p)"
      "set (NormalizeNodeIDs [i]) \<subseteq> set (bp_RoleRemovalNodeIDs p)"
      "set (NormalizeNodeIDs (if ns_Gateway (gn_Spec node) then [] else [i])) \<subseteq> set (bp_RemovedStorageNodeIDs p)"
    unfolding ids.set_norm
    by (auto simp: terminal_authorization_def storageContractTerminalToken_def storageDrainProofTargetHash_def
        storageDrainTargetHash_def split: if_split_asm)
  moreover have "bp_Actor p = storageDrainActorForNode (Some node)" "gn_UID node \<noteq> []"
    using p(2) by (auto simp: sameStorageDrainActor_iff storageDrainActorForNode_def)
  ultimately show ?thesis using p g by (intro exI [of _ p] exI [of _ i] exI [of _ c]) (auto simp del: ids.set_norm)
qed

lemma recovery_releases_only_restored:
  assumes "recover_apply_failure sum256 marshal kube now coord cluster actor getLayout revert intended w
             = (r, cluster', coord', w')"
    and "coord' \<noteq> coord \<or> cluster' \<noteq> cluster"
  shows "\<exists>w2 verified w3. getLayout w2 = (Inr verified, w3) \<and> all_present verified intended \<and> staging_empty verified"
  using assms unfolding recover_apply_failure_def
  by (auto split: prod.split_asm sum.split_asm option.split_asm if_split_asm)


subsection \<open>Concrete instances\<close>

definition sample_drained_node :: GarageNode where
  "sample_drained_node = sample_node\<lparr>gn_UID := ''uid-1'', gn_Annotations := [(AnnotationDrain, ''true'')]\<rparr>"

definition sample_completed_proof :: blockResyncProof where
  "sample_completed_proof = sample_proof\<lparr>bp_CompletedAt := Some 5, bp_ManagedPodUIDs := [(sample_id CHR ''a'', ''p0'')]\<rparr>"

lemma sample_completed_terminal:
  "validateTerminalStorageDrain (\<lambda>s. s) (Some sample_completed_proof) sample_drain_actor
     [sample_id CHR ''a''] [sample_id CHR ''a''] = None"
proof -
  have "intent_wf (\<lambda>s. s) sample_completed_proof"
    using sample_proof_wf by (rule same_intent_wf [THEN iffD1, rotated]) (simp add: same_intent_def sample_completed_proof_def)
  moreover have "actor_complete (storageContractActor sample_drain_actor)" "TrimSpace ''tx'' \<noteq> []"
    by (simp_all add: actor_complete_def storageContractActor_def sample_drain_actor_def sample_string_eval)
  ultimately show ?thesis
    using completed_proof_validates [of "\<lambda>s. s" sample_completed_proof 5 "[sample_id CHR ''a'']" "[sample_id CHR ''a'']"]
    by (simp add: sample_completed_proof_def sample_proof_def)
qed

lemma sample_drained_node_facts:
  "storageDrainActorForNode (Some sample_drained_node) = sample_drain_actor"
  "ResolvedGarageNodeID (\<lambda>g. None) (Some sample_drained_node) = Inr (sample_id CHR ''a'')"
  "annotation (gn_Annotations sample_drained_node) AnnotationDrain = annotationTrue"
  "\<not> ns_Gateway (gn_Spec sample_drained_node)" "\<not> ns_External (gn_Spec sample_drained_node)"
  subgoal by (simp add: storageDrainActorForNode_def sample_drained_node_def sample_node_def sample_drain_actor_def kindGarageNode_def)
  subgoal by code_simp
  by (simp_all add: sample_drained_node_def sample_node_def annotation_def gomap_get_def annotationTrue_def)

theorem node_finalization_authorized_witness:
  "\<exists>p. clusterStorageDrainProof (cst_StorageDrain (gc_Status (sample_owner (Some sample_completed_proof)))) = Some p
     \<and> completedGarageNodeDrainAuthorizesFinalization (\<lambda>s. s) (\<lambda>g. None) (Some sample_drained_node)
         (Some (sample_owner (Some sample_completed_proof))) = Inr True
     \<and> bp_Actor p = storageDrainActorForNode (Some sample_drained_node)"
proof -
  have "bp_Actor sample_completed_proof = sample_drain_actor" "da_UID sample_drain_actor \<noteq> []"
      "TrimSpace (gomap_get [] (bp_ManagedPodUIDs sample_completed_proof) (sample_id CHR ''a'')) \<noteq> []"
      "\<not> storageDrainUnavailableSourceIncludes (Some sample_completed_proof) (sample_id CHR ''a'')"
    by (simp_all add: sample_completed_proof_def sample_proof_def sample_drain_actor_def gomap_get_def sample_string_eval
        storageDrainUnavailableSourceIncludes_def ids_include_def)
  then have run: "completedGarageNodeDrainAuthorizesFinalization (\<lambda>s. s) (\<lambda>g. None) (Some sample_drained_node)
      (Some (sample_owner (Some sample_completed_proof))) = Inr True"
    using sample_completed_terminal
    by (simp add: completedGarageNodeDrainAuthorizesFinalization_def sample_owner_facts sample_drained_node_facts
        sameStorageDrainActor_iff Let_def) (simp add: sample_completed_proof_def)
  with node_finalization_authorized [OF run] show ?thesis by blast
qed


end
