(* ===== verification/LayoutBarrier.thy ===== *)
theory LayoutBarrier
  imports ClusterModel
begin

text \<open>
  The barrier in front of every layout change the GarageCluster controller starts by itself
  (internal/controller/garagecluster_layout_barrier.go, with the activation labels of
  node_local_pool_identity.go).  The three reads it makes are arguments; each is used only if the
  code gets that far.  The text of the waiting message is a value that names what is waited for.
\<close>

subsection \<open>Activation labels of node-local pools\<close>

definition nodeLocalPoolActivationLabelDomain :: string where
  "nodeLocalPoolActivationLabelDomain = ''garage.rajsingh.info/''"
definition nodeLocalPoolActivationLabelNamePrefix :: string where "nodeLocalPoolActivationLabelNamePrefix = ''gc-''"
definition nodeLocalPoolActivationFenceValue :: string where "nodeLocalPoolActivationFenceValue = ''rollout-adoption-fenced''"
definition nodeLocalPoolActivationQuarantineValue :: string where "nodeLocalPoolActivationQuarantineValue = ''rollout-adoption-quarantine''"

definition nodeLocalPoolActivationClusterPrefix :: "(string \<Rightarrow> string) \<Rightarrow> GarageCluster \<Rightarrow> string" where
  "nodeLocalPoolActivationClusterPrefix sum256 cluster =
     (let identity = gc_Namespace cluster @ ''/'' @ gc_Name cluster @ (if gc_UID cluster \<noteq> [] then ''/'' @ gc_UID cluster else [])
      in nodeLocalPoolActivationLabelDomain @ nodeLocalPoolActivationLabelNamePrefix @ take 16 (sum256 identity) @ ''-node-local-pool-'')"

definition nodeLocalPoolActivationLabel :: "(string \<Rightarrow> string) \<Rightarrow> GarageCluster \<Rightarrow> string \<Rightarrow> string" where
  "nodeLocalPoolActivationLabel sum256 cluster pool =
     nodeLocalPoolActivationClusterPrefix sum256 cluster @ take 16 (sum256 pool)"

definition nodeLocalPoolActivationValueIsActive :: "string \<Rightarrow> bool" where
  "nodeLocalPoolActivationValueIsActive value \<longleftrightarrow>
     TrimSpace value \<noteq> [] \<and> TrimSpace value \<noteq> nodeLocalPoolActivationFenceValue
     \<and> TrimSpace value \<noteq> nodeLocalPoolActivationQuarantineValue"

subsection \<open>What is in flight\<close>

record KubernetesNode =
  kn_Name :: string
  kn_Labels :: "(string, string) gomap"

definition cluster_nodes :: "GarageCluster \<Rightarrow> GarageNode list \<Rightarrow> GarageNode list" where
  "cluster_nodes cluster nodes = filter (\<lambda>n. ref_Name (ns_ClusterRef (gn_Spec n)) = gc_Name cluster) nodes"

text \<open>The activations that a GarageNode already stands for: Kubernetes node and label.\<close>

definition claimed_activations :: "(string \<Rightarrow> string) \<Rightarrow> GarageCluster \<Rightarrow> GarageNode list \<Rightarrow> (string \<times> string) list" where
  "claimed_activations sum256 cluster nodes =
     map (\<lambda>n. (ns_KubernetesNodeName (gn_Spec n), nodeLocalPoolActivationLabel sum256 cluster (ns_NodeLocalPoolName (gn_Spec n))))
       (filter (\<lambda>n. ns_Backing (gn_Spec n) = NodeBackingNodeLocalPool \<and> ns_NodeLocalPoolName (gn_Spec n) \<noteq> []
           \<and> ns_KubernetesNodeName (gn_Spec n) \<noteq> []) (cluster_nodes cluster nodes))"

definition deleting_nodes :: "GarageCluster \<Rightarrow> string list \<Rightarrow> GarageNode list \<Rightarrow> string list" where
  "deleting_nodes cluster ignored nodes =
     map gn_Name (filter (\<lambda>n. gn_Name n \<notin> set ignored \<and> gn_Deleting n) (cluster_nodes cluster nodes))"

definition joining_nodes :: "GarageCluster \<Rightarrow> string list \<Rightarrow> GarageNode list \<Rightarrow> string list" where
  "joining_nodes cluster ignored nodes =
     map gn_Name (filter (\<lambda>n. gn_Name n \<notin> set ignored \<and> \<not> gn_Deleting n
         \<and> (gn_StatusNodeID n = [] \<or> \<not> gn_StatusInLayout n \<or> gn_StatusObservedGeneration n < gn_Generation n))
       (cluster_nodes cluster nodes))"

definition pending_activations ::
    "(string \<Rightarrow> string) \<Rightarrow> GarageCluster \<Rightarrow> GarageNode list \<Rightarrow> KubernetesNode list \<Rightarrow> string list" where
  "pending_activations sum256 cluster nodes kubernetesNodes =
     concat (map (\<lambda>k. map (\<lambda>_. kn_Name k)
       (filter (\<lambda>(key, value). nodeLocalPoolActivationValueIsActive value
            \<and> prefix (nodeLocalPoolActivationClusterPrefix sum256 cluster) key
            \<and> (kn_Name k, key) \<notin> set (claimed_activations sum256 cluster nodes)) (kn_Labels k))) kubernetesNodes)"

subsection \<open>The barrier\<close>

datatype barrier_error =
    NodesUnlisted get_error | KubernetesNodesUnlisted get_error | BarrierHistoryFailed string | BarrierHistoryMissing
  | CurrentEntriesWrong nat

datatype barrier_wait =
    WaitDeleting string | WaitJoining string | WaitActivation string | WaitSynchronizing "u64 list" u64

datatype barrier_result = BarrierOpen bool | BarrierWaits barrier_wait

definition current_entries :: "LayoutHistoryResponse \<Rightarrow> LayoutVersion list" where
  "current_entries h = filter (\<lambda>v. lv_Status v = LayoutVersionStatusCurrent \<and> lv_Version v = lh_CurrentVersion h) (lh_Versions h)"

definition layoutHistoryHasNoCommittedStorage :: "LayoutHistoryResponse option \<Rightarrow> barrier_error + bool" where
  "layoutHistoryHasNoCommittedStorage history =
     (case history of
        None \<Rightarrow> Inl BarrierHistoryMissing
      | Some h \<Rightarrow>
          (case current_entries h of
             [v] \<Rightarrow> Inr (lv_StorageNodes v = 0)
           | vs \<Rightarrow> Inl (CurrentEntriesWrong (length vs))))"

definition clusterLayoutReadyForMutation ::
    "(string \<Rightarrow> string) \<Rightarrow> bool \<Rightarrow> get_error + GarageNode list \<Rightarrow> get_error + KubernetesNode list
     \<Rightarrow> string + LayoutHistoryResponse option \<Rightarrow> GarageCluster \<Rightarrow> bool \<Rightarrow> string list \<Rightarrow> barrier_error + barrier_result" where
  "clusterLayoutReadyForMutation sum256 clusterScoped listNodes listKubernetesNodes getHistory cluster allowStorageBootstrap ignored =
     (case listNodes of
        Inl e \<Rightarrow> Inl (NodesUnlisted e)
      | Inr nodes \<Rightarrow>
     (case sort (deleting_nodes cluster ignored nodes) of
        d # _ \<Rightarrow> Inr (BarrierWaits (WaitDeleting d))
      | [] \<Rightarrow>
     (case (if clusterScoped then listKubernetesNodes else Inr []) of
        Inl e \<Rightarrow> Inl (KubernetesNodesUnlisted e)
      | Inr kubernetesNodes \<Rightarrow>
          let pending = sort (pending_activations sum256 cluster nodes kubernetesNodes) in
          if allowStorageBootstrap \<and> cluster_nodes cluster nodes = [] \<and> pending = [] then Inr (BarrierOpen True)
          else (case getHistory of
             Inl e \<Rightarrow> Inl (BarrierHistoryFailed e)
           | Inr None \<Rightarrow> Inl BarrierHistoryMissing
           | Inr (Some h) \<Rightarrow>
               let draining = GetDrainingVersions h;
                   rest = (case sort (joining_nodes cluster ignored nodes) of
                       j # _ \<Rightarrow> BarrierWaits (WaitJoining j)
                     | [] \<Rightarrow> (case pending of
                         p # _ \<Rightarrow> BarrierWaits (WaitActivation p)
                       | [] \<Rightarrow> if draining = [] then BarrierOpen False
                              else BarrierWaits (WaitSynchronizing (map lv_Version (sort_key lv_Version draining)) (lh_CurrentVersion h))))
               in if draining = [] \<and> allowStorageBootstrap then
                    (case layoutHistoryHasNoCommittedStorage (Some h) of
                       Inl e \<Rightarrow> Inl e
                     | Inr vacant \<Rightarrow> if vacant then Inr (BarrierOpen True) else Inr rest)
                  else Inr rest))))"

subsection \<open>When the barrier opens\<close>

text \<open>A layout with no committed storage role, read from exactly one current entry.\<close>

definition no_committed_storage :: "LayoutHistoryResponse \<Rightarrow> bool" where
  "no_committed_storage h \<longleftrightarrow> (\<exists>v. current_entries h = [v] \<and> lv_StorageNodes v = 0)"

definition at_rest_node :: "GarageNode \<Rightarrow> bool" where
  "at_rest_node n \<longleftrightarrow> gn_StatusNodeID n \<noteq> [] \<and> gn_StatusInLayout n \<and> gn_Generation n \<le> gn_StatusObservedGeneration n"

text \<open>No activation label of this cluster is left without its GarageNode.\<close>

definition activations_claimed ::
    "(string \<Rightarrow> string) \<Rightarrow> GarageCluster \<Rightarrow> GarageNode list \<Rightarrow> KubernetesNode list \<Rightarrow> bool" where
  "activations_claimed sum256 cluster nodes ks \<longleftrightarrow>
     (\<forall>k \<in> set ks. \<forall>(key, value) \<in> set (kn_Labels k).
        nodeLocalPoolActivationValueIsActive value \<and> prefix (nodeLocalPoolActivationClusterPrefix sum256 cluster) key
        \<longrightarrow> (kn_Name k, key) \<in> set (claimed_activations sum256 cluster nodes))"

lemma pending_activations_Nil: "pending_activations sum256 cluster nodes ks = [] \<longleftrightarrow> activations_claimed sum256 cluster nodes ks"
  by (auto simp: pending_activations_def activations_claimed_def filter_empty_conv)

lemma sort_Nil [simp]: "sort xs = [] \<longleftrightarrow> xs = []"
  by (metis set_empty set_sort)

lemma no_committed_storage_iff:
  "layoutHistoryHasNoCommittedStorage (Some h) = Inr True \<longleftrightarrow> no_committed_storage h"
  by (auto simp: layoutHistoryHasNoCommittedStorage_def no_committed_storage_def split: list.splits)

lemma deleting_Nil: "deleting_nodes cluster ignored nodes = [] \<longleftrightarrow>
    (\<forall>n \<in> set (cluster_nodes cluster nodes). gn_Name n \<notin> set ignored \<longrightarrow> \<not> gn_Deleting n)"
  by (auto simp: deleting_nodes_def filter_empty_conv)

lemma joining_Nil: "deleting_nodes cluster ignored nodes = [] \<Longrightarrow> joining_nodes cluster ignored nodes = [] \<longleftrightarrow>
    (\<forall>n \<in> set (cluster_nodes cluster nodes). gn_Name n \<notin> set ignored \<longrightarrow> at_rest_node n)"
  by (auto simp: deleting_nodes_def joining_nodes_def filter_empty_conv at_rest_node_def not_less)


definition sample_current_history :: LayoutHistoryResponse where
  "sample_current_history = \<lparr>lh_CurrentVersion = 4, lh_MinAck = 4,
     lh_Versions = [\<lparr>lv_Version = 3, lv_Status = LayoutVersionStatusHistorical, lv_StorageNodes = 2, lv_GatewayNodes = 0\<rparr>,
       \<lparr>lv_Version = 4, lv_Status = LayoutVersionStatusCurrent, lv_StorageNodes = 3, lv_GatewayNodes = 1\<rparr>], lh_UpdateTrackers = []\<rparr>"

definition sample_kubernetes_node :: KubernetesNode where
  "sample_kubernetes_node = \<lparr>kn_Name = ''n1'', kn_Labels = [(''zone'', ''a'')]\<rparr>"


end
