(* ===== verification/BucketModel.thy ===== *)
theory BucketModel
  imports DrainStore
begin

text \<open>
  Buckets and access keys: the custom resources (api/v1beta1/garagebucket_types.go,
  garagekey_types.go, garagereferencegrant_types.go), the Admin API data they are reconciled with
  (internal/garage/client.go), reference grants (referencegrant_check.go), UID-bound reservation
  aliases (reservation_identity.go), and the environment of the bucket controller.

  The controller talks to the Garage Admin API and to the Kubernetes API.  Neither is under the
  operator's control, so the environment answers every call as a function of all the calls made
  before it and of the call itself; the model records calls and outcomes in a trace.  A theorem about
  every environment then covers every behaviour of both services, other writers included.
\<close>

subsection \<open>Go errors of the two clients\<close>

text \<open>
  What the controller can observe of an error of the Admin API client: the APIError in its chain,
  whether it is a deadline or network timeout, and its text.
\<close>

record call_error =
  ce_API :: goerror
  ce_DeadlineExceeded :: bool
  ce_NetTimeout :: "bool option"
  ce_Text :: string

definition isTimeoutErr :: "call_error option \<Rightarrow> bool" where
  "isTimeoutErr err =
     (case err of
        None \<Rightarrow> False
      | Some e \<Rightarrow>
          if ce_DeadlineExceeded e then True
          else if ce_NetTimeout e = Some True then True
          else Contains (ce_Text e) ''i/o timeout''
             \<or> Contains (ce_Text e) ''timeout awaiting response headers''
             \<or> Contains (ce_Text e) ''context deadline exceeded'')"

datatype kube_error = KubeNotFound | KubeConflict | KubeAlreadyExists | KubeFailed string

text \<open>A bucket lookup either failed or ran into the per-call deadline (errBucketInfoTimeout).\<close>

datatype lookup_error = BucketInfoTimeout | LookupFailed call_error

definition lookup_api :: "lookup_error \<Rightarrow> goerror" where
  "lookup_api e = (case e of BucketInfoTimeout \<Rightarrow> None | LookupFailed c \<Rightarrow> ce_API c)"

subsection \<open>Reference grants\<close>

record ReferenceGrantFrom =
  rgf_Kind :: string
  rgf_Namespace :: string

record ReferenceGrantTo =
  rgt_Kind :: string
  rgt_Name :: string

record GarageReferenceGrantSpec =
  rgs_From :: "ReferenceGrantFrom list"
  rgs_To :: "ReferenceGrantTo list"

record GarageReferenceGrant =
  rg_Namespace :: string
  rg_Name :: string
  rg_Spec :: GarageReferenceGrantSpec

definition garageClusterKind :: string where "garageClusterKind = ''GarageCluster''"
definition garageBucketKind :: string where "garageBucketKind = ''GarageBucket''"
definition garageKeyKind :: string where "garageKeyKind = ''GarageKey''"

definition grantPermits :: "GarageReferenceGrant \<Rightarrow> string \<Rightarrow> string \<Rightarrow> string \<Rightarrow> string \<Rightarrow> bool" where
  "grantPermits grant fromKind fromNamespace toKind toName =
     (let fromMatched = list_ex (\<lambda>f. rgf_Kind f = fromKind \<and> rgf_Namespace f = fromNamespace) (rgs_From (rg_Spec grant)) in
      if \<not> fromMatched then False
      else if rgs_To (rg_Spec grant) = [] then toKind = garageClusterKind \<or> toKind = garageBucketKind
      else list_ex (\<lambda>t. rgt_Kind t = toKind \<and> (rgt_Name t = [] \<or> rgt_Name t = toName)) (rgs_To (rg_Spec grant)))"

datatype grant_error = GrantListFailed kube_error | ReferenceNotPermitted

type_synonym grant_lister = "string \<Rightarrow> kube_error + GarageReferenceGrant list"

definition checkReferenceGrant ::
    "grant_lister \<Rightarrow> string \<Rightarrow> string \<Rightarrow> string \<Rightarrow> string \<Rightarrow> string \<Rightarrow> grant_error option" where
  "checkReferenceGrant list_grants fromKind fromNamespace toKind toNamespace toName =
     (if fromNamespace = toNamespace then None
      else (case list_grants toNamespace of
              Inl e \<Rightarrow> Some (GrantListFailed e)
            | Inr grants \<Rightarrow>
                if list_ex (\<lambda>g. grantPermits g fromKind fromNamespace toKind toName) grants then None
                else Some ReferenceNotPermitted))"

definition CheckReferenceGrant ::
    "grant_lister \<Rightarrow> string \<Rightarrow> string \<Rightarrow> string \<Rightarrow> string \<Rightarrow> string \<Rightarrow> grant_error option" where
  "CheckReferenceGrant list_grants fromKind fromNamespace toKind toNamespace toName =
     checkReferenceGrant list_grants fromKind fromNamespace toKind toNamespace toName"

subsection \<open>UID-bound reservation aliases\<close>

definition reservation_payload :: "string \<Rightarrow> string \<Rightarrow> string \<Rightarrow> string" where
  "reservation_payload namespace name uid = namespace @ [CHR 0x00] @ name @ [CHR 0x00] @ uid"

definition UIDBoundReservationAlias ::
    "(string \<Rightarrow> string) \<Rightarrow> string \<Rightarrow> string \<Rightarrow> string \<Rightarrow> string \<Rightarrow> string option" where
  "UIDBoundReservationAlias sum256 pre namespace name uid =
     (if uid = [] then None
      else Some (pre @ take 32 (sum256 (reservation_payload namespace name uid))))"

subsection \<open>Lifecycle rules, as declared and as the Admin API has them\<close>

record LifecycleFilter =
  lf_Prefix :: string
  lf_ObjectSizeGreaterThan :: "int option"
  lf_ObjectSizeLessThan :: "int option"

record LifecycleRule =
  lr_ID :: string
  lr_Status :: string
  lr_Filter :: "LifecycleFilter option"
  lr_ExpirationDays :: "int option"
  lr_ExpirationDate :: "instant option"
  lr_AbortIncompleteMultipartUploadDays :: "int option"

record BucketLifecycle =
  bl_Rules :: "LifecycleRule list"

record LifecycleRuleStatus =
  lrs_ID :: string
  lrs_Status :: string

text \<open>A filter may nest another one under And, so the Admin API type is recursive.\<close>

datatype AdminLifecycleFilter = AdminLifecycleFilter
  (af_And: "AdminLifecycleFilter option")
  (af_Prefix: "string option")
  (af_ObjectSizeGreaterThan: "int option")
  (af_ObjectSizeLessThan: "int option")

record AdminLifecycleExpiration =
  ae_Days :: "int option"
  ae_Date :: "string option"

record AdminLifecycleAbort =
  aa_DaysAfterInitiation :: int

record AdminLifecycleRule =
  ar_ID :: "string option"
  ar_Status :: string
  ar_Filter :: "AdminLifecycleFilter option"
  ar_Expiration :: "AdminLifecycleExpiration option"
  ar_AbortIncompleteMultipartUpload :: "AdminLifecycleAbort option"

subsection \<open>Admin API data of buckets\<close>

record BucketKeyPerms =
  kp_Read :: bool
  kp_Write :: bool
  kp_Owner :: bool

definition no_perms :: BucketKeyPerms where
  "no_perms = \<lparr>kp_Read = False, kp_Write = False, kp_Owner = False\<rparr>"

record BucketKeyInfo =
  ki_AccessKeyID :: string
  ki_Name :: string
  ki_Permissions :: BucketKeyPerms
  ki_BucketLocalAliases :: "string list"

record AdminBucketQuotas =
  bq_MaxSize :: "u64 option"
  bq_MaxObjects :: "u64 option"

record AdminWebsiteConfig =
  awc_IndexDocument :: string
  awc_ErrorDocument :: string

record Bucket =
  bk_ID :: string
  bk_Created :: string
  bk_GlobalAliases :: "string list"
  bk_WebsiteAccess :: bool
  bk_WebsiteConfig :: "AdminWebsiteConfig option"
  bk_Keys :: "BucketKeyInfo list"
  bk_Objects :: int
  bk_Bytes :: int
  bk_UnfinishedMultipartUploads :: int
  bk_UnfinishedMultipartUploadParts :: int
  bk_UnfinishedMultipartUploadBytes :: int
  bk_Quotas :: "AdminBucketQuotas option"
  bk_LifecycleRules :: "AdminLifecycleRule list"

record GetBucketRequest =
  gbr_ID :: string
  gbr_GlobalAlias :: string

record BucketAliasRequest =
  bar_BucketID :: string
  bar_GlobalAlias :: string
  bar_LocalAlias :: string
  bar_AccessKeyID :: string

record UpdateBucketWebsiteAccess =
  uw_Enabled :: bool
  uw_IndexDocument :: string
  uw_ErrorDocument :: string

record UpdateBucketRequestBody =
  ub_WebsiteAccess :: "UpdateBucketWebsiteAccess option"
  ub_Quotas :: "AdminBucketQuotas option"

subsection \<open>The GarageBucket resource\<close>

record LocalAlias =
  la_KeyRef :: string
  la_Alias :: string

text \<open>A quantity is its value in units, \<open>Value()\<close>.\<close>

record BucketQuotas =
  qt_MaxSize :: "int option"
  qt_MaxObjects :: "int option"

record WebsiteConfig =
  wc_Enabled :: "bool option"
  wc_IndexDocument :: string
  wc_ErrorDocument :: string

record KeyRef =
  kr_Name :: string
  kr_Namespace :: string

record KeyPermission =
  kpm_KeyRef :: KeyRef
  kpm_Read :: bool
  kpm_Write :: bool
  kpm_Owner :: bool

record GarageBucketSpec =
  bs_ClusterRef :: ClusterReference
  bs_GlobalAlias :: string
  bs_LocalAliases :: "LocalAlias list"
  bs_Quotas :: "BucketQuotas option"
  bs_Website :: "WebsiteConfig option"
  bs_KeyPermissions :: "KeyPermission list"
  bs_BucketID :: string
  bs_Lifecycle :: "BucketLifecycle option"

record LocalAliasStatus =
  las_KeyID :: string
  las_KeyName :: string
  las_Alias :: string

record QuotaUsageStatus =
  qu_SizeBytes :: int
  qu_SizeLimit :: int
  qu_SizePercent :: int
  qu_ObjectCount :: int
  qu_ObjectLimit :: int
  qu_ObjectPercent :: int

record BucketKeyStatus =
  bks_KeyID :: string
  bks_Name :: string
  bks_Permissions :: BucketKeyPerms

record GarageBucketStatus =
  bst_BucketID :: string
  bst_Phase :: string
  bst_GlobalAlias :: string
  bst_CreatedAt :: "instant option"
  bst_Size :: string
  bst_IncompleteUploads :: int
  bst_IncompleteUploadParts :: int
  bst_IncompleteUploadBytes :: int
  bst_WebsiteEnabled :: bool
  bst_WebsiteURL :: string
  bst_WebsiteConfig :: "AdminWebsiteConfig option"
  bst_QuotaUsage :: "QuotaUsageStatus option"
  bst_Keys :: "BucketKeyStatus list"
  bst_ManagedKeyGrants :: "string list"
  bst_ManagedGlobalAlias :: string
  bst_PendingGlobalAlias :: string
  bst_ManagedLocalAliases :: "LocalAliasStatus list"
  bst_LocalAliases :: "LocalAliasStatus list"
  bst_LifecycleRules :: "LifecycleRuleStatus list"
  bst_ObservedGeneration :: int
  bst_Conditions :: "Condition list"

record GarageBucket =
  gb_Namespace :: string
  gb_Name :: string
  gb_UID :: string
  gb_Generation :: int
  gb_DeletionTimestamp :: "instant option"
  gb_Labels :: "(string, string) gomap"
  gb_Annotations :: "(string, string) gomap"
  gb_Finalizers :: "string list"
  gb_OwnerUIDs :: "string list"
  gb_Spec :: GarageBucketSpec
  gb_Status :: GarageBucketStatus

subsection \<open>The GarageKey resource\<close>

record BucketRef =
  br_Name :: string
  br_Namespace :: string

record BucketPermission =
  bp2_BucketRef :: "BucketRef option"
  bp2_BucketID :: string
  bp2_GlobalAlias :: string
  bp2_Read :: bool
  bp2_Write :: bool
  bp2_Owner :: bool

record AllBucketsPermission =
  ab_Read :: bool
  ab_Write :: bool
  ab_Owner :: bool

text \<open>A reference to a Secret, import settings and the template of the generated Secret.\<close>

record SecretReference =
  sr_Name :: string
  sr_Namespace :: string

record ImportKeyConfig =
  ik_AccessKeyID :: string
  ik_SecretAccessKey :: string
  ik_SecretRef :: "SecretReference option"
  ik_AccessKeyIDKey :: string
  ik_SecretAccessKeyKey :: string

record SecretTemplate =
  stp_Name :: string
  stp_Labels :: "(string, string) gomap"
  stp_Annotations :: "(string, string) gomap"
  stp_Type :: string
  stp_AccessKeyIDKey :: string
  stp_SecretAccessKeyKey :: string
  stp_EndpointKey :: string
  stp_HostKey :: string
  stp_SchemeKey :: string
  stp_RegionKey :: string
  stp_BucketNameKey :: string
  stp_IncludeEndpoint :: "bool option"
  stp_IncludeRegion :: "bool option"
  stp_IncludeBucketName :: "bool option"
  stp_AdditionalData :: "(string, string) gomap"

record KeyPermissions =
  kper_CreateBucket :: bool

record GarageKeySpec =
  ks_ClusterRef :: ClusterReference
  ks_Name :: string
  ks_ImportKey :: "ImportKeyConfig option"
  ks_SecretTemplate :: "SecretTemplate option"
  ks_BucketPermissions :: "BucketPermission list"
  ks_AllBuckets :: "AllBucketsPermission option"
  ks_Permissions :: "KeyPermissions option"
  ks_ExpiresAt :: "instant option"
  ks_NeverExpires :: bool

record KeyBucketAccess =
  kba_BucketID :: string
  kba_GlobalAlias :: string
  kba_LocalAlias :: string
  kba_Permissions :: BucketKeyPerms

record GarageKeyStatus =
  kst_KeyID :: string
  kst_AccessKeyID :: string
  kst_Phase :: string
  kst_CreatedAt :: "instant option"
  kst_ExpiresAt :: "instant option"
  kst_ClusterWide :: bool
  kst_SecretRef :: "SecretReference option"
  kst_Permissions :: "KeyPermissions option"
  kst_Buckets :: "KeyBucketAccess list"
  kst_ManagedBucketGrants :: "string list"
  kst_ObservedGeneration :: int
  kst_Conditions :: "Condition list"

record GarageKey =
  gk_Namespace :: string
  gk_Name :: string
  gk_UID :: string
  gk_Generation :: int
  gk_DeletionTimestamp :: "instant option"
  gk_Labels :: "(string, string) gomap"
  gk_Annotations :: "(string, string) gomap"
  gk_Finalizers :: "string list"
  gk_Spec :: GarageKeySpec
  gk_Status :: GarageKeyStatus

subsection \<open>Keys of the Admin API and Secrets of Kubernetes\<close>

record KeyBucket =
  kb_ID :: string
  kb_GlobalAliases :: "string list"
  kb_LocalAliases :: "string list"
  kb_Permissions :: BucketKeyPerms

record Key =
  gky_AccessKeyID :: string
  gky_Created :: "string option"
  gky_Name :: string
  gky_Expiration :: "string option"
  gky_SecretAccessKey :: string
  gky_Permissions :: KeyPermissions
  gky_Buckets :: "KeyBucket list"

record UpdateKeyRequestBody =
  uk_Name :: string
  uk_Expiration :: "string option"
  uk_NeverExpires :: bool
  uk_Allow :: "KeyPermissions option"
  uk_Deny :: "KeyPermissions option"

text \<open>Of a Secret's owners only the controller's UID matters.\<close>

record Secret =
  sec_Namespace :: string
  sec_Name :: string
  sec_UID :: string
  sec_Labels :: "(string, string) gomap"
  sec_Annotations :: "(string, string) gomap"
  sec_Controller :: "string option"
  sec_Immutable :: "bool option"
  sec_Type :: string
  sec_Data :: "(string, string) gomap"

subsection \<open>Calls, traces and environments\<close>

text \<open>Calls of the GarageKey controller, and then all calls.\<close>

datatype key_call =
    GetKeyInfo string bool
  | ImportKey string string string
  | UpdateKey string UpdateKeyRequestBody
  | DeleteKey string
  | KeyStatusUpdate GarageKey
  | KeyUpdate GarageKey
  | KeyPatch GarageKey
  | KeyGet NamespacedName
  | SecretCreate Secret
  | SecretUpdate Secret
  | SecretDelete NamespacedName string

datatype bucket_call =
    GetBucketInfo GetBucketRequest
  | CreateBucket string
  | AddBucketAlias BucketAliasRequest
  | RemoveBucketAlias BucketAliasRequest
  | UpdateBucket string UpdateBucketRequestBody
  | SetBucketLifecycle string "AdminLifecycleRule list"
  | AllowBucketKey string string BucketKeyPerms
  | DenyBucketKey string string BucketKeyPerms
  | DeleteBucket string
  | CleanupIncompleteUploads string int
  | StatusUpdate GarageBucket
  | ObjectUpdate GarageBucket
  | ObjectPatch GarageBucket
  | ObjectDelete NamespacedName
  | ObjectGet NamespacedName
  | ClusterPatch GarageCluster
  | KeyCall key_call

text \<open>An entry of the trace is a call and how it ended.\<close>

datatype outcome = Succeeded | Missing | Failed

type_synonym trace = "(bucket_call \<times> outcome) list"

definition api_outcome :: "call_error option \<Rightarrow> outcome" where
  "api_outcome err =
     (case err of None \<Rightarrow> Succeeded | Some e \<Rightarrow> if IsNotFound (ce_API e) then Missing else Failed)"

definition kube_outcome :: "kube_error option \<Rightarrow> outcome" where
  "kube_outcome err =
     (case err of None \<Rightarrow> Succeeded | Some e \<Rightarrow> if e = KubeNotFound then Missing else Failed)"

definition error_of :: "'e + 'a \<Rightarrow> 'e option" where
  "error_of r = (case r of Inl e \<Rightarrow> Some e | Inr _ \<Rightarrow> None)"

lemma error_of_simps [simp]: "error_of (Inl e) = Some e" "error_of (Inr a) = None"
  by (simp_all add: error_of_def)

lemma api_outcome_simps [simp]: "api_outcome None = Succeeded" "api_outcome err = Succeeded \<longleftrightarrow> err = None"
  by (auto simp: api_outcome_def split: option.splits)

lemma kube_outcome_simps [simp]: "kube_outcome None = Succeeded" "kube_outcome err = Succeeded \<longleftrightarrow> err = None"
  by (auto simp: kube_outcome_def split: option.splits)

text \<open>
  The calls on the Admin API answer with a bucket, or only with success; the writes of the bucket
  object answer with the stored object (the client decodes it over the caller's), a status update with
  success.  Reads of other objects do not change anything and are functions of the trace alone;
  \<open>be_Client\<close> tells whether an Admin API client for a cluster could be made.
\<close>

record COSIBucket =
  cb_Deleting :: bool
  cb_DriverName :: string
  cb_Retain :: bool
  cb_BucketID :: string

record bucket_env =
  be_Bucket :: "trace \<Rightarrow> bucket_call \<Rightarrow> call_error + Bucket"
  be_Unit :: "trace \<Rightarrow> bucket_call \<Rightarrow> call_error option"
  be_Status :: "trace \<Rightarrow> bucket_call \<Rightarrow> kube_error option"
  be_Object :: "trace \<Rightarrow> bucket_call \<Rightarrow> kube_error + GarageBucket"
  be_ContextLive :: "trace \<Rightarrow> bool"
  be_GetKey :: "trace \<Rightarrow> NamespacedName \<Rightarrow> kube_error + GarageKey"
  be_ListKeys :: "trace \<Rightarrow> kube_error + GarageKey list"
  be_ListGrants :: "trace \<Rightarrow> grant_lister"
  be_GetCluster :: "trace \<Rightarrow> NamespacedName \<Rightarrow> kube_error + GarageCluster"
  be_GetCOSIBucket :: "trace \<Rightarrow> string \<Rightarrow> kube_error + COSIBucket"
  be_Client :: "trace \<Rightarrow> GarageCluster \<Rightarrow> bool \<Rightarrow> bool"

definition call_bucket :: "bucket_env \<Rightarrow> bucket_call \<Rightarrow> trace \<Rightarrow> (call_error + Bucket) \<times> trace" where
  "call_bucket env c tr = (let r = be_Bucket env tr c in (r, tr @ [(c, api_outcome (error_of r))]))"

definition call_unit :: "bucket_env \<Rightarrow> bucket_call \<Rightarrow> trace \<Rightarrow> call_error option \<times> trace" where
  "call_unit env c tr = (let r = be_Unit env tr c in (r, tr @ [(c, api_outcome r)]))"

definition call_status :: "bucket_env \<Rightarrow> bucket_call \<Rightarrow> trace \<Rightarrow> kube_error option \<times> trace" where
  "call_status env c tr = (let r = be_Status env tr c in (r, tr @ [(c, kube_outcome r)]))"

definition call_object :: "bucket_env \<Rightarrow> bucket_call \<Rightarrow> trace \<Rightarrow> (kube_error + GarageBucket) \<times> trace" where
  "call_object env c tr = (let r = be_Object env tr c in (r, tr @ [(c, kube_outcome (error_of r))]))"

lemmas call_defs = call_bucket_def call_unit_def call_status_def call_object_def Let_def

text \<open>UpdateStatusWithRetry, for a GarageBucket: the trace plays the part of the world.\<close>

definition bucket_key :: "GarageBucket \<Rightarrow> NamespacedName" where
  "bucket_key b = \<lparr>nn_Namespace = gb_Namespace b, nn_Name = gb_Name b\<rparr>"

datatype status_error = StatusUpdateFailed kube_error | StatusRefetchFailed kube_error | StatusObjectRecreated
  | StatusRetriesExhausted

fun bucket_status_retry ::
    "bucket_env \<Rightarrow> string \<Rightarrow> (GarageBucket \<Rightarrow> GarageBucket) \<Rightarrow> nat \<Rightarrow> GarageBucket \<Rightarrow> trace
     \<Rightarrow> status_error option \<times> GarageBucket \<times> trace" where
  "bucket_status_retry env originalUID reapply 0 obj tr = (Some StatusRetriesExhausted, obj, tr)"
| "bucket_status_retry env originalUID reapply (Suc n) obj tr =
     (case call_status env (StatusUpdate obj) tr of
        (None, t1) \<Rightarrow> (None, obj, t1)
      | (Some e, t1) \<Rightarrow>
          if e \<noteq> KubeConflict then (Some (StatusUpdateFailed e), obj, t1)
          else if 0 < n then
            (case call_object env (ObjectGet (bucket_key obj)) t1 of
               (Inl e', t2) \<Rightarrow> (Some (StatusRefetchFailed e'), obj, t2)
             | (Inr fresh, t2) \<Rightarrow>
                 if originalUID \<noteq> [] \<and> gb_UID fresh \<noteq> originalUID then (Some StatusObjectRecreated, fresh, t2)
                 else bucket_status_retry env originalUID reapply n (reapply fresh) t2)
          else bucket_status_retry env originalUID reapply n obj t1)"

definition bucket_status_update ::
    "bucket_env \<Rightarrow> GarageBucket \<Rightarrow> trace \<Rightarrow> status_error option \<times> GarageBucket \<times> trace" where
  "bucket_status_update env obj tr =
     bucket_status_retry env (gb_UID obj) (\<lambda>fresh. fresh\<lparr>gb_Status := gb_Status obj\<rparr>)
       StatusUpdateMaxRetries obj tr"

subsection \<open>A small instance\<close>

definition sample_bucket :: GarageBucket where
  "sample_bucket =
     \<lparr>gb_Namespace = ''apps'', gb_Name = ''photos'', gb_UID = ''u1'', gb_Generation = 1,
      gb_DeletionTimestamp = None, gb_Labels = [], gb_Annotations = [], gb_Finalizers = [], gb_OwnerUIDs = [],
      gb_Spec = \<lparr>bs_ClusterRef = \<lparr>ref_Name = ''garage'', ref_Namespace = [], ref_KubeConfigSecretRef = False\<rparr>,
        bs_GlobalAlias = [], bs_LocalAliases = [], bs_Quotas = None, bs_Website = None, bs_KeyPermissions = [],
        bs_BucketID = [], bs_Lifecycle = None\<rparr>,
      gb_Status = \<lparr>bst_BucketID = [], bst_Phase = [], bst_GlobalAlias = [], bst_CreatedAt = None, bst_Size = [],
        bst_IncompleteUploads = 0, bst_IncompleteUploadParts = 0, bst_IncompleteUploadBytes = 0,
        bst_WebsiteEnabled = False, bst_WebsiteURL = [], bst_WebsiteConfig = None, bst_QuotaUsage = None,
        bst_Keys = [], bst_ManagedKeyGrants = [], bst_ManagedGlobalAlias = [], bst_PendingGlobalAlias = [],
        bst_ManagedLocalAliases = [], bst_LocalAliases = [], bst_LifecycleRules = [], bst_ObservedGeneration = 0,
        bst_Conditions = []\<rparr>\<rparr>"

definition sample_remote :: Bucket where
  "sample_remote =
     \<lparr>bk_ID = ''b1'', bk_Created = [], bk_GlobalAliases = [], bk_WebsiteAccess = False, bk_WebsiteConfig = None,
      bk_Keys = [], bk_Objects = 0, bk_Bytes = 0, bk_UnfinishedMultipartUploads = 0,
      bk_UnfinishedMultipartUploadParts = 0, bk_UnfinishedMultipartUploadBytes = 0, bk_Quotas = None,
      bk_LifecycleRules = []\<rparr>"

definition sample_missing :: call_error where
  "sample_missing = \<lparr>ce_API = Some \<lparr>api_StatusCode = 404, api_Message = []\<rparr>, ce_DeadlineExceeded = False,
     ce_NetTimeout = None, ce_Text = []\<rparr>"

text \<open>
  A Garage service with no bucket at first: lookups by alias find nothing, lookups by identifier and
  every change answer with \<open>bk\<close>; every write of Kubernetes succeeds.
\<close>

definition sample_service :: "Bucket \<Rightarrow> bucket_env" where
  "sample_service bk =
     \<lparr>be_Bucket = (\<lambda>tr c. case c of GetBucketInfo req \<Rightarrow> if gbr_ID req = [] then Inl sample_missing else Inr bk | _ \<Rightarrow> Inr bk),
      be_Unit = (\<lambda>tr c. None),
      be_Status = (\<lambda>tr c. None),
      be_Object = (\<lambda>tr c. case c of ObjectPatch b \<Rightarrow> Inr b | ObjectUpdate b \<Rightarrow> Inr b | _ \<Rightarrow> Inl KubeNotFound),
      be_ContextLive = (\<lambda>tr. True),
      be_GetKey = (\<lambda>tr k. Inl KubeNotFound),
      be_ListKeys = (\<lambda>tr. Inr []),
      be_ListGrants = (\<lambda>tr ns. Inr []),
      be_GetCluster = (\<lambda>tr n. Inl KubeNotFound),
      be_GetCOSIBucket = (\<lambda>tr n. Inl KubeNotFound),
      be_Client = (\<lambda>tr c cleanup. True)\<rparr>"

lemmas sample_bucket_defs = sample_bucket_def sample_remote_def sample_missing_def sample_env_def

end
