(* ===== verification/BucketIdentity.thy ===== *)
theory BucketIdentity
  imports BucketModel
begin

text \<open>
  Which remote bucket a GarageBucket owns (internal/controller/garagebucket_controller.go):
  resolving or creating it under a persisted UID-bound reservation (getOrCreateBucket), retiring the
  reservation, and deleting exactly the owned bucket on finalization.  A \<open>bucket_error\<close> keeps the
  error it wraps, because the reconciler classifies the wrapped one.
\<close>

definition AnnotationCOSIBucketID :: string where
  "AnnotationCOSIBucketID = ''garage.rajsingh.info/cosi-bucket-id''"
definition AnnotationCOSIReservationAlias :: string where
  "AnnotationCOSIReservationAlias = ''garage.rajsingh.info/cosi-reservation-alias''"
definition AnnotationBucketReservationAlias :: string where
  "AnnotationBucketReservationAlias = ''garage.rajsingh.info/bucket-reservation-alias''"

datatype bucket_error =
    COSIWithoutTrustedID
  | COSIDisagreesWithTrusted
  | ReservationNeedsUID
  | ReservationUnbound
  | SpecDisagreesWithReservation
  | StatusDisagreesWithReservation
  | LookupTimedOut
  | ReservationLookupFailed lookup_error
  | SpecBucketUnreachable lookup_error
  | TrackedLookupFailed lookup_error
  | COSIBucketGone
  | AliasOwnedByUntracked string
  | AliasLookupFailed lookup_error
  | PersistReservationFailed kube_error
  | CreateBucketFailed call_error
  | RemoveReservationFailed call_error
  | ClearReservationFailed kube_error
  | RemoveAbandonedAliasFailed call_error
  | StatusWriteFailed status_error
  | SetGlobalAliasFailed call_error
  | GlobalAliasConflict call_error
  | RemovePreviousAliasFailed call_error
  | QuotaNegative
  | UpdateBucketFailed call_error
  | WaitingForKey string string
  | KeyReadFailed kube_error
  | GrantStatusFailed kube_error
  | KeyListFailed kube_error
  | PermissionsFailed nat
  | AliasKeyOnOtherCluster
  | AddLocalAliasFailed call_error
  | LocalAliasConflict call_error
  | RemoveLocalAliasFailed call_error
  | IdentitiesDisagree
  | BucketNotEmptyError
  | DeleteBucketFailed call_error

text \<open>The sentinel and the APIError that errors.Is and errors.As find in the chain.\<close>

definition isBucketLookupTimeout :: "lookup_error \<Rightarrow> bool" where
  "isBucketLookupTimeout e \<longleftrightarrow> e = BucketInfoTimeout"

subsection \<open>Looking a bucket up\<close>

definition by_id :: "string \<Rightarrow> GetBucketRequest" where
  "by_id i = \<lparr>gbr_ID = i, gbr_GlobalAlias = []\<rparr>"

definition by_alias :: "string \<Rightarrow> GetBucketRequest" where
  "by_alias a = \<lparr>gbr_ID = [], gbr_GlobalAlias = a\<rparr>"

definition getBucketWithTimeout ::
    "bucket_env \<Rightarrow> GetBucketRequest \<Rightarrow> trace \<Rightarrow> (lookup_error + Bucket) \<times> trace" where
  "getBucketWithTimeout env req tr =
     (case call_bucket env (GetBucketInfo req) tr of
        (Inl e, t1) \<Rightarrow>
          if isTimeoutErr (Some e) \<and> be_ContextLive env t1 then (Inl BucketInfoTimeout, t1)
          else (Inl (LookupFailed e), t1)
      | (Inr b, t1) \<Rightarrow> (Inr b, t1))"

subsection \<open>getOrCreateBucket\<close>

definition garageBucketReservationAlias :: "(string \<Rightarrow> string) \<Rightarrow> GarageBucket \<Rightarrow> string option" where
  "garageBucketReservationAlias sum256 b =
     UIDBoundReservationAlias sum256 ''garage-rsv-'' (gb_Namespace b) (gb_Name b) (gb_UID b)"

definition reservation_of :: "GarageBucket \<Rightarrow> string" where
  "reservation_of b = annotation (gb_Annotations b) AnnotationBucketReservationAlias"

definition with_bucket_id :: "string \<Rightarrow> GarageBucket \<Rightarrow> GarageBucket" where
  "with_bucket_id i b = b\<lparr>gb_Status := (gb_Status b)\<lparr>bst_BucketID := i\<rparr>\<rparr>"

definition check_cosi_identity :: "GarageBucket \<Rightarrow> bucket_error option" where
  "check_cosi_identity b =
     (let cosi = annotation (gb_Annotations b) AnnotationCOSIBucketID in
      if cosi = [] then None
      else let trusted = (if bst_BucketID (gb_Status b) = [] then bs_BucketID (gb_Spec b) else bst_BucketID (gb_Status b)) in
        if trusted = [] then Some COSIWithoutTrustedID
        else if trusted \<noteq> cosi then Some COSIDisagreesWithTrusted
        else None)"

text \<open>Recovering a persisted reservation: a final result, or \<open>None\<close> to go on.\<close>

definition recover_reservation ::
    "(string \<Rightarrow> string) \<Rightarrow> bucket_env \<Rightarrow> GarageBucket \<Rightarrow> trace
     \<Rightarrow> (bucket_error + Bucket) option \<times> GarageBucket \<times> trace" where
  "recover_reservation sum256 env b tr =
     (let alias = reservation_of b in
      if alias = [] then (None, b, tr)
      else case garageBucketReservationAlias sum256 b of
        None \<Rightarrow> (Some (Inl ReservationNeedsUID), b, tr)
      | Some expected \<Rightarrow>
          if alias \<noteq> expected then (Some (Inl ReservationUnbound), b, tr)
          else (case getBucketWithTimeout env (by_alias alias) tr of
            (Inr reserved, t1) \<Rightarrow>
              if bs_BucketID (gb_Spec b) \<noteq> [] \<and> bs_BucketID (gb_Spec b) \<noteq> bk_ID reserved
              then (Some (Inl SpecDisagreesWithReservation), b, t1)
              else if bst_BucketID (gb_Status b) \<noteq> [] \<and> bst_BucketID (gb_Status b) \<noteq> bk_ID reserved
              then (Some (Inl StatusDisagreesWithReservation), b, t1)
              else (Some (Inr reserved), with_bucket_id (bk_ID reserved) b, t1)
          | (Inl e, t1) \<Rightarrow>
              if isBucketLookupTimeout e then (Some (Inl LookupTimedOut), b, t1)
              else if \<not> IsNotFound (lookup_api e) then (Some (Inl (ReservationLookupFailed e)), b, t1)
              else (None, b, t1)))"

text \<open>A tracked identity: only a genuine 404 falls through.\<close>

definition tracked_bucket ::
    "bucket_env \<Rightarrow> GarageBucket \<Rightarrow> trace \<Rightarrow> (bucket_error + Bucket) option \<times> trace" where
  "tracked_bucket env b tr =
     (let i = bst_BucketID (gb_Status b) in
      if i = [] then (None, tr)
      else (case getBucketWithTimeout env (by_id i) tr of
        (Inr existing, t1) \<Rightarrow> (Some (Inr existing), t1)
      | (Inl e, t1) \<Rightarrow>
          if isBucketLookupTimeout e then (Some (Inl LookupTimedOut), t1)
          else if \<not> IsNotFound (lookup_api e) then (Some (Inl (TrackedLookupFailed e)), t1)
          else if annotation (gb_Annotations b) AnnotationCOSIBucketID \<noteq> [] then (Some (Inl COSIBucketGone), t1)
          else (None, t1)))"

definition alias_is_free :: "bucket_env \<Rightarrow> string \<Rightarrow> trace \<Rightarrow> bucket_error option \<times> trace" where
  "alias_is_free env alias tr =
     (case getBucketWithTimeout env (by_alias alias) tr of
        (Inr existing, t1) \<Rightarrow> (Some (AliasOwnedByUntracked (bk_ID existing)), t1)
      | (Inl e, t1) \<Rightarrow>
          if isBucketLookupTimeout e then (Some LookupTimedOut, t1)
          else if \<not> IsNotFound (lookup_api e) then (Some (AliasLookupFailed e), t1)
          else (None, t1))"

definition create_under ::
    "bucket_env \<Rightarrow> string \<Rightarrow> GarageBucket \<Rightarrow> trace \<Rightarrow> (bucket_error + Bucket) \<times> GarageBucket \<times> trace" where
  "create_under env reservation b tr =
     (case call_bucket env (CreateBucket reservation) tr of
        (Inl e, t1) \<Rightarrow> (Inl (CreateBucketFailed e), b, t1)
      | (Inr created, t1) \<Rightarrow> (Inr created, with_bucket_id (bk_ID created) b, t1))"

text \<open>The reservation is persisted before the create; the patch answers with the stored object.\<close>

definition reserve_and_create ::
    "(string \<Rightarrow> string) \<Rightarrow> bucket_env \<Rightarrow> GarageBucket \<Rightarrow> trace
     \<Rightarrow> (bucket_error + Bucket) \<times> GarageBucket \<times> trace" where
  "reserve_and_create sum256 env b tr =
     (if reservation_of b \<noteq> [] then create_under env (reservation_of b) b tr
      else case garageBucketReservationAlias sum256 b of
        None \<Rightarrow> (Inl ReservationNeedsUID, b, tr)
      | Some expected \<Rightarrow>
          let annotated = b\<lparr>gb_Annotations := AList.update AnnotationBucketReservationAlias expected (gb_Annotations b)\<rparr> in
          (case call_object env (ObjectPatch annotated) tr of
             (Inl e, t1) \<Rightarrow> (Inl (PersistReservationFailed e), annotated, t1)
           | (Inr stored, t1) \<Rightarrow> create_under env expected stored t1))"

definition getOrCreateBucket ::
    "(string \<Rightarrow> string) \<Rightarrow> bucket_env \<Rightarrow> GarageBucket \<Rightarrow> string \<Rightarrow> trace
     \<Rightarrow> (bucket_error + Bucket) \<times> GarageBucket \<times> trace" where
  "getOrCreateBucket sum256 env b alias tr =
     (case check_cosi_identity b of
        Some e \<Rightarrow> (Inl e, b, tr)
      | None \<Rightarrow>
     (case recover_reservation sum256 env b tr of
        (Some r, b1, t1) \<Rightarrow> (r, b1, t1)
      | (None, b1, t1) \<Rightarrow>
     if bs_BucketID (gb_Spec b) \<noteq> [] then
       (case getBucketWithTimeout env (by_id (bs_BucketID (gb_Spec b))) t1 of
          (Inl e, t2) \<Rightarrow>
            (Inl (if isBucketLookupTimeout e then LookupTimedOut else SpecBucketUnreachable e), b, t2)
        | (Inr existing, t2) \<Rightarrow> (Inr existing, with_bucket_id (bk_ID existing) b, t2))
     else
     (case tracked_bucket env b t1 of
        (Some r, t2) \<Rightarrow> (r, b, t2)
      | (None, t2) \<Rightarrow>
     (case alias_is_free env alias t2 of
        (Some e, t3) \<Rightarrow> (Inl e, b, t3)
      | (None, t3) \<Rightarrow> reserve_and_create sum256 env b t3))))"

definition clearBucketReservationAlias ::
    "bucket_env \<Rightarrow> GarageBucket \<Rightarrow> Bucket \<Rightarrow> string \<Rightarrow> trace \<Rightarrow> bucket_error option \<times> GarageBucket \<times> trace" where
  "clearBucketReservationAlias env b existing desiredAlias tr =
     (let alias = reservation_of b;
          clear = (\<lambda>t. let cleared = b\<lparr>gb_Annotations := gomap_delete AnnotationBucketReservationAlias (gb_Annotations b)\<rparr> in
             (case call_object env (ObjectPatch cleared) t of
                (Inl e, t') \<Rightarrow> (Some (ClearReservationFailed e), cleared, t')
              | (Inr stored, t') \<Rightarrow> (None, stored, t')))
      in if alias = [] then (None, b, tr)
         else if alias \<noteq> desiredAlias \<and> alias \<in> set (bk_GlobalAliases existing) then
           (case call_bucket env (RemoveBucketAlias \<lparr>bar_BucketID = bk_ID existing, bar_GlobalAlias = alias,
                                    bar_LocalAlias = [], bar_AccessKeyID = []\<rparr>) tr of
              (Inl e, t1) \<Rightarrow> if \<not> IsNotFound (ce_API e) then (Some (RemoveReservationFailed e), b, t1) else clear t1
            | (Inr _, t1) \<Rightarrow> clear t1)
         else clear tr)"

subsection \<open>Finalization\<close>

definition garageBucketFinalizationID :: "GarageBucket \<Rightarrow> bucket_error + string" where
  "garageBucketFinalizationID b =
     (let s = bst_BucketID (gb_Status b); p = bs_BucketID (gb_Spec b) in
      if s \<noteq> [] \<and> p \<noteq> [] \<and> s \<noteq> p then Inl IdentitiesDisagree
      else Inr (if s \<noteq> [] then s else p))"

text \<open>One reservation: the identity resolved so far, made to agree with the bucket behind the alias.\<close>

definition resolve_reservation ::
    "(string \<Rightarrow> string) \<Rightarrow> bucket_env \<Rightarrow> GarageBucket \<Rightarrow> string \<Rightarrow> string \<Rightarrow> string \<Rightarrow> trace
     \<Rightarrow> (bucket_error + string) \<times> trace" where
  "resolve_reservation sum256 env b alias pre bucketID tr =
     (if alias = [] then (Inr bucketID, tr)
      else case UIDBoundReservationAlias sum256 pre (gb_Namespace b) (gb_Name b) (gb_UID b) of
        None \<Rightarrow> (Inl ReservationNeedsUID, tr)
      | Some expected \<Rightarrow>
          if alias \<noteq> expected then (Inl ReservationUnbound, tr)
          else (case getBucketWithTimeout env (by_alias alias) tr of
            (Inl e, t1) \<Rightarrow>
              if \<not> IsNotFound (lookup_api e) then (Inl (ReservationLookupFailed e), t1)
              else (Inr bucketID, t1)
          | (Inr reserved, t1) \<Rightarrow>
              if bucketID \<noteq> [] \<and> bucketID \<noteq> bk_ID reserved then (Inl IdentitiesDisagree, t1)
              else (Inr (bk_ID reserved), t1)))"

definition finalize_bucket ::
    "(string \<Rightarrow> string) \<Rightarrow> bucket_env \<Rightarrow> GarageBucket \<Rightarrow> trace \<Rightarrow> bucket_error option \<times> trace" where
  "finalize_bucket sum256 env b tr =
     (case garageBucketFinalizationID b of
        Inl e \<Rightarrow> (Some e, tr)
      | Inr i0 \<Rightarrow>
     (case resolve_reservation sum256 env b (reservation_of b) ''garage-rsv-'' i0 tr of
        (Inl e, t1) \<Rightarrow> (Some e, t1)
      | (Inr i1, t1) \<Rightarrow>
     (case resolve_reservation sum256 env b (annotation (gb_Annotations b) AnnotationCOSIReservationAlias) ''cosi-rsv-'' i1 t1 of
        (Inl e, t2) \<Rightarrow> (Some e, t2)
      | (Inr i2, t2) \<Rightarrow>
     let cosi = annotation (gb_Annotations b) AnnotationCOSIBucketID in
     if cosi \<noteq> [] \<and> i2 = [] then (Some COSIWithoutTrustedID, t2)
     else if cosi \<noteq> [] \<and> i2 \<noteq> cosi then (Some COSIDisagreesWithTrusted, t2)
     else if i2 = [] then (None, t2)
     else (case call_unit env (DeleteBucket i2) t2 of
             (None, t3) \<Rightarrow> (None, t3)
           | (Some e, t3) \<Rightarrow>
               if IsNotFound (ce_API e) then (None, t3)
               else if IsBucketNotEmpty (ce_API e) then (Some BucketNotEmptyError, t3)
               else (Some (DeleteBucketFailed e), t3)))))"

subsection \<open>Traces of the identity operations\<close>

lemma call_absent: "fst ` set new \<subseteq> range F \<Longrightarrow> \<forall>x. c \<noteq> F x \<Longrightarrow> (c, oc) \<notin> set new"
  by force

lemma lookup_trace:
  assumes "getBucketWithTimeout env req tr = (r, t1)"
  shows "t1 = tr @ [(GetBucketInfo req, api_outcome (error_of (be_Bucket env tr (GetBucketInfo req))))]"
    and "r = Inr k \<longleftrightarrow> be_Bucket env tr (GetBucketInfo req) = Inr k"
    and "r = Inl e \<Longrightarrow> IsNotFound (lookup_api e) \<Longrightarrow> t1 = tr @ [(GetBucketInfo req, Missing)]"
  using assms
  by (auto simp: getBucketWithTimeout_def call_defs lookup_api_def api_outcome_def IsNotFound_def has_status_def
      split: sum.splits prod.splits if_splits lookup_error.splits option.splits)

lemma lookup_found:
  "getBucketWithTimeout env req tr = (Inr k, t1) \<longleftrightarrow>
     be_Bucket env tr (GetBucketInfo req) = Inr k \<and> t1 = tr @ [(GetBucketInfo req, Succeeded)]"
  by (auto simp: getBucketWithTimeout_def call_defs split: sum.splits if_splits)

lemma lookup_not_found:
  "getBucketWithTimeout env req tr = (Inl e, t1) \<Longrightarrow> be_Bucket env tr (GetBucketInfo req) \<noteq> Inr k"
  by (auto simp: getBucketWithTimeout_def call_defs split: sum.splits if_splits)

text \<open>How each stage of getOrCreateBucket ends.\<close>

lemma recover_continues:
  assumes "recover_reservation sum256 env b tr = (None, b1, t1)"
  shows "b1 = b \<and> (reservation_of b = [] \<and> t1 = tr
     \<or> reservation_of b \<noteq> [] \<and> garageBucketReservationAlias sum256 b = Some (reservation_of b)
        \<and> t1 = tr @ [(GetBucketInfo (by_alias (reservation_of b)), Missing)])"
  using assms
  by (auto simp: recover_reservation_def Let_def split: if_splits option.splits prod.splits sum.splits dest: lookup_trace(3))

lemma recover_stops:
  assumes "recover_reservation sum256 env b tr = (Some r, b1, t1)"
  shows "\<exists>new. t1 = tr @ new \<and> fst ` set new \<subseteq> range GetBucketInfo"
    and "r = Inr k \<Longrightarrow> garageBucketReservationAlias sum256 b = Some (reservation_of b) \<and> b1 = with_bucket_id (bk_ID k) b
       \<and> be_Bucket env tr (GetBucketInfo (by_alias (reservation_of b))) = Inr k
       \<and> t1 = tr @ [(GetBucketInfo (by_alias (reservation_of b)), Succeeded)]"
  using assms
  by (auto simp: recover_reservation_def Let_def lookup_found
      split: if_splits option.splits prod.splits sum.splits dest!: lookup_trace(1))

lemma tracked_continues:
  assumes "tracked_bucket env b tr = (None, t1)"
  shows "bst_BucketID (gb_Status b) = [] \<and> t1 = tr
     \<or> bst_BucketID (gb_Status b) \<noteq> [] \<and> t1 = tr @ [(GetBucketInfo (by_id (bst_BucketID (gb_Status b))), Missing)]"
  using assms
  by (auto simp: tracked_bucket_def Let_def split: if_splits prod.splits sum.splits dest: lookup_trace(3))

lemma tracked_stops:
  assumes "tracked_bucket env b tr = (Some r, t1)"
  shows "\<exists>new. t1 = tr @ new \<and> fst ` set new \<subseteq> range GetBucketInfo"
    and "r = Inr k \<Longrightarrow> bst_BucketID (gb_Status b) \<noteq> []
       \<and> be_Bucket env tr (GetBucketInfo (by_id (bst_BucketID (gb_Status b)))) = Inr k
       \<and> t1 = tr @ [(GetBucketInfo (by_id (bst_BucketID (gb_Status b))), Succeeded)]"
  using assms
  by (auto simp: tracked_bucket_def Let_def lookup_found
      split: if_splits prod.splits sum.splits dest!: lookup_trace(1))

lemma alias_free_trace:
  assumes "alias_is_free env alias tr = (r, t1)"
  shows "\<exists>oc. t1 = tr @ [(GetBucketInfo (by_alias alias), oc)]"
    and "r = None \<Longrightarrow> t1 = tr @ [(GetBucketInfo (by_alias alias), Missing)]"
  using assms
  by (auto simp: alias_is_free_def split: if_splits prod.splits sum.splits dest: lookup_trace(1,3))

lemma create_trace:
  assumes "create_under env reservation b tr = (r, b1, t1)"
  shows "\<exists>oc. t1 = tr @ [(CreateBucket reservation, oc)]"
    and "r = Inr k \<Longrightarrow> be_Bucket env tr (CreateBucket reservation) = Inr k
       \<and> t1 = tr @ [(CreateBucket reservation, Succeeded)]"
  using assms by (auto simp: create_under_def call_defs split: sum.splits)

lemma reservation_annotated [simp]:
  "reservation_of (b\<lparr>gb_Annotations := AList.update AnnotationBucketReservationAlias a (gb_Annotations b)\<rparr>) = a"
  by (simp add: reservation_of_def annotation_def gomap_get_def)

text \<open>
  The last stage issues the create, if at all, as its last call and under the bucket's own reservation,
  which the object already carried or was just stored with.
\<close>

lemma reserve_and_create_trace:
  assumes "reserve_and_create sum256 env b tr = (r, b1, t1)"
    and "reservation_of b \<noteq> [] \<Longrightarrow> garageBucketReservationAlias sum256 b = Some (reservation_of b)"
  shows "(\<exists>new. t1 = tr @ new \<and> fst ` set new \<subseteq> range ObjectPatch) \<and> isl r
     \<or> (\<exists>a oc mid. t1 = tr @ mid @ [(CreateBucket a, oc)] \<and> garageBucketReservationAlias sum256 b = Some a
          \<and> (if reservation_of b \<noteq> [] then reservation_of b = a \<and> mid = []
             else \<exists>s. mid = [(ObjectPatch s, Succeeded)] \<and> reservation_of s = a)
          \<and> (\<forall>k. r = Inr k \<longrightarrow> oc = Succeeded \<and> be_Bucket env (tr @ mid) (CreateBucket a) = Inr k))"
proof (cases "reservation_of b \<noteq> []")
  case True
  then have c: "create_under env (reservation_of b) b tr = (r, b1, t1)" using assms(1) by (simp add: reserve_and_create_def)
  obtain oc where oc: "t1 = tr @ [(CreateBucket (reservation_of b), oc)]" using create_trace(1) [OF c] by blast
  show ?thesis
    by (rule disjI2, rule exI [of _ "reservation_of b"], rule exI [of _ oc], rule exI [of _ "[]"])
       (use True oc assms(2) create_trace(2) [OF c] in auto)
next
  case False
  show ?thesis
  proof (cases "garageBucketReservationAlias sum256 b")
    case None
    then have "t1 = tr" "isl r" using assms(1) False by (auto simp: reserve_and_create_def)
    then show ?thesis by simp
  next
    case (Some a)
    define s where "s = b\<lparr>gb_Annotations := AList.update AnnotationBucketReservationAlias a (gb_Annotations b)\<rparr>"
    obtain p t2 where p: "call_object env (ObjectPatch s) tr = (p, t2)" by force
    then have t2: "t2 = tr @ [(ObjectPatch s, kube_outcome (error_of p))]" by (auto simp: call_defs)
    have e: "reserve_and_create sum256 env b tr = (case p of Inl e \<Rightarrow> (Inl (PersistReservationFailed e), s, t2)
         | Inr stored \<Rightarrow> create_under env a stored t2)"
      using False Some p by (simp add: reserve_and_create_def s_def [symmetric] Let_def)
    show ?thesis
    proof (cases p)
      case (Inl x)
      then show ?thesis using e assms(1) t2 by auto
    next
      case (Inr stored)
      then have c: "create_under env a stored t2 = (r, b1, t1)" using e assms(1) by simp
      obtain oc where oc: "t1 = t2 @ [(CreateBucket a, oc)]" using create_trace(1) [OF c] by blast
      have t2s: "t2 = tr @ [(ObjectPatch s, Succeeded)]" using t2 Inr by simp
      have "reservation_of s = a" by (simp add: s_def)
      then show ?thesis
        by (intro disjI2 exI [of _ a] exI [of _ oc] exI [of _ "[(ObjectPatch s, Succeeded)]"])
           (use False Some oc t2s create_trace(2) [OF c] in auto)
    qed
  qed
qed

text \<open>How getOrCreateBucket ends: early, after lookups only, or in the last stage.\<close>

lemma getOrCreate_cases:
  assumes "getOrCreateBucket sum256 env b alias tr = (r, b', tr')"
  obtains (early) new where "tr' = tr @ new" "fst ` set new \<subseteq> range GetBucketInfo"
      "\<And>k. r = Inr k \<Longrightarrow> \<exists>mid req. new = mid @ [(GetBucketInfo req, Succeeded)]
         \<and> be_Bucket env (tr @ mid) (GetBucketInfo req) = Inr k
         \<and> (req = by_alias (reservation_of b) \<and> garageBucketReservationAlias sum256 b = Some (reservation_of b)
            \<or> req = by_id (bs_BucketID (gb_Spec b)) \<and> bs_BucketID (gb_Spec b) \<noteq> []
            \<or> req = by_id (bst_BucketID (gb_Status b)) \<and> bst_BucketID (gb_Status b) \<noteq> [])"
  | (last) looks where "bs_BucketID (gb_Spec b) = []"
      "reserve_and_create sum256 env b (tr @ looks) = (r, b', tr')"
      "fst ` set looks \<subseteq> range GetBucketInfo"
      "(GetBucketInfo (by_alias alias), Missing) \<in> set looks"
      "bst_BucketID (gb_Status b) \<noteq> [] \<longrightarrow> (GetBucketInfo (by_id (bst_BucketID (gb_Status b))), Missing) \<in> set looks"
      "reservation_of b \<noteq> [] \<longrightarrow> garageBucketReservationAlias sum256 b = Some (reservation_of b)
         \<and> (GetBucketInfo (by_alias (reservation_of b)), Missing) \<in> set looks"
proof (cases "check_cosi_identity b")
  case (Some e)
  then show ?thesis using assms by (intro early [of "[]"]) (auto simp: getOrCreateBucket_def)
next
  case cosi: None
  obtain q b1 t1 where q: "recover_reservation sum256 env b tr = (q, b1, t1)" by (metis prod_cases3)
  show ?thesis
  proof (cases q)
    case (Some r1)
    then have "r = r1" "tr' = t1" using assms cosi q by (auto simp: getOrCreateBucket_def)
    moreover obtain new where "t1 = tr @ new" "fst ` set new \<subseteq> range GetBucketInfo"
      using recover_stops(1) q Some by blast
    ultimately show ?thesis using recover_stops(2) [of sum256 env b tr r b1 t1] q Some
      by (intro early [of new]) auto
  next
    case None
    note rc = recover_continues [OF q [unfolded None]]
    obtain l1 where l1: "t1 = tr @ l1" "fst ` set l1 \<subseteq> range GetBucketInfo"
        "reservation_of b \<noteq> [] \<longrightarrow> garageBucketReservationAlias sum256 b = Some (reservation_of b)
         \<and> (GetBucketInfo (by_alias (reservation_of b)), Missing) \<in> set l1"
      using rc by auto
    show ?thesis
    proof (cases "bs_BucketID (gb_Spec b) \<noteq> []")
      case True
      obtain g t2 where g: "getBucketWithTimeout env (by_id (bs_BucketID (gb_Spec b))) t1 = (g, t2)" by force
      have "tr' = t2" "\<And>k. r = Inr k \<Longrightarrow> g = Inr k"
        using assms cosi q None True g by (auto simp: getOrCreateBucket_def split: sum.splits)
      then show ?thesis using lookup_trace(1) [OF g] lookup_trace(2) [OF g] l1 True
        by (intro early [of "l1 @ [(GetBucketInfo (by_id (bs_BucketID (gb_Spec b))),
              api_outcome (error_of (be_Bucket env t1 (GetBucketInfo (by_id (bs_BucketID (gb_Spec b)))))))]"]) auto
    next
      case spec: False
      obtain d t2 where d: "tracked_bucket env b t1 = (d, t2)" by force
      show ?thesis
      proof (cases d)
        case (Some r1)
        then have "r = r1" "tr' = t2" using assms cosi q None spec d by (auto simp: getOrCreateBucket_def)
        moreover obtain new where "t2 = t1 @ new" "fst ` set new \<subseteq> range GetBucketInfo"
          using tracked_stops(1) d Some by blast
        ultimately show ?thesis using tracked_stops(2) [of env b t1 r t2] d Some l1
          by (intro early [of "l1 @ new"]) auto
      next
        case tracked: None
        obtain l2 where l2: "t2 = t1 @ l2" "fst ` set l2 \<subseteq> range GetBucketInfo"
            "bst_BucketID (gb_Status b) \<noteq> [] \<longrightarrow> (GetBucketInfo (by_id (bst_BucketID (gb_Status b))), Missing) \<in> set l2"
          using tracked_continues [OF d [unfolded tracked]] by auto
        obtain f t3 where f: "alias_is_free env alias t2 = (f, t3)" by force
        obtain oc where oc: "t3 = t2 @ [(GetBucketInfo (by_alias alias), oc)]" using alias_free_trace(1) [OF f] by blast
        show ?thesis
        proof (cases f)
          case (Some e)
          then have "r = Inl e" "tr' = t3" using assms cosi q None spec d tracked f by (auto simp: getOrCreateBucket_def)
          then show ?thesis using oc l1 l2
            by (intro early [of "l1 @ l2 @ [(GetBucketInfo (by_alias alias), oc)]"]) auto
        next
          case free: None
          have "t3 = tr @ (l1 @ l2 @ [(GetBucketInfo (by_alias alias), Missing)])"
            using alias_free_trace(2) [OF f free] l1 l2 by simp
          moreover have "reserve_and_create sum256 env b t3 = (r, b', tr')"
            using assms cosi q None spec d tracked f free by (auto simp: getOrCreateBucket_def)
          ultimately show ?thesis using spec l1 l2
            by (intro last [of "l1 @ l2 @ [(GetBucketInfo (by_alias alias), Missing)]"]) auto
        qed
      qed
    qed
  qed
qed

subsection \<open>One bucket per resource\<close>

text \<open>
  C30: A remote bucket is created at most once, and only under a durable reservation.  For every
  behaviour of the two services, getOrCreateBucket issues CreateBucket only as its last call, under
  the alias derived from the resource's own UID, and only if the resource names no bucket, every
  identity recorded for it (the tracked bucket, an earlier reservation) was looked up and found
  missing, and the wanted alias was free; the reservation was persisted before: it was an annotation
  of the object, or the call just before the create stored it.
\<close>

theorem bucket_created_under_reservation:
  assumes "getOrCreateBucket sum256 env b alias tr = (r, b', tr')"
    and "(CreateBucket a, oc) \<in> set (drop (length tr) tr')"
  shows "bs_BucketID (gb_Spec b) = [] \<and> garageBucketReservationAlias sum256 b = Some a
     \<and> (\<exists>mid. tr' = tr @ mid @ [(CreateBucket a, oc)] \<and> fst ` set mid \<inter> range CreateBucket = {}
          \<and> (GetBucketInfo (by_alias alias), Missing) \<in> set mid
          \<and> (bst_BucketID (gb_Status b) \<noteq> [] \<longrightarrow> (GetBucketInfo (by_id (bst_BucketID (gb_Status b))), Missing) \<in> set mid)
          \<and> (if reservation_of b \<noteq> [] then reservation_of b = a \<and> (GetBucketInfo (by_alias a), Missing) \<in> set mid
             else \<exists>s. last mid = (ObjectPatch s, Succeeded) \<and> reservation_of s = a))"
  using assms(1)
proof (cases rule: getOrCreate_cases)
  case (early new)
  then have "fst (CreateBucket a, oc) \<in> range GetBucketInfo" using assms(2) by fastforce
  then show ?thesis by auto
next
  case (last looks)
  have "(CreateBucket a, oc) \<notin> set looks" using call_absent [OF last(3)] by simp
  moreover have "(CreateBucket a, oc) \<notin> set new" if "fst ` set new \<subseteq> range ObjectPatch" for new :: trace
    using call_absent [OF that] by simp
  ultimately have no: "tr' \<noteq> (tr @ looks) @ new" if "fst ` set new \<subseteq> range ObjectPatch" for new :: trace
    using that assms(2) by auto
  from reserve_and_create_trace [OF last(2)] last(6) have "(\<exists>new. tr' = (tr @ looks) @ new \<and> fst ` set new \<subseteq> range ObjectPatch)
     \<or> (\<exists>a' oc' mid. tr' = (tr @ looks) @ mid @ [(CreateBucket a', oc')] \<and> garageBucketReservationAlias sum256 b = Some a'
       \<and> (if reservation_of b \<noteq> [] then reservation_of b = a' \<and> mid = []
       else \<exists>s. mid = [(ObjectPatch s, Succeeded)] \<and> reservation_of s = a'))" by blast
  with no obtain a' oc' mid where m: "tr' = (tr @ looks) @ mid @ [(CreateBucket a', oc')]"
      "garageBucketReservationAlias sum256 b = Some a'"
      "if reservation_of b \<noteq> [] then reservation_of b = a' \<and> mid = []
       else \<exists>s. mid = [(ObjectPatch s, Succeeded)] \<and> reservation_of s = a'" by blast
  have mid: "(CreateBucket a, oc) \<notin> set mid" "fst ` set mid \<subseteq> range ObjectPatch"
    using m(3) by (auto split: if_splits)
  have e: "a' = a" "oc' = oc" using m(1) assms(2) \<open>(CreateBucket a, oc) \<notin> set looks\<close> mid(1) by auto
  have l: "last (looks @ mid) = last mid" if "mid \<noteq> []" using that by simp
  show ?thesis
  proof (intro conjI exI [of _ "looks @ mid"])
    show "tr' = tr @ (looks @ mid) @ [(CreateBucket a, oc)]" using m(1) e by simp
    show "fst ` set (looks @ mid) \<inter> range CreateBucket = {}" using last(3) mid(2) by auto
    show "if reservation_of b \<noteq> [] then reservation_of b = a \<and> (GetBucketInfo (by_alias a), Missing) \<in> set (looks @ mid)
             else \<exists>s. last (looks @ mid) = (ObjectPatch s, Succeeded) \<and> reservation_of s = a"
      using m(3) e last(6) by (auto split: if_splits)
  qed (use last m(2) e in auto)
qed

lemma sample_creation:
  "getOrCreateBucket (\<lambda>s. ''00'') (sample_service sample_remote) sample_bucket ''photos'' []
     = (Inr sample_remote,
        with_bucket_id ''b1'' (sample_bucket\<lparr>gb_Annotations := [(AnnotationBucketReservationAlias, ''garage-rsv-00'')]\<rparr>),
        [(GetBucketInfo (by_alias ''photos''), Missing),
         (ObjectPatch (sample_bucket\<lparr>gb_Annotations := [(AnnotationBucketReservationAlias, ''garage-rsv-00'')]\<rparr>), Succeeded),
         (CreateBucket ''garage-rsv-00'', Succeeded)])"
  by code_simp

theorem bucket_created_under_reservation_witness:
  "garageBucketReservationAlias (\<lambda>s. ''00'') sample_bucket = Some ''garage-rsv-00''"
  using bucket_created_under_reservation [OF sample_creation, of "''garage-rsv-00''" Succeeded] by simp

text \<open>
  C29: A resource manages only a bucket it is entitled to.  Whatever the services answer, a bucket
  returned by getOrCreateBucket is the answer to the last call, which looked up the bucket named in
  the spec, the bucket already tracked in the status or the bucket behind the resource's own UID-bound
  reservation, or created one under that reservation.  A bucket that merely owns the wanted alias is
  never adopted.
\<close>

theorem bucket_identity_trusted:
  assumes "getOrCreateBucket sum256 env b alias tr = (Inr k, b', tr')"
  shows "\<exists>mid c. tr' = tr @ mid @ [(c, Succeeded)] \<and> be_Bucket env (tr @ mid) c = Inr k
     \<and> (c = GetBucketInfo (by_id (bs_BucketID (gb_Spec b))) \<and> bs_BucketID (gb_Spec b) \<noteq> []
        \<or> c = GetBucketInfo (by_id (bst_BucketID (gb_Status b))) \<and> bst_BucketID (gb_Status b) \<noteq> []
        \<or> (\<exists>a. garageBucketReservationAlias sum256 b = Some a
             \<and> (c = GetBucketInfo (by_alias a) \<and> reservation_of b = a \<or> c = CreateBucket a)))"
  using assms
proof (cases rule: getOrCreate_cases)
  case (early new)
  then obtain mid req where "new = mid @ [(GetBucketInfo req, Succeeded)]" "be_Bucket env (tr @ mid) (GetBucketInfo req) = Inr k"
      "req = by_alias (reservation_of b) \<and> garageBucketReservationAlias sum256 b = Some (reservation_of b)
       \<or> req = by_id (bs_BucketID (gb_Spec b)) \<and> bs_BucketID (gb_Spec b) \<noteq> []
       \<or> req = by_id (bst_BucketID (gb_Status b)) \<and> bst_BucketID (gb_Status b) \<noteq> []" by blast
  then show ?thesis using early(1) by (intro exI [of _ mid] exI [of _ "GetBucketInfo req"]) auto
next
  case (last looks)
  have "\<exists>a mid. tr' = (tr @ looks) @ mid @ [(CreateBucket a, Succeeded)] \<and> garageBucketReservationAlias sum256 b = Some a
      \<and> be_Bucket env ((tr @ looks) @ mid) (CreateBucket a) = Inr k"
    using reserve_and_create_trace [OF last(2)] last(6) by auto
  then obtain a mid where "tr' = (tr @ looks) @ mid @ [(CreateBucket a, Succeeded)]"
      "garageBucketReservationAlias sum256 b = Some a" "be_Bucket env ((tr @ looks) @ mid) (CreateBucket a) = Inr k" by blast
  then show ?thesis by (intro exI [of _ "looks @ mid"] exI [of _ "CreateBucket a"]) auto
qed

theorem bucket_identity_trusted_witness:
  "\<exists>mid c. [(GetBucketInfo (by_alias ''photos''), Missing),
         (ObjectPatch (sample_bucket\<lparr>gb_Annotations := [(AnnotationBucketReservationAlias, ''garage-rsv-00'')]\<rparr>), Succeeded),
         (CreateBucket ''garage-rsv-00'', Succeeded)] = mid @ [(c, Succeeded)]
     \<and> be_Bucket (sample_service sample_remote) mid c = Inr sample_remote"
  using bucket_identity_trusted [OF sample_creation] by auto

text \<open>
  A crash between the create and the status write loses nothing: with the reservation persisted and
  the bucket behind it reachable, the next attempt finds that bucket and issues no create.
\<close>

lemma reservation_recovers:
  assumes "garageBucketReservationAlias sum256 b = Some (reservation_of b)" "reservation_of b \<noteq> []"
    and "be_Bucket env tr (GetBucketInfo (by_alias (reservation_of b))) = Inr k"
    and "bs_BucketID (gb_Spec b) \<in> {[], bk_ID k}" "bst_BucketID (gb_Status b) \<in> {[], bk_ID k}"
    and "check_cosi_identity b = None"
  shows "getOrCreateBucket sum256 env b alias tr
    = (Inr k, with_bucket_id (bk_ID k) b, tr @ [(GetBucketInfo (by_alias (reservation_of b)), Succeeded)])"
proof -
  have "getBucketWithTimeout env (by_alias (reservation_of b)) tr
      = (Inr k, tr @ [(GetBucketInfo (by_alias (reservation_of b)), Succeeded)])"
    using assms(3) by (simp add: lookup_found)
  then show ?thesis using assms by (auto simp: getOrCreateBucket_def recover_reservation_def Let_def)
qed

subsection \<open>Finalization deletes the owned bucket only\<close>

text \<open>The bucket behind a non-empty alias, when it was found, is \<open>i\<close>.\<close>

definition alias_agrees :: "bucket_env \<Rightarrow> trace \<Rightarrow> string \<Rightarrow> string \<Rightarrow> bool" where
  "alias_agrees env tr alias i \<longleftrightarrow>
     (alias \<noteq> [] \<longrightarrow> (\<forall>k. be_Bucket env tr (GetBucketInfo (by_alias alias)) = Inr k \<longrightarrow> bk_ID k \<in> {[], i}))"

lemma resolve_trace:
  assumes "resolve_reservation sum256 env b alias pre i tr = (r, t1)"
  shows "\<exists>new. t1 = tr @ new \<and> fst ` set new \<subseteq> range GetBucketInfo"
    and "r = Inr j \<Longrightarrow> alias_agrees env tr alias j \<and> (i = [] \<or> j = i)
       \<and> (j = i \<or> alias \<noteq> []) \<and> (alias \<noteq> [] \<longrightarrow> UIDBoundReservationAlias sum256 pre (gb_Namespace b) (gb_Name b) (gb_UID b) = Some alias)"
proof -
  show "\<exists>new. t1 = tr @ new \<and> fst ` set new \<subseteq> range GetBucketInfo"
    using assms by (auto simp: resolve_reservation_def
      split: if_splits option.splits prod.splits sum.splits dest!: lookup_trace(1))
  show "alias_agrees env tr alias j \<and> (i = [] \<or> j = i) \<and> (j = i \<or> alias \<noteq> [])
     \<and> (alias \<noteq> [] \<longrightarrow> UIDBoundReservationAlias sum256 pre (gb_Namespace b) (gb_Name b) (gb_UID b) = Some alias)"
    if "r = Inr j"
    using assms that
    by (auto simp: resolve_reservation_def alias_agrees_def lookup_found
      split: if_splits option.splits prod.splits sum.splits dest: lookup_not_found)
qed

lemma finalization_id:
  "garageBucketFinalizationID b = Inr i \<Longrightarrow>
     bst_BucketID (gb_Status b) \<in> {[], i} \<and> bs_BucketID (gb_Spec b) \<in> {[], i}
     \<and> (i = [] \<longrightarrow> bst_BucketID (gb_Status b) = [] \<and> bs_BucketID (gb_Spec b) = [])"
  by (auto simp: garageBucketFinalizationID_def Let_def split: if_splits)


lemma sample_finalization:
  "finalize_bucket (\<lambda>s. ''00'') (sample_service sample_remote) (with_bucket_id ''b1'' sample_bucket) []
     = (None, [(DeleteBucket ''b1'', Succeeded)])"
  by code_simp


end
