(* ===== verification/BucketPermissions.thy ===== *)
theory BucketPermissions
  imports BucketIdentity
begin

text \<open>
  Key permissions of a bucket (reconcileKeyPermissions of internal/controller/garagebucket_controller.go
  and its helpers).  A GarageBucket and the GarageKeys of the same cluster both declare permissions;
  the controller makes Garage hold exactly their union for the keys it manages, reserving ownership in
  the status before the first remote change.
\<close>

subsection \<open>Permissions of one key\<close>

definition mergeBucketPerms :: "BucketKeyPerms \<Rightarrow> BucketKeyPerms \<Rightarrow> BucketKeyPerms" where
  "mergeBucketPerms a b =
     \<lparr>kp_Read = kp_Read a \<or> kp_Read b, kp_Write = kp_Write a \<or> kp_Write b, kp_Owner = kp_Owner a \<or> kp_Owner b\<rparr>"

text \<open>The bits of \<open>a\<close> that \<open>b\<close> does not have.\<close>

definition perms_minus :: "BucketKeyPerms \<Rightarrow> BucketKeyPerms \<Rightarrow> BucketKeyPerms" where
  "perms_minus a b =
     \<lparr>kp_Read = kp_Read a \<and> \<not> kp_Read b, kp_Write = kp_Write a \<and> \<not> kp_Write b, kp_Owner = kp_Owner a \<and> \<not> kp_Owner b\<rparr>"

definition reconcileExactBucketKeyPermissions ::
    "bucket_env \<Rightarrow> string \<Rightarrow> string \<Rightarrow> BucketKeyPerms \<Rightarrow> BucketKeyPerms \<Rightarrow> trace \<Rightarrow> call_error option \<times> trace" where
  "reconcileExactBucketKeyPermissions env bucketID accessKeyID current desired tr =
     (let deny = perms_minus current desired;
          allow = perms_minus desired current;
          grant = (\<lambda>t. if allow \<noteq> no_perms then
              (case call_bucket env (AllowBucketKey bucketID accessKeyID allow) t of
                 (Inl e, t') \<Rightarrow> (Some e, t') | (Inr _, t') \<Rightarrow> (None, t'))
            else (None, t))
      in if deny \<noteq> no_perms then
           (case call_bucket env (DenyBucketKey bucketID accessKeyID deny) tr of
              (Inl e, t1) \<Rightarrow> if \<not> IsNotFound (ce_API e) then (Some e, t1) else grant t1
            | (Inr _, t1) \<Rightarrow> grant t1)
         else grant tr)"

subsection \<open>Declarations of both sides\<close>

definition sameClusterForBucketAndKey :: "GarageBucket \<Rightarrow> GarageKey \<Rightarrow> bool" where
  "sameClusterForBucketAndKey b k =
     (let br = bs_ClusterRef (gb_Spec b); kr = ks_ClusterRef (gk_Spec k);
          bucketNS = (if ref_Namespace br \<noteq> [] then ref_Namespace br else gb_Namespace b);
          keyNS = (if ref_Namespace kr \<noteq> [] then ref_Namespace kr else gk_Namespace k)
      in ref_Name br = ref_Name kr \<and> bucketNS = keyNS)"

definition effective_alias :: "GarageBucket \<Rightarrow> string" where
  "effective_alias b = (if bs_GlobalAlias (gb_Spec b) \<noteq> [] then bs_GlobalAlias (gb_Spec b) else gb_Name b)"

definition permission_matches :: "GarageKey \<Rightarrow> GarageBucket \<Rightarrow> Bucket \<Rightarrow> BucketPermission \<Rightarrow> bool" where
  "permission_matches key b existing p =
     (case bp2_BucketRef p of
        Some r \<Rightarrow> br_Name r = gb_Name b
          \<and> (if br_Namespace r \<noteq> [] then br_Namespace r else gk_Namespace key) = gb_Namespace b
      | None \<Rightarrow>
          if bp2_BucketID p \<noteq> [] then bp2_BucketID p = bk_ID existing
          else if bp2_GlobalAlias p \<noteq> [] then
            bp2_GlobalAlias p = effective_alias b \<or> bp2_GlobalAlias p \<in> set (bk_GlobalAliases existing)
          else False)"

definition permission_bits :: "BucketPermission \<Rightarrow> BucketKeyPerms" where
  "permission_bits p = \<lparr>kp_Read = bp2_Read p, kp_Write = bp2_Write p, kp_Owner = bp2_Owner p\<rparr>"

definition keyPermissionsForBucket :: "GarageKey \<Rightarrow> GarageBucket \<Rightarrow> Bucket \<Rightarrow> BucketKeyPerms option" where
  "keyPermissionsForBucket key b existing =
     (let start = (case ks_AllBuckets (gk_Spec key) of
             None \<Rightarrow> None
           | Some a \<Rightarrow> Some \<lparr>kp_Read = ab_Read a, kp_Write = ab_Write a, kp_Owner = ab_Owner a\<rparr>)
      in fold (\<lambda>p acc. if permission_matches key b existing p
                 then Some (mergeBucketPerms (case acc of None \<Rightarrow> no_perms | Some q \<Rightarrow> q) (permission_bits p)) else acc)
           (ks_BucketPermissions (gk_Spec key)) start)"

definition stringSliceContains :: "string list \<Rightarrow> string \<Rightarrow> bool" where
  "stringSliceContains values want = list_ex (\<lambda>v. v = want) values"

definition mergeManagedGrantIDs :: "string list \<Rightarrow> string list \<Rightarrow> string list" where
  "mergeManagedGrantIDs existing additions = sort (remdups (filter (\<lambda>v. v \<noteq> []) (existing @ additions)))"

subsection \<open>Merging what is managed with what is wanted\<close>

text \<open>
  Before a remote change the controller records the merge of the entries it already manages and the
  wanted ones.  The laws of such a merge: it has one entry per key, only admissible ones, and covers
  the keys of both sides.
\<close>

locale reservation_merge =
  fixes key :: "'a \<Rightarrow> string"
    and ok :: "'a \<Rightarrow> bool"
    and merge :: "'a list \<Rightarrow> 'a list \<Rightarrow> 'a list"
  assumes keys_merge: "key ` set (merge xs ys) = key ` {x \<in> set xs \<union> set ys. ok x}"
    and distinct_merge: "distinct (map key (merge xs ys))"
    and ok_merge: "x \<in> set (merge xs ys) \<Longrightarrow> ok x"
begin

lemma covers: "x \<in> set xs \<union> set ys \<Longrightarrow> ok x \<Longrightarrow> key x \<in> key ` set (merge xs ys)"
  by (auto simp: keys_merge)

lemma only: "x \<in> set (merge xs ys) \<Longrightarrow> key x \<in> key ` set xs \<union> key ` set ys"
  using keys_merge [of xs ys] by (auto dest!: equalityD1)

text \<open>Recording the same wanted entries again adds no key.\<close>

lemma again: "key ` set (merge (merge xs ys) ys) = key ` set (merge xs ys)"
proof
  show "key ` set (merge (merge xs ys) ys) \<subseteq> key ` set (merge xs ys)"
    unfolding keys_merge [of "merge xs ys" ys] using covers by auto
  show "key ` set (merge xs ys) \<subseteq> key ` set (merge (merge xs ys) ys)"
    using covers [of _ "merge xs ys" ys] ok_merge by auto
qed

lemma length_merge: "length (merge xs ys) \<le> length xs + length ys"
proof -
  have "length (merge xs ys) = card (key ` set (merge xs ys))"
    using distinct_card [OF distinct_merge, of xs ys] by simp
  also have "\<dots> \<le> card (set xs \<union> set ys)"
    unfolding keys_merge by (rule order_trans [OF card_image_le card_mono]) auto
  also have "\<dots> \<le> length xs + length ys"
    by (meson add_mono card_Un_le card_length order_trans)
  finally show ?thesis .
qed

end

interpretation grants: reservation_merge id "\<lambda>v. v \<noteq> []" mergeManagedGrantIDs
  by unfold_locales (auto simp: mergeManagedGrantIDs_def)

subsection \<open>The bucket's own declarations\<close>

text \<open>
  What the loop over spec.keyPermissions has collected: the desired permissions by access key, the
  access keys of unauthorized declarations, and the number of errors.
\<close>

type_synonym declared = "(string, BucketKeyPerms) gomap \<times> string list \<times> nat"

definition perm_bits :: "KeyPermission \<Rightarrow> BucketKeyPerms" where
  "perm_bits p = \<lparr>kp_Read = kpm_Read p, kp_Write = kpm_Write p, kp_Owner = kpm_Owner p\<rparr>"

definition key_ref_name :: "GarageBucket \<Rightarrow> KeyPermission \<Rightarrow> NamespacedName" where
  "key_ref_name b p = \<lparr>nn_Namespace = (if kr_Namespace (kpm_KeyRef p) \<noteq> [] then kr_Namespace (kpm_KeyRef p) else gb_Namespace b),
     nn_Name = kr_Name (kpm_KeyRef p)\<rparr>"

fun collect_declared ::
    "bucket_env \<Rightarrow> GarageBucket \<Rightarrow> trace \<Rightarrow> KeyPermission list \<Rightarrow> declared \<Rightarrow> bucket_error + declared" where
  "collect_declared env b tr [] acc = Inr acc"
| "collect_declared env b tr (p # ps) (desired, unauthorized, errs) =
     (let name = key_ref_name b p in
      case CheckReferenceGrant (be_ListGrants env tr) garageBucketKind (gb_Namespace b) garageKeyKind
             (nn_Namespace name) (nn_Name name) of
        Some _ \<Rightarrow>
          (case be_GetKey env tr name of
             Inr key \<Rightarrow> collect_declared env b tr ps (desired,
               (if kst_AccessKeyID (gk_Status key) \<noteq> [] then kst_AccessKeyID (gk_Status key) # unauthorized else unauthorized), errs + 1)
           | Inl e \<Rightarrow> collect_declared env b tr ps (desired, unauthorized, if e \<noteq> KubeNotFound then errs + 2 else errs + 1))
      | None \<Rightarrow>
          (case be_GetKey env tr name of
             Inl e \<Rightarrow> Inl (if e = KubeNotFound then WaitingForKey (nn_Namespace name) (nn_Name name) else KeyReadFailed e)
           | Inr key \<Rightarrow>
               if kst_AccessKeyID (gk_Status key) = [] then Inl (WaitingForKey (nn_Namespace name) (nn_Name name))
               else if \<not> sameClusterForBucketAndKey b key then collect_declared env b tr ps (desired, unauthorized, errs + 1)
               else let k = kst_AccessKeyID (gk_Status key) in
                 collect_declared env b tr ps
                   (AList.update k (mergeBucketPerms (gomap_get no_perms desired k) (perm_bits p)) desired, unauthorized, errs)))"

subsection \<open>The declarations of the keys\<close>

type_synonym union = "(string, BucketKeyPerms) gomap \<times> string list \<times> nat"

definition reverse_reserved :: "GarageKey \<Rightarrow> string \<Rightarrow> bool" where
  "reverse_reserved key bucketID \<longleftrightarrow>
     kst_ClusterWide (gk_Status key) \<or> stringSliceContains (kst_ManagedBucketGrants (gk_Status key)) bucketID"

definition add_key :: "bucket_env \<Rightarrow> GarageBucket \<Rightarrow> Bucket \<Rightarrow> trace \<Rightarrow> GarageKey \<Rightarrow> union \<Rightarrow> union" where
  "add_key env b existing tr key acc =
     (case acc of (desired, targets, errs) \<Rightarrow>
      let k = kst_AccessKeyID (gk_Status key) in
      if k = [] \<or> \<not> sameClusterForBucketAndKey b key then acc
      else
        let targets' = (if stringSliceContains (kst_ManagedBucketGrants (gk_Status key)) (bk_ID existing)
                           \<or> kst_ClusterWide (gk_Status key) then k # targets else targets)
        in case keyPermissionsForBucket key b existing of
             None \<Rightarrow> (desired, targets', errs)
           | Some perms \<Rightarrow>
               (case CheckReferenceGrant (be_ListGrants env tr) garageKeyKind (gk_Namespace key)
                       garageBucketKind (gb_Namespace b) (gb_Name b) of
                  Some _ \<Rightarrow> (desired, targets', errs + 1)
                | None \<Rightarrow>
                    if \<not> reverse_reserved key (bk_ID existing) then (desired, targets', errs)
                    else (AList.update k (mergeBucketPerms (gomap_get no_perms desired k) perms) desired, k # targets', errs)))"

subsection \<open>Applying the union\<close>

fun apply_targets ::
    "bucket_env \<Rightarrow> string \<Rightarrow> (string, BucketKeyPerms) gomap \<Rightarrow> (string, BucketKeyPerms) gomap \<Rightarrow> string list
     \<Rightarrow> nat \<Rightarrow> trace \<Rightarrow> nat \<times> trace" where
  "apply_targets env bucketID current desired [] errs tr = (errs, tr)"
| "apply_targets env bucketID current desired (k # ks) errs tr =
     (case reconcileExactBucketKeyPermissions env bucketID k (gomap_get no_perms current k) (gomap_get no_perms desired k) tr of
        (Some _, t1) \<Rightarrow> apply_targets env bucketID current desired ks (errs + 1) t1
      | (None, t1) \<Rightarrow> apply_targets env bucketID current desired ks errs t1)"

definition with_grants :: "string list \<Rightarrow> GarageBucket \<Rightarrow> GarageBucket" where
  "with_grants ids b = b\<lparr>gb_Status := (gb_Status b)\<lparr>bst_ManagedKeyGrants := ids\<rparr>\<rparr>"

text \<open>Persist the grants unless they are already recorded (one status update, without retry).\<close>

definition record_grants ::
    "bucket_env \<Rightarrow> string list \<Rightarrow> GarageBucket \<Rightarrow> trace \<Rightarrow> bucket_error option \<times> GarageBucket \<times> trace" where
  "record_grants env ids b tr =
     (if bst_ManagedKeyGrants (gb_Status b) = ids then (None, b, tr)
      else (case call_status env (StatusUpdate (with_grants ids b)) tr of
              (Some e, t1) \<Rightarrow> (Some (GrantStatusFailed e), with_grants ids b, t1)
            | (None, t1) \<Rightarrow> (None, with_grants ids b, t1)))"

definition current_permissions :: "Bucket \<Rightarrow> (string, BucketKeyPerms) gomap" where
  "current_permissions existing =
     fold (\<lambda>k m. AList.update (ki_AccessKeyID k) (ki_Permissions k) m) (bk_Keys existing) []"

definition reconcileKeyPermissions ::
    "bucket_env \<Rightarrow> GarageBucket \<Rightarrow> Bucket \<Rightarrow> trace \<Rightarrow> bucket_error option \<times> GarageBucket \<times> trace" where
  "reconcileKeyPermissions env b existing tr =
     (case collect_declared env b tr (bs_KeyPermissions (gb_Spec b)) ([], [], 0) of
        Inl e \<Rightarrow> (Some e, b, tr)
      | Inr (bucketDesired, unauthorized, errs) \<Rightarrow>
     (let bucketManaged = sort (map fst bucketDesired) in
      case record_grants env (mergeManagedGrantIDs (bst_ManagedKeyGrants (gb_Status b)) bucketManaged) b tr of
        (Some e, b1, t1) \<Rightarrow> (Some e, b1, t1)
      | (None, b1, t1) \<Rightarrow>
     (case be_ListKeys env t1 of
        Inl e \<Rightarrow> (Some (KeyListFailed e), b1, t1)
      | Inr keys \<Rightarrow>
     (case fold (add_key env b1 existing t1) keys
             (bucketDesired, map fst bucketDesired @ bst_ManagedKeyGrants (gb_Status b1) @ unauthorized, errs) of
        (desired, targets, errs1) \<Rightarrow>
     (case apply_targets env (bk_ID existing) (current_permissions existing) desired (remdups targets) errs1 t1 of
        (errs2, t2) \<Rightarrow>
          if errs2 > 0 then (Some (PermissionsFailed errs2), b1, t2)
          else record_grants env bucketManaged b1 t2)))))"

subsection \<open>Permission bits\<close>

definition bits :: "(BucketKeyPerms \<Rightarrow> bool) set" where
  "bits = {kp_Read, kp_Write, kp_Owner}"

lemma bit_simps [simp]:
  assumes "pb \<in> bits"
  shows "pb (mergeBucketPerms a b) \<longleftrightarrow> pb a \<or> pb b"
    and "pb (perms_minus a b) \<longleftrightarrow> pb a \<and> \<not> pb b"
    and "pb no_perms \<longleftrightarrow> False"
  using assms by (auto simp: bits_def mergeBucketPerms_def perms_minus_def no_perms_def)

lemma perms_eq_bits: "(a :: BucketKeyPerms) = b \<longleftrightarrow> (\<forall>pb \<in> bits. pb a = pb b)"
  by (auto simp: bits_def)

subsection \<open>What a trace does to the permissions of a key\<close>

text \<open>
  The documented effect of the two calls: AllowBucketKey sets the given bits, DenyBucketKey clears
  them (a key or bucket that is gone has none).
\<close>

fun perms_after :: "string \<Rightarrow> string \<Rightarrow> BucketKeyPerms \<Rightarrow> trace \<Rightarrow> BucketKeyPerms" where
  "perms_after i k p [] = p"
| "perms_after i k p ((c, oc) # tr) =
     perms_after i k
       (case c of
          AllowBucketKey i' k' q \<Rightarrow> if i' = i \<and> k' = k \<and> oc = Succeeded then mergeBucketPerms p q else p
        | DenyBucketKey i' k' q \<Rightarrow> if i' = i \<and> k' = k \<and> oc \<noteq> Failed then perms_minus p q else p
        | _ \<Rightarrow> p) tr"

definition changes_key :: "string \<Rightarrow> string \<Rightarrow> bucket_call \<Rightarrow> bool" where
  "changes_key i k c \<longleftrightarrow> (\<exists>q. c = AllowBucketKey i k q \<or> c = DenyBucketKey i k q)"

lemma perms_after_append [simp]: "perms_after i k p (s @ t) = perms_after i k (perms_after i k p s) t"
  by (induction i k p s rule: perms_after.induct) auto

lemma perms_after_untouched:
  "\<forall>c \<in> fst ` set tr. \<not> changes_key i k c \<Longrightarrow> perms_after i k p tr = p"
  by (induction i k p tr rule: perms_after.induct) (auto simp: changes_key_def split: bucket_call.split)

text \<open>One key: only its permissions change, denials come first, and success is exact.\<close>

lemma exact_permissions:
  assumes "reconcileExactBucketKeyPermissions env i k current desired tr = (e, t1)"
  shows "\<exists>new. t1 = tr @ new \<and> (\<forall>c \<in> fst ` set new. changes_key i k c)
     \<and> (e = None \<longrightarrow> perms_after i k current new = desired)"
proof -
  let ?deny = "DenyBucketKey i k (perms_minus current desired)"
  let ?allow = "AllowBucketKey i k (perms_minus desired current)"
  have nodeny: "perms_minus current desired = no_perms \<Longrightarrow> pb \<in> bits \<Longrightarrow> pb current \<Longrightarrow> pb desired" for pb
    using bit_simps(2) [of pb current desired] by auto
  have noallow: "perms_minus desired current = no_perms \<Longrightarrow> pb \<in> bits \<Longrightarrow> pb desired \<Longrightarrow> pb current" for pb
    using bit_simps(2) [of pb desired current] by auto
  define D where "D = (if perms_minus current desired \<noteq> no_perms
      then [(?deny, api_outcome (error_of (be_Bucket env tr ?deny)))] else [])"
  define G where "G = (if perms_minus desired current \<noteq> no_perms
      then [(?allow, api_outcome (error_of (be_Bucket env (tr @ D) ?allow)))] else [])"
  have run: "(t1 = tr @ D \<and> e \<noteq> None) \<or> (t1 = tr @ D @ G \<and> (\<forall>c \<in> set D. snd c \<noteq> Failed)
      \<and> (e = None \<longrightarrow> (\<forall>c \<in> set G. snd c = Succeeded)))"
    using assms
    by (auto simp: reconcileExactBucketKeyPermissions_def Let_def call_defs D_def G_def api_outcome_def
        split: if_splits sum.splits)
  have exact: "perms_after i k current (D @ G) = desired"
    if "\<forall>c \<in> set D. snd c \<noteq> Failed" "\<forall>c \<in> set G. snd c = Succeeded"
    using that nodeny noallow unfolding perms_eq_bits D_def G_def by (auto split: if_splits)
  have "\<forall>c \<in> fst ` set (D @ G). changes_key i k c" by (auto simp: D_def G_def changes_key_def)
  then show ?thesis using run exact by auto
qed

text \<open>
  The loops of both controllers over the relations to converge, as one function of bucket and key
  pairs; the bucket controller's loop is the instance with a fixed bucket.
\<close>

fun apply_pairs ::
    "bucket_env \<Rightarrow> (string \<times> string \<Rightarrow> BucketKeyPerms) \<Rightarrow> (string \<times> string \<Rightarrow> BucketKeyPerms) \<Rightarrow> (string \<times> string) list
     \<Rightarrow> nat \<Rightarrow> trace \<Rightarrow> nat \<times> trace" where
  "apply_pairs env cur des [] errs tr = (errs, tr)"
| "apply_pairs env cur des (x # xs) errs tr =
     (case reconcileExactBucketKeyPermissions env (fst x) (snd x) (cur x) (des x) tr of
        (Some _, t1) \<Rightarrow> apply_pairs env cur des xs (errs + 1) t1
      | (None, t1) \<Rightarrow> apply_pairs env cur des xs errs t1)"

lemma apply_targets_pairs:
  "apply_targets env i current desired ks errs tr
     = apply_pairs env (\<lambda>x. gomap_get no_perms current (snd x)) (\<lambda>x. gomap_get no_perms desired (snd x)) (map (Pair i) ks) errs tr"
  by (induction ks arbitrary: errs tr) (auto split: prod.split option.split)

lemma apply_pairs_step:
  assumes "apply_pairs env cur des (x # xs) errs tr = (n, t1)"
  obtains e t2 where "reconcileExactBucketKeyPermissions env (fst x) (snd x) (cur x) (des x) tr = (e, t2)"
    "apply_pairs env cur des xs (if e = None then errs else errs + 1) t2 = (n, t1)"
  using assms by (auto split: prod.splits option.splits)

lemma apply_pairs_trace:
  assumes "apply_pairs env cur des xs errs tr = (n, t1)" "distinct xs"
  shows "\<exists>new. t1 = tr @ new \<and> (\<forall>c \<in> fst ` set new. \<exists>x \<in> set xs. changes_key (fst x) (snd x) c) \<and> errs \<le> n
     \<and> (n = errs \<longrightarrow> (\<forall>i k. perms_after i k (cur (i, k)) new = (if (i, k) \<in> set xs then des (i, k) else cur (i, k))))"
  using assms
proof (induction xs arbitrary: errs tr)
  case Nil
  then show ?case by auto
next
  case (Cons x xs)
  obtain e t2 where e: "reconcileExactBucketKeyPermissions env (fst x) (snd x) (cur x) (des x) tr = (e, t2)"
    and rest: "apply_pairs env cur des xs (if e = None then errs else errs + 1) t2 = (n, t1)"
    using apply_pairs_step [OF Cons.prems(1)] by blast
  obtain a where a: "t2 = tr @ a" "\<forall>c \<in> fst ` set a. changes_key (fst x) (snd x) c"
      "e = None \<longrightarrow> perms_after (fst x) (snd x) (cur x) a = des x"
    using exact_permissions [OF e] by blast
  obtain new where new: "t1 = t2 @ new" "\<forall>c \<in> fst ` set new. \<exists>x \<in> set xs. changes_key (fst x) (snd x) c"
      "(if e = None then errs else errs + 1) \<le> n"
      "n = (if e = None then errs else errs + 1) \<longrightarrow>
         (\<forall>i k. perms_after i k (cur (i, k)) new = (if (i, k) \<in> set xs then des (i, k) else cur (i, k)))"
    using Cons.IH [OF rest] Cons.prems(2) by auto
  have own: "perms_after (fst x) (snd x) p new = p" for p
    using new(2) Cons.prems(2) by (intro perms_after_untouched) (fastforce simp: changes_key_def)
  have other: "perms_after i k p a = p" if "(i, k) \<noteq> x" for i k p
    using a(2) that by (intro perms_after_untouched) (auto simp: changes_key_def)
  have "\<forall>i k. perms_after i k (cur (i, k)) (a @ new) = (if (i, k) \<in> set (x # xs) then des (i, k) else cur (i, k))" if "n = errs"
  proof (intro allI)
    fix i k
    have e: "e = None" using that new(3) by (auto split: if_splits)
    then have rest: "perms_after i k (cur (i, k)) new = (if (i, k) \<in> set xs then des (i, k) else cur (i, k))"
      using new(4) that by simp
    show "perms_after i k (cur (i, k)) (a @ new) = (if (i, k) \<in> set (x # xs) then des (i, k) else cur (i, k))"
      using rest other [of i k] own a(3) e by (cases "(i, k) = x") auto
  qed
  moreover have "\<forall>c \<in> fst ` set (a @ new). \<exists>y \<in> set (x # xs). changes_key (fst y) (snd y) c" using a(2) new(2) by auto
  moreover have "errs \<le> n" using new(3) by (auto split: if_splits)
  ultimately show ?case using a(1) new(1) by (intro exI [of _ "a @ new"]) auto
qed

lemma apply_targets_trace:
  assumes "apply_targets env i current desired ks errs tr = (n, t1)" "distinct ks"
  shows "\<exists>new. t1 = tr @ new \<and> (\<forall>c \<in> fst ` set new. \<exists>k \<in> set ks. changes_key i k c) \<and> errs \<le> n
     \<and> (n = errs \<longrightarrow> (\<forall>k. perms_after i k (gomap_get no_perms current k) new
          = (if k \<in> set ks then gomap_get no_perms desired k else gomap_get no_perms current k)))"
  using apply_pairs_trace [OF assms(1) [unfolded apply_targets_pairs]] assms(2)
  by (fastforce simp: distinct_map inj_on_def)

text \<open>The access key a declaration of the bucket resolves to.\<close>

definition resolves :: "bucket_env \<Rightarrow> GarageBucket \<Rightarrow> trace \<Rightarrow> KeyPermission \<Rightarrow> string \<Rightarrow> bool" where
  "resolves env b tr p k \<longleftrightarrow> (\<exists>key. be_GetKey env tr (key_ref_name b p) = Inr key \<and> kst_AccessKeyID (gk_Status key) = k)"

lemma gomap_get_update: "gomap_get z (AList.update k v m) j = (if j = k then v else gomap_get z m j)"
  by (simp add: gomap_get_def)

text \<open>Without errors the loop over the declarations gathers exactly their bits.\<close>

lemma collect_declared_exact:
  assumes "collect_declared env b tr ps (d, u, n) = Inr (d', u', n')"
  shows "n \<le> n'"
    and "n' = n \<Longrightarrow> u' = u \<and> fst ` set d' = fst ` set d \<union> {k. \<exists>p \<in> set ps. resolves env b tr p k}
       \<and> (\<forall>k pb. pb \<in> bits \<longrightarrow> pb (gomap_get no_perms d' k)
            = (pb (gomap_get no_perms d k) \<or> (\<exists>p \<in> set ps. resolves env b tr p k \<and> pb (perm_bits p))))"
    and "[] \<notin> fst ` set d \<Longrightarrow> [] \<notin> fst ` set d'"
proof -
  have "n \<le> n' \<and> (n' = n \<longrightarrow> u' = u \<and> fst ` set d' = fst ` set d \<union> {k. \<exists>p \<in> set ps. resolves env b tr p k}
       \<and> (\<forall>k pb. pb \<in> bits \<longrightarrow> pb (gomap_get no_perms d' k)
            = (pb (gomap_get no_perms d k) \<or> (\<exists>p \<in> set ps. resolves env b tr p k \<and> pb (perm_bits p)))))
       \<and> ([] \<notin> fst ` set d \<longrightarrow> [] \<notin> fst ` set d')"
    using assms
  proof (induction ps arbitrary: d u n)
    case Nil
    then show ?case by simp
  next
    case (Cons p ps)
    let ?name = "key_ref_name b p"
    show ?case
    proof (cases "CheckReferenceGrant (be_ListGrants env tr) garageBucketKind (gb_Namespace b) garageKeyKind
             (nn_Namespace ?name) (nn_Name ?name)")
      case (Some x)
      then obtain u1 n1 where "collect_declared env b tr ps (d, u1, n1) = Inr (d', u', n')" "n < n1"
        using Cons.prems by (auto simp: Let_def split: sum.splits if_splits)
      then show ?thesis using Cons.IH by fastforce
    next
      case None
      then obtain key where key: "be_GetKey env tr ?name = Inr key" "kst_AccessKeyID (gk_Status key) \<noteq> []"
        using Cons.prems by (auto simp: Let_def split: sum.splits if_splits)
      let ?k = "kst_AccessKeyID (gk_Status key)"
      show ?thesis
      proof (cases "sameClusterForBucketAndKey b key")
        case False
        then have "collect_declared env b tr ps (d, u, n + 1) = Inr (d', u', n')"
          using Cons.prems None key by (auto simp: Let_def)
        then show ?thesis using Cons.IH by fastforce
      next
        case True
        let ?d = "AList.update ?k (mergeBucketPerms (gomap_get no_perms d ?k) (perm_bits p)) d"
        have rest: "collect_declared env b tr ps (?d, u, n) = Inr (d', u', n')"
          using Cons.prems None key True by (auto simp: Let_def)
        have r: "resolves env b tr p j \<longleftrightarrow> j = ?k" for j using key by (auto simp: resolves_def)
        have dom: "fst ` set ?d = insert ?k (fst ` set d)" by (simp add: dom_update)
        note ih = Cons.IH [OF rest]
        show ?thesis
        proof (intro conjI impI)
          show "n \<le> n'" using ih by blast
          show "[] \<notin> fst ` set d \<Longrightarrow> [] \<notin> fst ` set d'" using ih dom key(2) by auto
          assume "n' = n"
          then show "u' = u" using ih by blast
          from \<open>n' = n\<close> ih dom have "fst ` set d' = insert ?k (fst ` set d) \<union> {k. \<exists>p \<in> set ps. resolves env b tr p k}"
            by simp
          then show "fst ` set d' = fst ` set d \<union> {k. \<exists>p \<in> set (p # ps). resolves env b tr p k}"
            using r by auto
          show "\<forall>k pb. pb \<in> bits \<longrightarrow> pb (gomap_get no_perms d' k)
            = (pb (gomap_get no_perms d k) \<or> (\<exists>q \<in> set (p # ps). resolves env b tr q k \<and> pb (perm_bits q)))"
          proof (intro allI impI)
            fix j pb assume pb: "pb \<in> bits"
            have "pb (gomap_get no_perms d' j)
               = (pb (gomap_get no_perms ?d j) \<or> (\<exists>p \<in> set ps. resolves env b tr p j \<and> pb (perm_bits p)))"
              using ih \<open>n' = n\<close> pb by blast
            then show "pb (gomap_get no_perms d' j)
               = (pb (gomap_get no_perms d j) \<or> (\<exists>q \<in> set (p # ps). resolves env b tr q j \<and> pb (perm_bits q)))"
              using pb by (auto simp: gomap_get_update r)
          qed
        qed
      qed
    qed
  qed
  then show "n \<le> n'"
    and "n' = n \<Longrightarrow> u' = u \<and> fst ` set d' = fst ` set d \<union> {k. \<exists>p \<in> set ps. resolves env b tr p k}
       \<and> (\<forall>k pb. pb \<in> bits \<longrightarrow> pb (gomap_get no_perms d' k)
            = (pb (gomap_get no_perms d k) \<or> (\<exists>p \<in> set ps. resolves env b tr p k \<and> pb (perm_bits p))))"
    and "[] \<notin> fst ` set d \<Longrightarrow> [] \<notin> fst ` set d'" by auto
qed

text \<open>What a key's own spec grants on the bucket: its allBuckets permission and every matching entry.\<close>

definition all_buckets_bits :: "AllBucketsPermission \<Rightarrow> BucketKeyPerms" where
  "all_buckets_bits a = \<lparr>kp_Read = ab_Read a, kp_Write = ab_Write a, kp_Owner = ab_Owner a\<rparr>"

definition key_grants :: "GarageKey \<Rightarrow> GarageBucket \<Rightarrow> Bucket \<Rightarrow> (BucketKeyPerms \<Rightarrow> bool) \<Rightarrow> bool" where
  "key_grants key b existing pb \<longleftrightarrow>
     (\<exists>a. ks_AllBuckets (gk_Spec key) = Some a \<and> pb (all_buckets_bits a))
     \<or> (\<exists>p \<in> set (ks_BucketPermissions (gk_Spec key)). permission_matches key b existing p \<and> pb (permission_bits p))"

definition opt_bit :: "(BucketKeyPerms \<Rightarrow> bool) \<Rightarrow> BucketKeyPerms option \<Rightarrow> bool" where
  "opt_bit pb q = (case q of None \<Rightarrow> False | Some q \<Rightarrow> pb q)"

lemma key_permissions_bits:
  assumes "pb \<in> bits"
  shows "opt_bit pb (keyPermissionsForBucket key b existing) = key_grants key b existing pb"
proof -
  let ?step = "\<lambda>p acc. if permission_matches key b existing p
                 then Some (mergeBucketPerms (case acc of None \<Rightarrow> no_perms | Some q \<Rightarrow> q) (permission_bits p)) else acc"
  have "opt_bit pb (fold ?step ps acc)
      = (opt_bit pb acc \<or> (\<exists>p \<in> set ps. permission_matches key b existing p \<and> pb (permission_bits p)))" for ps acc
    using assms by (induction ps arbitrary: acc) (auto simp: opt_bit_def split: option.splits)
  then show ?thesis
    by (auto simp: keyPermissionsForBucket_def key_grants_def opt_bit_def all_buckets_bits_def Let_def split: option.splits)
qed

definition reserved_by_key :: "GarageBucket \<Rightarrow> Bucket \<Rightarrow> GarageKey \<Rightarrow> string \<Rightarrow> bool" where
  "reserved_by_key b existing key k \<longleftrightarrow>
     kst_AccessKeyID (gk_Status key) = k \<and> k \<noteq> [] \<and> sameClusterForBucketAndKey b key \<and> reverse_reserved key (bk_ID existing)"

lemma add_key_exact:
  assumes "add_key env b existing tr key (d, ts, n) = (d', ts', n')"
  shows "n \<le> n'" "set ts' = set ts \<union> {k. reserved_by_key b existing key k}"
    and "n' = n \<Longrightarrow> pb \<in> bits \<Longrightarrow> pb (gomap_get no_perms d' k)
       = (pb (gomap_get no_perms d k) \<or> reserved_by_key b existing key k \<and> key_grants key b existing pb)"
proof -
  let ?k = "kst_AccessKeyID (gk_Status key)"
  show "n \<le> n'" "set ts' = set ts \<union> {k. reserved_by_key b existing key k}"
    using assms by (auto simp: add_key_def reserved_by_key_def reverse_reserved_def Let_def split: if_splits option.splits)
  assume n: "n' = n" and pb: "pb \<in> bits"
  show "pb (gomap_get no_perms d' k)
       = (pb (gomap_get no_perms d k) \<or> reserved_by_key b existing key k \<and> key_grants key b existing pb)"
    using assms n pb key_permissions_bits [OF pb, of key b existing]
    by (auto simp: add_key_def reserved_by_key_def reverse_reserved_def opt_bit_def gomap_get_update Let_def
        split: if_splits option.splits)
qed

lemma add_keys_exact:
  assumes "fold (add_key env b existing tr) keys (d, ts, n) = (d', ts', n')"
  shows "n \<le> n' \<and> set ts' = set ts \<union> {k. \<exists>key \<in> set keys. reserved_by_key b existing key k}
     \<and> (n' = n \<longrightarrow> (\<forall>pb \<in> bits. \<forall>k. pb (gomap_get no_perms d' k)
       = (pb (gomap_get no_perms d k) \<or> (\<exists>key \<in> set keys. reserved_by_key b existing key k \<and> key_grants key b existing pb))))"
  using assms
proof (induction keys arbitrary: d ts n)
  case Nil
  then show ?case by simp
next
  case (Cons key keys)
  obtain d1 ts1 n1 where one: "add_key env b existing tr key (d, ts, n) = (d1, ts1, n1)" by (metis prod_cases3)
  note rest = Cons.IH [of d1 ts1 n1] and first = add_key_exact [OF one]
  have "fold (add_key env b existing tr) keys (d1, ts1, n1) = (d', ts', n')" using Cons.prems one by simp
  note rest = rest [OF this]
  show ?case
  proof (intro conjI impI)
    show "n \<le> n'" using rest first(1) by linarith
    show "set ts' = set ts \<union> {k. \<exists>key \<in> set (key # keys). reserved_by_key b existing key k}"
      using rest first(2) by auto
    assume "n' = n"
    then have "n1 = n" "n' = n1" using rest first(1) by auto
    then show "\<forall>pb \<in> bits. \<forall>k. pb (gomap_get no_perms d' k)
       = (pb (gomap_get no_perms d k) \<or> (\<exists>key' \<in> set (key # keys). reserved_by_key b existing key' k \<and> key_grants key' b existing pb))"
    proof (intro ballI allI)
      fix pb k assume pb: "pb \<in> bits"
      have "pb (gomap_get no_perms d' k) = (pb (gomap_get no_perms d1 k)
          \<or> (\<exists>key \<in> set keys. reserved_by_key b existing key k \<and> key_grants key b existing pb))"
        using rest \<open>n' = n1\<close> pb by blast
      then show "pb (gomap_get no_perms d' k) = (pb (gomap_get no_perms d k)
          \<or> (\<exists>key' \<in> set (key # keys). reserved_by_key b existing key' k \<and> key_grants key' b existing pb))"
        unfolding first(3) [OF \<open>n1 = n\<close> pb] by auto
    qed
  qed
qed

lemma record_grants_trace:
  assumes "record_grants env ids b tr = (e, b1, t1)"
  shows "(t1 = tr \<and> b1 = b \<and> e = None \<and> bst_ManagedKeyGrants (gb_Status b) = ids)
     \<or> (\<exists>oc. t1 = tr @ [(StatusUpdate (with_grants ids b), oc)] \<and> b1 = with_grants ids b \<and> (e = None \<longleftrightarrow> oc = Succeeded))"
  using assms by (auto simp: record_grants_def call_defs split: if_splits option.splits)

lemma record_grants_status: "record_grants env ids b tr = (e, b1, t1) \<Longrightarrow>
    bst_ManagedKeyGrants (gb_Status b1) = ids \<and> gb_Spec b1 = gb_Spec b \<and> gb_Name b1 = gb_Name b \<and> gb_Namespace b1 = gb_Namespace b"
  by (auto dest!: record_grants_trace simp: with_grants_def)

subsection \<open>Exactness\<close>

text \<open>The keys whose permissions on the bucket the operator manages.\<close>

definition managed_key :: "bucket_env \<Rightarrow> GarageBucket \<Rightarrow> Bucket \<Rightarrow> trace \<Rightarrow> GarageKey list \<Rightarrow> string \<Rightarrow> bool" where
  "managed_key env b existing tr keys k \<longleftrightarrow>
     (\<exists>p \<in> set (bs_KeyPermissions (gb_Spec b)). resolves env b tr p k)
     \<or> k \<in> set (bst_ManagedKeyGrants (gb_Status b))
     \<or> (\<exists>key \<in> set keys. reserved_by_key b existing key k)"

text \<open>What the two sides declare for a key.\<close>

definition declared_bit ::
    "bucket_env \<Rightarrow> GarageBucket \<Rightarrow> Bucket \<Rightarrow> trace \<Rightarrow> GarageKey list \<Rightarrow> string \<Rightarrow> (BucketKeyPerms \<Rightarrow> bool) \<Rightarrow> bool" where
  "declared_bit env b existing tr keys k pb \<longleftrightarrow>
     (\<exists>p \<in> set (bs_KeyPermissions (gb_Spec b)). resolves env b tr p k \<and> pb (perm_bits p))
     \<or> (\<exists>key \<in> set keys. reserved_by_key b existing key k \<and> key_grants key b existing pb)"

lemma with_grants_same [simp]:
  "reserved_by_key (with_grants ids b) existing key k = reserved_by_key b existing key k"
  "key_grants key (with_grants ids b) existing pb = key_grants key b existing pb"
  by (simp_all add: with_grants_def reserved_by_key_def sameClusterForBucketAndKey_def key_grants_def
      permission_matches_def effective_alias_def Let_def cong: option.case_cong)

lemma set_mergeManaged [simp]: "set (mergeManagedGrantIDs xs ys) = (set xs \<union> set ys) - {[]}"
  by (auto simp: mergeManagedGrantIDs_def)

text \<open>The stages of a run that reaches the remote changes.\<close>

lemma permission_stages:
  assumes "reconcileKeyPermissions env b existing tr = (r, b', tr')"
  obtains (stopped) "\<forall>c \<in> fst ` set (drop (length tr) tr'). \<forall>k i. \<not> changes_key i k c" "r \<noteq> None" "prefix tr tr'"
  | (applied) d u n t1 mid keys d' ts' n1 n2 new fin where
      "collect_declared env b tr (bs_KeyPermissions (gb_Spec b)) ([], [], 0) = Inr (d, u, n)"
      "t1 = tr @ mid" "be_ListKeys env t1 = Inr keys"
      "\<forall>k \<in> fst ` set d \<union> set (bst_ManagedKeyGrants (gb_Status b)) - {[]}. k \<in> set (bst_ManagedKeyGrants (gb_Status b))
         \<or> (\<exists>s. (StatusUpdate s, Succeeded) \<in> set mid \<and> k \<in> set (bst_ManagedKeyGrants (gb_Status s)))"
      "fst ` set mid \<subseteq> range StatusUpdate"
      "fold (add_key env (with_grants (mergeManagedGrantIDs (bst_ManagedKeyGrants (gb_Status b)) (sort (map fst d))) b) existing t1) keys
         (d, map fst d @ mergeManagedGrantIDs (bst_ManagedKeyGrants (gb_Status b)) (sort (map fst d)) @ u, n) = (d', ts', n1)"
      "apply_targets env (bk_ID existing) (current_permissions existing) d' (remdups ts') n1 t1 = (n2, t1 @ new)"
      "tr' = t1 @ new @ fin" "fst ` set fin \<subseteq> range StatusUpdate"
      "r = None \<longrightarrow> n2 = 0 \<and> bst_ManagedKeyGrants (gb_Status b') = sort (map fst d)"
proof (cases "collect_declared env b tr (bs_KeyPermissions (gb_Spec b)) ([], [], 0)")
  case (Inl e)
  then show ?thesis using assms by (intro stopped) (auto simp: reconcileKeyPermissions_def)
next
  case (Inr dun)
  obtain d u n where d: "collect_declared env b tr (bs_KeyPermissions (gb_Spec b)) ([], [], 0) = Inr (d, u, n)"
    using Inr by (cases dun) auto
  let ?ids = "mergeManagedGrantIDs (bst_ManagedKeyGrants (gb_Status b)) (sort (map fst d))"
  obtain e b1 t1 where rec: "record_grants env ?ids b tr = (e, b1, t1)" by (metis prod_cases3)
  note rt = record_grants_trace [OF rec]
  obtain mid where mid: "t1 = tr @ mid" "fst ` set mid \<subseteq> range StatusUpdate" using rt by auto
  have b1: "b1 = with_grants ?ids b" using rt by (auto simp: with_grants_def)
  have quiet: "\<forall>c \<in> fst ` set l. \<forall>k i. \<not> changes_key i k c" if "fst ` set l \<subseteq> range StatusUpdate" for l :: trace
    using that by (auto simp: changes_key_def)
  show ?thesis
  proof (cases "e = None \<and> (\<exists>keys. be_ListKeys env t1 = Inr keys)")
    case False
    then have "tr' = t1" "r \<noteq> None"
      using assms d rec by (auto simp: reconcileKeyPermissions_def Let_def split: option.splits sum.splits)
    then show ?thesis using mid quiet by (intro stopped) auto
  next
    case True
    then obtain keys where e: "e = None" and keys: "be_ListKeys env t1 = Inr keys" by blast
    obtain d' ts' n1 where f: "fold (add_key env b1 existing t1) keys
         (d, map fst d @ bst_ManagedKeyGrants (gb_Status b1) @ u, n) = (d', ts', n1)" by (metis prod_cases3)
    obtain n2 t2 where ap: "apply_targets env (bk_ID existing) (current_permissions existing) d' (remdups ts') n1 t1 = (n2, t2)" by force
    obtain new where new: "t2 = t1 @ new" using apply_targets_trace [OF ap] by auto
    have fin: "(r, b', tr') = (if n2 > 0 then (Some (PermissionsFailed n2), b1, t2)
        else record_grants env (sort (map fst d)) b1 t2)"
      using assms d rec e keys f ap by (simp add: reconcileKeyPermissions_def Let_def)
    have res: "k \<in> set (bst_ManagedKeyGrants (gb_Status b))
         \<or> (\<exists>s. (StatusUpdate s, Succeeded) \<in> set mid \<and> k \<in> set (bst_ManagedKeyGrants (gb_Status s)))"
      if "k \<in> fst ` set d \<union> set (bst_ManagedKeyGrants (gb_Status b)) - {[]}" for k
    proof -
      have k: "k \<in> set ?ids" using that by auto
      from rt show ?thesis
      proof
        assume "t1 = tr \<and> b1 = b \<and> e = None \<and> bst_ManagedKeyGrants (gb_Status b) = ?ids"
        then have "set (bst_ManagedKeyGrants (gb_Status b)) = set ?ids" by presburger
        then show ?thesis using k by blast
      next
        assume "\<exists>oc. t1 = tr @ [(StatusUpdate (with_grants ?ids b), oc)] \<and> b1 = with_grants ?ids b \<and> (e = None) = (oc = Succeeded)"
        then have "mid = [(StatusUpdate (with_grants ?ids b), Succeeded)]" using mid(1) e by auto
        then show ?thesis using k by (auto simp: with_grants_def)
      qed
    qed
    have ids: "bst_ManagedKeyGrants (gb_Status b1) = ?ids" by (simp add: b1 with_grants_def)
    show ?thesis
    proof (cases "n2 > 0")
      case True
      then have "r \<noteq> None" "tr' = t1 @ new @ []" using fin new by auto
      then show ?thesis
        by (intro applied [OF d mid(1) keys _ mid(2) f [unfolded ids, unfolded b1] ap [unfolded new], of "[]"]) (use res in auto)
    next
      case False
      then have rf: "record_grants env (sort (map fst d)) b1 t2 = (r, b', tr')" using fin by simp
      obtain fin where "tr' = t2 @ fin" "fst ` set fin \<subseteq> range StatusUpdate" using record_grants_trace [OF rf] by auto
      then show ?thesis
        by (intro applied [OF d mid(1) keys _ mid(2) f [unfolded ids, unfolded b1] ap [unfolded new], of fin])
           (use res False new record_grants_status [OF rf] in auto)
    qed
  qed
qed

lemma status_updates_quiet: "fst ` set l \<subseteq> range StatusUpdate \<Longrightarrow> perms_after i k p l = p"
  by (rule perms_after_untouched) (auto simp: changes_key_def)

text \<open>The effect of a successful run on the permissions of every key.\<close>

lemma permissions_after_run:
  assumes "reconcileKeyPermissions env b existing tr = (None, b', tr')"
  shows "\<exists>t1 keys. prefix tr t1 \<and> prefix t1 tr' \<and> be_ListKeys env t1 = Inr keys
     \<and> (\<forall>k pb. k \<noteq> [] \<and> pb \<in> bits \<longrightarrow>
          pb (perms_after (bk_ID existing) k (gomap_get no_perms (current_permissions existing) k) (drop (length tr) tr'))
          = (if managed_key env b existing tr keys k then declared_bit env b existing tr keys k pb
             else pb (gomap_get no_perms (current_permissions existing) k)))"
  using assms
proof (cases rule: permission_stages)
  case stopped
  then show ?thesis by simp
next
  case (applied d u n t1 mid keys d' ts' n1 n2 new fin)
  let ?cur = "gomap_get no_perms (current_permissions existing)"
  have n2: "n2 = 0" using applied(10) by simp
  obtain new' where new': "new = new'" "n1 \<le> n2"
      "n2 = n1 \<longrightarrow> (\<forall>k. perms_after (bk_ID existing) k (?cur k) new' = (if k \<in> set (remdups ts') then gomap_get no_perms d' k else ?cur k))"
    using apply_targets_trace [OF applied(7)] by auto
  note keys = add_keys_exact [OF applied(6)] and decl = collect_declared_exact [OF applied(1)]
  have n: "n1 = 0" "n = 0" using new'(2) n2 keys decl(1) by auto
  have after: "perms_after (bk_ID existing) k (?cur k) (drop (length tr) tr') = (if k \<in> set ts' then gomap_get no_perms d' k else ?cur k)" for k
    using new' n n2 applied(2,8) status_updates_quiet [OF applied(5)] status_updates_quiet [OF applied(9)] by simp
  have ts: "k \<in> set ts' \<longleftrightarrow> managed_key env b existing tr keys k" if "k \<noteq> []" for k
    using keys decl(2) n that by (auto simp: managed_key_def)
  have bit: "pb (gomap_get no_perms d' k) = declared_bit env b existing tr keys k pb" if "pb \<in> bits" for pb k
  proof -
    have "pb (gomap_get no_perms d' k) = (pb (gomap_get no_perms d k)
        \<or> (\<exists>key \<in> set keys. reserved_by_key b existing key k \<and> key_grants key b existing pb))"
      using keys n that by simp
    moreover have "pb (gomap_get no_perms d k) = (\<exists>p \<in> set (bs_KeyPermissions (gb_Spec b)). resolves env b tr p k \<and> pb (perm_bits p))"
      using decl(2) n that by (simp add: gomap_get_def)
    ultimately show ?thesis by (simp add: declared_bit_def)
  qed
  have "\<forall>k pb. k \<noteq> [] \<and> pb \<in> bits \<longrightarrow>
      pb (perms_after (bk_ID existing) k (?cur k) (drop (length tr) tr'))
      = (if managed_key env b existing tr keys k then declared_bit env b existing tr keys k pb else pb (?cur k))"
    using after ts bit by simp
  moreover have "prefix tr t1" "prefix t1 tr'" using applied(2,8) by simp_all
  ultimately show ?thesis using applied(3) by blast
qed

text \<open>
  After a successful reconcile Garage holds exactly the declared permissions.  For every
  behaviour of the services and every access key, the permissions after the calls the operator made
  are, bit by bit, the union of what the GarageBucket and the GarageKeys that hold a reservation
  declare, if the operator manages that key on the bucket, and what they were before otherwise.
  Stale permissions of managed keys are thereby revoked, and those of foreign keys never touched.
\<close>

theorem key_permissions_exact:
  assumes "reconcileKeyPermissions env b existing tr = (None, b', tr')"
  shows "\<exists>t1 keys. prefix tr t1 \<and> prefix t1 tr' \<and> be_ListKeys env t1 = Inr keys
     \<and> (\<forall>k pb. k \<noteq> [] \<and> pb \<in> bits \<longrightarrow>
          pb (perms_after (bk_ID existing) k (gomap_get no_perms (current_permissions existing) k) (drop (length tr) tr'))
          = (if managed_key env b existing tr keys k then declared_bit env b existing tr keys k pb
             else pb (gomap_get no_perms (current_permissions existing) k)))"
  by (rule permissions_after_run [OF assms])

text \<open>A grant needs a desired permission.\<close>

lemma exact_allow:
  assumes "reconcileExactBucketKeyPermissions env i k current desired tr = (e, tr @ new)" "(AllowBucketKey i' k' q, oc) \<in> set new"
  shows "k' = k \<and> desired \<noteq> no_perms"
  using assms
  by (auto simp: reconcileExactBucketKeyPermissions_def Let_def call_defs perms_minus_def no_perms_def split: if_splits sum.splits)

lemma apply_allow_pairs:
  assumes "apply_pairs env cur des xs errs tr = (n, tr @ new)" "(AllowBucketKey i k q, oc) \<in> set new" "distinct xs"
  shows "\<exists>x \<in> set xs. snd x = k \<and> fst x = i \<and> des x \<noteq> no_perms"
  using assms
proof (induction xs arbitrary: errs tr new)
  case Nil
  then show ?case by simp
next
  case (Cons x xs)
  obtain e t2 where e: "reconcileExactBucketKeyPermissions env (fst x) (snd x) (cur x) (des x) tr = (e, t2)"
    and rest: "apply_pairs env cur des xs (if e = None then errs else errs + 1) t2 = (n, tr @ new)"
    using apply_pairs_step [OF Cons.prems(1)] by blast
  obtain a where a: "t2 = tr @ a" "\<forall>c \<in> fst ` set a. changes_key (fst x) (snd x) c" using exact_permissions [OF e] by blast
  obtain m where m: "tr @ new = t2 @ m" using apply_pairs_trace [OF rest] Cons.prems(3) by auto
  show ?case
  proof (cases "(AllowBucketKey i k q, oc) \<in> set a")
    case True
    then have "changes_key (fst x) (snd x) (AllowBucketKey i k q)" using a(2) by force
    then show ?thesis using exact_allow [of env "fst x" "snd x" "cur x" "des x" tr e a] e a(1) True by (auto simp: changes_key_def)
  next
    case False
    then have "(AllowBucketKey i k q, oc) \<in> set m" using Cons.prems(2) m a by simp
    then show ?thesis using Cons.IH [OF rest [unfolded m]] Cons.prems(3) by auto
  qed
qed

lemma apply_allow:
  assumes "apply_targets env i current desired ks errs tr = (n, tr @ new)" "(AllowBucketKey i' k q, oc) \<in> set new" "distinct ks"
  shows "gomap_get no_perms desired k \<noteq> no_perms"
  using apply_allow_pairs [OF assms(1) [unfolded apply_targets_pairs] assms(2)] assms(3)
  by (auto simp: distinct_map inj_on_def)

lemma add_keys_dom:
  "gomap_get no_perms (fst (fold (add_key env b existing tr) keys (d, ts, n))) k \<noteq> no_perms \<Longrightarrow>
     k \<in> fst ` set d \<or> (\<exists>key \<in> set keys. reserved_by_key b existing key k)"
proof (induction keys arbitrary: d ts n)
  case Nil
  then show ?case by (auto simp: gomap_get_def split: option.splits dest!: map_of_SomeD intro: rev_image_eqI)
next
  case (Cons key keys)
  obtain d1 ts1 n1 where one: "add_key env b existing tr key (d, ts, n) = (d1, ts1, n1)" by (metis prod_cases3)
  have "k \<in> fst ` set d1 \<or> (\<exists>key \<in> set keys. reserved_by_key b existing key k)" using Cons one by simp
  moreover have "d1 = d \<or> (\<exists>v. d1 = AList.update (kst_AccessKeyID (gk_Status key)) v d
      \<and> reserved_by_key b existing key (kst_AccessKeyID (gk_Status key)))"
    using one by (auto simp: add_key_def reserved_by_key_def Let_def split: if_splits option.splits)
  then have "fst ` set d1 \<subseteq> fst ` set d \<union> {k. reserved_by_key b existing key k}"
  proof
    assume "\<exists>v. d1 = AList.update (kst_AccessKeyID (gk_Status key)) v d
      \<and> reserved_by_key b existing key (kst_AccessKeyID (gk_Status key))"
    then obtain v where "d1 = AList.update (kst_AccessKeyID (gk_Status key)) v d"
        "reserved_by_key b existing key (kst_AccessKeyID (gk_Status key))" by blast
    then show ?thesis by (simp only: dom_update) auto
  qed auto
  ultimately show ?case by (auto dest: subsetD)
qed

text \<open>
  C32: Ownership of a grant is durable before the grant is made.  Whenever the operator issues
  AllowBucketKey for an access key, that key was already recorded as managed in the bucket's status,
  or a status update that succeeded earlier in the same run recorded it, or the status of a GarageKey
  of the cluster already reserves this bucket.  A crash after a grant therefore leaves a record from
  which a later change of the spec revokes it.
\<close>

theorem grants_reserved_first:
  assumes "reconcileKeyPermissions env b existing tr = (r, b', tr')"
    and "tr' = tr @ pre @ (AllowBucketKey i k q, oc) # post" "k \<noteq> []"
  shows "k \<in> set (bst_ManagedKeyGrants (gb_Status b))
     \<or> (\<exists>s. (StatusUpdate s, Succeeded) \<in> set pre \<and> k \<in> set (bst_ManagedKeyGrants (gb_Status s)))
     \<or> (\<exists>t1 keys. prefix t1 (tr @ pre) \<and> be_ListKeys env t1 = Inr keys \<and> (\<exists>key \<in> set keys. reserved_by_key b existing key k))"
  using assms(1)
proof (cases rule: permission_stages)
  case stopped
  then show ?thesis using assms(2) by (auto simp: changes_key_def)
next
  case (applied d u n t1 mid keys d' ts' n1 n2 new fin)
  have noup: "(AllowBucketKey i k q, oc) \<notin> set l" if "fst ` set l \<subseteq> range StatusUpdate" for l :: trace
    using call_absent [OF that] by simp
  have eq: "mid @ new @ fin = pre @ (AllowBucketKey i k q, oc) # post" using assms(2) applied(2,8) by simp
  then have "(AllowBucketKey i k q, oc) \<in> set (mid @ new @ fin)" by simp
  then have inn: "(AllowBucketKey i k q, oc) \<in> set new" using noup applied(5,9) by auto
  have mp: "prefix mid pre"
    using eq noup [OF applied(5)] by (auto simp: append_eq_append_conv2 append_eq_Cons_conv prefix_def)
  have "gomap_get no_perms d' k \<noteq> no_perms" using apply_allow [OF applied(7) inn] by simp
  then have "k \<in> fst ` set d \<or> (\<exists>key \<in> set keys. reserved_by_key b existing key k)"
    using add_keys_dom [of env _ existing t1 keys] applied(6) by (metis fst_conv with_grants_same(1))
  then show ?thesis
  proof
    assume "k \<in> fst ` set d"
    then have "k \<in> fst ` set d \<union> set (bst_ManagedKeyGrants (gb_Status b)) - {[]}" using assms(3) by blast
    moreover have "set mid \<subseteq> set pre" using mp by (auto simp: prefix_def)
    ultimately show ?thesis using applied(4) by blast
  next
    assume "\<exists>key \<in> set keys. reserved_by_key b existing key k"
    then show ?thesis using applied(2,3) mp by (metis same_prefix_prefix)
  qed
qed

subsection \<open>A small instance\<close>

definition sample_key :: GarageKey where
  "sample_key = \<lparr>gk_Namespace = ''apps'', gk_Name = ''alice'', gk_UID = ''k1'', gk_Generation = 1,
     gk_DeletionTimestamp = None, gk_Labels = [], gk_Annotations = [], gk_Finalizers = [],
     gk_Spec = \<lparr>ks_ClusterRef = \<lparr>ref_Name = ''garage'', ref_Namespace = [], ref_KubeConfigSecretRef = False\<rparr>,
       ks_Name = [], ks_ImportKey = None, ks_SecretTemplate = None, ks_BucketPermissions = [], ks_AllBuckets = None,
       ks_Permissions = None, ks_ExpiresAt = None, ks_NeverExpires = False\<rparr>,
     gk_Status = \<lparr>kst_KeyID = [], kst_AccessKeyID = ''K1'', kst_Phase = [], kst_CreatedAt = None, kst_ExpiresAt = None,
       kst_ClusterWide = False, kst_SecretRef = None, kst_Permissions = None, kst_Buckets = [], kst_ManagedBucketGrants = [],
       kst_ObservedGeneration = 0, kst_Conditions = []\<rparr>\<rparr>"

definition sample_declaring :: GarageBucket where
  "sample_declaring = sample_bucket\<lparr>gb_Spec := (gb_Spec sample_bucket)\<lparr>bs_KeyPermissions :=
     [\<lparr>kpm_KeyRef = \<lparr>kr_Name = ''alice'', kr_Namespace = []\<rparr>, kpm_Read = True, kpm_Write = False, kpm_Owner = False\<rparr>]\<rparr>\<rparr>"

text \<open>The managed key still holds an owner permission; a foreign key may read.\<close>

definition sample_shared :: Bucket where
  "sample_shared = sample_remote\<lparr>bk_Keys :=
     [\<lparr>ki_AccessKeyID = ''K1'', ki_Name = ''alice'', ki_Permissions = \<lparr>kp_Read = False, kp_Write = False, kp_Owner = True\<rparr>,
        ki_BucketLocalAliases = []\<rparr>,
      \<lparr>ki_AccessKeyID = ''K9'', ki_Name = ''zoe'', ki_Permissions = \<lparr>kp_Read = True, kp_Write = False, kp_Owner = False\<rparr>,
        ki_BucketLocalAliases = []\<rparr>]\<rparr>"

definition sample_key_env :: bucket_env where
  "sample_key_env = (sample_service sample_remote)\<lparr>be_GetKey := (\<lambda>tr n. Inr sample_key), be_ListKeys := (\<lambda>tr. Inr [sample_key])\<rparr>"

lemma sample_permissions:
  "reconcileKeyPermissions sample_key_env sample_declaring sample_shared []
     = (None, with_grants [''K1''] sample_declaring,
        [(StatusUpdate (with_grants [''K1''] sample_declaring), Succeeded),
         (DenyBucketKey ''b1'' ''K1'' \<lparr>kp_Read = False, kp_Write = False, kp_Owner = True\<rparr>, Succeeded),
         (AllowBucketKey ''b1'' ''K1'' \<lparr>kp_Read = True, kp_Write = False, kp_Owner = False\<rparr>, Succeeded)])"
  by code_simp

theorem key_permissions_exact_witness:
  "\<exists>keys. (if managed_key sample_key_env sample_declaring sample_shared [] keys ''K9''
      then declared_bit sample_key_env sample_declaring sample_shared [] keys ''K9'' kp_Read else True) = True"
proof -
  obtain keys where "\<forall>k pb. k \<noteq> [] \<and> pb \<in> bits \<longrightarrow>
      pb (perms_after (bk_ID sample_shared) k (gomap_get no_perms (current_permissions sample_shared) k)
        (drop (length ([] :: trace)) [(StatusUpdate (with_grants [''K1''] sample_declaring), Succeeded),
         (DenyBucketKey ''b1'' ''K1'' \<lparr>kp_Read = False, kp_Write = False, kp_Owner = True\<rparr>, Succeeded),
         (AllowBucketKey ''b1'' ''K1'' \<lparr>kp_Read = True, kp_Write = False, kp_Owner = False\<rparr>, Succeeded)]))
      = (if managed_key sample_key_env sample_declaring sample_shared [] keys k
         then declared_bit sample_key_env sample_declaring sample_shared [] keys k pb
         else pb (gomap_get no_perms (current_permissions sample_shared) k))"
    using key_permissions_exact [OF sample_permissions] by (elim exE conjE) (rule that)
  note k9 = this [rule_format, of "''K9''" kp_Read]
  have "kp_Read (perms_after (bk_ID sample_shared) ''K9'' (gomap_get no_perms (current_permissions sample_shared) ''K9'')
        (drop (length ([] :: trace)) [(StatusUpdate (with_grants [''K1''] sample_declaring), Succeeded),
         (DenyBucketKey ''b1'' ''K1'' \<lparr>kp_Read = False, kp_Write = False, kp_Owner = True\<rparr>, Succeeded),
         (AllowBucketKey ''b1'' ''K1'' \<lparr>kp_Read = True, kp_Write = False, kp_Owner = False\<rparr>, Succeeded)])) = True"
    "kp_Read (gomap_get no_perms (current_permissions sample_shared) ''K9'') = True" by code_simp+
  moreover have "''K9'' \<noteq> [] \<and> kp_Read \<in> bits" by (simp add: bits_def)
  ultimately show ?thesis using k9 by metis
qed

theorem grants_reserved_first_witness:
  "''K1'' \<in> set (bst_ManagedKeyGrants (gb_Status sample_declaring))
     \<or> (\<exists>s. (StatusUpdate s, Succeeded) \<in> set [(StatusUpdate (with_grants [''K1''] sample_declaring), Succeeded),
           (DenyBucketKey ''b1'' ''K1'' \<lparr>kp_Read = False, kp_Write = False, kp_Owner = True\<rparr>, Succeeded)]
         \<and> ''K1'' \<in> set (bst_ManagedKeyGrants (gb_Status s)))
     \<or> (\<exists>t1 keys. prefix t1 [(StatusUpdate (with_grants [''K1''] sample_declaring), Succeeded),
           (DenyBucketKey ''b1'' ''K1'' \<lparr>kp_Read = False, kp_Write = False, kp_Owner = True\<rparr>, Succeeded)]
         \<and> be_ListKeys sample_key_env t1 = Inr keys \<and> (\<exists>key \<in> set keys. reserved_by_key sample_declaring sample_shared key ''K1''))"
  using grants_reserved_first [OF sample_permissions, of "[(StatusUpdate (with_grants [''K1''] sample_declaring), Succeeded),
      (DenyBucketKey ''b1'' ''K1'' \<lparr>kp_Read = False, kp_Write = False, kp_Owner = True\<rparr>, Succeeded)]"] by simp

end
