(* ===== verification/BucketAliases.thy ===== *)
theory BucketAliases
  imports BucketPermissions
begin

text \<open>
  Global and local aliases of a bucket (reconcileGlobalAlias and reconcileLocalAliases of
  internal/controller/garagebucket_controller.go).  The wanted alias is reserved in the status before
  it is added, and a previously managed alias is removed only once its replacement is in place.
\<close>

subsection \<open>The global alias\<close>

definition global_alias :: "string \<Rightarrow> string \<Rightarrow> BucketAliasRequest" where
  "global_alias bucketID a = \<lparr>bar_BucketID = bucketID, bar_GlobalAlias = a, bar_LocalAlias = [], bar_AccessKeyID = []\<rparr>"

definition local_alias :: "string \<Rightarrow> string \<Rightarrow> string \<Rightarrow> BucketAliasRequest" where
  "local_alias bucketID key a = \<lparr>bar_BucketID = bucketID, bar_GlobalAlias = [], bar_LocalAlias = a, bar_AccessKeyID = key\<rparr>"

text \<open>Remove an alias the bucket has; that it is gone already is no error.\<close>

definition remove_global ::
    "bucket_env \<Rightarrow> string \<Rightarrow> string \<Rightarrow> string list \<Rightarrow> (call_error \<Rightarrow> bucket_error) \<Rightarrow> trace \<Rightarrow> bucket_error option \<times> trace" where
  "remove_global env bucketID a current err tr =
     (if a \<in> set current then
        (case call_bucket env (RemoveBucketAlias (global_alias bucketID a)) tr of
           (Inl e, t1) \<Rightarrow> if \<not> IsNotFound (ce_API e) then (Some (err e), t1) else (None, t1)
         | (Inr _, t1) \<Rightarrow> (None, t1))
      else (None, tr))"

definition with_pending :: "string \<Rightarrow> GarageBucket \<Rightarrow> GarageBucket" where
  "with_pending a b = b\<lparr>gb_Status := (gb_Status b)\<lparr>bst_PendingGlobalAlias := a\<rparr>\<rparr>"

definition persist_status :: "bucket_env \<Rightarrow> GarageBucket \<Rightarrow> trace \<Rightarrow> bucket_error option \<times> GarageBucket \<times> trace" where
  "persist_status env b tr =
     (case bucket_status_update env b tr of
        (None, b1, t1) \<Rightarrow> (None, b1, t1)
      | (Some e, b1, t1) \<Rightarrow> (Some (StatusWriteFailed e), b1, t1))"

definition drop_abandoned ::
    "bucket_env \<Rightarrow> GarageBucket \<Rightarrow> string \<Rightarrow> string \<Rightarrow> string list \<Rightarrow> trace \<Rightarrow> bucket_error option \<times> GarageBucket \<times> trace" where
  "drop_abandoned env b bucketID alias current tr =
     (let pending = bst_PendingGlobalAlias (gb_Status b) in
      if pending \<noteq> [] \<and> pending \<noteq> alias \<and> pending \<noteq> bst_ManagedGlobalAlias (gb_Status b) then
        (case remove_global env bucketID pending current RemoveAbandonedAliasFailed tr of
           (Some e, t1) \<Rightarrow> (Some e, b, t1)
         | (None, t1) \<Rightarrow> persist_status env (with_pending [] b) t1)
      else (None, b, tr))"

definition reserve_alias ::
    "bucket_env \<Rightarrow> GarageBucket \<Rightarrow> string \<Rightarrow> trace \<Rightarrow> bucket_error option \<times> GarageBucket \<times> trace" where
  "reserve_alias env b alias tr =
     (if bst_PendingGlobalAlias (gb_Status b) \<noteq> alias then persist_status env (with_pending alias b) tr
      else (None, b, tr))"

definition add_global ::
    "bucket_env \<Rightarrow> string \<Rightarrow> string \<Rightarrow> string list \<Rightarrow> trace \<Rightarrow> bucket_error option \<times> trace" where
  "add_global env bucketID alias current tr =
     (if alias \<in> set current then (None, tr)
      else (case call_bucket env (AddBucketAlias (global_alias bucketID alias)) tr of
         (Inr _, t1) \<Rightarrow> (None, t1)
       | (Inl e, t1) \<Rightarrow>
           if \<not> IsConflict (ce_API e) then (Some (SetGlobalAliasFailed e), t1)
           else (case call_bucket env (GetBucketInfo (by_alias alias)) t1 of
              (Inl _, t2) \<Rightarrow> (Some (GlobalAliasConflict e), t2)
            | (Inr resolved, t2) \<Rightarrow>
                if bk_ID resolved \<noteq> bucketID then (Some (GlobalAliasConflict e), t2) else (None, t2))))"

definition with_managed :: "string \<Rightarrow> GarageBucket \<Rightarrow> GarageBucket" where
  "with_managed a b = b\<lparr>gb_Status := (gb_Status b)\<lparr>bst_ManagedGlobalAlias := a, bst_PendingGlobalAlias := []\<rparr>\<rparr>"

definition retire_previous ::
    "bucket_env \<Rightarrow> GarageBucket \<Rightarrow> string \<Rightarrow> string \<Rightarrow> string list \<Rightarrow> trace \<Rightarrow> bucket_error option \<times> trace" where
  "retire_previous env b bucketID alias current tr =
     (let previous = bst_ManagedGlobalAlias (gb_Status b) in
      if previous \<noteq> [] \<and> previous \<noteq> alias
      then remove_global env bucketID previous current RemovePreviousAliasFailed tr
      else (None, tr))"

text \<open>The phases of reconcileGlobalAlias: reserve, add, complete.\<close>

definition reserve_phase ::
    "bucket_env \<Rightarrow> GarageBucket \<Rightarrow> string \<Rightarrow> string \<Rightarrow> string list \<Rightarrow> trace \<Rightarrow> bucket_error option \<times> GarageBucket \<times> trace" where
  "reserve_phase env b bucketID alias current tr =
     (case drop_abandoned env b bucketID alias current tr of
        (Some e, b1, t1) \<Rightarrow> (Some e, b1, t1)
      | (None, b1, t1) \<Rightarrow> reserve_alias env b1 alias t1)"

definition complete_phase ::
    "bucket_env \<Rightarrow> GarageBucket \<Rightarrow> string \<Rightarrow> string \<Rightarrow> string list \<Rightarrow> trace \<Rightarrow> bucket_error option \<times> GarageBucket \<times> trace" where
  "complete_phase env b bucketID alias current tr =
     (case retire_previous env b bucketID alias current tr of
        (Some e, t1) \<Rightarrow> (Some e, b, t1)
      | (None, t1) \<Rightarrow>
          if bst_ManagedGlobalAlias (gb_Status b) \<noteq> alias \<or> bst_PendingGlobalAlias (gb_Status b) \<noteq> []
          then persist_status env (with_managed alias b) t1
          else (None, b, t1))"

definition reconcileGlobalAlias ::
    "bucket_env \<Rightarrow> GarageBucket \<Rightarrow> string \<Rightarrow> string \<Rightarrow> string list \<Rightarrow> trace \<Rightarrow> bucket_error option \<times> GarageBucket \<times> trace" where
  "reconcileGlobalAlias env b bucketID alias current tr =
     (case reserve_phase env b bucketID alias current tr of
        (Some e, b1, t1) \<Rightarrow> (Some e, b1, t1)
      | (None, b1, t1) \<Rightarrow>
     (case add_global env bucketID alias current t1 of
        (Some e, t2) \<Rightarrow> (Some e, b1, t2)
      | (None, t2) \<Rightarrow> complete_phase env b1 bucketID alias current t2))"

subsection \<open>Local aliases\<close>

definition alias_key :: "LocalAliasStatus \<Rightarrow> string" where
  "alias_key a = las_KeyID a @ [CHR 0x00] @ las_Alias a"

definition sortLocalAliasStatuses :: "LocalAliasStatus list \<Rightarrow> LocalAliasStatus list" where
  "sortLocalAliasStatuses as = sort_key las_KeyID (sort_key las_Alias as)"

definition mergeLocalAliasStatuses :: "LocalAliasStatus list \<Rightarrow> LocalAliasStatus list \<Rightarrow> LocalAliasStatus list" where
  "mergeLocalAliasStatuses existing additions =
     sortLocalAliasStatuses (map snd (fold (\<lambda>a m. AList.update (alias_key a) a m)
       (filter (\<lambda>a. las_KeyID a \<noteq> [] \<and> las_Alias a \<noteq> []) (existing @ additions)) []))"

definition bucketHasLocalAlias :: "BucketKeyInfo list \<Rightarrow> string \<Rightarrow> string \<Rightarrow> bool" where
  "bucketHasLocalAlias keys keyID alias =
     (case find (\<lambda>k. ki_AccessKeyID k = keyID) keys of
        None \<Rightarrow> False
      | Some k \<Rightarrow> alias \<in> set (ki_BucketLocalAliases k))"

fun local_desired ::
    "bucket_env \<Rightarrow> GarageBucket \<Rightarrow> trace \<Rightarrow> LocalAlias list \<Rightarrow> (string, LocalAliasStatus) gomap
     \<Rightarrow> bucket_error + (string, LocalAliasStatus) gomap" where
  "local_desired env b tr [] acc = Inr acc"
| "local_desired env b tr (l # ls) acc =
     (case be_GetKey env tr \<lparr>nn_Namespace = gb_Namespace b, nn_Name = la_KeyRef l\<rparr> of
        Inl e \<Rightarrow> Inl (if e = KubeNotFound then WaitingForKey (gb_Namespace b) (la_KeyRef l) else KeyReadFailed e)
      | Inr key \<Rightarrow>
          if kst_AccessKeyID (gk_Status key) = [] then Inl (WaitingForKey (gb_Namespace b) (la_KeyRef l))
          else if \<not> sameClusterForBucketAndKey b key then Inl AliasKeyOnOtherCluster
          else let item = \<lparr>las_KeyID = kst_AccessKeyID (gk_Status key), las_KeyName = [], las_Alias = la_Alias l\<rparr>
            in local_desired env b tr ls (AList.update (alias_key item) item acc))"

definition add_local ::
    "bucket_env \<Rightarrow> string \<Rightarrow> LocalAliasStatus \<Rightarrow> Bucket option \<Rightarrow> trace \<Rightarrow> (bucket_error + Bucket option) \<times> trace" where
  "add_local env bucketID item snapshot tr =
     (case call_bucket env (AddBucketAlias (local_alias bucketID (las_KeyID item) (las_Alias item))) tr of
        (Inr updated, t1) \<Rightarrow> (Inr (if bk_ID updated = bucketID then Some updated else snapshot), t1)
      | (Inl e, t1) \<Rightarrow>
          if \<not> IsConflict (ce_API e) then (Inl (AddLocalAliasFailed e), t1)
          else (case call_bucket env (GetBucketInfo (by_id bucketID)) t1 of
             (Inl _, t2) \<Rightarrow> (Inl (LocalAliasConflict e), t2)
           | (Inr resolved, t2) \<Rightarrow>
               if bk_ID resolved \<noteq> bucketID \<or> \<not> bucketHasLocalAlias (bk_Keys resolved) (las_KeyID item) (las_Alias item)
               then (Inl (LocalAliasConflict e), t2) else (Inr (Some resolved), t2)))"

fun add_locals ::
    "bucket_env \<Rightarrow> string \<Rightarrow> LocalAliasStatus list \<Rightarrow> Bucket option \<Rightarrow> trace \<Rightarrow> (bucket_error + Bucket option) \<times> trace" where
  "add_locals env bucketID [] snapshot tr = (Inr snapshot, tr)"
| "add_locals env bucketID (item # items) snapshot tr =
     (case add_local env bucketID item snapshot tr of
        (Inl e, t1) \<Rightarrow> (Inl e, t1)
      | (Inr s, t1) \<Rightarrow> add_locals env bucketID items s t1)"

fun remove_locals ::
    "bucket_env \<Rightarrow> string \<Rightarrow> (string, LocalAliasStatus) gomap \<Rightarrow> BucketKeyInfo list \<Rightarrow> LocalAliasStatus list
     \<Rightarrow> Bucket option \<Rightarrow> trace \<Rightarrow> (bucket_error + Bucket option) \<times> trace" where
  "remove_locals env bucketID desired keys [] snapshot tr = (Inr snapshot, tr)"
| "remove_locals env bucketID desired keys (p # ps) snapshot tr =
     (if gomap_has desired (alias_key p) \<or> \<not> bucketHasLocalAlias keys (las_KeyID p) (las_Alias p)
      then remove_locals env bucketID desired keys ps snapshot tr
      else (case call_bucket env (RemoveBucketAlias (local_alias bucketID (las_KeyID p) (las_Alias p))) tr of
         (Inl e, t1) \<Rightarrow>
           if \<not> IsNotFound (ce_API e) then (Inl (RemoveLocalAliasFailed e), t1)
           else remove_locals env bucketID desired keys ps snapshot t1
       | (Inr updated, t1) \<Rightarrow>
           remove_locals env bucketID desired keys ps (if bk_ID updated = bucketID then Some updated else snapshot) t1))"

definition with_locals :: "LocalAliasStatus list \<Rightarrow> GarageBucket \<Rightarrow> GarageBucket" where
  "with_locals as b = b\<lparr>gb_Status := (gb_Status b)\<lparr>bst_ManagedLocalAliases := as\<rparr>\<rparr>"

definition record_locals ::
    "bucket_env \<Rightarrow> LocalAliasStatus list \<Rightarrow> GarageBucket \<Rightarrow> trace \<Rightarrow> bucket_error option \<times> GarageBucket \<times> trace" where
  "record_locals env as b tr =
     (if bst_ManagedLocalAliases (gb_Status b) = as then (None, b, tr) else persist_status env (with_locals as b) tr)"

definition reconcileLocalAliases ::
    "bucket_env \<Rightarrow> GarageBucket \<Rightarrow> string \<Rightarrow> BucketKeyInfo list \<Rightarrow> trace
     \<Rightarrow> (bucket_error + Bucket option) \<times> GarageBucket \<times> trace" where
  "reconcileLocalAliases env b bucketID currentKeys tr =
     (case local_desired env b tr (bs_LocalAliases (gb_Spec b)) [] of
        Inl e \<Rightarrow> (Inl e, b, tr)
      | Inr desired \<Rightarrow>
     (let managed = sortLocalAliasStatuses (map snd desired) in
      case record_locals env (mergeLocalAliasStatuses (bst_ManagedLocalAliases (gb_Status b)) managed) b tr of
        (Some e, b1, t1) \<Rightarrow> (Inl e, b1, t1)
      | (None, b1, t1) \<Rightarrow>
     (case add_locals env bucketID (map snd desired) None t1 of
        (Inl e, t2) \<Rightarrow> (Inl e, b1, t2)
      | (Inr s, t2) \<Rightarrow>
     (case remove_locals env bucketID desired currentKeys (bst_ManagedLocalAliases (gb_Status b1)) s t2 of
        (Inl e, t3) \<Rightarrow> (Inl e, b1, t3)
      | (Inr s', t3) \<Rightarrow>
     (case record_locals env managed b1 t3 of
        (Some e, b2, t4) \<Rightarrow> (Inl e, b2, t4)
      | (None, b2, t4) \<Rightarrow> (Inr s', b2, t4))))))"

subsection \<open>Persisting the status\<close>

definition kube_calls :: "bucket_call set" where
  "kube_calls = range StatusUpdate \<union> range ObjectGet"

lemma status_retry_trace:
  assumes "bucket_status_retry env u reapply n obj tr = (e, b1, t1)"
    and "gb_Status obj = st" "\<And>fresh. gb_Status (reapply fresh) = st"
  shows "\<exists>new. t1 = tr @ new \<and> fst ` set new \<subseteq> kube_calls
     \<and> (e = None \<longrightarrow> gb_Status b1 = st \<and> (\<exists>s. (StatusUpdate s, Succeeded) \<in> set new \<and> gb_Status s = st))"
  using assms
proof (induction env u reapply n obj tr rule: bucket_status_retry.induct)
  case (1 env u reapply obj tr)
  then show ?case by auto
next
  case (2 env u reapply n obj tr)
  obtain w t2 where w: "call_status env (StatusUpdate obj) tr = (w, t2)" by force
  then have t2: "t2 = tr @ [(StatusUpdate obj, kube_outcome w)]" by (auto simp: call_defs)
  show ?case
  proof (cases "w = Some KubeConflict \<and> 0 < n")
    case False
    then consider "w = None" "t1 = t2" "e = None" "b1 = obj" | "w \<noteq> None" "t1 = t2" "e \<noteq> None"
      using "2.prems"(1) w by (cases w) (auto split: if_splits)
    then show ?thesis
    proof cases
      case 1
      then show ?thesis using t2 "2.prems"(2) by (auto simp: kube_calls_def)
    next
      case 2
      then show ?thesis using t2 by (auto simp: kube_calls_def)
    qed
  next
    case True
    obtain g t3 where g: "call_object env (ObjectGet (bucket_key obj)) t2 = (g, t3)" by force
    then have t3: "t3 = t2 @ [(ObjectGet (bucket_key obj), kube_outcome (error_of g))]" by (auto simp: call_defs)
    show ?thesis
    proof (cases "\<exists>fresh. g = Inr fresh \<and> \<not> (u \<noteq> [] \<and> gb_UID fresh \<noteq> u)")
      case True
      then obtain fresh where fresh: "g = Inr fresh" "\<not> (u \<noteq> [] \<and> gb_UID fresh \<noteq> u)" by blast
      then have rest: "bucket_status_retry env u reapply n (reapply fresh) t3 = (e, b1, t1)"
        using "2.prems"(1) w g \<open>w = Some KubeConflict \<and> 0 < n\<close> by (auto split: if_splits)
      have "\<exists>new. t1 = t3 @ new \<and> fst ` set new \<subseteq> kube_calls
         \<and> (e = None \<longrightarrow> gb_Status b1 = st \<and> (\<exists>s. (StatusUpdate s, Succeeded) \<in> set new \<and> gb_Status s = st))"
        using "2.IH"(1) [of w t2 KubeConflict g t3 fresh] w g fresh rest \<open>w = Some KubeConflict \<and> 0 < n\<close> "2.prems"(3)
        by auto
      then obtain new where "t1 = t3 @ new" "fst ` set new \<subseteq> kube_calls"
         "e = None \<longrightarrow> gb_Status b1 = st \<and> (\<exists>s. (StatusUpdate s, Succeeded) \<in> set new \<and> gb_Status s = st)" by blast
      then show ?thesis using t2 t3
        by (intro exI [of _ "(StatusUpdate obj, kube_outcome w) # (ObjectGet (bucket_key obj), kube_outcome (error_of g)) # new"])
           (auto simp: kube_calls_def)
    next
      case False
      then have "t1 = t3" "e \<noteq> None"
        using "2.prems"(1) w g \<open>w = Some KubeConflict \<and> 0 < n\<close> by (auto split: sum.splits if_splits)
      then show ?thesis using t2 t3 by (auto simp: kube_calls_def)
    qed
  qed
qed

lemma persist_trace:
  assumes "persist_status env b tr = (e, b1, t1)"
  shows "\<exists>new. t1 = tr @ new \<and> fst ` set new \<subseteq> kube_calls
     \<and> (e = None \<longrightarrow> gb_Status b1 = gb_Status b \<and> (\<exists>s. (StatusUpdate s, Succeeded) \<in> set new \<and> gb_Status s = gb_Status b))"
proof -
  obtain e0 where r: "bucket_status_update env b tr = (e0, b1, t1)" and e: "e = None \<longleftrightarrow> e0 = None"
    using assms by (auto simp: persist_status_def split: prod.splits option.splits)
  show ?thesis using status_retry_trace [OF r [unfolded bucket_status_update_def], of "gb_Status b"] e by simp
qed

subsection \<open>The hand-over of the global alias\<close>

text \<open>The wanted alias is known to belong to the bucket \<open>i\<close> at the end of \<open>l\<close>, which started after \<open>tr\<close>.\<close>

definition alias_secured :: "bucket_env \<Rightarrow> string \<Rightarrow> string \<Rightarrow> string list \<Rightarrow> trace \<Rightarrow> trace \<Rightarrow> bool" where
  "alias_secured env i alias current tr l \<longleftrightarrow>
     alias \<in> set current \<or> (AddBucketAlias (global_alias i alias), Succeeded) \<in> set l
     \<or> (\<exists>p k. prefix (p @ [(GetBucketInfo (by_alias alias), Succeeded)]) l
          \<and> be_Bucket env (tr @ p) (GetBucketInfo (by_alias alias)) = Inr k \<and> bk_ID k = i)"

lemma remove_global_trace:
  assumes "remove_global env i a current err tr = (e, t1)"
  shows "\<exists>new. t1 = tr @ new \<and> fst ` set new \<subseteq> {RemoveBucketAlias (global_alias i a)} \<and> (new \<noteq> [] \<longrightarrow> a \<in> set current)"
  using assms by (auto simp: remove_global_def call_defs split: if_splits sum.splits)

lemma drop_abandoned_trace:
  assumes "drop_abandoned env b i alias current tr = (e, b1, t1)"
  defines "pending \<equiv> bst_PendingGlobalAlias (gb_Status b)" and "managed \<equiv> bst_ManagedGlobalAlias (gb_Status b)"
  shows "\<exists>new. t1 = tr @ new
     \<and> fst ` set new \<subseteq> kube_calls \<union> (if pending \<notin> {[], alias, managed} then {RemoveBucketAlias (global_alias i pending)} else {})
     \<and> (e = None \<longrightarrow> bst_ManagedGlobalAlias (gb_Status b1) = managed
          \<and> (bst_PendingGlobalAlias (gb_Status b1) = alias \<longrightarrow> pending = alias \<or> alias = []))"
proof (cases "pending \<notin> {[], alias, managed}")
  case False
  then show ?thesis using assms(1) by (auto simp: drop_abandoned_def pending_def managed_def Let_def)
next
  case True
  obtain r t2 where r: "remove_global env i pending current RemoveAbandonedAliasFailed tr = (r, t2)" by force
  obtain l1 where l1: "t2 = tr @ l1" "fst ` set l1 \<subseteq> {RemoveBucketAlias (global_alias i pending)}"
    using remove_global_trace [OF r] by blast
  show ?thesis
  proof (cases r)
    case (Some x)
    then have "t1 = t2" "e \<noteq> None" using assms(1) True r by (auto simp: drop_abandoned_def pending_def managed_def Let_def)
    then show ?thesis using l1 True by auto
  next
    case None
    then have p: "persist_status env (with_pending [] b) t2 = (e, b1, t1)"
      using assms(1) True r by (auto simp: drop_abandoned_def pending_def managed_def Let_def)
    obtain l2 where l2: "t1 = t2 @ l2" "fst ` set l2 \<subseteq> kube_calls"
        "e = None \<longrightarrow> gb_Status b1 = gb_Status (with_pending [] b)" using persist_trace [OF p] by blast
    then show ?thesis using l1 True
      by (intro exI [of _ "l1 @ l2"]) (auto simp: with_pending_def managed_def)
  qed
qed

lemma reserve_trace:
  assumes "reserve_alias env b alias tr = (e, b1, t1)"
  shows "\<exists>new. t1 = tr @ new \<and> fst ` set new \<subseteq> kube_calls
     \<and> (e = None \<longrightarrow> bst_PendingGlobalAlias (gb_Status b1) = alias
          \<and> bst_ManagedGlobalAlias (gb_Status b1) = bst_ManagedGlobalAlias (gb_Status b)
          \<and> (bst_PendingGlobalAlias (gb_Status b) = alias
             \<or> (\<exists>s. (StatusUpdate s, Succeeded) \<in> set new \<and> bst_PendingGlobalAlias (gb_Status s) = alias)))"
proof (cases "bst_PendingGlobalAlias (gb_Status b) = alias")
  case True
  then show ?thesis using assms by (auto simp: reserve_alias_def)
next
  case False
  then have p: "persist_status env (with_pending alias b) tr = (e, b1, t1)" using assms by (simp add: reserve_alias_def)
  obtain new s where "t1 = tr @ new" "fst ` set new \<subseteq> kube_calls" "e = None \<longrightarrow> gb_Status b1 = gb_Status (with_pending alias b)"
      "e = None \<longrightarrow> (StatusUpdate s, Succeeded) \<in> set new \<and> gb_Status s = gb_Status (with_pending alias b)"
    using persist_trace [OF p] by blast
  then show ?thesis by (intro exI [of _ new]) (auto simp: with_pending_def intro: exI [of _ s])
qed

lemma add_global_trace:
  assumes "add_global env i alias current tr = (e, t1)"
  shows "\<exists>new. t1 = tr @ new
     \<and> fst ` set new \<subseteq> {AddBucketAlias (global_alias i alias), GetBucketInfo (by_alias alias)}
     \<and> (e = None \<longrightarrow> alias_secured env i alias current tr new)"
proof (cases "alias \<in> set current")
  case True
  then show ?thesis using assms by (auto simp: add_global_def alias_secured_def)
next
  case False
  let ?add = "AddBucketAlias (global_alias i alias)" and ?get = "GetBucketInfo (by_alias alias)"
  obtain a t2 where a: "call_bucket env ?add tr = (a, t2)" by force
  then have t2: "t2 = tr @ [(?add, api_outcome (error_of a))]" by (auto simp: call_defs)
  show ?thesis
  proof (cases a)
    case (Inr k)
    then show ?thesis using assms False a t2 by (auto simp: add_global_def alias_secured_def)
  next
    case (Inl x)
    show ?thesis
    proof (cases "IsConflict (ce_API x)")
      case False': False
      then show ?thesis using assms False a t2 Inl by (auto simp: add_global_def)
    next
      case True
      obtain g t3 where g: "call_bucket env ?get t2 = (g, t3)" by force
      then have t3: "t3 = t2 @ [(?get, api_outcome (error_of g))]" "be_Bucket env t2 ?get = g" by (auto simp: call_defs)
      have e: "t1 = t3" "e = None \<longrightarrow> (\<exists>k. g = Inr k \<and> bk_ID k = i)"
        using assms False a Inl True g by (auto simp: add_global_def split: sum.splits if_splits)
      have "alias_secured env i alias current tr [(?add, api_outcome (error_of a)), (?get, api_outcome (error_of g))]"
        if "e = None"
        using that e(2) t2 t3(2) unfolding alias_secured_def
        by (intro disjI2 exI [of _ "[(?add, api_outcome (error_of a))]"]) auto
      then show ?thesis using e(1) t2 t3(1)
        by (intro exI [of _ "[(?add, api_outcome (error_of a)), (?get, api_outcome (error_of g))]"]) auto
    qed
  qed
qed

lemma retire_trace:
  assumes "retire_previous env b i alias current tr = (e, t1)"
  shows "\<exists>new. t1 = tr @ new \<and> fst ` set new \<subseteq>
      (if bst_ManagedGlobalAlias (gb_Status b) \<notin> {[], alias}
       then {RemoveBucketAlias (global_alias i (bst_ManagedGlobalAlias (gb_Status b)))} else {})"
  using assms by (auto simp: retire_previous_def Let_def split: if_splits dest!: remove_global_trace)

lemma reserve_phase_trace:
  assumes "reserve_phase env b i alias current tr = (e, b1, t1)" "alias \<noteq> []"
  defines "pending \<equiv> bst_PendingGlobalAlias (gb_Status b)" and "managed \<equiv> bst_ManagedGlobalAlias (gb_Status b)"
  shows "\<exists>new. t1 = tr @ new
     \<and> fst ` set new \<subseteq> kube_calls \<union> (if pending \<notin> {[], alias, managed} then {RemoveBucketAlias (global_alias i pending)} else {})
     \<and> (e = None \<longrightarrow> bst_ManagedGlobalAlias (gb_Status b1) = managed \<and> bst_PendingGlobalAlias (gb_Status b1) = alias
          \<and> (pending = alias \<or> (\<exists>s. (StatusUpdate s, Succeeded) \<in> set new \<and> bst_PendingGlobalAlias (gb_Status s) = alias)))"
proof -
  obtain e0 b0 t0 where s1: "drop_abandoned env b i alias current tr = (e0, b0, t0)" by (metis prod_cases3)
  obtain l1 where l1: "t0 = tr @ l1"
      "fst ` set l1 \<subseteq> kube_calls \<union> (if pending \<notin> {[], alias, managed} then {RemoveBucketAlias (global_alias i pending)} else {})"
      "e0 = None \<longrightarrow> bst_ManagedGlobalAlias (gb_Status b0) = managed
         \<and> (bst_PendingGlobalAlias (gb_Status b0) = alias \<longrightarrow> pending = alias \<or> alias = [])"
    using drop_abandoned_trace [OF s1] unfolding pending_def managed_def by blast
  show ?thesis
  proof (cases e0)
    case (Some x)
    then have "t1 = t0" "e = Some x" using assms(1) s1 by (auto simp: reserve_phase_def)
    then show ?thesis using l1(1,2) by (intro exI [of _ l1]) simp
  next
    case None
    then have s2: "reserve_alias env b0 alias t0 = (e, b1, t1)" using assms(1) s1 by (simp add: reserve_phase_def)
    obtain l2 where l2: "t1 = t0 @ l2" "fst ` set l2 \<subseteq> kube_calls"
        "e = None \<longrightarrow> bst_PendingGlobalAlias (gb_Status b1) = alias
           \<and> bst_ManagedGlobalAlias (gb_Status b1) = bst_ManagedGlobalAlias (gb_Status b0)
           \<and> (bst_PendingGlobalAlias (gb_Status b0) = alias
              \<or> (\<exists>s. (StatusUpdate s, Succeeded) \<in> set l2 \<and> bst_PendingGlobalAlias (gb_Status s) = alias))"
      using reserve_trace [OF s2] by blast
    have "fst ` set (l1 @ l2) \<subseteq> kube_calls \<union> (if pending \<notin> {[], alias, managed} then {RemoveBucketAlias (global_alias i pending)} else {})"
      using l1(2) l2(2) by auto
    then show ?thesis using l1(1,3) l2(1,3) None assms(2)
      by (intro exI [of _ "l1 @ l2"]) (simp only: set_append Un_iff simp_thms append_assoc, blast)
  qed
qed

lemma complete_phase_trace:
  assumes "complete_phase env b i alias current tr = (e, b1, t1)"
    and "bst_PendingGlobalAlias (gb_Status b) = alias" "alias \<noteq> []"
  shows "\<exists>new. t1 = tr @ new
     \<and> fst ` set new \<subseteq> kube_calls \<union> (if bst_ManagedGlobalAlias (gb_Status b) \<notin> {[], alias}
          then {RemoveBucketAlias (global_alias i (bst_ManagedGlobalAlias (gb_Status b)))} else {})
     \<and> (e = None \<longrightarrow> bst_ManagedGlobalAlias (gb_Status b1) = alias \<and> bst_PendingGlobalAlias (gb_Status b1) = [])"
proof -
  obtain e4 t4 where s4: "retire_previous env b i alias current tr = (e4, t4)" by force
  obtain l4 where l4: "t4 = tr @ l4" "fst ` set l4 \<subseteq> (if bst_ManagedGlobalAlias (gb_Status b) \<notin> {[], alias}
      then {RemoveBucketAlias (global_alias i (bst_ManagedGlobalAlias (gb_Status b)))} else {})"
    using retire_trace [OF s4] by blast
  show ?thesis
  proof (cases e4)
    case (Some x)
    then have "t1 = t4" "e = Some x" using assms(1) s4 by (auto simp: complete_phase_def)
    then show ?thesis using l4 by auto
  next
    case None
    then have s5: "persist_status env (with_managed alias b) t4 = (e, b1, t1)"
      using assms s4 by (simp add: complete_phase_def)
    obtain l5 where l5: "t1 = t4 @ l5" "fst ` set l5 \<subseteq> kube_calls"
        "e = None \<longrightarrow> gb_Status b1 = gb_Status (with_managed alias b)" using persist_trace [OF s5] by blast
    then show ?thesis using l4 by (intro exI [of _ "l4 @ l5"]) (auto simp: with_managed_def)
  qed
qed

text \<open>
  C33: Renaming a bucket never leaves it without its alias.  Whatever the services answer, a
  reconcile of the global alias runs in three phases.  First only the status is written and, at most,
  an abandoned reservation removed; then the wanted alias is added, which happens only after the
  status that reserves it was persisted; and only when that alias is known to belong to the bucket is
  the alias managed before removed and the new one recorded.  No other alias is ever removed, and
  success leaves the wanted alias in place and recorded as managed.
\<close>

theorem global_alias_handover:
  assumes run: "reconcileGlobalAlias env b i alias current tr = (r, b', tr')" and ne: "alias \<noteq> []"
  shows "\<exists>p1 p2 p3. tr' = tr @ p1 @ p2 @ p3
     \<and> fst ` set p1 \<subseteq> kube_calls \<union>
         (if bst_PendingGlobalAlias (gb_Status b) \<notin> {[], alias, bst_ManagedGlobalAlias (gb_Status b)}
          then {RemoveBucketAlias (global_alias i (bst_PendingGlobalAlias (gb_Status b)))} else {})
     \<and> fst ` set p2 \<subseteq> {AddBucketAlias (global_alias i alias), GetBucketInfo (by_alias alias)}
     \<and> fst ` set p3 \<subseteq> kube_calls \<union>
         (if bst_ManagedGlobalAlias (gb_Status b) \<notin> {[], alias}
          then {RemoveBucketAlias (global_alias i (bst_ManagedGlobalAlias (gb_Status b)))} else {})
     \<and> (p2 \<noteq> [] \<longrightarrow> bst_PendingGlobalAlias (gb_Status b) = alias
          \<or> (\<exists>s. (StatusUpdate s, Succeeded) \<in> set p1 \<and> bst_PendingGlobalAlias (gb_Status s) = alias))
     \<and> (p3 \<noteq> [] \<or> r = None \<longrightarrow> alias_secured env i alias current (tr @ p1) p2)
     \<and> (r = None \<longrightarrow> bst_ManagedGlobalAlias (gb_Status b') = alias \<and> bst_PendingGlobalAlias (gb_Status b') = [])"
    (is "\<exists>p1 p2 p3. ?goal p1 p2 p3")
proof -
  let ?pending = "bst_PendingGlobalAlias (gb_Status b)" and ?managed = "bst_ManagedGlobalAlias (gb_Status b)"
  obtain e1 b1 t1 where s1: "reserve_phase env b i alias current tr = (e1, b1, t1)" by (metis prod_cases3)
  obtain l1 where l1: "t1 = tr @ l1"
      "fst ` set l1 \<subseteq> kube_calls \<union> (if ?pending \<notin> {[], alias, ?managed} then {RemoveBucketAlias (global_alias i ?pending)} else {})"
      "e1 = None \<longrightarrow> bst_ManagedGlobalAlias (gb_Status b1) = ?managed \<and> bst_PendingGlobalAlias (gb_Status b1) = alias
         \<and> (?pending = alias \<or> (\<exists>s. (StatusUpdate s, Succeeded) \<in> set l1 \<and> bst_PendingGlobalAlias (gb_Status s) = alias))"
    using reserve_phase_trace [OF s1 ne] by blast
  show ?thesis
  proof (cases e1)
    case (Some x)
    then have "tr' = t1" "r = Some x" using run s1 by (auto simp: reconcileGlobalAlias_def)
    then have "?goal l1 [] []" using l1 by simp
    then show ?thesis by (intro exI)
  next
    case e1: None
    obtain e2 t2 where s2: "add_global env i alias current t1 = (e2, t2)" by force
    obtain l2 where l2: "t2 = t1 @ l2"
        "fst ` set l2 \<subseteq> {AddBucketAlias (global_alias i alias), GetBucketInfo (by_alias alias)}"
        "e2 = None \<longrightarrow> alias_secured env i alias current t1 l2" using add_global_trace [OF s2] by blast
    show ?thesis
    proof (cases e2)
      case (Some x)
      then have "tr' = t2" "r = Some x" using run s1 e1 s2 by (auto simp: reconcileGlobalAlias_def)
      then have "?goal l1 l2 []" using l1 l2 e1 by simp
      then show ?thesis by (intro exI)
    next
      case e2: None
      then have s3: "complete_phase env b1 i alias current t2 = (r, b', tr')"
        using run s1 e1 s2 by (simp add: reconcileGlobalAlias_def)
      have m: "bst_ManagedGlobalAlias (gb_Status b1) = ?managed" "bst_PendingGlobalAlias (gb_Status b1) = alias"
        using l1(3) e1 by simp_all
      obtain l3 where l3: "tr' = t2 @ l3"
          "fst ` set l3 \<subseteq> kube_calls \<union> (if ?managed \<notin> {[], alias} then {RemoveBucketAlias (global_alias i ?managed)} else {})"
          "r = None \<longrightarrow> bst_ManagedGlobalAlias (gb_Status b') = alias \<and> bst_PendingGlobalAlias (gb_Status b') = []"
        using complete_phase_trace [OF s3 m(2) ne, unfolded m(1)] by blast
      then have "?goal l1 l2 l3" using l1 l2 e1 e2 by simp
      then show ?thesis by (intro exI)
    qed
  qed
qed

lemma sample_handover:
  "reconcileGlobalAlias (sample_service sample_remote)
     (sample_bucket\<lparr>gb_Status := (gb_Status sample_bucket)\<lparr>bst_ManagedGlobalAlias := ''old''\<rparr>\<rparr>) ''b1'' ''new'' [''old''] []
   = (None, with_managed ''new'' sample_bucket,
      [(StatusUpdate (sample_bucket\<lparr>gb_Status := (gb_Status sample_bucket)\<lparr>bst_ManagedGlobalAlias := ''old'', bst_PendingGlobalAlias := ''new''\<rparr>\<rparr>), Succeeded),
       (AddBucketAlias (global_alias ''b1'' ''new''), Succeeded),
       (RemoveBucketAlias (global_alias ''b1'' ''old''), Succeeded),
       (StatusUpdate (with_managed ''new'' sample_bucket), Succeeded)])"
  by code_simp

theorem global_alias_handover_witness:
  "bst_ManagedGlobalAlias (gb_Status (with_managed ''new'' sample_bucket)) = ''new''"
proof -
  have "''new'' \<noteq> []" by simp
  from global_alias_handover [OF sample_handover this] show ?thesis by (elim exE conjE) simp_all
qed

subsection \<open>The hand-over of local aliases\<close>

lemma fold_update_distinct: "distinct (map fst m) \<Longrightarrow> distinct (map fst (fold (\<lambda>a m. AList.update (f a) a m) xs m))"
  by (induction xs arbitrary: m) (auto simp: distinct_update)

text \<open>The entries of a map from keys to the items they belong to.\<close>

definition own_keys :: "(string, LocalAliasStatus) gomap \<Rightarrow> bool" where
  "own_keys m \<longleftrightarrow> (\<forall>(k, a) \<in> set m. k = alias_key a)"

lemma own_keys_update: "own_keys m \<Longrightarrow> own_keys (AList.update (alias_key a) a m)"
  by (induction m) (auto simp: own_keys_def)

lemma own_keys_map: "own_keys m \<Longrightarrow> map alias_key (map snd m) = map fst m"
  by (induction m) (auto simp: own_keys_def)

lemma merge_map_facts:
  fixes xs :: "LocalAliasStatus list"
  defines "m \<equiv> fold (\<lambda>a m. AList.update (alias_key a) a m) xs []"
  shows "own_keys m" "distinct (map fst m)" "snd ` set m \<subseteq> set xs" "fst ` set m = alias_key ` set xs"
proof -
  have "own_keys (fold (\<lambda>a m. AList.update (alias_key a) a m) xs m0)" if "own_keys m0" for m0
    using that by (induction xs arbitrary: m0) (auto intro: own_keys_update)
  from this [of "[]"] show "own_keys m" unfolding m_def by (simp add: own_keys_def [of "[]"])
  show d: "distinct (map fst m)" unfolding m_def by (rule fold_update_distinct) simp
  have "snd ` set (fold (\<lambda>a m. AList.update (alias_key a) a m) xs m0) \<subseteq> set xs \<union> snd ` set m0" for m0
  proof (induction xs arbitrary: m0)
    case (Cons x xs)
    have "snd ` set (AList.update (alias_key x) x m0) \<subseteq> insert x (snd ` set m0)" by (induction m0) auto
    with Cons [of "AList.update (alias_key x) x m0"]
    have "snd ` set (fold (\<lambda>a m. AList.update (alias_key a) a m) xs (AList.update (alias_key x) x m0))
        \<subseteq> set xs \<union> insert x (snd ` set m0)" by (blast intro: subset_trans)
    then show ?case by (simp only: fold_simps(2) comp_def list.set(2)) blast
  qed simp
  from this [of "[]"] show "snd ` set m \<subseteq> set xs" by (simp add: m_def)
  have "fst ` set (fold (\<lambda>a m. AList.update (alias_key a) a m) xs m0) = alias_key ` set xs \<union> fst ` set m0" for m0
    by (induction xs arbitrary: m0) (auto simp: dom_update)
  from this [of "[]"] show "fst ` set m = alias_key ` set xs" by (simp add: m_def)
qed

lemma set_sortLocal [simp]: "set (sortLocalAliasStatuses xs) = set xs"
  by (simp add: sortLocalAliasStatuses_def)

lemma distinct_sortLocal: "distinct (map f xs) \<Longrightarrow> distinct (map f (sortLocalAliasStatuses xs))"
  by (metis distinct_map_filter mset_map mset_eq_imp_distinct_iff mset_sort sortLocalAliasStatuses_def)

interpretation local_aliases: reservation_merge alias_key "\<lambda>a. las_KeyID a \<noteq> [] \<and> las_Alias a \<noteq> []" mergeLocalAliasStatuses
proof
  fix xs ys :: "LocalAliasStatus list" and x
  let ?xs = "filter (\<lambda>a. las_KeyID a \<noteq> [] \<and> las_Alias a \<noteq> []) (xs @ ys)"
  note f = merge_map_facts [of ?xs]
  have "alias_key ` snd ` set (fold (\<lambda>a m. AList.update (alias_key a) a m) ?xs []) = alias_key ` set ?xs"
    using f(4) own_keys_map [OF f(1)] by (metis list.set_map)
  then show "alias_key ` set (mergeLocalAliasStatuses xs ys)
      = alias_key ` {x \<in> set xs \<union> set ys. las_KeyID x \<noteq> [] \<and> las_Alias x \<noteq> []}"
    by (simp add: mergeLocalAliasStatuses_def) (rule arg_cong [where f = "(`) alias_key"], auto)
  show "distinct (map alias_key (mergeLocalAliasStatuses xs ys))"
    unfolding mergeLocalAliasStatuses_def
    by (rule distinct_sortLocal) (simp only: own_keys_map [OF f(1)] f(2))
  show "x \<in> set (mergeLocalAliasStatuses xs ys) \<Longrightarrow> las_KeyID x \<noteq> [] \<and> las_Alias x \<noteq> []"
    using f(3) by (auto simp: mergeLocalAliasStatuses_def)
qed

text \<open>The local alias is known to belong to the bucket.\<close>

definition local_secured :: "bucket_env \<Rightarrow> string \<Rightarrow> LocalAliasStatus \<Rightarrow> trace \<Rightarrow> trace \<Rightarrow> bool" where
  "local_secured env i a tr l \<longleftrightarrow>
     (AddBucketAlias (local_alias i (las_KeyID a) (las_Alias a)), Succeeded) \<in> set l
     \<or> (\<exists>p k. prefix (p @ [(GetBucketInfo (by_id i), Succeeded)]) l \<and> be_Bucket env (tr @ p) (GetBucketInfo (by_id i)) = Inr k
          \<and> bk_ID k = i \<and> bucketHasLocalAlias (bk_Keys k) (las_KeyID a) (las_Alias a))"

lemma local_secured_more: "local_secured env i a tr l \<Longrightarrow> local_secured env i a tr (l @ m)"
  unfolding local_secured_def by (metis Un_iff prefix_prefix set_append)

lemma local_secured_later: "local_secured env i a (tr @ l) m \<Longrightarrow> local_secured env i a tr (l @ m)"
  unfolding local_secured_def
  by (elim disjE exE conjE) (auto intro: exI [of _ "l @ _"])

lemma add_local_trace:
  assumes "add_local env i a s tr = (r, t1)"
  shows "\<exists>new. t1 = tr @ new \<and> fst ` set new \<subseteq> {AddBucketAlias (local_alias i (las_KeyID a) (las_Alias a)), GetBucketInfo (by_id i)}
     \<and> (\<not> isl r \<longrightarrow> local_secured env i a tr new)"
proof -
  let ?add = "AddBucketAlias (local_alias i (las_KeyID a) (las_Alias a))" and ?get = "GetBucketInfo (by_id i)"
  obtain c t2 where c: "call_bucket env ?add tr = (c, t2)" by force
  then have t2: "t2 = tr @ [(?add, api_outcome (error_of c))]" by (auto simp: call_defs)
  consider k where "c = Inr k" | e where "c = Inl e" "\<not> IsConflict (ce_API e)" | e where "c = Inl e" "IsConflict (ce_API e)"
    by (cases c) auto
  then show ?thesis
  proof cases
    case 1
    then show ?thesis using assms c t2 by (auto simp: add_local_def local_secured_def)
  next
    case 2
    then show ?thesis using assms c t2 by (auto simp: add_local_def)
  next
    case 3
    obtain g t3 where g: "call_bucket env ?get t2 = (g, t3)" by force
    then have t3: "t3 = t2 @ [(?get, api_outcome (error_of g))]" "be_Bucket env t2 ?get = g" by (auto simp: call_defs)
    have e: "t1 = t3" "\<not> isl r \<longrightarrow> (\<exists>k. g = Inr k \<and> bk_ID k = i \<and> bucketHasLocalAlias (bk_Keys k) (las_KeyID a) (las_Alias a))"
      using assms c 3 g by (auto simp: add_local_def split: sum.splits if_splits)
    have "local_secured env i a tr [(?add, api_outcome (error_of c)), (?get, api_outcome (error_of g))]" if "\<not> isl r"
      using that e(2) t2 t3(2) unfolding local_secured_def
      by (intro disjI2 exI [of _ "[(?add, api_outcome (error_of c))]"]) auto
    then show ?thesis using e(1) t2 t3(1)
      by (intro exI [of _ "[(?add, api_outcome (error_of c)), (?get, api_outcome (error_of g))]"]) auto
  qed
qed

definition local_adds :: "string \<Rightarrow> LocalAliasStatus list \<Rightarrow> bucket_call set" where
  "local_adds i as = insert (GetBucketInfo (by_id i)) ((\<lambda>a. AddBucketAlias (local_alias i (las_KeyID a) (las_Alias a))) ` set as)"

lemma add_locals_trace:
  assumes "add_locals env i as s tr = (r, t1)"
  shows "\<exists>new. t1 = tr @ new \<and> fst ` set new \<subseteq> local_adds i as \<and> (\<not> isl r \<longrightarrow> (\<forall>a \<in> set as. local_secured env i a tr new))"
  using assms
proof (induction as arbitrary: s tr)
  case Nil
  then show ?case by (auto simp: local_adds_def)
next
  case (Cons a as)
  obtain q t2 where q: "add_local env i a s tr = (q, t2)" by force
  obtain l1 where l1: "t2 = tr @ l1" "fst ` set l1 \<subseteq> {AddBucketAlias (local_alias i (las_KeyID a) (las_Alias a)), GetBucketInfo (by_id i)}"
      "\<not> isl q \<longrightarrow> local_secured env i a tr l1" using add_local_trace [OF q] by blast
  show ?case
  proof (cases q)
    case (Inl e)
    then show ?thesis using Cons.prems q l1 by (intro exI [of _ l1]) (auto simp: local_adds_def)
  next
    case (Inr s')
    then have "add_locals env i as s' t2 = (r, t1)" using Cons.prems q by simp
    then obtain l2 where l2: "t1 = t2 @ l2" "fst ` set l2 \<subseteq> local_adds i as" "\<not> isl r \<longrightarrow> (\<forall>a \<in> set as. local_secured env i a t2 l2)"
      using Cons.IH by blast
    have "\<forall>x \<in> set (a # as). local_secured env i x tr (l1 @ l2)" if "\<not> isl r"
      using l1(1,3) l2(3) Inr that by (auto intro: local_secured_more local_secured_later)
    then show ?thesis using l1(1,2) l2(1,2) by (intro exI [of _ "l1 @ l2"]) (auto simp: local_adds_def)
  qed
qed

definition local_removals :: "string \<Rightarrow> (string, LocalAliasStatus) gomap \<Rightarrow> LocalAliasStatus list \<Rightarrow> bucket_call set" where
  "local_removals i desired ps =
     {RemoveBucketAlias (local_alias i (las_KeyID p) (las_Alias p)) |p. p \<in> set ps \<and> \<not> gomap_has desired (alias_key p)}"

lemma remove_locals_trace:
  assumes "remove_locals env i desired keys ps s tr = (r, t1)"
  shows "\<exists>new. t1 = tr @ new \<and> fst ` set new \<subseteq> local_removals i desired ps"
  using assms
proof (induction env i desired keys ps s tr rule: remove_locals.induct)
  case (1 env i desired keys s tr)
  then show ?case by simp
next
  case (2 env i desired keys p ps s tr)
  have mono: "local_removals i desired ps \<subseteq> local_removals i desired (p # ps)" by (auto simp: local_removals_def)
  show ?case
  proof (cases "gomap_has desired (alias_key p) \<or> \<not> bucketHasLocalAlias keys (las_KeyID p) (las_Alias p)")
    case True
    then have "remove_locals env i desired keys ps s tr = (r, t1)" using "2.prems" by simp
    then obtain new where "t1 = tr @ new" "fst ` set new \<subseteq> local_removals i desired ps" using "2.IH"(1) [OF True] by blast
    then show ?thesis using mono by blast
  next
    case False
    let ?c = "RemoveBucketAlias (local_alias i (las_KeyID p) (las_Alias p))"
    obtain c t2 where c: "call_bucket env ?c tr = (c, t2)" by force
    then have t2: "t2 = tr @ [(?c, api_outcome (error_of c))]" by (auto simp: call_defs)
    have own: "?c \<in> local_removals i desired (p # ps)" using False by (auto simp: local_removals_def)
    have "t1 = t2 \<or> (\<exists>new. t1 = t2 @ new \<and> fst ` set new \<subseteq> local_removals i desired ps)"
      using "2.prems" False c "2.IH"(2,3) [OF False c [symmetric]] by (cases c) (auto split: if_splits)
    then show ?thesis using t2 own mono by auto
  qed
qed

lemma local_desired_facts:
  assumes "local_desired env b tr ls acc = Inr desired" "own_keys acc"
  shows "own_keys desired"
  using assms by (induction ls arbitrary: acc) (auto simp: Let_def own_keys_update split: sum.splits if_splits)

lemma own_keys_dom: "own_keys m \<Longrightarrow> fst ` set m = alias_key ` snd ` set m"
  using own_keys_map [of m] by (metis list.set_map)

lemma record_locals_trace:
  assumes "record_locals env as b tr = (e, b1, t1)"
  shows "\<exists>new. t1 = tr @ new \<and> fst ` set new \<subseteq> kube_calls \<and> (e = None \<longrightarrow> bst_ManagedLocalAliases (gb_Status b1) = as
     \<and> (bst_ManagedLocalAliases (gb_Status b) = as \<or> (\<exists>s. (StatusUpdate s, Succeeded) \<in> set new \<and> bst_ManagedLocalAliases (gb_Status s) = as)))"
proof (cases "bst_ManagedLocalAliases (gb_Status b) = as")
  case True
  then show ?thesis using assms by (auto simp: record_locals_def)
next
  case False
  then have p: "persist_status env (with_locals as b) tr = (e, b1, t1)" using assms by (simp add: record_locals_def)
  obtain new s where "t1 = tr @ new" "fst ` set new \<subseteq> kube_calls" "e = None \<longrightarrow> gb_Status b1 = gb_Status (with_locals as b)"
      "e = None \<longrightarrow> (StatusUpdate s, Succeeded) \<in> set new \<and> gb_Status s = gb_Status (with_locals as b)"
    using persist_trace [OF p] by blast
  then show ?thesis by (intro exI [of _ new]) (auto simp: with_locals_def intro: exI [of _ s])
qed

text \<open>
  Local aliases follow the same protocol: the wanted aliases are recorded together with the managed
  ones, then added; only when every wanted alias is known to belong to the bucket are aliases removed,
  and only such that were managed before and are not wanted any more.
\<close>

lemma local_alias_handover:
  assumes "reconcileLocalAliases env b i keys tr = (r, b', tr')"
    and "local_desired env b tr (bs_LocalAliases (gb_Spec b)) [] = Inr desired"
  shows "\<exists>p1 p2 p3. tr' = tr @ p1 @ p2 @ p3 \<and> fst ` set p1 \<subseteq> kube_calls
     \<and> fst ` set p2 \<subseteq> local_adds i (map snd desired)
     \<and> fst ` set p3 \<subseteq> kube_calls \<union> local_removals i desired
         (mergeLocalAliasStatuses (bst_ManagedLocalAliases (gb_Status b)) (sortLocalAliasStatuses (map snd desired)))
     \<and> (p3 \<noteq> [] \<longrightarrow> (\<forall>a \<in> snd ` set desired. local_secured env i a (tr @ p1) p2))
     \<and> (\<not> isl r \<longrightarrow> bst_ManagedLocalAliases (gb_Status b') = sortLocalAliasStatuses (map snd desired))"
    (is "\<exists>p1 p2 p3. ?goal p1 p2 p3")
proof -
  let ?managed = "sortLocalAliasStatuses (map snd desired)"
  let ?reserved = "mergeLocalAliasStatuses (bst_ManagedLocalAliases (gb_Status b)) ?managed"
  obtain e1 b1 t1 where s1: "record_locals env ?reserved b tr = (e1, b1, t1)" by (metis prod_cases3)
  obtain l1 where l1: "t1 = tr @ l1" "fst ` set l1 \<subseteq> kube_calls" "e1 = None \<longrightarrow> bst_ManagedLocalAliases (gb_Status b1) = ?reserved"
    using record_locals_trace [OF s1] by blast
  show ?thesis
  proof (cases e1)
    case (Some x)
    then have "tr' = t1" "isl r" using assms s1 by (auto simp: reconcileLocalAliases_def)
    then have "?goal l1 [] []" using l1 by simp
    then show ?thesis by (intro exI)
  next
    case e1: None
    obtain q2 t2 where s2: "add_locals env i (map snd desired) None t1 = (q2, t2)" by force
    obtain l2 where l2: "t2 = t1 @ l2" "fst ` set l2 \<subseteq> local_adds i (map snd desired)"
        "\<not> isl q2 \<longrightarrow> (\<forall>a \<in> set (map snd desired). local_secured env i a t1 l2)" using add_locals_trace [OF s2] by blast
    show ?thesis
    proof (cases q2)
      case (Inl x)
      then have "tr' = t2" "isl r" using assms s1 e1 s2 by (auto simp: reconcileLocalAliases_def)
      then have "?goal l1 l2 []" using l1 l2 by simp
      then show ?thesis by (intro exI)
    next
      case (Inr s)
      obtain q3 t3 where s3: "remove_locals env i desired keys (bst_ManagedLocalAliases (gb_Status b1)) s t2 = (q3, t3)" by force
      obtain l3 where l3: "t3 = t2 @ l3" "fst ` set l3 \<subseteq> local_removals i desired ?reserved"
        using remove_locals_trace [OF s3] l1(3) e1 by auto
      have sec: "\<forall>a \<in> snd ` set desired. local_secured env i a (tr @ l1) l2" using l2(3) l1(1) Inr by simp
      show ?thesis
      proof (cases q3)
        case (Inl x)
        then have "tr' = t3" "isl r" using assms s1 e1 s2 Inr s3 by (auto simp: reconcileLocalAliases_def)
        then have "?goal l1 l2 l3" using l1 l2(1,2) l3 sec by auto
        then show ?thesis by (intro exI)
      next
        case (Inr s')
        obtain e4 b4 t4 where s4: "record_locals env ?managed b1 t3 = (e4, b4, t4)" by (metis prod_cases3)
        obtain l4 where l4: "t4 = t3 @ l4" "fst ` set l4 \<subseteq> kube_calls" "e4 = None \<longrightarrow> bst_ManagedLocalAliases (gb_Status b4) = ?managed"
          using record_locals_trace [OF s4] by blast
        have "tr' = t4" "\<not> isl r \<longrightarrow> e4 = None \<and> b' = b4"
          using assms s1 e1 s2 \<open>q2 = Inr s\<close> s3 Inr s4 by (auto simp: reconcileLocalAliases_def split: option.splits)
        then have "?goal l1 l2 (l3 @ l4)" using l1 l2(1,2) l3 l4 sec by auto
        then show ?thesis by (intro exI)
      qed
    qed
  qed
qed

text \<open>What a removal is about: an alias recorded as managed before the run.\<close>

lemma local_removals_managed:
  assumes "RemoveBucketAlias (local_alias i k a) \<in> local_removals i desired (mergeLocalAliasStatuses old (sortLocalAliasStatuses (map snd desired)))"
    and "own_keys desired"
  shows "\<exists>p. las_KeyID p = k \<and> las_Alias p = a \<and> alias_key p \<in> alias_key ` set old - fst ` set desired"
proof -
  obtain p where p: "las_KeyID p = k" "las_Alias p = a" "\<not> gomap_has desired (alias_key p)"
      "p \<in> set (mergeLocalAliasStatuses old (sortLocalAliasStatuses (map snd desired)))"
    using assms(1) by (auto simp: local_removals_def local_alias_def)
  have "alias_key p \<in> alias_key ` set old \<union> alias_key ` snd ` set desired"
    using local_aliases.only [OF p(4)] by simp
  moreover have "alias_key p \<notin> fst ` set desired" using p(3) by (simp add: map_of_eq_None_iff)
  ultimately show ?thesis using p(1,2) own_keys_dom [OF assms(2)] by auto
qed

end
