(* ===== verification/BucketLifecycle.thy ===== *)
theory BucketLifecycle
  imports BucketModel
begin

text \<open>
  Bucket lifecycle rules (internal/controller/garagebucket_lifecycle.go) and their admission
  (validateLifecycle and the defaulting of api/v1beta1/garagebucket_webhook.go).

  Dates cross the Admin API as RFC3339 text.  The layouts of package time are the parameter
  \<open>tf\<close>; what the code relies on is that parsing a rendered whole second gives that second back
  (\<open>time_format_ok\<close>).
\<close>

record time_format =
  tf_ParseNano :: "string \<Rightarrow> instant option"
  tf_Parse :: "string \<Rightarrow> instant option"
  tf_Format :: "instant \<Rightarrow> string"

definition truncate_second :: "instant \<Rightarrow> instant" where
  "truncate_second t = t - t mod time_Second"

subsection \<open>Admission\<close>

definition day_nanos :: int where "day_nanos = 86400 * time_Second"

datatype lifecycle_invalid =
    RuleIDRequired | RuleIDDuplicate | RuleStatusInvalid | RuleWithoutAction | RuleTwoExpirations
  | ExpirationDaysTooSmall | ExpirationDateNotMidnight | AbortDaysTooSmall
  | SizeGreaterThanNegative | SizeLessThanTooSmall | SizeRangeEmpty

definition validate_filter :: "LifecycleFilter \<Rightarrow> lifecycle_invalid option" where
  "validate_filter f =
     (let gt = lf_ObjectSizeGreaterThan f; lt = lf_ObjectSizeLessThan f in
      first_of (fail_if (case gt of Some g \<Rightarrow> g < 0 | None \<Rightarrow> False) SizeGreaterThanNegative)
     (first_of (fail_if (case lt of Some l \<Rightarrow> l < 1 | None \<Rightarrow> False) SizeLessThanTooSmall)
               (fail_if (case (gt, lt) of (Some g, Some l) \<Rightarrow> g \<ge> l | _ \<Rightarrow> False) SizeRangeEmpty)))"

definition validate_rule :: "string list \<Rightarrow> LifecycleRule \<Rightarrow> lifecycle_invalid option" where
  "validate_rule seen rule =
     (let days = lr_ExpirationDays rule; date = lr_ExpirationDate rule;
          abort = lr_AbortIncompleteMultipartUploadDays rule in
      first_of (fail_if (lr_ID rule = []) RuleIDRequired)
     (first_of (fail_if (lr_ID rule \<in> set seen) RuleIDDuplicate)
     (first_of (fail_if (lr_Status rule \<notin> {[], ''Enabled'', ''Disabled''}) RuleStatusInvalid)
     (first_of (fail_if (days = None \<and> date = None \<and> abort = None) RuleWithoutAction)
     (first_of (fail_if (days \<noteq> None \<and> date \<noteq> None) RuleTwoExpirations)
     (first_of (fail_if (case days of Some d \<Rightarrow> d < 1 | None \<Rightarrow> False) ExpirationDaysTooSmall)
     (first_of (fail_if (case date of Some t \<Rightarrow> t mod day_nanos \<noteq> 0 | None \<Rightarrow> False) ExpirationDateNotMidnight)
     (first_of (fail_if (case abort of Some d \<Rightarrow> d < 1 | None \<Rightarrow> False) AbortDaysTooSmall)
               (case lr_Filter rule of None \<Rightarrow> None | Some f \<Rightarrow> validate_filter f)))))))))"

fun validate_rules :: "string list \<Rightarrow> LifecycleRule list \<Rightarrow> lifecycle_invalid option" where
  "validate_rules seen [] = None"
| "validate_rules seen (rule # rules) =
     first_of (validate_rule seen rule) (validate_rules (lr_ID rule # seen) rules)"

definition validateLifecycle :: "BucketLifecycle option \<Rightarrow> lifecycle_invalid option" where
  "validateLifecycle lifecycle =
     (case lifecycle of None \<Rightarrow> None | Some l \<Rightarrow> validate_rules [] (bl_Rules l))"

definition lifecycleStatusEnabled :: string where "lifecycleStatusEnabled = ''Enabled''"

definition default_lifecycle :: "BucketLifecycle option \<Rightarrow> BucketLifecycle option" where
  "default_lifecycle lifecycle =
     map_option (bl_Rules_update (map (\<lambda>r. if lr_Status r = [] then r\<lparr>lr_Status := ''Enabled''\<rparr> else r))) lifecycle"

subsection \<open>Building the Admin API rules\<close>

definition adminRuleID :: "AdminLifecycleRule \<Rightarrow> string" where
  "adminRuleID r = (case ar_ID r of Some i \<Rightarrow> i | None \<Rightarrow> [])"

definition buildAdminLifecycleFilter :: "LifecycleFilter \<Rightarrow> AdminLifecycleFilter option" where
  "buildAdminLifecycleFilter f =
     (let prefix = (if lf_Prefix f \<noteq> [] then Some (lf_Prefix f) else None);
          gt = lf_ObjectSizeGreaterThan f; lt = lf_ObjectSizeLessThan f;
          flat = AdminLifecycleFilter None prefix gt lt;
          n = length (filter id [prefix \<noteq> None, gt \<noteq> None, lt \<noteq> None])
      in if n = 0 then None
         else if n = 1 then Some flat
         else Some (AdminLifecycleFilter (Some flat) None None None))"

definition buildAdminLifecycleRule :: "time_format \<Rightarrow> LifecycleRule \<Rightarrow> AdminLifecycleRule" where
  "buildAdminLifecycleRule tf r =
     \<lparr>ar_ID = Some (lr_ID r),
      ar_Status = (if lr_Status r = [] then lifecycleStatusEnabled else lr_Status r),
      ar_Filter = (case lr_Filter r of None \<Rightarrow> None | Some f \<Rightarrow> buildAdminLifecycleFilter f),
      ar_Expiration =
        (case lr_ExpirationDays r of
           Some days \<Rightarrow> Some \<lparr>ae_Days = Some days, ae_Date = None\<rparr>
         | None \<Rightarrow> (case lr_ExpirationDate r of
                      Some date \<Rightarrow> Some \<lparr>ae_Days = None, ae_Date = Some (tf_Format tf date)\<rparr>
                    | None \<Rightarrow> None)),
      ar_AbortIncompleteMultipartUpload =
        map_option (\<lambda>d. \<lparr>aa_DaysAfterInitiation = d\<rparr>) (lr_AbortIncompleteMultipartUploadDays r)\<rparr>"

definition buildAdminLifecycleRules :: "time_format \<Rightarrow> BucketLifecycle option \<Rightarrow> AdminLifecycleRule list" where
  "buildAdminLifecycleRules tf spec =
     (case spec of
        None \<Rightarrow> []
      | Some l \<Rightarrow> if bl_Rules l = [] then []
                  else sort_key adminRuleID (map (buildAdminLifecycleRule tf) (bl_Rules l)))"

subsection \<open>Comparison up to the Admin API's spelling\<close>

record adminLifecycleCanonRule =
  cr_ID :: string
  cr_Status :: string
  cr_Prefix :: "string option"
  cr_ObjectSizeGreaterThan :: "int option"
  cr_ObjectSizeLessThan :: "int option"
  cr_ExpirationDays :: "int option"
  cr_ExpirationDate :: "string option"
  cr_ExpirationDateRaw :: "string option"
  cr_AbortIncompleteMultipartUploadDays :: "int option"

definition parseLifecycleDate :: "time_format \<Rightarrow> string \<Rightarrow> instant option" where
  "parseLifecycleDate tf s =
     (case tf_ParseNano tf s of Some t \<Rightarrow> Some t | None \<Rightarrow> tf_Parse tf s)"

definition effectiveLifecycleFilter :: "AdminLifecycleFilter \<Rightarrow> AdminLifecycleFilter" where
  "effectiveLifecycleFilter f = (case af_And f of Some inner \<Rightarrow> inner | None \<Rightarrow> f)"

definition canonicalizeAdminRule :: "time_format \<Rightarrow> AdminLifecycleRule \<Rightarrow> adminLifecycleCanonRule" where
  "canonicalizeAdminRule tf r =
     (let ef = map_option effectiveLifecycleFilter (ar_Filter r);
          text = (case ar_Expiration r of None \<Rightarrow> None | Some x \<Rightarrow> ae_Date x);
          parsed = (case text of None \<Rightarrow> None | Some s \<Rightarrow> parseLifecycleDate tf s)
      in \<lparr>cr_ID = adminRuleID r, cr_Status = ar_Status r,
          cr_Prefix = (case ef of None \<Rightarrow> None | Some f \<Rightarrow> af_Prefix f),
          cr_ObjectSizeGreaterThan = (case ef of None \<Rightarrow> None | Some f \<Rightarrow> af_ObjectSizeGreaterThan f),
          cr_ObjectSizeLessThan = (case ef of None \<Rightarrow> None | Some f \<Rightarrow> af_ObjectSizeLessThan f),
          cr_ExpirationDays = (case ar_Expiration r of None \<Rightarrow> None | Some x \<Rightarrow> ae_Days x),
          cr_ExpirationDate = map_option (\<lambda>t. tf_Format tf (truncate_second t)) parsed,
          cr_ExpirationDateRaw = (if parsed = None then text else None),
          cr_AbortIncompleteMultipartUploadDays =
            map_option aa_DaysAfterInitiation (ar_AbortIncompleteMultipartUpload r)\<rparr>)"

definition canonicalizeAdminLifecycle ::
    "time_format \<Rightarrow> AdminLifecycleRule list \<Rightarrow> adminLifecycleCanonRule list" where
  "canonicalizeAdminLifecycle tf rules = sort_key cr_ID (map (canonicalizeAdminRule tf) rules)"

definition adminLifecycleEqual ::
    "time_format \<Rightarrow> AdminLifecycleRule list \<Rightarrow> AdminLifecycleRule list \<Rightarrow> bool" where
  "adminLifecycleEqual tf a b =
     (if length a \<noteq> length b then False
      else canonicalizeAdminLifecycle tf a = canonicalizeAdminLifecycle tf b)"

subsection \<open>Reconciling the rules of a bucket\<close>

definition GetBucketLifecycle ::
    "bucket_env \<Rightarrow> string \<Rightarrow> trace \<Rightarrow> (call_error + AdminLifecycleRule list) \<times> trace" where
  "GetBucketLifecycle env bucketID tr =
     (case call_bucket env (GetBucketInfo \<lparr>gbr_ID = bucketID, gbr_GlobalAlias = []\<rparr>) tr of
        (Inl e, t1) \<Rightarrow> (Inl e, t1)
      | (Inr b, t1) \<Rightarrow> (Inr (bk_LifecycleRules b), t1))"

datatype lifecycle_error =
    CurrentUnreadable call_error
  | LifecycleWriteFailed call_error
  | VerifyUnreadable call_error
  | WriteIgnored
  | ReadbackMismatch nat nat

definition verifyLifecycleApplied ::
    "time_format \<Rightarrow> bucket_env \<Rightarrow> string \<Rightarrow> AdminLifecycleRule list \<Rightarrow> trace \<Rightarrow> lifecycle_error option \<times> trace" where
  "verifyLifecycleApplied tf env bucketID desired tr =
     (case GetBucketLifecycle env bucketID tr of
        (Inl e, t1) \<Rightarrow> (Some (VerifyUnreadable e), t1)
      | (Inr applied, t1) \<Rightarrow>
          if adminLifecycleEqual tf applied desired then (None, t1)
          else if length applied = 0 \<and> length desired > 0 then (Some WriteIgnored, t1)
          else (Some (ReadbackMismatch (length desired) (length applied)), t1))"

definition applyLifecycle ::
    "time_format \<Rightarrow> bucket_env \<Rightarrow> GarageBucket \<Rightarrow> string \<Rightarrow> trace \<Rightarrow> lifecycle_error option \<times> trace" where
  "applyLifecycle tf env bucket bucketID tr =
     (let desired = buildAdminLifecycleRules tf (bs_Lifecycle (gb_Spec bucket)) in
      case GetBucketLifecycle env bucketID tr of
        (Inl e, t1) \<Rightarrow> (Some (CurrentUnreadable e), t1)
      | (Inr current, t1) \<Rightarrow>
          if length desired = 0 \<and> length current = 0 then (None, t1)
          else if length desired = 0 then
            (case call_unit env (SetBucketLifecycle bucketID []) t1 of
               (Some e, t2) \<Rightarrow> (Some (LifecycleWriteFailed e), t2)
             | (None, t2) \<Rightarrow> verifyLifecycleApplied tf env bucketID desired t2)
          else if adminLifecycleEqual tf current desired then (None, t1)
          else
            (case call_unit env (SetBucketLifecycle bucketID desired) t1 of
               (Some e, t2) \<Rightarrow> (Some (LifecycleWriteFailed e), t2)
             | (None, t2) \<Rightarrow> verifyLifecycleApplied tf env bucketID desired t2))"

definition lifecycleRulesStatusFromSpec :: "BucketLifecycle option \<Rightarrow> LifecycleRuleStatus list" where
  "lifecycleRulesStatusFromSpec spec =
     (case spec of
        None \<Rightarrow> []
      | Some l \<Rightarrow> if bl_Rules l = [] then []
                  else sort_key lrs_ID (map (\<lambda>r. \<lparr>lrs_ID = lr_ID r,
                         lrs_Status = (if lr_Status r = [] then lifecycleStatusEnabled else lr_Status r)\<rparr>) (bl_Rules l)))"

definition ConditionLifecycleConfigured :: string where
  "ConditionLifecycleConfigured = ''LifecycleConfigured''"

definition shouldSkipLifecycle :: "GarageBucket \<Rightarrow> bool" where
  "shouldSkipLifecycle bucket =
     (let specEmpty = (case bs_Lifecycle (gb_Spec bucket) of None \<Rightarrow> True | Some l \<Rightarrow> bl_Rules l = []);
          statusEmpty = (bst_LifecycleRules (gb_Status bucket) = [])
      in specEmpty \<and> statusEmpty
         \<and> FindStatusCondition (bst_Conditions (gb_Status bucket)) ConditionLifecycleConfigured = None)"

definition RemoveStatusCondition :: "Condition list \<Rightarrow> string \<Rightarrow> Condition list" where
  "RemoveStatusCondition cs t = filter (\<lambda>c. cond_Type c \<noteq> t) cs"

definition set_bucket_condition ::
    "instant \<Rightarrow> string \<Rightarrow> string \<Rightarrow> string \<Rightarrow> GarageBucket \<Rightarrow> GarageBucket" where
  "set_bucket_condition now type status reason b =
     b\<lparr>gb_Status := (gb_Status b)\<lparr>bst_Conditions := replace_condition
         \<lparr>cond_Type = type, cond_Status = status, cond_Reason = reason,
          cond_ObservedGeneration = gb_Generation b, cond_LastTransitionTime = now\<rparr>
         (bst_Conditions (gb_Status b))\<rparr>\<rparr>"

definition reconcileLifecycleSafe ::
    "time_format \<Rightarrow> bucket_env \<Rightarrow> instant \<Rightarrow> GarageBucket \<Rightarrow> string \<Rightarrow> trace \<Rightarrow> GarageBucket \<times> trace" where
  "reconcileLifecycleSafe tf env now bucket bucketID tr =
     (if shouldSkipLifecycle bucket then
        (bucket\<lparr>gb_Status := (gb_Status bucket)
            \<lparr>bst_Conditions := RemoveStatusCondition (bst_Conditions (gb_Status bucket)) ConditionLifecycleConfigured,
             bst_LifecycleRules := []\<rparr>\<rparr>, tr)
      else (case applyLifecycle tf env bucket bucketID tr of
              (Some e, t1) \<Rightarrow>
                (set_bucket_condition now ConditionLifecycleConfigured ConditionFalse ''ApplyFailed'' bucket, t1)
            | (None, t1) \<Rightarrow>
                (set_bucket_condition now ConditionLifecycleConfigured ConditionTrue ''Applied''
                   (bucket\<lparr>gb_Status := (gb_Status bucket)
                      \<lparr>bst_LifecycleRules := lifecycleRulesStatusFromSpec (bs_Lifecycle (gb_Spec bucket))\<rparr>\<rparr>), t1)))"

subsection \<open>What the rules mean\<close>

text \<open>
  The objects a declared filter selects, and those an Admin API filter selects: an And block is the
  conjunction of its conditions.
\<close>

definition spec_selects :: "LifecycleFilter option \<Rightarrow> string \<Rightarrow> int \<Rightarrow> bool" where
  "spec_selects f key bytes =
     (case f of
        None \<Rightarrow> True
      | Some f \<Rightarrow> prefix (lf_Prefix f) key
          \<and> (case lf_ObjectSizeGreaterThan f of Some g \<Rightarrow> bytes > g | None \<Rightarrow> True)
          \<and> (case lf_ObjectSizeLessThan f of Some l \<Rightarrow> bytes < l | None \<Rightarrow> True))"

fun admin_selects :: "AdminLifecycleFilter \<Rightarrow> string \<Rightarrow> int \<Rightarrow> bool" where
  "admin_selects (AdminLifecycleFilter inner p gt lt) key bytes \<longleftrightarrow>
     (case inner of Some f \<Rightarrow> admin_selects f key bytes | None \<Rightarrow> True)
     \<and> (case p of Some q \<Rightarrow> prefix q key | None \<Rightarrow> True)
     \<and> (case gt of Some g \<Rightarrow> bytes > g | None \<Rightarrow> True)
     \<and> (case lt of Some l \<Rightarrow> bytes < l | None \<Rightarrow> True)"

definition flat_conditions :: "AdminLifecycleFilter \<Rightarrow> nat" where
  "flat_conditions f = length (filter id [af_Prefix f \<noteq> None, af_ObjectSizeGreaterThan f \<noteq> None, af_ObjectSizeLessThan f \<noteq> None])"

text \<open>The shape Garage accepts: one flat condition, or two and more under And with nothing beside it.\<close>

definition garage_accepts_filter :: "AdminLifecycleFilter \<Rightarrow> bool" where
  "garage_accepts_filter f =
     (case af_And f of
        None \<Rightarrow> flat_conditions f = 1
      | Some inner \<Rightarrow> flat_conditions f = 0 \<and> af_And inner = None \<and> flat_conditions inner \<ge> 2)"

definition flat_filter :: "LifecycleFilter \<Rightarrow> AdminLifecycleFilter" where
  "flat_filter f = AdminLifecycleFilter None (if lf_Prefix f \<noteq> [] then Some (lf_Prefix f) else None)
     (lf_ObjectSizeGreaterThan f) (lf_ObjectSizeLessThan f)"

lemma build_filter_flat:
  "buildAdminLifecycleFilter f =
     (if flat_conditions (flat_filter f) = 0 then None
      else if flat_conditions (flat_filter f) = 1 then Some (flat_filter f)
      else Some (AdminLifecycleFilter (Some (flat_filter f)) None None None))"
  by (simp add: buildAdminLifecycleFilter_def flat_conditions_def flat_filter_def Let_def)

lemma no_flat_conditions:
  "flat_conditions (flat_filter f) = 0 \<longleftrightarrow>
     lf_Prefix f = [] \<and> lf_ObjectSizeGreaterThan f = None \<and> lf_ObjectSizeLessThan f = None"
  by (auto simp: flat_conditions_def flat_filter_def)

lemma flat_selects: "admin_selects (flat_filter f) key bytes = spec_selects (Some f) key bytes"
  by (simp add: flat_filter_def spec_selects_def)

lemma build_filter_effective:
  "buildAdminLifecycleFilter f = Some a \<Longrightarrow> effectiveLifecycleFilter a = flat_filter f"
  by (auto simp: build_filter_flat effectiveLifecycleFilter_def flat_filter_def split: if_splits)

lemma flat_And [simp]: "af_And (flat_filter f) = None"
  by (simp add: flat_filter_def)

text \<open>
  C34: A lifecycle rule sent to Garage means what the user declared.  For every declared rule the
  Admin API filter the operator builds selects exactly the objects the declared filter selects (every
  object when it has no criterion), and it has the shape Garage accepts: one flat condition, or
  several under a single And block with no condition beside it.
\<close>

theorem built_filter_means_spec:
  "(case ar_Filter (buildAdminLifecycleRule tf r) of None \<Rightarrow> True | Some a \<Rightarrow> admin_selects a key bytes)
     = spec_selects (lr_Filter r) key bytes
   \<and> pred_option garage_accepts_filter (ar_Filter (buildAdminLifecycleRule tf r))"
proof (cases "lr_Filter r")
  case None
  then show ?thesis by (simp add: buildAdminLifecycleRule_def spec_selects_def)
next
  case (Some f)
  have e: "ar_Filter (buildAdminLifecycleRule tf r) = buildAdminLifecycleFilter f"
    by (simp add: buildAdminLifecycleRule_def Some)
  consider "flat_conditions (flat_filter f) = 0" | "flat_conditions (flat_filter f) = 1"
    | "flat_conditions (flat_filter f) \<ge> 2" by linarith
  then show ?thesis
  proof cases
    case 1
    then show ?thesis by (simp add: e Some build_filter_flat) (simp add: no_flat_conditions spec_selects_def)
  next
    case 2
    then show ?thesis by (simp add: e Some build_filter_flat flat_selects garage_accepts_filter_def)
  next
    case 3
    then have "buildAdminLifecycleFilter f = Some (AdminLifecycleFilter (Some (flat_filter f)) None None None)"
      by (simp add: build_filter_flat)
    with 3 show ?thesis
      by (simp add: e Some flat_selects garage_accepts_filter_def flat_conditions_def [of "AdminLifecycleFilter _ _ _ _"])
  qed
qed

subsection \<open>Comparison and read-back\<close>

definition time_format_ok :: "time_format \<Rightarrow> bool" where
  "time_format_ok tf \<longleftrightarrow> (\<forall>t. t mod time_Second = 0 \<longrightarrow> parseLifecycleDate tf (tf_Format tf t) = Some t)"

text \<open>The canonical form of a rule that was built from a declaration, read off the declaration.\<close>

definition declared_canon :: "time_format \<Rightarrow> LifecycleRule \<Rightarrow> adminLifecycleCanonRule" where
  "declared_canon tf r =
     \<lparr>cr_ID = lr_ID r, cr_Status = (if lr_Status r = [] then lifecycleStatusEnabled else lr_Status r),
      cr_Prefix = (case lr_Filter r of Some f \<Rightarrow> if lf_Prefix f \<noteq> [] then Some (lf_Prefix f) else None | None \<Rightarrow> None),
      cr_ObjectSizeGreaterThan = (case lr_Filter r of Some f \<Rightarrow> lf_ObjectSizeGreaterThan f | None \<Rightarrow> None),
      cr_ObjectSizeLessThan = (case lr_Filter r of Some f \<Rightarrow> lf_ObjectSizeLessThan f | None \<Rightarrow> None),
      cr_ExpirationDays = lr_ExpirationDays r,
      cr_ExpirationDate = (if lr_ExpirationDays r = None then map_option (tf_Format tf) (lr_ExpirationDate r) else None),
      cr_ExpirationDateRaw = None,
      cr_AbortIncompleteMultipartUploadDays = lr_AbortIncompleteMultipartUploadDays r\<rparr>"

lemma whole_second_day: "t mod day_nanos = 0 \<Longrightarrow> t mod time_Second = 0"
  unfolding day_nanos_def by (metis mod_mod_cancel mod_0 dvd_triv_right)

lemma effective_conditions:
  fixes f :: LifecycleFilter
  defines "ef \<equiv> map_option effectiveLifecycleFilter (buildAdminLifecycleFilter f)"
  shows "(case ef of None \<Rightarrow> None | Some a \<Rightarrow> af_Prefix a) = (if lf_Prefix f \<noteq> [] then Some (lf_Prefix f) else None)"
    and "(case ef of None \<Rightarrow> None | Some a \<Rightarrow> af_ObjectSizeGreaterThan a) = lf_ObjectSizeGreaterThan f"
    and "(case ef of None \<Rightarrow> None | Some a \<Rightarrow> af_ObjectSizeLessThan a) = lf_ObjectSizeLessThan f"
proof -
  have "ef = None \<and> lf_Prefix f = [] \<and> lf_ObjectSizeGreaterThan f = None \<and> lf_ObjectSizeLessThan f = None
      \<or> ef = Some (flat_filter f)"
  proof (cases "buildAdminLifecycleFilter f")
    case None
    then have "flat_conditions (flat_filter f) = 0" by (simp add: build_filter_flat split: if_splits)
    with None show ?thesis by (simp add: ef_def no_flat_conditions)
  next
    case (Some a)
    then show ?thesis by (simp add: ef_def build_filter_effective)
  qed
  then show "(case ef of None \<Rightarrow> None | Some a \<Rightarrow> af_Prefix a) = (if lf_Prefix f \<noteq> [] then Some (lf_Prefix f) else None)"
    "(case ef of None \<Rightarrow> None | Some a \<Rightarrow> af_ObjectSizeGreaterThan a) = lf_ObjectSizeGreaterThan f"
    "(case ef of None \<Rightarrow> None | Some a \<Rightarrow> af_ObjectSizeLessThan a) = lf_ObjectSizeLessThan f"
    by (auto simp: flat_filter_def)
qed

lemma canon_build:
  assumes "time_format_ok tf" "\<forall>d. lr_ExpirationDate r = Some d \<longrightarrow> d mod time_Second = 0"
  shows "canonicalizeAdminRule tf (buildAdminLifecycleRule tf r) = declared_canon tf r"
proof -
  have d: "parseLifecycleDate tf (tf_Format tf d) = Some d" "truncate_second d = d"
    if "lr_ExpirationDate r = Some d" for d
    using that assms by (auto simp: time_format_ok_def truncate_second_def)
  have f: "cr_Prefix (canonicalizeAdminRule tf (buildAdminLifecycleRule tf r)) = cr_Prefix (declared_canon tf r)"
    "cr_ObjectSizeGreaterThan (canonicalizeAdminRule tf (buildAdminLifecycleRule tf r))
       = cr_ObjectSizeGreaterThan (declared_canon tf r)"
    "cr_ObjectSizeLessThan (canonicalizeAdminRule tf (buildAdminLifecycleRule tf r))
       = cr_ObjectSizeLessThan (declared_canon tf r)"
    by (cases "lr_Filter r"; simp add: canonicalizeAdminRule_def buildAdminLifecycleRule_def declared_canon_def Let_def
          effective_conditions del: case_map_option)+
  have x: "cr_ExpirationDays (canonicalizeAdminRule tf (buildAdminLifecycleRule tf r)) = cr_ExpirationDays (declared_canon tf r)"
    "cr_ExpirationDate (canonicalizeAdminRule tf (buildAdminLifecycleRule tf r)) = cr_ExpirationDate (declared_canon tf r)"
    "cr_ExpirationDateRaw (canonicalizeAdminRule tf (buildAdminLifecycleRule tf r)) = cr_ExpirationDateRaw (declared_canon tf r)"
    using d by (auto simp: canonicalizeAdminRule_def buildAdminLifecycleRule_def declared_canon_def Let_def split: option.split)
  show ?thesis
    by (rule adminLifecycleCanonRule.equality)
       (simp_all only: f x, simp_all add: canonicalizeAdminRule_def buildAdminLifecycleRule_def declared_canon_def
          adminRuleID_def Let_def option.map_comp o_def option.map_ident)
qed

lemma adminRuleID_build [simp]: "adminRuleID (buildAdminLifecycleRule tf r) = lr_ID r"
  by (simp add: adminRuleID_def buildAdminLifecycleRule_def)

lemma cr_ID_canon [simp]: "cr_ID (canonicalizeAdminRule tf r) = adminRuleID r"
  by (simp add: canonicalizeAdminRule_def Let_def)

text \<open>When no two rules share an identifier, equality means the same canonical rules.\<close>

lemma sort_key_eq_iff_mset:
  assumes "distinct (map f xs)"
  shows "sort_key f xs = sort_key f ys \<longleftrightarrow> mset xs = mset ys"
proof
  assume "sort_key f xs = sort_key f ys"
  then show "mset xs = mset ys" by (metis mset_sort)
next
  assume m: "mset xs = mset ys"
  then have "inj_on f (set xs)" using assms by (simp add: distinct_map)
  with m show "sort_key f xs = sort_key f ys"
    by (intro sort_key_inj_key_eq) simp_all
qed

lemma lifecycle_equal_iff:
  assumes "distinct (map adminRuleID a)"
  shows "adminLifecycleEqual tf a b \<longleftrightarrow>
    mset (map (canonicalizeAdminRule tf) a) = mset (map (canonicalizeAdminRule tf) b)"
proof -
  have "distinct (map cr_ID (map (canonicalizeAdminRule tf) a))" using assms by (simp add: o_def)
  note e = sort_key_eq_iff_mset [OF this]
  have "length a = length b" if "mset (map (canonicalizeAdminRule tf) a) = mset (map (canonicalizeAdminRule tf) b)"
    using mset_eq_length [OF that] by simp
  then show ?thesis
    by (auto simp: adminLifecycleEqual_def canonicalizeAdminLifecycle_def e)
qed

definition declared_rules :: "GarageBucket \<Rightarrow> LifecycleRule list" where
  "declared_rules b = (case bs_Lifecycle (gb_Spec b) of None \<Rightarrow> [] | Some l \<Rightarrow> bl_Rules l)"

lemma validate_rules_None:
  "validate_rules seen rules = None \<Longrightarrow>
     distinct (map lr_ID rules) \<and> set (map lr_ID rules) \<inter> set seen = {}
     \<and> (\<forall>r \<in> set rules. \<forall>d. lr_ExpirationDate r = Some d \<longrightarrow> d mod time_Second = 0)"
  by (induction seen rules rule: validate_rules.induct)
     (auto simp: validate_rule_def Let_def intro: whole_second_day)

lemma validated_rules:
  assumes "validateLifecycle (bs_Lifecycle (gb_Spec b)) = None"
  shows "distinct (map lr_ID (declared_rules b))"
    and "r \<in> set (declared_rules b) \<Longrightarrow> \<forall>d. lr_ExpirationDate r = Some d \<longrightarrow> d mod time_Second = 0"
  using assms
  by (auto simp: declared_rules_def validateLifecycle_def split: option.splits dest!: validate_rules_None)

lemma build_rules_eq:
  "buildAdminLifecycleRules tf (bs_Lifecycle (gb_Spec b)) =
     sort_key adminRuleID (map (buildAdminLifecycleRule tf) (declared_rules b))"
  by (simp add: buildAdminLifecycleRules_def declared_rules_def split: option.split)

lemma length_build_rules [simp]:
  "length (buildAdminLifecycleRules tf (bs_Lifecycle (gb_Spec b))) = length (declared_rules b)"
  by (simp add: build_rules_eq)

lemma build_rules_Nil [simp]:
  "buildAdminLifecycleRules tf (bs_Lifecycle (gb_Spec b)) = [] \<longleftrightarrow> declared_rules b = []"
  by (metis length_build_rules length_0_conv)

lemma adminLifecycleEqual_sym: "adminLifecycleEqual tf a b = adminLifecycleEqual tf b a"
  by (auto simp: adminLifecycleEqual_def)

lemma equal_to_built_iff:
  assumes "validateLifecycle (bs_Lifecycle (gb_Spec b)) = None" "time_format_ok tf"
  shows "adminLifecycleEqual tf current (buildAdminLifecycleRules tf (bs_Lifecycle (gb_Spec b))) \<longleftrightarrow>
    mset (map (canonicalizeAdminRule tf) current) = mset (map (declared_canon tf) (declared_rules b))"
proof -
  let ?built = "buildAdminLifecycleRules tf (bs_Lifecycle (gb_Spec b))"
  have "mset (map adminRuleID ?built) = mset (map lr_ID (declared_rules b))"
    by (simp add: build_rules_eq image_mset.compositionality o_def)
  then have "distinct (map adminRuleID ?built)"
    using validated_rules(1) [OF assms(1)] by (metis mset_eq_imp_distinct_iff)
  moreover have "image_mset (canonicalizeAdminRule tf) (mset ?built) = image_mset (declared_canon tf) (mset (declared_rules b))"
    using canon_build [OF assms(2) validated_rules(2) [OF assms(1)]]
    by (auto simp: build_rules_eq image_mset.compositionality o_def intro!: image_mset_cong)
  ultimately show ?thesis
    by (subst adminLifecycleEqual_sym) (simp add: lifecycle_equal_iff eq_commute)
qed

abbreviation read_rules :: "string \<Rightarrow> bucket_call" where
  "read_rules bucketID \<equiv> GetBucketInfo \<lparr>gbr_ID = bucketID, gbr_GlobalAlias = []\<rparr>"

text \<open>The last call read the bucket and found the rules \<open>rules\<close>.\<close>

definition last_read_found :: "bucket_env \<Rightarrow> string \<Rightarrow> trace \<Rightarrow> AdminLifecycleRule list \<Rightarrow> bool" where
  "last_read_found env bucketID tr rules \<longleftrightarrow>
     (\<exists>before bk. tr = before @ [(read_rules bucketID, Succeeded)]
        \<and> be_Bucket env before (read_rules bucketID) = Inr bk \<and> rules = bk_LifecycleRules bk)"

lemma GetBucketLifecycle_cases:
  "GetBucketLifecycle env bucketID tr = (r, t1) \<Longrightarrow>
     (case r of Inl e \<Rightarrow> t1 = tr @ [(read_rules bucketID, api_outcome (Some e))]
      | Inr rules \<Rightarrow> t1 = tr @ [(read_rules bucketID, Succeeded)] \<and> last_read_found env bucketID t1 rules)"
  by (auto simp: GetBucketLifecycle_def call_defs last_read_found_def split: sum.splits prod.splits)

lemma verifyLifecycleApplied_cases:
  assumes "verifyLifecycleApplied tf env bucketID desired tr = (e, t1)"
  shows "\<exists>ok. t1 = tr @ [(read_rules bucketID, ok)]"
    and "e = None \<Longrightarrow> \<exists>rules. last_read_found env bucketID t1 rules \<and> adminLifecycleEqual tf rules desired"
  using assms
  by (auto simp: verifyLifecycleApplied_def split: prod.splits sum.splits if_splits dest!: GetBucketLifecycle_cases)

text \<open>What applyLifecycle calls, and what it has seen when it reports success.\<close>

lemma applyLifecycle_cases:
  assumes "applyLifecycle tf env b bucketID tr = (e, t1)"
  defines "desired \<equiv> buildAdminLifecycleRules tf (bs_Lifecycle (gb_Spec b))"
  shows "\<exists>r w v. t1 = tr @ [(read_rules bucketID, r)] @ map (Pair (SetBucketLifecycle bucketID desired)) w
            @ map (Pair (read_rules bucketID)) v \<and> length w \<le> 1 \<and> length v \<le> length w"
    and "e = None \<Longrightarrow> \<exists>rules. last_read_found env bucketID t1 rules \<and> adminLifecycleEqual tf rules desired"
proof -
  obtain g t0 where g: "GetBucketLifecycle env bucketID tr = (g, t0)" by force
  note gc = GetBucketLifecycle_cases [OF g]
  have nil: "adminLifecycleEqual tf [] []" by (simp add: adminLifecycleEqual_def)
  have "(\<exists>r w v. t1 = tr @ [(read_rules bucketID, r)] @ map (Pair (SetBucketLifecycle bucketID desired)) w
            @ map (Pair (read_rules bucketID)) v \<and> length w \<le> 1 \<and> length v \<le> length w)
      \<and> (e = None \<longrightarrow> (\<exists>rules. last_read_found env bucketID t1 rules \<and> adminLifecycleEqual tf rules desired))"
  proof (cases g)
    case (Inl x)
    then have "t1 = tr @ [(read_rules bucketID, api_outcome (Some x))]" "e \<noteq> None"
      using assms(1) gc by (auto simp: applyLifecycle_def g)
    then show ?thesis by (intro conjI exI [of _ "api_outcome (Some x)"] exI [of _ "[]"]) auto
  next
    case (Inr current)
    then have t0: "t0 = tr @ [(read_rules bucketID, Succeeded)]" "last_read_found env bucketID t0 current" using gc by auto
    show ?thesis
    proof (cases "desired = [] \<and> current = [] \<or> desired \<noteq> [] \<and> adminLifecycleEqual tf current desired")
      case True
      then have "t1 = t0" "e = None" "adminLifecycleEqual tf current desired"
        using assms(1) g Inr nil by (auto simp: applyLifecycle_def desired_def [symmetric])
      with t0 show ?thesis by (intro conjI exI [of _ Succeeded] exI [of _ "[]"]) auto
    next
      case False
      obtain s t2 where s: "call_unit env (SetBucketLifecycle bucketID desired) t0 = (s, t2)" by force
      then have t2: "t2 = t0 @ [(SetBucketLifecycle bucketID desired, api_outcome s)]" by (auto simp: call_defs)
      have ap: "(e, t1) = (case s of Some x \<Rightarrow> (Some (LifecycleWriteFailed x), t2)
           | None \<Rightarrow> verifyLifecycleApplied tf env bucketID desired t2)"
        using assms(1) False g Inr s
        by (auto simp: applyLifecycle_def desired_def [symmetric] split: option.splits if_splits)
      show ?thesis
      proof (cases s)
        case (Some x)
        then show ?thesis using ap t2 t0
          by (intro conjI exI [of _ Succeeded] exI [of _ "[api_outcome (Some x)]"] exI [of _ "[]"]) auto
      next
        case None
        then have v: "verifyLifecycleApplied tf env bucketID desired t2 = (e, t1)" using ap by simp
        obtain ok where "t1 = t2 @ [(read_rules bucketID, ok)]" using verifyLifecycleApplied_cases(1) [OF v] by blast
        then show ?thesis using verifyLifecycleApplied_cases(2) [OF v] t0 t2 None
          by (intro conjI exI [of _ Succeeded] exI [of _ "[Succeeded]"] exI [of _ "[ok]"]) auto
      qed
    qed
  qed
  then show "\<exists>r w v. t1 = tr @ [(read_rules bucketID, r)] @ map (Pair (SetBucketLifecycle bucketID desired)) w
            @ map (Pair (read_rules bucketID)) v \<and> length w \<le> 1 \<and> length v \<le> length w"
    and "e = None \<Longrightarrow> \<exists>rules. last_read_found env bucketID t1 rules \<and> adminLifecycleEqual tf rules desired"
    by blast+
qed

lemma lifecycle_condition:
  "\<exists>c. FindStatusCondition (bst_Conditions (gb_Status (set_bucket_condition now ty s why b))) ty = Some c
     \<and> cond_Status c = s"
  using replace_condition_own [of "\<lparr>cond_Type = ty, cond_Status = s, cond_Reason = why,
      cond_ObservedGeneration = gb_Generation b, cond_LastTransitionTime = now\<rparr>"]
  by (auto simp: set_bucket_condition_def)

text \<open>
  C35: Lifecycle rules are reported as applied only after they were read back.  For every behaviour
  of the Garage service, if the bucket reports LifecycleConfigured as true after a reconcile of
  admitted rules, then the last call read the bucket and the rules it found are, up to the Admin
  API's spelling, exactly the declared ones.  A reconcile only reads the bucket and replaces its rules
  by the declared ones, at most once, whether it succeeds or not.
\<close>

theorem lifecycle_reported_after_readback:
  assumes "reconcileLifecycleSafe tf env now b bucketID tr = (b', tr')" "\<not> shouldSkipLifecycle b"
    and "validateLifecycle (bs_Lifecycle (gb_Spec b)) = None" "time_format_ok tf"
  shows "(\<exists>new. tr' = tr @ new \<and> length (filter (\<lambda>c. fst c \<noteq> read_rules bucketID) new) \<le> 1
           \<and> fst ` set new \<subseteq> {read_rules bucketID,
               SetBucketLifecycle bucketID (buildAdminLifecycleRules tf (bs_Lifecycle (gb_Spec b)))})
       \<and> ((\<exists>c. FindStatusCondition (bst_Conditions (gb_Status b')) ConditionLifecycleConfigured = Some c
            \<and> cond_Status c = ConditionTrue) \<longrightarrow>
          (\<exists>rules. last_read_found env bucketID tr' rules
            \<and> mset (map (canonicalizeAdminRule tf) rules) = mset (map (declared_canon tf) (declared_rules b))))"
proof -
  obtain e where ap: "applyLifecycle tf env b bucketID tr = (e, tr')"
    using assms(1,2) by (auto simp: reconcileLifecycleSafe_def split: prod.splits option.splits)
  obtain r w v where tr': "tr' = tr @ [(read_rules bucketID, r)]
      @ map (Pair (SetBucketLifecycle bucketID (buildAdminLifecycleRules tf (bs_Lifecycle (gb_Spec b))))) w
      @ map (Pair (read_rules bucketID)) v" "length w \<le> 1"
    using applyLifecycle_cases(1) [OF ap] by blast
  have nf: "b' = set_bucket_condition now ConditionLifecycleConfigured ConditionFalse ''ApplyFailed'' b" if "e \<noteq> None"
    using assms(1,2) ap that by (auto simp: reconcileLifecycleSafe_def split: option.splits)
  have "e = None" if "\<exists>c. FindStatusCondition (bst_Conditions (gb_Status b')) ConditionLifecycleConfigured = Some c
            \<and> cond_Status c = ConditionTrue"
  proof (rule ccontr)
    assume "e \<noteq> None"
    with nf that lifecycle_condition [of now ConditionLifecycleConfigured ConditionFalse "''ApplyFailed''" b]
    show False by (auto simp: ConditionFalse_def ConditionTrue_def)
  qed
  moreover have "\<exists>rules. last_read_found env bucketID tr' rules
       \<and> mset (map (canonicalizeAdminRule tf) rules) = mset (map (declared_canon tf) (declared_rules b))" if "e = None"
    using applyLifecycle_cases(2) [OF ap that] by (simp only: equal_to_built_iff [OF assms(3,4)])
  moreover have "length (filter (\<lambda>c. fst c \<noteq> read_rules bucketID) (drop (length tr) tr')) \<le> 1"
    using tr' by (simp add: filter_map o_def)
  moreover have "tr' = tr @ drop (length tr) tr'" using tr' by simp
  moreover have "fst ` set (drop (length tr) tr') \<subseteq> {read_rules bucketID,
      SetBucketLifecycle bucketID (buildAdminLifecycleRules tf (bs_Lifecycle (gb_Spec b)))}"
    using tr' by auto
  ultimately show ?thesis by blast
qed

text \<open>A layout under which the rendering of an instant is a unary numeral, as a concrete \<open>tf\<close>.\<close>

definition unary_time :: time_format where
  "unary_time = \<lparr>tf_ParseNano = (\<lambda>s. None),
     tf_Parse = (\<lambda>s. case s of [] \<Rightarrow> None | c # cs \<Rightarrow> Some (if c = CHR ''-'' then - int (length cs) else int (length cs))),
     tf_Format = (\<lambda>t. (if t < 0 then CHR ''-'' else CHR ''+'') # replicate (nat \<bar>t\<bar>) CHR ''1'')\<rparr>"

lemma unary_time_ok: "time_format_ok unary_time"
  by (simp add: time_format_ok_def unary_time_def parseLifecycleDate_def)

definition sample_rule :: LifecycleRule where
  "sample_rule = \<lparr>lr_ID = ''tmp'', lr_Status = [], lr_Filter = None, lr_ExpirationDays = Some 3,
     lr_ExpirationDate = None, lr_AbortIncompleteMultipartUploadDays = None\<rparr>"

definition sample_lifecycle_bucket :: GarageBucket where
  "sample_lifecycle_bucket = sample_bucket\<lparr>gb_Spec := (gb_Spec sample_bucket)\<lparr>bs_Lifecycle := Some \<lparr>bl_Rules = [sample_rule]\<rparr>\<rparr>\<rparr>"

definition sample_configured :: Bucket where
  "sample_configured = sample_remote\<lparr>bk_LifecycleRules := [buildAdminLifecycleRule unary_time sample_rule]\<rparr>"

lemma sample_lifecycle:
  "reconcileLifecycleSafe unary_time (sample_service sample_configured) 5 sample_lifecycle_bucket ''b1'' []
     = (fst (reconcileLifecycleSafe unary_time (sample_service sample_configured) 5 sample_lifecycle_bucket ''b1'' []),
        [(read_rules ''b1'', Succeeded)])"
  by code_simp

theorem lifecycle_reported_after_readback_witness:
  "\<exists>rules. last_read_found (sample_service sample_configured) ''b1'' [(read_rules ''b1'', Succeeded)] rules
     \<and> mset (map (canonicalizeAdminRule unary_time) rules) = mset (map (declared_canon unary_time) (declared_rules sample_lifecycle_bucket))"
proof -
  have "\<exists>c. FindStatusCondition (bst_Conditions (gb_Status (fst (reconcileLifecycleSafe unary_time
      (sample_service sample_configured) 5 sample_lifecycle_bucket ''b1'' [])))) ConditionLifecycleConfigured = Some c
      \<and> cond_Status c = ConditionTrue"
    by (rule exI [of _ "\<lparr>cond_Type = ''LifecycleConfigured'', cond_Status = ''True'', cond_Reason = ''Applied'',
          cond_ObservedGeneration = 1, cond_LastTransitionTime = 5\<rparr>"]) code_simp
  moreover have "\<not> shouldSkipLifecycle sample_lifecycle_bucket"
    "validateLifecycle (bs_Lifecycle (gb_Spec sample_lifecycle_bucket)) = None" by code_simp+
  ultimately show ?thesis
    using lifecycle_reported_after_readback [OF sample_lifecycle _ _ unary_time_ok] by simp
qed

text \<open>
  A bucket that converged stays so: as long as reading it again gives the same answer, the reconcile
  after a successful one reads the bucket once and writes nothing.
\<close>

definition reads_repeatable :: "bucket_env \<Rightarrow> string \<Rightarrow> bool" where
  "reads_repeatable env bucketID \<longleftrightarrow>
     (\<forall>tr ok. be_Bucket env (tr @ [(read_rules bucketID, ok)]) (read_rules bucketID)
        = be_Bucket env tr (read_rules bucketID))"

lemma lifecycle_converges:
  assumes "applyLifecycle tf env b bucketID tr = (None, t1)" "reads_repeatable env bucketID"
  shows "applyLifecycle tf env b bucketID t1 = (None, t1 @ [(read_rules bucketID, Succeeded)])"
proof -
  let ?desired = "buildAdminLifecycleRules tf (bs_Lifecycle (gb_Spec b))"
  obtain rules where r: "last_read_found env bucketID t1 rules" "adminLifecycleEqual tf rules ?desired"
    using applyLifecycle_cases(2) [OF assms(1)] by blast
  from r(1) obtain t0 bk where t0: "t1 = t0 @ [(read_rules bucketID, Succeeded)]"
      "be_Bucket env t0 (read_rules bucketID) = Inr bk" "rules = bk_LifecycleRules bk"
    unfolding last_read_found_def by blast
  then have "be_Bucket env t1 (read_rules bucketID) = Inr bk"
    using assms(2) by (simp add: reads_repeatable_def)
  moreover have "length rules = length ?desired" using r(2) by (simp add: adminLifecycleEqual_def split: if_splits)
  ultimately show ?thesis using r(2) t0(3)
    by (simp add: applyLifecycle_def GetBucketLifecycle_def call_defs)
qed

text \<open>Defaulting a declaration changes neither its admission nor the rules built from it.\<close>

lemma default_rule_same: "buildAdminLifecycleRule tf (if lr_Status r = [] then r\<lparr>lr_Status := ''Enabled''\<rparr> else r)
    = buildAdminLifecycleRule tf r"
  by (cases "lr_Status r = []") (simp_all add: buildAdminLifecycleRule_def lifecycleStatusEnabled_def split: option.split)

lemma default_lifecycle_build:
  "buildAdminLifecycleRules tf (default_lifecycle l) = buildAdminLifecycleRules tf l"
  by (simp add: buildAdminLifecycleRules_def default_lifecycle_def default_rule_same o_def split: option.split)

lemma default_rules_admitted:
  "validate_rules seen (map (\<lambda>r. if lr_Status r = [] then r\<lparr>lr_Status := ''Enabled''\<rparr> else r) rules)
     = validate_rules seen rules"
  by (induction seen rules rule: validate_rules.induct) (simp_all add: validate_rule_def Let_def)

lemma default_lifecycle_admitted: "validateLifecycle (default_lifecycle l) = validateLifecycle l"
  by (cases l) (simp_all add: validateLifecycle_def default_lifecycle_def default_rules_admitted)

lemma default_lifecycle_idem: "default_lifecycle (default_lifecycle l) = default_lifecycle l"
  by (cases l) (simp_all add: default_lifecycle_def)

end
