(* ===== verification/BucketAdmission.thy ===== *)
theory BucketAdmission
  imports BucketLifecycle
begin

text \<open>
  Admission of a GarageBucket (api/v1beta1/garagebucket_webhook.go and validation_helpers.go):
  defaulting, the validation of a spec that the controller repeats before any remote change, and the
  rules on updates.  The DNS validators of Kubernetes and \<open>net.ParseIP\<close> are parameters.
\<close>

subsection \<open>Defaulting\<close>

definition default_website :: "WebsiteConfig option \<Rightarrow> WebsiteConfig option" where
  "default_website w =
     map_option (\<lambda>c. if wc_Enabled c = Some True \<and> wc_IndexDocument c = [] then c\<lparr>wc_IndexDocument := ''index.html''\<rparr> else c) w"

definition Default :: "GarageBucket \<Rightarrow> GarageBucket" where
  "Default b =
     b\<lparr>gb_Spec := (gb_Spec b)
        \<lparr>bs_GlobalAlias := (if bs_GlobalAlias (gb_Spec b) = [] then gb_Name b else bs_GlobalAlias (gb_Spec b)),
         bs_Website := default_website (bs_Website (gb_Spec b)),
         bs_Lifecycle := default_lifecycle (bs_Lifecycle (gb_Spec b))\<rparr>\<rparr>"

subsection \<open>Validation\<close>

datatype admission_error =
    ClusterRefNameRequired
  | ClusterRefInvalid resolve_error
  | KubeConfigRefUnsupported
  | AliasLength | AliasCharacters | AliasEnds | AliasIsIP | AliasPunycode | AliasReservedSuffix
  | LocalAliasKeyRefInvalid nat
  | LocalAliasInvalid nat admission_error
  | LocalAliasDuplicate nat
  | KeyRefNameRequired nat
  | KeyRefInvalid nat resolve_error
  | KeyRefDuplicate nat
  | KeyPermissionEmpty nat
  | MaxSizeNegative | MaxObjectsNegative
  | LifecycleInvalid lifecycle_invalid
  | ClusterRefImmutable
  | BucketIDImmutable
  | ClusterGrantMissing grant_error
  | KeyGrantMissing nat grant_error

definition ValidateSupportedClusterReference :: "ClusterReference \<Rightarrow> admission_error option" where
  "ValidateSupportedClusterReference ref = fail_if (ref_KubeConfigSecretRef ref) KubeConfigRefUnsupported"

definition ValidateClusterReference :: "kube_env \<Rightarrow> ClusterReference \<Rightarrow> admission_error option" where
  "ValidateClusterReference ke ref =
     first_of (ValidateSupportedClusterReference ref)
       (map_option ClusterRefInvalid (ValidateNamespacedObjectReference ke (ref_Name ref) (ref_Namespace ref)))"

definition effectiveClusterReference :: "ClusterReference \<Rightarrow> string \<Rightarrow> string \<times> string" where
  "effectiveClusterReference ref ns = (ref_Name ref, if ref_Namespace ref = [] then ns else ref_Namespace ref)"

definition clusterReferenceChanged :: "ClusterReference \<Rightarrow> ClusterReference \<Rightarrow> string \<Rightarrow> bool" where
  "clusterReferenceChanged oldRef newRef ns =
     (let (oldName, oldNamespace) = effectiveClusterReference oldRef ns;
          (newName, newNamespace) = effectiveClusterReference newRef ns
      in oldName \<noteq> newName \<or> oldNamespace \<noteq> newNamespace)"

definition alias_char :: "char \<Rightarrow> bool" where
  "alias_char c \<longleftrightarrow> (97 \<le> (of_char c :: nat) \<and> (of_char c :: nat) \<le> 122) \<or> is_digit c \<or> c = CHR ''.'' \<or> c = CHR ''-''"

definition validateGarageBucketAlias :: "(string \<Rightarrow> bool) \<Rightarrow> string \<Rightarrow> admission_error option" where
  "validateGarageBucketAlias parse_ip a =
     first_of (fail_if (length a < 3 \<or> length a > 63) AliasLength)
    (first_of (fail_if (\<not> list_all alias_char a) AliasCharacters)
    (first_of (fail_if (prefix ''.'' a \<or> prefix ''-'' a \<or> suffix ''.'' a \<or> suffix ''-'' a) AliasEnds)
    (first_of (fail_if (parse_ip a) AliasIsIP)
    (first_of (fail_if (prefix ''xn--'' a \<or> Contains a ''.xn--'') AliasPunycode)
              (fail_if (suffix ''-s3alias'' a) AliasReservedSuffix)))))"

fun validate_locals :: "kube_env \<Rightarrow> (string \<Rightarrow> bool) \<Rightarrow> nat \<Rightarrow> string list \<Rightarrow> LocalAlias list \<Rightarrow> admission_error option" where
  "validate_locals ke parse_ip i seen [] = None"
| "validate_locals ke parse_ip i seen (a # as) =
     (let key = la_KeyRef a @ [CHR 0x00] @ la_Alias a in
      first_of (fail_if (\<not> ke_subdomain ke (la_KeyRef a)) (LocalAliasKeyRefInvalid i))
     (first_of (map_option (LocalAliasInvalid i) (validateGarageBucketAlias parse_ip (la_Alias a)))
     (first_of (fail_if (key \<in> set seen) (LocalAliasDuplicate i))
               (validate_locals ke parse_ip (i + 1) (key # seen) as))))"

definition validateLocalAliases :: "kube_env \<Rightarrow> (string \<Rightarrow> bool) \<Rightarrow> LocalAlias list \<Rightarrow> admission_error option" where
  "validateLocalAliases ke parse_ip as = validate_locals ke parse_ip 0 [] as"

definition key_permission_key :: "string \<Rightarrow> bool \<Rightarrow> KeyPermission \<Rightarrow> string" where
  "key_permission_key ns legacy p =
     (if kr_Namespace (kpm_KeyRef p) = [] \<and> \<not> legacy then ns else kr_Namespace (kpm_KeyRef p)) @ ''/'' @ kr_Name (kpm_KeyRef p)"

fun validate_key_permissions ::
    "kube_env \<Rightarrow> string \<Rightarrow> bool \<Rightarrow> nat \<Rightarrow> string list \<Rightarrow> KeyPermission list \<Rightarrow> admission_error option" where
  "validate_key_permissions ke ns legacy i seen [] = None"
| "validate_key_permissions ke ns legacy i seen (p # ps) =
     first_of (fail_if (kr_Name (kpm_KeyRef p) = []) (KeyRefNameRequired i))
    (first_of (if legacy then None else map_option (KeyRefInvalid i)
         (ValidateNamespacedObjectReference ke (kr_Name (kpm_KeyRef p)) (kr_Namespace (kpm_KeyRef p))))
    (first_of (fail_if (key_permission_key ns legacy p \<in> set seen) (KeyRefDuplicate i))
    (first_of (fail_if (\<not> kpm_Read p \<and> \<not> kpm_Write p \<and> \<not> kpm_Owner p) (KeyPermissionEmpty i))
              (validate_key_permissions ke ns legacy (i + 1) (key_permission_key ns legacy p # seen) ps))))"

definition validateKeyPermissions :: "kube_env \<Rightarrow> string \<Rightarrow> KeyPermission list \<Rightarrow> bool \<Rightarrow> admission_error option" where
  "validateKeyPermissions ke ns ps legacy = validate_key_permissions ke ns legacy 0 [] ps"

definition validate_quotas :: "BucketQuotas option \<Rightarrow> admission_error option" where
  "validate_quotas q =
     (case q of
        None \<Rightarrow> None
      | Some q \<Rightarrow> first_of (fail_if (case qt_MaxSize q of Some s \<Rightarrow> s < 0 | None \<Rightarrow> False) MaxSizeNegative)
                    (fail_if (case qt_MaxObjects q of Some n \<Rightarrow> n < 0 | None \<Rightarrow> False) MaxObjectsNegative))"

definition validateGarageBucketSpecWithOptions ::
    "kube_env \<Rightarrow> (string \<Rightarrow> bool) \<Rightarrow> GarageBucket \<Rightarrow> bool \<Rightarrow> admission_error option" where
  "validateGarageBucketSpecWithOptions ke parse_ip b legacy =
     (let s = gb_Spec b; alias = (if bs_GlobalAlias s = [] then gb_Name b else bs_GlobalAlias s) in
      first_of (fail_if (ref_Name (bs_ClusterRef s) = []) ClusterRefNameRequired)
     (first_of (if legacy then None
        else first_of (ValidateClusterReference ke (bs_ClusterRef s))
            (first_of (validateGarageBucketAlias parse_ip alias) (validateLocalAliases ke parse_ip (bs_LocalAliases s))))
     (first_of (validateKeyPermissions ke (gb_Namespace b) (bs_KeyPermissions s) legacy)
     (first_of (if legacy then None else validate_quotas (bs_Quotas s))
               (map_option LifecycleInvalid (validateLifecycle (bs_Lifecycle s)))))))"

definition ValidateGarageBucketSpec :: "kube_env \<Rightarrow> (string \<Rightarrow> bool) \<Rightarrow> GarageBucket \<Rightarrow> admission_error option" where
  "ValidateGarageBucketSpec ke parse_ip b = validateGarageBucketSpecWithOptions ke parse_ip b False"

fun check_key_grants :: "grant_lister \<Rightarrow> GarageBucket \<Rightarrow> nat \<Rightarrow> KeyPermission list \<Rightarrow> admission_error option" where
  "check_key_grants grants b i [] = None"
| "check_key_grants grants b i (p # ps) =
     first_of (map_option (KeyGrantMissing i) (checkReferenceGrant grants garageBucketKind (gb_Namespace b) garageKeyKind
         (if kr_Namespace (kpm_KeyRef p) = [] then gb_Namespace b else kr_Namespace (kpm_KeyRef p)) (kr_Name (kpm_KeyRef p))))
       (check_key_grants grants b (i + 1) ps)"

definition validateGarageBucketWithOptions ::
    "kube_env \<Rightarrow> (string \<Rightarrow> bool) \<Rightarrow> grant_lister \<Rightarrow> GarageBucket \<Rightarrow> bool \<Rightarrow> admission_error option" where
  "validateGarageBucketWithOptions ke parse_ip grants b legacy =
     (let ref = bs_ClusterRef (gb_Spec b); targetNS = (if ref_Namespace ref = [] then gb_Namespace b else ref_Namespace ref) in
      first_of (validateGarageBucketSpecWithOptions ke parse_ip b legacy)
       (if legacy then None
        else first_of (map_option ClusterGrantMissing
               (checkReferenceGrant grants garageBucketKind (gb_Namespace b) garageClusterKind targetNS (ref_Name ref)))
             (check_key_grants grants b 0 (bs_KeyPermissions (gb_Spec b)))))"

definition ValidateCreate :: "kube_env \<Rightarrow> (string \<Rightarrow> bool) \<Rightarrow> grant_lister \<Rightarrow> GarageBucket \<Rightarrow> admission_error option" where
  "ValidateCreate ke parse_ip grants b = validateGarageBucketWithOptions ke parse_ip grants b False"

definition bucket_ValidateUpdate ::
    "kube_env \<Rightarrow> (string \<Rightarrow> bool) \<Rightarrow> grant_lister \<Rightarrow> GarageBucket \<Rightarrow> GarageBucket \<Rightarrow> admission_error option" where
  "bucket_ValidateUpdate ke parse_ip grants oldObj newObj =
     (if clusterReferenceChanged (bs_ClusterRef (gb_Spec oldObj)) (bs_ClusterRef (gb_Spec newObj)) (gb_Namespace newObj)
      then Some ClusterRefImmutable
      else if bst_BucketID (gb_Status oldObj) \<noteq> [] \<and> bs_BucketID (gb_Spec oldObj) \<noteq> bs_BucketID (gb_Spec newObj)
      then Some BucketIDImmutable
      else validateGarageBucketWithOptions ke parse_ip grants newObj (gb_Spec (Default oldObj) = gb_Spec newObj))"

subsection \<open>What admission guarantees\<close>

lemma default_website_idem: "default_website (default_website w) = default_website w"
  by (cases w) (simp_all add: default_website_def)

lemma Default_idem: "Default (Default b) = Default b"
  by (simp add: Default_def default_lifecycle_idem default_website_idem)

text \<open>Defaulting never changes the verdict: it only writes down what validation assumes.\<close>

lemma default_admission:
  "gb_Name b \<noteq> [] \<Longrightarrow>
   validateGarageBucketSpecWithOptions ke parse_ip (Default b) legacy = validateGarageBucketSpecWithOptions ke parse_ip b legacy"
  by (simp add: validateGarageBucketSpecWithOptions_def Default_def default_lifecycle_admitted Let_def)

lemma validate_key_permissions_None:
  "validate_key_permissions ke ns legacy i seen ps = None \<Longrightarrow>
     distinct (map (key_permission_key ns legacy) ps) \<and> set (map (key_permission_key ns legacy) ps) \<inter> set seen = {}
     \<and> (\<forall>p \<in> set ps. kpm_Read p \<or> kpm_Write p \<or> kpm_Owner p)"
  by (induction ke ns legacy i seen ps rule: validate_key_permissions.induct) auto

lemma validate_locals_None:
  "validate_locals ke parse_ip i seen as = None \<Longrightarrow>
     distinct (map (\<lambda>a. la_KeyRef a @ [CHR 0x00] @ la_Alias a) as)
     \<and> set (map (\<lambda>a. la_KeyRef a @ [CHR 0x00] @ la_Alias a) as) \<inter> set seen = {}
     \<and> (\<forall>a \<in> set as. validateGarageBucketAlias parse_ip (la_Alias a) = None)"
  by (induction ke parse_ip i seen as rule: validate_locals.induct) (auto simp: Let_def)

lemma check_key_grants_None:
  "check_key_grants grants b i ps = None \<Longrightarrow> p \<in> set ps \<Longrightarrow>
     checkReferenceGrant grants garageBucketKind (gb_Namespace b) garageKeyKind
         (if kr_Namespace (kpm_KeyRef p) = [] then gb_Namespace b else kr_Namespace (kpm_KeyRef p)) (kr_Name (kpm_KeyRef p)) = None"
  by (induction grants b i ps rule: check_key_grants.induct) auto

text \<open>A reference out of the namespace needs a grant there that names its source and admits its target.\<close>

lemma reference_permitted_iff:
  "checkReferenceGrant grants fk fns tk tns tn = None \<longleftrightarrow>
     fns = tns \<or> (\<exists>gs g. grants tns = Inr gs \<and> g \<in> set gs
       \<and> (\<exists>f \<in> set (rgs_From (rg_Spec g)). rgf_Kind f = fk \<and> rgf_Namespace f = fns)
       \<and> (if rgs_To (rg_Spec g) = [] then tk \<in> {garageClusterKind, garageBucketKind}
          else \<exists>t \<in> set (rgs_To (rg_Spec g)). rgt_Kind t = tk \<and> rgt_Name t \<in> {[], tn}))"
  by (auto simp: checkReferenceGrant_def grantPermits_def list_ex_iff Let_def split: sum.splits if_splits)



end
