(* ===== verification/BucketController.thy ===== *)
theory BucketController
  imports BucketAliases BucketAdmission ResyncProgress
begin

text \<open>
  The GarageBucket reconciler (internal/controller/garagebucket_controller.go): settings, the steps of
  one reconcile, stuck-lookup and decode-error counters, the retain marker of COSI, finalization and
  the handler itself.  Floating-point renderings and \<open>time.ParseDuration\<close> are the parameter \<open>rd\<close>.
\<close>

subsection \<open>Website and quota settings\<close>

definition buildWebsiteAccess :: "WebsiteConfig option \<Rightarrow> Bucket \<Rightarrow> UpdateBucketWebsiteAccess option" where
  "buildWebsiteAccess spec existing =
     (case spec of
        None \<Rightarrow> if bk_WebsiteAccess existing then Some \<lparr>uw_Enabled = False, uw_IndexDocument = [], uw_ErrorDocument = []\<rparr> else None
      | Some w \<Rightarrow>
          let enabled = (wc_Enabled w = Some True);
              indexDoc = (if enabled \<and> wc_IndexDocument w = [] then ''index.html'' else wc_IndexDocument w);
              currentIndex = (case bk_WebsiteConfig existing of Some c \<Rightarrow> awc_IndexDocument c | None \<Rightarrow> []);
              currentError = (case bk_WebsiteConfig existing of Some c \<Rightarrow> awc_ErrorDocument c | None \<Rightarrow> [])
          in if enabled \<noteq> bk_WebsiteAccess existing
                \<or> (enabled \<and> (indexDoc \<noteq> currentIndex \<or> wc_ErrorDocument w \<noteq> currentError))
             then Some \<lparr>uw_Enabled = enabled, uw_IndexDocument = indexDoc, uw_ErrorDocument = wc_ErrorDocument w\<rparr>
             else None)"

definition quotasChanged :: "AdminBucketQuotas option \<Rightarrow> u64 option \<Rightarrow> u64 option \<Rightarrow> bool" where
  "quotasChanged current desiredSize desiredObjects =
     (case current of
        None \<Rightarrow> desiredSize \<noteq> None \<or> desiredObjects \<noteq> None
      | Some c \<Rightarrow>
          if (desiredSize = None) \<noteq> (bq_MaxSize c = None) then True
          else if (case (desiredSize, bq_MaxSize c) of (Some d, Some m) \<Rightarrow> d \<noteq> m | _ \<Rightarrow> False) then True
          else if (desiredObjects = None) \<noteq> (bq_MaxObjects c = None) then True
          else if (case (desiredObjects, bq_MaxObjects c) of (Some d, Some m) \<Rightarrow> d \<noteq> m | _ \<Rightarrow> False) then True
          else False)"

definition buildQuotasUpdate :: "BucketQuotas option \<Rightarrow> AdminBucketQuotas option \<Rightarrow> bucket_error + AdminBucketQuotas option" where
  "buildQuotasUpdate spec current =
     (case spec of
        None \<Rightarrow>
          Inr (case current of
                 Some c \<Rightarrow> if bq_MaxSize c \<noteq> None \<or> bq_MaxObjects c \<noteq> None
                            then Some \<lparr>bq_MaxSize = None, bq_MaxObjects = None\<rparr> else None
               | None \<Rightarrow> None)
      | Some q \<Rightarrow>
          if (case qt_MaxSize q of Some v \<Rightarrow> v < 0 | None \<Rightarrow> False) then Inl QuotaNegative
          else if (case qt_MaxObjects q of Some v \<Rightarrow> v < 0 | None \<Rightarrow> False) then Inl QuotaNegative
          else
            let desiredSize = map_option word_of_int (qt_MaxSize q);
                desiredObjects = map_option word_of_int (qt_MaxObjects q)
            in if \<not> quotasChanged current desiredSize desiredObjects then Inr None
               else Inr (Some \<lparr>bq_MaxSize = desiredSize, bq_MaxObjects = desiredObjects\<rparr>))"

definition updateBucketSettings :: "bucket_env \<Rightarrow> GarageBucket \<Rightarrow> Bucket \<Rightarrow> trace \<Rightarrow> bucket_error option \<times> trace" where
  "updateBucketSettings env b existing tr =
     (let website = buildWebsiteAccess (bs_Website (gb_Spec b)) existing in
      case buildQuotasUpdate (bs_Quotas (gb_Spec b)) (bk_Quotas existing) of
        Inl e \<Rightarrow> (Some e, tr)
      | Inr quotas \<Rightarrow>
          if website = None \<and> quotas = None then (None, tr)
          else (case call_bucket env (UpdateBucket (bk_ID existing) \<lparr>ub_WebsiteAccess = website, ub_Quotas = quotas\<rparr>) tr of
                  (Inl e, t1) \<Rightarrow> (Some (UpdateBucketFailed e), t1)
                | (Inr _, t1) \<Rightarrow> (None, t1)))"

subsection \<open>One reconcile of the remote bucket\<close>

definition reconcileBucket ::
    "(string \<Rightarrow> string) \<Rightarrow> time_format \<Rightarrow> bucket_env \<Rightarrow> instant \<Rightarrow> GarageBucket \<Rightarrow> trace
     \<Rightarrow> (bucket_error + Bucket option) \<times> GarageBucket \<times> trace" where
  "reconcileBucket sum256 tf env now b tr =
     (let alias = effective_alias b; prevBucketID = bst_BucketID (gb_Status b) in
      case getOrCreateBucket sum256 env b alias tr of
        (Inl e, b1, t1) \<Rightarrow> (Inl e, b1, t1)
      | (Inr existing, b1, t1) \<Rightarrow>
     (case (if bst_BucketID (gb_Status b1) \<noteq> prevBucketID then persist_status env b1 t1 else (None, b1, t1)) of
        (Some e, b2, t2) \<Rightarrow> (Inl e, b2, t2)
      | (None, b2, t2) \<Rightarrow>
     (case reconcileGlobalAlias env b2 (bk_ID existing) alias (bk_GlobalAliases existing) t2 of
        (Some e, b3, t3) \<Rightarrow> (Inl e, b3, t3)
      | (None, b3, t3) \<Rightarrow>
     (case clearBucketReservationAlias env b3 existing alias t3 of
        (Some e, b4, t4) \<Rightarrow> (Inl e, b4, t4)
      | (None, b4, t4) \<Rightarrow>
     (case updateBucketSettings env b4 existing t4 of
        (Some e, t5) \<Rightarrow> (Inl e, b4, t5)
      | (None, t5) \<Rightarrow>
     (case reconcileKeyPermissions env b4 existing t5 of
        (Some e, b6, t6) \<Rightarrow> (Inl e, b6, t6)
      | (None, b6, t6) \<Rightarrow>
     (case reconcileLocalAliases env b6 (bk_ID existing) (bk_Keys existing) t6 of
        (Inl e, b7, t7) \<Rightarrow> (Inl e, b7, t7)
      | (Inr snapshot, b7, t7) \<Rightarrow>
     (case reconcileLifecycleSafe tf env now b7 (bk_ID existing) t7 of
        (b8, t8) \<Rightarrow> (Inr snapshot, b8, t8)))))))))"

subsection \<open>Results and status\<close>

datatype bucket_result = Finished | Requeue | RequeueIn int | ReconcileError

definition RequeueAfterError :: int where "RequeueAfterError = 30 * time_Second"
definition RequeueAfterUnhealthy :: int where "RequeueAfterUnhealthy = 10 * time_Second"
definition RequeueAfterDrift :: int where "RequeueAfterDrift = 300 * time_Second"

definition PhaseReady :: string where "PhaseReady = ''Ready''"
definition PhasePending :: string where "PhasePending = ''Pending''"
definition PhaseRunning :: string where "PhaseRunning = ''Running''"
definition PhaseFailed :: string where "PhaseFailed = ''Failed''"
definition PhaseDeleting :: string where "PhaseDeleting = ''Deleting''"

definition with_phase :: "string \<Rightarrow> GarageBucket \<Rightarrow> GarageBucket" where
  "with_phase p b = b\<lparr>gb_Status := (gb_Status b)\<lparr>bst_Phase := p\<rparr>\<rparr>"

definition bucket_updateStatus ::
    "bucket_env \<Rightarrow> instant \<Rightarrow> GarageBucket \<Rightarrow> string \<Rightarrow> bool \<Rightarrow> trace \<Rightarrow> bucket_result \<times> GarageBucket \<times> trace" where
  "bucket_updateStatus env now b phase failed tr =
     (let b1 = with_phase phase b;
          b2 = (if failed then set_bucket_condition now PhaseReady ConditionFalse ''ReconcileFailed'' b1
                else b1\<lparr>gb_Status := (gb_Status b1)\<lparr>bst_ObservedGeneration := gb_Generation b\<rparr>\<rparr>)
      in case bucket_status_update env b2 tr of
           (Some e, b3, t1) \<Rightarrow> (ReconcileError, b3, t1)
         | (None, b3, t1) \<Rightarrow> (if failed then RequeueIn RequeueAfterError else Finished, b3, t1))"

definition update_pending ::
    "bucket_env \<Rightarrow> instant \<Rightarrow> string \<Rightarrow> GarageBucket \<Rightarrow> trace \<Rightarrow> bucket_result \<times> GarageBucket \<times> trace" where
  "update_pending env now reason b tr =
     (case bucket_status_update env (set_bucket_condition now PhaseReady ConditionFalse reason (with_phase PhasePending b)) tr of
        (Some e, b1, t1) \<Rightarrow> (ReconcileError, b1, t1)
      | (None, b1, t1) \<Rightarrow> (RequeueIn RequeueAfterUnhealthy, b1, t1))"

definition updateStatusWaiting ::
    "bucket_env \<Rightarrow> instant \<Rightarrow> GarageBucket \<Rightarrow> trace \<Rightarrow> bucket_result \<times> GarageBucket \<times> trace" where
  "updateStatusWaiting env now b tr = update_pending env now ''ClusterNotReady'' b tr"

subsection \<open>Lookup timeouts and decode errors\<close>

definition itoa :: "int \<Rightarrow> string" where
  "itoa i = (if i < 0 then CHR ''-'' # show_nat (nat (- i)) else show_nat (nat i))"

definition AnnotationBucketLookupTimeouts :: string where
  "AnnotationBucketLookupTimeouts = ''garage.rajsingh.info/bucket-lookup-timeouts''"
definition AnnotationBucketDecodeErrors :: string where
  "AnnotationBucketDecodeErrors = ''garage.rajsingh.info/bucket-decode-errors''"
definition AnnotationTriggerRepair :: string where
  "AnnotationTriggerRepair = ''garage.rajsingh.info/trigger-repair''"
definition ConditionBucketLookupStuck :: string where "ConditionBucketLookupStuck = ''BucketLookupStuck''"
definition ConditionBucketMetadataDegraded :: string where "ConditionBucketMetadataDegraded = ''BucketMetadataDegraded''"
definition BucketLookupStuckThreshold :: int where "BucketLookupStuckThreshold = 3"
definition BucketDecodeErrorThreshold :: int where "BucketDecodeErrorThreshold = 3"

definition set_annotation :: "string \<Rightarrow> string \<Rightarrow> GarageBucket \<Rightarrow> GarageBucket" where
  "set_annotation k v b = b\<lparr>gb_Annotations := AList.update k v (gb_Annotations b)\<rparr>"

definition drop_annotation :: "string \<Rightarrow> GarageBucket \<Rightarrow> GarageBucket" where
  "drop_annotation k b = b\<lparr>gb_Annotations := gomap_delete k (gb_Annotations b)\<rparr>"

text \<open>A patch that fails leaves the in-memory change; one that succeeds answers with the stored object.\<close>

definition patch_bucket :: "bucket_env \<Rightarrow> GarageBucket \<Rightarrow> trace \<Rightarrow> kube_error option \<times> GarageBucket \<times> trace" where
  "patch_bucket env b tr =
     (case call_object env (ObjectPatch b) tr of (Inl e, t1) \<Rightarrow> (Some e, b, t1) | (Inr s, t1) \<Rightarrow> (None, s, t1))"

definition update_bucket :: "bucket_env \<Rightarrow> GarageBucket \<Rightarrow> trace \<Rightarrow> kube_error option \<times> GarageBucket \<times> trace" where
  "update_bucket env b tr =
     (case call_object env (ObjectUpdate b) tr of (Inl e, t1) \<Rightarrow> (Some e, b, t1) | (Inr s, t1) \<Rightarrow> (None, s, t1))"

definition readTimeoutCounter :: "GarageBucket \<Rightarrow> int" where
  "readTimeoutCounter b =
     (case map_of (gb_Annotations b) AnnotationBucketLookupTimeouts of
        None \<Rightarrow> 0
      | Some v \<Rightarrow> (case Atoi v of None \<Rightarrow> 0 | Some n \<Rightarrow> if n < 0 then 0 else n))"

definition recordBucketLookupTimeout ::
    "bucket_env \<Rightarrow> GarageBucket \<Rightarrow> trace \<Rightarrow> int \<times> GarageBucket \<times> trace" where
  "recordBucketLookupTimeout env b tr =
     (let current = wrap64 (readTimeoutCounter b + 1) in
      case patch_bucket env (set_annotation AnnotationBucketLookupTimeouts (itoa current) b) tr of
        (_, b1, t1) \<Rightarrow> (current, b1, t1))"

definition handleBucketLookupTimeout ::
    "bucket_env \<Rightarrow> instant \<Rightarrow> GarageBucket \<Rightarrow> trace \<Rightarrow> bucket_result \<times> GarageBucket \<times> trace" where
  "handleBucketLookupTimeout env now b tr =
     (case recordBucketLookupTimeout env b tr of
        (n, b1, t1) \<Rightarrow>
          if n \<ge> BucketLookupStuckThreshold then
            (let mark = set_bucket_condition now ConditionBucketLookupStuck ConditionTrue ''AdminAPITimeout'' in
             case bucket_status_retry env (gb_UID b1) mark StatusUpdateMaxRetries (mark b1) t1 of
               (Some e, b2, t2) \<Rightarrow> (ReconcileError, b2, t2)
             | (None, b2, t2) \<Rightarrow> (RequeueIn RequeueAfterUnhealthy, b2, t2))
          else (RequeueIn RequeueAfterUnhealthy, b1, t1))"

definition clearBucketLookupTimeouts ::
    "bucket_env \<Rightarrow> GarageBucket \<Rightarrow> trace \<Rightarrow> GarageBucket \<times> trace" where
  "clearBucketLookupTimeouts env b tr =
     (let hadAnno = gomap_has (gb_Annotations b) AnnotationBucketLookupTimeouts;
          hadCond = (FindStatusCondition (bst_Conditions (gb_Status b)) ConditionBucketLookupStuck \<noteq> None);
          uncond = (\<lambda>x. if hadCond then x\<lparr>gb_Status := (gb_Status x)\<lparr>bst_Conditions :=
              RemoveStatusCondition (bst_Conditions (gb_Status x)) ConditionBucketLookupStuck\<rparr>\<rparr> else x)
      in if \<not> hadAnno \<and> \<not> hadCond then (b, tr)
         else if hadAnno then
           (case patch_bucket env (drop_annotation AnnotationBucketLookupTimeouts b) tr of
              (Some e, b1, t1) \<Rightarrow> (b1, t1)
            | (None, b1, t1) \<Rightarrow> (uncond b1, t1))
         else (uncond b, tr))"

definition recordBucketDecodeError ::
    "bucket_env \<Rightarrow> GarageBucket \<Rightarrow> trace \<Rightarrow> int \<times> GarageBucket \<times> trace" where
  "recordBucketDecodeError env b tr =
     (let current = wrap64 ((case map_of (gb_Annotations b) AnnotationBucketDecodeErrors of
              None \<Rightarrow> 0 | Some v \<Rightarrow> (case Atoi v of None \<Rightarrow> 0 | Some n \<Rightarrow> n)) + 1) in
      case patch_bucket env (set_annotation AnnotationBucketDecodeErrors (itoa current) b) tr of
        (_, b1, t1) \<Rightarrow> (current, b1, t1))"

definition handleBucketDecodeError ::
    "bucket_env \<Rightarrow> instant \<Rightarrow> GarageBucket \<Rightarrow> GarageCluster \<Rightarrow> trace \<Rightarrow> bucket_result \<times> GarageBucket \<times> trace" where
  "handleBucketDecodeError env now b cluster tr =
     (case recordBucketDecodeError env b tr of
        (n, b1, t1) \<Rightarrow>
          if n \<ge> BucketDecodeErrorThreshold then
            (let t2 = (if annotation (gc_Annotations cluster) AnnotationTriggerRepair = []
                       then snd (call_status env (ClusterPatch (cluster\<lparr>gc_Annotations :=
                              AList.update AnnotationTriggerRepair ''Tables'' (gc_Annotations cluster)\<rparr>)) t1)
                       else t1);
                 mark = set_bucket_condition now ConditionBucketMetadataDegraded ConditionTrue ''MetadataDecodeError'' in
             case bucket_status_retry env (gb_UID b1) mark StatusUpdateMaxRetries (mark b1) t2 of
               (Some e, b2, t3) \<Rightarrow> (ReconcileError, b2, t3)
             | (None, b2, t3) \<Rightarrow> (RequeueIn RequeueAfterUnhealthy, b2, t3))
          else (RequeueIn RequeueAfterUnhealthy, b1, t1))"

definition clearBucketDecodeErrors ::
    "bucket_env \<Rightarrow> GarageBucket \<Rightarrow> trace \<Rightarrow> GarageBucket \<times> trace" where
  "clearBucketDecodeErrors env b tr =
     (let hadAnno = (annotation (gb_Annotations b) AnnotationBucketDecodeErrors \<noteq> []);
          hadCond = (FindStatusCondition (bst_Conditions (gb_Status b)) ConditionBucketMetadataDegraded \<noteq> None);
          uncond = (\<lambda>x. if hadCond then x\<lparr>gb_Status := (gb_Status x)\<lparr>bst_Conditions :=
              RemoveStatusCondition (bst_Conditions (gb_Status x)) ConditionBucketMetadataDegraded\<rparr>\<rparr> else x)
      in if \<not> hadAnno \<and> \<not> hadCond then (b, tr)
         else if hadAnno then
           (case patch_bucket env (drop_annotation AnnotationBucketDecodeErrors b) tr of
              (Some e, b1, t1) \<Rightarrow> (b1, t1)
            | (None, b1, t1) \<Rightarrow> (uncond b1, t1))
         else (uncond b, tr))"

subsection \<open>One-shot annotations\<close>

record rendering =
  rd_Bytes :: "int \<Rightarrow> string"
  rd_Percent :: "int \<Rightarrow> u64 \<Rightarrow> int"
  rd_ParseDuration :: "string \<Rightarrow> int option"
  rd_Seconds :: "int \<Rightarrow> int"

definition AnnotationCleanupMPU :: string where "AnnotationCleanupMPU = ''garage.rajsingh.info/cleanup-mpu''"
definition AnnotationCleanupMPUOlderThan :: string where
  "AnnotationCleanupMPUOlderThan = ''garage.rajsingh.info/cleanup-mpu-older-than''"

definition parseMPUOlderThan :: "rendering \<Rightarrow> string \<Rightarrow> int" where
  "parseMPUOlderThan rd s =
     (if s = [] then 86400
      else (case rd_ParseDuration rd s of
              None \<Rightarrow> 86400
            | Some d \<Rightarrow> if d \<le> 0 then 86400 else rd_Seconds rd d))"

text \<open>The error (if any) keeps the annotation; it is dropped only after a cleanup that succeeded.\<close>

definition handleBucketAnnotations ::
    "rendering \<Rightarrow> bucket_env \<Rightarrow> GarageBucket \<Rightarrow> trace \<Rightarrow> bool \<times> GarageBucket \<times> trace" where
  "handleBucketAnnotations rd env b tr =
     (if \<not> gomap_has (gb_Annotations b) AnnotationCleanupMPU then (True, b, tr)
      else if bst_BucketID (gb_Status b) = [] then (True, b, tr)
      else (case call_unit env (CleanupIncompleteUploads (bst_BucketID (gb_Status b))
                (parseMPUOlderThan rd (annotation (gb_Annotations b) AnnotationCleanupMPUOlderThan))) tr of
              (Some e, t1) \<Rightarrow> (False, b, t1)
            | (None, t1) \<Rightarrow>
                (case update_bucket env (drop_annotation AnnotationCleanupMPUOlderThan (drop_annotation AnnotationCleanupMPU b)) t1 of
                   (Some e, b1, t2) \<Rightarrow> (False, b1, t2)
                 | (None, b1, t2) \<Rightarrow> (True, b1, t2))))"

subsection \<open>Publishing the observed bucket\<close>

definition effectiveWebAPI :: "GarageCluster \<Rightarrow> WebAPIConfig option" where
  "effectiveWebAPI cluster =
     (let w = cs_WebAPI (gc_Spec cluster); eff = (case w of Some c \<Rightarrow> c | None \<Rightarrow> \<lparr>web_Enabled = None, web_RootDomain = []\<rparr>) in
      if (case w of Some c \<Rightarrow> web_Enabled c = Some False | None \<Rightarrow> False) then None
      else Some (if web_RootDomain eff = []
                 then eff\<lparr>web_RootDomain := ''.'' @ gc_Name cluster @ ''.'' @ gc_Namespace cluster @ ''.svc''\<rparr> else eff))"

definition quota_usage :: "rendering \<Rightarrow> Bucket \<Rightarrow> QuotaUsageStatus" where
  "quota_usage rd g =
     (let sizeMax = (case bk_Quotas g of Some q \<Rightarrow> bq_MaxSize q | None \<Rightarrow> None);
          objMax = (case bk_Quotas g of Some q \<Rightarrow> bq_MaxObjects q | None \<Rightarrow> None)
      in \<lparr>qu_SizeBytes = bk_Bytes g,
          qu_SizeLimit = (case sizeMax of Some m \<Rightarrow> sint m | None \<Rightarrow> 0),
          qu_SizePercent = (case sizeMax of Some m \<Rightarrow> if m > 0 then rd_Percent rd (bk_Bytes g) m else 0 | None \<Rightarrow> 0),
          qu_ObjectCount = bk_Objects g,
          qu_ObjectLimit = (case objMax of Some m \<Rightarrow> sint m | None \<Rightarrow> 0),
          qu_ObjectPercent = (case objMax of Some m \<Rightarrow> if m > 0 then rd_Percent rd (bk_Objects g) m else 0 | None \<Rightarrow> 0)\<rparr>)"

definition observed_status ::
    "rendering \<Rightarrow> time_format \<Rightarrow> GarageCluster \<Rightarrow> int \<Rightarrow> Bucket \<Rightarrow> GarageBucketStatus \<Rightarrow> GarageBucketStatus" where
  "observed_status rd tf cluster generation g st =
     (let alias = (case bk_GlobalAliases g of a # _ \<Rightarrow> a | [] \<Rightarrow> bst_GlobalAlias st) in
      st\<lparr>bst_Phase := PhaseReady, bst_ObservedGeneration := generation, bst_Size := rd_Bytes rd (bk_Bytes g),
         bst_CreatedAt := (if bk_Created g \<noteq> [] then (case tf_Parse tf (bk_Created g) of Some t \<Rightarrow> Some t | None \<Rightarrow> bst_CreatedAt st)
                           else bst_CreatedAt st),
         bst_IncompleteUploads := bk_UnfinishedMultipartUploads g,
         bst_IncompleteUploadParts := bk_UnfinishedMultipartUploadParts g,
         bst_IncompleteUploadBytes := bk_UnfinishedMultipartUploadBytes g,
         bst_WebsiteEnabled := bk_WebsiteAccess g, bst_WebsiteConfig := bk_WebsiteConfig g,
         bst_QuotaUsage := Some (quota_usage rd g), bst_GlobalAlias := alias,
         bst_WebsiteURL := (if bk_WebsiteAccess g then
             (case effectiveWebAPI cluster of
                Some w \<Rightarrow> if alias \<noteq> [] then ''http://'' @ alias @ web_RootDomain w else []
              | None \<Rightarrow> []) else []),
         bst_Keys := sort_key bks_KeyID (map (\<lambda>k. \<lparr>bks_KeyID = ki_AccessKeyID k, bks_Name = ki_Name k,
             bks_Permissions = ki_Permissions k\<rparr>) (bk_Keys g)),
         bst_LocalAliases := sortLocalAliasStatuses (concat (map (\<lambda>k. map (\<lambda>a. \<lparr>las_KeyID = ki_AccessKeyID k,
             las_KeyName = ki_Name k, las_Alias = a\<rparr>) (ki_BucketLocalAliases k)) (bk_Keys g)))\<rparr>)"

definition updateStatusFromGarage ::
    "rendering \<Rightarrow> time_format \<Rightarrow> bucket_env \<Rightarrow> instant \<Rightarrow> GarageBucket \<Rightarrow> GarageCluster \<Rightarrow> Bucket option \<Rightarrow> trace
     \<Rightarrow> bucket_result \<times> GarageBucket \<times> trace" where
  "updateStatusFromGarage rd tf env now b cluster snapshot tr =
     (let publish = (\<lambda>g t. case clearBucketLookupTimeouts env b t of (b1, t1) \<Rightarrow>
           (case clearBucketDecodeErrors env b1 t1 of (b2, t2) \<Rightarrow>
            let new = set_bucket_condition now PhaseReady ConditionTrue ''BucketReady''
                   (b2\<lparr>gb_Status := observed_status rd tf cluster (gb_Generation b2) g (gb_Status b2)\<rparr>)
            in if gb_Status new = gb_Status b2 then (RequeueIn RequeueAfterDrift, new, t2)
               else (case bucket_status_update env new t2 of
                       (Some e, b3, t3) \<Rightarrow> (ReconcileError, b3, t3)
                     | (None, b3, t3) \<Rightarrow> (Finished, b3, t3))))
      in if bst_BucketID (gb_Status b) = [] then bucket_updateStatus env now b ''Pending'' False tr
         else (case snapshot of
            Some g \<Rightarrow> publish g tr
          | None \<Rightarrow>
              (case getBucketWithTimeout env (by_id (bst_BucketID (gb_Status b))) tr of
                 (Inr g, t1) \<Rightarrow> publish g t1
               | (Inl e, t1) \<Rightarrow>
                   if isBucketLookupTimeout e then handleBucketLookupTimeout env now b t1
                   else if IsMetadataDecodeError (lookup_api e) then handleBucketDecodeError env now b cluster t1
                   else bucket_updateStatus env now b PhaseFailed True t1)))"

subsection \<open>The retain marker of COSI\<close>

definition AnnotationCOSIProvisioningState :: string where
  "AnnotationCOSIProvisioningState = ''garage.rajsingh.info/cosi-provisioning-state''"
definition AnnotationCOSIRetain :: string where "AnnotationCOSIRetain = ''garage.rajsingh.info/cosi-retain''"
definition LabelCOSIManaged :: string where "LabelCOSIManaged = ''garage.rajsingh.info/cosi-managed''"
definition AnnotationCOSIReservationOwner :: string where
  "AnnotationCOSIReservationOwner = ''garage.rajsingh.info/cosi-reservation-owner''"
definition AnnotationCOSIReservationReady :: string where
  "AnnotationCOSIReservationReady = ''garage.rajsingh.info/cosi-reservation-ready''"
definition COSIProvisioningStatePending :: string where "COSIProvisioningStatePending = ''pending''"
definition COSIProvisioningStateBound :: string where "COSIProvisioningStateBound = ''bound''"

definition COSIShadowResourceName :: "(string \<Rightarrow> string) \<Rightarrow> string \<Rightarrow> string" where
  "COSIShadowResourceName sum256 identity = ''cosi-'' @ take 16 (sum256 identity)"

definition isCOSIManagedPendingOrBoundShadow :: "(string \<Rightarrow> string) \<Rightarrow> GarageBucket \<Rightarrow> bool" where
  "isCOSIManagedPendingOrBoundShadow sum256 b =
     (if annotation (gb_Labels b) LabelCOSIManaged \<noteq> ''true'' then False
      else let owner = annotation (gb_Annotations b) AnnotationCOSIReservationOwner in
        if owner = [] \<or> gb_Name b \<noteq> COSIShadowResourceName sum256 owner then False
        else annotation (gb_Annotations b) AnnotationCOSIProvisioningState
               \<in> {COSIProvisioningStatePending, COSIProvisioningStateBound})"

text \<open>Which identity the marker stands for, by provisioning state; \<open>None\<close> refuses it.\<close>

definition retain_identity_ok :: "(string \<Rightarrow> string) \<Rightarrow> GarageBucket \<Rightarrow> COSIBucket \<Rightarrow> bool" where
  "retain_identity_ok sum256 b parent =
     (let state = annotation (gb_Annotations b) AnnotationCOSIProvisioningState;
          cosiID = annotation (gb_Annotations b) AnnotationCOSIBucketID;
          alias = annotation (gb_Annotations b) AnnotationCOSIReservationAlias;
          ready = (annotation (gb_Annotations b) AnnotationCOSIReservationReady = ''true'')
      in if state = COSIProvisioningStateBound then
           garageBucketFinalizationID b = Inr cosiID \<and> cosiID \<noteq> [] \<and> cb_BucketID parent = cosiID
         else if state = COSIProvisioningStatePending then
           (if cb_BucketID parent \<noteq> [] then False
            else case garageBucketFinalizationID b of
              Inl _ \<Rightarrow> False
            | Inr resolved \<Rightarrow>
                if resolved \<noteq> [] then cosiID = [] \<or> cosiID = resolved
                else if alias = [] then \<not> ready
                else UIDBoundReservationAlias sum256 ''cosi-rsv-'' (gb_Namespace b) (gb_Name b) (gb_UID b) = Some alias \<and> ready)
         else False)"

text \<open>Result: an error, or whether a valid retain marker is present.\<close>

definition validatedCOSIRetain ::
    "(string \<Rightarrow> string) \<Rightarrow> string \<Rightarrow> bucket_env \<Rightarrow> GarageBucket \<Rightarrow> trace \<Rightarrow> bool option" where
  "validatedCOSIRetain sum256 driver env b tr =
     (let marker = annotation (gb_Annotations b) AnnotationCOSIRetain;
          owner = annotation (gb_Annotations b) AnnotationCOSIReservationOwner in
      if marker = [] then Some False
      else if UIDBoundReservationAlias sum256 ''cosi-retain-'' (gb_Namespace b) (gb_Name b) (gb_UID b) \<noteq> Some marker then None
      else if annotation (gb_Labels b) LabelCOSIManaged \<noteq> ''true'' \<or> owner = [] then None
      else if gb_Name b \<noteq> COSIShadowResourceName sum256 owner then None
      else if driver = [] then None
      else (case be_GetCOSIBucket env tr owner of
              Inl e \<Rightarrow> None
            | Inr parent \<Rightarrow>
                if \<not> cb_Deleting parent \<or> cb_DriverName parent \<noteq> driver \<or> \<not> cb_Retain parent then None
                else if retain_identity_ok sum256 b parent then Some True else None))"

subsection \<open>The handler\<close>

definition garageBucketFinalizer :: string where
  "garageBucketFinalizer = ''garagebucket.garage.rajsingh.info/finalizer''"

definition FinalizationRetryAnnotation :: string where
  "FinalizationRetryAnnotation = ''garage.rajsingh.info/finalization-retries''"

definition bucket_live :: "GarageBucket \<Rightarrow> bool" where
  "bucket_live b = (case gb_DeletionTimestamp b of None \<Rightarrow> True | Some t \<Rightarrow> time_IsZero t)"

definition without_finalizer :: "GarageBucket \<Rightarrow> GarageBucket" where
  "without_finalizer b = b\<lparr>gb_Finalizers := filter (\<lambda>f. f \<noteq> garageBucketFinalizer) (gb_Finalizers b)\<rparr>"

definition with_finalizer :: "GarageBucket \<Rightarrow> GarageBucket" where
  "with_finalizer b = b\<lparr>gb_Finalizers := gb_Finalizers b @ [garageBucketFinalizer]\<rparr>"

definition GetFinalizationRetryCount :: "GarageBucket \<Rightarrow> int" where
  "GetFinalizationRetryCount b =
     (case map_of (gb_Annotations b) FinalizationRetryAnnotation of
        None \<Rightarrow> 0 | Some v \<Rightarrow> (case Atoi v of None \<Rightarrow> 0 | Some n \<Rightarrow> n))"

definition IncrementFinalizationRetryCount :: "GarageBucket \<Rightarrow> GarageBucket" where
  "IncrementFinalizationRetryCount b =
     set_annotation FinalizationRetryAnnotation (itoa (wrap64 (GetFinalizationRetryCount b + 1))) b"

record bucket_params =
  bpr_Sum256 :: "string \<Rightarrow> string"
  bpr_Time :: time_format
  bpr_Rendering :: rendering
  bpr_Kube :: kube_env
  bpr_ParseIP :: "string \<Rightarrow> bool"
  bpr_COSIDriver :: string

definition cluster_namespace :: "GarageBucket \<Rightarrow> string" where
  "cluster_namespace b = (let ref = bs_ClusterRef (gb_Spec b) in if ref_Namespace ref = [] then gb_Namespace b else ref_Namespace ref)"

definition cluster_name :: "GarageBucket \<Rightarrow> NamespacedName" where
  "cluster_name b = \<lparr>nn_Namespace = cluster_namespace b, nn_Name = ref_Name (bs_ClusterRef (gb_Spec b))\<rparr>"

text \<open>A validated retain marker: the shadow goes, the remote bucket stays.\<close>

definition release_retained :: "bucket_env \<Rightarrow> GarageBucket \<Rightarrow> trace \<Rightarrow> bucket_result \<times> GarageBucket \<times> trace" where
  "release_retained env b tr =
     (if bucket_live b then
        (case call_status env (ObjectDelete (bucket_key b)) tr of
           (r, t1) \<Rightarrow> (if r = None \<or> r = Some KubeNotFound then Finished else ReconcileError, b, t1))
      else if garageBucketFinalizer \<in> set (gb_Finalizers b) then
        (case update_bucket env (without_finalizer b) tr of
           (r, b1, t1) \<Rightarrow> (if r = None \<or> r = Some KubeNotFound then Finished else ReconcileError, b1, t1))
      else (Finished, b, tr))"

text \<open>Checks of a live resource before anything remote; \<open>None\<close> goes on.\<close>

definition live_checks ::
    "bucket_params \<Rightarrow> bucket_env \<Rightarrow> instant \<Rightarrow> GarageBucket \<Rightarrow> trace \<Rightarrow> (bucket_result \<times> GarageBucket \<times> trace) option" where
  "live_checks pr env now b tr =
     (if \<not> bucket_live b then None
      else if ValidateGarageBucketSpec (bpr_Kube pr) (bpr_ParseIP pr) b \<noteq> None
      then Some (bucket_updateStatus env now b PhaseFailed True tr)
      else if annotation (gb_Annotations b) AnnotationCOSIProvisioningState = COSIProvisioningStatePending then
        (if garageBucketFinalizer \<in> set (gb_Finalizers b) then Some (RequeueIn RequeueAfterShort, b, tr)
         else (case update_bucket env (with_finalizer b) tr of
                 (Some e, b1, t1) \<Rightarrow> Some (ReconcileError, b1, t1)
               | (None, b1, t1) \<Rightarrow> Some (RequeueIn RequeueAfterShort, b1, t1)))
      else if CheckReferenceGrant (be_ListGrants env tr) ''GarageBucket'' (gb_Namespace b) ''GarageCluster''
                (cluster_namespace b) (ref_Name (bs_ClusterRef (gb_Spec b))) \<noteq> None
      then Some (bucket_updateStatus env now b PhaseFailed True tr)
      else None)"

definition finalize_stage ::
    "bucket_params \<Rightarrow> bucket_env \<Rightarrow> instant \<Rightarrow> GarageBucket \<Rightarrow> trace \<Rightarrow> bucket_result \<times> GarageBucket \<times> trace" where
  "finalize_stage pr env now b tr =
     (if garageBucketFinalizer \<notin> set (gb_Finalizers b) then (Finished, b, tr)
      else (case finalize_bucket (bpr_Sum256 pr) env b tr of
         (Some e, t1) \<Rightarrow>
           (case patch_bucket env (IncrementFinalizationRetryCount b) t1 of
              (r, b1, t2) \<Rightarrow>
                if r = Some KubeNotFound then (Finished, b1, t2)
                else (case bucket_updateStatus env now b1 PhaseDeleting True t2 of
                        (_, b2, t3) \<Rightarrow> (RequeueIn RequeueAfterError, b2, t3)))
       | (None, t1) \<Rightarrow>
           (case update_bucket env (without_finalizer b) t1 of
              (Some e, b1, t2) \<Rightarrow> (ReconcileError, b1, t2)
            | (None, b1, t2) \<Rightarrow> (Finished, b1, t2))))"

text \<open>The chain of a returned error, as the handler inspects it.\<close>

definition error_timeout :: "bucket_error \<Rightarrow> bool" where
  "error_timeout e \<longleftrightarrow> e = LookupTimedOut
     \<or> e \<in> {ReservationLookupFailed BucketInfoTimeout, SpecBucketUnreachable BucketInfoTimeout,
            TrackedLookupFailed BucketInfoTimeout, AliasLookupFailed BucketInfoTimeout}"

fun error_api :: "bucket_error \<Rightarrow> goerror" where
  "error_api (ReservationLookupFailed e) = lookup_api e"
| "error_api (SpecBucketUnreachable e) = lookup_api e"
| "error_api (TrackedLookupFailed e) = lookup_api e"
| "error_api (AliasLookupFailed e) = lookup_api e"
| "error_api (CreateBucketFailed e) = ce_API e"
| "error_api (RemoveReservationFailed e) = ce_API e"
| "error_api (RemoveAbandonedAliasFailed e) = ce_API e"
| "error_api (SetGlobalAliasFailed e) = ce_API e"
| "error_api (GlobalAliasConflict e) = ce_API e"
| "error_api (RemovePreviousAliasFailed e) = ce_API e"
| "error_api (UpdateBucketFailed e) = ce_API e"
| "error_api (AddLocalAliasFailed e) = ce_API e"
| "error_api (LocalAliasConflict e) = ce_API e"
| "error_api (RemoveLocalAliasFailed e) = ce_API e"
| "error_api (DeleteBucketFailed e) = ce_API e"
| "error_api _ = None"

definition remote_stage ::
    "bucket_params \<Rightarrow> bucket_env \<Rightarrow> instant \<Rightarrow> GarageBucket \<Rightarrow> GarageCluster \<Rightarrow> trace \<Rightarrow> bucket_result \<times> GarageBucket \<times> trace" where
  "remote_stage pr env now b cluster tr =
     (if garageBucketFinalizer \<notin> set (gb_Finalizers b) then
        (case update_bucket env (with_finalizer b) tr of
           (Some e, b1, t1) \<Rightarrow> (ReconcileError, b1, t1)
         | (None, b1, t1) \<Rightarrow> (Requeue, b1, t1))
      else (case handleBucketAnnotations (bpr_Rendering pr) env b tr of
        (False, b1, t1) \<Rightarrow> (RequeueIn RequeueAfterError, b1, t1)
      | (True, b1, t1) \<Rightarrow>
          (case reconcileBucket (bpr_Sum256 pr) (bpr_Time pr) env now b1 t1 of
             (Inl e, b2, t2) \<Rightarrow>
               if error_timeout e then handleBucketLookupTimeout env now b2 t2
               else if IsMetadataDecodeError (error_api e) then handleBucketDecodeError env now b2 cluster t2
               else bucket_updateStatus env now b2 PhaseFailed True t2
           | (Inr snapshot, b2, t2) \<Rightarrow>
               updateStatusFromGarage (bpr_Rendering pr) (bpr_Time pr) env now b2 cluster snapshot t2)))"

text \<open>With the cluster read: owner reference, readiness, client, then finalization or the remote bucket.\<close>

definition cluster_stage ::
    "bucket_params \<Rightarrow> bucket_env \<Rightarrow> instant \<Rightarrow> GarageBucket \<Rightarrow> GarageCluster \<Rightarrow> trace \<Rightarrow> bucket_result \<times> GarageBucket \<times> trace" where
  "cluster_stage pr env now b cluster tr =
     (if bucket_live b \<and> cluster_namespace b = gb_Namespace b \<and> \<not> gc_Deleting cluster
         \<and> gc_UID cluster \<notin> set (gb_OwnerUIDs b)
      then (case update_bucket env (b\<lparr>gb_OwnerUIDs := gb_OwnerUIDs b @ [gc_UID cluster]\<rparr>) tr of
              (Some e, b1, t1) \<Rightarrow> (ReconcileError, b1, t1)
            | (None, b1, t1) \<Rightarrow> (Requeue, b1, t1))
      else if bucket_live b \<and> gc_Deleting cluster then update_pending env now ''ClusterDeleting'' b tr
      else if bucket_live b \<and> cst_Phase (gc_Status cluster) \<noteq> PhaseRunning
      then update_pending env now ''ClusterNotReady'' b tr
      else if \<not> be_Client env tr cluster (\<not> bucket_live b) then bucket_updateStatus env now b PhaseFailed True tr
      else if \<not> bucket_live b then finalize_stage pr env now b tr
      else remote_stage pr env now b cluster tr)"

definition reconcile_object ::
    "bucket_params \<Rightarrow> bucket_env \<Rightarrow> instant \<Rightarrow> GarageBucket \<Rightarrow> trace \<Rightarrow> bucket_result \<times> GarageBucket \<times> trace" where
  "reconcile_object pr env now b tr =
     (case validatedCOSIRetain (bpr_Sum256 pr) (bpr_COSIDriver pr) env b tr of
        None \<Rightarrow> (ReconcileError, b, tr)
      | Some True \<Rightarrow> release_retained env b tr
      | Some False \<Rightarrow>
     (case live_checks pr env now b tr of
        Some r \<Rightarrow> r
      | None \<Rightarrow>
     (case be_GetCluster env tr (cluster_name b) of
        Inl e \<Rightarrow>
          if \<not> bucket_live b \<and> garageBucketFinalizer \<in> set (gb_Finalizers b) \<and> e = KubeNotFound then
            (if isCOSIManagedPendingOrBoundShadow (bpr_Sum256 pr) b then (RequeueIn RequeueAfterShort, b, tr)
             else (case update_bucket env (without_finalizer b) tr of
                     (Some e, b1, t1) \<Rightarrow> (ReconcileError, b1, t1)
                   | (None, b1, t1) \<Rightarrow> (Finished, b1, t1)))
          else if e = KubeNotFound then updateStatusWaiting env now b tr
          else bucket_updateStatus env now b PhaseFailed True tr
      | Inr cluster \<Rightarrow> cluster_stage pr env now b cluster tr)))"

definition Reconcile :: "bucket_params \<Rightarrow> bucket_env \<Rightarrow> instant \<Rightarrow> NamespacedName \<Rightarrow> trace \<Rightarrow> bucket_result \<times> trace" where
  "Reconcile pr env now name tr =
     (case call_object env (ObjectGet name) tr of
        (Inl e, t1) \<Rightarrow> (if e = KubeNotFound then Finished else ReconcileError, t1)
      | (Inr b, t1) \<Rightarrow> (case reconcile_object pr env now b t1 of (r, _, t2) \<Rightarrow> (r, t2)))"

subsection \<open>Settings converge\<close>

text \<open>What Garage holds after an update, by the documented effect of UpdateBucket.\<close>

definition quotas_after :: "AdminBucketQuotas option \<Rightarrow> AdminBucketQuotas option \<Rightarrow> AdminBucketQuotas option" where
  "quotas_after update current = (case update of Some q \<Rightarrow> Some q | None \<Rightarrow> current)"

definition limits :: "AdminBucketQuotas option \<Rightarrow> u64 option \<times> u64 option" where
  "limits q = (case q of Some c \<Rightarrow> (bq_MaxSize c, bq_MaxObjects c) | None \<Rightarrow> (None, None))"

definition declared_limits :: "BucketQuotas option \<Rightarrow> u64 option \<times> u64 option" where
  "declared_limits q =
     (case q of Some s \<Rightarrow> (map_option word_of_int (qt_MaxSize s), map_option word_of_int (qt_MaxObjects s)) | None \<Rightarrow> (None, None))"

lemma quotasChanged_iff: "quotasChanged current ds dobj \<longleftrightarrow> limits current \<noteq> (ds, dobj)"
  by (auto simp: quotasChanged_def limits_def split: option.splits)

text \<open>Afterwards the bucket has exactly the declared limits, and nothing is written when it had them.\<close>

lemma quotas_converge:
  assumes "buildQuotasUpdate spec current = Inr u"
  shows "limits (quotas_after u current) = declared_limits spec" "u = None \<longleftrightarrow> limits current = declared_limits spec"
  using assms
  by (auto simp: buildQuotasUpdate_def quotas_after_def declared_limits_def limits_def quotasChanged_iff Let_def
      split: option.splits if_splits)

subsection \<open>Which calls a step makes\<close>

definition adds :: "(bucket_call \<Rightarrow> bool) \<Rightarrow> trace \<Rightarrow> trace \<Rightarrow> bool" where
  "adds P tr tr' \<longleftrightarrow> (\<exists>new. tr' = tr @ new \<and> (\<forall>c \<in> fst ` set new. P c))"

lemma adds_refl [simp]: "adds P tr tr"
  by (simp add: adds_def)

lemma adds_snoc [simp]: "adds P tr (tr @ [(c, oc)]) \<longleftrightarrow> P c"
  by (auto simp: adds_def)

lemma adds_trans: "adds P a b \<Longrightarrow> adds P b c \<Longrightarrow> adds P a c"
  unfolding adds_def by (metis Un_iff append_assoc image_Un set_append)

lemma adds_mono: "adds P a b \<Longrightarrow> (\<And>c. P c \<Longrightarrow> Q c) \<Longrightarrow> adds Q a b"
  unfolding adds_def by blast

lemma adds_drop: "adds P tr tr' \<longleftrightarrow> prefix tr tr' \<and> (\<forall>(c, oc) \<in> set (drop (length tr) tr'). P c)"
  by (fastforce simp: adds_def prefix_def)

text \<open>Calls on the Kubernetes API only; and calls that do not replace the object.\<close>

fun kube_call :: "bucket_call \<Rightarrow> bool" where
  "kube_call (StatusUpdate b) = True" | "kube_call (ObjectUpdate b) = True" | "kube_call (ObjectPatch b) = True"
| "kube_call (ObjectDelete n) = True" | "kube_call (ObjectGet n) = True" | "kube_call (ClusterPatch c) = True"
| "kube_call _ = False"

definition no_update :: "bucket_call \<Rightarrow> bool" where
  "no_update c \<longleftrightarrow> (\<forall>s. c \<noteq> ObjectUpdate s)"

definition status_call :: "bucket_call \<Rightarrow> bool" where
  "status_call c \<longleftrightarrow> c \<in> kube_calls"

lemma status_call_kube: "status_call c \<Longrightarrow> kube_call c"
  by (auto simp: status_call_def kube_calls_def)

lemma status_call_no_update: "status_call c \<Longrightarrow> no_update c"
  by (auto simp: status_call_def kube_calls_def no_update_def)

lemma retry_adds: "adds status_call tr (snd (snd (bucket_status_retry env u f n b tr)))"
proof (induction env u f n b tr rule: bucket_status_retry.induct)
  case (1 env u f obj tr)
  then show ?case by simp
next
  case (2 env u f n obj tr)
  have s: "status_call (StatusUpdate x)" "status_call (ObjectGet y)" for x y
    by (simp_all add: status_call_def kube_calls_def)
  obtain w t2 where w: "call_status env (StatusUpdate obj) tr = (w, t2)" by force
  then have t2: "adds status_call tr t2" using s by (auto simp: call_defs)
  obtain g t3 where g: "call_object env (ObjectGet (bucket_key obj)) t2 = (g, t3)" by force
  then have t3: "adds status_call t2 t3" using s by (auto simp: call_defs)
  show ?case
  proof (cases "w = Some KubeConflict \<and> 0 < n \<and> (\<exists>fresh. g = Inr fresh \<and> \<not> (u \<noteq> [] \<and> gb_UID fresh \<noteq> u))")
    case True
    then obtain fresh where fr: "w = Some KubeConflict" "0 < n" "g = Inr fresh" "\<not> (u \<noteq> [] \<and> gb_UID fresh \<noteq> u)" by blast
    then have "bucket_status_retry env u f (Suc n) obj tr = bucket_status_retry env u f n (f fresh) t3"
      using w g by auto
    moreover have "adds status_call t3 (snd (snd (bucket_status_retry env u f n (f fresh) t3)))"
      using "2.IH"(1) w g fr by auto
    ultimately show ?thesis using adds_trans t2 t3 by metis
  next
    case False
    then have "snd (snd (bucket_status_retry env u f (Suc n) obj tr)) \<in> {t2, t3}"
      using w g by (cases w) (auto split: sum.splits)
    then show ?thesis using t2 adds_trans [OF t2 t3] by auto
  qed
qed

lemma status_update_adds: "bucket_status_update env b tr = (e, b1, t1) \<Longrightarrow> adds status_call tr t1"
  using retry_adds [of tr env "gb_UID b"] by (metis bucket_status_update_def snd_conv)

lemma updateStatus_adds: "adds status_call tr (snd (snd (bucket_updateStatus env now b phase failed tr)))"
  by (auto simp: bucket_updateStatus_def Let_def dest!: status_update_adds split: prod.splits option.splits)

lemma pending_adds: "adds status_call tr (snd (snd (update_pending env now why b tr)))"
  by (auto simp: update_pending_def dest!: status_update_adds split: prod.splits option.splits)

lemma update_bucket_adds: "adds (\<lambda>c. c = ObjectUpdate b) tr (snd (snd (update_bucket env b tr)))"
  by (auto simp: update_bucket_def call_defs split: sum.split)

lemma patch_bucket_adds: "adds (\<lambda>c. c = ObjectPatch b) tr (snd (snd (patch_bucket env b tr)))"
  by (auto simp: patch_bucket_def call_defs split: sum.split)

lemma update_bucket_kube: "update_bucket env b tr = (e, b1, t1) \<Longrightarrow> adds kube_call tr t1"
  using adds_mono [OF update_bucket_adds [of b tr env], of kube_call] by auto

lemma release_adds: "adds kube_call tr (snd (snd (release_retained env b tr)))"
  by (auto simp: release_retained_def call_defs dest: update_bucket_kube split: prod.split)

lemma live_checks_adds: "live_checks pr env now b tr = Some (r, b1, t1) \<Longrightarrow> adds kube_call tr t1"
  using updateStatus_adds [of tr env now b PhaseFailed True]
  by (auto simp: live_checks_def status_call_kube elim: adds_mono
      split: if_splits prod.splits option.splits dest: update_bucket_kube)

subsection \<open>A small instance\<close>

definition sample_params :: bucket_params where
  "sample_params = \<lparr>bpr_Sum256 = (\<lambda>s. ''00''), bpr_Time = unary_time,
     bpr_Rendering = \<lparr>rd_Bytes = (\<lambda>n. []), rd_Percent = (\<lambda>a b. 0), rd_ParseDuration = (\<lambda>s. None), rd_Seconds = (\<lambda>d. d)\<rparr>,
     bpr_Kube = sample_env, bpr_ParseIP = (\<lambda>s. False), bpr_COSIDriver = []\<rparr>"

definition sample_deleting :: GarageBucket where
  "sample_deleting = (with_finalizer (with_bucket_id ''b1'' sample_bucket))\<lparr>gb_DeletionTimestamp := Some 5\<rparr>"

definition sample_cloud :: bucket_env where
  "sample_cloud = (sample_service sample_remote)\<lparr>be_GetCluster := \<lambda>tr n. Inr sample_cluster\<rparr>"

lemma sample_release:
  "reconcile_object sample_params sample_cloud 9 sample_deleting []
     = (Finished, without_finalizer sample_deleting,
        [(DeleteBucket ''b1'', Succeeded),
         (ObjectUpdate (without_finalizer sample_deleting), Succeeded)])"
  by (simp add: reconcile_object_def validatedCOSIRetain_def live_checks_def cluster_stage_def finalize_stage_def
      finalize_bucket_def garageBucketFinalizationID_def resolve_reservation_def reservation_of_def bucket_live_def time_IsZero_def
      update_bucket_def annotation_def gomap_get_def call_defs cluster_namespace_def cluster_name_def without_finalizer_def with_finalizer_def
      with_bucket_id_def sample_params_def sample_cloud_def sample_service_def sample_deleting_def sample_bucket_def)

subsection \<open>The guards of a remote call\<close>

text \<open>The guards a remote call stands behind.\<close>

definition remote_allowed :: "bucket_params \<Rightarrow> bucket_env \<Rightarrow> GarageBucket \<Rightarrow> trace \<Rightarrow> bool" where
  "remote_allowed pr env b tr \<longleftrightarrow>
     validatedCOSIRetain (bpr_Sum256 pr) (bpr_COSIDriver pr) env b tr = Some False
     \<and> (\<exists>cluster. be_GetCluster env tr (cluster_name b) = Inr cluster \<and> be_Client env tr cluster (\<not> bucket_live b)
          \<and> (bucket_live b \<longrightarrow> cst_Phase (gc_Status cluster) = PhaseRunning \<and> \<not> gc_Deleting cluster))
     \<and> garageBucketFinalizer \<in> set (gb_Finalizers b)
     \<and> (bucket_live b \<longrightarrow> ValidateGarageBucketSpec (bpr_Kube pr) (bpr_ParseIP pr) b = None
          \<and> CheckReferenceGrant (be_ListGrants env tr) ''GarageBucket'' (gb_Namespace b) ''GarageCluster''
              (cluster_namespace b) (ref_Name (bs_ClusterRef (gb_Spec b))) = None)"

lemma cluster_stage_guarded:
  assumes "cluster_stage pr env now b cluster tr = (r, b', tr')"
  shows "adds kube_call tr tr' \<or> garageBucketFinalizer \<in> set (gb_Finalizers b) \<and> be_Client env tr cluster (\<not> bucket_live b)
      \<and> (bucket_live b \<longrightarrow> cst_Phase (gc_Status cluster) = PhaseRunning \<and> \<not> gc_Deleting cluster)"
proof -
  note k = status_call_kube adds_mono [OF updateStatus_adds [of tr env now b PhaseFailed True], of kube_call]
    adds_mono [OF pending_adds [of tr env now "''ClusterDeleting''" b], of kube_call]
    adds_mono [OF pending_adds [of tr env now "''ClusterNotReady''" b], of kube_call]
  show ?thesis
    using assms k
    by (auto simp: cluster_stage_def finalize_stage_def remote_stage_def
        split: if_splits prod.splits option.splits dest: update_bucket_kube)
qed

text \<open>
  The operator touches Garage only for an authorized, well-formed resource of a ready cluster.
  If a reconcile of a GarageBucket makes any call on the Garage Admin API, then no valid retain
  marker releases the resource, its cluster exists and has an Admin API client, and the finalizer was
  already stored; and unless the resource is being deleted, its spec passed the admission rules, a
  reference into another namespace is granted, and the cluster runs and is not being deleted.
\<close>

theorem remote_calls_guarded:
  assumes "reconcile_object pr env now b tr = (r, b', tr')"
    and "(c, oc) \<in> set (drop (length tr) tr')" "\<not> kube_call c"
  shows "remote_allowed pr env b tr"
proof -
  have no: "\<not> adds kube_call tr tr'" using assms(2,3) by (auto simp: adds_drop)
  obtain retain where ret: "validatedCOSIRetain (bpr_Sum256 pr) (bpr_COSIDriver pr) env b tr = Some retain"
    using assms no by (auto simp: reconcile_object_def split: option.splits)
  have "\<not> retain"
  proof
    assume retain
    then have "release_retained env b tr = (r, b', tr')" using assms(1) ret by (simp add: reconcile_object_def)
    then show False using no release_adds [of tr env b] by simp
  qed
  with ret have ret: "validatedCOSIRetain (bpr_Sum256 pr) (bpr_COSIDriver pr) env b tr = Some False" by simp
  have lc: "live_checks pr env now b tr = None"
  proof (cases "live_checks pr env now b tr")
    case (Some x)
    then have "live_checks pr env now b tr = Some (r, b', tr')" using assms(1) ret by (simp add: reconcile_object_def)
    then show ?thesis using live_checks_adds no by blast
  qed
  have "\<exists>cluster. be_GetCluster env tr (cluster_name b) = Inr cluster"
  proof (rule ccontr)
    assume "\<not> ?thesis"
    then obtain e where e: "be_GetCluster env tr (cluster_name b) = Inl e" by (cases "be_GetCluster env tr (cluster_name b)") auto
    have "adds kube_call tr tr'"
      using assms(1) ret lc e adds_mono [OF updateStatus_adds [of tr env now b PhaseFailed True], of kube_call]
        adds_mono [OF pending_adds [of tr env now "''ClusterNotReady''" b], of kube_call]
      by (auto simp: reconcile_object_def updateStatusWaiting_def status_call_kube
          split: if_splits prod.splits option.splits dest: update_bucket_kube)
    then show False using no by simp
  qed
  then obtain cluster where cl: "be_GetCluster env tr (cluster_name b) = Inr cluster" by blast
  then have "cluster_stage pr env now b cluster tr = (r, b', tr')"
    using assms(1) ret lc by (simp add: reconcile_object_def)
  note cs = cluster_stage_guarded [OF this]
  have "bucket_live b \<longrightarrow> ValidateGarageBucketSpec (bpr_Kube pr) (bpr_ParseIP pr) b = None
          \<and> CheckReferenceGrant (be_ListGrants env tr) ''GarageBucket'' (gb_Namespace b) ''GarageCluster''
              (cluster_namespace b) (ref_Name (bs_ClusterRef (gb_Spec b))) = None"
    using lc by (auto simp: live_checks_def split: if_splits prod.splits option.splits)
  then show ?thesis using no ret cs cl unfolding remote_allowed_def by blast
qed

theorem remote_calls_guarded_witness: "remote_allowed sample_params sample_cloud sample_deleting []"
  using remote_calls_guarded [OF sample_release, of "DeleteBucket ''b1''" Succeeded] by simp

subsection \<open>The remote steps never replace the object\<close>

named_theorems no_updates \<open>steps that do not replace the GarageBucket object\<close>

lemma addsI: "tr' = tr @ new \<Longrightarrow> (\<And>c. c \<in> fst ` set new \<Longrightarrow> P c) \<Longrightarrow> adds P tr tr'"
  by (auto simp: adds_def)

lemma no_update_simps [simp]:
  "no_update (GetBucketInfo q)" "no_update (CreateBucket a)" "no_update (AddBucketAlias x)" "no_update (RemoveBucketAlias x)"
  "no_update (UpdateBucket i u)" "no_update (SetBucketLifecycle i rs)" "no_update (AllowBucketKey i k p)"
  "no_update (DenyBucketKey i k p)" "no_update (StatusUpdate b)" "no_update (ObjectPatch b)" "no_update (ObjectGet n)"
  "no_update (CleanupIncompleteUploads i s)" "no_update (ClusterPatch g)"
  by (simp_all add: no_update_def)

lemma kube_calls_no_update: "c \<in> kube_calls \<Longrightarrow> no_update c"
  by (auto simp: kube_calls_def)

lemma persist_no_update [no_updates]: "persist_status env b tr = (e, b1, t1) \<Longrightarrow> adds no_update tr t1"
  by (drule persist_trace) (auto intro!: addsI intro: kube_calls_no_update)

lemma getOrCreate_no_update [no_updates]:
  assumes "getOrCreateBucket sum256 env b alias tr = (r, b1, t1)"
  shows "adds no_update tr t1"
  using assms
proof (cases rule: getOrCreate_cases)
  case (early new)
  then show ?thesis by (intro addsI [OF early(1)]) auto
next
  case (last looks)
  have "adds no_update (tr @ looks) t1"
    using last(2)
    by (auto simp: reserve_and_create_def create_under_def call_defs adds_def split: if_splits option.splits sum.splits)
  moreover have "adds no_update tr (tr @ looks)" using last(3) by (intro addsI [OF refl]) auto
  ultimately show ?thesis by (rule adds_trans [rotated])
qed

lemma remove_global_no_update: "remove_global env i a current err tr = (e, t1) \<Longrightarrow> adds no_update tr t1"
  by (drule remove_global_trace) (auto intro!: addsI)

lemma globalAlias_no_update [no_updates]:
  assumes "reconcileGlobalAlias env b i alias current tr = (e, b', t')"
  shows "adds no_update tr t'"
proof -
  obtain e1 b1 t1 where s1: "reserve_phase env b i alias current tr = (e1, b1, t1)" by (metis prod_cases3)
  have a1: "adds no_update tr t1"
    using s1 unfolding reserve_phase_def drop_abandoned_def reserve_alias_def Let_def
    by (auto split: if_splits prod.splits option.splits
        intro: adds_trans dest!: remove_global_no_update persist_no_update)
  obtain e2 t2 where s2: "add_global env i alias current t1 = (e2, t2)" by force
  have a2: "adds no_update t1 t2" using add_global_trace [OF s2] by (auto intro!: addsI)
  have "adds no_update t2 t3" if "complete_phase env b1 i alias current t2 = (e3, b3, t3)" for e3 b3 t3
    using that unfolding complete_phase_def retire_previous_def Let_def
    by (auto split: if_splits prod.splits option.splits
        intro: adds_trans dest!: remove_global_no_update persist_no_update)
  then have "t' \<in> {t1, t2} \<or> adds no_update t2 t'"
    using assms s1 s2 by (auto simp: reconcileGlobalAlias_def split: option.splits)
  then show ?thesis using a1 a2 adds_trans by blast
qed

lemma clear_no_update [no_updates]: "clearBucketReservationAlias env b k a tr = (e, b1, t1) \<Longrightarrow> adds no_update tr t1"
  by (auto simp: clearBucketReservationAlias_def call_defs adds_def split: if_splits sum.splits)

lemma settings_no_update [no_updates]: "updateBucketSettings env b k tr = (e, t1) \<Longrightarrow> adds no_update tr t1"
  by (auto simp: updateBucketSettings_def call_defs split: if_splits sum.splits)

lemma record_grants_no_update: "record_grants env ids b tr = (e, b1, t1) \<Longrightarrow> adds no_update tr t1"
  by (auto dest!: record_grants_trace)

lemma permissions_no_update [no_updates]:
  assumes "reconcileKeyPermissions env b k tr = (e, b1, t1)"
  shows "adds no_update tr t1"
proof -
  have ap: "adds no_update t (snd (apply_targets env i cur des ks n t))" for i cur des ks n t
  proof (induction ks arbitrary: n t)
    case (Cons x ks)
    obtain q t2 where q: "reconcileExactBucketKeyPermissions env i x (gomap_get no_perms cur x) (gomap_get no_perms des x) t = (q, t2)" by force
    have "adds no_update t t2" using exact_permissions [OF q] by (auto intro!: addsI simp: changes_key_def)
    then show ?case using Cons q adds_trans by (fastforce split: option.split)
  qed simp
  have ap': "apply_targets env i cur des ks n t = (m, t') \<Longrightarrow> adds no_update t t'" for i cur des ks n t m t'
    using ap [of t i cur des ks n] by simp
  show ?thesis
    using assms unfolding reconcileKeyPermissions_def Let_def
    by (auto split: sum.splits prod.splits option.splits if_splits dest!: record_grants_no_update ap' intro: adds_trans)
qed

lemma locals_no_update [no_updates]:
  assumes "reconcileLocalAliases env b i keys tr = (r, b1, t1)"
  shows "adds no_update tr t1"
proof -
  have rec: "record_locals env as x t = (e, x', t') \<Longrightarrow> adds no_update t t'" for as x t e x' t'
    by (drule record_locals_trace) (auto intro!: addsI intro: kube_calls_no_update)
  have add: "add_locals env i as s t = (q, t') \<Longrightarrow> adds no_update t t'" for as s t q t'
    by (drule add_locals_trace) (auto intro!: addsI simp: local_adds_def)
  have rem: "remove_locals env i d ks ps s t = (q, t') \<Longrightarrow> adds no_update t t'" for d ks ps s t q t'
    by (drule remove_locals_trace) (auto intro!: addsI simp: local_removals_def)
  show ?thesis
    using assms unfolding reconcileLocalAliases_def Let_def
    by (auto split: sum.splits prod.splits option.splits dest!: rec add rem intro: adds_trans)
qed

lemma lifecycle_no_update [no_updates]:
  assumes "reconcileLifecycleSafe tf env now b i tr = (b1, t1)"
  shows "adds no_update tr t1"
proof (cases "shouldSkipLifecycle b")
  case True
  then show ?thesis using assms by (simp add: reconcileLifecycleSafe_def)
next
  case False
  obtain e t2 where ap: "applyLifecycle tf env b i tr = (e, t2)" by force
  then have "t1 = t2" using assms False by (auto simp: reconcileLifecycleSafe_def split: option.splits)
  then show ?thesis using applyLifecycle_cases(1) [OF ap] by (auto intro!: addsI)
qed

lemma reconcileBucket_no_update:
  "reconcileBucket sum256 tf env now b tr = (r, b1, t1) \<Longrightarrow> adds no_update tr t1"
  unfolding reconcileBucket_def Let_def
  by (auto split: sum.splits prod.splits option.splits if_splits dest!: no_updates) (meson adds_trans)+

lemma patch_no_update [no_updates]: "patch_bucket env b tr = (e, b1, t1) \<Longrightarrow> adds no_update tr t1"
  using adds_mono [OF patch_bucket_adds [of b tr env], of no_update] by auto

lemma retry_no_update [no_updates]: "bucket_status_retry env u f n b tr = (e, b1, t1) \<Longrightarrow> adds no_update tr t1"
  using adds_mono [OF retry_adds [of tr env u f n b] status_call_no_update] by simp

lemma status_update_no_update [no_updates]: "bucket_status_update env b tr = (e, b1, t1) \<Longrightarrow> adds no_update tr t1"
  by (drule status_update_adds) (erule adds_mono, rule status_call_no_update)

lemma updateStatus_no_update [no_updates]: "bucket_updateStatus env now b ph f tr = (r, b1, t1) \<Longrightarrow> adds no_update tr t1"
  using adds_mono [OF updateStatus_adds [of tr env now b ph f] status_call_no_update] by simp

lemma pending_no_update: "update_pending env now why b tr = (r, b1, t1) \<Longrightarrow> adds no_update tr t1"
  using adds_mono [OF pending_adds [of tr env now why b] status_call_no_update] by simp

lemma timeout_no_update [no_updates]: "handleBucketLookupTimeout env now b tr = (r, b1, t1) \<Longrightarrow> adds no_update tr t1"
  unfolding handleBucketLookupTimeout_def recordBucketLookupTimeout_def Let_def
  by (auto split: prod.splits option.splits if_splits dest!: no_updates intro: adds_trans)

lemma decode_no_update [no_updates]: "handleBucketDecodeError env now b cluster tr = (r, b1, t1) \<Longrightarrow> adds no_update tr t1"
proof -
  have c: "adds no_update t (snd (call_status env (ClusterPatch g) t))" for t g by (simp add: call_defs)
  assume "handleBucketDecodeError env now b cluster tr = (r, b1, t1)"
  then show ?thesis
    unfolding handleBucketDecodeError_def recordBucketDecodeError_def Let_def
    by (auto split: prod.splits option.splits if_splits dest!: no_updates intro: adds_trans c [THEN adds_trans])
qed

lemma clears_no_update [no_updates]:
  "clearBucketLookupTimeouts env b tr = (b1, t1) \<Longrightarrow> adds no_update tr t1"
  "clearBucketDecodeErrors env b tr = (b1, t1) \<Longrightarrow> adds no_update tr t1"
  unfolding clearBucketLookupTimeouts_def clearBucketDecodeErrors_def Let_def
  by (auto split: prod.splits option.splits if_splits dest!: patch_no_update)

lemma lookup_no_update [no_updates]: "getBucketWithTimeout env q tr = (r, t1) \<Longrightarrow> adds no_update tr t1"
  by (drule lookup_trace(1)) simp

lemma fromGarage_no_update [no_updates]:
  "updateStatusFromGarage rd tf env now b cluster s tr = (r, b1, t1) \<Longrightarrow> adds no_update tr t1"
  unfolding updateStatusFromGarage_def Let_def
  by (auto split: prod.splits option.splits if_splits sum.splits dest!: no_updates) (meson adds_trans)+

subsection \<open>Releasing the finalizer\<close>

definition keeps_finalizer :: "bucket_call \<Rightarrow> bool" where
  "keeps_finalizer c \<longleftrightarrow> (\<forall>s. c = ObjectUpdate s \<longrightarrow> garageBucketFinalizer \<in> set (gb_Finalizers s))"

lemma no_update_keeps: "adds no_update tr t1 \<Longrightarrow> adds keeps_finalizer tr t1"
  by (erule adds_mono) (simp add: no_update_def keeps_finalizer_def)

lemma update_keeps: "update_bucket env s tr = (e, b1, t1) \<Longrightarrow> garageBucketFinalizer \<in> set (gb_Finalizers s) \<Longrightarrow> adds keeps_finalizer tr t1"
  using adds_mono [OF update_bucket_adds [of s tr env], of keeps_finalizer] by (auto simp: keeps_finalizer_def)

lemma remote_stage_keeps:
  assumes "remote_stage pr env now b cluster tr = (r, b1, t1)" "garageBucketFinalizer \<in> set (gb_Finalizers b)"
  shows "adds keeps_finalizer tr t1"
proof -
  obtain ok b2 t2 where h: "handleBucketAnnotations (bpr_Rendering pr) env b tr = (ok, b2, t2)" by (metis prod_cases3)
  have cleanup: "call_unit env (CleanupIncompleteUploads i s) t = (e, t') \<Longrightarrow> adds keeps_finalizer t t'" for t i s e t'
    by (auto simp: call_defs keeps_finalizer_def)
  have "adds keeps_finalizer tr t2"
    using h assms(2) unfolding handleBucketAnnotations_def
    by (auto simp: drop_annotation_def split: if_splits prod.splits option.splits dest!: update_keeps cleanup
        intro: adds_trans)
  moreover have "t1 = t2 \<or> adds no_update t2 t1"
    using assms h unfolding remote_stage_def
    by (auto split: bool.splits prod.splits sum.splits if_splits dest!: reconcileBucket_no_update no_updates intro: adds_trans)
  ultimately show ?thesis using adds_trans no_update_keeps by blast
qed

lemma live_checks_keeps:
  assumes "live_checks pr env now b tr = Some (r, b1, t1)"
  shows "adds keeps_finalizer tr t1"
  using assms unfolding live_checks_def
  by (auto simp: with_finalizer_def split: if_splits prod.splits option.splits
      dest!: updateStatus_no_update update_keeps intro: no_update_keeps)

lemma cluster_stage_live_keeps:
  assumes "cluster_stage pr env now b cluster tr = (r, b1, t1)" "bucket_live b" "garageBucketFinalizer \<in> set (gb_Finalizers b)"
  shows "adds keeps_finalizer tr t1"
  using assms unfolding cluster_stage_def
  by (auto split: if_splits prod.splits option.splits
      dest!: updateStatus_no_update pending_no_update update_keeps remote_stage_keeps intro: no_update_keeps)

lemma finalize_stage_keeps:
  assumes "finalize_stage pr env now b tr = (r, b1, t1)" "\<not> adds keeps_finalizer tr t1"
  shows "\<exists>t. finalize_bucket (bpr_Sum256 pr) env b tr = (None, t)"
proof (cases "finalize_bucket (bpr_Sum256 pr) env b tr")
  case (Pair e t)
  have fb: "adds no_update tr t"
  proof -
    have res: "resolve_reservation sm env b a pre i x = (q, y) \<Longrightarrow> adds no_update x y" for sm a pre i x q y
      by (drule resolve_trace(1)) (auto intro!: addsI)
    show ?thesis
      using Pair unfolding finalize_bucket_def Let_def
      by (auto simp: call_defs no_update_def split: sum.splits prod.splits if_splits option.splits dest!: res
          intro: adds_trans)
  qed
  show ?thesis
  proof (cases e)
    case (Some x)
    then have "adds no_update t t1 \<or> t1 = tr"
      using assms(1) Pair unfolding finalize_stage_def
      by (auto split: if_splits prod.splits dest!: patch_no_update updateStatus_no_update intro: adds_trans)
    then show ?thesis using assms(2) fb adds_trans no_update_keeps by (metis adds_refl)
  next
    case None
    then show ?thesis using Pair by blast
  qed
qed

lemma not_keeps: "adds keeps_finalizer tr tr' \<Longrightarrow> (ObjectUpdate s, oc) \<in> set (drop (length tr) tr') \<Longrightarrow>
    garageBucketFinalizer \<in> set (gb_Finalizers s)"
  by (auto simp: adds_drop keeps_finalizer_def)

lemma cluster_stage_keeps:
  assumes "cluster_stage pr env now b cluster tr = (r, b', tr')" "garageBucketFinalizer \<in> set (gb_Finalizers b)"
    and "\<not> adds keeps_finalizer tr tr'"
  shows "\<not> bucket_live b \<and> (\<exists>t. finalize_bucket (bpr_Sum256 pr) env b tr = (None, t))"
proof -
  have dead: "\<not> bucket_live b" using cluster_stage_live_keeps [OF assms(1) _ assms(2)] assms(3) by blast
  then have "bucket_updateStatus env now b PhaseFailed True tr = (r, b', tr') \<or> finalize_stage pr env now b tr = (r, b', tr')"
    using assms(1) by (auto simp: cluster_stage_def split: if_splits)
  then show ?thesis
    using dead finalize_stage_keeps assms(3) updateStatus_no_update no_update_keeps by blast
qed

text \<open>
  The finalizer of a GarageBucket is released only with nothing left behind.  If a reconcile of a
  resource that holds the finalizer writes it back without it, the resource is being deleted, and
  either a validated retain marker keeps the remote bucket on purpose, or the cluster is gone and the
  resource is no pending or bound COSI shadow, or finalization of the remote bucket succeeded.
\<close>

theorem finalizer_released_clean:
  assumes "reconcile_object pr env now b tr = (r, b', tr')" "garageBucketFinalizer \<in> set (gb_Finalizers b)"
    and "(ObjectUpdate s, oc) \<in> set (drop (length tr) tr')" "garageBucketFinalizer \<notin> set (gb_Finalizers s)"
  shows "\<not> bucket_live b \<and>
    (validatedCOSIRetain (bpr_Sum256 pr) (bpr_COSIDriver pr) env b tr = Some True
     \<or> be_GetCluster env tr (cluster_name b) = Inl KubeNotFound \<and> \<not> isCOSIManagedPendingOrBoundShadow (bpr_Sum256 pr) b
     \<or> (\<exists>t. finalize_bucket (bpr_Sum256 pr) env b tr = (None, t)))"
proof -
  have no: "\<not> adds keeps_finalizer tr tr'" using assms(3,4) not_keeps by blast
  obtain retain where ret: "validatedCOSIRetain (bpr_Sum256 pr) (bpr_COSIDriver pr) env b tr = Some retain"
    using assms(1) no by (auto simp: reconcile_object_def split: option.splits)
  show ?thesis
  proof (cases retain)
    case True
    then have rel: "release_retained env b tr = (r, b', tr')" using assms(1) ret by (simp add: reconcile_object_def)
    have "bucket_live b \<Longrightarrow> adds keeps_finalizer tr tr'"
      using rel by (auto simp: release_retained_def call_defs keeps_finalizer_def split: prod.splits)
    then show ?thesis using ret True no by auto
  next
    case False
    have lc: "live_checks pr env now b tr = None"
      using assms(1) ret False no live_checks_keeps by (cases "live_checks pr env now b tr") (auto simp: reconcile_object_def)
    show ?thesis
    proof (cases "be_GetCluster env tr (cluster_name b)")
      case (Inl e)
      have st: "bucket_updateStatus env now b PhaseFailed True tr \<noteq> (r, b', tr')" "updateStatusWaiting env now b tr \<noteq> (r, b', tr')"
        using no no_update_keeps updateStatus_no_update pending_no_update unfolding updateStatusWaiting_def by blast+
      then show ?thesis
        using assms(1) ret False lc Inl no by (auto simp: reconcile_object_def split: if_splits)
    next
      case (Inr cluster)
      then have "cluster_stage pr env now b cluster tr = (r, b', tr')" using assms(1) ret False lc by (simp add: reconcile_object_def)
      then show ?thesis using cluster_stage_keeps assms(2) no by blast
    qed
  qed
qed

theorem finalizer_released_clean_witness:
  "\<not> bucket_live sample_deleting \<and>
    (validatedCOSIRetain (\<lambda>s. ''00'') [] sample_cloud sample_deleting [] = Some True
     \<or> be_GetCluster sample_cloud [] (cluster_name sample_deleting) = Inl KubeNotFound
       \<and> \<not> isCOSIManagedPendingOrBoundShadow (\<lambda>s. ''00'') sample_deleting
     \<or> (\<exists>t. finalize_bucket (\<lambda>s. ''00'') sample_cloud sample_deleting [] = (None, t)))"
proof -
  have "garageBucketFinalizer \<in> set (gb_Finalizers sample_deleting)"
    by (simp add: sample_deleting_def with_finalizer_def)
  moreover have "garageBucketFinalizer \<notin> set (gb_Finalizers (without_finalizer sample_deleting))"
    by (simp add: without_finalizer_def)
  ultimately show ?thesis
    using finalizer_released_clean [OF sample_release, of "without_finalizer sample_deleting" Succeeded]
    by (simp add: sample_params_def)
qed

end
