(* ===== verification/KeyModel.thy ===== *)
theory KeyModel
  imports BucketController
begin

text \<open>
  The environment of the GarageKey controller (internal/controller/garagekey_controller.go) and what it
  uses of internal/controller/helpers.go and internal/garageconfig: the RPC secret of a cluster, the key
  material derived from it, and names of generated objects.  HMAC-SHA-256 is the parameter \<open>hmac\<close>,
  which gives the digest in hexadecimal.  As for buckets, both services answer as functions of the
  trace, so that the theorems cover every behaviour of theirs.
\<close>

subsection \<open>Environment and calls\<close>

record key_env =
  kv_Admin :: bucket_env
  kv_Key :: "trace \<Rightarrow> key_call \<Rightarrow> call_error + Key"
  kv_Unit :: "trace \<Rightarrow> key_call \<Rightarrow> call_error option"
  kv_Status :: "trace \<Rightarrow> key_call \<Rightarrow> kube_error option"
  kv_Object :: "trace \<Rightarrow> key_call \<Rightarrow> kube_error + GarageKey"
  kv_ListBuckets :: "trace \<Rightarrow> call_error + string list"
  kv_GetSecret :: "trace \<Rightarrow> NamespacedName \<Rightarrow> kube_error + Secret"
  kv_ListSecrets :: "trace \<Rightarrow> string \<Rightarrow> string \<Rightarrow> kube_error + Secret list"
  kv_GetBucket :: "trace \<Rightarrow> NamespacedName \<Rightarrow> kube_error + GarageBucket"
  kv_ListGarageBuckets :: "trace \<Rightarrow> kube_error + GarageBucket list"
  kv_NewUUID :: "trace \<Rightarrow> string"

definition call_key :: "key_env \<Rightarrow> key_call \<Rightarrow> trace \<Rightarrow> (call_error + Key) \<times> trace" where
  "call_key env c tr = (let r = kv_Key env tr c in (r, tr @ [(KeyCall c, api_outcome (error_of r))]))"

definition call_key_unit :: "key_env \<Rightarrow> key_call \<Rightarrow> trace \<Rightarrow> call_error option \<times> trace" where
  "call_key_unit env c tr = (let r = kv_Unit env tr c in (r, tr @ [(KeyCall c, api_outcome r)]))"

definition call_key_status :: "key_env \<Rightarrow> key_call \<Rightarrow> trace \<Rightarrow> kube_error option \<times> trace" where
  "call_key_status env c tr = (let r = kv_Status env tr c in (r, tr @ [(KeyCall c, kube_outcome r)]))"

definition call_key_object :: "key_env \<Rightarrow> key_call \<Rightarrow> trace \<Rightarrow> (kube_error + GarageKey) \<times> trace" where
  "call_key_object env c tr = (let r = kv_Object env tr c in (r, tr @ [(KeyCall c, kube_outcome (error_of r))]))"

lemmas key_call_defs = call_key_def call_key_unit_def call_key_status_def call_key_object_def Let_def

definition key_name :: "GarageKey \<Rightarrow> NamespacedName" where
  "key_name k = \<lparr>nn_Namespace = gk_Namespace k, nn_Name = gk_Name k\<rparr>"

text \<open>UpdateStatusWithRetry, for a GarageKey.\<close>

fun key_status_retry ::
    "key_env \<Rightarrow> string \<Rightarrow> (GarageKey \<Rightarrow> GarageKey) \<Rightarrow> nat \<Rightarrow> GarageKey \<Rightarrow> trace
     \<Rightarrow> status_error option \<times> GarageKey \<times> trace" where
  "key_status_retry env originalUID reapply 0 obj tr = (Some StatusRetriesExhausted, obj, tr)"
| "key_status_retry env originalUID reapply (Suc n) obj tr =
     (case call_key_status env (KeyStatusUpdate obj) tr of
        (None, t1) \<Rightarrow> (None, obj, t1)
      | (Some e, t1) \<Rightarrow>
          if e \<noteq> KubeConflict then (Some (StatusUpdateFailed e), obj, t1)
          else if 0 < n then
            (case call_key_object env (KeyGet (key_name obj)) t1 of
               (Inl e', t2) \<Rightarrow> (Some (StatusRefetchFailed e'), obj, t2)
             | (Inr fresh, t2) \<Rightarrow>
                 if originalUID \<noteq> [] \<and> gk_UID fresh \<noteq> originalUID then (Some StatusObjectRecreated, fresh, t2)
                 else key_status_retry env originalUID reapply n (reapply fresh) t2)
          else key_status_retry env originalUID reapply n obj t1)"

definition key_status_update ::
    "key_env \<Rightarrow> GarageKey \<Rightarrow> trace \<Rightarrow> status_error option \<times> GarageKey \<times> trace" where
  "key_status_update env obj tr =
     key_status_retry env (gk_UID obj) (\<lambda>fresh. fresh\<lparr>gk_Status := gk_Status obj\<rparr>) StatusUpdateMaxRetries obj tr"

definition patch_key :: "key_env \<Rightarrow> GarageKey \<Rightarrow> trace \<Rightarrow> kube_error option \<times> GarageKey \<times> trace" where
  "patch_key env k tr =
     (case call_key_object env (KeyPatch k) tr of (Inl e, t1) \<Rightarrow> (Some e, k, t1) | (Inr s, t1) \<Rightarrow> (None, s, t1))"

definition update_key :: "key_env \<Rightarrow> GarageKey \<Rightarrow> trace \<Rightarrow> kube_error option \<times> GarageKey \<times> trace" where
  "update_key env k tr =
     (case call_key_object env (KeyUpdate k) tr of (Inl e, t1) \<Rightarrow> (Some e, k, t1) | (Inr s, t1) \<Rightarrow> (None, s, t1))"

subsection \<open>The RPC secret of a cluster\<close>

definition RPCSecretKey :: string where "RPCSecretKey = ''rpc-secret''"

definition defaultRPCSecretName :: "GarageCluster \<Rightarrow> string" where
  "defaultRPCSecretName cluster = gc_Name cluster @ ''-'' @ RPCSecretKey"

definition managedRPCSecretName :: "GarageCluster \<Rightarrow> string" where
  "managedRPCSecretName cluster =
     (if cs_RPCSecretRef (gc_Spec cluster) then gc_Name cluster @ ''-rpc-secret-snapshot''
      else if (case cs_ConnectTo (gc_Spec cluster) of None \<Rightarrow> False | Some c \<Rightarrow> ct_RPCSecretRef c \<or> ct_ClusterRef c \<noteq> None)
      then gc_Name cluster @ ''-rpc-secret-snapshot''
      else defaultRPCSecretName cluster)"

text \<open>encoding/hex, on characters.\<close>

definition hex_value :: "char \<Rightarrow> nat option" where
  "hex_value c =
     (let n = (of_char c :: nat) in
      if 48 \<le> n \<and> n \<le> 57 then Some (n - 48)
      else if 97 \<le> n \<and> n \<le> 102 then Some (n - 87)
      else if 65 \<le> n \<and> n \<le> 70 then Some (n - 55) else None)"

fun hex_decode :: "string \<Rightarrow> string option" where
  "hex_decode [] = Some []"
| "hex_decode [c] = None"
| "hex_decode (a # b # s) =
     (case (hex_value a, hex_value b, hex_decode s) of
        (Some h, Some l, Some r) \<Rightarrow> Some (char_of (16 * h + l) # r)
      | _ \<Rightarrow> None)"

definition hex_digit :: "nat \<Rightarrow> char" where
  "hex_digit n = char_of (if n < 10 then n + 48 else n + 87)"

definition hex_encode :: "string \<Rightarrow> string" where
  "hex_encode s = concat (map (\<lambda>c. [hex_digit ((of_char c :: nat) div 16), hex_digit ((of_char c :: nat) mod 16)]) s)"

definition rpc_space :: "char \<Rightarrow> bool" where
  "rpc_space c \<longleftrightarrow> c \<in> {CHR '' '', CHR 0x09, CHR 0x0D, CHR 0x0A}"

text \<open>The canonical text and the fingerprint of an RPC secret, or nothing when it is malformed.\<close>

definition canonicalRPCIdentity :: "(string \<Rightarrow> string) \<Rightarrow> string \<Rightarrow> (string \<times> string) option" where
  "canonicalRPCIdentity sum256 raw =
     (case hex_decode (trim_right rpc_space raw) of
        None \<Rightarrow> None
      | Some decoded \<Rightarrow> if length decoded \<noteq> 32 then None else Some (hex_encode decoded, sum256 decoded))"

datatype rpc_error = RPCSecretReadFailed kube_error | RPCSecretKeyMissing | RPCSecretInvalid

definition GetRPCSecret :: "(string \<Rightarrow> string) \<Rightarrow> key_env \<Rightarrow> trace \<Rightarrow> GarageCluster \<Rightarrow> rpc_error + string" where
  "GetRPCSecret sum256 env tr cluster =
     (case kv_GetSecret env tr \<lparr>nn_Namespace = gc_Namespace cluster, nn_Name = managedRPCSecretName cluster\<rparr> of
        Inl e \<Rightarrow> Inl (RPCSecretReadFailed e)
      | Inr secret \<Rightarrow>
          (case map_of (sec_Data secret) RPCSecretKey of
             None \<Rightarrow> Inl RPCSecretKeyMissing
           | Some raw \<Rightarrow>
               (case canonicalRPCIdentity sum256 raw of
                  None \<Rightarrow> Inl RPCSecretInvalid
                | Some (canonical, _) \<Rightarrow>
                    (case hex_decode canonical of None \<Rightarrow> Inl RPCSecretInvalid | Some decoded \<Rightarrow> Inr decoded))))"

text \<open>Key material bound to a namespace and a name.\<close>

definition deriveKeyMaterial :: "(string \<Rightarrow> string \<Rightarrow> string) \<Rightarrow> string \<Rightarrow> string \<Rightarrow> string \<Rightarrow> string \<times> string" where
  "deriveKeyMaterial hmac rpcSecret namespace keyName =
     (let identity = namespace @ ''/'' @ keyName in
      (''GK'' @ take 24 (hmac rpcSecret (''ak:'' @ identity)), hmac rpcSecret (''sk:'' @ identity)))"

subsection \<open>Hexadecimal text\<close>

lemma hex_decode_length: "hex_decode s = Some r \<Longrightarrow> length s = 2 * length r"
  by (induction s arbitrary: r rule: hex_decode.induct) (auto split: option.splits)

lemma hex_value_digit: "n < 16 \<Longrightarrow> hex_value (hex_digit n) = Some n"
  by (auto simp: hex_value_def hex_digit_def Let_def)

lemma hex_decode_encode: "hex_decode (hex_encode s) = Some s"
proof (induction s)
  case Nil
  then show ?case by (simp add: hex_encode_def)
next
  case (Cons c s)
  have c: "(of_char c :: nat) < 256" by (rule nat_of_char_less_256)
  then have "hex_value (hex_digit ((of_char c :: nat) div 16)) = Some ((of_char c :: nat) div 16)"
    "hex_value (hex_digit ((of_char c :: nat) mod 16)) = Some ((of_char c :: nat) mod 16)"
    by (auto intro!: hex_value_digit simp: less_mult_imp_div_less)
  moreover have "char_of (16 * ((of_char c :: nat) div 16) + (of_char c :: nat) mod 16) = c" by simp
  ultimately show ?case using Cons by (simp add: hex_encode_def)
qed

text \<open>The secret is always 32 bytes, whatever text it was stored as.\<close>

lemma rpc_secret_length: "GetRPCSecret sum256 env tr cluster = Inr s \<Longrightarrow> length s = 32"
  by (auto simp: GetRPCSecret_def canonicalRPCIdentity_def hex_decode_encode split: sum.splits option.splits if_splits)

end
