(* ===== verification/KeyIdentity.thy ===== *)
theory KeyIdentity
  imports KeyModel
begin

text \<open>
  Which Garage access key a GarageKey manages (getOrCreateKey, importKey, ensureImportKeySnapshot,
  createOrAdoptDeterministic, updateKeyIfNeeded and helpers of
  internal/controller/garagekey_controller.go).  A key is the one tracked in the status, one imported
  with configured material, or one whose material is derived from the cluster's RPC secret; a key that
  merely has the right identifier is not adopted unless its secret matches too.
\<close>

subsection \<open>Constants, parameters and errors\<close>

definition keyReplacementNonceAnnotation :: string where
  "keyReplacementNonceAnnotation = ''garage.rajsingh.info/key-replacement-nonce''"
definition keyResolvedImportIDAnnotation :: string where
  "keyResolvedImportIDAnnotation = ''garage.rajsingh.info/resolved-import-access-key-id''"
definition keyImportSnapshotLabel :: string where
  "keyImportSnapshotLabel = ''garage.rajsingh.info/key-import-snapshot''"
definition keyImportSnapshotLabelValue :: string where "keyImportSnapshotLabelValue = ''true''"
definition keyReplacementIdentitySeparator :: string where
  "keyReplacementIdentitySeparator = CHR 0x00 # ''replacement:''"
definition AnnotationCOSIAccountID :: string where
  "AnnotationCOSIAccountID = ''garage.rajsingh.info/cosi-account-id''"
definition defaultAccessKeyIDKey :: string where "defaultAccessKeyIDKey = ''access-key-id''"
definition defaultSecretAccessKeyKey :: string where "defaultSecretAccessKeyKey = ''secret-access-key''"

datatype resolve_failure = BucketUnreadable kube_error | BucketOfOtherCluster | AliasUnresolved call_error

datatype key_error =
    COSIAccountUntracked | COSIAccountMismatch | COSIKeyGone
  | TrackedKeyFailed call_error
  | SnapshotForeign | SnapshotMutable | SnapshotIncomplete
  | SnapshotReadFailed kube_error | ImportSecretReadFailed kube_error | ImportSecretEmpty | ImportSecretMissing string
  | SnapshotCreateFailed kube_error
  | ImportPinMismatch | ImportUnexpectedKey | ImportSecretMismatch | ImportCheckFailed call_error
  | ImportPinFailed kube_error | ImportConflictUnverified call_error | ImportConflictForeign | ImportFailed call_error
  | HandleHasNoRPCSecret | RPCSecretUnavailable rpc_error | RPCSecretEmpty
  | LegacyCheckFailed call_error | DeterministicForeign | KeyTombstoned | ReplacementPinFailed kube_error
  | DeterministicUnfetchable call_error | DeterministicImportFailed call_error
  | UpdateKeyFailed call_error
  | KeyStatusFailed status_error
  | BucketListFailed call_error | ResolveBucketFailed string resolve_failure | WaitingForBucket string | GrantsStatusFailed kube_error
  | GarageBucketListFailed kube_error | BucketPermissionsFailed nat

record key_params =
  kpr_HMAC :: "string \<Rightarrow> string \<Rightarrow> string"
  kpr_Sum256 :: "string \<Rightarrow> string"
  kpr_Time :: time_format
  kpr_Kube :: kube_env

definition key_annotate :: "string \<Rightarrow> string \<Rightarrow> GarageKey \<Rightarrow> GarageKey" where
  "key_annotate a v k = k\<lparr>gk_Annotations := AList.update a v (gk_Annotations k)\<rparr>"

definition display_name :: "GarageKey \<Rightarrow> string" where
  "display_name k = (if ks_Name (gk_Spec k) \<noteq> [] then ks_Name (gk_Spec k) else gk_Name k)"

subsection \<open>Bringing an existing key up to date\<close>

definition key_update_body :: "time_format \<Rightarrow> GarageKey \<Rightarrow> Key \<Rightarrow> UpdateKeyRequestBody \<times> bool" where
  "key_update_body tf k g =
     (let spec = gk_Spec k;
          rename = (gky_Name g \<noteq> display_name k);
          never = (ks_NeverExpires spec \<and> gky_Expiration g \<noteq> Some ''never'');
          expiry = (if never then None
                    else case ks_ExpiresAt spec of
                      None \<Rightarrow> None
                    | Some t \<Rightarrow>
                        let desired = tf_Format tf t; current = (case gky_Expiration g of None \<Rightarrow> [] | Some e \<Rightarrow> e)
                        in if current \<noteq> desired then Some desired else None);
          change = (case ks_Permissions spec of
              None \<Rightarrow> None
            | Some p \<Rightarrow> if kper_CreateBucket p \<noteq> kper_CreateBucket (gky_Permissions g) then Some (kper_CreateBucket p) else None)
      in (\<lparr>uk_Name = (if rename then display_name k else []), uk_Expiration = expiry, uk_NeverExpires = never,
           uk_Allow = (if change = Some True then Some \<lparr>kper_CreateBucket = True\<rparr> else None),
           uk_Deny = (if change = Some False then Some \<lparr>kper_CreateBucket = True\<rparr> else None)\<rparr>,
          rename \<or> never \<or> expiry \<noteq> None \<or> change \<noteq> None))"

definition updateKeyIfNeeded :: "key_params \<Rightarrow> key_env \<Rightarrow> GarageKey \<Rightarrow> Key \<Rightarrow> trace \<Rightarrow> key_error option \<times> trace" where
  "updateKeyIfNeeded pr env k g tr =
     (case key_update_body (kpr_Time pr) k g of
        (body, needed) \<Rightarrow>
          if \<not> needed then (None, tr)
          else (case call_key env (UpdateKey (gky_AccessKeyID g) body) tr of
                  (Inl e, t1) \<Rightarrow> (Some (UpdateKeyFailed e), t1)
                | (Inr _, t1) \<Rightarrow> (None, t1)))"

subsection \<open>Importing configured material\<close>

definition GarageKeyImportSnapshotName :: "(string \<Rightarrow> string) \<Rightarrow> kube_env \<Rightarrow> string \<Rightarrow> string" where
  "GarageKeyImportSnapshotName sum256 ke name =
     (let identity = name @ ''-import-snapshot'' in
      if length identity \<le> 63 \<and> ke_label ke identity then identity
      else
        let suffix = ''-'' @ take 16 (sum256 identity);
            dash = (\<lambda>c. c = CHR ''-'');
            pre = trim_right dash (dropWhile dash (map (\<lambda>c. if c = CHR ''.'' then CHR ''-'' else c) (ToLower identity)));
            short = (if length pre > 63 - length suffix then trim_right dash (take (63 - length suffix) pre) else pre)
        in (if short = [] then ''garage'' else short) @ suffix)"

definition importKeySnapshotName :: "key_params \<Rightarrow> GarageKey \<Rightarrow> string" where
  "importKeySnapshotName pr k = GarageKeyImportSnapshotName (kpr_Sum256 pr) (kpr_Kube pr) (gk_Name k)"

definition snapshot_name :: "key_params \<Rightarrow> GarageKey \<Rightarrow> NamespacedName" where
  "snapshot_name pr k = \<lparr>nn_Namespace = gk_Namespace k, nn_Name = importKeySnapshotName pr k\<rparr>"

definition controlled_by_key :: "Secret \<Rightarrow> GarageKey \<Rightarrow> bool" where
  "controlled_by_key s k \<longleftrightarrow> sec_Controller s = Some (gk_UID k)"

definition importKeySnapshotMaterial :: "GarageKey \<Rightarrow> Secret \<Rightarrow> key_error + string \<times> string" where
  "importKeySnapshotMaterial k snapshot =
     (if annotation (sec_Labels snapshot) keyImportSnapshotLabel \<noteq> keyImportSnapshotLabelValue \<or> \<not> controlled_by_key snapshot k
      then Inl SnapshotForeign
      else if sec_Immutable snapshot \<noteq> Some True then Inl SnapshotMutable
      else let accessKeyID = annotation (sec_Data snapshot) defaultAccessKeyIDKey;
               secretKey = annotation (sec_Data snapshot) defaultSecretAccessKeyKey
           in if accessKeyID = [] \<or> secretKey = [] then Inl SnapshotIncomplete else Inr (accessKeyID, secretKey))"

definition import_snapshot :: "key_params \<Rightarrow> GarageKey \<Rightarrow> string \<Rightarrow> string \<Rightarrow> Secret" where
  "import_snapshot pr k accessKeyID secretKey =
     \<lparr>sec_Namespace = gk_Namespace k, sec_Name = importKeySnapshotName pr k, sec_UID = [],
      sec_Labels = [(keyImportSnapshotLabel, keyImportSnapshotLabelValue)], sec_Annotations = [],
      sec_Controller = Some (gk_UID k), sec_Immutable = Some True, sec_Type = ''Opaque'',
      sec_Data = [(defaultAccessKeyIDKey, accessKeyID), (defaultSecretAccessKeyKey, secretKey)]\<rparr>"

text \<open>The material in the Secret the spec names.\<close>

definition import_source ::
    "key_env \<Rightarrow> GarageKey \<Rightarrow> ImportKeyConfig \<Rightarrow> SecretReference \<Rightarrow> trace \<Rightarrow> key_error + string \<times> string" where
  "import_source env k ik ref tr =
     (case kv_GetSecret env tr \<lparr>nn_Namespace = (if sr_Namespace ref = [] then gk_Namespace k else sr_Namespace ref),
             nn_Name = sr_Name ref\<rparr> of
        Inl e \<Rightarrow> Inl (ImportSecretReadFailed e)
      | Inr source \<Rightarrow>
          if sec_Data source = [] then Inl ImportSecretEmpty
          else
            let akKey = (if ik_AccessKeyIDKey ik \<noteq> [] then ik_AccessKeyIDKey ik else defaultAccessKeyIDKey);
                skKey = (if ik_SecretAccessKeyKey ik \<noteq> [] then ik_SecretAccessKeyKey ik else defaultSecretAccessKeyKey);
                accessKeyID = annotation (sec_Data source) akKey;
                secretKey = annotation (sec_Data source) skKey
            in if accessKeyID = [] then Inl (ImportSecretMissing akKey)
               else if secretKey = [] then Inl (ImportSecretMissing skKey)
               else Inr (accessKeyID, secretKey))"

definition ensureImportKeySnapshot ::
    "key_params \<Rightarrow> key_env \<Rightarrow> GarageKey \<Rightarrow> ImportKeyConfig \<Rightarrow> SecretReference \<Rightarrow> trace
     \<Rightarrow> (key_error + string \<times> string) \<times> trace" where
  "ensureImportKeySnapshot pr env k ik ref tr =
     (case kv_GetSecret env tr (snapshot_name pr k) of
        Inr existing \<Rightarrow> (importKeySnapshotMaterial k existing, tr)
      | Inl e \<Rightarrow>
          if e \<noteq> KubeNotFound then (Inl (SnapshotReadFailed e), tr)
          else (case import_source env k ik ref tr of
             Inl e \<Rightarrow> (Inl e, tr)
           | Inr (accessKeyID, secretKey) \<Rightarrow>
               (case call_key_status env (SecretCreate (import_snapshot pr k accessKeyID secretKey)) tr of
                  (None, t1) \<Rightarrow> (Inr (accessKeyID, secretKey), t1)
                | (Some e, t1) \<Rightarrow>
                    if e \<noteq> KubeAlreadyExists then (Inl (SnapshotCreateFailed e), t1)
                    else (case kv_GetSecret env t1 (snapshot_name pr k) of
                            Inl e \<Rightarrow> (Inl (SnapshotReadFailed e), t1)
                          | Inr existing \<Rightarrow> (importKeySnapshotMaterial k existing, t1)))))"

text \<open>The material itself: inline, or pinned in the snapshot.\<close>

definition import_material ::
    "key_params \<Rightarrow> key_env \<Rightarrow> GarageKey \<Rightarrow> ImportKeyConfig \<Rightarrow> trace \<Rightarrow> (key_error + string \<times> string) \<times> trace" where
  "import_material pr env k ik tr =
     (case ik_SecretRef ik of
        None \<Rightarrow> (Inr (ik_AccessKeyID ik, ik_SecretAccessKey ik), tr)
      | Some ref \<Rightarrow> ensureImportKeySnapshot pr env k ik ref tr)"

definition pin_import :: "key_env \<Rightarrow> GarageKey \<Rightarrow> string \<Rightarrow> trace \<Rightarrow> key_error option \<times> GarageKey \<times> trace" where
  "pin_import env k accessKeyID tr =
     (if annotation (gk_Annotations k) keyResolvedImportIDAnnotation \<noteq> [] then (None, k, tr)
      else (case patch_key env (key_annotate keyResolvedImportIDAnnotation accessKeyID k) tr of
              (Some e, k1, t1) \<Rightarrow> (Some (ImportPinFailed e), k1, t1)
            | (None, k1, t1) \<Rightarrow> (None, k1, t1)))"

definition run_import ::
    "key_env \<Rightarrow> string \<Rightarrow> string \<Rightarrow> string \<Rightarrow> trace \<Rightarrow> (key_error + Key \<times> string) \<times> trace" where
  "run_import env accessKeyID secretKey keyName tr =
     (case call_key env (ImportKey accessKeyID secretKey keyName) tr of
        (Inr imported, t1) \<Rightarrow> (Inr (imported, secretKey), t1)
      | (Inl e, t1) \<Rightarrow>
          if IsConflict (ce_API e) then
            (case call_key env (GetKeyInfo accessKeyID True) t1 of
               (Inl e', t2) \<Rightarrow> (Inl (ImportConflictUnverified e'), t2)
             | (Inr existing, t2) \<Rightarrow>
                 if gky_AccessKeyID existing = accessKeyID \<and> gky_SecretAccessKey existing = secretKey
                 then (Inr (existing, secretKey), t2) else (Inl ImportConflictForeign, t2))
          else (Inl (ImportFailed e), t1))"

definition importKey ::
    "key_params \<Rightarrow> key_env \<Rightarrow> GarageKey \<Rightarrow> ImportKeyConfig \<Rightarrow> string \<Rightarrow> trace
     \<Rightarrow> (key_error + Key \<times> string) \<times> GarageKey \<times> trace" where
  "importKey pr env k ik keyName tr =
     (case import_material pr env k ik tr of
        (Inl e, t1) \<Rightarrow> (Inl e, k, t1)
      | (Inr (accessKeyID, secretKey), t1) \<Rightarrow>
          let pinned = annotation (gk_Annotations k) keyResolvedImportIDAnnotation in
          if pinned \<noteq> [] \<and> pinned \<noteq> accessKeyID then (Inl ImportPinMismatch, k, t1)
          else (case call_key env (GetKeyInfo accessKeyID True) t1 of
             (Inr existing, t2) \<Rightarrow>
               (if gky_AccessKeyID existing \<noteq> accessKeyID then Inl ImportUnexpectedKey
                else if gky_SecretAccessKey existing \<noteq> secretKey then Inl ImportSecretMismatch
                else Inr (existing, secretKey), k, t2)
           | (Inl e, t2) \<Rightarrow>
               if \<not> IsNotFound (ce_API e) then (Inl (ImportCheckFailed e), k, t2)
               else (case pin_import env k accessKeyID t2 of
                       (Some e, k1, t3) \<Rightarrow> (Inl e, k1, t3)
                     | (None, k1, t3) \<Rightarrow>
                         (case run_import env accessKeyID secretKey keyName t3 of (r, t4) \<Rightarrow> (r, k1, t4)))))"

subsection \<open>Deterministic material\<close>

definition replacement_suffix :: "GarageKey \<Rightarrow> string" where
  "replacement_suffix k =
     (let nonce = annotation (gk_Annotations k) keyReplacementNonceAnnotation in
      if nonce \<noteq> [] then keyReplacementIdentitySeparator @ nonce else [])"

definition deterministicKeyName :: "GarageKey \<Rightarrow> string" where
  "deterministicKeyName k = gk_Name k @ replacement_suffix k"

definition legacyDeterministicKeyName :: "GarageKey \<Rightarrow> string \<Rightarrow> string" where
  "legacyDeterministicKeyName k keyName = keyName @ replacement_suffix k"

text \<open>The probe for a key of an older release: found (after an update), not found, or an error.\<close>

definition probe_legacy ::
    "key_params \<Rightarrow> key_env \<Rightarrow> string \<Rightarrow> GarageKey \<Rightarrow> string \<Rightarrow> trace \<Rightarrow> (key_error + (Key \<times> string) option) \<times> trace" where
  "probe_legacy pr env rpcSecret k keyName tr =
     (if kst_AccessKeyID (gk_Status k) = [] \<and> keyName \<noteq> [] \<and> keyName \<noteq> gk_Name k then
        (case deriveKeyMaterial (kpr_HMAC pr) rpcSecret (gk_Namespace k) (legacyDeterministicKeyName k keyName) of
           (legacyID, legacySecret) \<Rightarrow>
             (case call_key env (GetKeyInfo legacyID True) tr of
                (Inr legacy, t1) \<Rightarrow>
                  if gky_AccessKeyID legacy = legacyID \<and> gky_SecretAccessKey legacy = legacySecret then
                    (case updateKeyIfNeeded pr env k legacy t1 of
                       (Some e, t2) \<Rightarrow> (Inl e, t2)
                     | (None, t2) \<Rightarrow> (Inr (Some (legacy, legacySecret)), t2))
                  else (Inr None, t1)
              | (Inl e, t1) \<Rightarrow> if \<not> IsNotFound (ce_API e) then (Inl (LegacyCheckFailed e), t1) else (Inr None, t1)))
      else (Inr None, tr))"

definition replace_tombstone :: "key_env \<Rightarrow> GarageKey \<Rightarrow> trace \<Rightarrow> key_error \<times> GarageKey \<times> trace" where
  "replace_tombstone env k tr =
     (case patch_key env (key_annotate keyReplacementNonceAnnotation (kv_NewUUID env tr) k) tr of
        (Some e, k1, t1) \<Rightarrow> (ReplacementPinFailed e, k1, t1)
      | (None, k1, t1) \<Rightarrow> (KeyTombstoned, k1, t1))"

definition import_derived ::
    "key_params \<Rightarrow> key_env \<Rightarrow> string \<times> string \<Rightarrow> GarageKey \<Rightarrow> string \<Rightarrow> trace
     \<Rightarrow> (key_error + Key \<times> string) \<times> GarageKey \<times> trace" where
  "import_derived pr env material k keyName tr =
     (case material of (accessKeyID, secretKey) \<Rightarrow>
      case call_key env (ImportKey accessKeyID secretKey keyName) tr of
        (Inr imported, t1) \<Rightarrow> (Inr (imported, secretKey), k, t1)
      | (Inl e, t1) \<Rightarrow>
          if \<not> IsConflict (ce_API e) then (Inl (DeterministicImportFailed e), k, t1)
          else (case call_key env (GetKeyInfo accessKeyID True) t1 of
             (Inr existing, t2) \<Rightarrow>
               if gky_AccessKeyID existing \<noteq> accessKeyID \<or> gky_SecretAccessKey existing \<noteq> secretKey
               then (Inl DeterministicForeign, k, t2)
               else (case updateKeyIfNeeded pr env k existing t2 of
                       (Some e, t3) \<Rightarrow> (Inl e, k, t3)
                     | (None, t3) \<Rightarrow> (Inr (existing, secretKey), k, t3))
           | (Inl e', t2) \<Rightarrow>
               if IsNotFound (ce_API e') then (case replace_tombstone env k t2 of (r, k1, t3) \<Rightarrow> (Inl r, k1, t3))
               else (Inl (DeterministicUnfetchable e'), k, t2)))"

definition createOrAdoptDeterministic ::
    "key_params \<Rightarrow> key_env \<Rightarrow> GarageKey \<Rightarrow> GarageCluster \<Rightarrow> string \<Rightarrow> trace
     \<Rightarrow> (key_error + Key \<times> string) \<times> GarageKey \<times> trace" where
  "createOrAdoptDeterministic pr env k cluster keyName tr =
     (case GetRPCSecret (kpr_Sum256 pr) env tr cluster of
        Inl e \<Rightarrow> (Inl (if IsManagementHandle (Some cluster) then HandleHasNoRPCSecret else RPCSecretUnavailable e), k, tr)
      | Inr rpcSecret \<Rightarrow>
          if rpcSecret = [] then (Inl RPCSecretEmpty, k, tr)
          else (case probe_legacy pr env rpcSecret k keyName tr of
             (Inl e, t1) \<Rightarrow> (Inl e, k, t1)
           | (Inr (Some found), t1) \<Rightarrow> (Inr found, k, t1)
           | (Inr None, t1) \<Rightarrow>
               import_derived pr env (deriveKeyMaterial (kpr_HMAC pr) rpcSecret (gk_Namespace k) (deterministicKeyName k))
                 k keyName t1))"

subsection \<open>The key of a resource\<close>

definition check_cosi_account :: "GarageKey \<Rightarrow> key_error option" where
  "check_cosi_account k =
     (let account = annotation (gk_Annotations k) AnnotationCOSIAccountID in
      if account = [] then None
      else if kst_AccessKeyID (gk_Status k) = [] then Some COSIAccountUntracked
      else if kst_AccessKeyID (gk_Status k) \<noteq> account then Some COSIAccountMismatch
      else None)"

definition getOrCreateKey ::
    "key_params \<Rightarrow> key_env \<Rightarrow> GarageKey \<Rightarrow> GarageCluster \<Rightarrow> string \<Rightarrow> trace
     \<Rightarrow> (key_error + Key \<times> string) \<times> GarageKey \<times> trace" where
  "getOrCreateKey pr env k cluster keyName tr =
     (let create = (\<lambda>t. case ks_ImportKey (gk_Spec k) of
             Some ik \<Rightarrow> importKey pr env k ik keyName t
           | None \<Rightarrow> createOrAdoptDeterministic pr env k cluster keyName t)
      in case check_cosi_account k of
        Some e \<Rightarrow> (Inl e, k, tr)
      | None \<Rightarrow>
          if kst_AccessKeyID (gk_Status k) \<noteq> [] then
            (case call_key env (GetKeyInfo (kst_AccessKeyID (gk_Status k)) True) tr of
               (Inr existing, t1) \<Rightarrow>
                 (case updateKeyIfNeeded pr env k existing t1 of
                    (Some e, t2) \<Rightarrow> (Inl e, k, t2)
                  | (None, t2) \<Rightarrow> (Inr (existing, gky_SecretAccessKey existing), k, t2))
             | (Inl e, t1) \<Rightarrow>
                 if \<not> IsNotFound (ce_API e) then (Inl (TrackedKeyFailed e), k, t1)
                 else if annotation (gk_Annotations k) AnnotationCOSIAccountID \<noteq> [] then (Inl COSIKeyGone, k, t1)
                 else create t1)
          else create tr)"

subsection \<open>What the steps of an import do\<close>

lemma patch_key_trace: "patch_key env k tr = (e, k1, t1) \<Longrightarrow> t1 = tr @ [(KeyCall (KeyPatch k), if e = None then Succeeded
    else if e = Some KubeNotFound then Missing else Failed)]"
  by (auto simp: patch_key_def key_call_defs kube_outcome_def split: sum.splits)

text \<open>An updated key leaves only an UpdateKey behind.\<close>

lemma update_needed_trace:
  assumes "updateKeyIfNeeded pr env k g tr = (e, t1)"
  shows "\<exists>new. t1 = tr @ new \<and> (\<forall>c \<in> fst ` set new. \<exists>i u. c = KeyCall (UpdateKey i u))"
  using assms by (auto simp: updateKeyIfNeeded_def key_call_defs split: prod.splits if_splits sum.splits)

lemma run_import_result:
  assumes "run_import env i s n tr = (r, t1)"
  shows "\<exists>oc more. t1 = tr @ (KeyCall (ImportKey i s n), oc) # more \<and> (\<forall>c \<in> fst ` set more. c = KeyCall (GetKeyInfo i True))"
    and "r = Inr (g, s') \<Longrightarrow> s' = s \<and> (kv_Key env tr (ImportKey i s n) = Inr g \<or> gky_AccessKeyID g = i \<and> gky_SecretAccessKey g = s)"
  using assms by (auto simp: run_import_def key_call_defs split: sum.splits if_splits)

lemma pin_import_result:
  assumes "pin_import env k i tr = (e, k1, t1)"
  shows "(t1 = tr \<and> e = None \<and> annotation (gk_Annotations k) keyResolvedImportIDAnnotation \<noteq> [])
     \<or> (\<exists>oc. t1 = tr @ [(KeyCall (KeyPatch (key_annotate keyResolvedImportIDAnnotation i k)), oc)] \<and> (e = None \<longrightarrow> oc = Succeeded))"
  using assms by (auto simp: pin_import_def split: if_splits prod.splits option.splits dest!: patch_key_trace)

lemma snapshot_result:
  assumes "ensureImportKeySnapshot pr env k ik ref tr = (r, t1)"
  shows "\<exists>new. t1 = tr @ new \<and> (\<forall>c \<in> fst ` set new. \<exists>s. c = KeyCall (SecretCreate s))"
  using assms
  by (auto simp: ensureImportKeySnapshot_def key_call_defs split: sum.splits option.splits if_splits prod.splits)

text \<open>
  Material taken from a Secret is pinned first: it stands in an immutable snapshot the key controls, or
  was just copied into one.
\<close>

definition pinned_material :: "key_params \<Rightarrow> key_env \<Rightarrow> GarageKey \<Rightarrow> trace \<Rightarrow> trace \<Rightarrow> string \<Rightarrow> string \<Rightarrow> bool" where
  "pinned_material pr env k tr t1 i s \<longleftrightarrow>
     (\<exists>t snapshot. prefix tr t \<and> prefix t t1 \<and> kv_GetSecret env t (snapshot_name pr k) = Inr snapshot \<and> controlled_by_key snapshot k
        \<and> sec_Immutable snapshot = Some True \<and> annotation (sec_Data snapshot) defaultAccessKeyIDKey = i
        \<and> annotation (sec_Data snapshot) defaultSecretAccessKeyKey = s)
     \<or> (KeyCall (SecretCreate (import_snapshot pr k i s)), Succeeded) \<in> set (drop (length tr) t1)"

lemma snapshot_pinned:
  assumes "ensureImportKeySnapshot pr env k ik ref tr = (Inr (i, s), t1)"
  shows "pinned_material pr env k tr t1 i s"
proof -
  have m: "importKeySnapshotMaterial k x = Inr (i, s) \<Longrightarrow> controlled_by_key x k \<and> sec_Immutable x = Some True
      \<and> annotation (sec_Data x) defaultAccessKeyIDKey = i \<and> annotation (sec_Data x) defaultSecretAccessKeyKey = s" for x
    by (auto simp: importKeySnapshotMaterial_def Let_def split: if_splits)
  show ?thesis
  proof (cases "kv_GetSecret env tr (snapshot_name pr k)")
    case (Inr x)
    then have "importKeySnapshotMaterial k x = Inr (i, s)" "t1 = tr" using assms by (auto simp: ensureImportKeySnapshot_def)
    then show ?thesis using m Inr unfolding pinned_material_def by blast
  next
    case (Inl e)
    then obtain i' s' where src: "e = KubeNotFound" "import_source env k ik ref tr = Inr (i', s')"
      using assms by (auto simp: ensureImportKeySnapshot_def split: if_splits sum.splits)
    let ?c = "SecretCreate (import_snapshot pr k i' s')"
    show ?thesis
    proof (cases "kv_Status env tr ?c")
      case None
      then have "i' = i \<and> s' = s \<and> t1 = tr @ [(KeyCall ?c, Succeeded)]"
        using assms Inl src by (auto simp: ensureImportKeySnapshot_def key_call_defs)
      then show ?thesis unfolding pinned_material_def by simp
    next
      case (Some e')
      then obtain x where "kv_GetSecret env t1 (snapshot_name pr k) = Inr x" "importKeySnapshotMaterial k x = Inr (i, s)"
          "prefix tr t1"
        using assms Inl src by (auto simp: ensureImportKeySnapshot_def key_call_defs split: if_splits sum.splits)
      then show ?thesis using m unfolding pinned_material_def by blast
    qed
  qed
qed

subsection \<open>The stages of an import\<close>

lemma importKey_cases [consumes 1, case_names early run]:
  assumes "importKey pr env k ik n tr = (r, k1, tr')"
  obtains (early) new where "tr' = tr @ new" "\<And>i s m. KeyCall (ImportKey i s m) \<notin> fst ` set new"
      "\<And>g s. r = Inr (g, s) \<Longrightarrow> \<exists>i t1. import_material pr env k ik tr = (Inr (i, s), t1) \<and> gky_AccessKeyID g = i \<and> gky_SecretAccessKey g = s"
  | (run) i s t1 t2 t3 where "import_material pr env k ik tr = (Inr (i, s), t1)" "t2 = t1 @ [(KeyCall (GetKeyInfo i True), Missing)]"
      "annotation (gk_Annotations k) keyResolvedImportIDAnnotation \<in> {[], i}"
      "pin_import env k i t2 = (None, k1, t3)" "run_import env i s n t3 = (r, tr')"
proof -
  obtain m t1 where m: "import_material pr env k ik tr = (m, t1)" by force
  have t1: "\<exists>new. t1 = tr @ new \<and> (\<forall>c \<in> fst ` set new. \<exists>s. c = KeyCall (SecretCreate s))"
    using m snapshot_result [of pr env k ik _ tr] by (auto simp: import_material_def split: option.splits)
  then obtain a where a: "t1 = tr @ a" "\<forall>c \<in> fst ` set a. \<exists>s. c = KeyCall (SecretCreate s)" by blast
  show ?thesis
  proof (cases m)
    case (Inl e)
    then show ?thesis using assms m a by (intro early [of a]) (auto simp: importKey_def)
  next
    case (Inr p)
    obtain i s where p: "p = (i, s)" by force
    let ?pin = "annotation (gk_Annotations k) keyResolvedImportIDAnnotation"
    show ?thesis
    proof (cases "?pin \<noteq> [] \<and> ?pin \<noteq> i")
      case True
      then show ?thesis using assms m a Inr p by (intro early [of a]) (auto simp: importKey_def Let_def)
    next
      case pin: False
      show ?thesis
      proof (cases "kv_Key env t1 (GetKeyInfo i True)")
        case (Inr g)
        then show ?thesis
          using assms m a \<open>m = Inr p\<close> p pin
          by (intro early [of "a @ [(KeyCall (GetKeyInfo i True), Succeeded)]"]) (auto simp: importKey_def key_call_defs split: if_splits)
      next
        case (Inl e)
        let ?t2 = "t1 @ [(KeyCall (GetKeyInfo i True), api_outcome (Some e))]"
        obtain q k2 t3 where q: "pin_import env k i ?t2 = (q, k2, t3)" by (metis prod_cases3)
        note pr = pin_import_result [OF q]
        show ?thesis
        proof (cases "IsNotFound (ce_API e) \<and> q = None")
          case True
          then have "run_import env i s n t3 = (r, tr')" "k1 = k2"
            using assms m \<open>m = Inr p\<close> p pin Inl q by (auto simp: importKey_def key_call_defs split: prod.splits)
          then show ?thesis using run [OF m [unfolded \<open>m = Inr p\<close> p]] pin q True by (auto simp: api_outcome_def)
        next
          case False
          then have "tr' \<in> {?t2, t3}" "\<forall>x. r \<noteq> Inr x"
            using assms m \<open>m = Inr p\<close> p pin Inl q by (auto simp: importKey_def key_call_defs split: if_splits)
          then obtain b where "tr' = tr @ b" "\<forall>c \<in> fst ` set b. (\<exists>s. c = KeyCall (SecretCreate s)) \<or> c = KeyCall (GetKeyInfo i True)
              \<or> (\<exists>x. c = KeyCall (KeyPatch x))"
            using a pr by fastforce
          then show ?thesis using \<open>\<forall>x. r \<noteq> Inr x\<close> by (intro early [of b]) auto
        qed
      qed
    qed
  qed
qed

subsection \<open>The stages of a deterministic import\<close>

definition derived :: "key_params \<Rightarrow> key_env \<Rightarrow> GarageKey \<Rightarrow> GarageCluster \<Rightarrow> trace \<Rightarrow> string \<Rightarrow> string \<Rightarrow> string \<Rightarrow> bool" where
  "derived pr env k cluster t name i s \<longleftrightarrow>
     (\<exists>rpc. GetRPCSecret (kpr_Sum256 pr) env t cluster = Inr rpc \<and> (i, s) = deriveKeyMaterial (kpr_HMAC pr) rpc (gk_Namespace k) name)"

definition import_free :: "trace \<Rightarrow> bool" where
  "import_free new \<longleftrightarrow> (\<forall>c \<in> fst ` set new. \<forall>i s m. c \<noteq> KeyCall (ImportKey i s m))"

lemma import_free_append [simp]: "import_free (a @ b) \<longleftrightarrow> import_free a \<and> import_free b"
  by (auto simp: import_free_def)

lemma import_free_Nil [simp]: "import_free []"
  by (simp add: import_free_def)

lemma import_free_entry: "import_free new \<Longrightarrow> (KeyCall (ImportKey i s m), oc) \<notin> set new"
  by (force simp: import_free_def)

lemma single_import:
  assumes "pre @ (KeyCall (ImportKey i s m), oc) # post = a @ (KeyCall (ImportKey i' s' m'), oc') # b" "import_free a" "import_free b"
  shows "pre = a \<and> i = i' \<and> s = s'"
proof -
  note fr = import_free_entry [OF assms(2), of i s m oc] import_free_entry [OF assms(3), of i s m oc]
  from assms(1) fr show ?thesis
    by (auto simp: append_eq_append_conv2 append_eq_Cons_conv Cons_eq_append_conv)
qed

lemma material_trace: "import_material pr env k ik tr = (m, t1) \<Longrightarrow> \<exists>a. t1 = tr @ a \<and> import_free a"
proof -
  assume m: "import_material pr env k ik tr = (m, t1)"
  show ?thesis
  proof (cases "ik_SecretRef ik")
    case None
    then show ?thesis using m by (simp add: import_material_def)
  next
    case (Some ref)
    then have "ensureImportKeySnapshot pr env k ik ref tr = (m, t1)" using m by (simp add: import_material_def)
    then show ?thesis by (auto simp: import_free_def dest!: snapshot_result) fastforce
  qed
qed

lemma update_needed_free: "updateKeyIfNeeded pr env k g tr = (e, t1) \<Longrightarrow> \<exists>new. t1 = tr @ new \<and> import_free new"
  by (drule update_needed_trace) (fastforce simp: import_free_def)

lemma probe_legacy_result:
  assumes "probe_legacy pr env rpc k n tr = (r, t1)"
  shows "\<exists>new. t1 = tr @ new \<and> import_free new"
    and "r = Inr (Some (g, s)) \<Longrightarrow> \<exists>i. (i, s) = deriveKeyMaterial (kpr_HMAC pr) rpc (gk_Namespace k) (legacyDeterministicKeyName k n)
          \<and> gky_AccessKeyID g = i \<and> gky_SecretAccessKey g = s"
proof -
  obtain i s' where d: "deriveKeyMaterial (kpr_HMAC pr) rpc (gk_Namespace k) (legacyDeterministicKeyName k n) = (i, s')" by force
  show "\<exists>new. t1 = tr @ new \<and> import_free new"
    using assms d
    by (auto simp: probe_legacy_def key_call_defs split: if_splits sum.splits prod.splits option.splits dest!: update_needed_free)
       (auto simp: import_free_def)
  show "r = Inr (Some (g, s)) \<Longrightarrow> \<exists>i. (i, s) = deriveKeyMaterial (kpr_HMAC pr) rpc (gk_Namespace k) (legacyDeterministicKeyName k n)
          \<and> gky_AccessKeyID g = i \<and> gky_SecretAccessKey g = s"
    using assms d by (auto simp: probe_legacy_def key_call_defs split: if_splits sum.splits prod.splits option.splits)
qed

lemma import_derived_result:
  assumes "import_derived pr env (i, s) k n tr = (r, k1, tr')"
  shows "\<exists>oc more. tr' = tr @ (KeyCall (ImportKey i s n), oc) # more \<and> import_free more"
    and "r = Inr (g, s') \<Longrightarrow> s' = s \<and> (kv_Key env tr (ImportKey i s n) = Inr g \<or> gky_AccessKeyID g = i \<and> gky_SecretAccessKey g = s)"
proof -
  have tomb: "replace_tombstone env k x = (q, k2, y) \<Longrightarrow> \<exists>new. y = x @ new \<and> import_free new" for x q k2 y
    by (auto simp: replace_tombstone_def import_free_def split: prod.splits option.splits dest!: patch_key_trace)
  show "\<exists>oc more. tr' = tr @ (KeyCall (ImportKey i s n), oc) # more \<and> import_free more"
    using assms
    by (auto simp: import_derived_def key_call_defs split: if_splits sum.splits prod.splits option.splits
        dest!: update_needed_free tomb)
       (auto simp: import_free_def)
  show "r = Inr (g, s') \<Longrightarrow> s' = s \<and> (kv_Key env tr (ImportKey i s n) = Inr g \<or> gky_AccessKeyID g = i \<and> gky_SecretAccessKey g = s)"
    using assms by (auto simp: import_derived_def key_call_defs split: if_splits sum.splits prod.splits option.splits)
qed

lemma deterministic_cases [consumes 1, case_names early run]:
  assumes "createOrAdoptDeterministic pr env k cluster n tr = (r, k1, tr')"
  obtains (early) new where "tr' = tr @ new" "import_free new"
      "\<And>g s. r = Inr (g, s) \<Longrightarrow> \<exists>i. derived pr env k cluster tr (legacyDeterministicKeyName k n) i s \<and> gky_AccessKeyID g = i \<and> gky_SecretAccessKey g = s"
  | (run) i s new where "derived pr env k cluster tr (deterministicKeyName k) i s" "import_free new"
      "import_derived pr env (i, s) k n (tr @ new) = (r, k1, tr')"
proof (cases "GetRPCSecret (kpr_Sum256 pr) env tr cluster")
  case (Inl e)
  then show ?thesis using assms by (intro early [of "[]"]) (auto simp: createOrAdoptDeterministic_def)
next
  case (Inr rpc)
  obtain q t1 where q: "probe_legacy pr env rpc k n tr = (q, t1)" by force
  obtain new where new: "t1 = tr @ new" "import_free new" using probe_legacy_result(1) [OF q] by blast
  obtain i s where d: "deriveKeyMaterial (kpr_HMAC pr) rpc (gk_Namespace k) (deterministicKeyName k) = (i, s)" by force
  show ?thesis
  proof (cases "rpc = [] \<or> q \<noteq> Inr None")
    case True
    then show ?thesis
    proof (cases "rpc = []")
      case True
      then show ?thesis using assms Inr by (intro early [of "[]"]) (auto simp: createOrAdoptDeterministic_def)
    next
      case False
      then have "tr' = t1" "\<And>g s. r = Inr (g, s) \<Longrightarrow> q = Inr (Some (g, s))"
        using assms Inr q True by (auto simp: createOrAdoptDeterministic_def split: sum.splits option.splits)
      then show ?thesis using new probe_legacy_result(2) [OF q] Inr by (intro early [of new]) (auto simp: derived_def)
    qed
  next
    case False
    then show ?thesis using assms Inr q new d by (intro run [of i s new]) (auto simp: createOrAdoptDeterministic_def derived_def)
  qed
qed

text \<open>Before the creating step at most the tracked key was looked up.\<close>

lemma getOrCreateKey_cases [consumes 1, case_names tracked create]:
  assumes "getOrCreateKey pr env k cluster n tr = (r, k1, tr')"
  obtains (tracked) new where "tr' = tr @ new" "import_free new"
      "\<And>g s. r = Inr (g, s) \<Longrightarrow> kst_AccessKeyID (gk_Status k) \<noteq> []
         \<and> kv_Key env tr (GetKeyInfo (kst_AccessKeyID (gk_Status k)) True) = Inr g \<and> s = gky_SecretAccessKey g"
  | (create) new where "import_free new"
      "(case ks_ImportKey (gk_Spec k) of
          Some ik \<Rightarrow> importKey pr env k ik n (tr @ new)
        | None \<Rightarrow> createOrAdoptDeterministic pr env k cluster n (tr @ new)) = (r, k1, tr')"
proof (cases "check_cosi_account k \<noteq> None \<or> kst_AccessKeyID (gk_Status k) = []")
  case True
  then show ?thesis
  proof (cases "check_cosi_account k")
    case None
    then show ?thesis using assms True by (intro create [of "[]"]) (auto simp: getOrCreateKey_def Let_def split: option.splits)
  next
    case (Some e)
    then show ?thesis using assms by (intro tracked [of "[]"]) (auto simp: getOrCreateKey_def Let_def)
  qed
next
  case False
  let ?id = "kst_AccessKeyID (gk_Status k)"
  let ?c = "GetKeyInfo ?id True"
  have free: "import_free [(KeyCall ?c, oc)]" for oc by (simp add: import_free_def)
  show ?thesis
  proof (cases "kv_Key env tr ?c")
    case (Inr g)
    obtain e t2 where u: "updateKeyIfNeeded pr env k g (tr @ [(KeyCall ?c, Succeeded)]) = (e, t2)" by force
    obtain a where a: "t2 = tr @ [(KeyCall ?c, Succeeded)] @ a" "import_free a" using update_needed_free [OF u] by auto
    have "tr' = t2" "\<And>g' s. r = Inr (g', s) \<Longrightarrow> g' = g \<and> s = gky_SecretAccessKey g"
      using assms False Inr u by (auto simp: getOrCreateKey_def key_call_defs split: option.splits)
    then show ?thesis using a free Inr False by (intro tracked [of "[(KeyCall ?c, Succeeded)] @ a"]) (auto simp: import_free_def)
  next
    case (Inl e)
    let ?t1 = "[(KeyCall ?c, api_outcome (Some e))]"
    show ?thesis
    proof (cases "IsNotFound (ce_API e) \<and> annotation (gk_Annotations k) AnnotationCOSIAccountID = []")
      case True
      then show ?thesis using assms False Inl free by (intro create [of ?t1]) (auto simp: getOrCreateKey_def key_call_defs)
    next
      case nf: False
      then have "tr' = tr @ ?t1" "\<forall>x. r \<noteq> Inr x"
        using assms False Inl by (auto simp: getOrCreateKey_def key_call_defs split: if_splits)
      then show ?thesis using free by (intro tracked [of ?t1]) auto
    qed
  qed
qed

subsection \<open>Identity\<close>

text \<open>Material a resource is entitled to: configured for import, or derived from the cluster's RPC secret.\<close>

definition entitled :: "key_params \<Rightarrow> key_env \<Rightarrow> GarageKey \<Rightarrow> GarageCluster \<Rightarrow> string \<Rightarrow> trace \<Rightarrow> string \<Rightarrow> string \<Rightarrow> bool" where
  "entitled pr env k cluster n t i s \<longleftrightarrow>
     (case ks_ImportKey (gk_Spec k) of
        Some ik \<Rightarrow> fst (import_material pr env k ik t) = Inr (i, s)
      | None \<Rightarrow> derived pr env k cluster t (deterministicKeyName k) i s
          \<or> derived pr env k cluster t (legacyDeterministicKeyName k n) i s)"

text \<open>
  C6: A GarageKey manages only a key it can prove to be its own.  Whatever the services answer, an
  access key returned by getOrCreateKey is the one tracked in the status, with the secret Garage
  reports for it; or it was imported just now with material the resource is entitled to (configured in
  its spec, or derived from the RPC secret of its cluster), or it already existed with exactly that
  identifier and exactly that secret.  A key that only has the expected identifier is never adopted.
\<close>

theorem key_identity_trusted:
  assumes "getOrCreateKey pr env k cluster n tr = (Inr (g, s), k', tr')"
  shows "kst_AccessKeyID (gk_Status k) \<noteq> [] \<and> s = gky_SecretAccessKey g
       \<and> kv_Key env tr (GetKeyInfo (kst_AccessKeyID (gk_Status k)) True) = Inr g
     \<or> (\<exists>t i. prefix tr t \<and> entitled pr env k cluster n t i s
         \<and> (gky_AccessKeyID g = i \<and> gky_SecretAccessKey g = s \<or> (\<exists>t'. prefix t t' \<and> kv_Key env t' (ImportKey i s n) = Inr g)))"
  using assms
proof (cases rule: getOrCreateKey_cases)
  case (tracked new)
  then show ?thesis by blast
next
  case (create new)
  show ?thesis
  proof (cases "ks_ImportKey (gk_Spec k)")
    case (Some ik)
    then have "importKey pr env k ik n (tr @ new) = (Inr (g, s), k', tr')" using create by simp
    then have "\<exists>i. entitled pr env k cluster n (tr @ new) i s
        \<and> (gky_AccessKeyID g = i \<and> gky_SecretAccessKey g = s \<or> (\<exists>t'. prefix (tr @ new) t' \<and> kv_Key env t' (ImportKey i s n) = Inr g))"
    proof (cases rule: importKey_cases)
      case (early a)
      then show ?thesis using Some by (auto simp: entitled_def)
    next
      case (run i s' t1 t2 t3)
      have "prefix (tr @ new) t1" using material_trace [OF run(1)] by auto
      moreover have "prefix t2 t3" using pin_import_result [OF run(4)] by auto
      ultimately have "prefix (tr @ new) t3" using run(2) by (auto simp: prefix_def)
      then show ?thesis using run_import_result(2) [OF run(5) refl] run(1) Some by (auto simp: entitled_def)
    qed
    then show ?thesis by (metis prefixI)
  next
    case None
    then have "createOrAdoptDeterministic pr env k cluster n (tr @ new) = (Inr (g, s), k', tr')" using create by simp
    then have "\<exists>i. entitled pr env k cluster n (tr @ new) i s
        \<and> (gky_AccessKeyID g = i \<and> gky_SecretAccessKey g = s \<or> (\<exists>t'. prefix (tr @ new) t' \<and> kv_Key env t' (ImportKey i s n) = Inr g))"
    proof (cases rule: deterministic_cases)
      case (early a)
      then show ?thesis using None by (auto simp: entitled_def)
    next
      case (run i s' a)
      then show ?thesis using import_derived_result(2) [OF run(3) refl] None
        by (metis entitled_def option.case(1) prefixI)
    qed
    then show ?thesis by (metis prefixI)
  qed
qed

lemma annotation_key_annotate [simp]: "annotation (gk_Annotations (key_annotate a v k)) a = v"
  by (simp add: key_annotate_def annotation_def gomap_get_def)

text \<open>
  C37: A remote key is created only under a durable identity.  Whenever the operator issues ImportKey,
  the identifier and secret can be found again after a crash: without an import configuration they are
  derived from the cluster's RPC secret and the resource's own name; with one, the identifier was
  already pinned on the resource or a write that pinned it succeeded earlier in the run, and material
  taken from a Secret stands in an immutable snapshot the resource controls.
\<close>

theorem key_created_under_durable_identity:
  assumes "getOrCreateKey pr env k cluster n tr = (r, k', tr')"
    and "tr' = tr @ pre @ (KeyCall (ImportKey i s m), oc) # post"
  shows "case ks_ImportKey (gk_Spec k) of
      None \<Rightarrow> \<exists>t. prefix tr t \<and> derived pr env k cluster t (deterministicKeyName k) i s
    | Some ik \<Rightarrow>
        (annotation (gk_Annotations k) keyResolvedImportIDAnnotation = i \<and> i \<noteq> []
         \<or> (\<exists>k2. (KeyCall (KeyPatch k2), Succeeded) \<in> set pre \<and> annotation (gk_Annotations k2) keyResolvedImportIDAnnotation = i))
        \<and> (ik_SecretRef ik = None \<and> i = ik_AccessKeyID ik \<and> s = ik_SecretAccessKey ik
           \<or> (\<exists>t t1. prefix tr t \<and> prefix t1 (tr @ pre) \<and> pinned_material pr env k t t1 i s))"
  using assms(1)
proof (cases rule: getOrCreateKey_cases)
  case (tracked new)
  then have "import_free (pre @ (KeyCall (ImportKey i s m), oc) # post)" using assms(2) by simp
  then show ?thesis using import_free_entry by fastforce
next
  case (create new)
  show ?thesis
  proof (cases "ks_ImportKey (gk_Spec k)")
    case None
    then have "createOrAdoptDeterministic pr env k cluster n (tr @ new) = (r, k', tr')" using create by simp
    then show ?thesis
    proof (cases rule: deterministic_cases)
      case (early a)
      then have "import_free (pre @ (KeyCall (ImportKey i s m), oc) # post)" using assms(2) create(1) by simp
      then show ?thesis using import_free_entry by fastforce
    next
      case (run i' s' a)
      obtain oc' more where d: "tr' = ((tr @ new) @ a) @ (KeyCall (ImportKey i' s' n), oc') # more" "import_free more"
        using import_derived_result(1) [OF run(3)] by blast
      then have "pre @ (KeyCall (ImportKey i s m), oc) # post = (new @ a) @ (KeyCall (ImportKey i' s' n), oc') # more"
        using assms(2) by simp
      then have "(i, s) = (i', s')" using single_import [of pre i s m oc post "new @ a" i' s' n oc' more] create(1) run(2) d(2) by simp
      then show ?thesis using run(1) None by (auto intro!: exI [of _ "tr @ new"])
    qed
  next
    case (Some ik)
    then have "importKey pr env k ik n (tr @ new) = (r, k', tr')" using create by simp
    then show ?thesis
    proof (cases rule: importKey_cases)
      case (early a)
      have "tr' = tr @ new @ a" "import_free a" using early(1,2) unfolding import_free_def by (simp, metis)
      then have "import_free (pre @ (KeyCall (ImportKey i s m), oc) # post)" using assms(2) create(1) by simp
      then show ?thesis using import_free_entry by fastforce
    next
      case (run i' s' t1 t2 t3)
      obtain a where a: "t1 = tr @ new @ a" "import_free a" using material_trace [OF run(1)] by auto
      note pin = pin_import_result [OF run(4)]
      then obtain b where b: "t3 = t1 @ b" "import_free b" using run(2) by (auto simp: import_free_def)
      obtain oc' more where more: "tr' = t3 @ (KeyCall (ImportKey i' s' n), oc') # more" "import_free more"
        using run_import_result(1) [OF run(5)] by (fastforce simp: import_free_def)
      have "pre = new @ a @ b \<and> i = i' \<and> s = s'"
        using single_import [of pre i s m oc post "new @ a @ b" i' s' n oc' more] assms(2) a b more create(1) by simp
      then have pre: "tr @ pre = t3" "prefix t1 (tr @ pre)" "i = i'" "s = s'" using a b by auto
      have "annotation (gk_Annotations k) keyResolvedImportIDAnnotation = i \<and> i \<noteq> []
         \<or> (\<exists>k2. (KeyCall (KeyPatch k2), Succeeded) \<in> set pre \<and> annotation (gk_Annotations k2) keyResolvedImportIDAnnotation = i)"
        using pin
      proof
        assume "t3 = t2 \<and> (None :: key_error option) = None \<and> annotation (gk_Annotations k) keyResolvedImportIDAnnotation \<noteq> []"
        then show ?thesis using run(3) pre(3) by auto
      next
        assume "\<exists>oc. t3 = t2 @ [(KeyCall (KeyPatch (key_annotate keyResolvedImportIDAnnotation i' k)), oc)]
            \<and> ((None :: key_error option) = None \<longrightarrow> oc = Succeeded)"
        then have "t3 = t2 @ [(KeyCall (KeyPatch (key_annotate keyResolvedImportIDAnnotation i k)), Succeeded)]" using pre(3) by simp
        then have "(KeyCall (KeyPatch (key_annotate keyResolvedImportIDAnnotation i k)), Succeeded) \<in> set pre"
          using pre(1) run(2) a(1) by (metis append_assoc in_set_conv_decomp same_append_eq)
        then show ?thesis using annotation_key_annotate by blast
      qed
      moreover have "ik_SecretRef ik = None \<and> i = ik_AccessKeyID ik \<and> s = ik_SecretAccessKey ik
           \<or> (\<exists>t t1. prefix tr t \<and> prefix t1 (tr @ pre) \<and> pinned_material pr env k t t1 i s)"
        using run(1) pre snapshot_pinned [of pr env k ik _ "tr @ new" i' s' t1]
        by (cases "ik_SecretRef ik") (auto simp: import_material_def intro: prefixI)
      ultimately show ?thesis using Some by simp
    qed
  qed
qed

subsection \<open>A small instance\<close>

definition sample_importing :: GarageKey where
  "sample_importing = sample_key\<lparr>gk_Status := (gk_Status sample_key)\<lparr>kst_AccessKeyID := []\<rparr>,
     gk_Spec := (gk_Spec sample_key)\<lparr>ks_ImportKey := Some \<lparr>ik_AccessKeyID = ''GK1'', ik_SecretAccessKey = ''s3cret'',
       ik_SecretRef = None, ik_AccessKeyIDKey = [], ik_SecretAccessKeyKey = []\<rparr>\<rparr>\<rparr>"

definition sample_garage_key :: "string \<Rightarrow> string \<Rightarrow> Key" where
  "sample_garage_key i s = \<lparr>gky_AccessKeyID = i, gky_Created = None, gky_Name = [], gky_Expiration = None,
     gky_SecretAccessKey = s, gky_Permissions = \<lparr>kper_CreateBucket = False\<rparr>, gky_Buckets = []\<rparr>"

text \<open>A Garage service without keys that accepts imports; every write of Kubernetes succeeds.\<close>

definition sample_key_service :: key_env where
  "sample_key_service =
     \<lparr>kv_Admin = sample_cloud,
      kv_Key = (\<lambda>tr c. case c of ImportKey i s n \<Rightarrow> Inr (sample_garage_key i s) | _ \<Rightarrow> Inl sample_missing),
      kv_Unit = (\<lambda>tr c. None), kv_Status = (\<lambda>tr c. None),
      kv_Object = (\<lambda>tr c. case c of KeyPatch k \<Rightarrow> Inr k | KeyUpdate k \<Rightarrow> Inr k | _ \<Rightarrow> Inl KubeNotFound),
      kv_ListBuckets = (\<lambda>tr. Inr []), kv_GetSecret = (\<lambda>tr n. Inl KubeNotFound), kv_ListSecrets = (\<lambda>tr ns v. Inr []),
      kv_GetBucket = (\<lambda>tr n. Inl KubeNotFound), kv_ListGarageBuckets = (\<lambda>tr. Inr []), kv_NewUUID = (\<lambda>tr. ''uuid'')\<rparr>"

definition sample_key_params :: key_params where
  "sample_key_params = \<lparr>kpr_HMAC = (\<lambda>k m. ''00''), kpr_Sum256 = (\<lambda>s. ''00''), kpr_Time = unary_time, kpr_Kube = sample_env\<rparr>"

lemma sample_key_import:
  "getOrCreateKey sample_key_params sample_key_service sample_importing sample_cluster ''alice'' []
     = (Inr (sample_garage_key ''GK1'' ''s3cret'', ''s3cret''),
        key_annotate keyResolvedImportIDAnnotation ''GK1'' sample_importing,
        [(KeyCall (GetKeyInfo ''GK1'' True), Missing),
         (KeyCall (KeyPatch (key_annotate keyResolvedImportIDAnnotation ''GK1'' sample_importing)), Succeeded),
         (KeyCall (ImportKey ''GK1'' ''s3cret'' ''alice''), Succeeded)])"
  by (simp add: getOrCreateKey_def check_cosi_account_def importKey_def import_material_def pin_import_def run_import_def
      patch_key_def key_annotate_def annotation_def gomap_get_def key_call_defs sample_importing_def sample_key_def
      sample_key_service_def sample_missing_def IsNotFound_def has_status_def api_outcome_def)

theorem key_identity_trusted_witness:
  "\<exists>t i. entitled sample_key_params sample_key_service sample_importing sample_cluster ''alice'' t i ''s3cret''"
  using key_identity_trusted [OF sample_key_import]
  by (auto simp: sample_importing_def)

theorem key_created_under_durable_identity_witness:
  "\<exists>k2. (KeyCall (KeyPatch k2), Succeeded) \<in> set [(KeyCall (GetKeyInfo ''GK1'' True), Missing),
         (KeyCall (KeyPatch (key_annotate keyResolvedImportIDAnnotation ''GK1'' sample_importing)), Succeeded)]
     \<and> annotation (gk_Annotations k2) keyResolvedImportIDAnnotation = ''GK1''"
proof -
  have "annotation (gk_Annotations sample_importing) keyResolvedImportIDAnnotation = []" by code_simp
  moreover have "\<exists>ik. ks_ImportKey (gk_Spec sample_importing) = Some ik" by (simp add: sample_importing_def)
  ultimately show ?thesis
    using key_created_under_durable_identity [OF sample_key_import, of "[(KeyCall (GetKeyInfo ''GK1'' True), Missing),
         (KeyCall (KeyPatch (key_annotate keyResolvedImportIDAnnotation ''GK1'' sample_importing)), Succeeded)]"
         "''GK1''" "''s3cret''" "''alice''" Succeeded "[]"]
    by (auto split: option.splits)
qed

end
