(* ===== verification/KeyAdmission.thy ===== *)
theory KeyAdmission
  imports KeyIdentity
begin

text \<open>
  Defaulting and validation of GarageKeys (api/v1beta1/garagekey_webhook.go), which the reconciler
  repeats before it touches anything.  The validators of k8s.io/apimachinery for Secret data keys,
  qualified names and label values are parameters.
\<close>

record key_validators =
  vl_ConfigMapKey :: "string \<Rightarrow> bool"
  vl_QualifiedName :: "string \<Rightarrow> bool"
  vl_LabelValue :: "string \<Rightarrow> bool"

datatype key_invalid =
    KeyClusterRefRequired | KeyClusterRefInvalid admission_error
  | ImportBothForms | ImportSecretNameRequired | ImportDataKeyInvalid | ImportDataKeysEqual | ImportDataKeysInline
  | ImportAccessKeyRequired | ImportSecretKeyRequired | ImportAccessKeyMalformed | ImportUnspecified
  | ImportOtherNamespace | TemplateNameInvalid | TemplateKeyInvalid string | TemplateKeysCollide string
  | AdditionalKeyInvalid string | AdditionalKeyCollides string | TemplateLabelInvalid string | TemplateAnnotationInvalid string
  | SnapshotCollision | ExpirationConflict | AllBucketsEmpty
  | PermissionRefNameRequired | PermissionRefInvalid resolve_error | PermissionAliasInvalid admission_error
  | PermissionUnspecified | PermissionAmbiguous | PermissionDuplicate | PermissionEmpty
  | KeyReferenceNotGranted grant_error | KeyClusterRefChanged | ImportChanged

subsection \<open>Defaults\<close>

definition defaultString :: "string \<Rightarrow> string \<Rightarrow> string" where
  "defaultString value fallback = (if value = [] then fallback else value)"

definition default_template :: "string \<Rightarrow> SecretTemplate \<Rightarrow> SecretTemplate" where
  "default_template name t =
     t\<lparr>stp_Name := defaultString (stp_Name t) name, stp_Type := defaultString (stp_Type t) ''Opaque'',
       stp_AccessKeyIDKey := defaultString (stp_AccessKeyIDKey t) defaultAccessKeyIDKey,
       stp_SecretAccessKeyKey := defaultString (stp_SecretAccessKeyKey t) defaultSecretAccessKeyKey,
       stp_EndpointKey := defaultString (stp_EndpointKey t) ''endpoint'', stp_HostKey := defaultString (stp_HostKey t) ''host'',
       stp_SchemeKey := defaultString (stp_SchemeKey t) ''scheme'', stp_RegionKey := defaultString (stp_RegionKey t) ''region'',
       stp_BucketNameKey := defaultString (stp_BucketNameKey t) ''bucket''\<rparr>"

definition key_Default :: "GarageKey \<Rightarrow> GarageKey" where
  "key_Default k =
     k\<lparr>gk_Spec := (gk_Spec k)\<lparr>ks_Name := defaultString (ks_Name (gk_Spec k)) (gk_Name k),
        ks_SecretTemplate := map_option (default_template (gk_Name k)) (ks_SecretTemplate (gk_Spec k))\<rparr>\<rparr>"

subsection \<open>Import settings\<close>

definition alphanumeric :: "char \<Rightarrow> bool" where
  "alphanumeric c \<longleftrightarrow> (let n = (of_char c :: nat) in 48 \<le> n \<and> n \<le> 57 \<or> 65 \<le> n \<and> n \<le> 90 \<or> 97 \<le> n \<and> n \<le> 122)"

text \<open>The pattern \<open>^GK[a-zA-Z0-9]+$\<close>.\<close>

definition access_key_pattern :: "string \<Rightarrow> bool" where
  "access_key_pattern s \<longleftrightarrow> prefix ''GK'' s \<and> length s > 2 \<and> list_all alphanumeric (drop 2 s)"

definition validateImportKey :: "key_validators \<Rightarrow> ImportKeyConfig option \<Rightarrow> key_invalid option" where
  "validateImportKey vl ik =
     (case ik of
        None \<Rightarrow> None
      | Some c \<Rightarrow>
          (case ik_SecretRef c of
             Some ref \<Rightarrow>
               if ik_AccessKeyID c \<noteq> [] \<or> ik_SecretAccessKey c \<noteq> [] then Some ImportBothForms
               else if sr_Name ref = [] then Some ImportSecretNameRequired
               else if (ik_AccessKeyIDKey c \<noteq> [] \<and> \<not> vl_ConfigMapKey vl (ik_AccessKeyIDKey c))
                    \<or> (ik_SecretAccessKeyKey c \<noteq> [] \<and> \<not> vl_ConfigMapKey vl (ik_SecretAccessKeyKey c)) then Some ImportDataKeyInvalid
               else if defaultString (ik_AccessKeyIDKey c) defaultAccessKeyIDKey
                     = defaultString (ik_SecretAccessKeyKey c) defaultSecretAccessKeyKey then Some ImportDataKeysEqual
               else None
           | None \<Rightarrow>
               if ik_AccessKeyIDKey c \<noteq> [] \<or> ik_SecretAccessKeyKey c \<noteq> [] then Some ImportDataKeysInline
               else if ik_AccessKeyID c \<noteq> [] \<or> ik_SecretAccessKey c \<noteq> [] then
                 (if ik_AccessKeyID c = [] then Some ImportAccessKeyRequired
                  else if ik_SecretAccessKey c = [] then Some ImportSecretKeyRequired
                  else if \<not> access_key_pattern (ik_AccessKeyID c) then Some ImportAccessKeyMalformed
                  else None)
               else Some ImportUnspecified))"

subsection \<open>The Secret template\<close>

text \<open>The data keys of a generated Secret, in order, each with whether it is written.\<close>

definition generated_keys :: "SecretTemplate \<Rightarrow> (string \<times> bool) list" where
  "generated_keys t =
     (let endpoint = (stp_IncludeEndpoint t \<noteq> Some False); region = (stp_IncludeRegion t \<noteq> Some False);
          bucket = (stp_IncludeBucketName t = Some True)
      in [(defaultString (stp_AccessKeyIDKey t) defaultAccessKeyIDKey, True),
          (defaultString (stp_SecretAccessKeyKey t) defaultSecretAccessKeyKey, True),
          (defaultString (stp_EndpointKey t) ''endpoint'', endpoint), (defaultString (stp_HostKey t) ''host'', endpoint),
          (defaultString (stp_SchemeKey t) ''scheme'', endpoint), (defaultString (stp_RegionKey t) ''region'', region),
          (defaultString (stp_BucketNameKey t) ''bucket'', bucket)])"

fun check_generated :: "key_validators \<Rightarrow> string list \<Rightarrow> (string \<times> bool) list \<Rightarrow> key_invalid option \<times> string list" where
  "check_generated vl seen [] = (None, seen)"
| "check_generated vl seen ((v, enabled) # ks) =
     (if \<not> vl_ConfigMapKey vl v then (Some (TemplateKeyInvalid v), seen)
      else if \<not> enabled then check_generated vl seen ks
      else if v \<in> set seen then (Some (TemplateKeysCollide v), seen)
      else check_generated vl (v # seen) ks)"

fun check_additional :: "key_validators \<Rightarrow> string list \<Rightarrow> (string, string) gomap \<Rightarrow> key_invalid option" where
  "check_additional vl seen [] = None"
| "check_additional vl seen ((k, v) # m) =
     (if \<not> vl_ConfigMapKey vl k then Some (AdditionalKeyInvalid k)
      else if k \<in> set seen then Some (AdditionalKeyCollides k)
      else check_additional vl seen m)"

fun check_labels :: "key_validators \<Rightarrow> (string, string) gomap \<Rightarrow> key_invalid option" where
  "check_labels vl [] = None"
| "check_labels vl ((k, v) # m) =
     (if \<not> vl_QualifiedName vl k \<or> \<not> vl_LabelValue vl v then Some (TemplateLabelInvalid k) else check_labels vl m)"

fun check_annotations :: "key_validators \<Rightarrow> (string, string) gomap \<Rightarrow> key_invalid option" where
  "check_annotations vl [] = None"
| "check_annotations vl ((k, v) # m) =
     (if \<not> vl_QualifiedName vl k then Some (TemplateAnnotationInvalid k) else check_annotations vl m)"

definition validateSecretTemplate :: "kube_env \<Rightarrow> key_validators \<Rightarrow> SecretTemplate option \<Rightarrow> key_invalid option" where
  "validateSecretTemplate ke vl template =
     (case template of
        None \<Rightarrow> None
      | Some t \<Rightarrow>
          if stp_Name t \<noteq> [] \<and> \<not> ke_subdomain ke (stp_Name t) then Some TemplateNameInvalid
          else (case check_generated vl [] (generated_keys t) of
             (Some e, _) \<Rightarrow> Some e
           | (None, seen) \<Rightarrow>
               first_of (check_additional vl seen (stp_AdditionalData t))
                 (first_of (check_labels vl (stp_Labels t)) (check_annotations vl (stp_Annotations t)))))"

subsection \<open>Bucket permissions\<close>

definition validateAllBuckets :: "AllBucketsPermission option \<Rightarrow> key_invalid option" where
  "validateAllBuckets ab =
     (case ab of None \<Rightarrow> None | Some a \<Rightarrow> if \<not> ab_Read a \<and> \<not> ab_Write a \<and> \<not> ab_Owner a then Some AllBucketsEmpty else None)"

text \<open>The key under which duplicates are found, and how many references an entry has.\<close>

definition permission_key :: "string \<Rightarrow> bool \<Rightarrow> BucketPermission \<Rightarrow> string" where
  "permission_key ns legacy p =
     (if bp2_GlobalAlias p \<noteq> [] then ''alias:'' @ bp2_GlobalAlias p
      else if bp2_BucketID p \<noteq> [] then ''id:'' @ bp2_BucketID p
      else case bp2_BucketRef p of
        Some r \<Rightarrow> ''ref:'' @ (if br_Namespace r = [] \<and> \<not> legacy then ns else br_Namespace r) @ ''/'' @ br_Name r
      | None \<Rightarrow> [])"

definition permission_refs :: "BucketPermission \<Rightarrow> nat" where
  "permission_refs p =
     (if bp2_BucketRef p \<noteq> None then 1 else 0) + (if bp2_BucketID p \<noteq> [] then 1 else 0) + (if bp2_GlobalAlias p \<noteq> [] then 1 else 0)"

fun validate_bucket_permissions ::
    "kube_env \<Rightarrow> (string \<Rightarrow> bool) \<Rightarrow> string \<Rightarrow> bool \<Rightarrow> string list \<Rightarrow> BucketPermission list \<Rightarrow> key_invalid option" where
  "validate_bucket_permissions ke parse_ip ns legacy seen [] = None"
| "validate_bucket_permissions ke parse_ip ns legacy seen (p # ps) =
     first_of (case bp2_BucketRef p of
         None \<Rightarrow> None
       | Some r \<Rightarrow> first_of (fail_if (br_Name r = []) PermissionRefNameRequired)
           (if legacy then None else map_option PermissionRefInvalid (ValidateNamespacedObjectReference ke (br_Name r) (br_Namespace r))))
    (first_of (if bp2_GlobalAlias p \<noteq> [] \<and> \<not> legacy
         then map_option PermissionAliasInvalid (validateGarageBucketAlias parse_ip (bp2_GlobalAlias p)) else None)
    (first_of (fail_if (permission_refs p = 0) PermissionUnspecified)
    (first_of (fail_if (permission_refs p > 1) PermissionAmbiguous)
    (first_of (fail_if (permission_key ns legacy p \<in> set seen) PermissionDuplicate)
    (first_of (fail_if (\<not> bp2_Read p \<and> \<not> bp2_Write p \<and> \<not> bp2_Owner p) PermissionEmpty)
              (validate_bucket_permissions ke parse_ip ns legacy (permission_key ns legacy p # seen) ps))))))"

definition validateBucketPermissionsSpec ::
    "kube_env \<Rightarrow> (string \<Rightarrow> bool) \<Rightarrow> string \<Rightarrow> BucketPermission list \<Rightarrow> bool \<Rightarrow> key_invalid option" where
  "validateBucketPermissionsSpec ke parse_ip ns ps legacy = validate_bucket_permissions ke parse_ip ns legacy [] ps"

subsection \<open>The whole spec\<close>

record admission_env =
  ad_Kube :: kube_env
  ad_Validators :: key_validators
  ad_ParseIP :: "string \<Rightarrow> bool"
  ad_Sum256 :: "string \<Rightarrow> string"

record garageKeyValidationOptions =
  allowLegacySnapshotCollision :: bool
  allowUnchangedLegacy :: bool

definition garageKeyImportSnapshotCollision :: "admission_env \<Rightarrow> GarageKey \<Rightarrow> bool" where
  "garageKeyImportSnapshotCollision ad k =
     (case (ks_ImportKey (gk_Spec k), ks_SecretTemplate (gk_Spec k)) of
        (Some ik, Some t) \<Rightarrow> ik_SecretRef ik \<noteq> None \<and> stp_Name t \<noteq> []
          \<and> stp_Name t = GarageKeyImportSnapshotName (ad_Sum256 ad) (ad_Kube ad) (gk_Name k)
      | _ \<Rightarrow> False)"

definition validateGarageKeyMaterialSpec :: "admission_env \<Rightarrow> GarageKey \<Rightarrow> bool \<Rightarrow> key_invalid option" where
  "validateGarageKeyMaterialSpec ad k allowCollision =
     first_of (validateImportKey (ad_Validators ad) (ks_ImportKey (gk_Spec k)))
    (first_of (case ks_ImportKey (gk_Spec k) of
         None \<Rightarrow> None
       | Some ik \<Rightarrow> (case ik_SecretRef ik of
           None \<Rightarrow> None
         | Some ref \<Rightarrow> fail_if (sr_Namespace ref \<noteq> [] \<and> sr_Namespace ref \<noteq> gk_Namespace k) ImportOtherNamespace))
    (first_of (validateSecretTemplate (ad_Kube ad) (ad_Validators ad) (ks_SecretTemplate (gk_Spec k)))
              (fail_if (\<not> allowCollision \<and> garageKeyImportSnapshotCollision ad k) SnapshotCollision)))"

definition validateGarageKeySpecWithOptions ::
    "admission_env \<Rightarrow> GarageKey \<Rightarrow> garageKeyValidationOptions \<Rightarrow> key_invalid option" where
  "validateGarageKeySpecWithOptions ad k opt =
     (let s = gk_Spec k in
      first_of (fail_if (ref_Name (ks_ClusterRef s) = []) KeyClusterRefRequired)
     (first_of (if allowUnchangedLegacy opt then None
        else first_of (map_option KeyClusterRefInvalid (ValidateClusterReference (ad_Kube ad) (ks_ClusterRef s)))
               (validateGarageKeyMaterialSpec ad k (allowLegacySnapshotCollision opt)))
     (first_of (fail_if (ks_ExpiresAt s \<noteq> None \<and> ks_NeverExpires s) ExpirationConflict)
     (first_of (validateBucketPermissionsSpec (ad_Kube ad) (ad_ParseIP ad) (gk_Namespace k) (ks_BucketPermissions s)
                  (allowUnchangedLegacy opt))
               (validateAllBuckets (ks_AllBuckets s))))))"

definition no_options :: garageKeyValidationOptions where
  "no_options = \<lparr>allowLegacySnapshotCollision = False, allowUnchangedLegacy = False\<rparr>"

definition ValidateGarageKeySpec :: "admission_env \<Rightarrow> GarageKey \<Rightarrow> key_invalid option" where
  "ValidateGarageKeySpec ad k = validateGarageKeySpecWithOptions ad k no_options"

fun check_bucket_grants :: "grant_lister \<Rightarrow> GarageKey \<Rightarrow> BucketPermission list \<Rightarrow> key_invalid option" where
  "check_bucket_grants grants k [] = None"
| "check_bucket_grants grants k (p # ps) =
     first_of (case bp2_BucketRef p of
         None \<Rightarrow> None
       | Some r \<Rightarrow> map_option KeyReferenceNotGranted (checkReferenceGrant grants garageKeyKind (gk_Namespace k) garageBucketKind
           (if br_Namespace r = [] then gk_Namespace k else br_Namespace r) (br_Name r)))
       (check_bucket_grants grants k ps)"

definition validateGarageKeyWithOptions ::
    "admission_env \<Rightarrow> grant_lister \<Rightarrow> GarageKey \<Rightarrow> garageKeyValidationOptions \<Rightarrow> key_invalid option" where
  "validateGarageKeyWithOptions ad grants k opt =
     (let ref = ks_ClusterRef (gk_Spec k); clusterNS = (if ref_Namespace ref = [] then gk_Namespace k else ref_Namespace ref) in
      first_of (validateGarageKeySpecWithOptions ad k opt)
       (if allowUnchangedLegacy opt then None
        else first_of (map_option KeyReferenceNotGranted
               (checkReferenceGrant grants garageKeyKind (gk_Namespace k) garageClusterKind clusterNS (ref_Name ref)))
             (check_bucket_grants grants k (ks_BucketPermissions (gk_Spec k)))))"

text \<open>Warnings do not decide admission and are left out.\<close>

definition key_ValidateCreate :: "admission_env \<Rightarrow> grant_lister \<Rightarrow> GarageKey \<Rightarrow> key_invalid option" where
  "key_ValidateCreate ad grants k = validateGarageKeyWithOptions ad grants k no_options"

definition key_ValidateUpdate :: "admission_env \<Rightarrow> grant_lister \<Rightarrow> GarageKey \<Rightarrow> GarageKey \<Rightarrow> key_invalid option" where
  "key_ValidateUpdate ad grants oldObj newObj =
     (if clusterReferenceChanged (ks_ClusterRef (gk_Spec oldObj)) (ks_ClusterRef (gk_Spec newObj)) (gk_Namespace newObj)
      then Some KeyClusterRefChanged
      else if ks_ImportKey (gk_Spec oldObj) \<noteq> ks_ImportKey (gk_Spec newObj) then Some ImportChanged
      else validateGarageKeyWithOptions ad grants newObj
        \<lparr>allowLegacySnapshotCollision = garageKeyImportSnapshotCollision ad oldObj
           \<and> ks_SecretTemplate (gk_Spec oldObj) = ks_SecretTemplate (gk_Spec newObj),
         allowUnchangedLegacy = (gk_Spec (key_Default oldObj) = gk_Spec newObj)\<rparr>)"

subsection \<open>What an admitted template guarantees\<close>

lemma check_generated_ok:
  assumes "check_generated vl seen ks = (None, seen')" "distinct seen"
  shows "distinct (rev seen @ map fst (filter snd ks)) \<and> seen' = rev (map fst (filter snd ks)) @ seen"
  using assms by (induction vl seen ks rule: check_generated.induct) (auto split: if_splits)

lemma check_additional_ok: "check_additional vl seen m = None \<Longrightarrow> fst ` set m \<inter> set seen = {}"
  by (induction vl seen m rule: check_additional.induct) (auto split: if_splits)

text \<open>The data keys that are written are pairwise distinct, and user data uses none of them.\<close>

lemma template_keys_distinct:
  assumes "validateSecretTemplate ke vl (Some t) = None"
  shows "distinct (map fst (filter snd (generated_keys t)))"
    and "fst ` set (stp_AdditionalData t) \<inter> set (map fst (filter snd (generated_keys t))) = {}"
proof -
  obtain seen where g: "check_generated vl [] (generated_keys t) = (None, seen)"
    and a: "check_additional vl seen (stp_AdditionalData t) = None"
    using assms by (auto simp: validateSecretTemplate_def split: if_splits prod.splits option.splits)
  note ok = check_generated_ok [OF g]
  show "distinct (map fst (filter snd (generated_keys t)))" using ok by simp
  show "fst ` set (stp_AdditionalData t) \<inter> set (map fst (filter snd (generated_keys t))) = {}"
    using check_additional_ok [OF a] ok by simp
qed

end
