(* ===== verification/KeyPermissions.thy ===== *)
theory KeyPermissions
  imports KeyIdentity
begin

text \<open>
  Bucket permissions of a key (reconcileManagedBucketPermissions of
  internal/controller/garagekey_controller.go), the counterpart of the bucket controller's
  reconcileKeyPermissions.  Both controllers compute the union of what GarageBuckets and GarageKeys
  declare; the last section shows that they agree, so that neither undoes the other's work.
\<close>

subsection \<open>Declarations\<close>

definition bucketPermissionsForKey :: "GarageBucket \<Rightarrow> GarageKey \<Rightarrow> BucketKeyPerms option" where
  "bucketPermissionsForKey b k =
     fold (\<lambda>p acc. if key_ref_name b p = key_name k
             then Some (mergeBucketPerms (case acc of None \<Rightarrow> no_perms | Some q \<Rightarrow> q) (perm_bits p)) else acc)
       (bs_KeyPermissions (gb_Spec b)) None"

text \<open>What a bucket permission refers to; an empty identifier means it names nothing.\<close>

datatype resolution = Unresolvable string resolve_failure | BucketPending string | BucketIs string

definition bucket_ref_name :: "GarageKey \<Rightarrow> BucketRef \<Rightarrow> NamespacedName" where
  "bucket_ref_name k r =
     \<lparr>nn_Namespace = (if br_Namespace r \<noteq> [] then br_Namespace r else gk_Namespace k), nn_Name = br_Name r\<rparr>"

definition resolveBucketID :: "key_env \<Rightarrow> GarageKey \<Rightarrow> BucketPermission \<Rightarrow> trace \<Rightarrow> resolution \<times> trace" where
  "resolveBucketID env k p tr =
     (case bp2_BucketRef p of
        Some r \<Rightarrow>
          (case kv_GetBucket env tr (bucket_ref_name k r) of
             Inl e \<Rightarrow> (if e = KubeNotFound then BucketPending (br_Name r) else Unresolvable (br_Name r) (BucketUnreadable e), tr)
           | Inr b \<Rightarrow>
               (if bst_BucketID (gb_Status b) = [] then BucketPending (br_Name r)
                else if \<not> sameClusterForBucketAndKey b k then Unresolvable (br_Name r) BucketOfOtherCluster
                else BucketIs (bst_BucketID (gb_Status b)), tr))
      | None \<Rightarrow>
          if bp2_BucketID p \<noteq> [] then (BucketIs (bp2_BucketID p), tr)
          else if bp2_GlobalAlias p \<noteq> [] then
            (case call_bucket (kv_Admin env) (GetBucketInfo (by_alias (bp2_GlobalAlias p))) tr of
               (Inl e, t1) \<Rightarrow> (Unresolvable (bp2_GlobalAlias p) (AliasUnresolved e), t1)
             | (Inr b, t1) \<Rightarrow> (BucketIs (bk_ID b), t1))
          else (BucketIs [], tr))"

text \<open>
  The loop over spec.bucketPermissions collects the desired permissions by bucket, the buckets named
  explicitly, those of unauthorized references, and the number of errors.
\<close>

type_synonym key_declared = "(string, BucketKeyPerms) gomap \<times> string list \<times> string list \<times> nat"

definition unauthorized_ref :: "key_env \<Rightarrow> GarageKey \<Rightarrow> BucketPermission \<Rightarrow> trace \<Rightarrow> bool" where
  "unauthorized_ref env k p tr \<longleftrightarrow>
     (case bp2_BucketRef p of
        None \<Rightarrow> False
      | Some r \<Rightarrow> CheckReferenceGrant (be_ListGrants (kv_Admin env) tr) garageKeyKind (gk_Namespace k) garageBucketKind
                   (nn_Namespace (bucket_ref_name k r)) (br_Name r) \<noteq> None)"

fun collect_key_declared ::
    "key_env \<Rightarrow> GarageKey \<Rightarrow> BucketPermission list \<Rightarrow> key_declared \<Rightarrow> trace \<Rightarrow> (key_error + key_declared) \<times> trace" where
  "collect_key_declared env k [] acc tr = (Inr acc, tr)"
| "collect_key_declared env k (p # ps) (desired, explicit, unauthorized, errs) tr =
     (if unauthorized_ref env k p tr then
        (case resolveBucketID env k p tr of
           (Unresolvable ref why, t1) \<Rightarrow> collect_key_declared env k ps (desired, explicit, unauthorized, errs + 2) t1
         | (BucketPending ref, t1) \<Rightarrow> collect_key_declared env k ps (desired, explicit, unauthorized, errs + 1) t1
         | (BucketIs i, t1) \<Rightarrow>
             collect_key_declared env k ps (desired, explicit, if i \<noteq> [] then i # unauthorized else unauthorized, errs + 1) t1)
      else
        (case resolveBucketID env k p tr of
           (Unresolvable ref why, t1) \<Rightarrow> (Inl (ResolveBucketFailed ref why), t1)
         | (BucketPending ref, t1) \<Rightarrow> (Inl (WaitingForBucket ref), t1)
         | (BucketIs i, t1) \<Rightarrow>
             if i = [] then collect_key_declared env k ps (desired, explicit, unauthorized, errs) t1
             else collect_key_declared env k ps
               (AList.update i (mergeBucketPerms (gomap_get no_perms desired i) (permission_bits p)) desired,
                i # explicit, unauthorized, errs) t1))"

definition baseline :: "AllBucketsPermission \<Rightarrow> string list \<Rightarrow> (string, BucketKeyPerms) gomap" where
  "baseline a ids = fold (\<lambda>i m. AList.update i (mergeBucketPerms (gomap_get no_perms m i) (all_buckets_bits a)) m) ids []"

subsection \<open>The declarations of the buckets\<close>

definition bucket_identity :: "GarageBucket \<Rightarrow> string" where
  "bucket_identity b = (if bst_BucketID (gb_Status b) = [] then bs_BucketID (gb_Spec b) else bst_BucketID (gb_Status b))"

definition add_bucket :: "key_env \<Rightarrow> GarageKey \<Rightarrow> string \<Rightarrow> trace \<Rightarrow> GarageBucket \<Rightarrow> union \<Rightarrow> union" where
  "add_bucket env k accessKeyID tr b acc =
     (case acc of (desired, targets, errs) \<Rightarrow>
      let i = bucket_identity b in
      if \<not> sameClusterForBucketAndKey b k \<or> i = [] then acc
      else
        let reserved = stringSliceContains (bst_ManagedKeyGrants (gb_Status b)) accessKeyID;
            targets' = (if reserved then i # targets else targets)
        in case bucketPermissionsForKey b k of
             None \<Rightarrow> (desired, targets', errs)
           | Some p \<Rightarrow>
               (case CheckReferenceGrant (be_ListGrants (kv_Admin env) tr) garageBucketKind (gb_Namespace b)
                       garageKeyKind (gk_Namespace k) (gk_Name k) of
                  Some _ \<Rightarrow> (desired, targets', errs + 1)
                | None \<Rightarrow>
                    if \<not> reserved then (desired, targets', errs)
                    else (AList.update i (mergeBucketPerms (gomap_get no_perms desired i) p) desired, i # targets', errs)))"

subsection \<open>Applying the union\<close>

fun apply_buckets ::
    "bucket_env \<Rightarrow> string \<Rightarrow> (string, BucketKeyPerms) gomap \<Rightarrow> (string, BucketKeyPerms) gomap \<Rightarrow> string list
     \<Rightarrow> nat \<Rightarrow> trace \<Rightarrow> nat \<times> trace" where
  "apply_buckets env accessKeyID current desired [] errs tr = (errs, tr)"
| "apply_buckets env accessKeyID current desired (i # is) errs tr =
     (case reconcileExactBucketKeyPermissions env i accessKeyID (gomap_get no_perms current i) (gomap_get no_perms desired i) tr of
        (Some _, t1) \<Rightarrow> apply_buckets env accessKeyID current desired is (errs + 1) t1
      | (None, t1) \<Rightarrow> apply_buckets env accessKeyID current desired is errs t1)"

definition with_bucket_grants :: "string list \<Rightarrow> bool \<Rightarrow> GarageKey \<Rightarrow> GarageKey" where
  "with_bucket_grants ids wide k =
     k\<lparr>gk_Status := (gk_Status k)\<lparr>kst_ManagedBucketGrants := ids, kst_ClusterWide := wide\<rparr>\<rparr>"

definition record_bucket_grants ::
    "key_env \<Rightarrow> string list \<Rightarrow> bool \<Rightarrow> GarageKey \<Rightarrow> trace \<Rightarrow> key_error option \<times> GarageKey \<times> trace" where
  "record_bucket_grants env ids wide k tr =
     (if kst_ManagedBucketGrants (gk_Status k) = ids \<and> kst_ClusterWide (gk_Status k) = wide then (None, k, tr)
      else (case call_key_status env (KeyStatusUpdate (with_bucket_grants ids wide k)) tr of
              (Some e, t1) \<Rightarrow> (Some (GrantsStatusFailed e), with_bucket_grants ids wide k, t1)
            | (None, t1) \<Rightarrow> (None, with_bucket_grants ids wide k, t1)))"

definition current_buckets :: "Key \<Rightarrow> (string, BucketKeyPerms) gomap" where
  "current_buckets g = fold (\<lambda>b m. AList.update (kb_ID b) (kb_Permissions b) m) (gky_Buckets g) []"

definition all_buckets_baseline :: "key_env \<Rightarrow> GarageKey \<Rightarrow> trace \<Rightarrow> key_error + (string, BucketKeyPerms) gomap" where
  "all_buckets_baseline env k tr =
     (case ks_AllBuckets (gk_Spec k) of
        None \<Rightarrow> Inr []
      | Some a \<Rightarrow> (case kv_ListBuckets env tr of Inl e \<Rightarrow> Inl (BucketListFailed e) | Inr ids \<Rightarrow> Inr (baseline a ids)))"

definition reconcileManagedBucketPermissions ::
    "key_env \<Rightarrow> GarageKey \<Rightarrow> Key \<Rightarrow> trace \<Rightarrow> key_error option \<times> GarageKey \<times> trace" where
  "reconcileManagedBucketPermissions env k g tr =
     (let current = current_buckets g; wide = (ks_AllBuckets (gk_Spec k) \<noteq> None) in
      case all_buckets_baseline env k tr of
        Inl e \<Rightarrow> (Some e, k, tr)
      | Inr start \<Rightarrow>
     (case collect_key_declared env k (ks_BucketPermissions (gk_Spec k)) (start, [], [], 0) tr of
        (Inl e, t1) \<Rightarrow> (Some e, k, t1)
      | (Inr (keyDesired, explicit, unauthorized, errs), t1) \<Rightarrow>
     (let keyManaged = sort (remdups explicit) in
      case record_bucket_grants env (mergeManagedGrantIDs (kst_ManagedBucketGrants (gk_Status k)) keyManaged)
             (kst_ClusterWide (gk_Status k) \<or> wide) k t1 of
        (Some e, k1, t2) \<Rightarrow> (Some e, k1, t2)
      | (None, k1, t2) \<Rightarrow>
     (case kv_ListGarageBuckets env t2 of
        Inl e \<Rightarrow> (Some (GarageBucketListFailed e), k1, t2)
      | Inr buckets \<Rightarrow>
     (case fold (add_bucket env k1 (gky_AccessKeyID g) t2) buckets
             (keyDesired,
              map fst keyDesired @ kst_ManagedBucketGrants (gk_Status k1) @ unauthorized
                @ (if kst_ClusterWide (gk_Status k1) then map fst current else []), errs) of
        (desired, targets, errs1) \<Rightarrow>
     (case apply_buckets (kv_Admin env) (gky_AccessKeyID g) current desired (remdups targets) errs1 t2 of
        (errs2, t3) \<Rightarrow>
          if errs2 > 0 then (Some (BucketPermissionsFailed errs2), k1, t3)
          else record_bucket_grants env keyManaged wide k1 t3))))))"

subsection \<open>What the loops collect\<close>

text \<open>The buckets the declarations resolve to, in order, each found with the calls made before it.\<close>

fun key_resolutions :: "key_env \<Rightarrow> GarageKey \<Rightarrow> BucketPermission list \<Rightarrow> trace \<Rightarrow> (BucketPermission \<times> string) list" where
  "key_resolutions env k [] tr = []"
| "key_resolutions env k (p # ps) tr =
     (case resolveBucketID env k p tr of
        (BucketIs i, t1) \<Rightarrow> (if i = [] then [] else [(p, i)]) @ key_resolutions env k ps t1
      | (_, t1) \<Rightarrow> key_resolutions env k ps t1)"

definition lookup_only :: "trace \<Rightarrow> bool" where
  "lookup_only new \<longleftrightarrow> (\<forall>c \<in> fst ` set new. \<exists>q. c = GetBucketInfo q)"

lemma resolve_bucket_trace: "resolveBucketID env k p tr = (r, t1) \<Longrightarrow> \<exists>new. t1 = tr @ new \<and> lookup_only new"
  by (auto simp: resolveBucketID_def call_defs lookup_only_def split: option.splits sum.splits if_splits)

lemma lookup_only_quiet: "lookup_only new \<Longrightarrow> perms_after i k p new = p"
  by (rule perms_after_untouched) (auto simp: lookup_only_def changes_key_def)

lemma lookup_only_append [simp]: "lookup_only (a @ b) \<longleftrightarrow> lookup_only a \<and> lookup_only b"
  by (auto simp: lookup_only_def)

lemma collect_key_trace:
  "collect_key_declared env k ps acc tr = (r, t1) \<Longrightarrow> \<exists>new. t1 = tr @ new \<and> lookup_only new"
proof (induction env k ps acc tr arbitrary: t1 rule: collect_key_declared.induct)
  case (1 env k acc tr)
  then show ?case by (simp add: lookup_only_def)
next
  case (2 env k p ps desired explicit unauthorized errs tr)
  obtain q t2 where q: "resolveBucketID env k p tr = (q, t2)" by force
  obtain a where a: "t2 = tr @ a" "lookup_only a" using resolve_bucket_trace [OF q] by blast
  have "t1 = t2 \<or> (\<exists>new. t1 = t2 @ new \<and> lookup_only new)"
    using 2 q by (cases q) (auto split: if_splits)
  then show ?case using a by auto
qed

lemma collect_key_exact:
  assumes "collect_key_declared env k ps (d, e, u, n) tr = (Inr (d', e', u', n'), t1)"
  shows "n \<le> n' \<and> (n' = n \<longrightarrow> u' = u \<and> set e' = set e \<union> snd ` set (key_resolutions env k ps tr)
     \<and> fst ` set d' = fst ` set d \<union> snd ` set (key_resolutions env k ps tr)
     \<and> (\<forall>pb \<in> bits. \<forall>i. pb (gomap_get no_perms d' i)
          = (pb (gomap_get no_perms d i) \<or> (\<exists>p. (p, i) \<in> set (key_resolutions env k ps tr) \<and> pb (permission_bits p)))))"
  using assms
proof (induction ps arbitrary: d e u n tr)
  case Nil
  then show ?case by simp
next
  case (Cons p ps)
  obtain q t2 where q: "resolveBucketID env k p tr = (q, t2)" by force
  show ?case
  proof (cases "unauthorized_ref env k p tr")
    case True
    then obtain u1 n1 where "collect_key_declared env k ps (d, e, u1, n1) t2 = (Inr (d', e', u', n'), t1)" "n < n1"
      using Cons.prems q by (cases q) (auto split: if_splits)
    then show ?thesis using Cons.IH by fastforce
  next
    case False
    then obtain i where i: "q = BucketIs i" using Cons.prems q by (cases q) auto
    let ?R = "key_resolutions env k ps t2"
    show ?thesis
    proof (cases "i = []")
      case True
      then have "collect_key_declared env k ps (d, e, u, n) t2 = (Inr (d', e', u', n'), t1)" using Cons.prems q i False by simp
      from Cons.IH [OF this] show ?thesis using q i True by simp
    next
      case ne: False
      let ?d = "AList.update i (mergeBucketPerms (gomap_get no_perms d i) (permission_bits p)) d"
      have rest: "collect_key_declared env k ps (?d, i # e, u, n) t2 = (Inr (d', e', u', n'), t1)"
        using Cons.prems q i False ne by simp
      have dom: "fst ` set ?d = insert i (fst ` set d)" by (simp add: dom_update)
      have R: "key_resolutions env k (p # ps) tr = (p, i) # ?R" using q i ne by simp
      note ih = Cons.IH [OF rest]
      show ?thesis
      proof (intro conjI impI)
        show "n \<le> n'" using ih by blast
        assume n: "n' = n"
        show "u' = u" "set e' = set e \<union> snd ` set (key_resolutions env k (p # ps) tr)" using ih n R by auto
        show "fst ` set d' = fst ` set d \<union> snd ` set (key_resolutions env k (p # ps) tr)" using ih n R dom by auto
        show "\<forall>pb \<in> bits. \<forall>j. pb (gomap_get no_perms d' j) = (pb (gomap_get no_perms d j)
            \<or> (\<exists>q. (q, j) \<in> set (key_resolutions env k (p # ps) tr) \<and> pb (permission_bits q)))"
        proof (intro ballI allI)
          fix pb j assume pb: "pb \<in> bits"
          have "pb (gomap_get no_perms d' j)
              = (pb (gomap_get no_perms ?d j) \<or> (\<exists>q. (q, j) \<in> set ?R \<and> pb (permission_bits q)))" using ih n pb by blast
          then show "pb (gomap_get no_perms d' j) = (pb (gomap_get no_perms d j)
            \<or> (\<exists>q. (q, j) \<in> set (key_resolutions env k (p # ps) tr) \<and> pb (permission_bits q)))"
            unfolding R using pb by (auto simp: gomap_get_update)
        qed
      qed
    qed
  qed
qed

lemma baseline_exact:
  "fst ` set (baseline a ids) = set ids"
  "pb \<in> bits \<Longrightarrow> pb (gomap_get no_perms (baseline a ids) i) \<longleftrightarrow> i \<in> set ids \<and> pb (all_buckets_bits a)"
proof -
  let ?f = "fold (\<lambda>i m. AList.update i (mergeBucketPerms (gomap_get no_perms m i) (all_buckets_bits a)) m)"
  have dom: "fst ` set (?f ids m) = fst ` set m \<union> set ids" for m
    by (induction ids arbitrary: m) (auto simp: dom_update)
  have bit: "pb \<in> bits \<Longrightarrow> pb (gomap_get no_perms (?f ids m) i) \<longleftrightarrow> pb (gomap_get no_perms m i) \<or> i \<in> set ids \<and> pb (all_buckets_bits a)" for m
    by (induction ids arbitrary: m) (auto simp: gomap_get_update)
  show "fst ` set (baseline a ids) = set ids" using dom [of "[]"] by (simp add: baseline_def)
  show "pb \<in> bits \<Longrightarrow> pb (gomap_get no_perms (baseline a ids) i) \<longleftrightarrow> i \<in> set ids \<and> pb (all_buckets_bits a)"
    using bit [of "[]"] by (simp add: baseline_def) (simp add: gomap_get_def)
qed

text \<open>What a GarageBucket grants a key, and that it has reserved the grant.\<close>

definition bucket_grants :: "GarageBucket \<Rightarrow> GarageKey \<Rightarrow> (BucketKeyPerms \<Rightarrow> bool) \<Rightarrow> bool" where
  "bucket_grants b k pb \<longleftrightarrow> (\<exists>p \<in> set (bs_KeyPermissions (gb_Spec b)). key_ref_name b p = key_name k \<and> pb (perm_bits p))"

definition reserved_by_bucket :: "GarageKey \<Rightarrow> string \<Rightarrow> GarageBucket \<Rightarrow> string \<Rightarrow> bool" where
  "reserved_by_bucket k accessKeyID b i \<longleftrightarrow>
     sameClusterForBucketAndKey b k \<and> bucket_identity b = i \<and> i \<noteq> [] \<and> accessKeyID \<in> set (bst_ManagedKeyGrants (gb_Status b))"

lemma bucket_permission_bits:
  assumes "pb \<in> bits"
  shows "opt_bit pb (bucketPermissionsForKey b k) = bucket_grants b k pb"
proof -
  let ?step = "\<lambda>p acc. if key_ref_name b p = key_name k
             then Some (mergeBucketPerms (case acc of None \<Rightarrow> no_perms | Some q \<Rightarrow> q) (perm_bits p)) else acc"
  have "opt_bit pb (fold ?step ps acc) = (opt_bit pb acc \<or> (\<exists>p \<in> set ps. key_ref_name b p = key_name k \<and> pb (perm_bits p)))" for ps acc
    using assms by (induction ps arbitrary: acc) (auto simp: opt_bit_def split: option.splits)
  then show ?thesis by (simp add: bucketPermissionsForKey_def bucket_grants_def opt_bit_def)
qed

lemma slice_contains [simp]: "stringSliceContains xs x \<longleftrightarrow> x \<in> set xs"
  by (auto simp: stringSliceContains_def list_ex_iff)

lemma add_buckets_exact:
  assumes "fold (add_bucket env k a tr) bs (d, ts, n) = (d', ts', n')"
  shows "n \<le> n' \<and> set ts' = set ts \<union> {i. \<exists>b \<in> set bs. reserved_by_bucket k a b i}
     \<and> (n' = n \<longrightarrow> (\<forall>pb \<in> bits. \<forall>i. pb (gomap_get no_perms d' i)
       = (pb (gomap_get no_perms d i) \<or> (\<exists>b \<in> set bs. reserved_by_bucket k a b i \<and> bucket_grants b k pb))))"
  using assms
proof (induction bs arbitrary: d ts n)
  case Nil
  then show ?case by simp
next
  case (Cons b bs)
  obtain d1 ts1 n1 where one: "add_bucket env k a tr b (d, ts, n) = (d1, ts1, n1)" by (metis prod_cases3)
  have first: "n \<le> n1" "set ts1 = set ts \<union> {i. reserved_by_bucket k a b i}"
    using one by (auto simp: add_bucket_def reserved_by_bucket_def Let_def split: if_splits option.splits)
  have bit1: "pb (gomap_get no_perms d1 i) = (pb (gomap_get no_perms d i) \<or> reserved_by_bucket k a b i \<and> bucket_grants b k pb)"
    if "n1 = n" "pb \<in> bits" for pb i
    using one that bucket_permission_bits [OF that(2), of b k]
    by (auto simp: add_bucket_def reserved_by_bucket_def opt_bit_def gomap_get_update Let_def split: if_splits option.splits)
  have "fold (add_bucket env k a tr) bs (d1, ts1, n1) = (d', ts', n')" using Cons.prems one by simp
  note rest = Cons.IH [OF this]
  show ?case
  proof (intro conjI impI)
    show "n \<le> n'" using rest first(1) by linarith
    show "set ts' = set ts \<union> {i. \<exists>b' \<in> set (b # bs). reserved_by_bucket k a b' i}" using rest first(2) by auto
    assume "n' = n"
    then have n: "n1 = n" "n' = n1" using rest first(1) by auto
    show "\<forall>pb \<in> bits. \<forall>i. pb (gomap_get no_perms d' i)
       = (pb (gomap_get no_perms d i) \<or> (\<exists>b' \<in> set (b # bs). reserved_by_bucket k a b' i \<and> bucket_grants b' k pb))"
    proof (intro ballI allI)
      fix pb i assume pb: "pb \<in> bits"
      have "pb (gomap_get no_perms d' i) = (pb (gomap_get no_perms d1 i)
          \<or> (\<exists>b \<in> set bs. reserved_by_bucket k a b i \<and> bucket_grants b k pb))" using rest n pb by blast
      then show "pb (gomap_get no_perms d' i)
         = (pb (gomap_get no_perms d i) \<or> (\<exists>b' \<in> set (b # bs). reserved_by_bucket k a b' i \<and> bucket_grants b' k pb))"
        unfolding bit1 [OF n(1) pb] by auto
    qed
  qed
qed

lemma apply_buckets_pairs:
  "apply_buckets env a current desired is errs tr
     = apply_pairs env (\<lambda>x. gomap_get no_perms current (fst x)) (\<lambda>x. gomap_get no_perms desired (fst x)) (map (\<lambda>i. (i, a)) is) errs tr"
  by (induction "is" arbitrary: errs tr) (auto split: prod.split option.split)

lemma apply_buckets_trace:
  assumes "apply_buckets env a current desired is errs tr = (n, t1)" "distinct is"
  shows "\<exists>new. t1 = tr @ new \<and> errs \<le> n
     \<and> (n = errs \<longrightarrow> (\<forall>i. perms_after i a (gomap_get no_perms current i) new
          = (if i \<in> set is then gomap_get no_perms desired i else gomap_get no_perms current i)))"
  using apply_pairs_trace [OF assms(1) [unfolded apply_buckets_pairs]] assms(2)
  by (fastforce simp: distinct_map inj_on_def)

subsection \<open>Exactness\<close>

lemma with_bucket_grants_same [simp]:
  "reserved_by_bucket (with_bucket_grants ids w k) a b i = reserved_by_bucket k a b i"
  "bucket_grants b (with_bucket_grants ids w k) pb = bucket_grants b k pb"
  "kst_ManagedBucketGrants (gk_Status (with_bucket_grants ids w k)) = ids"
  "kst_ClusterWide (gk_Status (with_bucket_grants ids w k)) = w"
  by (simp_all add: with_bucket_grants_def reserved_by_bucket_def sameClusterForBucketAndKey_def bucket_grants_def key_name_def Let_def)

lemma record_bucket_grants_trace:
  assumes "record_bucket_grants env ids w k tr = (e, k1, t1)"
  shows "k1 = with_bucket_grants ids w k"
    and "\<exists>new. t1 = tr @ new \<and> fst ` set new \<subseteq> {KeyCall (KeyStatusUpdate (with_bucket_grants ids w k))}"
proof -
  have "kst_ManagedBucketGrants (gk_Status k) = ids \<Longrightarrow> kst_ClusterWide (gk_Status k) = w \<Longrightarrow> with_bucket_grants ids w k = k"
    by (auto simp: with_bucket_grants_def)
  then show "k1 = with_bucket_grants ids w k"
    "\<exists>new. t1 = tr @ new \<and> fst ` set new \<subseteq> {KeyCall (KeyStatusUpdate (with_bucket_grants ids w k))}"
    using assms by (auto simp: record_bucket_grants_def key_call_defs split: if_splits option.splits)
qed

lemma key_updates_quiet: "fst ` set new \<subseteq> {KeyCall c} \<Longrightarrow> perms_after i a p new = p"
  by (rule perms_after_untouched) (auto simp: changes_key_def)

definition all_bucket_ids :: "key_env \<Rightarrow> GarageKey \<Rightarrow> trace \<Rightarrow> string set" where
  "all_bucket_ids env k tr =
     (case ks_AllBuckets (gk_Spec k) of None \<Rightarrow> {} | Some _ \<Rightarrow> (case kv_ListBuckets env tr of Inl _ \<Rightarrow> {} | Inr ids \<Rightarrow> set ids))"

text \<open>The buckets whose relation to the key the operator manages, and what the two sides declare for one.\<close>

definition managed_bucket :: "key_env \<Rightarrow> GarageKey \<Rightarrow> Key \<Rightarrow> trace \<Rightarrow> GarageBucket list \<Rightarrow> string \<Rightarrow> bool" where
  "managed_bucket env k g tr buckets i \<longleftrightarrow>
     i \<in> all_bucket_ids env k tr \<or> i \<in> snd ` set (key_resolutions env k (ks_BucketPermissions (gk_Spec k)) tr)
     \<or> i \<in> set (kst_ManagedBucketGrants (gk_Status k))
     \<or> (kst_ClusterWide (gk_Status k) \<or> ks_AllBuckets (gk_Spec k) \<noteq> None) \<and> i \<in> kb_ID ` set (gky_Buckets g)
     \<or> (\<exists>b \<in> set buckets. reserved_by_bucket k (gky_AccessKeyID g) b i)"

definition declared_for_key ::
    "key_env \<Rightarrow> GarageKey \<Rightarrow> Key \<Rightarrow> trace \<Rightarrow> GarageBucket list \<Rightarrow> string \<Rightarrow> (BucketKeyPerms \<Rightarrow> bool) \<Rightarrow> bool" where
  "declared_for_key env k g tr buckets i pb \<longleftrightarrow>
     (\<exists>a. ks_AllBuckets (gk_Spec k) = Some a \<and> i \<in> all_bucket_ids env k tr \<and> pb (all_buckets_bits a))
     \<or> (\<exists>p. (p, i) \<in> set (key_resolutions env k (ks_BucketPermissions (gk_Spec k)) tr) \<and> pb (permission_bits p))
     \<or> (\<exists>b \<in> set buckets. reserved_by_bucket k (gky_AccessKeyID g) b i \<and> bucket_grants b k pb)"

lemma gomap_get_Nil: "gomap_get z [] i = z"
  by (simp add: gomap_get_def)

lemma baseline_result:
  assumes "all_buckets_baseline env k tr = Inr start"
  shows "fst ` set start = all_bucket_ids env k tr"
    and "pb \<in> bits \<Longrightarrow> pb (gomap_get no_perms start i)
        \<longleftrightarrow> (\<exists>a. ks_AllBuckets (gk_Spec k) = Some a \<and> i \<in> all_bucket_ids env k tr \<and> pb (all_buckets_bits a))"
  using assms baseline_exact
  by (auto simp: all_buckets_baseline_def all_bucket_ids_def gomap_get_Nil split: option.splits sum.splits)

lemma current_buckets_dom: "fst ` set (current_buckets g) = kb_ID ` set (gky_Buckets g)"
proof -
  have "fst ` set (fold (\<lambda>b m. AList.update (kb_ID b) (kb_Permissions b) m) bs m) = fst ` set m \<union> kb_ID ` set bs" for bs m
    by (induction bs arbitrary: m) (auto simp: dom_update)
  from this [of "gky_Buckets g" "[]"] show ?thesis by (simp add: current_buckets_def)
qed

text \<open>The stages of a successful run.\<close>

lemma key_permission_stages:
  assumes "reconcileManagedBucketPermissions env k g tr = (None, k', tr')"
  obtains start d e u n t1 k1 t2 buckets d' ts' n1 t3 where
    "all_buckets_baseline env k tr = Inr start"
    "collect_key_declared env k (ks_BucketPermissions (gk_Spec k)) (start, [], [], 0) tr = (Inr (d, e, u, n), t1)"
    "record_bucket_grants env (mergeManagedGrantIDs (kst_ManagedBucketGrants (gk_Status k)) (sort (remdups e)))
       (kst_ClusterWide (gk_Status k) \<or> ks_AllBuckets (gk_Spec k) \<noteq> None) k t1 = (None, k1, t2)"
    "kv_ListGarageBuckets env t2 = Inr buckets"
    "fold (add_bucket env k1 (gky_AccessKeyID g) t2) buckets
       (d, map fst d @ kst_ManagedBucketGrants (gk_Status k1) @ u
          @ (if kst_ClusterWide (gk_Status k1) then map fst (current_buckets g) else []), n) = (d', ts', n1)"
    "apply_buckets (kv_Admin env) (gky_AccessKeyID g) (current_buckets g) d' (remdups ts') n1 t2 = (0, t3)"
    "record_bucket_grants env (sort (remdups e)) (ks_AllBuckets (gk_Spec k) \<noteq> None) k1 t3 = (None, k', tr')"
  using assms
  by (auto simp: reconcileManagedBucketPermissions_def Let_def split: sum.splits prod.splits option.splits if_splits)

text \<open>
  After a successful reconcile of a key, its permissions on every bucket are exactly what the key and
  the buckets holding a reservation declare, where the operator manages the relation, and unchanged
  elsewhere.
\<close>

lemma managed_bucket_permissions_exact:
  assumes "reconcileManagedBucketPermissions env k g tr = (None, k', tr')"
  shows "\<exists>t2 buckets. prefix tr t2 \<and> prefix t2 tr' \<and> kv_ListGarageBuckets env t2 = Inr buckets
     \<and> (\<forall>i pb. i \<noteq> [] \<and> pb \<in> bits \<longrightarrow>
          pb (perms_after i (gky_AccessKeyID g) (gomap_get no_perms (current_buckets g) i) (drop (length tr) tr'))
          = (if managed_bucket env k g tr buckets i then declared_for_key env k g tr buckets i pb
             else pb (gomap_get no_perms (current_buckets g) i)))"
proof -
  obtain start d e u n t1 k1 t2 buckets d' ts' n1 t3 where
    st: "all_buckets_baseline env k tr = Inr start"
      "collect_key_declared env k (ks_BucketPermissions (gk_Spec k)) (start, [], [], 0) tr = (Inr (d, e, u, n), t1)"
      "record_bucket_grants env (mergeManagedGrantIDs (kst_ManagedBucketGrants (gk_Status k)) (sort (remdups e)))
         (kst_ClusterWide (gk_Status k) \<or> ks_AllBuckets (gk_Spec k) \<noteq> None) k t1 = (None, k1, t2)"
      "kv_ListGarageBuckets env t2 = Inr buckets"
      "fold (add_bucket env k1 (gky_AccessKeyID g) t2) buckets
         (d, map fst d @ kst_ManagedBucketGrants (gk_Status k1) @ u
            @ (if kst_ClusterWide (gk_Status k1) then map fst (current_buckets g) else []), n) = (d', ts', n1)"
      "apply_buckets (kv_Admin env) (gky_AccessKeyID g) (current_buckets g) d' (remdups ts') n1 t2 = (0, t3)"
      "record_bucket_grants env (sort (remdups e)) (ks_AllBuckets (gk_Spec k) \<noteq> None) k1 t3 = (None, k', tr')"
    using key_permission_stages [OF assms] by metis
  let ?cur = "gomap_get no_perms (current_buckets g)"
  obtain a where a: "t1 = tr @ a" "lookup_only a" using collect_key_trace [OF st(2)] by blast
  obtain b where b: "t2 = t1 @ b" "\<And>i p. perms_after i (gky_AccessKeyID g) p b = p"
    using record_bucket_grants_trace(2) [OF st(3)] key_updates_quiet by metis
  obtain c where c: "tr' = t3 @ c" "\<And>i p. perms_after i (gky_AccessKeyID g) p c = p"
    using record_bucket_grants_trace(2) [OF st(7)] key_updates_quiet by metis
  note k1 = record_bucket_grants_trace(1) [OF st(3)]
  obtain new where new: "t3 = t2 @ new" "n1 \<le> 0"
      "0 = n1 \<longrightarrow> (\<forall>i. perms_after i (gky_AccessKeyID g) (?cur i) new = (if i \<in> set (remdups ts') then gomap_get no_perms d' i else ?cur i))"
    using apply_buckets_trace [OF st(6)] by auto
  note bs = add_buckets_exact [OF st(5)] and coll = collect_key_exact [OF st(2)] and base = baseline_result [OF st(1)]
  have n: "n1 = 0" "n = 0" using new(2) bs by auto
  have after: "perms_after i (gky_AccessKeyID g) (?cur i) (drop (length tr) tr') = (if i \<in> set ts' then gomap_get no_perms d' i else ?cur i)" for i
    using new n a b c lookup_only_quiet by simp
  have ts: "i \<in> set ts' \<longleftrightarrow> managed_bucket env k g tr buckets i" if "i \<noteq> []" for i
  proof -
    have "fst ` set d = all_bucket_ids env k tr \<union> snd ` set (key_resolutions env k (ks_BucketPermissions (gk_Spec k)) tr)"
      "set e = snd ` set (key_resolutions env k (ks_BucketPermissions (gk_Spec k)) tr)" "u = []"
      using coll n base(1) by simp_all
    then show ?thesis using bs that by (auto simp: managed_bucket_def k1 current_buckets_dom)
  qed
  have bit: "pb (gomap_get no_perms d' i) = declared_for_key env k g tr buckets i pb" if "pb \<in> bits" for pb i
  proof -
    have "pb (gomap_get no_perms d' i) = (pb (gomap_get no_perms d i)
        \<or> (\<exists>b \<in> set buckets. reserved_by_bucket k (gky_AccessKeyID g) b i \<and> bucket_grants b k pb))"
      using bs n that by (simp add: k1)
    moreover have "pb (gomap_get no_perms d i) = (pb (gomap_get no_perms start i)
        \<or> (\<exists>p. (p, i) \<in> set (key_resolutions env k (ks_BucketPermissions (gk_Spec k)) tr) \<and> pb (permission_bits p)))"
      using coll n that by simp
    ultimately show ?thesis using base(2) [OF that] by (auto simp: declared_for_key_def)
  qed
  show ?thesis
    using after ts bit a b c new(1) st(4) by (intro exI [of _ t2] exI [of _ buckets]) simp
qed

subsection \<open>The two controllers agree\<close>

text \<open>
  A quiet system around one bucket and one key: Kubernetes returns the two resources under their own
  names, no other resource claims their remote identities, and Garage's listing and alias table know
  the bucket, whose alias has converged.
\<close>

definition coherent :: "bucket_env \<Rightarrow> key_env \<Rightarrow> GarageBucket \<Rightarrow> Bucket \<Rightarrow> GarageKey \<Rightarrow> string \<Rightarrow> bool" where
  "coherent be kv b existing k a \<longleftrightarrow>
     (\<forall>t. be_GetKey be t (key_name k) = Inr k)
     \<and> (\<forall>t n x. be_GetKey be t n = Inr x \<and> kst_AccessKeyID (gk_Status x) = a \<longrightarrow> n = key_name k)
     \<and> (\<forall>t keys. be_ListKeys be t = Inr keys \<longrightarrow> k \<in> set keys \<and> (\<forall>x \<in> set keys. kst_AccessKeyID (gk_Status x) = a \<longrightarrow> x = k))
     \<and> (\<forall>t. kv_GetBucket kv t (bucket_key b) = Inr b)
     \<and> (\<forall>t n x. kv_GetBucket kv t n = Inr x \<and> bst_BucketID (gb_Status x) = bk_ID existing \<longrightarrow> n = bucket_key b)
     \<and> (\<forall>t bs. kv_ListGarageBuckets kv t = Inr bs \<longrightarrow> b \<in> set bs \<and> (\<forall>x \<in> set bs. bucket_identity x = bk_ID existing \<longrightarrow> x = b))
     \<and> (\<forall>t ids. kv_ListBuckets kv t = Inr ids \<longrightarrow> bk_ID existing \<in> set ids)
     \<and> (\<forall>t al. (\<exists>r. be_Bucket (kv_Admin kv) t (GetBucketInfo (by_alias al)) = Inr r \<and> bk_ID r = bk_ID existing)
          \<longleftrightarrow> al \<in> set (bk_GlobalAliases existing))
     \<and> effective_alias b \<in> set (bk_GlobalAliases existing)"

text \<open>The identities are established, and each side has reserved what it declares, as its own run does first.\<close>

definition established :: "GarageBucket \<Rightarrow> Bucket \<Rightarrow> GarageKey \<Rightarrow> string \<Rightarrow> bool" where
  "established b existing k a \<longleftrightarrow>
     bst_BucketID (gb_Status b) = bk_ID existing \<and> bk_ID existing \<noteq> [] \<and> kst_AccessKeyID (gk_Status k) = a \<and> a \<noteq> []
     \<and> sameClusterForBucketAndKey b k
     \<and> ((\<exists>p \<in> set (bs_KeyPermissions (gb_Spec b)). key_ref_name b p = key_name k) \<longrightarrow> a \<in> set (bst_ManagedKeyGrants (gb_Status b)))
     \<and> ((ks_AllBuckets (gk_Spec k) \<noteq> None \<or> (\<exists>p \<in> set (ks_BucketPermissions (gk_Spec k)). permission_matches k b existing p))
        \<longrightarrow> reverse_reserved k (bk_ID existing))"

text \<open>One side at least declares the relation.\<close>

definition relation_declared :: "GarageBucket \<Rightarrow> Bucket \<Rightarrow> GarageKey \<Rightarrow> bool" where
  "relation_declared b existing k \<longleftrightarrow>
     (\<exists>p \<in> set (bs_KeyPermissions (gb_Spec b)). key_ref_name b p = key_name k)
     \<or> ks_AllBuckets (gk_Spec k) \<noteq> None
     \<or> (\<exists>p \<in> set (ks_BucketPermissions (gk_Spec k)). permission_matches k b existing p)"

lemma resolve_iff_matches:
  assumes "coherent be kv b existing k a" "established b existing k a"
  shows "fst (resolveBucketID kv k p t) = BucketIs (bk_ID existing) \<longleftrightarrow> permission_matches k b existing p"
proof -
  have get: "kv_GetBucket kv t (bucket_key b) = Inr b"
    and own: "\<And>n x. kv_GetBucket kv t n = Inr x \<Longrightarrow> bst_BucketID (gb_Status x) = bk_ID existing \<Longrightarrow> n = bucket_key b"
    and tab: "\<And>al. (\<exists>r. be_Bucket (kv_Admin kv) t (GetBucketInfo (by_alias al)) = Inr r \<and> bk_ID r = bk_ID existing)
        \<longleftrightarrow> al \<in> set (bk_GlobalAliases existing)"
    and eff: "effective_alias b \<in> set (bk_GlobalAliases existing)"
    using assms(1) unfolding coherent_def by blast+
  have b: "bst_BucketID (gb_Status b) = bk_ID existing" "bk_ID existing \<noteq> []" "sameClusterForBucketAndKey b k"
    using assms(2) unfolding established_def by blast+
  show ?thesis
  proof (cases "bp2_BucketRef p")
    case (Some r)
    have "permission_matches k b existing p \<longleftrightarrow> bucket_ref_name k r = bucket_key b"
      using Some by (auto simp: permission_matches_def bucket_ref_name_def bucket_key_def)
    moreover have "fst (resolveBucketID kv k p t) = BucketIs (bk_ID existing) \<longleftrightarrow> bucket_ref_name k r = bucket_key b"
    proof
      assume "fst (resolveBucketID kv k p t) = BucketIs (bk_ID existing)"
      then have "\<exists>x. kv_GetBucket kv t (bucket_ref_name k r) = Inr x \<and> bst_BucketID (gb_Status x) = bk_ID existing"
        using Some by (auto simp: resolveBucketID_def split: sum.splits if_splits)
      then show "bucket_ref_name k r = bucket_key b" using own by blast
    next
      assume "bucket_ref_name k r = bucket_key b"
      then show "fst (resolveBucketID kv k p t) = BucketIs (bk_ID existing)" using Some get b by (simp add: resolveBucketID_def)
    qed
    ultimately show ?thesis by simp
  next
    case None
    then show ?thesis
      using tab [of "bp2_GlobalAlias p"] eff b(2)
      by (auto simp: resolveBucketID_def permission_matches_def call_defs split: sum.splits)
  qed
qed

lemma resolutions_iff_matches:
  assumes "coherent be kv b existing k a" "established b existing k a"
  shows "(p, bk_ID existing) \<in> set (key_resolutions kv k ps t) \<longleftrightarrow> p \<in> set ps \<and> permission_matches k b existing p"
proof (induction ps arbitrary: t)
  case Nil
  then show ?case by simp
next
  case (Cons q ps)
  obtain r t1 where r: "resolveBucketID kv k q t = (r, t1)" by force
  have ne: "bk_ID existing \<noteq> []" using assms(2) by (simp add: established_def)
  have "r = BucketIs (bk_ID existing) \<longleftrightarrow> permission_matches k b existing q"
    using resolve_iff_matches [OF assms, of q t] r by simp
  then show ?case using Cons [of t1] r ne by (cases r) auto
qed

lemma bucket_side_union:
  assumes "coherent be kv b existing k a" "established b existing k a" "be_ListKeys be t = Inr keys" "pb \<in> bits"
  shows "declared_bit be b existing tr keys a pb \<longleftrightarrow> bucket_grants b k pb \<or> key_grants k b existing pb"
    and "relation_declared b existing k \<Longrightarrow> managed_key be b existing tr keys a"
proof -
  have res: "resolves be b tr p a \<longleftrightarrow> key_ref_name b p = key_name k" for p
    using assms(1,2) unfolding coherent_def established_def resolves_def by metis
  have keys: "k \<in> set keys" "\<And>x. x \<in> set keys \<Longrightarrow> reserved_by_key b existing x a \<Longrightarrow> x = k"
    using assms(1,3) unfolding coherent_def reserved_by_key_def by blast+
  have rk: "reserved_by_key b existing k a \<longleftrightarrow> reverse_reserved k (bk_ID existing)"
    using assms(2) by (auto simp: reserved_by_key_def established_def)
  have kg: "key_grants k b existing pb \<Longrightarrow> reverse_reserved k (bk_ID existing)"
    using assms(2) unfolding key_grants_def established_def by auto
  show "declared_bit be b existing tr keys a pb \<longleftrightarrow> bucket_grants b k pb \<or> key_grants k b existing pb"
    unfolding declared_bit_def bucket_grants_def res using keys rk kg by blast
  show "relation_declared b existing k \<Longrightarrow> managed_key be b existing tr keys a"
    using assms(2) keys rk unfolding relation_declared_def managed_key_def res established_def by blast
qed

lemma key_side_union:
  assumes "coherent be kv b existing k a" "established b existing k a" "kv_ListGarageBuckets kv t = Inr buckets"
    and "gky_AccessKeyID g = a" "all_buckets_baseline kv k s = Inr start" "pb \<in> bits"
  shows "declared_for_key kv k g s buckets (bk_ID existing) pb \<longleftrightarrow> bucket_grants b k pb \<or> key_grants k b existing pb"
    and "relation_declared b existing k \<Longrightarrow> managed_bucket kv k g s buckets (bk_ID existing)"
proof -
  note res = resolutions_iff_matches [OF assms(1,2)]
  have all: "bk_ID existing \<in> all_bucket_ids kv k s \<longleftrightarrow> ks_AllBuckets (gk_Spec k) \<noteq> None"
    using assms(1,5) unfolding coherent_def all_buckets_baseline_def all_bucket_ids_def by (auto split: option.splits sum.splits)
  have bs: "b \<in> set buckets" "\<And>x. x \<in> set buckets \<Longrightarrow> reserved_by_bucket k a x (bk_ID existing) \<Longrightarrow> x = b"
    using assms(1,3) unfolding coherent_def reserved_by_bucket_def by blast+
  have rb: "reserved_by_bucket k a b (bk_ID existing) \<longleftrightarrow> a \<in> set (bst_ManagedKeyGrants (gb_Status b))"
    using assms(2) by (auto simp: reserved_by_bucket_def established_def bucket_identity_def)
  have bg: "bucket_grants b k pb \<Longrightarrow> a \<in> set (bst_ManagedKeyGrants (gb_Status b))"
    using assms(2) unfolding bucket_grants_def established_def by auto
  have "(\<exists>x \<in> set buckets. reserved_by_bucket k a x (bk_ID existing) \<and> bucket_grants x k pb) \<longleftrightarrow> bucket_grants b k pb"
    using bs rb bg by blast
  then show "declared_for_key kv k g s buckets (bk_ID existing) pb \<longleftrightarrow> bucket_grants b k pb \<or> key_grants k b existing pb"
    unfolding declared_for_key_def key_grants_def assms(4) res all by auto
  have "relation_declared b existing k \<Longrightarrow> bk_ID existing \<in> all_bucket_ids kv k s
      \<or> (\<exists>p. (p, bk_ID existing) \<in> set (key_resolutions kv k (ks_BucketPermissions (gk_Spec k)) s))
      \<or> a \<in> set (bst_ManagedKeyGrants (gb_Status b))"
    using assms(2) unfolding relation_declared_def established_def res all by blast
  then show "relation_declared b existing k \<Longrightarrow> managed_bucket kv k g s buckets (bk_ID existing)"
    unfolding managed_bucket_def assms(4) using bs(1) rb by force
qed

text \<open>
  C7: The bucket controller and the key controller agree.  In a quiet system, where the identities of a
  GarageBucket and a GarageKey are established, one of them declares a permission between them and each
  has reserved what it declares, a successful run of the bucket controller and a successful run of the
  key controller leave the same permissions on the relation, whatever each of them found there.  They
  can run in any order and any number of times without undoing each other's work.
\<close>

theorem permission_controllers_agree:
  assumes "coherent be kv b existing k a" "established b existing k a" "relation_declared b existing k" "gky_AccessKeyID g = a"
    and "reconcileKeyPermissions be b existing tr = (None, b', tr')"
    and "reconcileManagedBucketPermissions kv k g s = (None, k', s')"
  shows "perms_after (bk_ID existing) a (gomap_get no_perms (current_permissions existing) a) (drop (length tr) tr')
       = perms_after (bk_ID existing) a (gomap_get no_perms (current_buckets g) (bk_ID existing)) (drop (length s) s')"
  unfolding perms_eq_bits
proof
  fix pb assume pb: "pb \<in> bits"
  have ne: "a \<noteq> []" "bk_ID existing \<noteq> []" using assms(2) by (simp_all add: established_def)
  obtain t1 keys where keys: "be_ListKeys be t1 = Inr keys"
    and one: "pb (perms_after (bk_ID existing) a (gomap_get no_perms (current_permissions existing) a) (drop (length tr) tr'))
       = (if managed_key be b existing tr keys a then declared_bit be b existing tr keys a pb
          else pb (gomap_get no_perms (current_permissions existing) a))"
    using permissions_after_run [OF assms(5)] ne(1) pb by metis
  obtain t2 buckets where buckets: "kv_ListGarageBuckets kv t2 = Inr buckets"
    and two: "pb (perms_after (bk_ID existing) a (gomap_get no_perms (current_buckets g) (bk_ID existing)) (drop (length s) s'))
       = (if managed_bucket kv k g s buckets (bk_ID existing) then declared_for_key kv k g s buckets (bk_ID existing) pb
          else pb (gomap_get no_perms (current_buckets g) (bk_ID existing)))"
    using managed_bucket_permissions_exact [OF assms(6)] ne(2) pb assms(4) by metis
  obtain start where start: "all_buckets_baseline kv k s = Inr start" using key_permission_stages [OF assms(6)] by metis
  show "pb (perms_after (bk_ID existing) a (gomap_get no_perms (current_permissions existing) a) (drop (length tr) tr'))
      = pb (perms_after (bk_ID existing) a (gomap_get no_perms (current_buckets g) (bk_ID existing)) (drop (length s) s'))"
    using one two assms(3) bucket_side_union [OF assms(1,2) keys pb, of tr] key_side_union [OF assms(1,2) buckets assms(4) start pb]
    by simp
qed

subsection \<open>A small instance\<close>

definition sample_photos :: Bucket where
  "sample_photos = sample_shared\<lparr>bk_GlobalAliases := [''photos'']\<rparr>"

definition sample_declared :: GarageBucket where
  "sample_declared = with_grants [''K1''] (with_bucket_id ''b1'' sample_declaring)"

definition sample_pair_admin :: bucket_env where
  "sample_pair_admin = (sample_service sample_photos)\<lparr>
     be_Bucket := (\<lambda>tr c. case c of GetBucketInfo q \<Rightarrow> if gbr_GlobalAlias q = ''photos'' then Inr sample_photos else Inl sample_missing
       | _ \<Rightarrow> Inr sample_photos),
     be_GetKey := (\<lambda>tr n. if n = key_name sample_key then Inr sample_key else Inl KubeNotFound),
     be_ListKeys := (\<lambda>tr. Inr [sample_key])\<rparr>"

definition sample_pair_env :: key_env where
  "sample_pair_env = sample_key_service\<lparr>kv_Admin := sample_pair_admin, kv_ListBuckets := (\<lambda>tr. Inr [''b1'']),
     kv_GetBucket := (\<lambda>tr n. if n = bucket_key sample_declared then Inr sample_declared else Inl KubeNotFound),
     kv_ListGarageBuckets := (\<lambda>tr. Inr [sample_declared])\<rparr>"

lemma sample_pair_coherent: "coherent sample_pair_admin sample_pair_env sample_declared sample_photos sample_key ''K1''"
proof -
  have ids: "bk_ID sample_photos = ''b1''" "bk_GlobalAliases sample_photos = [''photos'']" "effective_alias sample_declared = ''photos''"
    by code_simp+
  show ?thesis
    unfolding coherent_def ids sample_pair_env_def sample_pair_admin_def sample_key_service_def by_alias_def
    by (auto simp: ids)
qed

lemma sample_pair_established:
  "established sample_declared sample_photos sample_key ''K1''" "relation_declared sample_declared sample_photos sample_key"
  by code_simp+

lemma sample_bucket_run:
  "reconcileKeyPermissions sample_pair_admin sample_declared sample_photos []
     = (None, sample_declared,
        [(DenyBucketKey ''b1'' ''K1'' \<lparr>kp_Read = False, kp_Write = False, kp_Owner = True\<rparr>, Succeeded),
         (AllowBucketKey ''b1'' ''K1'' \<lparr>kp_Read = True, kp_Write = False, kp_Owner = False\<rparr>, Succeeded)])"
  by code_simp

lemma sample_key_run:
  "reconcileManagedBucketPermissions sample_pair_env sample_key (sample_garage_key ''K1'' ''s'') []
     = (None, sample_key, [(AllowBucketKey ''b1'' ''K1'' \<lparr>kp_Read = True, kp_Write = False, kp_Owner = False\<rparr>, Succeeded)])"
  by code_simp

theorem permission_controllers_agree_witness:
  "perms_after ''b1'' ''K1'' (gomap_get no_perms (current_permissions sample_photos) ''K1'')
     [(DenyBucketKey ''b1'' ''K1'' \<lparr>kp_Read = False, kp_Write = False, kp_Owner = True\<rparr>, Succeeded),
      (AllowBucketKey ''b1'' ''K1'' \<lparr>kp_Read = True, kp_Write = False, kp_Owner = False\<rparr>, Succeeded)]
   = perms_after ''b1'' ''K1'' (gomap_get no_perms (current_buckets (sample_garage_key ''K1'' ''s'')) ''b1'')
     [(AllowBucketKey ''b1'' ''K1'' \<lparr>kp_Read = True, kp_Write = False, kp_Owner = False\<rparr>, Succeeded)]"
proof -
  have "bk_ID sample_photos = ''b1''" "gky_AccessKeyID (sample_garage_key ''K1'' ''s'') = ''K1''" by code_simp+
  then show ?thesis
    using permission_controllers_agree [OF sample_pair_coherent sample_pair_established _ sample_bucket_run sample_key_run] by simp
qed

end
