(* ===== verification/KeySecret.thy ===== *)
theory KeySecret
  imports KeyAdmission KeyPermissions
begin

text \<open>
  The Secret in which a GarageKey publishes its credentials (resolveSecretConfig, buildSecretData,
  reconcileSecret, the handoff between two generated Secrets, and the removal of the credentials of COSI
  shadow keys; internal/controller/garagekey_controller.go), with the S3 port of a cluster from
  internal/garageconfig/validation.go.  Whether a text is an unspecified IP address, and the cluster's
  DNS domain, are parameters.
\<close>

subsection \<open>The S3 endpoint of a cluster\<close>

definition index_of :: "char \<Rightarrow> string \<Rightarrow> nat option" where
  "index_of c s = (let n = length (takeWhile (\<lambda>d. d \<noteq> c) s) in if n < length s then Some n else None)"

definition last_index_of :: "char \<Rightarrow> string \<Rightarrow> nat option" where
  "last_index_of c s = map_option (\<lambda>n. length s - Suc n) (index_of c (rev s))"

text \<open>net.SplitHostPort.\<close>

definition SplitHostPort :: "string \<Rightarrow> (string \<times> string) option" where
  "SplitHostPort s =
     (case last_index_of CHR '':'' s of
        None \<Rightarrow> None
      | Some i \<Rightarrow>
          if s ! 0 = CHR ''['' then
            (case index_of CHR '']'' s of
               None \<Rightarrow> None
             | Some e \<Rightarrow>
                 if e + 1 \<noteq> i then None
                 else if CHR ''['' \<in> set (drop 1 s) \<or> CHR '']'' \<in> set (drop (e + 1) s) then None
                 else Some (drop 1 (take e s), drop (i + 1) s))
          else if CHR '':'' \<in> set (take i s) then None
          else if CHR ''['' \<in> set s \<or> CHR '']'' \<in> set s then None
          else Some (take i s, drop (i + 1) s))"

datatype bind_error = BindSurroundingSpace | BindNotTCP | BindHostMissing | BindNotWildcard | BindPortInvalid

definition ManagedBindPort :: "(string \<Rightarrow> bool) \<Rightarrow> string \<Rightarrow> int \<Rightarrow> int \<Rightarrow> bind_error + int" where
  "ManagedBindPort unspecified address configuredPort defaultPort =
     (if address = [] then Inr (if configuredPort \<noteq> 0 then configuredPort else defaultPort)
      else if TrimSpace address \<noteq> address then Inl BindSurroundingSpace
      else (case SplitHostPort address of
         None \<Rightarrow> Inl BindNotTCP
       | Some (host, portText) \<Rightarrow>
           if host = [] then Inl BindHostMissing
           else if \<not> unspecified host then Inl BindNotWildcard
           else (case ParseUint 16 portText of
              None \<Rightarrow> Inl BindPortInvalid
            | Some port \<Rightarrow> if port = 0 then Inl BindPortInvalid else Inr port)))"

definition DefaultS3Port :: int where "DefaultS3Port = 3900"
definition defaultS3Region :: string where "defaultS3Region = ''garage''"

definition getS3Port :: "(string \<Rightarrow> bool) \<Rightarrow> GarageCluster option \<Rightarrow> int" where
  "getS3Port unspecified cluster =
     (case cluster of
        None \<Rightarrow> DefaultS3Port
      | Some c \<Rightarrow> (case cs_S3API (gc_Spec c) of
          None \<Rightarrow> DefaultS3Port
        | Some s3 \<Rightarrow> (case ManagedBindPort unspecified (s3_BindAddress s3) (s3_BindPort s3) DefaultS3Port of
            Inl e \<Rightarrow> DefaultS3Port
          | Inr port \<Rightarrow> port)))"

definition svcFQDN :: "string \<Rightarrow> string \<Rightarrow> int \<Rightarrow> string \<Rightarrow> string" where
  "svcFQDN name namespace port clusterDomain =
     name @ ''.'' @ namespace @ ''.svc.'' @ clusterDomain @ '':'' @ itoa port"

subsection \<open>Resolving the template\<close>

definition keyGeneratedSecretOwnerLabel :: string where
  "keyGeneratedSecretOwnerLabel = ''garage.rajsingh.info/generated-key-secret-owner''"
definition defaultEndpointKey :: string where "defaultEndpointKey = ''endpoint''"
definition defaultHostKey :: string where "defaultHostKey = ''host''"
definition defaultSchemeKey :: string where "defaultSchemeKey = ''scheme''"
definition defaultRegionKey :: string where "defaultRegionKey = ''region''"
definition defaultBucketNameKey :: string where "defaultBucketNameKey = ''bucket''"
definition keyLabelAppManagedBy :: string where "keyLabelAppManagedBy = ''app.kubernetes.io/managed-by''"

record secretConfig =
  scf_name :: string
  scf_namespace :: string
  scf_accessKeyIDKey :: string
  scf_secretAccessKeyKey :: string
  scf_endpointKey :: string
  scf_hostKey :: string
  scf_schemeKey :: string
  scf_regionKey :: string
  scf_bucketNameKey :: string
  scf_includeEndpoint :: bool
  scf_includeRegion :: bool
  scf_includeBucketName :: bool
  scf_additionalData :: "(string, string) gomap"
  scf_labels :: "(string, string) gomap"
  scf_annotations :: "(string, string) gomap"
  scf_secretType :: string

text \<open>maps.Copy.\<close>

definition copy_map :: "('a, 'b) gomap \<Rightarrow> ('a, 'b) gomap \<Rightarrow> ('a, 'b) gomap" where
  "copy_map dst src = fold (\<lambda>(k, v) m. AList.update k v m) src dst"

definition default_config :: "GarageKey \<Rightarrow> secretConfig" where
  "default_config k =
     \<lparr>scf_name = gk_Name k, scf_namespace = gk_Namespace k, scf_accessKeyIDKey = defaultAccessKeyIDKey,
      scf_secretAccessKeyKey = defaultSecretAccessKeyKey, scf_endpointKey = defaultEndpointKey, scf_hostKey = defaultHostKey,
      scf_schemeKey = defaultSchemeKey, scf_regionKey = defaultRegionKey, scf_bucketNameKey = defaultBucketNameKey,
      scf_includeEndpoint = True, scf_includeRegion = True, scf_includeBucketName = False, scf_additionalData = [],
      scf_labels = [(keyLabelAppManagedBy, ''garage-operator''), (''garage.rajsingh.info/key'', gk_Name k)],
      scf_annotations = [], scf_secretType = ''Opaque''\<rparr>"

definition resolveSecretConfig :: "GarageKey \<Rightarrow> secretConfig" where
  "resolveSecretConfig k =
     (let cfg = default_config k; or_bool = (\<lambda>o' d. case o' of None \<Rightarrow> d | Some b \<Rightarrow> b) in
      case ks_SecretTemplate (gk_Spec k) of
        None \<Rightarrow> cfg
      | Some t \<Rightarrow>
          cfg\<lparr>scf_name := defaultString (stp_Name t) (scf_name cfg),
              scf_accessKeyIDKey := defaultString (stp_AccessKeyIDKey t) (scf_accessKeyIDKey cfg),
              scf_secretAccessKeyKey := defaultString (stp_SecretAccessKeyKey t) (scf_secretAccessKeyKey cfg),
              scf_endpointKey := defaultString (stp_EndpointKey t) (scf_endpointKey cfg),
              scf_hostKey := defaultString (stp_HostKey t) (scf_hostKey cfg),
              scf_schemeKey := defaultString (stp_SchemeKey t) (scf_schemeKey cfg),
              scf_regionKey := defaultString (stp_RegionKey t) (scf_regionKey cfg),
              scf_bucketNameKey := defaultString (stp_BucketNameKey t) (scf_bucketNameKey cfg),
              scf_includeEndpoint := or_bool (stp_IncludeEndpoint t) (scf_includeEndpoint cfg),
              scf_includeRegion := or_bool (stp_IncludeRegion t) (scf_includeRegion cfg),
              scf_includeBucketName := or_bool (stp_IncludeBucketName t) (scf_includeBucketName cfg),
              scf_additionalData := stp_AdditionalData t,
              scf_labels := copy_map (scf_labels cfg) (stp_Labels t),
              scf_annotations := stp_Annotations t,
              scf_secretType := defaultString (stp_Type t) (scf_secretType cfg)\<rparr>)"

subsection \<open>The data of the Secret\<close>

record secret_params =
  sp_Unspecified :: "string \<Rightarrow> bool"
  sp_ClusterDomain :: string

definition singleBucketName :: "key_env \<Rightarrow> trace \<Rightarrow> GarageKey \<Rightarrow> string option" where
  "singleBucketName env tr k =
     (if ks_AllBuckets (gk_Spec k) \<noteq> None then None
      else (case ks_BucketPermissions (gk_Spec k) of
         [p] \<Rightarrow>
           if bp2_GlobalAlias p \<noteq> [] then Some (bp2_GlobalAlias p)
           else (case bp2_BucketRef p of
              None \<Rightarrow> None
            | Some r \<Rightarrow>
                if br_Name r = [] then None
                else (case kv_GetBucket env tr \<lparr>nn_Namespace = (if br_Namespace r = [] then gk_Namespace k else br_Namespace r),
                          nn_Name = br_Name r\<rparr> of
                   Inl e \<Rightarrow> Some (br_Name r)
                 | Inr b \<Rightarrow> Some (if bs_GlobalAlias (gb_Spec b) \<noteq> [] then bs_GlobalAlias (gb_Spec b) else br_Name r)))
       | _ \<Rightarrow> None))"

definition s3_host :: "secret_params \<Rightarrow> GarageCluster \<Rightarrow> string" where
  "s3_host sp cluster =
     svcFQDN (gc_Name cluster) (gc_Namespace cluster) (getS3Port (sp_Unspecified sp) (Some cluster)) (sp_ClusterDomain sp)"

definition s3_region :: "GarageCluster \<Rightarrow> string" where
  "s3_region cluster =
     (case cs_S3API (gc_Spec cluster) of
        None \<Rightarrow> defaultS3Region
      | Some s3 \<Rightarrow> if s3_Region s3 \<noteq> [] then s3_Region s3 else defaultS3Region)"

definition put_when :: "bool \<Rightarrow> (string \<times> string) list \<Rightarrow> (string, string) gomap \<Rightarrow> (string, string) gomap" where
  "put_when c kvs m = (if c then copy_map m kvs else m)"

definition buildSecretData ::
    "secret_params \<Rightarrow> key_env \<Rightarrow> trace \<Rightarrow> secretConfig \<Rightarrow> GarageKey \<Rightarrow> GarageCluster \<Rightarrow> string \<Rightarrow> (string, string) gomap" where
  "buildSecretData sp env tr cfg k cluster secretAccessKey =
     (let host = s3_host sp cluster;
          d1 = [(scf_accessKeyIDKey cfg, kst_AccessKeyID (gk_Status k))];
          d2 = put_when (secretAccessKey \<noteq> []) [(scf_secretAccessKeyKey cfg, secretAccessKey)] d1;
          d3 = put_when (scf_includeEndpoint cfg)
                 [(scf_endpointKey cfg, ''http://'' @ host), (scf_hostKey cfg, host), (scf_schemeKey cfg, ''http'')] d2;
          d4 = put_when (scf_includeRegion cfg) [(scf_regionKey cfg, s3_region cluster)] d3;
          d5 = (if scf_includeBucketName cfg
                then (case singleBucketName env tr k of None \<Rightarrow> d4 | Some n \<Rightarrow> AList.update (scf_bucketNameKey cfg) n d4)
                else d4)
      in copy_map d5 (scf_additionalData cfg))"

definition secretDataEqual :: "(string, string) gomap \<Rightarrow> (string, string) gomap \<Rightarrow> bool" where
  "secretDataEqual a b \<longleftrightarrow> length a = length b \<and> list_all (\<lambda>(k, v). map_of b k = Some v) a"

definition mapsEqual :: "(string, string) gomap \<Rightarrow> (string, string) gomap \<Rightarrow> bool" where
  "mapsEqual a b \<longleftrightarrow> length a = length b \<and> list_all (\<lambda>(k, v). map_of b k = Some v) a"

subsection \<open>The handoff between generated Secrets\<close>

datatype secret_error =
    EndpointUnknown | KeyUIDMissing | PreviousOutsideNamespace | PreviousReadFailed kube_error | PreviousForeign
  | PreviousMarkFailed kube_error | SecretReadFailed kube_error | SecretCreateFailed kube_error | SecretForeign
  | SecretUpdateFailed kube_error | SecretIdentityEmpty | HandoffStatusFailed status_error
  | StaleListFailed kube_error | StaleDeleteFailed kube_error | ShadowReadFailed kube_error | ShadowDeleteFailed kube_error

definition secret_name :: "Secret \<Rightarrow> NamespacedName" where
  "secret_name s = \<lparr>nn_Namespace = sec_Namespace s, nn_Name = sec_Name s\<rparr>"

definition ref_object :: "SecretReference \<Rightarrow> NamespacedName" where
  "ref_object r = \<lparr>nn_Namespace = sr_Namespace r, nn_Name = sr_Name r\<rparr>"

definition markPreviousGeneratedSecret ::
    "key_env \<Rightarrow> GarageKey \<Rightarrow> SecretReference option \<Rightarrow> trace \<Rightarrow> secret_error option \<times> trace" where
  "markPreviousGeneratedSecret env k previous tr =
     (case previous of
        None \<Rightarrow> (None, tr)
      | Some p \<Rightarrow>
          if sr_Namespace p \<noteq> gk_Namespace k then (Some PreviousOutsideNamespace, tr)
          else (case kv_GetSecret env tr (ref_object p) of
             Inl e \<Rightarrow> (if e = KubeNotFound then None else Some (PreviousReadFailed e), tr)
           | Inr old \<Rightarrow>
               if \<not> controlled_by_key old k then (Some PreviousForeign, tr)
               else if annotation (sec_Labels old) keyGeneratedSecretOwnerLabel = gk_UID k then (None, tr)
               else (case call_key_status env
                       (SecretUpdate (old\<lparr>sec_Labels := AList.update keyGeneratedSecretOwnerLabel (gk_UID k) (sec_Labels old)\<rparr>)) tr of
                       (Some e, t1) \<Rightarrow> (Some (PreviousMarkFailed e), t1)
                     | (None, t1) \<Rightarrow> (None, t1))))"

fun delete_stale ::
    "key_env \<Rightarrow> GarageKey \<Rightarrow> SecretReference option \<Rightarrow> Secret list \<Rightarrow> trace \<Rightarrow> secret_error option \<times> trace" where
  "delete_stale env k current [] tr = (None, tr)"
| "delete_stale env k current (s # ss) tr =
     (if map_option ref_object current = Some (secret_name s) then delete_stale env k current ss tr
      else if \<not> controlled_by_key s k then delete_stale env k current ss tr
      else (case call_key_status env (SecretDelete (secret_name s) (sec_UID s)) tr of
              (None, t1) \<Rightarrow> delete_stale env k current ss t1
            | (Some e, t1) \<Rightarrow> if e = KubeNotFound then delete_stale env k current ss t1
                             else (Some (StaleDeleteFailed e), t1)))"

definition cleanupStaleGeneratedSecrets ::
    "key_env \<Rightarrow> GarageKey \<Rightarrow> SecretReference option \<Rightarrow> trace \<Rightarrow> secret_error option \<times> trace" where
  "cleanupStaleGeneratedSecrets env k current tr =
     (case kv_ListSecrets env tr (gk_Namespace k) (gk_UID k) of
        Inl e \<Rightarrow> (Some (StaleListFailed e), tr)
      | Inr items \<Rightarrow> delete_stale env k current items tr)"

definition finishGarageKeySecretHandoff ::
    "key_env \<Rightarrow> GarageKey \<Rightarrow> SecretReference option \<Rightarrow> trace \<Rightarrow> secret_error option \<times> GarageKey \<times> trace" where
  "finishGarageKeySecretHandoff env k previous tr =
     (case kst_SecretRef (gk_Status k) of
        None \<Rightarrow> (Some SecretIdentityEmpty, k, tr)
      | Some current \<Rightarrow>
          let cleanup = (\<lambda>k t. case cleanupStaleGeneratedSecrets env k (Some current) t of (e, t') \<Rightarrow> (e, k, t')) in
          if previous \<noteq> Some current then
            (case key_status_update env k tr of
               (Some e, k1, t1) \<Rightarrow> (Some (HandoffStatusFailed e), k1, t1)
             | (None, k1, t1) \<Rightarrow> cleanup k1 t1)
          else cleanup k tr)"

definition with_secret_ref :: "SecretReference option \<Rightarrow> GarageKey \<Rightarrow> GarageKey" where
  "with_secret_ref r k = k\<lparr>gk_Status := (gk_Status k)\<lparr>kst_SecretRef := r\<rparr>\<rparr>"

text \<open>The data to store over an existing Secret: without a new secret key the stored one is kept.\<close>

definition preserved_data :: "secretConfig \<Rightarrow> string \<Rightarrow> Secret \<Rightarrow> (string, string) gomap \<Rightarrow> (string, string) gomap" where
  "preserved_data cfg secretAccessKey existing data =
     (if secretAccessKey = [] then
        (case map_of (sec_Data existing) (scf_secretAccessKeyKey cfg) of
           None \<Rightarrow> data
         | Some v \<Rightarrow> AList.update (scf_secretAccessKeyKey cfg) v data)
      else data)"

definition write_secret ::
    "key_env \<Rightarrow> GarageKey \<Rightarrow> secretConfig \<Rightarrow> (string, string) gomap \<Rightarrow> string \<Rightarrow> trace \<Rightarrow> secret_error option \<times> trace" where
  "write_secret env k cfg data secretAccessKey tr =
     (case kv_GetSecret env tr \<lparr>nn_Namespace = scf_namespace cfg, nn_Name = scf_name cfg\<rparr> of
        Inl e \<Rightarrow>
          if e \<noteq> KubeNotFound then (Some (SecretReadFailed e), tr)
          else (case call_key_status env (SecretCreate
                  \<lparr>sec_Namespace = scf_namespace cfg, sec_Name = scf_name cfg, sec_UID = [], sec_Labels = scf_labels cfg,
                   sec_Annotations = scf_annotations cfg,
                   sec_Controller = (if scf_namespace cfg = gk_Namespace k then Some (gk_UID k) else None),
                   sec_Immutable = None, sec_Type = scf_secretType cfg, sec_Data = data\<rparr>) tr of
                  (Some e, t1) \<Rightarrow> (Some (SecretCreateFailed e), t1)
                | (None, t1) \<Rightarrow> (None, t1))
      | Inr existing \<Rightarrow>
          if sec_Controller existing \<noteq> Some (gk_UID k) then (Some SecretForeign, tr)
          else
            let stored = preserved_data cfg secretAccessKey existing data in
            if secretDataEqual (sec_Data existing) stored \<and> mapsEqual (sec_Labels existing) (scf_labels cfg)
               \<and> mapsEqual (sec_Annotations existing) (scf_annotations cfg) then (None, tr)
            else (case call_key_status env (SecretUpdate (existing\<lparr>sec_Data := stored, sec_Labels := scf_labels cfg,
                     sec_Annotations := scf_annotations cfg\<rparr>)) tr of
                    (Some e, t1) \<Rightarrow> (Some (SecretUpdateFailed e), t1)
                  | (None, t1) \<Rightarrow> (None, t1)))"

definition reconcileSecret ::
    "secret_params \<Rightarrow> key_env \<Rightarrow> GarageKey \<Rightarrow> GarageCluster \<Rightarrow> string \<Rightarrow> trace \<Rightarrow> secret_error option \<times> GarageKey \<times> trace" where
  "reconcileSecret sp env k cluster secretAccessKey tr =
     (let previousRef = kst_SecretRef (gk_Status k); cfg0 = resolveSecretConfig k in
      if scf_includeEndpoint cfg0 \<and> IsManagementHandle (Some cluster) then (Some EndpointUnknown, k, tr)
      else if gk_UID k = [] then (Some KeyUIDMissing, k, tr)
      else
        let cfg = cfg0\<lparr>scf_labels := AList.update keyGeneratedSecretOwnerLabel (gk_UID k) (scf_labels cfg0)\<rparr> in
        case markPreviousGeneratedSecret env k previousRef tr of
          (Some e, t1) \<Rightarrow> (Some e, k, t1)
        | (None, t1) \<Rightarrow>
            let data = buildSecretData sp env t1 cfg k cluster secretAccessKey in
            (case write_secret env k cfg data secretAccessKey t1 of
               (Some e, t2) \<Rightarrow> (Some e, k, t2)
             | (None, t2) \<Rightarrow>
                 finishGarageKeySecretHandoff env
                   (with_secret_ref (Some \<lparr>sr_Name = scf_name cfg, sr_Namespace = scf_namespace cfg\<rparr>) k) previousRef t2))"

subsection \<open>Shadow keys of COSI\<close>

definition isCOSIManagedShadowKey :: "GarageKey \<Rightarrow> bool" where
  "isCOSIManagedShadowKey k \<longleftrightarrow> annotation (gk_Labels k) LabelCOSIManaged = ''true''
     \<and> (annotation (gk_Annotations k) AnnotationCOSIReservationOwner \<noteq> [] \<or> annotation (gk_Annotations k) AnnotationCOSIAccountID \<noteq> [])"

fun delete_shadow_secrets :: "key_env \<Rightarrow> GarageKey \<Rightarrow> NamespacedName list \<Rightarrow> trace \<Rightarrow> secret_error option \<times> trace" where
  "delete_shadow_secrets env k [] tr = (None, tr)"
| "delete_shadow_secrets env k (n # ns) tr =
     (case kv_GetSecret env tr n of
        Inl e \<Rightarrow> if e = KubeNotFound then delete_shadow_secrets env k ns tr else (Some (ShadowReadFailed e), tr)
      | Inr s \<Rightarrow>
          if \<not> controlled_by_key s k then delete_shadow_secrets env k ns tr
          else (case call_key_status env (SecretDelete (secret_name s) (sec_UID s)) tr of
                  (None, t1) \<Rightarrow> delete_shadow_secrets env k ns t1
                | (Some e, t1) \<Rightarrow> if e = KubeNotFound then delete_shadow_secrets env k ns t1
                                 else (Some (ShadowDeleteFailed e), t1)))"

definition shadow_candidates :: "GarageKey \<Rightarrow> NamespacedName list" where
  "shadow_candidates k =
     (case kst_SecretRef (gk_Status k) of
        None \<Rightarrow> [key_name k]
      | Some r \<Rightarrow> if sr_Namespace r = gk_Namespace k \<and> ref_object r \<noteq> key_name k then [key_name k, ref_object r] else [key_name k])"

definition cleanupCOSIManagedShadowCredentials ::
    "key_env \<Rightarrow> GarageKey \<Rightarrow> trace \<Rightarrow> secret_error option \<times> GarageKey \<times> trace" where
  "cleanupCOSIManagedShadowCredentials env k tr =
     (case delete_shadow_secrets env k (shadow_candidates k) tr of
        (Some e, t1) \<Rightarrow> (Some e, k, t1)
      | (None, t1) \<Rightarrow>
          (case cleanupStaleGeneratedSecrets env k None t1 of
             (Some e, t2) \<Rightarrow> (Some e, k, t2)
           | (None, t2) \<Rightarrow> (None, with_secret_ref None k, t2)))"

subsection \<open>Status writes of a key\<close>

text \<open>A status write leaves only its attempts behind and ends with the persisted status.\<close>

lemma key_status_retry_trace:
  assumes "key_status_retry env uid reapply n k tr = (r, k', t')" "\<And>fresh. gk_Status (reapply fresh) = gk_Status k"
    "\<And>fresh. gk_UID (reapply fresh) = gk_UID fresh" "uid \<noteq> []" "gk_UID k = uid"
  shows "\<exists>new. t' = tr @ new \<and> (\<forall>c \<in> fst ` set new. \<exists>n k2. c = KeyCall (KeyGet n) \<or> c = KeyCall (KeyStatusUpdate k2))
      \<and> (r = None \<longrightarrow> gk_Status k' = gk_Status k \<and> gk_UID k' = uid \<and> (KeyCall (KeyStatusUpdate k'), Succeeded) \<in> set new)"
  using assms
proof (induction n arbitrary: k tr)
  case 0
  then show ?case by auto
next
  case (Suc n)
  show ?case
  proof (cases "kv_Status env tr (KeyStatusUpdate k)")
    case None
    then have "t' = tr @ [(KeyCall (KeyStatusUpdate k), Succeeded)]" "r = None" "k' = k"
      using Suc.prems(1) by (auto simp: key_call_defs)
    then show ?thesis using Suc.prems(5) by simp
  next
    case (Some e)
    define t1 where "t1 = tr @ [(KeyCall (KeyStatusUpdate k), kube_outcome (Some e))]"
    show ?thesis
    proof (cases "e = KubeConflict \<and> 0 < n \<and> (\<exists>fresh. kv_Object env t1 (KeyGet (key_name k)) = Inr fresh \<and> gk_UID fresh = uid)")
      case False
      then have "r \<noteq> None \<and> (t' = t1 \<or> (\<exists>o'. t' = t1 @ [(KeyCall (KeyGet (key_name k)), o')]))"
        using Suc.prems(1,4) Some unfolding t1_def by (auto simp: key_call_defs split: if_splits sum.splits)
      then show ?thesis unfolding t1_def by auto
    next
      case True
      then obtain fresh where f: "e = KubeConflict" "0 < n" "kv_Object env t1 (KeyGet (key_name k)) = Inr fresh" "gk_UID fresh = uid" by blast
      let ?t2 = "t1 @ [(KeyCall (KeyGet (key_name k)), Succeeded)]"
      have "key_status_retry env uid reapply n (reapply fresh) ?t2 = (r, k', t')"
        using Suc.prems(1) Some f unfolding t1_def by (simp add: key_call_defs)
      from Suc.IH [OF this] Suc.prems(2-4) f(4) obtain new where "t' = ?t2 @ new"
        "\<forall>c \<in> fst ` set new. \<exists>n k2. c = KeyCall (KeyGet n) \<or> c = KeyCall (KeyStatusUpdate k2)"
        "r = None \<longrightarrow> gk_Status k' = gk_Status k \<and> gk_UID k' = uid \<and> (KeyCall (KeyStatusUpdate k'), Succeeded) \<in> set new"
        by auto
      then show ?thesis unfolding t1_def by (intro exI [of _ "(KeyCall (KeyStatusUpdate k), kube_outcome (Some e))
          # (KeyCall (KeyGet (key_name k)), Succeeded) # new"]) auto
    qed
  qed
qed

lemma key_status_update_trace:
  assumes "key_status_update env k tr = (r, k', t')" "gk_UID k \<noteq> []"
  shows "\<exists>new. t' = tr @ new \<and> (\<forall>c \<in> fst ` set new. \<exists>n k2. c = KeyCall (KeyGet n) \<or> c = KeyCall (KeyStatusUpdate k2))
      \<and> (r = None \<longrightarrow> gk_Status k' = gk_Status k \<and> gk_UID k' = gk_UID k \<and> (KeyCall (KeyStatusUpdate k'), Succeeded) \<in> set new)"
  using key_status_retry_trace [OF assms(1) [unfolded key_status_update_def]] assms(2) by simp

subsection \<open>The stages of the handoff\<close>

text \<open>Clean-up only deletes listed Secrets the key controls, and never the current one.\<close>

definition stale_deletion :: "key_env \<Rightarrow> GarageKey \<Rightarrow> NamespacedName option \<Rightarrow> bucket_call \<Rightarrow> bool" where
  "stale_deletion env k current c \<longleftrightarrow>
     (\<exists>s. c = KeyCall (SecretDelete (secret_name s) (sec_UID s)) \<and> controlled_by_key s k \<and> current \<noteq> Some (secret_name s)
        \<and> (\<exists>t ns items. kv_ListSecrets env t ns (gk_UID k) = Inr items \<and> s \<in> set items))"

lemma delete_stale_trace:
  assumes "delete_stale env k current items tr = (r, t')" "kv_ListSecrets env t0 ns (gk_UID k) = Inr all" "set items \<subseteq> set all"
  shows "\<exists>new. t' = tr @ new \<and> (\<forall>c \<in> fst ` set new. stale_deletion env k (map_option ref_object current) c)"
  using assms
proof (induction items arbitrary: tr)
  case Nil
  then show ?case by simp
next
  case (Cons s ss)
  let ?d = "SecretDelete (secret_name s) (sec_UID s)"
  let ?ok = "\<lambda>new. \<forall>c \<in> fst ` set new. stale_deletion env k (map_option ref_object current) c"
  have IH: "\<exists>new. t' = t @ new \<and> ?ok new" if "delete_stale env k current ss t = (r, t')" for t
    using Cons.IH [OF that Cons.prems(2)] Cons.prems(3) by simp
  show ?case
  proof (cases "map_option ref_object current = Some (secret_name s) \<or> \<not> controlled_by_key s k")
    case True
    then show ?thesis using IH Cons.prems(1) by (auto simp del: map_option_eq_Some split: if_splits)
  next
    case False
    then have del: "stale_deletion env k (map_option ref_object current) (KeyCall ?d)"
      using Cons.prems(2,3) unfolding stale_deletion_def by auto
    obtain e t1 where c: "call_key_status env ?d tr = (e, t1)" by fastforce
    then have t1: "t1 = tr @ [(KeyCall ?d, kube_outcome e)]" by (auto simp: key_call_defs)
    have "delete_stale env k current ss t1 = (r, t') \<or> t' = t1"
      using Cons.prems(1) False c by (auto simp del: map_option_eq_Some split: if_splits option.splits)
    then show ?thesis
    proof
      assume "delete_stale env k current ss t1 = (r, t')"
      from IH [OF this] show ?thesis using del t1 by auto
    next
      assume "t' = t1"
      then show ?thesis using del t1 by auto
    qed
  qed
qed

lemma cleanup_stale_trace:
  assumes "cleanupStaleGeneratedSecrets env k current tr = (r, t')"
  shows "\<exists>new. t' = tr @ new \<and> (\<forall>c \<in> fst ` set new. stale_deletion env k (map_option ref_object current) c)"
  using assms delete_stale_trace by (force simp: cleanupStaleGeneratedSecrets_def split: sum.splits)

subsection \<open>The published data\<close>

lemma map_of_copy_map: "map_of (copy_map d kvs) = map_of d ++ map_of (rev kvs)"
  unfolding copy_map_def by (induction kvs arbitrary: d) (auto simp: fun_eq_iff map_add_def split: option.splits)

lemma gomap_wf_copy_map: "gomap_wf d \<Longrightarrow> gomap_wf (copy_map d kvs)"
  unfolding copy_map_def by (induction kvs arbitrary: d) auto

lemma build_wf: "gomap_wf (buildSecretData sp env tr cfg k cluster sk)"
  unfolding buildSecretData_def Let_def put_when_def
  by (intro gomap_wf_copy_map) (auto intro!: gomap_wf_copy_map gomap_wf_update split: option.splits)

lemma same_data: "secretDataEqual a b \<Longrightarrow> gomap_wf a \<Longrightarrow> gomap_wf b \<Longrightarrow> map_of a = map_of b"
proof -
  assume e: "secretDataEqual a b" and w: "gomap_wf a" "gomap_wf b"
  have sub: "set a \<subseteq> set b" using e by (auto simp: secretDataEqual_def list_all_iff dest: map_of_SomeD)
  have "card (set a) = card (set b)"
    using e w by (simp add: secretDataEqual_def distinct_card distinct_map)
  then have "set a = set b" using sub by (simp add: card_subset_eq)
  then show ?thesis using w by (simp add: map_of_inject_set)
qed

definition config_keys :: "secretConfig \<Rightarrow> (string \<times> bool) list" where
  "config_keys c =
     [(scf_accessKeyIDKey c, True), (scf_secretAccessKeyKey c, True), (scf_endpointKey c, scf_includeEndpoint c),
      (scf_hostKey c, scf_includeEndpoint c), (scf_schemeKey c, scf_includeEndpoint c), (scf_regionKey c, scf_includeRegion c),
      (scf_bucketNameKey c, scf_includeBucketName c)]"

lemmas secret_constants = defaultAccessKeyIDKey_def defaultSecretAccessKeyKey_def defaultEndpointKey_def defaultHostKey_def
  defaultSchemeKey_def defaultRegionKey_def defaultBucketNameKey_def

text \<open>The reconciler resolves a template to the data keys admission has checked.\<close>

lemma config_keys_template:
  assumes "ks_SecretTemplate (gk_Spec k) = Some t"
  shows "config_keys (resolveSecretConfig k) = generated_keys t" "scf_additionalData (resolveSecretConfig k) = stp_AdditionalData t"
  using assms by (auto simp: config_keys_def resolveSecretConfig_def default_config_def generated_keys_def Let_def
      defaultEndpointKey_def defaultHostKey_def defaultSchemeKey_def defaultRegionKey_def defaultBucketNameKey_def
      split: option.splits)

lemma config_keys_distinct:
  assumes "validateSecretTemplate ke vl (ks_SecretTemplate (gk_Spec k)) = None"
  shows "distinct (map fst (filter snd (config_keys (resolveSecretConfig k))))"
    and "fst ` set (scf_additionalData (resolveSecretConfig k)) \<inter> set (map fst (filter snd (config_keys (resolveSecretConfig k)))) = {}"
proof -
  let ?c = "resolveSecretConfig k"
  have "distinct (map fst (filter snd (config_keys ?c)))
      \<and> fst ` set (scf_additionalData ?c) \<inter> set (map fst (filter snd (config_keys ?c))) = {}"
  proof (cases "ks_SecretTemplate (gk_Spec k)")
    case None
    then show ?thesis
      by (simp add: config_keys_def resolveSecretConfig_def default_config_def Let_def secret_constants)
  next
    case (Some t)
    show ?thesis using template_keys_distinct assms unfolding config_keys_template [OF Some] Some by auto
  qed
  then show "distinct (map fst (filter snd (config_keys ?c)))"
    "fst ` set (scf_additionalData ?c) \<inter> set (map fst (filter snd (config_keys ?c))) = {}" by auto
qed

text \<open>What the published data must hold.\<close>

definition publishes ::
    "secret_params \<Rightarrow> key_env \<Rightarrow> trace \<Rightarrow> GarageKey \<Rightarrow> GarageCluster \<Rightarrow> string \<Rightarrow> (string \<rightharpoonup> string) \<Rightarrow> bool" where
  "publishes sp env t k cluster secretAccessKey m \<longleftrightarrow>
     (let cfg = resolveSecretConfig k in
      m (scf_accessKeyIDKey cfg) = Some (kst_AccessKeyID (gk_Status k))
      \<and> (secretAccessKey \<noteq> [] \<longrightarrow> m (scf_secretAccessKeyKey cfg) = Some secretAccessKey)
      \<and> (scf_includeEndpoint cfg \<longrightarrow> m (scf_endpointKey cfg) = Some (''http://'' @ s3_host sp cluster)
           \<and> m (scf_hostKey cfg) = Some (s3_host sp cluster) \<and> m (scf_schemeKey cfg) = Some ''http'')
      \<and> (scf_includeRegion cfg \<longrightarrow> m (scf_regionKey cfg) = Some (s3_region cluster))
      \<and> (scf_includeBucketName cfg \<and> singleBucketName env t k \<noteq> None \<longrightarrow> m (scf_bucketNameKey cfg) = singleBucketName env t k)
      \<and> (\<forall>(x, v) \<in> set (scf_additionalData cfg). m x = Some v))"

lemma lookup_put_when:
  "map_of (put_when c kvs m) x = (case (if c then map_of (rev kvs) x else None) of Some v \<Rightarrow> Some v | None \<Rightarrow> map_of m x)"
  by (simp add: put_when_def map_of_copy_map map_add_def)

lemma case_if_option: "(case (if c then Some v else r) of Some v \<Rightarrow> Some v | None \<Rightarrow> d) = (if c then Some v else case r of Some v \<Rightarrow> Some v | None \<Rightarrow> d)"
  by simp

lemma build_lookup:
  "map_of (buildSecretData sp env t (c\<lparr>scf_labels := l\<rparr>) k cluster sk) x =
     (case map_of (rev (scf_additionalData c)) x of
        Some v \<Rightarrow> Some v
      | None \<Rightarrow>
          if scf_includeBucketName c \<and> singleBucketName env t k \<noteq> None \<and> x = scf_bucketNameKey c then singleBucketName env t k
          else if scf_includeRegion c \<and> x = scf_regionKey c then Some (s3_region cluster)
          else if scf_includeEndpoint c \<and> x = scf_schemeKey c then Some ''http''
          else if scf_includeEndpoint c \<and> x = scf_hostKey c then Some (s3_host sp cluster)
          else if scf_includeEndpoint c \<and> x = scf_endpointKey c then Some (''http://'' @ s3_host sp cluster)
          else if sk \<noteq> [] \<and> x = scf_secretAccessKeyKey c then Some sk
          else if x = scf_accessKeyIDKey c then Some (kst_AccessKeyID (gk_Status k)) else None)"
proof -
  have s: "map_of (if b then (case o' of None \<Rightarrow> d | Some n \<Rightarrow> AList.update key n d) else d) x
      = (if b \<and> o' \<noteq> None \<and> x = key then o' else map_of d x)" for b o' key and d :: "(string, string) gomap"
    by (cases o') auto
  have e: "(if c then map_of (rev [(p, v1), (q, v2), (r, v3)]) x else None)
      = (if c \<and> x = r then Some v3 else if c \<and> x = q then Some v2 else if c \<and> x = p then Some v1 else None)"
    for c and p q r v1 v2 v3 :: string by simp
  have o: "(if c then map_of (rev [(p, v1)]) x else None) = (if c \<and> x = p then Some v1 else None)"
    for c and p v1 :: string by simp
  show ?thesis
    unfolding buildSecretData_def Let_def map_of_copy_map map_add_def s lookup_put_when e o case_if_option
    by (cases "map_of (rev (scf_additionalData c)) x") (simp_all cong: if_cong split del: if_split)
qed

lemma build_publishes:
  assumes "validateSecretTemplate ke vl (ks_SecretTemplate (gk_Spec k)) = None"
    "gomap_wf (scf_additionalData (resolveSecretConfig k))"
  shows "publishes sp env t k cluster sk
    (map_of (buildSecretData sp env t ((resolveSecretConfig k)\<lparr>scf_labels := l\<rparr>) k cluster sk))"
proof -
  let ?c = "resolveSecretConfig k"
  let ?a = "map_of (rev (scf_additionalData ?c))"
  have a: "?a x = map_of (scf_additionalData ?c) x" for x
    using map_of_inject_set [of "rev (scf_additionalData ?c)" "scf_additionalData ?c"] assms(2) by (simp add: rev_map [symmetric])
  have none: "?a x = None" if "x \<in> set (map fst (filter snd (config_keys ?c)))" for x
    using config_keys_distinct(2) [OF assms(1)] that unfolding a map_of_eq_None_iff by blast
  have add: "\<forall>(x, v) \<in> set (scf_additionalData ?c). ?a x = Some v" using assms(2) unfolding a by auto
  note d = config_keys_distinct(1) [OF assms(1), unfolded config_keys_def]
  note n = none [unfolded config_keys_def]
  show ?thesis unfolding publishes_def Let_def build_lookup
  proof (intro conjI impI)
    show "\<forall>(x, v) \<in> set (scf_additionalData ?c). (case ?a x of Some v \<Rightarrow> Some v | None \<Rightarrow>
          if scf_includeBucketName ?c \<and> singleBucketName env t k \<noteq> None \<and> x = scf_bucketNameKey ?c then singleBucketName env t k
          else if scf_includeRegion ?c \<and> x = scf_regionKey ?c then Some (s3_region cluster)
          else if scf_includeEndpoint ?c \<and> x = scf_schemeKey ?c then Some ''http''
          else if scf_includeEndpoint ?c \<and> x = scf_hostKey ?c then Some (s3_host sp cluster)
          else if scf_includeEndpoint ?c \<and> x = scf_endpointKey ?c then Some (''http://'' @ s3_host sp cluster)
          else if sk \<noteq> [] \<and> x = scf_secretAccessKeyKey ?c then Some sk
          else if x = scf_accessKeyIDKey ?c then Some (kst_AccessKeyID (gk_Status k)) else None) = Some v"
      using add by fastforce
  qed (use d n in \<open>simp_all split: if_splits\<close>)
qed

subsection \<open>Where the data is stored\<close>

text \<open>
  The Secret \<open>n\<close>, controlled by the key with the given UID, holds the data \<open>m\<close>: it was created with it, or
  it was read under the key's control and held it already or was updated to it.
\<close>

definition stored :: "key_env \<Rightarrow> NamespacedName \<Rightarrow> string \<Rightarrow> (string \<rightharpoonup> string) \<Rightarrow> trace \<Rightarrow> bool" where
  "stored env n uid m new \<longleftrightarrow>
     (\<exists>s. (KeyCall (SecretCreate s), Succeeded) \<in> set new \<and> secret_name s = n \<and> sec_Controller s = Some uid \<and> map_of (sec_Data s) = m)
   \<or> (\<exists>s t. kv_GetSecret env t n = Inr s \<and> sec_Controller s = Some uid
        \<and> (map_of (sec_Data s) = m \<or> (\<exists>s'. (KeyCall (SecretUpdate s'), Succeeded) \<in> set new \<and> secret_name s' = secret_name s
              \<and> sec_UID s' = sec_UID s \<and> map_of (sec_Data s') = m)))"

lemma stored_append: "stored env n uid m new \<Longrightarrow> stored env n uid m (new0 @ new @ new1)"
  unfolding stored_def by auto

text \<open>Secrets that are read hold one value per key.\<close>

definition secrets_are_maps :: "key_env \<Rightarrow> bool" where
  "secrets_are_maps env \<longleftrightarrow> (\<forall>t n s. kv_GetSecret env t n = Inr s \<longrightarrow> gomap_wf (sec_Data s))"

definition secret_writes :: "trace \<Rightarrow> bool" where
  "secret_writes new \<longleftrightarrow> (\<forall>c \<in> fst ` set new. \<exists>s. c = KeyCall (SecretCreate s) \<or> c = KeyCall (SecretUpdate s))"

lemma mark_trace:
  assumes "markPreviousGeneratedSecret env k previous tr = (r, t1)"
  shows "\<exists>new. t1 = tr @ new \<and> secret_writes new"
  using assms by (fastforce simp: markPreviousGeneratedSecret_def key_call_defs secret_writes_def
      split: option.splits if_splits sum.splits)

lemma write_trace:
  assumes "write_secret env k cfg data sk tr = (r, t1)" "scf_namespace cfg = gk_Namespace k"
    "secrets_are_maps env" "gomap_wf data"
  shows "\<exists>new. t1 = tr @ new \<and> secret_writes new \<and> (r = None \<longrightarrow>
     (\<exists>m. stored env \<lparr>nn_Namespace = gk_Namespace k, nn_Name = scf_name cfg\<rparr> (gk_UID k) m new \<and> (sk \<noteq> [] \<longrightarrow> m = map_of data)))"
proof (cases "kv_GetSecret env tr \<lparr>nn_Namespace = scf_namespace cfg, nn_Name = scf_name cfg\<rparr>")
  case (Inl e)
  then show ?thesis using assms(1,2)
    by (auto simp: write_secret_def key_call_defs secret_writes_def stored_def secret_name_def split: if_splits option.splits)
next
  case (Inr existing)
  let ?p = "preserved_data cfg sk existing data"
  let ?n = "\<lparr>nn_Namespace = gk_Namespace k, nn_Name = scf_name cfg\<rparr>"
  let ?u = "existing\<lparr>sec_Data := ?p, sec_Labels := scf_labels cfg, sec_Annotations := scf_annotations cfg\<rparr>"
  have wf: "gomap_wf ?p" using assms(4) by (auto simp: preserved_data_def split: option.splits)
  have m: "sk \<noteq> [] \<longrightarrow> map_of ?p = map_of data" by (simp add: preserved_data_def)
  have u: "secret_name ?u = secret_name existing" by (simp add: secret_name_def)
  consider "r \<noteq> None" "t1 = tr" | o' where "r \<noteq> None" "t1 = tr @ [(KeyCall (SecretUpdate ?u), o')]"
    | "r = None" "sec_Controller existing = Some (gk_UID k)" "secretDataEqual (sec_Data existing) ?p" "t1 = tr"
    | "r = None" "sec_Controller existing = Some (gk_UID k)" "t1 = tr @ [(KeyCall (SecretUpdate ?u), Succeeded)]"
    using assms(1) Inr by (auto simp: write_secret_def key_call_defs split: if_splits option.splits)
  then show ?thesis
  proof cases
    case 3
    have "map_of (sec_Data existing) = map_of ?p" using same_data [OF 3(3)] assms(3) Inr wf by (auto simp: secrets_are_maps_def)
    then have "stored env ?n (gk_UID k) (map_of ?p) []" unfolding stored_def using Inr 3(2) assms(2) by auto
    then show ?thesis using 3 m by (auto simp: secret_writes_def)
  next
    case 4
    have "stored env ?n (gk_UID k) (map_of ?p) [(KeyCall (SecretUpdate ?u), Succeeded)]"
      unfolding stored_def using Inr 4(2) assms(2) u by auto
    then show ?thesis using 4 m by (auto simp: secret_writes_def)
  qed (auto simp: secret_writes_def)
qed

lemma finish_trace:
  assumes "finishGarageKeySecretHandoff env k previous tr = (r, k', t')" "gk_UID k \<noteq> []" "kst_SecretRef (gk_Status k) = Some cur"
  obtains mid del where "t' = tr @ mid @ del"
    "\<forall>c \<in> fst ` set mid. \<exists>n k2. c = KeyCall (KeyGet n) \<or> c = KeyCall (KeyStatusUpdate k2)"
    "\<forall>c \<in> fst ` set del. stale_deletion env k (Some (ref_object cur)) c"
    "del \<noteq> [] \<or> r = None \<Longrightarrow> previous = Some cur \<or> (\<exists>k1. (KeyCall (KeyStatusUpdate k1), Succeeded) \<in> set mid \<and> kst_SecretRef (gk_Status k1) = Some cur)"
    "r = None \<Longrightarrow> gk_Status k' = gk_Status k"
proof (cases "previous = Some cur")
  case True
  then have "cleanupStaleGeneratedSecrets env k (Some cur) tr = (r, t')" "k' = k"
    using assms by (auto simp: finishGarageKeySecretHandoff_def Let_def split: prod.splits)
  from cleanup_stale_trace [OF this(1)] show ?thesis using that [of "[]"] True \<open>k' = k\<close> by auto
next
  case False
  obtain e k1 t1 where su: "key_status_update env k tr = (e, k1, t1)" by (metis prod_cases3)
  from key_status_update_trace [OF this assms(2)] obtain mid where mid: "t1 = tr @ mid"
    "\<forall>c \<in> fst ` set mid. \<exists>n k2. c = KeyCall (KeyGet n) \<or> c = KeyCall (KeyStatusUpdate k2)"
    "e = None \<longrightarrow> gk_Status k1 = gk_Status k \<and> gk_UID k1 = gk_UID k \<and> (KeyCall (KeyStatusUpdate k1), Succeeded) \<in> set mid" by blast
  show ?thesis
  proof (cases e)
    case (Some e')
    then have "t' = t1" "r \<noteq> None" using assms False su by (auto simp: finishGarageKeySecretHandoff_def Let_def)
    then show ?thesis using that [of mid "[]"] mid by auto
  next
    case None
    then have c: "cleanupStaleGeneratedSecrets env k1 (Some cur) t1 = (r, t')" "k' = k1"
      using assms False su by (auto simp: finishGarageKeySecretHandoff_def Let_def split: prod.splits)
    from cleanup_stale_trace [OF this(1)] obtain del where del: "t' = t1 @ del"
      "\<forall>c \<in> fst ` set del. stale_deletion env k1 (Some (ref_object cur)) c" by auto
    have "stale_deletion env k1 cu c = stale_deletion env k cu c" for cu c
      using mid(3) None by (simp add: stale_deletion_def controlled_by_key_def)
    moreover have "\<exists>k1. (KeyCall (KeyStatusUpdate k1), Succeeded) \<in> set mid \<and> kst_SecretRef (gk_Status k1) = Some cur"
      using mid(3) None assms(3) by (intro exI [of _ k1]) simp
    ultimately show ?thesis using that [of mid del] mid del c(2) None by auto
  qed
qed

subsection \<open>Publishing and handing over\<close>

definition secret_target :: "GarageKey \<Rightarrow> SecretReference" where
  "secret_target k = \<lparr>sr_Name = scf_name (resolveSecretConfig k), sr_Namespace = gk_Namespace k\<rparr>"

lemma config_namespace [simp]: "scf_namespace (resolveSecretConfig k) = gk_Namespace k"
  by (simp add: resolveSecretConfig_def default_config_def Let_def split: option.splits)

lemma reconcile_secret_stages:
  assumes "reconcileSecret sp env k cluster sk tr = (r, k', t')"
    "secrets_are_maps env"
  obtains (refused) "t' = tr" "r \<noteq> None"
  | (failed) new where "t' = tr @ new" "secret_writes new" "r \<noteq> None"
  | (written) a b mid del t m where "t' = tr @ a @ b @ mid @ del" "secret_writes (a @ b)"
      "stored env (ref_object (secret_target k)) (gk_UID k) m b"
      "sk \<noteq> [] \<Longrightarrow> \<exists>l. m = map_of (buildSecretData sp env t ((resolveSecretConfig k)\<lparr>scf_labels := l\<rparr>) k cluster sk)"
      "\<forall>c \<in> fst ` set mid. \<exists>n k2. c = KeyCall (KeyGet n) \<or> c = KeyCall (KeyStatusUpdate k2)"
      "\<forall>c \<in> fst ` set del. stale_deletion env k (Some (ref_object (secret_target k))) c"
      "del \<noteq> [] \<or> r = None \<Longrightarrow> kst_SecretRef (gk_Status k) = Some (secret_target k)
         \<or> (\<exists>k1. (KeyCall (KeyStatusUpdate k1), Succeeded) \<in> set mid \<and> kst_SecretRef (gk_Status k1) = Some (secret_target k))"
      "r = None \<Longrightarrow> kst_SecretRef (gk_Status k') = Some (secret_target k)"
proof (cases "(scf_includeEndpoint (resolveSecretConfig k) \<and> IsManagementHandle (Some cluster)) \<or> gk_UID k = []")
  case True
  then show ?thesis using refused assms(1) by (auto simp: reconcileSecret_def Let_def split: if_splits)
next
  case ok: False
  let ?prev = "kst_SecretRef (gk_Status k)"
  let ?l = "AList.update keyGeneratedSecretOwnerLabel (gk_UID k) (scf_labels (resolveSecretConfig k))"
  let ?cfg = "(resolveSecretConfig k)\<lparr>scf_labels := ?l\<rparr>"
  obtain e1 t1 where mk: "markPreviousGeneratedSecret env k ?prev tr = (e1, t1)" by fastforce
  from mark_trace [OF this] obtain a where a: "t1 = tr @ a" "secret_writes a" by blast
  let ?data = "buildSecretData sp env t1 ?cfg k cluster sk"
  obtain e2 t2 where wr: "write_secret env k ?cfg ?data sk t1 = (e2, t2)" by fastforce
  from write_trace [OF this _ assms(2) build_wf] obtain b where b: "t2 = t1 @ b" "secret_writes b"
    "e2 = None \<longrightarrow> (\<exists>m. stored env (ref_object (secret_target k)) (gk_UID k) m b \<and> (sk \<noteq> [] \<longrightarrow> m = map_of ?data))"
    by (auto simp: ref_object_def secret_target_def)
  have w: "secret_writes (a @ b)" using a b by (auto simp: secret_writes_def)
  show ?thesis
  proof (cases "e1 = None \<and> e2 = None")
    case False
    then have "r \<noteq> None \<and> (t' = t1 \<or> t' = t2)"
      using assms(1) ok mk wr by (cases e1) (auto simp: reconcileSecret_def Let_def)
    then show ?thesis using failed [of a] failed [of "a @ b"] a b w by auto
  next
    case True
    let ?k = "with_secret_ref (Some (secret_target k)) k"
    have fin: "finishGarageKeySecretHandoff env ?k ?prev t2 = (r, k', t')"
      using assms(1) ok mk wr True by (auto simp: reconcileSecret_def Let_def secret_target_def)
    obtain m where m: "stored env (ref_object (secret_target k)) (gk_UID k) m b" "sk \<noteq> [] \<longrightarrow> m = map_of ?data"
      using b(3) True by blast
    have q: "stale_deletion env ?k cu c = stale_deletion env k cu c" for cu c
      by (simp add: stale_deletion_def controlled_by_key_def with_secret_ref_def)
    have u: "gk_UID ?k \<noteq> []" "kst_SecretRef (gk_Status ?k) = Some (secret_target k)"
      using ok by (simp_all add: with_secret_ref_def)
    show ?thesis
    proof (rule finish_trace [OF fin u])
      fix mid del
      assume f: "t' = t2 @ mid @ del" "\<forall>c \<in> fst ` set mid. \<exists>n k2. c = KeyCall (KeyGet n) \<or> c = KeyCall (KeyStatusUpdate k2)"
        "\<forall>c \<in> fst ` set del. stale_deletion env ?k (Some (ref_object (secret_target k))) c"
        "del \<noteq> [] \<or> r = None \<Longrightarrow> ?prev = Some (secret_target k)
          \<or> (\<exists>k1. (KeyCall (KeyStatusUpdate k1), Succeeded) \<in> set mid \<and> kst_SecretRef (gk_Status k1) = Some (secret_target k))"
        "r = None \<Longrightarrow> gk_Status k' = gk_Status ?k"
      show ?thesis
        by (rule written [of a b mid del m t1]) (use a b w m f q u in auto)
    qed
  qed
qed

lemma split_after:
  assumes "xs @ ys = pre @ x # post" "x \<notin> set xs"
  obtains z where "pre = xs @ z" "ys = z @ x # post"
  using assms by (auto simp: append_eq_append_conv2 append_eq_Cons_conv Cons_eq_append_conv)


text \<open>
  C38: What a GarageKey publishes is usable.  When reconcileSecret succeeds with a secret key, for a key
  whose template was admitted, the Secret named by the resulting status is under the key's control and
  holds exactly the key's access key identifier and secret, and, as far as the template includes them, the
  endpoint, host, scheme, region and bucket name, each under its configured data key, next to all
  additional data: no field overwrites another.
\<close>

theorem credentials_published:
  assumes "reconcileSecret sp env k cluster sk tr = (None, k', tr @ new)" "secrets_are_maps env" "sk \<noteq> []"
    "validateSecretTemplate ke vl (ks_SecretTemplate (gk_Spec k)) = None" "gomap_wf (scf_additionalData (resolveSecretConfig k))"
  shows "kst_SecretRef (gk_Status k') = Some (secret_target k)
    \<and> (\<exists>m t. stored env (ref_object (secret_target k)) (gk_UID k) m new \<and> publishes sp env t k cluster sk m)"
  using assms(1,2)
proof (rule reconcile_secret_stages)
  fix a b mid del t m
  assume e: "tr @ new = tr @ a @ b @ mid @ del" and st: "stored env (ref_object (secret_target k)) (gk_UID k) m b"
    and m: "sk \<noteq> [] \<Longrightarrow> \<exists>l. m = map_of (buildSecretData sp env t ((resolveSecretConfig k)\<lparr>scf_labels := l\<rparr>) k cluster sk)"
    and k': "None = None \<Longrightarrow> kst_SecretRef (gk_Status k') = Some (secret_target k)"
  have "publishes sp env t k cluster sk m" using m [OF assms(3)] build_publishes [OF assms(4,5)] by auto
  moreover have "stored env (ref_object (secret_target k)) (gk_UID k) m new" using stored_append [OF st, of a "mid @ del"] e by simp
  ultimately show ?thesis using k' by auto
qed simp_all

subsection \<open>A renamed Secret\<close>

text \<open>The template of a key with a generated Secret \<open>old\<close> now names \<open>creds\<close>.\<close>

definition sample_renamed :: GarageKey where
  "sample_renamed = sample_key\<lparr>gk_Status := (gk_Status sample_key)\<lparr>kst_SecretRef := Some \<lparr>sr_Name = ''old'', sr_Namespace = ''apps''\<rparr>\<rparr>,
     gk_Spec := (gk_Spec sample_key)\<lparr>ks_SecretTemplate := Some \<lparr>stp_Name = ''creds'', stp_Labels = [], stp_Annotations = [],
       stp_Type = [], stp_AccessKeyIDKey = ''AWS_ID'', stp_SecretAccessKeyKey = [], stp_EndpointKey = [], stp_HostKey = [],
       stp_SchemeKey = [], stp_RegionKey = [], stp_BucketNameKey = [], stp_IncludeEndpoint = Some False, stp_IncludeRegion = None,
       stp_IncludeBucketName = None, stp_AdditionalData = [(''note'', ''x'')]\<rparr>\<rparr>\<rparr>"

definition sample_old_secret :: Secret where
  "sample_old_secret = \<lparr>sec_Namespace = ''apps'', sec_Name = ''old'', sec_UID = ''s1'',
     sec_Labels = [(keyGeneratedSecretOwnerLabel, ''k1'')], sec_Annotations = [], sec_Controller = Some ''k1'',
     sec_Immutable = None, sec_Type = ''Opaque'', sec_Data = [(''access-key-id'', ''K1'')]\<rparr>"

definition sample_secret_env :: key_env where
  "sample_secret_env = sample_key_service\<lparr>
     kv_GetSecret := (\<lambda>tr n. if n = secret_name sample_old_secret then Inr sample_old_secret else Inl KubeNotFound),
     kv_ListSecrets := (\<lambda>tr ns v. Inr [sample_old_secret])\<rparr>"

definition sample_secret_params :: secret_params where
  "sample_secret_params = \<lparr>sp_Unspecified = (\<lambda>s. s = ''0.0.0.0''), sp_ClusterDomain = ''cluster.local''\<rparr>"

definition sample_validators :: key_validators where
  "sample_validators = \<lparr>vl_ConfigMapKey = (\<lambda>s. s \<noteq> []), vl_QualifiedName = (\<lambda>s. s \<noteq> []), vl_LabelValue = (\<lambda>s. True)\<rparr>"

definition sample_new_secret :: Secret where
  "sample_new_secret = \<lparr>sec_Namespace = ''apps'', sec_Name = ''creds'', sec_UID = [],
     sec_Labels = [(keyLabelAppManagedBy, ''garage-operator''), (''garage.rajsingh.info/key'', ''alice''), (keyGeneratedSecretOwnerLabel, ''k1'')],
     sec_Annotations = [], sec_Controller = Some ''k1'', sec_Immutable = None, sec_Type = ''Opaque'',
     sec_Data = [(''AWS_ID'', ''K1''), (''secret-access-key'', ''s3cret''),
       (''region'', ''garage''), (''note'', ''x'')]\<rparr>"

lemma sample_secret_run:
  "reconcileSecret sample_secret_params sample_secret_env sample_renamed sample_cluster ''s3cret'' []
     = (None, with_secret_ref (Some \<lparr>sr_Name = ''creds'', sr_Namespace = ''apps''\<rparr>) sample_renamed,
        [] @ [(KeyCall (SecretCreate sample_new_secret), Succeeded),
         (KeyCall (KeyStatusUpdate (with_secret_ref (Some \<lparr>sr_Name = ''creds'', sr_Namespace = ''apps''\<rparr>) sample_renamed)), Succeeded)]
        @ (KeyCall (SecretDelete (secret_name sample_old_secret) ''s1''), Succeeded) # [])"
  by (simp add: reconcileSecret_def markPreviousGeneratedSecret_def buildSecretData_def write_secret_def
      finishGarageKeySecretHandoff_def cleanupStaleGeneratedSecrets_def resolveSecretConfig_def default_config_def defaultString_def
      put_when_def copy_map_def with_secret_ref_def key_status_update_def StatusUpdateMaxRetries_def numeral_eq_Suc
      s3_region_def controlled_by_key_def secret_name_def ref_object_def annotation_def gomap_get_def secret_constants
      defaultS3Region_def keyLabelAppManagedBy_def keyGeneratedSecretOwnerLabel_def IsManagementHandle_def key_call_defs
      sample_renamed_def sample_key_def sample_secret_env_def sample_old_secret_def sample_new_secret_def sample_key_service_def
      sample_cluster_def)

lemma sample_secrets_are_maps: "secrets_are_maps sample_secret_env"
  by (simp add: secrets_are_maps_def sample_secret_env_def sample_old_secret_def)


theorem credentials_published_witness:
  "\<exists>m t new. stored sample_secret_env (ref_object (secret_target sample_renamed)) ''k1'' m new
     \<and> publishes sample_secret_params sample_secret_env t sample_renamed sample_cluster ''s3cret'' m"
proof -
  have "validateSecretTemplate sample_env sample_validators (ks_SecretTemplate (gk_Spec sample_renamed)) = None"
    "gomap_wf (scf_additionalData (resolveSecretConfig sample_renamed))" by code_simp+
  note v = this
  have u: "gk_UID sample_renamed = ''k1''" by (simp add: sample_renamed_def sample_key_def)
  have "''s3cret'' \<noteq> ([] :: string)" by simp
  from credentials_published [OF sample_secret_run sample_secrets_are_maps this v]
  show ?thesis unfolding u by blast
qed

end
