(* ===== verification/KeyFinalization.thy ===== *)
theory KeyFinalization
  imports KeySecret
begin

text \<open>
  Deleting the access keys of a GarageKey (finalize, deterministicGarageKeyFinalizationIDs and
  garageKeyFinalizationID of internal/controller/garagekey_controller.go).  The map of identity
  candidates is a list here: whether they agree, and on what, does not depend on the order.
\<close>

subsection \<open>Which keys to delete\<close>

datatype key_finalize_error =
    DeterministicIdentityUnavailable rpc_error | DeterministicLookupFailed call_error | DeterministicKeyForeign
  | FinalSnapshotInvalid key_error | FinalSnapshotReadFailed kube_error | NoImmutableIdentity
  | CandidatesDisagree | PinWithoutIdentity | PinDisagrees | AccountWithoutIdentity | AccountDisagrees
  | DeleteKeyFailed string call_error

fun verify_candidates ::
    "key_env \<Rightarrow> (string \<times> string) list \<Rightarrow> trace \<Rightarrow> (key_finalize_error + string list) \<times> trace" where
  "verify_candidates env [] tr = (Inr [], tr)"
| "verify_candidates env ((i, secret) # cs) tr =
     (case call_key env (GetKeyInfo i True) tr of
        (Inl e, t1) \<Rightarrow>
          if IsNotFound (ce_API e) then verify_candidates env cs t1 else (Inl (DeterministicLookupFailed e), t1)
      | (Inr existing, t1) \<Rightarrow>
          if gky_AccessKeyID existing \<noteq> i \<or> gky_SecretAccessKey existing \<noteq> secret then (Inl DeterministicKeyForeign, t1)
          else (case verify_candidates env cs t1 of
                  (Inl e, t2) \<Rightarrow> (Inl e, t2)
                | (Inr ids, t2) \<Rightarrow> (Inr (i # ids), t2)))"

definition derived_candidates :: "key_params \<Rightarrow> string \<Rightarrow> GarageKey \<Rightarrow> (string \<times> string) list" where
  "derived_candidates pr rpcSecret k =
     (let canonical = deriveKeyMaterial (kpr_HMAC pr) rpcSecret (gk_Namespace k) (deterministicKeyName k);
          name = ks_Name (gk_Spec k);
          legacy = deriveKeyMaterial (kpr_HMAC pr) rpcSecret (gk_Namespace k) (legacyDeterministicKeyName k name)
      in if name \<noteq> [] \<and> name \<noteq> gk_Name k \<and> fst legacy \<noteq> fst canonical then [legacy, canonical] else [canonical])"

text \<open>\<open>Inr None\<close> when the key is not one whose material is derived.\<close>

definition deterministicGarageKeyFinalizationIDs ::
    "key_params \<Rightarrow> key_env \<Rightarrow> GarageKey \<Rightarrow> GarageCluster option \<Rightarrow> trace \<Rightarrow> (key_finalize_error + string list option) \<times> trace" where
  "deterministicGarageKeyFinalizationIDs pr env k cluster tr =
     (case cluster of
        None \<Rightarrow> (Inr None, tr)
      | Some c \<Rightarrow>
          if ks_ImportKey (gk_Spec k) \<noteq> None \<or> kst_AccessKeyID (gk_Status k) \<noteq> []
             \<or> annotation (gk_Annotations k) AnnotationCOSIAccountID \<noteq> []
             \<or> annotation (gk_Annotations k) keyResolvedImportIDAnnotation \<noteq> [] then (Inr None, tr)
          else (case GetRPCSecret (kpr_Sum256 pr) env tr c of
             Inl e \<Rightarrow> (Inl (DeterministicIdentityUnavailable e), tr)
           | Inr rpcSecret \<Rightarrow>
               (case verify_candidates env (derived_candidates pr rpcSecret k) tr of
                  (Inl e, t1) \<Rightarrow> (Inl e, t1)
                | (Inr ids, t1) \<Rightarrow> (Inr (Some ids), t1))))"

text \<open>The candidates, each possibly empty.\<close>

definition identity_candidates ::
    "key_params \<Rightarrow> key_env \<Rightarrow> GarageKey \<Rightarrow> GarageCluster option \<Rightarrow> trace \<Rightarrow> key_finalize_error + string list" where
  "identity_candidates pr env k cluster tr =
     (let status = kst_AccessKeyID (gk_Status k); account = annotation (gk_Annotations k) AnnotationCOSIAccountID in
      case ks_ImportKey (gk_Spec k) of
        Some ik \<Rightarrow>
          (case ik_SecretRef ik of
             None \<Rightarrow> Inr [status, ik_AccessKeyID ik]
           | Some ref \<Rightarrow>
               (case kv_GetSecret env tr (snapshot_name pr k) of
                  Inr snapshot \<Rightarrow>
                    (case importKeySnapshotMaterial k snapshot of
                       Inl e \<Rightarrow> Inl (FinalSnapshotInvalid e)
                     | Inr (accessKeyID, _) \<Rightarrow> Inr [status, ik_AccessKeyID ik, accessKeyID])
                | Inl e \<Rightarrow>
                    if e \<noteq> KubeNotFound then Inl (FinalSnapshotReadFailed e)
                    else if status = [] \<and> account = [] then Inl NoImmutableIdentity
                    else Inr [status, ik_AccessKeyID ik]))
      | None \<Rightarrow>
          (case cluster of
             Some c \<Rightarrow>
               if status = [] \<and> account = [] then
                 (case GetRPCSecret (kpr_Sum256 pr) env tr c of
                    Inl e \<Rightarrow> Inl (DeterministicIdentityUnavailable e)
                  | Inr rpcSecret \<Rightarrow>
                      Inr [status, fst (deriveKeyMaterial (kpr_HMAC pr) rpcSecret (gk_Namespace k) (deterministicKeyName k))])
               else Inr [status]
           | None \<Rightarrow> Inr [status]))"

text \<open>The identity all non-empty candidates agree on; empty when there is none.\<close>

fun agree_on :: "string \<Rightarrow> string list \<Rightarrow> key_finalize_error + string" where
  "agree_on resolved [] = Inr resolved"
| "agree_on resolved (c # cs) =
     (if c = [] then agree_on resolved cs
      else if resolved \<noteq> [] \<and> c \<noteq> resolved then Inl CandidatesDisagree
      else agree_on c cs)"

definition garageKeyFinalizationID ::
    "key_params \<Rightarrow> key_env \<Rightarrow> GarageKey \<Rightarrow> GarageCluster option \<Rightarrow> trace \<Rightarrow> key_finalize_error + string" where
  "garageKeyFinalizationID pr env k cluster tr =
     (case identity_candidates pr env k cluster tr of
        Inl e \<Rightarrow> Inl e
      | Inr cs \<Rightarrow>
     (case agree_on [] cs of
        Inl e \<Rightarrow> Inl e
      | Inr resolved \<Rightarrow>
          let pinned = annotation (gk_Annotations k) keyResolvedImportIDAnnotation;
              account = annotation (gk_Annotations k) AnnotationCOSIAccountID
          in if pinned \<noteq> [] \<and> resolved = [] then Inl PinWithoutIdentity
             else if pinned \<noteq> [] \<and> pinned \<noteq> resolved then Inl PinDisagrees
             else if account \<noteq> [] \<and> resolved = [] then Inl AccountWithoutIdentity
             else if account \<noteq> [] \<and> account \<noteq> resolved then Inl AccountDisagrees
             else Inr resolved))"

subsection \<open>Revoking and deleting\<close>

definition finalization_buckets :: "GarageKey \<Rightarrow> string list" where
  "finalization_buckets k =
     sort (remdups (filter (\<lambda>b. b \<noteq> [])
       (map kba_BucketID (kst_Buckets (gk_Status k)) @ kst_ManagedBucketGrants (gk_Status k)
        @ map bp2_BucketID (ks_BucketPermissions (gk_Spec k)))))"

text \<open>A failed revocation is only logged.\<close>

fun revoke_grants :: "key_env \<Rightarrow> string \<Rightarrow> string list \<Rightarrow> trace \<Rightarrow> trace" where
  "revoke_grants env i [] tr = tr"
| "revoke_grants env i (b # bs) tr =
     revoke_grants env i bs
       (snd (call_bucket (kv_Admin env) (DenyBucketKey b i \<lparr>kp_Read = True, kp_Write = True, kp_Owner = True\<rparr>) tr))"

fun delete_keys :: "key_env \<Rightarrow> string list \<Rightarrow> string list \<Rightarrow> trace \<Rightarrow> key_finalize_error option \<times> trace" where
  "delete_keys env buckets [] tr = (None, tr)"
| "delete_keys env buckets (i # is) tr =
     (case call_key_unit env (DeleteKey i) (revoke_grants env i buckets tr) of
        (None, t1) \<Rightarrow> delete_keys env buckets is t1
      | (Some e, t1) \<Rightarrow>
          if IsNotFound (ce_API e) then delete_keys env buckets is t1 else (Some (DeleteKeyFailed i e), t1))"

definition finalize_key ::
    "key_params \<Rightarrow> key_env \<Rightarrow> GarageKey \<Rightarrow> GarageCluster \<Rightarrow> trace \<Rightarrow> key_finalize_error option \<times> trace" where
  "finalize_key pr env k cluster tr =
     (case deterministicGarageKeyFinalizationIDs pr env k (Some cluster) tr of
        (Inl e, t1) \<Rightarrow> (Some e, t1)
      | (Inr (Some ids), t1) \<Rightarrow> delete_keys env (finalization_buckets k) ids t1
      | (Inr None, t1) \<Rightarrow>
          (case garageKeyFinalizationID pr env k (Some cluster) t1 of
             Inl e \<Rightarrow> (Some e, t1)
           | Inr i \<Rightarrow> if i = [] then (None, t1) else delete_keys env (finalization_buckets k) [i] t1))"

subsection \<open>Traces\<close>

lemma revoke_trace: "\<exists>new. revoke_grants env i bs tr = tr @ new
    \<and> (\<forall>(c, oc) \<in> set new. \<exists>b \<in> set bs. c = DenyBucketKey b i \<lparr>kp_Read = True, kp_Write = True, kp_Owner = True\<rparr>)"
proof (induction bs arbitrary: tr)
  case Nil
  then show ?case by simp
next
  case (Cons b bs)
  let ?c = "DenyBucketKey b i \<lparr>kp_Read = True, kp_Write = True, kp_Owner = True\<rparr>"
  obtain oc where oc: "snd (call_bucket (kv_Admin env) ?c tr) = tr @ [(?c, oc)]" by (simp add: call_defs)
  from Cons.IH [of "tr @ [(?c, oc)]"] obtain new where
    "revoke_grants env i bs (tr @ [(?c, oc)]) = (tr @ [(?c, oc)]) @ new"
    "\<forall>(c, oc) \<in> set new. \<exists>b \<in> set bs. c = DenyBucketKey b i \<lparr>kp_Read = True, kp_Write = True, kp_Owner = True\<rparr>" by blast
  then show ?case using oc by (intro exI [of _ "(?c, oc) # new"]) auto
qed

text \<open>Deletions go to the given keys only, and a failed one ends the run with its error.\<close>

lemma delete_keys_trace:
  assumes "delete_keys env bs ids tr = (r, tr')"
  shows "\<exists>new. tr' = tr @ new
    \<and> (\<forall>(c, oc) \<in> set new. (\<exists>i \<in> set ids. c = KeyCall (DeleteKey i) \<and> (r = None \<longrightarrow> oc \<noteq> Failed))
        \<or> (\<exists>i \<in> set ids. \<exists>b \<in> set bs. c = DenyBucketKey b i \<lparr>kp_Read = True, kp_Write = True, kp_Owner = True\<rparr>))
    \<and> (r = None \<longrightarrow> (\<forall>i \<in> set ids. \<exists>oc. oc \<noteq> Failed \<and> (KeyCall (DeleteKey i), oc) \<in> set new))"
  using assms
proof (induction ids arbitrary: tr)
  case Nil
  then show ?case by simp
next
  case (Cons i ids)
  obtain pre where pre: "revoke_grants env i bs tr = tr @ pre"
    "\<forall>(c, oc) \<in> set pre. \<exists>b \<in> set bs. c = DenyBucketKey b i \<lparr>kp_Read = True, kp_Write = True, kp_Owner = True\<rparr>"
    using revoke_trace by blast
  let ?d = "KeyCall (DeleteKey i)"
  obtain e t1 where d: "call_key_unit env (DeleteKey i) (tr @ pre) = (e, t1)" by fastforce
  then have t1: "t1 = tr @ pre @ [(?d, api_outcome e)]" by (auto simp: key_call_defs)
  show ?case
  proof (cases "e = None \<or> IsNotFound (ce_API (the e))")
    case True
    then have ok: "api_outcome e \<noteq> Failed" by (auto simp: api_outcome_def split: option.splits)
    have "delete_keys env bs ids t1 = (r, tr')" using Cons.prems pre(1) d True by (auto split: option.splits)
    from Cons.IH [OF this] obtain new where new: "tr' = t1 @ new"
      "\<forall>(c, oc) \<in> set new. (\<exists>i \<in> set ids. c = KeyCall (DeleteKey i) \<and> (r = None \<longrightarrow> oc \<noteq> Failed))
        \<or> (\<exists>i \<in> set ids. \<exists>b \<in> set bs. c = DenyBucketKey b i \<lparr>kp_Read = True, kp_Write = True, kp_Owner = True\<rparr>)"
      "r = None \<longrightarrow> (\<forall>i \<in> set ids. \<exists>oc. oc \<noteq> Failed \<and> (KeyCall (DeleteKey i), oc) \<in> set new)" by blast
    show ?thesis
      by (rule exI [of _ "pre @ [(?d, api_outcome e)] @ new"], intro conjI)
        (use new(1) t1 in simp, use new(2) pre(2) ok in fastforce, use new(3) ok in auto)
  next
    case False
    then have "tr' = t1" "r \<noteq> None" using Cons.prems pre(1) d by (auto split: option.splits)
    then show ?thesis using t1 pre(2) by (intro exI [of _ "pre @ [(?d, api_outcome e)]"]) fastforce
  qed
qed

definition verified_key :: "key_env \<Rightarrow> (string \<times> string) list \<Rightarrow> string \<Rightarrow> bool" where
  "verified_key env cs i \<longleftrightarrow>
     (\<exists>secret t g. (i, secret) \<in> set cs \<and> kv_Key env t (GetKeyInfo i True) = Inr g \<and> gky_AccessKeyID g = i \<and> gky_SecretAccessKey g = secret)"

lemma verify_trace:
  assumes "verify_candidates env cs tr = (r, tr')"
  shows "\<exists>new. tr' = tr @ new \<and> (\<forall>c \<in> fst ` set new. \<exists>i. c = KeyCall (GetKeyInfo i True))
    \<and> (\<forall>ids. r = Inr ids \<longrightarrow> (\<forall>i \<in> set ids. verified_key env cs i))"
  using assms
proof (induction cs arbitrary: tr r tr')
  case Nil
  then show ?case by auto
next
  case (Cons c cs)
  obtain i secret where c: "c = (i, secret)" by force
  have mono: "verified_key env cs j \<Longrightarrow> verified_key env (c # cs) j" for j by (auto simp: verified_key_def)
  obtain g t1 where g: "call_key env (GetKeyInfo i True) tr = (g, t1)" by fastforce
  then have t1: "t1 = tr @ [(KeyCall (GetKeyInfo i True), api_outcome (error_of g))]" and gv: "kv_Key env tr (GetKeyInfo i True) = g"
    by (auto simp: key_call_defs)
  have vk: "verified_key env ((i, secret) # cs) i" if "g = Inr x" "gky_AccessKeyID x = i" "gky_SecretAccessKey x = secret" for x
    unfolding verified_key_def using gv that by (intro exI [of _ secret] exI [of _ tr] exI [of _ x]) simp
  obtain r2 t2 where rest: "verify_candidates env cs t1 = (r2, t2)" by fastforce
  from Cons.IH [OF this] obtain new where new: "t2 = t1 @ new" "\<forall>c \<in> fst ` set new. \<exists>i. c = KeyCall (GetKeyInfo i True)"
    "\<forall>ids. r2 = Inr ids \<longrightarrow> (\<forall>i \<in> set ids. verified_key env cs i)" by blast
  consider "tr' = t1" "\<exists>e. r = Inl e" | "tr' = t2" "r = r2 \<or> (\<exists>e. r = Inl e)"
    | ids where "tr' = t2" "r = Inr (i # ids)" "r2 = Inr ids" "verified_key env (c # cs) i"
    using Cons.prems g rest vk unfolding c by (auto split: sum.splits if_splits)
  then show ?case
  proof cases
    case 1
    then show ?thesis using t1 by auto
  next
    case 2
    then show ?thesis using new t1 mono by auto
  next
    case 3
    then show ?thesis using new t1 mono by auto
  qed
qed

lemma agree_on_ok: "agree_on r cs = Inr i \<Longrightarrow> (\<forall>c \<in> set cs. c \<in> {[], i}) \<and> r \<in> {[], i} \<and> (i = r \<or> i \<in> set cs)"
  by (induction r cs rule: agree_on.induct) (auto split: if_splits)

text \<open>How far the records of a GarageKey prove that an access key is its own.\<close>

definition owned_key :: "key_params \<Rightarrow> key_env \<Rightarrow> GarageKey \<Rightarrow> GarageCluster \<Rightarrow> string \<Rightarrow> bool" where
  "owned_key pr env k cluster i \<longleftrightarrow>
     kst_AccessKeyID (gk_Status k) \<in> {[], i}
     \<and> annotation (gk_Annotations k) keyResolvedImportIDAnnotation \<in> {[], i}
     \<and> annotation (gk_Annotations k) AnnotationCOSIAccountID \<in> {[], i}
     \<and> (kst_AccessKeyID (gk_Status k) = i
        \<or> (\<exists>ik. ks_ImportKey (gk_Spec k) = Some ik \<and> (ik_AccessKeyID ik = i
             \<or> (\<exists>t s secret. kv_GetSecret env t (snapshot_name pr k) = Inr s \<and> importKeySnapshotMaterial k s = Inr (i, secret))))
        \<or> ks_ImportKey (gk_Spec k) = None
          \<and> (\<exists>t rpcSecret. GetRPCSecret (kpr_Sum256 pr) env t cluster = Inr rpcSecret
             \<and> (verified_key env (derived_candidates pr rpcSecret k) i
                \<or> annotation (gk_Annotations k) keyResolvedImportIDAnnotation = i
                  \<and> fst (deriveKeyMaterial (kpr_HMAC pr) rpcSecret (gk_Namespace k) (deterministicKeyName k)) = i)))"

lemma deterministic_trace:
  assumes "deterministicGarageKeyFinalizationIDs pr env k (Some cluster) tr = (d, t1)"
  shows "\<exists>new. t1 = tr @ new \<and> (\<forall>c \<in> fst ` set new. \<exists>i. c = KeyCall (GetKeyInfo i True))"
proof -
  have "t1 = tr \<or> (\<exists>cs r. verify_candidates env cs tr = (r, t1))"
    using assms by (auto simp: deterministicGarageKeyFinalizationIDs_def split: if_splits sum.splits prod.splits)
  then show ?thesis
  proof
    assume "t1 = tr"
    then show ?thesis by simp
  next
    assume "\<exists>cs r. verify_candidates env cs tr = (r, t1)"
    then obtain cs r where "verify_candidates env cs tr = (r, t1)" by blast
    from verify_trace [OF this] show ?thesis by blast
  qed
qed

lemma deterministic_owned:
  assumes "deterministicGarageKeyFinalizationIDs pr env k (Some cluster) tr = (Inr (Some ids), t1)" "i \<in> set ids"
  shows "owned_key pr env k cluster i"
proof -
  obtain rpc where rpc: "GetRPCSecret (kpr_Sum256 pr) env tr cluster = Inr rpc"
    and v: "verify_candidates env (derived_candidates pr rpc k) tr = (Inr ids, t1)"
    and g: "ks_ImportKey (gk_Spec k) = None" "kst_AccessKeyID (gk_Status k) = []"
      "annotation (gk_Annotations k) AnnotationCOSIAccountID = []" "annotation (gk_Annotations k) keyResolvedImportIDAnnotation = []"
    using assms(1) by (auto simp: deterministicGarageKeyFinalizationIDs_def split: if_splits sum.splits prod.splits)
  have "verified_key env (derived_candidates pr rpc k) i" using verify_trace [OF v] assms(2) by blast
  then show ?thesis using g rpc unfolding owned_key_def by auto
qed

lemma identity_owned:
  assumes "deterministicGarageKeyFinalizationIDs pr env k (Some cluster) tr = (Inr None, t1)"
    "garageKeyFinalizationID pr env k (Some cluster) t = Inr i" "i \<noteq> []"
  shows "owned_key pr env k cluster i"
proof -
  obtain cs where cs: "identity_candidates pr env k (Some cluster) t = Inr cs" and ag: "agree_on [] cs = Inr i"
    and an: "annotation (gk_Annotations k) keyResolvedImportIDAnnotation \<in> {[], i}"
      "annotation (gk_Annotations k) AnnotationCOSIAccountID \<in> {[], i}"
    using assms(2) by (auto simp: garageKeyFinalizationID_def Let_def split: sum.splits if_splits)
  have mem: "i \<in> set cs" "\<forall>c \<in> set cs. c \<in> {[], i}" using agree_on_ok [OF ag] assms(3) by auto
  have status: "kst_AccessKeyID (gk_Status k) \<in> set cs"
    using cs by (auto simp: identity_candidates_def Let_def split: option.splits sum.splits prod.splits if_splits)
  have pinned: "annotation (gk_Annotations k) keyResolvedImportIDAnnotation = i"
    if "ks_ImportKey (gk_Spec k) = None" "kst_AccessKeyID (gk_Status k) = []" "annotation (gk_Annotations k) AnnotationCOSIAccountID = []"
    using assms(1) that an(1)
    by (auto simp: deterministicGarageKeyFinalizationIDs_def split: sum.splits prod.splits if_splits)
  show ?thesis
  proof (cases "ks_ImportKey (gk_Spec k)")
    case None
    show ?thesis
    proof (cases "kst_AccessKeyID (gk_Status k) = i")
      case True
      then show ?thesis using an unfolding owned_key_def by simp
    next
      case False
      then have st: "kst_AccessKeyID (gk_Status k) = []" using status mem(2) by auto
      have ac: "annotation (gk_Annotations k) AnnotationCOSIAccountID = []"
        using cs mem(1) None st assms(3) by (auto simp: identity_candidates_def Let_def split: if_splits)
      obtain rpc where "GetRPCSecret (kpr_Sum256 pr) env t cluster = Inr rpc"
        "i = fst (deriveKeyMaterial (kpr_HMAC pr) rpc (gk_Namespace k) (deterministicKeyName k))"
        using cs mem(1) None st ac assms(3) by (auto simp: identity_candidates_def Let_def split: sum.splits)
      then show ?thesis using None st ac pinned [OF None st ac] unfolding owned_key_def by auto
    qed
  next
    case (Some ik)
    then show ?thesis using cs mem status an assms(3) unfolding owned_key_def identity_candidates_def Let_def
      by (auto split: option.splits sum.splits prod.splits if_splits)
  qed
qed

subsection \<open>Finalization\<close>

text \<open>
  C4: Deleting a GarageKey deletes its own access keys or nothing.  Whatever the services answer, every
  DeleteKey of a finalization names a key the resource owns: it agrees with the status, the pinned import
  identity and the COSI account wherever they are set, and it is the key recorded in the status, the key
  configured or snapshotted for import, or a key of derived identity, in which case Garage returned exactly the
  secret derived from the cluster's RPC secret, or the identity was pinned.  A finalization that succeeds
  leaves no deletion of it failed.
\<close>

theorem finalization_deletes_owned_keys:
  assumes "finalize_key pr env k cluster tr = (r, tr')" "(KeyCall (DeleteKey i), oc) \<in> set (drop (length tr) tr')"
  shows "owned_key pr env k cluster i \<and> (r = None \<longrightarrow> oc \<noteq> Failed)"
proof -
  obtain d t1 where d: "deterministicGarageKeyFinalizationIDs pr env k (Some cluster) tr = (d, t1)" by fastforce
  obtain n1 where n1: "t1 = tr @ n1" "\<forall>c \<in> fst ` set n1. \<exists>i. c = KeyCall (GetKeyInfo i True)"
    using deterministic_trace [OF d] by blast
  have del: "owned_key pr env k cluster i \<and> (r = None \<longrightarrow> oc \<noteq> Failed)"
    if "delete_keys env (finalization_buckets k) ids t1 = (r, tr')" "\<forall>i \<in> set ids. owned_key pr env k cluster i" for ids
  proof -
    from delete_keys_trace [OF that(1)] obtain new where new: "tr' = t1 @ new"
      "\<forall>(c, oc) \<in> set new. (\<exists>i \<in> set ids. c = KeyCall (DeleteKey i) \<and> (r = None \<longrightarrow> oc \<noteq> Failed))
        \<or> (\<exists>i \<in> set ids. \<exists>b \<in> set (finalization_buckets k). c = DenyBucketKey b i \<lparr>kp_Read = True, kp_Write = True, kp_Owner = True\<rparr>)" by blast
    then have "(KeyCall (DeleteKey i), oc) \<in> set new" using assms(2) n1 by force
    then show ?thesis using new(2) that(2) by fastforce
  qed
  have no: "tr' \<noteq> t1" using assms(2) n1 by force
  show ?thesis
  proof (cases d)
    case (Inl e)
    then show ?thesis using assms(1) d no by (simp add: finalize_key_def)
  next
    case (Inr res)
    show ?thesis
    proof (cases res)
      case (Some ids)
      then have "delete_keys env (finalization_buckets k) ids t1 = (r, tr')" using assms(1) d Inr by (simp add: finalize_key_def)
      then show ?thesis using del deterministic_owned d Inr Some by blast
    next
      case None
      then obtain j where j: "garageKeyFinalizationID pr env k (Some cluster) t1 = Inr j" "j \<noteq> []"
        "delete_keys env (finalization_buckets k) [j] t1 = (r, tr')"
        using assms(1) d Inr no by (auto simp: finalize_key_def split: sum.splits if_splits)
      have "owned_key pr env k cluster j" using identity_owned [OF _ j(1,2)] d Inr None by blast
      then show ?thesis using del [OF j(3)] by simp
    qed
  qed
qed

text \<open>A key tracked in the status, with a bucket grant to revoke.\<close>

definition sample_granted :: GarageKey where
  "sample_granted = sample_key\<lparr>gk_Status := (gk_Status sample_key)\<lparr>kst_ManagedBucketGrants := [''b1'']\<rparr>\<rparr>"

lemma sample_key_finalization:
  "finalize_key sample_key_params sample_key_service sample_granted sample_cluster []
     = (None, [(DenyBucketKey ''b1'' ''K1'' \<lparr>kp_Read = True, kp_Write = True, kp_Owner = True\<rparr>, Succeeded),
               (KeyCall (DeleteKey ''K1''), Succeeded)])"
  "finalize_key sample_key_params sample_key_service
       (sample_granted\<lparr>gk_DeletionTimestamp := d, gk_Finalizers := fs\<rparr>) sample_cluster []
     = (None, [(DenyBucketKey ''b1'' ''K1'' \<lparr>kp_Read = True, kp_Write = True, kp_Owner = True\<rparr>, Succeeded),
               (KeyCall (DeleteKey ''K1''), Succeeded)])"
  by (simp_all add: finalize_key_def deterministicGarageKeyFinalizationIDs_def garageKeyFinalizationID_def identity_candidates_def
      finalization_buckets_def sample_granted_def sample_key_def sample_key_service_def sample_cloud_def sample_service_def
      annotation_def gomap_get_def key_call_defs call_defs Let_def)

theorem finalization_deletes_owned_keys_witness:
  "owned_key sample_key_params sample_key_service sample_granted sample_cluster ''K1''"
  using finalization_deletes_owned_keys [OF sample_key_finalization(1), of "''K1''" Succeeded] by simp

end
