(* ===== verification/KeyController.thy ===== *)
theory KeyController
  imports KeyFinalization
begin

text \<open>
  The GarageKey reconciler (Reconcile, reconcileKey and the status updates of
  internal/controller/garagekey_controller.go).  The text of an error, which decides whether it counts as a
  transient loss of connectivity, is a parameter.
\<close>

subsection \<open>Transient errors\<close>

definition isTransientConnectivityError :: "goerror \<Rightarrow> string \<Rightarrow> bool" where
  "isTransientConnectivityError err msg \<longleftrightarrow>
     IsServiceUnavailable err \<or> Contains msg ''no such host'' \<or> Contains msg ''connection refused''
     \<or> Contains msg ''dial tcp'' \<or> Contains msg ''i/o timeout''"

text \<open>The API error an error of the key wraps.\<close>

fun resolve_failure_api :: "resolve_failure \<Rightarrow> goerror" where
  "resolve_failure_api (AliasUnresolved e) = ce_API e"
| "resolve_failure_api _ = None"

fun key_error_api :: "key_error \<Rightarrow> goerror" where
  "key_error_api (TrackedKeyFailed e) = ce_API e"
| "key_error_api (ImportCheckFailed e) = ce_API e"
| "key_error_api (ImportConflictUnverified e) = ce_API e"
| "key_error_api (ImportFailed e) = ce_API e"
| "key_error_api (LegacyCheckFailed e) = ce_API e"
| "key_error_api (DeterministicUnfetchable e) = ce_API e"
| "key_error_api (DeterministicImportFailed e) = ce_API e"
| "key_error_api (UpdateKeyFailed e) = ce_API e"
| "key_error_api (BucketListFailed e) = ce_API e"
| "key_error_api (ResolveBucketFailed b e) = resolve_failure_api e"
| "key_error_api _ = None"

subsection \<open>Status updates\<close>

definition PhaseExpired :: string where "PhaseExpired = ''Expired''"

definition with_key_phase :: "string \<Rightarrow> GarageKey \<Rightarrow> GarageKey" where
  "with_key_phase phase k = k\<lparr>gk_Status := (gk_Status k)\<lparr>kst_Phase := phase\<rparr>\<rparr>"

definition set_key_condition :: "instant \<Rightarrow> string \<Rightarrow> string \<Rightarrow> string \<Rightarrow> GarageKey \<Rightarrow> GarageKey" where
  "set_key_condition now type status reason k =
     k\<lparr>gk_Status := (gk_Status k)\<lparr>kst_Conditions := replace_condition
         \<lparr>cond_Type = type, cond_Status = status, cond_Reason = reason,
          cond_ObservedGeneration = gk_Generation k, cond_LastTransitionTime = now\<rparr>
         (kst_Conditions (gk_Status k))\<rparr>\<rparr>"

definition key_updateStatusWaiting :: "key_env \<Rightarrow> instant \<Rightarrow> GarageKey \<Rightarrow> trace \<Rightarrow> bucket_result \<times> GarageKey \<times> trace" where
  "key_updateStatusWaiting env now k tr =
     (case key_status_update env (set_key_condition now PhaseReady ConditionFalse ''ClusterNotReady'' (with_key_phase PhasePending k)) tr of
        (Some e, k1, t1) \<Rightarrow> (ReconcileError, k1, t1)
      | (None, k1, t1) \<Rightarrow> (RequeueIn RequeueAfterUnhealthy, k1, t1))"

definition key_updateStatus ::
    "key_env \<Rightarrow> instant \<Rightarrow> GarageKey \<Rightarrow> string \<Rightarrow> bool \<Rightarrow> trace \<Rightarrow> bucket_result \<times> GarageKey \<times> trace" where
  "key_updateStatus env now k phase failed tr =
     (let k1 = with_key_phase phase k;
          k2 = (if failed then set_key_condition now PhaseReady ConditionFalse ''ReconcileFailed'' k1
                else k1\<lparr>gk_Status := (gk_Status k1)\<lparr>kst_ObservedGeneration := gk_Generation k\<rparr>\<rparr>)
      in case key_status_update env k2 tr of
           (Some e, k3, t1) \<Rightarrow> (ReconcileError, k3, t1)
         | (None, k3, t1) \<Rightarrow> (if failed then RequeueIn RequeueAfterError else Finished, k3, t1))"

definition bucket_access :: "KeyBucket \<Rightarrow> KeyBucketAccess" where
  "bucket_access b =
     \<lparr>kba_BucketID = kb_ID b, kba_GlobalAlias = (case kb_GlobalAliases b of [] \<Rightarrow> [] | a # _ \<Rightarrow> a),
      kba_LocalAlias = (case kb_LocalAliases b of [] \<Rightarrow> [] | a # _ \<Rightarrow> a), kba_Permissions = kb_Permissions b\<rparr>"

definition observed_key_status :: "time_format \<Rightarrow> instant \<Rightarrow> GarageKey \<Rightarrow> Key \<Rightarrow> GarageKeyStatus" where
  "observed_key_status tf now k g =
     (gk_Status k)\<lparr>
       kst_Phase := (case ks_ExpiresAt (gk_Spec k) of Some t \<Rightarrow> if now > t then PhaseExpired else PhaseReady | None \<Rightarrow> PhaseReady),
       kst_ObservedGeneration := gk_Generation k,
       kst_Permissions := Some \<lparr>kper_CreateBucket = kper_CreateBucket (gky_Permissions g)\<rparr>,
       kst_CreatedAt := (case gky_Created g of
           None \<Rightarrow> kst_CreatedAt (gk_Status k)
         | Some c \<Rightarrow> if c = [] then kst_CreatedAt (gk_Status k)
                    else (case tf_Parse tf c of None \<Rightarrow> kst_CreatedAt (gk_Status k) | Some t \<Rightarrow> Some t)),
       kst_ExpiresAt := (case gky_Expiration g of None \<Rightarrow> None | Some e \<Rightarrow> tf_Parse tf e),
       kst_ClusterWide := (ks_AllBuckets (gk_Spec k) \<noteq> None),
       kst_Buckets := sort_key kba_BucketID (map bucket_access (gky_Buckets g))\<rparr>"

definition key_updateStatusFromGarage ::
    "key_params \<Rightarrow> key_env \<Rightarrow> instant \<Rightarrow> GarageKey \<Rightarrow> trace \<Rightarrow> bucket_result \<times> GarageKey \<times> trace" where
  "key_updateStatusFromGarage pr env now k tr =
     (if kst_AccessKeyID (gk_Status k) = [] then key_updateStatus env now k PhasePending False tr
      else (case call_key env (GetKeyInfo (kst_AccessKeyID (gk_Status k)) False) tr of
         (Inl e, t1) \<Rightarrow>
           if isTransientConnectivityError (ce_API e) (ce_Text e) then key_updateStatusWaiting env now k t1
           else if IsNotFound (ce_API e) then
             (case key_status_update env (k\<lparr>gk_Status := (gk_Status k)\<lparr>kst_AccessKeyID := [], kst_KeyID := []\<rparr>\<rparr>) t1 of
                (Some e, k1, t2) \<Rightarrow> (ReconcileError, k1, t2)
              | (None, k1, t2) \<Rightarrow> (Requeue, k1, t2))
           else key_updateStatus env now k PhaseFailed True t1
       | (Inr g, t1) \<Rightarrow>
           let k1 = set_key_condition now PhaseReady ConditionTrue ''KeyReady''
                      (k\<lparr>gk_Status := observed_key_status (kpr_Time pr) now k g\<rparr>) in
           if gk_Status k1 = gk_Status k then (RequeueIn RequeueAfterDrift, k1, t1)
           else (case key_status_update env k1 t1 of
                   (Some e, k2, t2) \<Rightarrow> (ReconcileError, k2, t2)
                 | (None, k2, t2) \<Rightarrow> (Finished, k2, t2))))"

subsection \<open>The key\<close>

definition with_access_key :: "string \<Rightarrow> GarageKey \<Rightarrow> GarageKey" where
  "with_access_key i k = k\<lparr>gk_Status := (gk_Status k)\<lparr>kst_AccessKeyID := i, kst_KeyID := i\<rparr>\<rparr>"

definition reconcileKey ::
    "key_params \<Rightarrow> key_env \<Rightarrow> GarageKey \<Rightarrow> GarageCluster \<Rightarrow> trace \<Rightarrow> string \<times> key_error option \<times> GarageKey \<times> trace" where
  "reconcileKey pr env k cluster tr =
     (case getOrCreateKey pr env k cluster (display_name k) tr of
        (Inl e, k1, t1) \<Rightarrow> ([], Some e, k1, t1)
      | (Inr (g, secretAccessKey), k1, t1) \<Rightarrow>
          let k2 = with_access_key (gky_AccessKeyID g) k1;
              permissions = (\<lambda>k t. case reconcileManagedBucketPermissions env k g t of (e, k', t') \<Rightarrow> (secretAccessKey, e, k', t')) in
          if kst_AccessKeyID (gk_Status k2) \<noteq> kst_AccessKeyID (gk_Status k) then
            (case key_status_update env k2 t1 of
               (Some e, k3, t2) \<Rightarrow> (secretAccessKey, Some (KeyStatusFailed e), k3, t2)
             | (None, k3, t2) \<Rightarrow> permissions k3 t2)
          else permissions k2 t1)"

subsection \<open>The handler\<close>

definition garageKeyFinalizer :: string where "garageKeyFinalizer = ''garagekey.garage.rajsingh.info/finalizer''"

definition key_live :: "GarageKey \<Rightarrow> bool" where
  "key_live k = (case gk_DeletionTimestamp k of None \<Rightarrow> True | Some t \<Rightarrow> time_IsZero t)"

definition key_without_finalizer :: "GarageKey \<Rightarrow> GarageKey" where
  "key_without_finalizer k = k\<lparr>gk_Finalizers := filter (\<lambda>f. f \<noteq> garageKeyFinalizer) (gk_Finalizers k)\<rparr>"

definition key_with_finalizer :: "GarageKey \<Rightarrow> GarageKey" where
  "key_with_finalizer k = k\<lparr>gk_Finalizers := gk_Finalizers k @ [garageKeyFinalizer]\<rparr>"

definition key_finalization_retries :: "GarageKey \<Rightarrow> int" where
  "key_finalization_retries k =
     (case map_of (gk_Annotations k) FinalizationRetryAnnotation of
        None \<Rightarrow> 0 | Some v \<Rightarrow> (case Atoi v of None \<Rightarrow> 0 | Some n \<Rightarrow> n))"

definition key_increment_retries :: "GarageKey \<Rightarrow> GarageKey" where
  "key_increment_retries k = key_annotate FinalizationRetryAnnotation (itoa (wrap64 (key_finalization_retries k + 1))) k"

definition key_shadow :: "(string \<Rightarrow> string) \<Rightarrow> GarageKey \<Rightarrow> bool" where
  "key_shadow sum256 k =
     (if annotation (gk_Labels k) LabelCOSIManaged \<noteq> ''true'' then False
      else let owner = annotation (gk_Annotations k) AnnotationCOSIReservationOwner in
        if owner = [] \<or> gk_Name k \<noteq> COSIShadowResourceName sum256 owner then False
        else annotation (gk_Annotations k) AnnotationCOSIProvisioningState
               \<in> {COSIProvisioningStatePending, COSIProvisioningStateBound})"

definition key_cluster_namespace :: "GarageKey \<Rightarrow> string" where
  "key_cluster_namespace k =
     (let ref = ks_ClusterRef (gk_Spec k) in if ref_Namespace ref = [] then gk_Namespace k else ref_Namespace ref)"

definition key_cluster_name :: "GarageKey \<Rightarrow> NamespacedName" where
  "key_cluster_name k = \<lparr>nn_Namespace = key_cluster_namespace k, nn_Name = ref_Name (ks_ClusterRef (gk_Spec k))\<rparr>"

record key_controller =
  kc_Params :: key_params
  kc_Secret :: secret_params
  kc_Admission :: admission_env
  kc_ErrorText :: "key_error \<Rightarrow> string"

definition key_live_checks ::
    "key_controller \<Rightarrow> key_env \<Rightarrow> instant \<Rightarrow> GarageKey \<Rightarrow> trace \<Rightarrow> (bucket_result \<times> GarageKey \<times> trace) option" where
  "key_live_checks kc env now k tr =
     (if \<not> key_live k then None
      else if ValidateGarageKeySpec (kc_Admission kc) k \<noteq> None then Some (key_updateStatus env now k PhaseFailed True tr)
      else if annotation (gk_Annotations k) AnnotationCOSIProvisioningState = COSIProvisioningStatePending then
        (if garageKeyFinalizer \<in> set (gk_Finalizers k) then Some (RequeueIn RequeueAfterShort, k, tr)
         else (case update_key env (key_with_finalizer k) tr of
                 (Some e, k1, t1) \<Rightarrow> Some (ReconcileError, k1, t1)
               | (None, k1, t1) \<Rightarrow> Some (RequeueIn RequeueAfterShort, k1, t1)))
      else if CheckReferenceGrant (be_ListGrants (kv_Admin env) tr) garageKeyKind (gk_Namespace k) ''GarageCluster''
                (key_cluster_namespace k) (ref_Name (ks_ClusterRef (gk_Spec k))) \<noteq> None
      then Some (key_updateStatus env now k PhaseFailed True tr)
      else None)"

definition key_finalize_stage ::
    "key_controller \<Rightarrow> key_env \<Rightarrow> instant \<Rightarrow> GarageKey \<Rightarrow> GarageCluster \<Rightarrow> trace \<Rightarrow> bucket_result \<times> GarageKey \<times> trace" where
  "key_finalize_stage kc env now k cluster tr =
     (if garageKeyFinalizer \<notin> set (gk_Finalizers k) then (Finished, k, tr)
      else (case finalize_key (kc_Params kc) env k cluster tr of
         (Some e, t1) \<Rightarrow>
           (case patch_key env (key_increment_retries k) t1 of
              (r, k1, t2) \<Rightarrow>
                if r = Some KubeNotFound then (Finished, k1, t2)
                else (case key_updateStatus env now k1 PhaseDeleting True t2 of
                        (_, k2, t3) \<Rightarrow> (RequeueIn RequeueAfterError, k2, t3)))
       | (None, t1) \<Rightarrow>
           (case update_key env (key_without_finalizer k) t1 of
              (Some e, k1, t2) \<Rightarrow> (ReconcileError, k1, t2)
            | (None, k1, t2) \<Rightarrow> (Finished, k1, t2))))"

text \<open>Credentials are published even when permissions failed, as long as the key is known.\<close>

definition publish_stage ::
    "key_controller \<Rightarrow> key_env \<Rightarrow> GarageKey \<Rightarrow> GarageCluster \<Rightarrow> string \<Rightarrow> trace \<Rightarrow> secret_error option \<times> GarageKey \<times> trace" where
  "publish_stage kc env k cluster secretAccessKey tr =
     (if kst_AccessKeyID (gk_Status k) = [] then (None, k, tr)
      else if isCOSIManagedShadowKey k then cleanupCOSIManagedShadowCredentials env k tr
      else reconcileSecret (kc_Secret kc) env k cluster secretAccessKey tr)"

definition key_remote_stage ::
    "key_controller \<Rightarrow> key_env \<Rightarrow> instant \<Rightarrow> GarageKey \<Rightarrow> GarageCluster \<Rightarrow> trace \<Rightarrow> bucket_result \<times> GarageKey \<times> trace" where
  "key_remote_stage kc env now k cluster tr =
     (if garageKeyFinalizer \<notin> set (gk_Finalizers k) then
        (case update_key env (key_with_finalizer k) tr of
           (Some e, k1, t1) \<Rightarrow> (ReconcileError, k1, t1)
         | (None, k1, t1) \<Rightarrow> (Requeue, k1, t1))
      else (case reconcileKey (kc_Params kc) env k cluster tr of
        (secretAccessKey, keyErr, k1, t1) \<Rightarrow>
          if (case keyErr of None \<Rightarrow> False | Some e \<Rightarrow> isTransientConnectivityError (key_error_api e) (kc_ErrorText kc e))
          then key_updateStatusWaiting env now k1 t1
          else (case publish_stage kc env k1 cluster secretAccessKey t1 of
             (Some e, k2, t2) \<Rightarrow> key_updateStatus env now k2 PhaseFailed True t2
           | (None, k2, t2) \<Rightarrow>
               if keyErr \<noteq> None then key_updateStatus env now k2 PhaseFailed True t2
               else key_updateStatusFromGarage (kc_Params kc) env now k2 t2)))"

definition key_cluster_stage ::
    "key_controller \<Rightarrow> key_env \<Rightarrow> instant \<Rightarrow> GarageKey \<Rightarrow> GarageCluster \<Rightarrow> trace \<Rightarrow> bucket_result \<times> GarageKey \<times> trace" where
  "key_cluster_stage kc env now k cluster tr =
     (if key_live k \<and> (gc_Deleting cluster \<or> cst_Phase (gc_Status cluster) = PhasePending \<or> cst_Phase (gc_Status cluster) = PhaseFailed)
      then key_updateStatusWaiting env now k tr
      else if \<not> be_Client (kv_Admin env) tr cluster (\<not> key_live k) then key_updateStatus env now k PhaseFailed True tr
      else if \<not> key_live k then key_finalize_stage kc env now k cluster tr
      else key_remote_stage kc env now k cluster tr)"

definition key_reconcile_object ::
    "key_controller \<Rightarrow> key_env \<Rightarrow> instant \<Rightarrow> GarageKey \<Rightarrow> trace \<Rightarrow> bucket_result \<times> GarageKey \<times> trace" where
  "key_reconcile_object kc env now k tr =
     (case key_live_checks kc env now k tr of
        Some r \<Rightarrow> r
      | None \<Rightarrow>
     (case be_GetCluster (kv_Admin env) tr (key_cluster_name k) of
        Inl e \<Rightarrow>
          if \<not> key_live k \<and> garageKeyFinalizer \<in> set (gk_Finalizers k) \<and> e = KubeNotFound then
            (if key_shadow (kpr_Sum256 (kc_Params kc)) k then (RequeueIn RequeueAfterShort, k, tr)
             else (case update_key env (key_without_finalizer k) tr of
                     (Some e, k1, t1) \<Rightarrow> (ReconcileError, k1, t1)
                   | (None, k1, t1) \<Rightarrow> (Finished, k1, t1)))
          else if e = KubeNotFound then key_updateStatusWaiting env now k tr
          else key_updateStatus env now k PhaseFailed True tr
      | Inr cluster \<Rightarrow> key_cluster_stage kc env now k cluster tr))"

definition key_Reconcile :: "key_controller \<Rightarrow> key_env \<Rightarrow> instant \<Rightarrow> NamespacedName \<Rightarrow> trace \<Rightarrow> bucket_result \<times> trace" where
  "key_Reconcile kc env now name tr =
     (case call_key_object env (KeyGet name) tr of
        (Inl e, t1) \<Rightarrow> (if e = KubeNotFound then Finished else ReconcileError, t1)
      | (Inr k, t1) \<Rightarrow> (case key_reconcile_object kc env now k t1 of (r, _, t2) \<Rightarrow> (r, t2)))"

subsection \<open>The remote steps never replace the object\<close>

named_theorems key_steps \<open>steps that do not replace the GarageKey object\<close>

definition no_key_update :: "bucket_call \<Rightarrow> bool" where
  "no_key_update c \<longleftrightarrow> (\<forall>s. c \<noteq> KeyCall (KeyUpdate s))"

lemma no_key_update_simps [simp]:
  "no_key_update (GetBucketInfo q)" "no_key_update (AllowBucketKey i a p)" "no_key_update (DenyBucketKey i a p)"
  "no_key_update (KeyCall c) \<longleftrightarrow> (\<forall>s. c \<noteq> KeyUpdate s)"
  by (auto simp: no_key_update_def)

lemma key_call_steps [key_steps]:
  "call_key env (GetKeyInfo i sh) tr = (r, t1) \<Longrightarrow> adds no_key_update tr t1"
  "call_key env (ImportKey i x n) tr = (r, t1) \<Longrightarrow> adds no_key_update tr t1"
  "call_key env (UpdateKey i u) tr = (r, t1) \<Longrightarrow> adds no_key_update tr t1"
  "call_key_status env (SecretCreate sec) tr = (e, t1) \<Longrightarrow> adds no_key_update tr t1"
  "call_key_status env (SecretUpdate sec) tr = (e, t1) \<Longrightarrow> adds no_key_update tr t1"
  "call_key_status env (SecretDelete nm uid) tr = (e, t1) \<Longrightarrow> adds no_key_update tr t1"
  "call_key_status env (KeyStatusUpdate k) tr = (e, t1) \<Longrightarrow> adds no_key_update tr t1"
  "call_key_object env (KeyGet nm) tr = (o', t1) \<Longrightarrow> adds no_key_update tr t1"
  "patch_key env k tr = (e, k1, t1) \<Longrightarrow> adds no_key_update tr t1"
  by (auto simp: key_call_defs patch_key_def split: sum.splits)

lemma update_needed_steps [key_steps]: "updateKeyIfNeeded pr env k g tr = (e, t1) \<Longrightarrow> adds no_key_update tr t1"
  by (auto simp: updateKeyIfNeeded_def split: prod.splits if_splits sum.splits dest!: key_steps)

lemma material_steps [key_steps]: "import_material pr env k ik tr = (m, t1) \<Longrightarrow> adds no_key_update tr t1"
  by (auto simp: import_material_def ensureImportKeySnapshot_def
      split: prod.splits if_splits sum.splits option.splits dest!: key_steps)

lemma import_steps [key_steps]:
  "pin_import env k i tr = (e, k1, t1) \<Longrightarrow> adds no_key_update tr t1"
  "run_import env i x n tr = (r, t1) \<Longrightarrow> adds no_key_update tr t1"
  by (auto simp: pin_import_def run_import_def split: prod.splits if_splits sum.splits option.splits dest!: key_steps intro: adds_trans)

lemma importKey_steps [key_steps]: "importKey pr env k ik n tr = (r, k1, t1) \<Longrightarrow> adds no_key_update tr t1"
  by (auto simp: importKey_def Let_def split: prod.splits if_splits sum.splits option.splits dest!: key_steps) (meson adds_trans)+

lemma derived_steps [key_steps]:
  "probe_legacy pr env rpc k n tr = (r1, t1) \<Longrightarrow> adds no_key_update tr t1"
  "replace_tombstone env k tr = (e, k1, t1) \<Longrightarrow> adds no_key_update tr t1"
  by (auto simp: probe_legacy_def replace_tombstone_def split: prod.splits if_splits sum.splits option.splits
      dest!: key_steps intro: adds_trans)

lemma import_derived_steps [key_steps]: "import_derived pr env m k n tr = (r, k1, t1) \<Longrightarrow> adds no_key_update tr t1"
  by (auto simp: import_derived_def split: prod.splits if_splits sum.splits option.splits dest!: key_steps) (meson adds_trans)+

lemma create_steps [key_steps]: "createOrAdoptDeterministic pr env k cluster n tr = (r, k1, t1) \<Longrightarrow> adds no_key_update tr t1"
  by (auto simp: createOrAdoptDeterministic_def split: prod.splits if_splits sum.splits option.splits dest!: key_steps intro: adds_trans)

lemma getOrCreateKey_steps [key_steps]: "getOrCreateKey pr env k cluster n tr = (r, k1, t1) \<Longrightarrow> adds no_key_update tr t1"
  by (auto simp: getOrCreateKey_def Let_def split: prod.splits if_splits sum.splits option.splits dest!: key_steps intro: adds_trans)

lemma key_retry_adds:
  assumes P: "\<And>k. P (KeyCall (KeyStatusUpdate k))" "\<And>n. P (KeyCall (KeyGet n))"
  shows "adds P tr (snd (snd (key_status_retry env u f n k tr)))"
proof (induction n arbitrary: k tr)
  case 0
  then show ?case by simp
next
  case (Suc n)
  obtain e t1 where e: "call_key_status env (KeyStatusUpdate k) tr = (e, t1)" by fastforce
  obtain o' t2 where o: "call_key_object env (KeyGet (key_name k)) t1 = (o', t2)" by fastforce
  have a: "adds P tr t1" using e P by (auto simp: key_call_defs)
  moreover have "adds P t1 t2" using o P by (auto simp: key_call_defs)
  ultimately have "adds P tr t2" by (rule adds_trans)
  then show ?case using e o a Suc [of t1] Suc [of t2] by (auto split: option.splits sum.splits intro: adds_trans)
qed

lemma key_status_update_adds:
  assumes "key_status_update env k tr = (e, k1, t1)" "\<And>k. P (KeyCall (KeyStatusUpdate k))" "\<And>n. P (KeyCall (KeyGet n))"
  shows "adds P tr t1"
  using key_retry_adds [of P tr env "gk_UID k" "\<lambda>fresh. fresh\<lparr>gk_Status := gk_Status k\<rparr>" StatusUpdateMaxRetries k] assms
  by (simp add: key_status_update_def)

lemma key_status_steps [key_steps]: "key_status_update env k tr = (e, k1, t1) \<Longrightarrow> adds no_key_update tr t1"
  by (erule key_status_update_adds) simp_all

lemma status_steps [key_steps]:
  "key_updateStatusWaiting env now k tr = (r, k1, t1) \<Longrightarrow> adds no_key_update tr t1"
  "key_updateStatus env now k phase failed tr = (r, k1, t1) \<Longrightarrow> adds no_key_update tr t1"
  by (auto simp: key_updateStatusWaiting_def key_updateStatus_def Let_def split: prod.splits option.splits dest!: key_steps)

lemma from_garage_steps [key_steps]: "key_updateStatusFromGarage pr env now k tr = (r, k1, t1) \<Longrightarrow> adds no_key_update tr t1"
  by (auto simp: key_updateStatusFromGarage_def Let_def split: prod.splits if_splits sum.splits option.splits
      dest!: key_steps intro: adds_trans)

lemma grants_steps [key_steps]:
  "collect_key_declared env k ps acc tr = (d, t1) \<Longrightarrow> adds no_key_update tr t1"
  "record_bucket_grants env ids w k tr = (e, k1, t1) \<Longrightarrow> adds no_key_update tr t1"
  by (drule collect_key_trace, force simp: lookup_only_def intro!: addsI,
      auto simp: record_bucket_grants_def split: if_splits prod.splits option.splits dest!: key_steps)

lemma apply_steps [key_steps]: "apply_buckets env a cur des is n tr = (m, t1) \<Longrightarrow> adds no_key_update tr t1"
proof (induction "is" arbitrary: n tr)
  case (Cons i "is")
  obtain q t2 where q: "reconcileExactBucketKeyPermissions env i a (gomap_get no_perms cur i) (gomap_get no_perms des i) tr = (q, t2)" by force
  have "adds no_key_update tr t2" using exact_permissions [OF q] by (auto intro!: addsI simp: changes_key_def)
  moreover have "adds no_key_update t2 t1" using Cons q by (auto split: option.splits)
  ultimately show ?case by (rule adds_trans)
qed simp

lemma permissions_steps [key_steps]: "reconcileManagedBucketPermissions env k g tr = (e, k1, t1) \<Longrightarrow> adds no_key_update tr t1"
  unfolding reconcileManagedBucketPermissions_def Let_def
  by (auto split: sum.splits prod.splits option.splits if_splits dest!: key_steps) (meson adds_trans)+

lemma reconcileKey_steps [key_steps]: "reconcileKey pr env k cluster tr = (sk, e, k1, t1) \<Longrightarrow> adds no_key_update tr t1"
  by (auto simp: reconcileKey_def Let_def split: sum.splits prod.splits option.splits if_splits dest!: key_steps) (meson adds_trans)+

lemma secret_steps [key_steps]:
  "markPreviousGeneratedSecret env k p tr = (e, t1) \<Longrightarrow> adds no_key_update tr t1"
  "write_secret env k cfg d sk tr = (e, t1) \<Longrightarrow> adds no_key_update tr t1"
  "cleanupStaleGeneratedSecrets env k current tr = (e, t1) \<Longrightarrow> adds no_key_update tr t1"
  by (auto simp: markPreviousGeneratedSecret_def write_secret_def Let_def split: sum.splits prod.splits option.splits if_splits
      dest!: key_call_steps) (drule cleanup_stale_trace, force simp: stale_deletion_def intro!: addsI)

lemma finish_steps [key_steps]: "finishGarageKeySecretHandoff env k p tr = (e, k1, t1) \<Longrightarrow> adds no_key_update tr t1"
  by (auto simp: finishGarageKeySecretHandoff_def Let_def split: sum.splits prod.splits option.splits if_splits
      dest!: key_steps intro: adds_trans)

lemma reconcileSecret_steps [key_steps]: "reconcileSecret sp env k cluster sk tr = (e, k1, t1) \<Longrightarrow> adds no_key_update tr t1"
  unfolding reconcileSecret_def Let_def
  by (auto split: sum.splits prod.splits option.splits if_splits dest!: key_steps) (meson adds_trans)+

lemma shadow_steps [key_steps]: "delete_shadow_secrets env k ns tr = (e, t1) \<Longrightarrow> adds no_key_update tr t1"
proof (induction ns arbitrary: tr)
  case (Cons n ns)
  then show ?case by (auto split: sum.splits if_splits prod.splits option.splits dest!: key_call_steps intro: adds_trans)
qed simp

lemma publish_steps [key_steps]: "publish_stage kc env k cluster sk tr = (e, k1, t1) \<Longrightarrow> adds no_key_update tr t1"
  by (auto simp: publish_stage_def cleanupCOSIManagedShadowCredentials_def split: if_splits prod.splits option.splits
      dest!: key_steps intro: adds_trans)

lemma finalize_steps [key_steps]:
  assumes "finalize_key pr env k cluster tr = (e, t1)"
  shows "adds no_key_update tr t1"
proof -
  obtain d t0 where d: "deterministicGarageKeyFinalizationIDs pr env k (Some cluster) tr = (d, t0)" by fastforce
  have a: "adds no_key_update tr t0" using deterministic_trace [OF d] by (force intro!: addsI)
  have "delete_keys env bs ids t0 = (e, t1) \<Longrightarrow> adds no_key_update t0 t1" for bs ids
    by (drule delete_keys_trace) (force intro!: addsI)
  then have "t1 = t0 \<or> adds no_key_update t0 t1"
    using assms d by (auto simp: finalize_key_def simp del: delete_keys.simps split: sum.splits option.splits if_splits)
  then show ?thesis using a adds_trans by blast
qed

subsection \<open>Releasing the finalizer\<close>

definition keeps_key_finalizer :: "bucket_call \<Rightarrow> bool" where
  "keeps_key_finalizer c \<longleftrightarrow> (\<forall>s. c = KeyCall (KeyUpdate s) \<longrightarrow> garageKeyFinalizer \<in> set (gk_Finalizers s))"

lemma no_key_update_keeps: "adds no_key_update tr t1 \<Longrightarrow> adds keeps_key_finalizer tr t1"
  by (erule adds_mono) (simp add: no_key_update_def keeps_key_finalizer_def)

lemma update_key_keeps:
  "update_key env s tr = (e, k1, t1) \<Longrightarrow> garageKeyFinalizer \<in> set (gk_Finalizers s) \<Longrightarrow> adds keeps_key_finalizer tr t1"
  by (auto simp: update_key_def key_call_defs keeps_key_finalizer_def split: sum.splits)

lemma remote_keeps: "key_remote_stage kc env now k cluster tr = (r, k1, t1) \<Longrightarrow> adds keeps_key_finalizer tr t1"
proof -
  assume a: "key_remote_stage kc env now k cluster tr = (r, k1, t1)"
  show ?thesis
  proof (cases "garageKeyFinalizer \<in> set (gk_Finalizers k)")
    case False
    then show ?thesis using a by (auto simp: key_remote_stage_def key_with_finalizer_def split: prod.splits option.splits
        dest!: update_key_keeps)
  next
    case True
    then have "adds no_key_update tr t1"
      using a by (auto simp: key_remote_stage_def split: prod.splits option.splits if_splits dest!: key_steps) (meson adds_trans)+
    then show ?thesis by (rule no_key_update_keeps)
  qed
qed

lemma checks_keep: "key_live_checks kc env now k tr = Some (r, k1, t1) \<Longrightarrow> adds keeps_key_finalizer tr t1"
  by (auto simp: key_live_checks_def key_with_finalizer_def split: if_splits prod.splits option.splits
      dest!: update_key_keeps key_steps intro: no_key_update_keeps)

lemma key_finalize_stage_keeps:
  assumes "key_finalize_stage kc env now k cluster tr = (r, k1, t1)"
  shows "adds keeps_key_finalizer tr t1 \<or> (\<exists>t. finalize_key (kc_Params kc) env k cluster tr = (None, t))"
proof (cases "garageKeyFinalizer \<in> set (gk_Finalizers k)")
  case False
  then show ?thesis using assms by (simp add: key_finalize_stage_def)
next
  case True
  obtain e t where f: "finalize_key (kc_Params kc) env k cluster tr = (e, t)" by fastforce
  show ?thesis
  proof (cases e)
    case None
    then show ?thesis using f by blast
  next
    case (Some e')
    then have "adds no_key_update tr t1"
      using assms True f by (auto simp: key_finalize_stage_def split: prod.splits if_splits dest!: key_steps) (meson adds_trans)+
    then show ?thesis using no_key_update_keeps by blast
  qed
qed


subsection \<open>The guards of a remote call\<close>

fun key_kube_call :: "bucket_call \<Rightarrow> bool" where
  "key_kube_call (KeyCall (KeyStatusUpdate k)) = True" | "key_kube_call (KeyCall (KeyUpdate k)) = True"
| "key_kube_call (KeyCall (KeyPatch k)) = True" | "key_kube_call (KeyCall (KeyGet n)) = True"
| "key_kube_call (KeyCall (SecretCreate s)) = True" | "key_kube_call (KeyCall (SecretUpdate s)) = True"
| "key_kube_call (KeyCall (SecretDelete n u)) = True" | "key_kube_call c = kube_call c"

definition key_remote_allowed :: "key_controller \<Rightarrow> key_env \<Rightarrow> GarageKey \<Rightarrow> trace \<Rightarrow> bool" where
  "key_remote_allowed kc env k tr \<longleftrightarrow>
     (\<exists>cluster. be_GetCluster (kv_Admin env) tr (key_cluster_name k) = Inr cluster \<and> be_Client (kv_Admin env) tr cluster (\<not> key_live k)
        \<and> (key_live k \<longrightarrow> \<not> gc_Deleting cluster \<and> cst_Phase (gc_Status cluster) \<notin> {PhasePending, PhaseFailed}))
     \<and> garageKeyFinalizer \<in> set (gk_Finalizers k)
     \<and> (key_live k \<longrightarrow> ValidateGarageKeySpec (kc_Admission kc) k = None
          \<and> annotation (gk_Annotations k) AnnotationCOSIProvisioningState \<noteq> COSIProvisioningStatePending
          \<and> CheckReferenceGrant (be_ListGrants (kv_Admin env) tr) garageKeyKind (gk_Namespace k) ''GarageCluster''
              (key_cluster_namespace k) (ref_Name (ks_ClusterRef (gk_Spec k))) = None)"

lemma status_kube:
  "key_updateStatusWaiting env now k tr = (r, k1, t1) \<Longrightarrow> adds key_kube_call tr t1"
  "key_updateStatus env now k phase failed tr = (r, k1, t1) \<Longrightarrow> adds key_kube_call tr t1"
proof -
  have u: "key_status_update env x t = (e, k1, t1) \<Longrightarrow> adds key_kube_call t t1" for x t e k1 t1
    by (erule key_status_update_adds) simp_all
  show "key_updateStatusWaiting env now k tr = (r, k1, t1) \<Longrightarrow> adds key_kube_call tr t1"
    "key_updateStatus env now k phase failed tr = (r, k1, t1) \<Longrightarrow> adds key_kube_call tr t1"
    by (auto simp: key_updateStatusWaiting_def key_updateStatus_def Let_def split: prod.splits option.splits dest!: u)
qed

lemma update_key_kube: "update_key env k tr = (e, k1, t1) \<Longrightarrow> adds key_kube_call tr t1"
  by (auto simp: update_key_def key_call_defs split: sum.splits)

text \<open>
  C40: The operator manages a key in Garage only for an authorized, well-formed resource of a usable
  cluster.  If a reconcile of a GarageKey makes any call on the Garage Admin API, then its cluster exists
  and has an Admin API client and the finalizer was already stored; and unless the resource is being
  deleted, its spec passed the admission rules, it is not a pending COSI reservation, a reference into
  another namespace is granted, and the cluster has started, has not failed and is not being deleted.
\<close>

theorem key_remote_calls_guarded:
  assumes "key_reconcile_object kc env now k tr = (r, k', tr')"
    and "(c, oc) \<in> set (drop (length tr) tr')" "\<not> key_kube_call c"
  shows "key_remote_allowed kc env k tr"
proof -
  have no: "\<not> adds key_kube_call tr tr'" using assms(2,3) by (auto simp: adds_drop)
  have st: "key_updateStatus env now k PhaseFailed True tr \<noteq> (r, k', tr')" "key_updateStatusWaiting env now k tr \<noteq> (r, k', tr')"
    using no status_kube by blast+
  have up: "update_key env x tr \<noteq> (e, k', tr')" for x e using no update_key_kube by blast
  have tr: "tr' \<noteq> tr" using no by auto
  have lc: "key_live_checks kc env now k tr = None"
    using assms(1) st up tr by (cases "key_live_checks kc env now k tr")
      (auto simp: key_reconcile_object_def key_live_checks_def split: if_splits prod.splits option.splits)
  obtain cluster where cl: "be_GetCluster (kv_Admin env) tr (key_cluster_name k) = Inr cluster"
    using assms(1) lc st up tr by (cases "be_GetCluster (kv_Admin env) tr (key_cluster_name k)")
      (auto simp: key_reconcile_object_def split: if_splits prod.splits option.splits)
  then have cs: "key_cluster_stage kc env now k cluster tr = (r, k', tr')" using assms(1) lc by (simp add: key_reconcile_object_def)
  have "garageKeyFinalizer \<in> set (gk_Finalizers k) \<and> be_Client (kv_Admin env) tr cluster (\<not> key_live k)
      \<and> (key_live k \<longrightarrow> \<not> gc_Deleting cluster \<and> cst_Phase (gc_Status cluster) \<notin> {PhasePending, PhaseFailed})"
    using cs st up tr by (auto simp: key_cluster_stage_def key_finalize_stage_def key_remote_stage_def
        split: if_splits prod.splits option.splits)
  moreover have "key_live k \<longrightarrow> ValidateGarageKeySpec (kc_Admission kc) k = None
          \<and> annotation (gk_Annotations k) AnnotationCOSIProvisioningState \<noteq> COSIProvisioningStatePending
          \<and> CheckReferenceGrant (be_ListGrants (kv_Admin env) tr) garageKeyKind (gk_Namespace k) ''GarageCluster''
              (key_cluster_namespace k) (ref_Name (ks_ClusterRef (gk_Spec k))) = None"
    using lc by (auto simp: key_live_checks_def split: if_splits prod.splits option.splits)
  ultimately show ?thesis using cl unfolding key_remote_allowed_def by blast
qed

subsection \<open>A small instance\<close>

definition sample_deleting_key :: GarageKey where
  "sample_deleting_key = sample_granted\<lparr>gk_DeletionTimestamp := Some 5, gk_Finalizers := [garageKeyFinalizer]\<rparr>"

definition sample_key_controller :: key_controller where
  "sample_key_controller = \<lparr>kc_Params = sample_key_params, kc_Secret = sample_secret_params,
     kc_Admission = \<lparr>ad_Kube = sample_env, ad_Validators = sample_validators, ad_ParseIP = (\<lambda>s. False), ad_Sum256 = (\<lambda>s. ''00'')\<rparr>,
     kc_ErrorText = (\<lambda>e. [])\<rparr>"

lemma sample_key_deletion:
  "key_reconcile_object sample_key_controller sample_key_service 10 sample_deleting_key []
     = (Finished, key_without_finalizer sample_deleting_key,
        [(DenyBucketKey ''b1'' ''K1'' \<lparr>kp_Read = True, kp_Write = True, kp_Owner = True\<rparr>, Succeeded),
         (KeyCall (DeleteKey ''K1''), Succeeded), (KeyCall (KeyUpdate (key_without_finalizer sample_deleting_key)), Succeeded)])"
proof -
  have g: "be_GetCluster (kv_Admin sample_key_service) [] (key_cluster_name sample_deleting_key) = Inr sample_cluster"
    "be_Client (kv_Admin sample_key_service) [] sample_cluster True" by code_simp+
  show ?thesis
    using g
    by (simp add: key_reconcile_object_def key_live_checks_def key_cluster_stage_def key_finalize_stage_def key_live_def
        time_IsZero_def sample_key_controller_def update_key_def key_call_defs sample_deleting_key_def sample_key_finalization(2) key_without_finalizer_def)
      (simp add: sample_key_service_def)
qed


theorem key_remote_calls_guarded_witness: "key_remote_allowed sample_key_controller sample_key_service sample_deleting_key []"
  using key_remote_calls_guarded [OF sample_key_deletion, of "KeyCall (DeleteKey ''K1'')" Succeeded] by simp

end
