(* ===== verification/Spec2Isabelle.thy ===== *)
theory Spec2Isabelle
  imports FactorMachine DrainFinalization LayoutBarrier KeyController
begin

text \<open>
  Verification development of the Garage Kubernetes operator.

  \<^bold>\<open>The program.\<close> The operator reconciles custom resources (GarageCluster, GarageNode, GarageBucket,
  GarageKey, GarageReferenceGrant) with Garage clusters, which it controls through their Admin API, and with
  the Kubernetes objects that run them.  Its core logic is about not losing data and not touching what it does
  not own: a storage role may leave a Garage layout only through a proved drain; only one actor may stage a
  layout change at a time; a change of the replication factor must never let members with different layouts
  run together; a bucket or an access key is created, changed and deleted only when its identity is proved.

  \<^bold>\<open>Theories and sources\<close> (paths under src/).
  \<^item> Prelude: Go strings, strconv, counters, instants, errors, Go maps as association lists.
  \<^item> StorageContract (internal/storagecontract/contract.go) and FactorMigration
    (internal/factormigration/contract.go): the two contract packages, whole.
  \<^item> GarageApi (internal/garage/client.go): Admin API data, error classification, JSON forms.
  \<^item> ClusterModel (api/v1beta2/garagecluster_types.go, garagecluster_helpers.go, api/v1beta1/garagenode_*.go,
    internal/controller/helpers.go): the cluster and node objects, and the traversal of clusterRef chains to the owner
    of a layout.
  \<^item> LayoutStaging, LayoutCoordinator, LayoutAcquire (internal/controller/layout_mutation_coordinator.go):
    Stage-then-Apply on Garage's global staging area; the coordinator's lock and its drain and rollout markers, as
    atomic steps of several workers; and the acquisition paths that read the durable status.
  \<^item> LayoutBarrier (internal/controller/garagecluster_layout_barrier.go, node_local_pool_identity.go): the barrier in front of
    the layout changes the GarageCluster controller starts by itself.
  \<^item> DrainProof, ResyncObservation, ResyncProgress, DrainStore, DrainPeers, DrainTransaction, DrainFinalization
    (internal/controller/block_resync_barrier.go): the durable proof of a drain and its removal intent; the observation
    of a cluster; one round of the proof; its compare-and-swap storage in the status; the gates on owner, health, Pods
    and lost sources; the handlers that record an intent, check it before Apply and complete it; and what it then
    authorizes.
  \<^item> Workload, FactorMachine (internal/controller/garagecluster_factor_migration.go, garage_config_resource.go): the
    edits of StatefulSets and the phase machine of a replication-factor migration with its failure paths.
  \<^item> BucketModel, BucketIdentity, BucketPermissions, BucketAliases, BucketLifecycle, BucketAdmission,
    BucketController (internal/controller/garagebucket_controller.go, garagebucket_lifecycle.go,
    api/v1beta1/garagebucket_webhook.go, validation_helpers.go, referencegrant_check.go, reservation_identity.go): the
    whole GarageBucket reconciler and its admission.
  \<^item> KeyModel, KeyIdentity, KeyPermissions, KeyAdmission, KeySecret, KeyFinalization, KeyController
    (internal/controller/garagekey_controller.go, api/v1beta1/garagekey_webhook.go and what they use of helpers.go and
    internal/garageconfig): the whole GarageKey reconciler and its admission.
  \<^item> This theory: the property that spans the drain's gate and the finalizer it authorizes.

  \<^bold>\<open>How they interact.\<close> A drain handler (DrainTransaction) acquires the layout (LayoutAcquire on the coordinator), records
  its intent with a compare-and-swap on the status (DrainStore on DrainProof), stages and applies (LayoutStaging), and runs
  rounds: it observes the cluster (ResyncObservation, DrainPeers) and evaluates the round (ResyncProgress) until the terminal
  contract (StorageContract) holds, which the finalizers check again (DrainFinalization).  The migration machine edits workloads
  and then mutates the layout.  The bucket and the key controller share the permissions between a bucket and a key: each
  computes the union of both resources' declarations.

  \<^bold>\<open>State and environments.\<close> Structures are records with the source's fields (prefixed), enumerations are datatypes or the
  source's strings, pointers are options, and every early return is a branch.  Handlers pass the in-memory object and return it.
  The Garage service and the Kubernetes API are arguments.  In the drain and migration theories they are functions over a
  world \<open>'w\<close>, which other writers may change at any call; in the bucket and key theories they answer as functions of the
  trace of all calls made so far, so that a theorem about any environment covers every behaviour of the services, and the
  trace itself, with the outcome of every call, is what the ordering theorems speak of.

  \<^bold>\<open>Parameters\<close> stand for code outside the repository: SHA-256 and HMAC in hexadecimal (\<open>sum256\<close>, \<open>hmac\<close>), JSON
  marshalling, fresh UUIDs, the validators of k8s.io/apimachinery, the recognition of IP addresses, RFC 3339 times, quoting and
  floating-point rendering, the renderer of garage.toml, the bootstrap client, texts of errors, and schema parsing.
  Theorems hold for all of them unless a hypothesis names the documented behaviour used.

  \<^bold>\<open>Conventions.\<close> Strings are byte strings; where Unicode would differ (case, white space) the modelled values are ASCII by
  validation.  Nil and empty slices or maps are identified.  One reading of the clock serves a call.  Messages of conditions and logs
  are left out.  A range over a Go map is a list, in its order; the theorems hold for every order.  sort.Slice is a stable sort.
  Counters of Garage are 64-bit words, and wrap-around is kept.

  \<^bold>\<open>What is shown.\<close> The lemma groups of the theories lead to these properties.
  \<^item> Drain: exactly when a round is ready (evaluation equals a specification), that rounds keep the transaction, that a
    quiet cluster reaches readiness, that the gate is sound for every behaviour of the services, that Apply is preceded by the
    recorded intent, that the stored proof changes only by compare-and-swap, that the proof survives its status form, that
    a completed proof meets the terminal contract and authorizes exactly the resources it names, and what a failed Apply keeps.
  \<^item> Layout: mutual exclusion of layout mutations in every interleaving, exclusion of foreign transactions,
    Apply only of the intended, re-read staging area, and exactly when the barrier opens.
  \<^item> Migration: members are purged and verified before any runs again, phases advance in order, and failures restore the workloads;
    the capacity computation within its bounds.
  \<^item> Buckets and keys: identities are trusted only with evidence, creation happens under a durable identity, permissions
    become exactly the declared union in both controllers, aliases and Secrets are handed over without a gap, lifecycle
    rules mean what the spec says and are reported after a read-back, finalizers stay until the remote object is gone,
    and remote calls are made only for admitted and granted resources.
  Interfaces that several components share are locales with an interpretation for each provider: canonical identifier sets
  (StorageContract), marker stores (LayoutCoordinator, for drains and rollouts), reservation lists (BucketPermissions, for grants and
  for local aliases).

  \<^bold>\<open>Termination.\<close> Loops over data are structural.  Retry loops carry the source's bound (StatusUpdateMaxRetries).  The
  traversal of clusterRef chains has no bound in the source's control flow besides its visited set; it is a
  \<open>partial_function\<close>, and a property shows that it returns.

  \<^bold>\<open>Not modelled\<close>, with the reasons in the manifest: the construction of workloads and of garage.toml in the GarageCluster
  and GarageNode controllers, node-local pools and the storage rollout (their state is mostly Pods, DaemonSets and volumes), the
  preparation handlers of node and cluster deletion that only sequence modelled steps around workload reads, the webhooks
  of clusters, nodes and tokens, conversions between API versions, the COSI driver (its annotations are inputs here), admin
  tokens and static credentials, the HTTP transport, metrics, generated code and process start.
\<close>

lemma ready_round_evidence:
  assumes "dec_Ready (evaluateBlockResyncProgress sum256 (Some p) ob now quiet req)"
    and "dec_Proof (evaluateBlockResyncProgress sum256 (Some p) ob now quiet req) = Some q"
  shows "bp_CompletedAt q = Some (case bp_CompletedAt p of None \<Rightarrow> now | Some c \<Rightarrow> c)"
    and "bp_ManagedPodUIDs q = bp_ManagedPodUIDs p"
proof -
  have "drain_complete sum256 p ob now quiet req" using assms(1) by (simp add: ready_iff_complete)
  then have "round_starts sum256 p ob req" "\<forall>n \<in> set (ob_VerificationNodeIDs ob). repaired p ob n"
    by (auto simp: drain_complete_def round_starts_def snapshot_changes_Nil)
  note r = round_repaired [OF this, of now quiet]
  obtain idle b where e: "evaluateBlockResyncProgress sum256 (Some p) ob now quiet req
      = finish_round p ob now quiet req idle ((with_counters p ob req)\<lparr>bp_ResyncErrorBaselines := b\<rparr>)"
    using assms(1) unfolding r by (auto split: sum.split_asm option.split_asm prod.split_asm if_split_asm)
  show "bp_CompletedAt q = Some (case bp_CompletedAt p of None \<Rightarrow> now | Some c \<Rightarrow> c)"
      "bp_ManagedPodUIDs q = bp_ManagedPodUIDs p"
    using assms unfolding e by (auto simp: finish_round_proof with_counters_def)
qed

text \<open>
  C19: A drain that passes the safety gate lets its node go.  If the gate succeeds for a GarageNode
  whose transaction was recorded well-formed, with full node identifiers and before the round, then
  the status the gate has persisted authorizes that node's finalizer, provided the node still asks for
  the drain, resolves to one of the transaction's live storage targets, and is external or has its Pod
  recorded.
\<close>

theorem safety_gate_enables_finalization:
  assumes gate: "requireClusterStorageDrainSafety sum256 marshal parse_gv kube reader now coord cluster
      (storageDrainActorForNode (Some node)) getter launcher healthGetter configured w = (None, cluster', coord', w')"
    and pf: "clusterStorageDrainProof (cst_StorageDrain (gc_Status cluster)) = Some p" "intent_wf sum256 p"
      "TrimSpace (bp_TransactionID p) \<noteq> []" "list_all validNodeID (bp_RoleRemovalNodeIDs p)"
      "bp_CompletedAt p = None" "bp_StartedAt p \<noteq> 0" "bp_StartedAt p \<le> now" "now \<noteq> 0"
    and node: "\<not> ns_Gateway (gn_Spec node)" "actor_complete (storageContractActor (storageDrainActorForNode (Some node)))"
      "annotation (gn_Annotations node) AnnotationDrain = ''true''"
      "ResolvedGarageNodeID parse_gv (Some node) = Inr i" "i \<noteq> []"
      "set (NormalizeNodeIDs [i]) \<subseteq> set (bp_RemovedStorageNodeIDs p)"
      "\<not> storageDrainUnavailableSourceIncludes (Some p) i"
      "ns_External (gn_Spec node) \<or> TrimSpace (gomap_get [] (bp_ManagedPodUIDs p) i) \<noteq> []"
  shows "completedGarageNodeDrainAuthorizesFinalization sum256 parse_gv (Some node) (Some cluster') = Inr True"
  using gate
proof (rule safety_stages)
  fix previous :: blockResyncProof and observed observation :: blockResyncObservation
    and assessment :: storageDrainPeerAssessment and w1 w2 w3
  let ?a = "storageDrainActorForNode (Some node)"
  let ?d = "evaluateBlockResyncProgress sum256 (Some previous) observation now
    (effectiveBlockResyncQuietPeriod configured (cs_RPCTimeout (gc_Spec cluster))) (pa_RequiresEmptyQueue assessment)"
  assume prev: "clusterStorageDrainProof (cst_StorageDrain (gc_Status cluster)) = Some previous"
    and act: "sameStorageDrainActor (bp_Actor previous) ?a"
    and d: "decide_round sum256 marshal kube now coord cluster ?a launcher ?d w3 = (None, cluster', coord', w')"
  have pp: "previous = p" using prev pf(1) by simp
  from d obtain q where q: "dec_Ready ?d" "dec_Proof ?d = Some q"
      "clusterStorageDrainProof (cst_StorageDrain (gc_Status cluster')) = Some q"
    by (rule decide_round_ok)
  note same = ready_round [OF q(1,2), unfolded pp] and ev = ready_round_evidence [OF q(1,2), unfolded pp]
  have qa: "bp_Actor q = ?a" "da_UID ?a \<noteq> []" using same act pp by (auto simp: same_intent_def sameStorageDrainActor_iff)
  have c: "bp_CompletedAt q = Some now" using ev pf(5) by simp
  have "intent_wf sum256 q" using same pf(2) by (metis same_intent_wf)
  from completed_proof_validates [OF this, of now "[i]" "[i]"]
  have "validateTerminalStorageDrain sum256 (Some q) ?a [i] [i] = None"
    using same pf node(2,6) qa c unfolding same_intent_def intent_wf_def by (simp del: ids.set_norm) blast
  moreover have "storageDrainUnavailableSourceIncludes (Some q) i = storageDrainUnavailableSourceIncludes (Some p) i"
    using same by (simp add: same_intent_def storageDrainUnavailableSourceIncludes_def)
  ultimately show ?thesis
    using q(3) act pp qa c ev(2) node
    by (simp add: completedGarageNodeDrainAuthorizesFinalization_def sameStorageDrainActor_iff annotationTrue_def Let_def)
qed


definition sample_external_node :: GarageNode where
  "sample_external_node = sample_drained_node\<lparr>gn_Spec := (gn_Spec sample_drained_node)\<lparr>ns_External := True\<rparr>\<rparr>"

lemma sample_external_node_facts:
  "storageDrainActorForNode (Some sample_external_node) = sample_drain_actor"
  "ResolvedGarageNodeID (\<lambda>g. None) (Some sample_external_node) = Inr (sample_id CHR ''a'')"
  "annotation (gn_Annotations sample_external_node) AnnotationDrain = ''true''"
  "\<not> ns_Gateway (gn_Spec sample_external_node)" "ns_External (gn_Spec sample_external_node)"
  subgoal using sample_drained_node_facts(1) by (simp add: storageDrainActorForNode_def sample_external_node_def)
  subgoal by code_simp
  using sample_drained_node_facts by (simp_all add: sample_external_node_def annotationTrue_def)

theorem safety_gate_enables_finalization_witness:
  "\<exists>cluster' coord'. requireClusterStorageDrainSafety (\<lambda>s. s) (\<lambda>s. []) (\<lambda>g. None) (Some sample_api)
      (Some (sample_no_nodes sample_cluster)) 140 (Some NewLayoutMutationCoordinator)
      (sample_owner (Some sample_repaired_proof)) (storageDrainActorForNode (Some sample_external_node))
      (\<lambda>w. (Inr sample_round, w)) (\<lambda>n w. (None, w)) (\<lambda>w. (Inr (Some sample_live_health), w)) 100 () = (None, cluster', coord', ())
     \<and> completedGarageNodeDrainAuthorizesFinalization (\<lambda>s. s) (\<lambda>g. None) (Some sample_external_node) (Some cluster') = Inr True"
proof -
  obtain cluster' coord' where run: "requireClusterStorageDrainSafety (\<lambda>s. s) (\<lambda>s. []) (\<lambda>g. None) (Some sample_api)
      (Some (sample_no_nodes sample_cluster)) 140 (Some NewLayoutMutationCoordinator)
      (sample_owner (Some sample_repaired_proof)) (storageDrainActorForNode (Some sample_external_node))
      (\<lambda>w. (Inr sample_round, w)) (\<lambda>n w. (None, w)) (\<lambda>w. (Inr (Some sample_live_health), w)) 100 () = (None, cluster', coord', ())"
    using sample_safety_round by (auto simp: sample_external_node_facts)
  have wf: "intent_wf (\<lambda>s. s) sample_repaired_proof"
    using sample_proof_wf by (rule same_intent_wf [THEN iffD1, rotated]) (simp add: same_intent_def sample_repaired_proof_def)
  have p: "TrimSpace (bp_TransactionID sample_repaired_proof) \<noteq> []" "list_all validNodeID (bp_RoleRemovalNodeIDs sample_repaired_proof)"
      "bp_CompletedAt sample_repaired_proof = None" "bp_StartedAt sample_repaired_proof = 1"
      "bp_RemovedStorageNodeIDs sample_repaired_proof = [sample_id CHR ''a'']"
      "\<not> storageDrainUnavailableSourceIncludes (Some sample_repaired_proof) (sample_id CHR ''a'')"
    by (simp_all add: sample_repaired_proof_def sample_proof_def sample_string_eval intent_proof_def
        storageDrainUnavailableSourceIncludes_def ids_include_def)
  have "actor_complete (storageContractActor sample_drain_actor)"
    by (simp add: actor_complete_def storageContractActor_def sample_drain_actor_def sample_string_eval)
  with safety_gate_enables_finalization [OF run sample_owner_facts(3) wf p(1,2,3)] p sample_external_node_facts run
  show ?thesis by (auto simp del: ids.set_norm)
qed

end
